(* ===== verification/Prelude.thy ===== *)
theory Prelude
  imports Main "HOL-Library.Word"
begin

unbundle bit_operations_syntax

text \<open>
  Shared vocabulary of the development: the fixed-width integer types of the code, generic facts
  about words, option values and list searches, and the theorem collections the components
  fill: \<open>frame\<close> (which part of the state an operation leaves alone) and \<open>effects\<close> (what an
  operation appends to the log of external commands).
\<close>

named_theorems frame "facts stating that an operation leaves a part of the state unchanged"
named_theorems effects "facts describing the commands an operation issues"

type_synonym u8 = "8 word"
type_synonym u16 = "16 word"
type_synonym u32 = "32 word"
type_synonym u64 = "64 word"

section \<open>Words\<close>

lemma unat_lt_u32 [simp]: "unat (x :: u32) < 4294967296"
  using unsigned_less [of x, where 'a = nat] by simp

lemma unat_lt_u64 [simp]: "unat (x :: u64) < 18446744073709551616"
  using unsigned_less [of x, where 'a = nat] by simp

lemma unat_ucast_u32_u64 [simp]: "unat (ucast (x :: u32) :: u64) = unat x"
proof -
  have "unat x < 2 ^ 64"
    by (rule less_trans [OF unat_lt_u32]) simp
  then show ?thesis
    by (simp only: unsigned_ucast_eq len_bit0 len_num1) (simp add: take_bit_nat_eq_self)
qed

lemma unat_of_nat_u32: "n < 4294967296 \<Longrightarrow> unat (of_nat n :: u32) = n"
  by (simp add: unsigned_of_nat take_bit_nat_eq_self)

lemma unat_of_nat_u64: "n < 18446744073709551616 \<Longrightarrow> unat (of_nat n :: u64) = n"
  by (simp add: unsigned_of_nat take_bit_nat_eq_self)

lemma ucast_ucast_u32_u64 [simp]: "ucast (ucast (x :: u32) :: u64) = x"
  by (rule ucast_up_ucast_id) (simp add: is_up.rep_eq)

text \<open>The mean of two 32-bit values taken at 64 bits does not wrap.\<close>

lemma unat_mean_u64:
  "unat ((ucast (a :: u32) + ucast (b :: u32) :: u64) div 2) = (unat a + unat b) div 2"
proof -
  have "unat (ucast a + ucast b :: u64) = unat a + unat b"
    by (subst unat_add_lem [THEN iffD1])
      (simp_all, rule less_trans [OF add_strict_mono [OF unat_lt_u32 unat_lt_u32]], simp)
  then show ?thesis
    by (simp add: unat_div)
qed

section \<open>Lists\<close>

text \<open>The first index at which a predicate holds, as a C \<open>for\<close> loop with a \<open>break\<close> finds it.\<close>

fun first_index :: "('a \<Rightarrow> bool) \<Rightarrow> 'a list \<Rightarrow> nat option" where
  "first_index P [] = None"
| "first_index P (x # xs) = (if P x then Some 0 else map_option Suc (first_index P xs))"

lemma first_index_None: "first_index P xs = None \<longleftrightarrow> (\<forall>x\<in>set xs. \<not> P x)"
  by (induction xs) auto

lemma first_index_Some:
  "first_index P xs = Some i \<Longrightarrow> i < length xs \<and> P (xs ! i) \<and> (\<forall>j<i. \<not> P (xs ! j))"
proof (induction xs arbitrary: i)
  case (Cons x xs)
  show ?case
  proof (cases "P x")
    case True
    with Cons.prems show ?thesis by auto
  next
    case False
    with Cons.prems obtain k where "first_index P xs = Some k" "i = Suc k" by auto
    with Cons.IH [of k] False show ?thesis
      by (auto simp: less_Suc_eq_0_disj)
  qed
qed simp

text \<open>Remove a prefix: what remains of a string after \<open>strncmp\<close> has matched its start.\<close>

fun strip_prefix :: "'a list \<Rightarrow> 'a list \<Rightarrow> 'a list option" where
  "strip_prefix [] ys = Some ys"
| "strip_prefix (x # xs) [] = None"
| "strip_prefix (x # xs) (y # ys) = (if x = y then strip_prefix xs ys else None)"

lemma strip_prefix_append [simp]: "strip_prefix xs (xs @ ys) = Some ys"
  by (induction xs) auto

lemma strip_prefix_Some: "strip_prefix xs ys = Some zs \<longleftrightarrow> ys = xs @ zs"
  by (induction xs ys rule: strip_prefix.induct) auto

text \<open>Folding a step that keeps an invariant over any list keeps the invariant.\<close>

lemma fold_invariant_simple:
  assumes "P s" and "\<And>x s. x \<in> set xs \<Longrightarrow> P s \<Longrightarrow> P (f x s)"
  shows "P (fold f xs s)"
  using assms by (induction xs arbitrary: s) auto

text \<open>A fold leaves alone whatever each of its steps leaves alone.\<close>

lemma fold_frame:
  assumes "\<And>x s. x \<in> set xs \<Longrightarrow> g (f x s) = g s"
  shows "g (fold f xs s) = g s"
  using assms by (induction xs arbitrary: s) auto

lemma find_Some_in: "find P xs = Some x \<Longrightarrow> x \<in> set xs \<and> P x"
  by (induction xs) (auto split: if_splits)

lemma find_append:
  "find P (xs @ ys) = (case find P xs of Some x \<Rightarrow> Some x | None \<Rightarrow> find P ys)"
  by (induction xs) auto

end
