(* ===== verification/C_Strings.thy ===== *)
theory C_Strings
  imports Prelude
begin

text \<open>
  The part of the C and C++ string library the configuration code relies on, over strings
  without the terminating zero: \<open>strtoul\<close> with base 0, 10 or 16, \<open>std::to_string\<close> on an
  unsigned value and the \<open>%016lX\<close> conversion of \<open>snprintf\<close>. The round trips at the end are
  what makes a stored configuration readable again.
\<close>

section \<open>Digits\<close>

definition is_space :: "char \<Rightarrow> bool" where
  "is_space c \<longleftrightarrow> (let n = of_char c :: nat in n = 32 \<or> (9 \<le> n \<and> n \<le> 13))"

definition digit_val :: "char \<Rightarrow> nat option" where
  "digit_val c = (let n = of_char c :: nat in
     if 48 \<le> n \<and> n \<le> 57 then Some (n - 48)
     else if 65 \<le> n \<and> n \<le> 90 then Some (n - 55)
     else if 97 \<le> n \<and> n \<le> 122 then Some (n - 87)
     else None)"

definition digit_char :: "nat \<Rightarrow> char" where
  "digit_char d = char_of (if d < 10 then 48 + d else 55 + d)"

lemma digit_val_char: "d < 36 \<Longrightarrow> digit_val (digit_char d) = Some d"
  by (simp add: digit_val_def digit_char_def Let_def take_bit_nat_def del: take_bit_of_nat)

lemma digit_char_not_space: "d < 36 \<Longrightarrow> \<not> is_space (digit_char d)"
  by (simp add: is_space_def digit_char_def Let_def take_bit_nat_def)

lemma of_char_digit: "d < 36 \<Longrightarrow> of_char (digit_char d) = (if d < 10 then 48 + d else 55 + d)"
  by (simp add: digit_char_def take_bit_nat_def)

section \<open>strtoul\<close>

fun scan_digits :: "nat \<Rightarrow> nat \<Rightarrow> string \<Rightarrow> nat" where
  "scan_digits b acc [] = acc"
| "scan_digits b acc (c # cs) =
     (case digit_val c of
        None \<Rightarrow> acc
      | Some d \<Rightarrow> if d < b then scan_digits b (acc * b + d) cs else acc)"

definition has_hex_prefix :: "string \<Rightarrow> bool" where
  "has_hex_prefix s =
     (case s of
        c0 # x # h # _ \<Rightarrow> c0 = CHR ''0'' \<and> (x = CHR ''x'' \<or> x = CHR ''X'') \<and>
          (case digit_val h of None \<Rightarrow> False | Some d \<Rightarrow> d < 16)
      | _ \<Rightarrow> False)"

definition scan_base :: "nat \<Rightarrow> string \<Rightarrow> nat \<times> string" where
  "scan_base b s =
     (if (b = 0 \<or> b = 16) \<and> has_hex_prefix s then (16, drop 2 s)
      else if b = 0 then (if s \<noteq> [] \<and> hd s = CHR ''0'' then 8 else 10, s)
      else (b, s))"

definition scan_sign :: "string \<Rightarrow> bool \<times> string" where
  "scan_sign s =
     (case s of
        c # cs \<Rightarrow> if c = CHR ''-'' then (True, cs) else if c = CHR ''+'' then (False, cs) else (False, s)
      | [] \<Rightarrow> (False, s))"

text \<open>An overflowing conversion returns \<open>ULONG_MAX\<close>; a minus sign negates modulo the width.\<close>

definition strtoul :: "string \<Rightarrow> nat \<Rightarrow> u64" where
  "strtoul s base =
     (let (neg, s1) = scan_sign (dropWhile is_space s);
          (b, s2) = scan_base base s1;
          v = scan_digits b 0 s2
      in if v \<ge> 2 ^ 64 then - 1 else if neg then - of_nat v else of_nat v)"

section \<open>Printing\<close>

fun digits_rev :: "nat \<Rightarrow> nat list" where
  "digits_rev n = (if n < 10 then [n] else n mod 10 # digits_rev (n div 10))"

declare digits_rev.simps [simp del]

definition to_string :: "nat \<Rightarrow> string" where
  "to_string n = map digit_char (rev (digits_rev n))"

fun hex_rev :: "nat \<Rightarrow> nat \<Rightarrow> nat list" where
  "hex_rev 0 n = []"
| "hex_rev (Suc k) n = n mod 16 # hex_rev k (n div 16)"

text \<open>\<open>snprintf(section, 17, "%016lX", tid)\<close>: sixteen upper-case hexadecimal digits.\<close>

definition format_016lX :: "u64 \<Rightarrow> string" where
  "format_016lX tid = map digit_char (rev (hex_rev 16 (unat tid)))"

section \<open>Round trips\<close>

definition num_of :: "nat \<Rightarrow> nat list \<Rightarrow> nat" where
  "num_of b ds = foldl (\<lambda>a d. a * b + d) 0 ds"

lemma scan_digits_map:
  assumes "\<forall>d\<in>set ds. d < b" and "b \<le> 36"
  shows "scan_digits b acc (map digit_char ds) = foldl (\<lambda>a d. a * b + d) acc ds"
  using assms by (induction ds arbitrary: acc) (auto simp: digit_val_char)

lemma digits_rev_bound: "\<forall>d\<in>set (digits_rev n). d < 10"
  by (induction n rule: digits_rev.induct) (subst digits_rev.simps, auto)

lemma digits_rev_value: "num_of 10 (rev (digits_rev n)) = n"
proof (induction n rule: digits_rev.induct)
  case (1 n)
  then show ?case by (subst digits_rev.simps) (auto simp: num_of_def)
qed

lemma digits_rev_nonempty [simp]: "digits_rev n \<noteq> []"
  by (subst digits_rev.simps) simp

lemma digits_rev_last: "n \<noteq> 0 \<Longrightarrow> last (digits_rev n) \<noteq> 0"
proof (induction n rule: digits_rev.induct)
  case (1 n)
  show ?case
  proof (cases "n < 10")
    case True
    with 1 show ?thesis by (subst digits_rev.simps) simp
  next
    case False
    with 1 have "last (digits_rev (n div 10)) \<noteq> 0" by auto
    with False show ?thesis by (subst digits_rev.simps) simp
  qed
qed

lemma hex_rev_bound: "\<forall>d\<in>set (hex_rev k n). d < 16"
  by (induction k n rule: hex_rev.induct) auto

lemma length_hex_rev [simp]: "length (hex_rev k n) = k"
  by (induction k n rule: hex_rev.induct) auto

lemma hex_rev_value: "n < 16 ^ k \<Longrightarrow> num_of 16 (rev (hex_rev k n)) = n"
proof (induction k arbitrary: n)
  case (Suc k)
  then have "n div 16 < 16 ^ k" by (simp add: less_mult_imp_div_less mult.commute)
  with Suc.IH show ?case by (auto simp: num_of_def)
qed (simp add: num_of_def)

lemma scan_sign_digit:
  "d < 36 \<Longrightarrow> scan_sign (digit_char d # s) = (False, digit_char d # s)"
  using of_char_digit [of d] by (auto simp: scan_sign_def split: if_splits)

lemma dropWhile_digits:
  "\<forall>d\<in>set ds. d < 36 \<Longrightarrow> dropWhile is_space (map digit_char ds) = map digit_char ds"
  by (cases ds) (auto simp: digit_char_not_space)

text \<open>No second character of a printed number is an \<open>x\<close>.\<close>

lemma no_hex_prefix:
  assumes "\<forall>d\<in>set ds. d < 16"
  shows "\<not> has_hex_prefix (map digit_char ds)"
proof (cases ds)
  case (Cons a es)
  show ?thesis
  proof (cases es)
    case (Cons e fs)
    with \<open>ds = a # es\<close> assms have "e < 16" by auto
    then have "of_char (digit_char e) < (88 :: nat)" by (simp add: of_char_digit)
    then have "digit_char e \<noteq> CHR ''x'' \<and> digit_char e \<noteq> CHR ''X''" by auto
    with Cons \<open>ds = a # es\<close> show ?thesis
      by (auto simp: has_hex_prefix_def split: list.splits)
  qed (use Cons in \<open>auto simp: has_hex_prefix_def\<close>)
qed (simp add: has_hex_prefix_def)

lemma strtoul_digits:
  assumes "\<forall>d\<in>set ds. d < b" and "b = 10 \<or> b = 16" and "ds \<noteq> []"
    and "num_of b ds < 2 ^ 64"
  shows "strtoul (map digit_char ds) b = of_nat (num_of b ds)"
proof -
  obtain a es where ds: "ds = a # es" using assms(3) by (cases ds) auto
  have lt: "\<forall>d\<in>set ds. d < 16" "\<forall>d\<in>set ds. d < 36" using assms(1,2) by fastforce+
  have sign: "scan_sign (map digit_char ds) = (False, map digit_char ds)"
    using lt(2) ds by (simp add: scan_sign_digit)
  have base: "scan_base b (map digit_char ds) = (b, map digit_char ds)"
    using no_hex_prefix [OF lt(1)] assms(2) by (auto simp: scan_base_def)
  have "scan_digits b 0 (map digit_char ds) = num_of b ds"
    using assms(1,2) by (auto simp: scan_digits_map num_of_def)
  with assms(4) show ?thesis
    by (simp add: strtoul_def dropWhile_digits [OF lt(2)] sign base)
qed

lemma strtoul_base0_digits:
  assumes "\<forall>d\<in>set ds. d < 10" and "ds \<noteq> []" and "hd ds \<noteq> 0"
    and "num_of 10 ds < 2 ^ 64"
  shows "strtoul (map digit_char ds) 0 = of_nat (num_of 10 ds)"
proof -
  obtain a es where ds: "ds = a # es" using assms(2) by (cases ds) auto
  have lt: "\<forall>d\<in>set ds. d < 16" "\<forall>d\<in>set ds. d < 36" using assms(1) by fastforce+
  have a: "0 < a" "a < 10" using assms(1,3) ds by auto
  then have "of_char (digit_char a) \<noteq> (48 :: nat)" by (simp add: of_char_digit)
  then have z: "digit_char a \<noteq> CHR ''0''" by auto
  have sign: "scan_sign (map digit_char ds) = (False, map digit_char ds)"
    using lt(2) ds by (simp add: scan_sign_digit)
  have base: "scan_base 0 (map digit_char ds) = (10, map digit_char ds)"
    using no_hex_prefix [OF lt(1)] z ds by (auto simp: scan_base_def)
  have "scan_digits 10 0 (map digit_char ds) = num_of 10 ds"
    using assms(1) by (auto simp: scan_digits_map num_of_def)
  with assms(4) show ?thesis
    by (simp add: strtoul_def dropWhile_digits [OF lt(2)] sign base)
qed

lemma strtoul_to_string_10:
  "n < 2 ^ 64 \<Longrightarrow> strtoul (to_string n) 10 = of_nat n"
  unfolding to_string_def
  by (subst strtoul_digits) (use digits_rev_bound [of n] in \<open>auto simp: digits_rev_value\<close>)

lemma strtoul_to_string_0:
  assumes "n < 2 ^ 64"
  shows "strtoul (to_string n) 0 = of_nat n"
proof (cases "n = 0")
  case True
  have "to_string 0 = ''0''"
    by code_simp
  moreover have "strtoul ''0'' 0 = 0"
    by (simp add: strtoul_def scan_sign_def scan_base_def has_hex_prefix_def is_space_def
        digit_val_def)
  ultimately show ?thesis using True by simp
next
  case False
  then show ?thesis
    unfolding to_string_def using assms digits_rev_bound [of n] digits_rev_last [OF False]
    by (subst strtoul_base0_digits) (auto simp: digits_rev_value hd_rev)
qed

lemma strtoul_format_016lX: "strtoul (format_016lX tid) 16 = tid"
proof -
  have "unat tid < 16 ^ 16"
    by (rule less_le_trans [OF unat_lt_u64]) simp
  moreover have "unat tid < 2 ^ 64"
    by (rule less_le_trans [OF unat_lt_u64]) simp
  moreover have "rev (hex_rev 16 (unat tid)) \<noteq> []"
    using length_hex_rev [of 16 "unat tid"] by (metis length_0_conv length_rev numeral_eq_iff
        verit_eq_simplify(8) zero_neq_numeral)
  ultimately show ?thesis
    unfolding format_016lX_def
    by (subst strtoul_digits) (use hex_rev_bound [of 16 "unat tid"] in \<open>auto simp: hex_rev_value\<close>)
qed

lemma length_format_016lX [simp]: "length (format_016lX tid) = 16"
  by (simp add: format_016lX_def)

lemma digit_chars_alnum:
  assumes "d < 16"
  shows "digit_val (digit_char d) \<noteq> None"
  using assms by (simp add: digit_val_char)

end
