(* ===== verification/Hoc_Types.thy ===== *)
theory Hoc_Types
  imports Prelude
begin

text \<open>
  The shared data of the program, \<open>common/include/hocclk/board.h\<close>: the hardware enumerations
  with their names in the order of the source, the code names used as keys of the
  configuration file, the packed per-component governor state and the raw-to-enum
  conversions the IPC layer guards with \<open>HOCCLK_ENUM_VALID\<close>.
\<close>

section \<open>Hardware enumerations\<close>

datatype HocClkSocType = HocClkSocType_Erista | HocClkSocType_Mariko

datatype HocClkConsoleType =
    HocClkConsoleType_Icosa
  | HocClkConsoleType_Iowa
  | HocClkConsoleType_Hoag
  | HocClkConsoleType_Aula

datatype HocClkVoltage =
    HocClkVoltage_SOC
  | HocClkVoltage_EMCVDD2
  | HocClkVoltage_CPU
  | HocClkVoltage_GPU
  | HocClkVoltage_EMCVDDQ
  | HocClkVoltage_Display
  | HocClkVoltage_Battery

datatype HocClkProfile =
    HocClkProfile_Handheld
  | HocClkProfile_HandheldCharging
  | HocClkProfile_HandheldChargingUSB
  | HocClkProfile_HandheldChargingOfficial
  | HocClkProfile_Docked

datatype HocClkModule =
    HocClkModule_CPU
  | HocClkModule_GPU
  | HocClkModule_MEM
  | HocClkModule_Governor
  | HocClkModule_Display

datatype HocClkThermalSensor =
    HocClkThermalSensor_SOC
  | HocClkThermalSensor_PCB
  | HocClkThermalSensor_Skin
  | HocClkThermalSensor_Battery
  | HocClkThermalSensor_PMIC
  | HocClkThermalSensor_CPU
  | HocClkThermalSensor_GPU
  | HocClkThermalSensor_MEM
  | HocClkThermalSensor_PLLX
  | HocClkThermalSensor_AO
  | HocClkThermalSensor_BQ24193

datatype HocClkPowerSensor = HocClkPowerSensor_Now | HocClkPowerSensor_Avg

datatype HocClkPartLoad =
    HocClkPartLoad_EMC
  | HocClkPartLoad_EMCCpu
  | HocClkPartLoad_GPU
  | HocClkPartLoad_CPUMax
  | HocClkPartLoad_BAT
  | HocClkPartLoad_FAN
  | HocClkPartLoad_RamBWAll
  | HocClkPartLoad_RamBWCpu
  | HocClkPartLoad_RamBWGpu
  | HocClkPartLoad_RamBWPeak

datatype GpuSchedulingMode =
    GpuSchedulingMode_DoNotOverride
  | GpuSchedulingMode_Enabled
  | GpuSchedulingMode_Disabled

datatype GpuSchedulingOverrideMethod =
    GpuSchedulingOverrideMethod_Ini
  | GpuSchedulingOverrideMethod_NvService

text \<open>Enumerators that the code stores in integers of a fixed width.\<close>

definition DVFSMode_Hijack :: u64 where "DVFSMode_Hijack = 1"

definition ComponentGovernor_DoNotOverride :: u8 where "ComponentGovernor_DoNotOverride = 0"
definition ComponentGovernor_Disabled :: u8 where "ComponentGovernor_Disabled = 1"
definition ComponentGovernor_Enabled :: u8 where "ComponentGovernor_Enabled = 2"

lemmas ComponentGovernor_defs =
  ComponentGovernor_DoNotOverride_def ComponentGovernor_Disabled_def ComponentGovernor_Enabled_def

section \<open>Enumeration order\<close>

text \<open>The C loops \<open>for (i = 0; i < X_EnumMax; i++)\<close> run over these lists.\<close>

definition all_modules :: "HocClkModule list" where
  "all_modules = [HocClkModule_CPU, HocClkModule_GPU, HocClkModule_MEM, HocClkModule_Governor,
     HocClkModule_Display]"

definition all_profiles :: "HocClkProfile list" where
  "all_profiles = [HocClkProfile_Handheld, HocClkProfile_HandheldCharging,
     HocClkProfile_HandheldChargingUSB, HocClkProfile_HandheldChargingOfficial,
     HocClkProfile_Docked]"

fun profile_index :: "HocClkProfile \<Rightarrow> nat" where
  "profile_index HocClkProfile_Handheld = 0"
| "profile_index HocClkProfile_HandheldCharging = 1"
| "profile_index HocClkProfile_HandheldChargingUSB = 2"
| "profile_index HocClkProfile_HandheldChargingOfficial = 3"
| "profile_index HocClkProfile_Docked = 4"

fun module_index :: "HocClkModule \<Rightarrow> nat" where
  "module_index HocClkModule_CPU = 0"
| "module_index HocClkModule_GPU = 1"
| "module_index HocClkModule_MEM = 2"
| "module_index HocClkModule_Governor = 3"
| "module_index HocClkModule_Display = 4"

text \<open>Enumerators compare by their index, as the C integers do.\<close>

instantiation HocClkProfile :: linorder
begin

definition less_eq_HocClkProfile :: "HocClkProfile \<Rightarrow> HocClkProfile \<Rightarrow> bool" where
  "less_eq_HocClkProfile p q \<longleftrightarrow> profile_index p \<le> profile_index q"

definition less_HocClkProfile :: "HocClkProfile \<Rightarrow> HocClkProfile \<Rightarrow> bool" where
  "less_HocClkProfile p q \<longleftrightarrow> profile_index p < profile_index q"

instance
proof
  fix p q :: HocClkProfile
  assume "p \<le> q" "q \<le> p"
  then show "p = q"
    by (cases p; cases q) (simp_all add: less_eq_HocClkProfile_def)
qed (auto simp: less_eq_HocClkProfile_def less_HocClkProfile_def)

end

instantiation HocClkModule :: linorder
begin

definition less_eq_HocClkModule :: "HocClkModule \<Rightarrow> HocClkModule \<Rightarrow> bool" where
  "less_eq_HocClkModule m n \<longleftrightarrow> module_index m \<le> module_index n"

definition less_HocClkModule :: "HocClkModule \<Rightarrow> HocClkModule \<Rightarrow> bool" where
  "less_HocClkModule m n \<longleftrightarrow> module_index m < module_index n"

instance
proof
  fix m n :: HocClkModule
  assume "m \<le> n" "n \<le> m"
  then show "m = n"
    by (cases m; cases n) (simp_all add: less_eq_HocClkModule_def)
qed (auto simp: less_eq_HocClkModule_def less_HocClkModule_def)

end

lemmas enum_order_defs =
  less_eq_HocClkProfile_def less_HocClkProfile_def less_eq_HocClkModule_def less_HocClkModule_def

lemma set_all_modules [simp]: "set all_modules = UNIV"
  by (auto simp: all_modules_def) (metis HocClkModule.exhaust)

lemma set_all_profiles [simp]: "set all_profiles = UNIV"
  by (auto simp: all_profiles_def) (metis HocClkProfile.exhaust)

lemma distinct_all_modules [simp]: "distinct all_modules"
  by (simp add: all_modules_def)

lemma distinct_all_profiles [simp]: "distinct all_profiles"
  by (simp add: all_profiles_def)

text \<open>
  A raw integer that names a module: \<open>HOCCLK_ENUM_VALID(HocClkModule, v)\<close> holds exactly when it
  has one.
\<close>

definition module_of_u32 :: "u32 \<Rightarrow> HocClkModule option" where
  "module_of_u32 v = (if unat v < length all_modules then Some (all_modules ! unat v) else None)"

lemma module_of_u32_valid: "module_of_u32 v \<noteq> None \<longleftrightarrow> v < 5"
  by (simp add: module_of_u32_def all_modules_def word_less_nat_alt)

lemma module_of_u32_index: "module_of_u32 (of_nat (module_index m)) = Some m"
  by (cases m) (simp_all add: module_of_u32_def all_modules_def)

section \<open>Code names\<close>

fun hocclkFormatModule :: "HocClkModule \<Rightarrow> bool \<Rightarrow> string" where
  "hocclkFormatModule HocClkModule_CPU pretty = (if pretty then ''CPU'' else ''cpu'')"
| "hocclkFormatModule HocClkModule_GPU pretty = (if pretty then ''GPU'' else ''gpu'')"
| "hocclkFormatModule HocClkModule_MEM pretty = (if pretty then ''Memory'' else ''mem'')"
| "hocclkFormatModule HocClkModule_Display pretty = (if pretty then ''Display'' else ''display'')"
| "hocclkFormatModule HocClkModule_Governor pretty = (if pretty then ''Governor'' else ''governor'')"

fun hocclkFormatProfile :: "HocClkProfile \<Rightarrow> bool \<Rightarrow> string" where
  "hocclkFormatProfile HocClkProfile_Docked pretty = (if pretty then ''Docked'' else ''docked'')"
| "hocclkFormatProfile HocClkProfile_Handheld pretty =
     (if pretty then ''Handheld'' else ''handheld'')"
| "hocclkFormatProfile HocClkProfile_HandheldCharging pretty =
     (if pretty then ''Charging'' else ''handheld_charging'')"
| "hocclkFormatProfile HocClkProfile_HandheldChargingUSB pretty =
     (if pretty then ''USB Charger'' else ''handheld_charging_usb'')"
| "hocclkFormatProfile HocClkProfile_HandheldChargingOfficial pretty =
     (if pretty then ''PD Charger'' else ''handheld_charging_official'')"

fun hocclkFormatThermalSensor :: "HocClkThermalSensor \<Rightarrow> bool \<Rightarrow> string" where
  "hocclkFormatThermalSensor HocClkThermalSensor_SOC pretty = (if pretty then ''SOC'' else ''soc'')"
| "hocclkFormatThermalSensor HocClkThermalSensor_PCB pretty = (if pretty then ''PCB'' else ''pcb'')"
| "hocclkFormatThermalSensor HocClkThermalSensor_Skin pretty = (if pretty then ''Skin'' else ''skin'')"
| "hocclkFormatThermalSensor HocClkThermalSensor_Battery pretty =
     (if pretty then ''BAT'' else ''battery'')"
| "hocclkFormatThermalSensor HocClkThermalSensor_PMIC pretty = (if pretty then ''PMIC'' else ''pmic'')"
| "hocclkFormatThermalSensor HocClkThermalSensor_CPU pretty = (if pretty then ''CPU'' else ''cpu'')"
| "hocclkFormatThermalSensor HocClkThermalSensor_GPU pretty = (if pretty then ''GPU'' else ''gpu'')"
| "hocclkFormatThermalSensor HocClkThermalSensor_MEM pretty = (if pretty then ''MEM'' else ''mem'')"
| "hocclkFormatThermalSensor HocClkThermalSensor_PLLX pretty = (if pretty then ''PLLX'' else ''pllx'')"
| "hocclkFormatThermalSensor HocClkThermalSensor_AO pretty = (if pretty then ''AO'' else ''ao'')"
| "hocclkFormatThermalSensor HocClkThermalSensor_BQ24193 pretty =
     (if pretty then ''BQ24193'' else ''bq24193'')"

fun hocclkFormatPowerSensor :: "HocClkPowerSensor \<Rightarrow> bool \<Rightarrow> string" where
  "hocclkFormatPowerSensor HocClkPowerSensor_Now pretty = (if pretty then ''Now'' else ''now'')"
| "hocclkFormatPowerSensor HocClkPowerSensor_Avg pretty = (if pretty then ''Avg'' else ''avg'')"

text \<open>The battery voltage has no case of its own and takes the default.\<close>

fun hocClkFormatVoltage :: "HocClkVoltage \<Rightarrow> bool \<Rightarrow> string" where
  "hocClkFormatVoltage HocClkVoltage_CPU pretty = (if pretty then ''CPU'' else ''cpu'')"
| "hocClkFormatVoltage HocClkVoltage_GPU pretty = (if pretty then ''GPU'' else ''gpu'')"
| "hocClkFormatVoltage HocClkVoltage_EMCVDD2 pretty = (if pretty then ''VDD2'' else ''vdd2'')"
| "hocClkFormatVoltage HocClkVoltage_EMCVDDQ pretty = (if pretty then ''VDDQ'' else ''vddq'')"
| "hocClkFormatVoltage HocClkVoltage_SOC pretty = (if pretty then ''SOC'' else ''soc'')"
| "hocClkFormatVoltage HocClkVoltage_Display pretty = (if pretty then ''Display'' else ''display'')"
| "hocClkFormatVoltage _ pretty = ''unknown''"

fun hocClkFormatConsoleType :: "HocClkConsoleType \<Rightarrow> bool \<Rightarrow> string" where
  "hocClkFormatConsoleType HocClkConsoleType_Icosa pretty =
     (if pretty then ''Icosa (V1)'' else ''icosa'')"
| "hocClkFormatConsoleType HocClkConsoleType_Iowa pretty =
     (if pretty then ''Iowa (V2)'' else ''iowa'')"
| "hocClkFormatConsoleType HocClkConsoleType_Hoag pretty =
     (if pretty then ''Hoag (Lite)'' else ''hoag'')"
| "hocClkFormatConsoleType HocClkConsoleType_Aula pretty =
     (if pretty then ''Aula (OLED)'' else ''aula'')"

lemma module_names_inject: "hocclkFormatModule m False = hocclkFormatModule n False \<longleftrightarrow> m = n"
  by (cases m; cases n) simp_all

lemma profile_names_inject: "hocclkFormatProfile p False = hocclkFormatProfile q False \<longleftrightarrow> p = q"
  by (cases p; cases q) simp_all

lemma module_name_no_underscore: "CHR ''_'' \<notin> set (hocclkFormatModule m False)"
  by (cases m) simp_all

section \<open>The packed governor state\<close>

definition GovernorStatePack :: "u8 \<Rightarrow> u8 \<Rightarrow> u8 \<Rightarrow> u32" where
  "GovernorStatePack cpu gpu vrr =
     (ucast cpu :: u32) OR push_bit 8 (ucast gpu) OR push_bit 16 (ucast vrr)"

definition GovernorStateCpu :: "u32 \<Rightarrow> u8" where
  "GovernorStateCpu p = ucast (p AND 0xFF)"

definition GovernorStateGpu :: "u32 \<Rightarrow> u8" where
  "GovernorStateGpu p = ucast (drop_bit 8 p AND 0xFF)"

definition GovernorStateVrr :: "u32 \<Rightarrow> u8" where
  "GovernorStateVrr p = ucast (drop_bit 16 p AND 0xFF)"

lemma mask8: "(255 :: u32) = mask 8"
  by (simp add: mask_eq_exp_minus_1)

lemmas governor_bits = bit_ucast_iff bit_and_iff bit_or_iff bit_push_bit_iff bit_drop_bit_eq
  bit_mask_iff

lemma governor_pack_cpu [simp]: "GovernorStateCpu (GovernorStatePack c g v) = c"
  unfolding GovernorStateCpu_def GovernorStatePack_def mask8
  by (rule bit_word_eqI) (auto simp: governor_bits)

lemma governor_pack_gpu [simp]: "GovernorStateGpu (GovernorStatePack c g v) = g"
  unfolding GovernorStateGpu_def GovernorStatePack_def mask8
  by (rule bit_word_eqI) (auto simp: governor_bits dest: bit_imp_le_length)

lemma governor_pack_vrr [simp]: "GovernorStateVrr (GovernorStatePack c g v) = v"
  unfolding GovernorStateVrr_def GovernorStatePack_def mask8
  by (rule bit_word_eqI) (auto simp: governor_bits dest: bit_imp_le_length)

end
