(* ===== verification/Config_Values.thy ===== *)
theory Config_Values
  imports Hoc_Types
begin

text \<open>
  The configuration values, \<open>common/include/hocclk/config.h\<close>: the enumeration (the enumerators
  of the source, grouped into the general values, the loader-image values and the two families
  of GPU voltages, with the source's order kept by \<open>all_config_values\<close>), the names used as keys
  of the configuration file, the defaults and the validity checks. The facts at the end are what
  the configuration store needs: keys identify values, and every default is valid.
\<close>

section \<open>The enumeration\<close>

datatype hoc_value =
    HocClkConfigValue_PollingIntervalMs
  | HocClkConfigValue_TempLogIntervalMs
  | HocClkConfigValue_FreqLogIntervalMs
  | HocClkConfigValue_PowerLogIntervalMs
  | HocClkConfigValue_CsvWriteIntervalMs
  | HocClkConfigValue_UncappedClocks
  | HocClkConfigValue_OverwriteBoostMode
  | HocClkConfigValue_EristaMaxCpuClock
  | HocClkConfigValue_MarikoMaxCpuClock
  | HocClkConfigValue_ThermalThrottle
  | HocClkConfigValue_ThermalThrottleThreshold
  | HocClkConfigValue_HandheldTDP
  | HocClkConfigValue_HandheldTDPLimit
  | HocClkConfigValue_LiteTDPLimit
  | HocClkConfigValue_BatteryChargeCurrent
  | HocClkConfigValue_OverwriteRefreshRate
  | HocClkConfigValue_MaxDisplayClockH
  | HocClkConfigValue_DVFSMode
  | HocClkConfigValue_DVFSOffset
  | HocClkConfigValue_LiveCpuUv
  | HocClkConfigValue_EnableExperimentalSettings
  | HocClkConfigValue_GPUScheduling
  | HocClkConfigValue_GPUSchedulingMethod
  | HocClkConfigValue_RAMVoltDisplayMode
  | HocClkConfigValue_CpuGovernorMinimumFreq
  | HocClkConfigValue_DisplayVoltage
  | HocClkConfigValue_MemoryFrequencyMeasurementMode
  | HocClkConfigValue_RamDisplayUnit
  | HocClkConfigValue_IsFirstLoad
  | HocClkConfigValue_AulaDisplayColorPreset
  | HocClkConfigValue_MarikoMiddleFreqs

datatype kip_value =
    KipConfigValue_custRev
  | KipConfigValue_KipVersion
  | KipConfigValue_hpMode
  | KipConfigValue_commonEmcMemVolt
  | KipConfigValue_eristaEmcMaxClock
  | KipConfigValue_stepMode
  | KipConfigValue_marikoEmcMaxClock
  | KipConfigValue_marikoEmcVddqVolt
  | KipConfigValue_emcDvbShift
  | KipConfigValue_marikoSocVmax
  | KipConfigValue_t1_tRCD
  | KipConfigValue_t2_tRP
  | KipConfigValue_t3_tRAS
  | KipConfigValue_t4_tRRD
  | KipConfigValue_t5_tRFC
  | KipConfigValue_t6_tRTW
  | KipConfigValue_t7_tWTR
  | KipConfigValue_t8_tREFI
  | KipConfigValue_timingEmcTbreak
  | KipConfigValue_low_t6_tRTW
  | KipConfigValue_low_t7_tWTR
  | KipConfigValue_t2_tRP_cap
  | KipConfigValue_read_latency_1333
  | KipConfigValue_read_latency_1600
  | KipConfigValue_read_latency_1866
  | KipConfigValue_read_latency_2133
  | KipConfigValue_write_latency_1333
  | KipConfigValue_write_latency_1600
  | KipConfigValue_write_latency_1866
  | KipConfigValue_write_latency_2133
  | KipConfigValue_eristaCpuUV
  | KipConfigValue_eristaCpuVmin
  | KipConfigValue_eristaCpuMaxVolt
  | KipConfigValue_eristaCpuUnlock
  | KipConfigValue_marikoCpuUVLow
  | KipConfigValue_marikoCpuUVHigh
  | KipConfigValue_tableConf
  | KipConfigValue_marikoCpuLowVmin
  | KipConfigValue_marikoCpuHighVmin
  | KipConfigValue_marikoCpuMaxVolt
  | KipConfigValue_marikoCpuMaxClock
  | KipConfigValue_eristaCpuBoostClock
  | KipConfigValue_marikoCpuBoostClock
  | KipConfigValue_eristaGpuUV
  | KipConfigValue_eristaGpuVmin
  | KipConfigValue_marikoGpuUV
  | KipConfigValue_marikoGpuVmin
  | KipConfigValue_marikoGpuBootVolt
  | KipConfigValue_marikoGpuVmax
  | KipConfigValue_commonGpuVoltOffset
  | KipConfigValue_t6_tRTW_fine_tune
  | KipConfigValue_t7_tWTR_fine_tune
  | KipCrc32

datatype mariko_gpu_volt =
    KipConfigValue_g_volt_76800
  | KipConfigValue_g_volt_153600
  | KipConfigValue_g_volt_230400
  | KipConfigValue_g_volt_307200
  | KipConfigValue_g_volt_384000
  | KipConfigValue_g_volt_460800
  | KipConfigValue_g_volt_537600
  | KipConfigValue_g_volt_614400
  | KipConfigValue_g_volt_691200
  | KipConfigValue_g_volt_768000
  | KipConfigValue_g_volt_844800
  | KipConfigValue_g_volt_921600
  | KipConfigValue_g_volt_998400
  | KipConfigValue_g_volt_1075200
  | KipConfigValue_g_volt_1152000
  | KipConfigValue_g_volt_1228800
  | KipConfigValue_g_volt_1267200
  | KipConfigValue_g_volt_1305600
  | KipConfigValue_g_volt_1344000
  | KipConfigValue_g_volt_1382400
  | KipConfigValue_g_volt_1420800
  | KipConfigValue_g_volt_1459200
  | KipConfigValue_g_volt_1497600
  | KipConfigValue_g_volt_1536000

datatype erista_gpu_volt =
    KipConfigValue_g_volt_e_76800
  | KipConfigValue_g_volt_e_115200
  | KipConfigValue_g_volt_e_153600
  | KipConfigValue_g_volt_e_192000
  | KipConfigValue_g_volt_e_230400
  | KipConfigValue_g_volt_e_268800
  | KipConfigValue_g_volt_e_307200
  | KipConfigValue_g_volt_e_345600
  | KipConfigValue_g_volt_e_384000
  | KipConfigValue_g_volt_e_422400
  | KipConfigValue_g_volt_e_460800
  | KipConfigValue_g_volt_e_499200
  | KipConfigValue_g_volt_e_537600
  | KipConfigValue_g_volt_e_576000
  | KipConfigValue_g_volt_e_614400
  | KipConfigValue_g_volt_e_652800
  | KipConfigValue_g_volt_e_691200
  | KipConfigValue_g_volt_e_729600
  | KipConfigValue_g_volt_e_768000
  | KipConfigValue_g_volt_e_806400
  | KipConfigValue_g_volt_e_844800
  | KipConfigValue_g_volt_e_883200
  | KipConfigValue_g_volt_e_921600
  | KipConfigValue_g_volt_e_960000
  | KipConfigValue_g_volt_e_998400
  | KipConfigValue_g_volt_e_1036800
  | KipConfigValue_g_volt_e_1075200

datatype HocClkConfigValue =
    Hoc hoc_value
  | Kip kip_value
  | MarikoGpuVolt mariko_gpu_volt
  | EristaGpuVolt erista_gpu_volt

definition all_hoc_values :: "hoc_value list" where
  "all_hoc_values = [
    HocClkConfigValue_PollingIntervalMs, HocClkConfigValue_TempLogIntervalMs,
    HocClkConfigValue_FreqLogIntervalMs, HocClkConfigValue_PowerLogIntervalMs,
    HocClkConfigValue_CsvWriteIntervalMs, HocClkConfigValue_UncappedClocks,
    HocClkConfigValue_OverwriteBoostMode, HocClkConfigValue_EristaMaxCpuClock,
    HocClkConfigValue_MarikoMaxCpuClock, HocClkConfigValue_ThermalThrottle,
    HocClkConfigValue_ThermalThrottleThreshold, HocClkConfigValue_HandheldTDP,
    HocClkConfigValue_HandheldTDPLimit, HocClkConfigValue_LiteTDPLimit,
    HocClkConfigValue_BatteryChargeCurrent, HocClkConfigValue_OverwriteRefreshRate,
    HocClkConfigValue_MaxDisplayClockH, HocClkConfigValue_DVFSMode,
    HocClkConfigValue_DVFSOffset, HocClkConfigValue_LiveCpuUv,
    HocClkConfigValue_EnableExperimentalSettings, HocClkConfigValue_GPUScheduling,
    HocClkConfigValue_GPUSchedulingMethod, HocClkConfigValue_RAMVoltDisplayMode,
    HocClkConfigValue_CpuGovernorMinimumFreq, HocClkConfigValue_DisplayVoltage,
    HocClkConfigValue_MemoryFrequencyMeasurementMode, HocClkConfigValue_RamDisplayUnit,
    HocClkConfigValue_IsFirstLoad, HocClkConfigValue_AulaDisplayColorPreset,
    HocClkConfigValue_MarikoMiddleFreqs]"

definition all_kip_values :: "kip_value list" where
  "all_kip_values = [
    KipConfigValue_custRev, KipConfigValue_KipVersion, KipConfigValue_hpMode,
    KipConfigValue_commonEmcMemVolt, KipConfigValue_eristaEmcMaxClock, KipConfigValue_stepMode,
    KipConfigValue_marikoEmcMaxClock, KipConfigValue_marikoEmcVddqVolt,
    KipConfigValue_emcDvbShift, KipConfigValue_marikoSocVmax, KipConfigValue_t1_tRCD,
    KipConfigValue_t2_tRP, KipConfigValue_t3_tRAS, KipConfigValue_t4_tRRD,
    KipConfigValue_t5_tRFC, KipConfigValue_t6_tRTW, KipConfigValue_t7_tWTR,
    KipConfigValue_t8_tREFI, KipConfigValue_timingEmcTbreak, KipConfigValue_low_t6_tRTW,
    KipConfigValue_low_t7_tWTR, KipConfigValue_t2_tRP_cap, KipConfigValue_read_latency_1333,
    KipConfigValue_read_latency_1600, KipConfigValue_read_latency_1866,
    KipConfigValue_read_latency_2133, KipConfigValue_write_latency_1333,
    KipConfigValue_write_latency_1600, KipConfigValue_write_latency_1866,
    KipConfigValue_write_latency_2133, KipConfigValue_eristaCpuUV, KipConfigValue_eristaCpuVmin,
    KipConfigValue_eristaCpuMaxVolt, KipConfigValue_eristaCpuUnlock,
    KipConfigValue_marikoCpuUVLow, KipConfigValue_marikoCpuUVHigh, KipConfigValue_tableConf,
    KipConfigValue_marikoCpuLowVmin, KipConfigValue_marikoCpuHighVmin,
    KipConfigValue_marikoCpuMaxVolt, KipConfigValue_marikoCpuMaxClock,
    KipConfigValue_eristaCpuBoostClock, KipConfigValue_marikoCpuBoostClock,
    KipConfigValue_eristaGpuUV, KipConfigValue_eristaGpuVmin, KipConfigValue_marikoGpuUV,
    KipConfigValue_marikoGpuVmin, KipConfigValue_marikoGpuBootVolt,
    KipConfigValue_marikoGpuVmax, KipConfigValue_commonGpuVoltOffset]"

definition all_mariko_gpu_volts :: "mariko_gpu_volt list" where
  "all_mariko_gpu_volts = [
    KipConfigValue_g_volt_76800, KipConfigValue_g_volt_153600, KipConfigValue_g_volt_230400,
    KipConfigValue_g_volt_307200, KipConfigValue_g_volt_384000, KipConfigValue_g_volt_460800,
    KipConfigValue_g_volt_537600, KipConfigValue_g_volt_614400, KipConfigValue_g_volt_691200,
    KipConfigValue_g_volt_768000, KipConfigValue_g_volt_844800, KipConfigValue_g_volt_921600,
    KipConfigValue_g_volt_998400, KipConfigValue_g_volt_1075200, KipConfigValue_g_volt_1152000,
    KipConfigValue_g_volt_1228800, KipConfigValue_g_volt_1267200, KipConfigValue_g_volt_1305600,
    KipConfigValue_g_volt_1344000, KipConfigValue_g_volt_1382400, KipConfigValue_g_volt_1420800,
    KipConfigValue_g_volt_1459200, KipConfigValue_g_volt_1497600, KipConfigValue_g_volt_1536000]"

definition all_erista_gpu_volts :: "erista_gpu_volt list" where
  "all_erista_gpu_volts = [
    KipConfigValue_g_volt_e_76800, KipConfigValue_g_volt_e_115200,
    KipConfigValue_g_volt_e_153600, KipConfigValue_g_volt_e_192000,
    KipConfigValue_g_volt_e_230400, KipConfigValue_g_volt_e_268800,
    KipConfigValue_g_volt_e_307200, KipConfigValue_g_volt_e_345600,
    KipConfigValue_g_volt_e_384000, KipConfigValue_g_volt_e_422400,
    KipConfigValue_g_volt_e_460800, KipConfigValue_g_volt_e_499200,
    KipConfigValue_g_volt_e_537600, KipConfigValue_g_volt_e_576000,
    KipConfigValue_g_volt_e_614400, KipConfigValue_g_volt_e_652800,
    KipConfigValue_g_volt_e_691200, KipConfigValue_g_volt_e_729600,
    KipConfigValue_g_volt_e_768000, KipConfigValue_g_volt_e_806400,
    KipConfigValue_g_volt_e_844800, KipConfigValue_g_volt_e_883200,
    KipConfigValue_g_volt_e_921600, KipConfigValue_g_volt_e_960000,
    KipConfigValue_g_volt_e_998400, KipConfigValue_g_volt_e_1036800,
    KipConfigValue_g_volt_e_1075200]"

definition all_kip_tail_values :: "kip_value list" where
  "all_kip_tail_values = [
    KipConfigValue_t6_tRTW_fine_tune, KipConfigValue_t7_tWTR_fine_tune, KipCrc32]"

definition all_config_values :: "HocClkConfigValue list" where
  "all_config_values =
     map Hoc all_hoc_values @ map Kip all_kip_values @ map MarikoGpuVolt all_mariko_gpu_volts @
     map EristaGpuVolt all_erista_gpu_volts @ map Kip all_kip_tail_values"

section \<open>Names\<close>

fun format_hoc_value :: "hoc_value \<Rightarrow> bool \<Rightarrow> string" where
  "format_hoc_value HocClkConfigValue_PollingIntervalMs pretty =
     (if pretty then ''Polling Interval (ms)'' else ''poll_interval_ms'')"
| "format_hoc_value HocClkConfigValue_TempLogIntervalMs pretty =
     (if pretty then ''Temperature logging interval (ms)'' else ''temp_log_interval_ms'')"
| "format_hoc_value HocClkConfigValue_FreqLogIntervalMs pretty =
     (if pretty then ''Frequency logging interval (ms)'' else ''freq_log_interval_ms'')"
| "format_hoc_value HocClkConfigValue_PowerLogIntervalMs pretty =
     (if pretty then ''Power logging interval (ms)'' else ''power_log_interval_ms'')"
| "format_hoc_value HocClkConfigValue_CsvWriteIntervalMs pretty =
     (if pretty then ''CSV write interval (ms)'' else ''csv_write_interval_ms'')"
| "format_hoc_value HocClkConfigValue_UncappedClocks pretty =
     (if pretty then ''Uncapped Clocks'' else ''uncapped_clocks'')"
| "format_hoc_value HocClkConfigValue_OverwriteBoostMode pretty =
     (if pretty then ''Overwrite Boost Mode'' else ''ow_boost'')"
| "format_hoc_value HocClkConfigValue_EristaMaxCpuClock pretty =
     (if pretty then ''CPU Max Clock'' else ''cpu_max_e'')"
| "format_hoc_value HocClkConfigValue_MarikoMaxCpuClock pretty =
     (if pretty then ''CPU Max Display Clock'' else ''cpu_max_m'')"
| "format_hoc_value HocClkConfigValue_ThermalThrottle pretty =
     (if pretty then ''Thermal Throttle'' else ''thermal_throttle'')"
| "format_hoc_value HocClkConfigValue_ThermalThrottleThreshold pretty =
     (if pretty then ''Thermal Throttle Threshold'' else ''thermal_throttle_threshold'')"
| "format_hoc_value HocClkConfigValue_HandheldTDP pretty =
     (if pretty then ''Handheld TDP'' else ''handheld_tdp'')"
| "format_hoc_value HocClkConfigValue_HandheldTDPLimit pretty =
     (if pretty then ''Handheld TDP Limit'' else ''tdp_limit'')"
| "format_hoc_value HocClkConfigValue_LiteTDPLimit pretty =
     (if pretty then ''Handheld TDP Limit'' else ''tdp_limit_l'')"
| "format_hoc_value HocClkConfigValue_BatteryChargeCurrent pretty =
     (if pretty then ''Battery Charge Current'' else ''bat_charge_current'')"
| "format_hoc_value HocClkConfigValue_OverwriteRefreshRate pretty =
     (if pretty then ''Display Refresh Rate Changing'' else ''drr_changing'')"
| "format_hoc_value HocClkConfigValue_MaxDisplayClockH pretty =
     (if pretty then ''Max Display Clock (Handheld)'' else ''drr_max_clock'')"
| "format_hoc_value HocClkConfigValue_DVFSMode pretty =
     (if pretty then ''DVFS Mode'' else ''dvfs_mode'')"
| "format_hoc_value HocClkConfigValue_DVFSOffset pretty =
     (if pretty then ''DVFS Offset'' else ''dvfs_offset'')"
| "format_hoc_value HocClkConfigValue_LiveCpuUv pretty =
     (if pretty then ''Live CPU Undervolt'' else ''live_cpu_uv'')"
| "format_hoc_value HocClkConfigValue_EnableExperimentalSettings pretty =
     (if pretty then ''Enable Experimental Settings'' else ''enable_experimental_settings'')"
| "format_hoc_value HocClkConfigValue_GPUScheduling pretty =
     (if pretty then ''GPU Scheduling'' else ''gpu_scheduling'')"
| "format_hoc_value HocClkConfigValue_GPUSchedulingMethod pretty =
     (if pretty then ''GPU Scheduling Method'' else ''gpu_sched_method'')"
| "format_hoc_value HocClkConfigValue_RAMVoltDisplayMode pretty =
     (if pretty then ''RAM Voltage / Usage Display Mode'' else ''ram_volt_usage_display_mode'')"
| "format_hoc_value HocClkConfigValue_CpuGovernorMinimumFreq pretty =
     (if pretty then ''CPU Governor Minimum Frequency'' else ''cpu_gov_min_freq'')"
| "format_hoc_value HocClkConfigValue_DisplayVoltage pretty =
     (if pretty then ''Display Voltage'' else ''display_voltage'')"
| "format_hoc_value HocClkConfigValue_MemoryFrequencyMeasurementMode pretty =
     (if pretty then ''RAM Frequency Measurement Mode'' else ''mem_freq_measurement_mode'')"
| "format_hoc_value HocClkConfigValue_RamDisplayUnit pretty =
     (if pretty then ''RAM Frequency Display Unit'' else ''RAM_display_unit'')"
| "format_hoc_value HocClkConfigValue_IsFirstLoad pretty =
     (if pretty then ''Is First Load'' else ''is_first_load'')"
| "format_hoc_value HocClkConfigValue_AulaDisplayColorPreset pretty =
     (if pretty then ''Aula Display Color Preset'' else ''aula_color_preset'')"
| "format_hoc_value HocClkConfigValue_MarikoMiddleFreqs pretty =
     (if pretty then ''Mariko Middle Clocks'' else ''mariko_middle_freqs'')"

fun format_kip_value :: "kip_value \<Rightarrow> bool \<Rightarrow> string" where
  "format_kip_value KipConfigValue_custRev pretty =
     (if pretty then ''Custom Revision'' else ''kip_cust_rev'')"
| "format_kip_value KipConfigValue_KipVersion pretty =
     (if pretty then ''KIP Version'' else ''kip_version'')"
| "format_kip_value KipConfigValue_hpMode pretty =
     (if pretty then ''HP Mode'' else ''kip_hp_mode'')"
| "format_kip_value KipConfigValue_commonEmcMemVolt pretty =
     (if pretty then ''Common EMC/MEM Voltage'' else ''common_emc_mem_volt'')"
| "format_kip_value KipConfigValue_eristaEmcMaxClock pretty =
     (if pretty then ''Erista EMC Max Clock'' else ''erista_emc_max_clock2'')"
| "format_kip_value KipConfigValue_stepMode pretty =
     (if pretty then ''Step Mode:'' else ''step_mode'')"
| "format_kip_value KipConfigValue_marikoEmcMaxClock pretty =
     (if pretty then ''Mariko EMC Max Clock'' else ''mariko_emc_max_clock'')"
| "format_kip_value KipConfigValue_marikoEmcVddqVolt pretty =
     (if pretty then ''Mariko EMC VDDQ Voltage'' else ''mariko_emc_vddq_volt'')"
| "format_kip_value KipConfigValue_emcDvbShift pretty =
     (if pretty then ''EMC DVB Shift'' else ''emc_dvb_shift'')"
| "format_kip_value KipConfigValue_marikoSocVmax pretty =
     (if pretty then ''SOC Vmax'' else ''soc_vmax'')"
| "format_kip_value KipConfigValue_t1_tRCD pretty =
     (if pretty then ''t1 - tRCD'' else ''t1_trcd'')"
| "format_kip_value KipConfigValue_t2_tRP pretty =
     (if pretty then ''t2 - tRP'' else ''t2_trp'')"
| "format_kip_value KipConfigValue_t3_tRAS pretty =
     (if pretty then ''t3 - tRAS'' else ''t3_tras'')"
| "format_kip_value KipConfigValue_t4_tRRD pretty =
     (if pretty then ''t4 - tRRD'' else ''t4_trrd'')"
| "format_kip_value KipConfigValue_t5_tRFC pretty =
     (if pretty then ''t5 - tRFC'' else ''t5_trfc'')"
| "format_kip_value KipConfigValue_t6_tRTW pretty =
     (if pretty then ''t6 - tRTW'' else ''t6_trtw'')"
| "format_kip_value KipConfigValue_t7_tWTR pretty =
     (if pretty then ''t7 - tWTR'' else ''t7_twtr'')"
| "format_kip_value KipConfigValue_t8_tREFI pretty =
     (if pretty then ''t8 - tREFI'' else ''t8_trefi'')"
| "format_kip_value KipConfigValue_timingEmcTbreak pretty =
     (if pretty then ''Timing Emc Tbreak'' else ''timingEmcTbreak'')"
| "format_kip_value KipConfigValue_low_t6_tRTW pretty =
     (if pretty then ''Low T6 - tRTW'' else ''low_t6_tRTW'')"
| "format_kip_value KipConfigValue_low_t7_tWTR pretty =
     (if pretty then ''Low T7 - tWTR'' else ''low_t7_tWTR'')"
| "format_kip_value KipConfigValue_t2_tRP_cap pretty =
     (if pretty then ''t2 - trp 1333WL Cap'' else ''t2_tRP_cap'')"
| "format_kip_value KipConfigValue_read_latency_1333 pretty =
     (if pretty then ''1333 Read Latency'' else ''read_latency_1333'')"
| "format_kip_value KipConfigValue_read_latency_1600 pretty =
     (if pretty then ''1600 Read Latency'' else ''read_latency_1600'')"
| "format_kip_value KipConfigValue_read_latency_1866 pretty =
     (if pretty then ''1866 Read Latency'' else ''read_latency_1866'')"
| "format_kip_value KipConfigValue_read_latency_2133 pretty =
     (if pretty then ''2133 Read Latency'' else ''read_latency_2133'')"
| "format_kip_value KipConfigValue_write_latency_1333 pretty =
     (if pretty then ''1333 Write Latency'' else ''write_latency_1333'')"
| "format_kip_value KipConfigValue_write_latency_1600 pretty =
     (if pretty then ''1600 Write Latency'' else ''write_latency_1600'')"
| "format_kip_value KipConfigValue_write_latency_1866 pretty =
     (if pretty then ''1866 Write Latency'' else ''write_latency_1866'')"
| "format_kip_value KipConfigValue_write_latency_2133 pretty =
     (if pretty then ''2133 Write Latency'' else ''write_latency_2133'')"
| "format_kip_value KipConfigValue_eristaCpuUV pretty =
     (if pretty then ''Erista CPU Undervolt'' else ''erista_cpu_uv'')"
| "format_kip_value KipConfigValue_eristaCpuVmin pretty =
     (if pretty then ''Erista CPU vMin'' else ''erista_cpu_vmin'')"
| "format_kip_value KipConfigValue_eristaCpuMaxVolt pretty =
     (if pretty then ''Erista CPU Max Voltage'' else ''erista_cpu_max_volt'')"
| "format_kip_value KipConfigValue_eristaCpuUnlock pretty =
     (if pretty then ''Erista CPU Unlock'' else ''erista_cpu_unlock'')"
| "format_kip_value KipConfigValue_marikoCpuUVLow pretty =
     (if pretty then ''Mariko CPU Undervolt (Low)'' else ''mariko_cpu_uv_low'')"
| "format_kip_value KipConfigValue_marikoCpuUVHigh pretty =
     (if pretty then ''Mariko CPU Undervolt (High)'' else ''mariko_cpu_uv_high'')"
| "format_kip_value KipConfigValue_tableConf pretty =
     (if pretty then ''Table Config'' else ''kip_table_conf'')"
| "format_kip_value KipConfigValue_marikoCpuLowVmin pretty =
     (if pretty then ''Mariko CPU Low Vmin'' else ''mariko_cpu_low_vmin'')"
| "format_kip_value KipConfigValue_marikoCpuHighVmin pretty =
     (if pretty then ''Mariko CPU High Vmin'' else ''mariko_cpu_high_vmin'')"
| "format_kip_value KipConfigValue_marikoCpuMaxVolt pretty =
     (if pretty then ''Mariko CPU Max Voltage'' else ''mariko_cpu_max_volt'')"
| "format_kip_value KipConfigValue_marikoCpuMaxClock pretty =
     (if pretty then ''Mariko CPU Max Clock'' else ''mariko_cpu_max_clock'')"
| "format_kip_value KipConfigValue_eristaCpuBoostClock pretty =
     (if pretty then ''Erista CPU Boost Clock'' else ''erista_cpu_boost_clock'')"
| "format_kip_value KipConfigValue_marikoCpuBoostClock pretty =
     (if pretty then ''Mariko CPU Boost Clock'' else ''mariko_cpu_boost_clock'')"
| "format_kip_value KipConfigValue_eristaGpuUV pretty =
     (if pretty then ''Erista GPU Undervolt'' else ''erista_gpu_uv'')"
| "format_kip_value KipConfigValue_eristaGpuVmin pretty =
     (if pretty then ''Erista GPU Vmin'' else ''erista_gpu_vmin'')"
| "format_kip_value KipConfigValue_marikoGpuUV pretty =
     (if pretty then ''Mariko GPU Undervolt'' else ''mariko_gpu_uv'')"
| "format_kip_value KipConfigValue_marikoGpuVmin pretty =
     (if pretty then ''Mariko GPU Vmin'' else ''mariko_gpu_vmin'')"
| "format_kip_value KipConfigValue_marikoGpuBootVolt pretty =
     (if pretty then ''Mariko GPU Boot Voltage'' else ''mariko_gpu_boot_volt'')"
| "format_kip_value KipConfigValue_marikoGpuVmax pretty =
     (if pretty then ''Mariko GPU Vmax'' else ''mariko_gpu_vmax'')"
| "format_kip_value KipConfigValue_commonGpuVoltOffset pretty =
     (if pretty then ''Common GPU Voltage Offset'' else ''common_gpu_volt_offset'')"
| "format_kip_value KipConfigValue_t6_tRTW_fine_tune pretty =
     (if pretty then ''t6 - tRTW Fine Tune'' else ''t6_tRTW_fine_tune'')"
| "format_kip_value KipConfigValue_t7_tWTR_fine_tune pretty =
     (if pretty then ''t7 - tWTR Fine Tune'' else ''t7_tWTR_fine_tune'')"
| "format_kip_value KipCrc32 pretty =
     (if pretty then ''CRC32'' else ''crc32'')"

fun format_mariko_gpu_volt :: "mariko_gpu_volt \<Rightarrow> bool \<Rightarrow> string" where
  "format_mariko_gpu_volt KipConfigValue_g_volt_76800 pretty =
     (if pretty then ''Mariko GPU Volt 76 MHz'' else ''g_volt_76800'')"
| "format_mariko_gpu_volt KipConfigValue_g_volt_153600 pretty =
     (if pretty then ''Mariko GPU Volt 153 MHz'' else ''g_volt_153600'')"
| "format_mariko_gpu_volt KipConfigValue_g_volt_230400 pretty =
     (if pretty then ''Mariko GPU Volt 230 MHz'' else ''g_volt_230400'')"
| "format_mariko_gpu_volt KipConfigValue_g_volt_307200 pretty =
     (if pretty then ''Mariko GPU Volt 307 MHz'' else ''g_volt_307200'')"
| "format_mariko_gpu_volt KipConfigValue_g_volt_384000 pretty =
     (if pretty then ''Mariko GPU Volt 384 MHz'' else ''g_volt_384000'')"
| "format_mariko_gpu_volt KipConfigValue_g_volt_460800 pretty =
     (if pretty then ''Mariko GPU Volt 460 MHz'' else ''g_volt_460800'')"
| "format_mariko_gpu_volt KipConfigValue_g_volt_537600 pretty =
     (if pretty then ''Mariko GPU Volt 537 MHz'' else ''g_volt_537600'')"
| "format_mariko_gpu_volt KipConfigValue_g_volt_614400 pretty =
     (if pretty then ''Mariko GPU Volt 614 MHz'' else ''g_volt_614400'')"
| "format_mariko_gpu_volt KipConfigValue_g_volt_691200 pretty =
     (if pretty then ''Mariko GPU Volt 691 MHz'' else ''g_volt_691200'')"
| "format_mariko_gpu_volt KipConfigValue_g_volt_768000 pretty =
     (if pretty then ''Mariko GPU Volt 768 MHz'' else ''g_volt_768000'')"
| "format_mariko_gpu_volt KipConfigValue_g_volt_844800 pretty =
     (if pretty then ''Mariko GPU Volt 844 MHz'' else ''g_volt_844800'')"
| "format_mariko_gpu_volt KipConfigValue_g_volt_921600 pretty =
     (if pretty then ''Mariko GPU Volt 921 MHz'' else ''g_volt_921600'')"
| "format_mariko_gpu_volt KipConfigValue_g_volt_998400 pretty =
     (if pretty then ''Mariko GPU Volt 998 MHz'' else ''g_volt_998400'')"
| "format_mariko_gpu_volt KipConfigValue_g_volt_1075200 pretty =
     (if pretty then ''Mariko GPU Volt 1075 MHz'' else ''g_volt_1075200'')"
| "format_mariko_gpu_volt KipConfigValue_g_volt_1152000 pretty =
     (if pretty then ''Mariko GPU Volt 1152 MHz'' else ''g_volt_1152000'')"
| "format_mariko_gpu_volt KipConfigValue_g_volt_1228800 pretty =
     (if pretty then ''Mariko GPU Volt 1228 MHz'' else ''g_volt_1228800'')"
| "format_mariko_gpu_volt KipConfigValue_g_volt_1267200 pretty =
     (if pretty then ''Mariko GPU Volt 1267 MHz'' else ''g_volt_1267200'')"
| "format_mariko_gpu_volt KipConfigValue_g_volt_1305600 pretty =
     (if pretty then ''Mariko GPU Volt 1305 MHz'' else ''g_volt_1305600'')"
| "format_mariko_gpu_volt KipConfigValue_g_volt_1344000 pretty =
     (if pretty then ''Mariko GPU Volt 1344 MHz'' else ''g_volt_1344000'')"
| "format_mariko_gpu_volt KipConfigValue_g_volt_1382400 pretty =
     (if pretty then ''Mariko GPU Volt 1382 MHz'' else ''g_volt_1382400'')"
| "format_mariko_gpu_volt KipConfigValue_g_volt_1420800 pretty =
     (if pretty then ''Mariko GPU Volt 1420 MHz'' else ''g_volt_1420800'')"
| "format_mariko_gpu_volt KipConfigValue_g_volt_1459200 pretty =
     (if pretty then ''Mariko GPU Volt 1459 MHz'' else ''g_volt_1459200'')"
| "format_mariko_gpu_volt KipConfigValue_g_volt_1497600 pretty =
     (if pretty then ''Mariko GPU Volt 1497 MHz'' else ''g_volt_1497600'')"
| "format_mariko_gpu_volt KipConfigValue_g_volt_1536000 pretty =
     (if pretty then ''Mariko GPU Volt 1536 MHz'' else ''g_volt_1536000'')"

fun format_erista_gpu_volt :: "erista_gpu_volt \<Rightarrow> bool \<Rightarrow> string" where
  "format_erista_gpu_volt KipConfigValue_g_volt_e_76800 pretty =
     (if pretty then ''Erista GPU Volt 76 MHz'' else ''g_volt_e_76800'')"
| "format_erista_gpu_volt KipConfigValue_g_volt_e_115200 pretty =
     (if pretty then ''Erista GPU Volt 115 MHz'' else ''g_volt_e_115200'')"
| "format_erista_gpu_volt KipConfigValue_g_volt_e_153600 pretty =
     (if pretty then ''Erista GPU Volt 153 MHz'' else ''g_volt_e_153600'')"
| "format_erista_gpu_volt KipConfigValue_g_volt_e_192000 pretty =
     (if pretty then ''Erista GPU Volt 192 MHz'' else ''g_volt_e_192000'')"
| "format_erista_gpu_volt KipConfigValue_g_volt_e_230400 pretty =
     (if pretty then ''Erista GPU Volt 230 MHz'' else ''g_volt_e_230400'')"
| "format_erista_gpu_volt KipConfigValue_g_volt_e_268800 pretty =
     (if pretty then ''Erista GPU Volt 268 MHz'' else ''g_volt_e_268800'')"
| "format_erista_gpu_volt KipConfigValue_g_volt_e_307200 pretty =
     (if pretty then ''Erista GPU Volt 307 MHz'' else ''g_volt_e_307200'')"
| "format_erista_gpu_volt KipConfigValue_g_volt_e_345600 pretty =
     (if pretty then ''Erista GPU Volt 345 MHz'' else ''g_volt_e_345600'')"
| "format_erista_gpu_volt KipConfigValue_g_volt_e_384000 pretty =
     (if pretty then ''Erista GPU Volt 384 MHz'' else ''g_volt_e_384000'')"
| "format_erista_gpu_volt KipConfigValue_g_volt_e_422400 pretty =
     (if pretty then ''Erista GPU Volt 422 MHz'' else ''g_volt_e_422400'')"
| "format_erista_gpu_volt KipConfigValue_g_volt_e_460800 pretty =
     (if pretty then ''Erista GPU Volt 460 MHz'' else ''g_volt_e_460800'')"
| "format_erista_gpu_volt KipConfigValue_g_volt_e_499200 pretty =
     (if pretty then ''Erista GPU Volt 499 MHz'' else ''g_volt_e_499200'')"
| "format_erista_gpu_volt KipConfigValue_g_volt_e_537600 pretty =
     (if pretty then ''Erista GPU Volt 537 MHz'' else ''g_volt_e_537600'')"
| "format_erista_gpu_volt KipConfigValue_g_volt_e_576000 pretty =
     (if pretty then ''Erista GPU Volt 576 MHz'' else ''g_volt_e_576000'')"
| "format_erista_gpu_volt KipConfigValue_g_volt_e_614400 pretty =
     (if pretty then ''Erista GPU Volt 614 MHz'' else ''g_volt_e_614400'')"
| "format_erista_gpu_volt KipConfigValue_g_volt_e_652800 pretty =
     (if pretty then ''Erista GPU Volt 652 MHz'' else ''g_volt_e_652800'')"
| "format_erista_gpu_volt KipConfigValue_g_volt_e_691200 pretty =
     (if pretty then ''Erista GPU Volt 691 MHz'' else ''g_volt_e_691200'')"
| "format_erista_gpu_volt KipConfigValue_g_volt_e_729600 pretty =
     (if pretty then ''Erista GPU Volt 729 MHz'' else ''g_volt_e_729600'')"
| "format_erista_gpu_volt KipConfigValue_g_volt_e_768000 pretty =
     (if pretty then ''Erista GPU Volt 768 MHz'' else ''g_volt_e_768000'')"
| "format_erista_gpu_volt KipConfigValue_g_volt_e_806400 pretty =
     (if pretty then ''Erista GPU Volt 806 MHz'' else ''g_volt_e_806400'')"
| "format_erista_gpu_volt KipConfigValue_g_volt_e_844800 pretty =
     (if pretty then ''Erista GPU Volt 844 MHz'' else ''g_volt_e_844800'')"
| "format_erista_gpu_volt KipConfigValue_g_volt_e_883200 pretty =
     (if pretty then ''Erista GPU Volt 883 MHz'' else ''g_volt_e_883200'')"
| "format_erista_gpu_volt KipConfigValue_g_volt_e_921600 pretty =
     (if pretty then ''Erista GPU Volt 921 MHz'' else ''g_volt_e_921600'')"
| "format_erista_gpu_volt KipConfigValue_g_volt_e_960000 pretty =
     (if pretty then ''Erista GPU Volt 960 MHz'' else ''g_volt_e_960000'')"
| "format_erista_gpu_volt KipConfigValue_g_volt_e_998400 pretty =
     (if pretty then ''Erista GPU Volt 998 MHz'' else ''g_volt_e_998400'')"
| "format_erista_gpu_volt KipConfigValue_g_volt_e_1036800 pretty =
     (if pretty then ''Erista GPU Volt 1036 MHz'' else ''g_volt_e_1036800'')"
| "format_erista_gpu_volt KipConfigValue_g_volt_e_1075200 pretty =
     (if pretty then ''Erista GPU Volt 1075 MHz'' else ''g_volt_e_1075200'')"

fun hocclkFormatConfigValue :: "HocClkConfigValue \<Rightarrow> bool \<Rightarrow> string" where
  "hocclkFormatConfigValue (Hoc v) pretty = format_hoc_value v pretty"
| "hocclkFormatConfigValue (Kip v) pretty = format_kip_value v pretty"
| "hocclkFormatConfigValue (MarikoGpuVolt v) pretty = format_mariko_gpu_volt v pretty"
| "hocclkFormatConfigValue (EristaGpuVolt v) pretty = format_erista_gpu_volt v pretty"

section \<open>Defaults\<close>

fun default_hoc_value :: "hoc_value \<Rightarrow> u64" where
  "default_hoc_value HocClkConfigValue_PollingIntervalMs = 300"
| "default_hoc_value HocClkConfigValue_TempLogIntervalMs = 0"
| "default_hoc_value HocClkConfigValue_FreqLogIntervalMs = 0"
| "default_hoc_value HocClkConfigValue_PowerLogIntervalMs = 0"
| "default_hoc_value HocClkConfigValue_CsvWriteIntervalMs = 0"
| "default_hoc_value HocClkConfigValue_UncappedClocks = 0"
| "default_hoc_value HocClkConfigValue_OverwriteBoostMode = 0"
| "default_hoc_value HocClkConfigValue_EristaMaxCpuClock = 1785"
| "default_hoc_value HocClkConfigValue_MarikoMaxCpuClock = 1963"
| "default_hoc_value HocClkConfigValue_ThermalThrottle = 1"
| "default_hoc_value HocClkConfigValue_ThermalThrottleThreshold = 70"
| "default_hoc_value HocClkConfigValue_HandheldTDP = 1"
| "default_hoc_value HocClkConfigValue_HandheldTDPLimit = 9600"
| "default_hoc_value HocClkConfigValue_LiteTDPLimit = 6400"
| "default_hoc_value HocClkConfigValue_BatteryChargeCurrent = 0"
| "default_hoc_value HocClkConfigValue_OverwriteRefreshRate = 0"
| "default_hoc_value HocClkConfigValue_MaxDisplayClockH = 60"
| "default_hoc_value HocClkConfigValue_DVFSMode = 1"
| "default_hoc_value HocClkConfigValue_LiveCpuUv = 0"
| "default_hoc_value HocClkConfigValue_GPUScheduling = 0"
| "default_hoc_value HocClkConfigValue_GPUSchedulingMethod = 0"
| "default_hoc_value HocClkConfigValue_CpuGovernorMinimumFreq = 612000000"
| "default_hoc_value HocClkConfigValue_DisplayVoltage = 1200"
| "default_hoc_value HocClkConfigValue_MemoryFrequencyMeasurementMode = 0"
| "default_hoc_value HocClkConfigValue_RamDisplayUnit = 0"
| "default_hoc_value HocClkConfigValue_IsFirstLoad = 1"
| "default_hoc_value HocClkConfigValue_AulaDisplayColorPreset = 0xFF"
| "default_hoc_value HocClkConfigValue_MarikoMiddleFreqs = 0"
| "default_hoc_value _ = 0"

text \<open>Every loader-image value takes the \<open>default\<close> case of the switch.\<close>

fun hocclkDefaultConfigValue :: "HocClkConfigValue \<Rightarrow> u64" where
  "hocclkDefaultConfigValue (Hoc v) = default_hoc_value v"
| "hocclkDefaultConfigValue _ = 0"

section \<open>Validity\<close>

fun valid_hoc_value :: "hoc_value \<Rightarrow> u64 \<Rightarrow> bool" where
  "valid_hoc_value HocClkConfigValue_PollingIntervalMs input = (input > 0)"
| "valid_hoc_value HocClkConfigValue_TempLogIntervalMs input = (input AND 1 = input)"
| "valid_hoc_value HocClkConfigValue_FreqLogIntervalMs input = (input AND 1 = input)"
| "valid_hoc_value HocClkConfigValue_PowerLogIntervalMs input = (input AND 1 = input)"
| "valid_hoc_value HocClkConfigValue_CsvWriteIntervalMs input = (input AND 1 = input)"
| "valid_hoc_value HocClkConfigValue_UncappedClocks input = (input AND 1 = input)"
| "valid_hoc_value HocClkConfigValue_OverwriteBoostMode input = (input AND 1 = input)"
| "valid_hoc_value HocClkConfigValue_EristaMaxCpuClock input = (input > 0)"
| "valid_hoc_value HocClkConfigValue_MarikoMaxCpuClock input = (input > 0)"
| "valid_hoc_value HocClkConfigValue_ThermalThrottle input = (input AND 1 = input)"
| "valid_hoc_value HocClkConfigValue_ThermalThrottleThreshold input = (input > 0)"
| "valid_hoc_value HocClkConfigValue_HandheldTDP input = (input AND 1 = input)"
| "valid_hoc_value HocClkConfigValue_HandheldTDPLimit input = (input > 0)"
| "valid_hoc_value HocClkConfigValue_LiteTDPLimit input = (input > 0)"
| "valid_hoc_value HocClkConfigValue_BatteryChargeCurrent input = ((input \<ge> 1024 \<and> input \<le> 3072) \<or> input = 0)"
| "valid_hoc_value HocClkConfigValue_OverwriteRefreshRate input = (input AND 1 = input)"
| "valid_hoc_value HocClkConfigValue_MaxDisplayClockH input = (input > 0)"
| "valid_hoc_value HocClkConfigValue_LiveCpuUv input = (input AND 1 = input)"
| "valid_hoc_value HocClkConfigValue_EnableExperimentalSettings input = (input AND 1 = input)"
| "valid_hoc_value HocClkConfigValue_GPUSchedulingMethod input = (input AND 1 = input)"
| "valid_hoc_value HocClkConfigValue_DisplayVoltage input = (input \<ge> 800 \<and> input \<le> 1325)"
| "valid_hoc_value HocClkConfigValue_IsFirstLoad input = (input AND 1 = input)"
| "valid_hoc_value HocClkConfigValue_MarikoMiddleFreqs input = (input AND 1 = input)"
| "valid_hoc_value _ input = True"

text \<open>Every loader-image value is accepted, whatever the input.\<close>

fun hocclkValidConfigValue :: "HocClkConfigValue \<Rightarrow> u64 \<Rightarrow> bool" where
  "hocclkValidConfigValue (Hoc v) input = valid_hoc_value v input"
| "hocclkValidConfigValue _ input = True"

section \<open>Facts\<close>

lemma set_all_hoc_values: "set all_hoc_values = UNIV"
  unfolding all_hoc_values_def by (rule UNIV_eq_I [symmetric]) (rename_tac v, case_tac v; simp)

lemma set_all_kip_values: "set all_kip_values \<union> set all_kip_tail_values = UNIV"
  unfolding all_kip_values_def all_kip_tail_values_def
  by (rule UNIV_eq_I [symmetric]) (rename_tac v, case_tac v; simp)

lemma set_all_mariko_gpu_volts: "set all_mariko_gpu_volts = UNIV"
  unfolding all_mariko_gpu_volts_def by (rule UNIV_eq_I [symmetric]) (rename_tac v, case_tac v; simp)

lemma set_all_erista_gpu_volts: "set all_erista_gpu_volts = UNIV"
  unfolding all_erista_gpu_volts_def by (rule UNIV_eq_I [symmetric]) (rename_tac v, case_tac v; simp)

lemma set_all_config_values [simp]: "set all_config_values = UNIV"
proof (rule UNIV_eq_I [symmetric])
  fix v :: HocClkConfigValue
  show "v \<in> set all_config_values"
    using set_all_hoc_values set_all_kip_values set_all_mariko_gpu_volts set_all_erista_gpu_volts
    by (cases v) (auto simp: all_config_values_def)
qed

text \<open>No two values share a key of the configuration file.\<close>

lemma distinct_config_keys: "distinct (map (\<lambda>v. hocclkFormatConfigValue v False) all_config_values)"
  by code_simp

lemma inj_on_distinct_map: "distinct (map f xs) \<Longrightarrow> x \<in> set xs \<Longrightarrow> y \<in> set xs \<Longrightarrow> f x = f y \<Longrightarrow> x = y"
  by (auto simp: distinct_map inj_on_def)

lemma config_key_inject:
  "hocclkFormatConfigValue v False = hocclkFormatConfigValue w False \<longleftrightarrow> v = w"
  using inj_on_distinct_map [OF distinct_config_keys, of v w] by auto

lemma distinct_all_config_values [simp]: "distinct all_config_values"
  using distinct_config_keys by (simp only: distinct_map)

lemma default_hoc_value_valid: "valid_hoc_value v (default_hoc_value v)"
  by (cases v) simp_all

lemma default_config_value_valid: "hocclkValidConfigValue v (hocclkDefaultConfigValue v)"
  by (cases v) (simp_all add: default_hoc_value_valid)

end
