(* ===== verification/Ini_File.thy ===== *)
theory Ini_File
  imports Prelude
begin

text \<open>
  The configuration file as the bundled minIni library reads and rewrites it,
  \<open>sysmodule/lib/minIni/dev/minIni.c\<close>. A file is its list of lines without the line
  terminator; every line is assumed to fit the library's line buffer (512 bytes), so the
  chunked copying of \<open>cache_accum\<close> and \<open>cache_flush\<close> is the identity on lines, and a section
  header starts in column 0 when \<open>ini_putsection\<close> looks for it. The one thing the chunking
  decides, whether an empty line is inserted before a section appended at the end of the file,
  is the argument \<open>blank\<close>.

  The interface the configuration relies on is the locale \<open>ini_store\<close>: what a section holds
  after it has been rewritten, and that the other sections keep their entries.
\<close>

section \<open>Lexical helpers\<close>

definition is_blank :: "char \<Rightarrow> bool" where
  "is_blank c \<longleftrightarrow> (of_char c :: nat) \<le> 32"

definition skipleading :: "string \<Rightarrow> string" where
  "skipleading s = dropWhile is_blank s"

definition striptrailing :: "string \<Rightarrow> string" where
  "striptrailing s = rev (dropWhile is_blank (rev s))"

definition upper :: "char \<Rightarrow> char" where
  "upper c = (let n = of_char c :: nat in if 97 \<le> n \<and> n \<le> 122 then char_of (n - 32) else c)"

text \<open>The comment scan of \<open>cleanstring\<close>: a \<open>;\<close> or \<open>#\<close> outside quotes ends the value.\<close>

fun cut_comment :: "bool \<Rightarrow> string \<Rightarrow> string" where
  "cut_comment q [] = []"
| "cut_comment q (c # cs) =
     (if (c = CHR '';'' \<or> c = CHR ''#'') \<and> \<not> q then []
      else if c = CHR 0x22 then
        (case cs of
           d # ds \<Rightarrow> if d = CHR 0x22 then c # d # cut_comment q ds else c # cut_comment (\<not> q) cs
         | [] \<Rightarrow> c # cut_comment (\<not> q) cs)
      else if c = CHR 0x5C then
        (case cs of
           d # ds \<Rightarrow> if d = CHR 0x22 then c # d # cut_comment q ds else c # cut_comment q cs
         | [] \<Rightarrow> c # cut_comment q cs)
      else c # cut_comment q cs)"

fun dequote :: "string \<Rightarrow> string" where
  "dequote [] = []"
| "dequote [c] = [c]"
| "dequote (c # d # cs) =
     (if (c = CHR 0x22 \<or> c = CHR 0x5C) \<and> d = CHR 0x22 then d # dequote cs
      else c # dequote (d # cs))"

text \<open>\<open>cleanstring\<close> followed by the copy of \<open>ini_strncpy\<close> in the quoting mode it returns.\<close>

definition clean_value :: "string \<Rightarrow> string" where
  "clean_value s =
     (let t = striptrailing (cut_comment False s)
      in if t \<noteq> [] \<and> hd t = CHR 0x22 \<and> last t = CHR 0x22
         then dequote (butlast (tl t)) else t)"

definition check_enquote :: "string \<Rightarrow> bool" where
  "check_enquote v \<longleftrightarrow>
     (\<exists>c\<in>set v. c = CHR 0x22 \<or> c = CHR '';'' \<or> c = CHR ''#'') \<or> (v \<noteq> [] \<and> last v = CHR '' '')"

definition enquote :: "string \<Rightarrow> string" where
  "enquote v = CHR 0x22 # concat (map (\<lambda>c. if c = CHR 0x22 then [CHR 0x5C, c] else [c]) v) @ [CHR 0x22]"

section \<open>Lines\<close>

text \<open>The text between \<open>[\<close> and the last \<open>]\<close> of a line that starts with \<open>[\<close>.\<close>

definition section_of :: "string \<Rightarrow> string option" where
  "section_of l =
     (case skipleading l of
        c # cs \<Rightarrow>
          if c = CHR ''['' \<and> CHR '']'' \<in> set cs
          then Some (rev (tl (dropWhile (\<lambda>d. d \<noteq> CHR '']'') (rev cs)))) else None
      | [] \<Rightarrow> None)"

definition starts_bracket :: "string \<Rightarrow> bool" where
  "starts_bracket l \<longleftrightarrow> (case skipleading l of c # _ \<Rightarrow> c = CHR ''['' | [] \<Rightarrow> False)"

definition split_at_char :: "char \<Rightarrow> string \<Rightarrow> string \<times> string" where
  "split_at_char c s = (takeWhile (\<lambda>d. d \<noteq> c) s, tl (dropWhile (\<lambda>d. d \<noteq> c) s))"

definition key_value_of :: "string \<Rightarrow> (string \<times> string) option" where
  "key_value_of l =
     (let sp = skipleading l in
      if sp = [] \<or> hd sp = CHR '';'' \<or> hd sp = CHR ''#'' then None
      else if CHR ''='' \<in> set sp \<or> CHR '':'' \<in> set sp then
        (let (k, v) = split_at_char (if CHR ''='' \<in> set sp then CHR ''='' else CHR '':'') sp
         in Some (striptrailing k, clean_value (skipleading v)))
      else None)"

section \<open>Browsing\<close>

text \<open>
  \<open>ini_browse\<close> calls its callback on these entries in order: section, key, value. The section
  is the last header seen, empty at the start of the file.
\<close>

fun ini_entries :: "string \<Rightarrow> string list \<Rightarrow> (string \<times> string \<times> string) list" where
  "ini_entries sec [] = []"
| "ini_entries sec (l # ls) =
     (case section_of l of
        Some s \<Rightarrow> ini_entries s ls
      | None \<Rightarrow>
          (case key_value_of l of
             Some (k, v) \<Rightarrow> (sec, k, v) # ini_entries sec ls
           | None \<Rightarrow> ini_entries sec ls))"

section \<open>Rewriting a section\<close>

definition section_line :: "string \<Rightarrow> string" where
  "section_line sec = CHR ''['' # sec @ '']''"

definition key_line :: "string \<times> string \<Rightarrow> string" where
  "key_line kv = (case kv of (k, v) \<Rightarrow> k @ ''='' @ (if check_enquote v then enquote v else v))"

definition putsection :: "string \<Rightarrow> (string \<times> string) list \<Rightarrow> string list" where
  "putsection sec kvs = (if kvs = [] then [] else section_line sec # map key_line kvs @ [''''])"

definition is_section :: "string \<Rightarrow> string \<Rightarrow> bool" where
  "is_section sec l \<longleftrightarrow>
     (case section_of l of Some s \<Rightarrow> map upper s = map upper sec | None \<Rightarrow> False)"

text \<open>
  Copy up to the section, drop it up to the next line that starts with a bracket, write the new
  section there, copy the rest. A file without the section gets it at the end.
\<close>

definition ini_putsection ::
  "bool \<Rightarrow> string \<Rightarrow> (string \<times> string) list \<Rightarrow> string list \<Rightarrow> string list" where
  "ini_putsection blank sec kvs f =
     (let pre = takeWhile (\<lambda>l. \<not> is_section sec l) f; rest = dropWhile (\<lambda>l. \<not> is_section sec l) f
      in case rest of
           [] \<Rightarrow> pre @ (if blank then [''''] else []) @ putsection sec kvs
         | h # ls \<Rightarrow> pre @ putsection sec kvs @ dropWhile (\<lambda>l. \<not> starts_bracket l) ls)"

section \<open>What the configuration writes\<close>

definition plain_char :: "char \<Rightarrow> bool" where
  "plain_char c \<longleftrightarrow> \<not> is_blank c \<and> c \<notin> set '';#=:[]'' \<and> c \<noteq> CHR 0x22 \<and> c \<noteq> CHR 0x5C"

definition plain :: "string \<Rightarrow> bool" where
  "plain s \<longleftrightarrow> (\<forall>c\<in>set s. plain_char c)"

definition plain_pair :: "string \<times> string \<Rightarrow> bool" where
  "plain_pair kv \<longleftrightarrow> fst kv \<noteq> [] \<and> plain (fst kv) \<and> plain (snd kv)"

text \<open>Every line that starts with a bracket is a header, and no section occurs twice.\<close>

definition headers :: "string list \<Rightarrow> string list" where
  "headers f = map (\<lambda>l. map upper (the (section_of l))) (filter (\<lambda>l. section_of l \<noteq> None) f)"

definition wf_ini :: "string list \<Rightarrow> bool" where
  "wf_ini f \<longleftrightarrow> (\<forall>l\<in>set f. starts_bracket l \<longrightarrow> section_of l \<noteq> None) \<and> distinct (headers f)"

definition section_entries :: "string \<Rightarrow> (string \<times> string \<times> string) list \<Rightarrow> (string \<times> string) list" where
  "section_entries sec es = map snd (filter (\<lambda>e. fst e = sec) es)"

lemma plain_Nil [simp]: "plain []"
  by (simp add: plain_def)

lemma plain_dropWhile [simp]: "plain s \<Longrightarrow> dropWhile is_blank s = s"
  by (cases s) (auto simp: plain_def plain_char_def)

lemma plain_skipleading [simp]: "plain s \<Longrightarrow> skipleading s = s"
  by (simp add: skipleading_def)

lemma plain_rev [simp]: "plain (rev s) = plain s"
  by (simp add: plain_def)

lemma plain_striptrailing [simp]: "plain s \<Longrightarrow> striptrailing s = s"
  by (simp add: striptrailing_def)

lemma plain_cut_comment: "plain s \<Longrightarrow> cut_comment False s = s"
  by (induction s) (auto simp: plain_def plain_char_def)

lemma plain_clean_value [simp]: "plain s \<Longrightarrow> clean_value s = s"
proof -
  assume p: "plain s"
  then have "\<not> (s \<noteq> [] \<and> hd s = CHR 0x22 \<and> last s = CHR 0x22)"
    by (cases s) (auto simp: plain_def plain_char_def)
  with p show ?thesis
    by (simp only: clean_value_def plain_cut_comment plain_striptrailing Let_def if_False)
qed

lemma plain_no_enquote [simp]: "plain s \<Longrightarrow> \<not> check_enquote s"
proof -
  assume p: "plain s"
  have "is_blank (CHR '' '')" by (simp add: is_blank_def)
  moreover have "s \<noteq> [] \<Longrightarrow> last s \<in> set s" by simp
  ultimately have "s \<noteq> [] \<Longrightarrow> last s \<noteq> CHR '' ''"
    using p by (metis plain_char_def plain_def)
  with p show ?thesis by (auto simp: check_enquote_def plain_def plain_char_def)
qed

lemma plain_no_char:
  assumes "plain s"
  shows "CHR ''='' \<notin> set s" "CHR '':'' \<notin> set s" "CHR '']'' \<notin> set s" "CHR ''['' \<notin> set s"
  using assms by (auto simp: plain_def plain_char_def)

lemma takeWhile_not_in: "c \<notin> set k \<Longrightarrow> takeWhile (\<lambda>d. d \<noteq> c) (k @ c # v) = k"
  by (induction k) auto

lemma dropWhile_not_in: "c \<notin> set k \<Longrightarrow> dropWhile (\<lambda>d. d \<noteq> c) (k @ c # v) = c # v"
  by (induction k) auto

lemma plain_hd:
  assumes "plain k" "k \<noteq> []"
  shows "\<not> is_blank (hd k)" "hd k \<noteq> CHR ''[''" "hd k \<noteq> CHR '';''" "hd k \<noteq> CHR ''#''"
  using assms by (cases k; auto simp: plain_def plain_char_def)+

text \<open>A written key line is read back as that key and value, never as a header.\<close>

lemma key_line_read:
  assumes "plain_pair (k, v)"
  shows "section_of (key_line (k, v)) = None" "key_value_of (key_line (k, v)) = Some (k, v)"
    "starts_bracket (key_line (k, v)) = False"
proof -
  have p: "plain k" "plain v" "k \<noteq> []" using assms by (auto simp: plain_pair_def)
  have line: "key_line (k, v) = k @ CHR ''='' # v"
    using p by (simp add: key_line_def)
  have skip: "skipleading (k @ CHR ''='' # v) = k @ CHR ''='' # v"
    using plain_hd [OF p(1,3)] p(3) by (cases k) (auto simp: skipleading_def)
  have hd: "hd (k @ CHR ''='' # v) = hd k" using p(3) by simp
  show "section_of (key_line (k, v)) = None" "starts_bracket (key_line (k, v)) = False"
    using plain_hd [OF p(1,3)] p(3) unfolding line section_of_def starts_bracket_def skip
    by (cases k; simp)+
  show "key_value_of (key_line (k, v)) = Some (k, v)"
    unfolding line key_value_of_def skip Let_def hd split_at_char_def
    using plain_hd [OF p(1,3)] p plain_no_char [OF p(1)]
    by (simp add: takeWhile_not_in dropWhile_not_in)
qed

lemma section_line_read:
  assumes "plain sec"
  shows "section_of (section_line sec) = Some sec" "starts_bracket (section_line sec)"
  using assms plain_no_char [OF assms]
  by (auto simp: section_of_def section_line_def starts_bracket_def skipleading_def is_blank_def)

lemma empty_line_read [simp]:
  "section_of [] = None" "key_value_of [] = None" "starts_bracket [] = False"
  by (simp_all add: section_of_def key_value_of_def starts_bracket_def skipleading_def)

lemma section_of_starts: "section_of l = Some s \<Longrightarrow> starts_bracket l"
  by (auto simp: section_of_def starts_bracket_def split: list.splits if_splits)

section \<open>Entries of a rewritten file\<close>

text \<open>The section in force after reading some lines.\<close>

fun final_section :: "string \<Rightarrow> string list \<Rightarrow> string" where
  "final_section sec [] = sec"
| "final_section sec (l # ls) =
     final_section (case section_of l of Some s \<Rightarrow> s | None \<Rightarrow> sec) ls"

lemma ini_entries_append:
  "ini_entries sec (f @ g) = ini_entries sec f @ ini_entries (final_section sec f) g"
  by (induction f arbitrary: sec) (auto split: option.splits)

lemma final_section_append:
  "final_section sec (f @ g) = final_section (final_section sec f) g"
  by (induction f arbitrary: sec) auto

lemma ini_entries_key_lines:
  "\<forall>kv\<in>set kvs. plain_pair kv \<Longrightarrow>
     ini_entries sec (map key_line kvs @ g) = map (\<lambda>kv. (sec, kv)) kvs @ ini_entries sec g"
  by (induction kvs) (auto simp: key_line_read)

lemma final_section_key_lines:
  "\<forall>kv\<in>set kvs. plain_pair kv \<Longrightarrow> final_section sec (map key_line kvs) = sec"
  by (induction kvs) (auto simp: key_line_read)

lemma ini_entries_putsection:
  assumes "plain sec" "\<forall>kv\<in>set kvs. plain_pair kv"
  shows "ini_entries s0 (putsection sec kvs @ g) =
    (if kvs = [] then ini_entries s0 g else map (\<lambda>kv. (sec, kv)) kvs @ ini_entries sec g)"
  using assms by (simp add: putsection_def section_line_read ini_entries_key_lines)

text \<open>Entries belong to a header that occurs in the file, or to the section in force before it.\<close>

lemma ini_entries_sections:
  "(s, kv) \<in> set (ini_entries s0 f) \<Longrightarrow> s = s0 \<or> (\<exists>l\<in>set f. section_of l = Some s)"
  by (induction s0 f rule: ini_entries.induct) (auto split: option.splits)

lemma headers_append [simp]: "headers (f @ g) = headers f @ headers g"
  by (simp add: headers_def)

lemma headers_Cons:
  "headers (l # f) = (case section_of l of Some s \<Rightarrow> map upper s # headers f | None \<Rightarrow> headers f)"
  by (auto simp: headers_def split: option.splits)

lemma headers_Nil [simp]: "headers [] = []"
  by (simp add: headers_def)

lemma headers_member: "l \<in> set f \<Longrightarrow> section_of l = Some s \<Longrightarrow> map upper s \<in> set (headers f)"
  by (force simp: headers_def)

text \<open>
  The shape of a rewrite: what precedes the section, the new section, and a tail that is empty or
  starts with the header of another section. No header of either part names the section.
\<close>

lemma putsection_shape:
  assumes wf: "wf_ini f"
  obtains pre old post blanks where
    "f = pre @ old @ post"
    "\<And>b kvs. ini_putsection b sec kvs f = pre @ blanks b @ putsection sec kvs @ post"
    "\<And>b. set (blanks b) \<subseteq> {[]}"
    "map upper sec \<notin> set (headers pre)" "map upper sec \<notin> set (headers post)"
    "post = [] \<or> starts_bracket (hd post)"
    "old = [] \<and> post = [] \<or>
     (\<exists>h ls s. old = h # ls \<and> section_of h = Some s \<and> map upper s = map upper sec \<and>
        (\<forall>l\<in>set ls. \<not> starts_bracket l))"
proof (cases "dropWhile (\<lambda>l. \<not> is_section sec l) f")
  case Nil
  then have all: "\<forall>l\<in>set f. \<not> is_section sec l" by simp
  then have tw: "takeWhile (\<lambda>l. \<not> is_section sec l) f = f" by simp
  show thesis
  proof (rule that [of f "[]" "[]" "\<lambda>b. if b then [''''] else []"])
    show "map upper sec \<notin> set (headers f)"
      using all by (auto simp: headers_def is_section_def)
    show "ini_putsection b sec kvs f = f @ (if b then [''''] else []) @ putsection sec kvs @ []"
      for b kvs unfolding ini_putsection_def Nil tw by simp
  qed auto
next
  case (Cons h ls)
  define pre where "pre = takeWhile (\<lambda>l. \<not> is_section sec l) f"
  have f: "f = pre @ h # ls"
    unfolding pre_def Cons [symmetric] by (rule takeWhile_dropWhile_id [symmetric])
  have "is_section sec h" using Cons by (metis dropWhile_eq_Cons_conv)
  then obtain s where s: "section_of h = Some s" "map upper s = map upper sec"
    by (auto simp: is_section_def split: option.splits)
  define old where "old = takeWhile (\<lambda>l. \<not> starts_bracket l) ls"
  define post where "post = dropWhile (\<lambda>l. \<not> starts_bracket l) ls"
  have ls: "ls = old @ post" by (simp add: old_def post_def)
  show thesis
  proof (rule that [of pre "h # old" post "\<lambda>b. []"])
    show "f = pre @ (h # old) @ post" using f ls by simp
    show "ini_putsection b sec kvs f = pre @ [] @ putsection sec kvs @ post" for b kvs
      using Cons by (simp add: ini_putsection_def pre_def post_def)
    show "map upper sec \<notin> set (headers pre)" "map upper sec \<notin> set (headers post)"
      using wf s unfolding wf_ini_def f ls by (auto simp: headers_Cons)
    show "post = [] \<or> starts_bracket (hd post)"
      unfolding post_def using hd_dropWhile by blast
    have "\<forall>l\<in>set old. \<not> starts_bracket l"
      unfolding old_def by (auto dest: set_takeWhileD)
    with s show "h # old = [] \<and> post = [] \<or> (\<exists>h' ls s. h # old = h' # ls \<and> section_of h' = Some s \<and>
        map upper s = map upper sec \<and> (\<forall>l\<in>set ls. \<not> starts_bracket l))"
      by blast
  qed auto
qed

lemma section_entries_append [simp]:
  "section_entries s (es @ fs) = section_entries s es @ section_entries s fs"
  by (simp add: section_entries_def)

lemma section_entries_same [simp]: "section_entries s (map (\<lambda>kv. (s, kv)) kvs) = kvs"
  by (simp add: section_entries_def filter_map comp_def)

lemma section_entries_other [simp]:
  "s \<noteq> t \<Longrightarrow> section_entries s (map (\<lambda>kv. (t, kv)) kvs) = []"
  by (simp add: section_entries_def filter_map comp_def)

lemma section_entries_none:
  "(\<And>kv. (s, kv) \<notin> set es) \<Longrightarrow> section_entries s es = []"
  by (auto simp: section_entries_def filter_empty_conv)

lemma no_entries_without_header:
  "map upper s \<notin> set (headers f) \<Longrightarrow> s \<noteq> s0 \<Longrightarrow> section_entries s (ini_entries s0 f) = []"
  by (rule section_entries_none) (auto dest: ini_entries_sections headers_member)

lemma entries_start_irrelevant:
  assumes "f = [] \<or> section_of (hd f) \<noteq> None"
  shows "ini_entries s0 f = ini_entries s1 f"
  using assms by (cases f) auto

lemma no_bracket_entries:
  assumes "\<forall>l\<in>set ls. \<not> starts_bracket l"
  shows "\<forall>e\<in>set (ini_entries s ls). fst e = s" "final_section s ls = s" "headers ls = []"
proof -
  have n: "\<forall>l\<in>set ls. section_of l = None"
    using assms section_of_starts by fastforce
  then show "\<forall>e\<in>set (ini_entries s ls). fst e = s"
    using ini_entries_sections by fastforce
  show "final_section s ls = s" "headers ls = []"
    using n by (induction ls) (auto simp: headers_Cons)
qed

lemma wf_ini_append: "wf_ini (f @ g) \<Longrightarrow> wf_ini f \<and> wf_ini g"
  by (auto simp: wf_ini_def)

lemma blank_lines:
  "set bs \<subseteq> {[]} \<Longrightarrow> ini_entries s bs = [] \<and> final_section s bs = s \<and> headers bs = []"
  by (induction bs) (auto simp: headers_Cons)

theorem putsection_own_section:
  assumes "wf_ini f" "plain sec" "sec \<noteq> []" "\<forall>kv\<in>set kvs. plain_pair kv"
  shows "section_entries sec (ini_entries [] (ini_putsection b sec kvs f)) = kvs"
  using assms(1)
proof (rule putsection_shape [where sec = sec])
  fix pre old post blanks
  assume f: "f = pre @ old @ post"
    and shape: "\<And>b kvs. ini_putsection b sec kvs f = pre @ blanks b @ putsection sec kvs @ post"
    and bl: "\<And>b. set (blanks b) \<subseteq> {[]}"
    and out: "map upper sec \<notin> set (headers pre)" "map upper sec \<notin> set (headers post)"
    and post: "post = [] \<or> starts_bracket (hd post)"
  have wf: "wf_ini post" using assms(1) f wf_ini_append by metis
  then have "post = [] \<or> section_of (hd post) \<noteq> None"
    using post by (cases post) (auto simp: wf_ini_def)
  then have any: "ini_entries s post = ini_entries [] post" for s
    by (rule entries_start_irrelevant)
  have "section_entries sec (ini_entries [] post) = []"
    using out assms(3) by (simp add: no_entries_without_header)
  then have "section_entries sec (ini_entries s post) = []" for s
    by (subst any)
  moreover have "section_entries sec (ini_entries [] pre) = []"
    using out assms(3) by (simp add: no_entries_without_header)
  moreover have "ini_entries s (blanks b) = []" "final_section s (blanks b) = s" for s
    using blank_lines [OF bl] by simp_all
  ultimately show ?thesis
    using assms(2,4) unfolding shape
    by (simp add: ini_entries_append [of _ pre] ini_entries_append [of _ "blanks b"]
        ini_entries_putsection)
qed

text \<open>Entries of the other sections, selected by any predicate on section names, are kept.\<close>

lemma putsection_filter:
  assumes "wf_ini f" "plain sec" "\<forall>kv\<in>set kvs. plain_pair kv"
    and "\<And>s. map upper s = map upper sec \<Longrightarrow> \<not> P s"
  shows "filter (\<lambda>e. P (fst e)) (ini_entries [] (ini_putsection b sec kvs f)) =
    filter (\<lambda>e. P (fst e)) (ini_entries [] f)"
  using assms(1)
proof (rule putsection_shape [where sec = sec])
  fix pre old post blanks
  assume f: "f = pre @ old @ post"
    and shape: "\<And>b kvs. ini_putsection b sec kvs f = pre @ blanks b @ putsection sec kvs @ post"
    and bl: "\<And>b. set (blanks b) \<subseteq> {[]}"
    and post: "post = [] \<or> starts_bracket (hd post)"
    and old: "old = [] \<and> post = [] \<or>
     (\<exists>h ls s. old = h # ls \<and> section_of h = Some s \<and> map upper s = map upper sec \<and>
        (\<forall>l\<in>set ls. \<not> starts_bracket l))"
  have "wf_ini post" using assms(1) f wf_ini_append by metis
  then have "post = [] \<or> section_of (hd post) \<noteq> None"
    using post by (cases post) (auto simp: wf_ini_def)
  then have "\<exists>es. \<forall>t. ini_entries t post = es"
    using entries_start_irrelevant by blast
  then obtain es where any: "\<And>t. ini_entries t post = es" by blast
  have "filter (\<lambda>e. P (fst e)) (ini_entries t old) = []" for t
    using old assms(4) by (auto simp: filter_empty_conv dest!: bspec [OF no_bracket_entries(1)])
  then have "filter (\<lambda>e. P (fst e)) (ini_entries [] f) =
      filter (\<lambda>e. P (fst e)) (ini_entries [] pre) @ filter (\<lambda>e. P (fst e)) es"
    unfolding f by (simp add: ini_entries_append any)
  moreover have "\<not> P sec" using assms(4) by auto
  ultimately show ?thesis
    using assms(2,3) blank_lines [OF bl, of _ b] unfolding shape
    by (simp add: ini_entries_append [of _ pre] ini_entries_append [of _ "blanks b"]
        ini_entries_putsection any filter_map comp_def)
qed

theorem putsection_other_section:
  assumes "wf_ini f" "plain sec" "\<forall>kv\<in>set kvs. plain_pair kv"
    and "map upper s \<noteq> map upper sec"
  shows "section_entries s (ini_entries [] (ini_putsection b sec kvs f)) =
    section_entries s (ini_entries [] f)"
proof -
  have "filter (\<lambda>e. fst e = s) (ini_entries [] (ini_putsection b sec kvs f)) =
      filter (\<lambda>e. fst e = s) (ini_entries [] f)"
    by (rule putsection_filter [OF assms(1-3), of "\<lambda>t. t = s"]) (use assms(4) in auto)
  then show ?thesis by (simp add: section_entries_def)
qed

text \<open>A header of the rewritten file is the new section's or one of another section before.\<close>

lemma putsection_headers:
  assumes "wf_ini f" "plain sec" "\<forall>kv\<in>set kvs. plain_pair kv"
    and "l \<in> set (ini_putsection b sec kvs f)" "section_of l = Some h"
  shows "h = sec \<or> (l \<in> set f \<and> map upper h \<noteq> map upper sec)"
  using assms(1)
proof (rule putsection_shape [where sec = sec])
  fix pre old post blanks
  assume f: "f = pre @ old @ post"
    and shape: "\<And>b kvs. ini_putsection b sec kvs f = pre @ blanks b @ putsection sec kvs @ post"
    and bl: "\<And>b. set (blanks b) \<subseteq> {[]}"
    and out: "map upper sec \<notin> set (headers pre)" "map upper sec \<notin> set (headers post)"
  have "l \<in> set (putsection sec kvs) \<Longrightarrow> h = sec"
    using assms(2,3,5) by (auto simp: putsection_def section_line_read key_line_read split: if_splits)
  moreover have "l \<notin> set (blanks b)" using bl [of b] assms(5) by auto
  moreover have "l \<in> set pre \<or> l \<in> set post \<Longrightarrow> l \<in> set f \<and> map upper h \<noteq> map upper sec"
    using out assms(5) by (auto simp: f dest: headers_member)
  ultimately show ?thesis using assms(4) unfolding shape by auto
qed

lemma wf_ini_putsection:
  assumes "wf_ini f" "plain sec" "\<forall>kv\<in>set kvs. plain_pair kv"
  shows "wf_ini (ini_putsection b sec kvs f)"
  using assms(1)
proof (rule putsection_shape [where sec = sec])
  fix pre old post blanks
  assume f: "f = pre @ old @ post"
    and shape: "\<And>b kvs. ini_putsection b sec kvs f = pre @ blanks b @ putsection sec kvs @ post"
    and bl: "\<And>b. set (blanks b) \<subseteq> {[]}"
    and out: "map upper sec \<notin> set (headers pre)" "map upper sec \<notin> set (headers post)"
  have keys: "headers (map key_line kvs) = []"
    "\<forall>l\<in>set (map key_line kvs). \<not> starts_bracket l"
    using assms(3) by (induction kvs) (auto simp: headers_Cons key_line_read)
  then have "headers (putsection sec kvs) = (if kvs = [] then [] else [map upper sec])"
    using assms(2) by (auto simp: putsection_def headers_Cons section_line_read)
  moreover have "\<forall>l\<in>set (putsection sec kvs). starts_bracket l \<longrightarrow> section_of l \<noteq> None"
    using keys(2) assms(2) by (auto simp: putsection_def section_line_read)
  moreover have "\<forall>l\<in>set (blanks b). \<not> starts_bracket l" using bl [of b] by auto
  ultimately show ?thesis
    using assms(1) out blank_lines [OF bl [of b]] unfolding shape
    by (auto simp: wf_ini_def f)
qed

section \<open>The store interface\<close>

text \<open>
  What a client that keeps its settings in sections relies on: writing a section replaces exactly
  that section. \<open>sections\<close> reads the entries of a section in order.
\<close>

locale ini_store =
  fixes put :: "string \<Rightarrow> (string \<times> string) list \<Rightarrow> 'f \<Rightarrow> 'f"
    and sections :: "string \<Rightarrow> 'f \<Rightarrow> (string \<times> string) list"
    and wf :: "'f \<Rightarrow> bool"
  assumes put_wf: "wf f \<Longrightarrow> plain sec \<Longrightarrow> \<forall>kv\<in>set kvs. plain_pair kv \<Longrightarrow> wf (put sec kvs f)"
    and put_same: "wf f \<Longrightarrow> plain sec \<Longrightarrow> sec \<noteq> [] \<Longrightarrow> \<forall>kv\<in>set kvs. plain_pair kv \<Longrightarrow>
      sections sec (put sec kvs f) = kvs"
    and put_other: "wf f \<Longrightarrow> plain sec \<Longrightarrow> \<forall>kv\<in>set kvs. plain_pair kv \<Longrightarrow>
      map upper s \<noteq> map upper sec \<Longrightarrow> sections s (put sec kvs f) = sections s f"
begin

text \<open>The last write of a section is what it holds, whatever was written before.\<close>

lemma put_put_same:
  assumes "wf f" "plain sec" "sec \<noteq> []" "\<forall>kv\<in>set kvs. plain_pair kv" "\<forall>kv\<in>set kvs'. plain_pair kv"
  shows "sections sec (put sec kvs' (put sec kvs f)) = kvs'"
  using assms by (simp add: put_wf put_same)

text \<open>A key that is not written again is gone.\<close>

lemma put_drops_keys:
  assumes "wf f" "plain sec" "sec \<noteq> []" "\<forall>kv\<in>set kvs. plain_pair kv" "k \<notin> fst ` set kvs"
  shows "k \<notin> fst ` set (sections sec (put sec kvs f))"
  using assms by (simp add: put_same)

end

interpretation ini: ini_store "ini_putsection b"
  "\<lambda>sec f. section_entries sec (ini_entries [] f)" wf_ini
  by unfold_locales
    (simp_all add: wf_ini_putsection putsection_own_section putsection_other_section)

end
