(* ===== verification/Config.thy ===== *)
theory Config
  imports Config_Values C_Strings Ini_File
begin

text \<open>
  The configuration component, \<open>sysmodule/src/file/config.cpp\<close>: the profile clocks per title,
  the temporary overrides and the configuration values, their loading from the configuration
  file through \<open>BrowseIniFunc\<close>, and the operations that write them back.

  The file itself is the record \<open>ini_fs\<close>: its lines (\<open>None\<close> for no file), its modification
  time, the time a write would stamp on it, whether it can be written, and the \<open>blank\<close> argument
  of the rewrite (see \<open>Ini_File\<close>). Log lines and the two mutexes have no effect on the values
  and are left out; every operation holds its mutex for its whole body, so the operations are
  atomic steps.
\<close>

section \<open>State\<close>

record ini_fs =
  fs_lines :: "string list option"
  fs_mtime :: nat
  fs_now :: nat
  fs_writable :: bool
  fs_blank :: bool

record config_state =
  gLoaded :: bool
  gMtime :: nat
  gEnabled :: bool
  gOverrideFreqs :: "HocClkModule \<Rightarrow> u32"
  gProfileMHzMap :: "u64 \<times> HocClkProfile \<times> HocClkModule \<Rightarrow> u32 option"
  gProfileCountMap :: "u64 \<Rightarrow> u8 option"
  configValues :: "HocClkConfigValue \<Rightarrow> u64"
  gFs :: ini_fs

type_synonym title_profiles = "HocClkProfile \<Rightarrow> HocClkModule \<Rightarrow> u32"

definition CONFIG_VAL_SECTION :: string where
  "CONFIG_VAL_SECTION = ''values''"

definition HOCCLK_GLOBAL_PROFILE_TID :: u64 where
  "HOCCLK_GLOBAL_PROFILE_TID = 0xA111111111111111"

section \<open>The file\<close>

definition CheckModificationTime :: "config_state \<Rightarrow> nat" where
  "CheckModificationTime s = (case fs_lines (gFs s) of None \<Rightarrow> 0 | Some _ \<Rightarrow> fs_mtime (gFs s))"

text \<open>\<open>ini_putsection\<close> on the file: it fails only when the file cannot be written.\<close>

definition fs_putsection ::
  "string \<Rightarrow> (string \<times> string) list \<Rightarrow> ini_fs \<Rightarrow> ini_fs option" where
  "fs_putsection sec kvs fs =
     (if \<not> fs_writable fs then None
      else Some (fs\<lparr>fs_lines := Some (case fs_lines fs of
                       None \<Rightarrow> putsection sec kvs
                     | Some f \<Rightarrow> ini_putsection (fs_blank fs) sec kvs f),
                    fs_mtime := fs_now fs\<rparr>))"

section \<open>Lookups\<close>

definition FindClockMHz :: "config_state \<Rightarrow> u64 \<Rightarrow> HocClkModule \<Rightarrow> HocClkProfile \<Rightarrow> u32" where
  "FindClockMHz s tid module profile =
     (if gLoaded s then
        (case gProfileMHzMap s (tid, profile, module) of Some mhz \<Rightarrow> mhz | None \<Rightarrow> 0)
      else 0)"

fun first_clock :: "config_state \<Rightarrow> u64 \<Rightarrow> HocClkModule \<Rightarrow> HocClkProfile list \<Rightarrow> u32" where
  "first_clock s tid module [] = 0"
| "first_clock s tid module (p # ps) =
     (let mhz = FindClockMHz s tid module p in if mhz \<noteq> 0 then mhz else first_clock s tid module ps)"

definition FindClockHzFromProfiles ::
  "config_state \<Rightarrow> u64 \<Rightarrow> HocClkModule \<Rightarrow> HocClkProfile list \<Rightarrow> u32 \<Rightarrow> u32" where
  "FindClockHzFromProfiles s tid module profiles mhzMultiplier =
     (let mhz = (if gLoaded s then first_clock s tid module profiles else 0)
      in max 0 (mhz * mhzMultiplier))"

fun GetAutoClockHz ::
  "config_state \<Rightarrow> u64 \<Rightarrow> HocClkModule \<Rightarrow> HocClkProfile \<Rightarrow> bool \<Rightarrow> u32" where
  "GetAutoClockHz s tid module HocClkProfile_Handheld returnRaw =
     FindClockHzFromProfiles s tid module [HocClkProfile_Handheld] (if returnRaw then 1 else 1000000)"
| "GetAutoClockHz s tid module HocClkProfile_HandheldCharging returnRaw =
     FindClockHzFromProfiles s tid module
       [HocClkProfile_HandheldChargingUSB, HocClkProfile_HandheldCharging, HocClkProfile_Handheld]
       (if returnRaw then 1 else 1000000)"
| "GetAutoClockHz s tid module HocClkProfile_HandheldChargingUSB returnRaw =
     FindClockHzFromProfiles s tid module
       [HocClkProfile_HandheldChargingUSB, HocClkProfile_HandheldCharging, HocClkProfile_Handheld]
       (if returnRaw then 1 else 1000000)"
| "GetAutoClockHz s tid module HocClkProfile_HandheldChargingOfficial returnRaw =
     FindClockHzFromProfiles s tid module
       [HocClkProfile_HandheldChargingOfficial, HocClkProfile_HandheldCharging,
        HocClkProfile_Handheld] (if returnRaw then 1 else 1000000)"
| "GetAutoClockHz s tid module HocClkProfile_Docked returnRaw =
     FindClockHzFromProfiles s tid module [HocClkProfile_Docked] (if returnRaw then 1 else 1000000)"

section \<open>Loading\<close>

definition profile_key :: "HocClkProfile \<Rightarrow> HocClkModule \<Rightarrow> string" where
  "profile_key p m = hocclkFormatProfile p False @ ''_'' @ hocclkFormatModule m False"

definition key_matches :: "string \<Rightarrow> HocClkProfile \<Rightarrow> HocClkModule \<Rightarrow> bool" where
  "key_matches key p m =
     (case strip_prefix (hocclkFormatProfile p False) key of
        Some (c # subkey) \<Rightarrow> c = CHR ''_'' \<and> subkey = hocclkFormatModule m False
      | _ \<Rightarrow> False)"

text \<open>The two nested loops of \<open>BrowseIniFunc\<close>: the last match wins.\<close>

definition parse_profile_key :: "string \<Rightarrow> (HocClkProfile \<times> HocClkModule) option" where
  "parse_profile_key key =
     fold (\<lambda>p acc. fold (\<lambda>m acc. if key_matches key p m then Some (p, m) else acc) all_modules acc)
       all_profiles None"

definition parse_tid :: "string \<Rightarrow> u64 option" where
  "parse_tid section =
     (let tid = strtoul section 16 in if tid = 0 \<or> length section \<noteq> 16 then None else Some tid)"

definition parse_config_value :: "HocClkConfigValue \<Rightarrow> string \<Rightarrow> u64" where
  "parse_config_value kval value =
     (let input = strtoul value 0
      in if hocclkValidConfigValue kval input then input else hocclkDefaultConfigValue kval)"

definition BrowseIniFunc :: "string \<times> string \<times> string \<Rightarrow> config_state \<Rightarrow> config_state" where
  "BrowseIniFunc e s =
     (case e of (section, key, value) \<Rightarrow>
        if section = CONFIG_VAL_SECTION then
          (case find (\<lambda>kval. key = hocclkFormatConfigValue kval False) all_config_values of
             Some kval \<Rightarrow>
               s\<lparr>configValues := (configValues s)(kval := parse_config_value kval value)\<rparr>
           | None \<Rightarrow> s)
        else
          (case parse_tid section of
             None \<Rightarrow> s
           | Some tid \<Rightarrow>
               (case parse_profile_key key of
                  None \<Rightarrow> s
                | Some (profile, module) \<Rightarrow>
                    (let mhz = (ucast (strtoul value 10) :: u32) in
                     if mhz = 0 then s
                     else s\<lparr>gProfileMHzMap := (gProfileMHzMap s)((tid, profile, module) \<mapsto> mhz),
                            gProfileCountMap := (gProfileCountMap s)(tid \<mapsto>
                              (case gProfileCountMap s tid of None \<Rightarrow> 1 | Some c \<Rightarrow> c + 1))\<rparr>))))"

definition Close :: "config_state \<Rightarrow> config_state" where
  "Close s = s\<lparr>gLoaded := False, gProfileMHzMap := Map.empty, gProfileCountMap := Map.empty,
     configValues := hocclkDefaultConfigValue\<rparr>"

definition Load :: "config_state \<Rightarrow> config_state" where
  "Load s =
     (let s1 = Close s;
          s2 = s1\<lparr>gMtime := CheckModificationTime s1\<rparr>;
          s3 = (if gMtime s2 = 0 then s2
                else (case fs_lines (gFs s2) of
                        None \<Rightarrow> s2
                      | Some f \<Rightarrow> fold BrowseIniFunc (ini_entries [] f) s2))
      in s3\<lparr>gLoaded := True\<rparr>)"

definition Initialize :: "config_state \<Rightarrow> config_state" where
  "Initialize s = s\<lparr>gLoaded := False, gProfileMHzMap := Map.empty, gProfileCountMap := Map.empty,
     gMtime := 0, gEnabled := False, gOverrideFreqs := (\<lambda>_. 0),
     configValues := hocclkDefaultConfigValue\<rparr>"

definition Exit :: "config_state \<Rightarrow> config_state" where
  "Exit s = Close s"

definition Refresh :: "config_state \<Rightarrow> bool \<times> config_state" where
  "Refresh s =
     (if \<not> gLoaded s \<or> gMtime s \<noteq> CheckModificationTime s then (True, Load s) else (False, s))"

section \<open>Profiles, overrides and values\<close>

definition HasProfilesLoaded :: "config_state \<Rightarrow> bool" where
  "HasProfilesLoaded s = gLoaded s"

definition GetProfiles :: "config_state \<Rightarrow> u64 \<Rightarrow> title_profiles" where
  "GetProfiles s tid = (\<lambda>profile module. FindClockMHz s tid module profile)"

text \<open>The grid of the profile list in the order the code walks it.\<close>

definition profile_grid :: "(HocClkProfile \<times> HocClkModule) list" where
  "profile_grid = concat (map (\<lambda>p. map (\<lambda>m. (p, m)) all_modules) all_profiles)"

definition profile_keys :: "title_profiles \<Rightarrow> (string \<times> string) list" where
  "profile_keys profiles =
     map (\<lambda>(p, m). (profile_key p m, to_string (unat (profiles p m))))
       (filter (\<lambda>(p, m). profiles p m \<noteq> 0) profile_grid)"

definition SetProfiles ::
  "u64 \<Rightarrow> title_profiles \<Rightarrow> bool \<Rightarrow> config_state \<Rightarrow> bool \<times> config_state" where
  "SetProfiles tid profiles immediate s =
     (case fs_putsection (format_016lX tid) (profile_keys profiles) (gFs s) of
        None \<Rightarrow> (False, s)
      | Some fs \<Rightarrow>
          (let s1 = s\<lparr>gFs := fs\<rparr> in
           if \<not> immediate then (True, s1)
           else
             (True,
              s1\<lparr>gProfileCountMap := (gProfileCountMap s1)(tid \<mapsto>
                   of_nat (length (profile_keys profiles))),
                 gProfileMHzMap := fold (\<lambda>(p, m) mm.
                   if profiles p m \<noteq> 0 then mm((tid, p, m) \<mapsto> profiles p m)
                   else mm((tid, p, m) := None)) profile_grid (gProfileMHzMap s1)\<rparr>)))"

definition GetProfileCount :: "config_state \<Rightarrow> u64 \<Rightarrow> u8" where
  "GetProfileCount s tid = (case gProfileCountMap s tid of None \<Rightarrow> 0 | Some c \<Rightarrow> c)"

definition SetEnabled :: "bool \<Rightarrow> config_state \<Rightarrow> config_state" where
  "SetEnabled enabled s = s\<lparr>gEnabled := enabled\<rparr>"

definition Enabled :: "config_state \<Rightarrow> bool" where
  "Enabled s = gEnabled s"

definition SetOverrideHz :: "HocClkModule \<Rightarrow> u32 \<Rightarrow> config_state \<Rightarrow> config_state" where
  "SetOverrideHz module hz s = s\<lparr>gOverrideFreqs := (gOverrideFreqs s)(module := hz)\<rparr>"

definition GetOverrideHz :: "config_state \<Rightarrow> HocClkModule \<Rightarrow> u32" where
  "GetOverrideHz s module = gOverrideFreqs s module"

definition GetConfigValue :: "config_state \<Rightarrow> HocClkConfigValue \<Rightarrow> u64" where
  "GetConfigValue s kval = configValues s kval"

definition GetConfigValues :: "config_state \<Rightarrow> HocClkConfigValue \<Rightarrow> u64" where
  "GetConfigValues s = (\<lambda>kval. configValues s kval)"

definition config_keys :: "(HocClkConfigValue \<Rightarrow> u64) \<Rightarrow> (string \<times> string) list" where
  "config_keys values =
     map (\<lambda>k. (hocclkFormatConfigValue k False, to_string (unat (values k))))
       (filter (\<lambda>k. \<not> (\<not> hocclkValidConfigValue k (values k) \<or>
          values k = hocclkDefaultConfigValue k)) all_config_values)"

definition SetConfigValues ::
  "(HocClkConfigValue \<Rightarrow> u64) \<Rightarrow> bool \<Rightarrow> config_state \<Rightarrow> bool \<times> config_state" where
  "SetConfigValues values immediate s =
     (case fs_putsection CONFIG_VAL_SECTION (config_keys values) (gFs s) of
        None \<Rightarrow> (False, s)
      | Some fs \<Rightarrow>
          (let s1 = s\<lparr>gFs := fs\<rparr> in
           if \<not> immediate then (True, s1)
           else (True, s1\<lparr>configValues := (\<lambda>k. if hocclkValidConfigValue k (values k) then values k
                                               else hocclkDefaultConfigValue k)\<rparr>)))"

definition ResetConfigValue :: "HocClkConfigValue \<Rightarrow> config_state \<Rightarrow> bool \<times> config_state" where
  "ResetConfigValue kval s =
     (case fs_putsection CONFIG_VAL_SECTION [(hocclkFormatConfigValue kval False, '''')] (gFs s) of
        None \<Rightarrow> (False, s)
      | Some fs \<Rightarrow>
          (True, s\<lparr>gFs := fs,
             configValues := (configValues s)(kval := hocclkDefaultConfigValue kval)\<rparr>))"

definition SetConfigValue ::
  "HocClkConfigValue \<Rightarrow> u64 \<Rightarrow> bool \<Rightarrow> config_state \<Rightarrow> bool \<times> config_state" where
  "SetConfigValue kval value immediate s =
     (if \<not> hocclkValidConfigValue kval value then (False, s)
      else
        (case fs_putsection CONFIG_VAL_SECTION
                [(hocclkFormatConfigValue kval False, to_string (unat value))] (gFs s) of
           None \<Rightarrow> (False, s)
         | Some fs \<Rightarrow>
             (let s1 = s\<lparr>gFs := fs\<rparr> in
              (True, if immediate then s1\<lparr>configValues := (configValues s1)(kval := value)\<rparr>
                     else s1))))"

section \<open>Keys\<close>

lemma plain_append [simp]: "plain (s @ t) \<longleftrightarrow> plain s \<and> plain t"
  by (auto simp: plain_def)

lemma plain_config_keys: "list_all (\<lambda>k. plain (hocclkFormatConfigValue k False) \<and>
    hocclkFormatConfigValue k False \<noteq> []) all_config_values"
  by code_simp

lemma plain_config_key [simp]:
  "plain (hocclkFormatConfigValue k False)" "hocclkFormatConfigValue k False \<noteq> []"
  using plain_config_keys by (auto simp: list_all_iff)

lemma plain_digit: "d < 16 \<Longrightarrow> plain_char (digit_char d)"
  using of_char_digit [of d] by (auto simp: plain_char_def is_blank_def split: if_splits)

lemma plain_to_string [simp]: "plain (to_string n)"
  using digits_rev_bound [of n] plain_digit by (fastforce simp: plain_def to_string_def)

lemma plain_format_016lX [simp]: "plain (format_016lX tid)" "format_016lX tid \<noteq> []"
proof -
  show "plain (format_016lX tid)"
    using hex_rev_bound [of 16 "unat tid"] plain_digit
    by (fastforce simp: plain_def format_016lX_def)
  show "format_016lX tid \<noteq> []"
    using length_format_016lX [of tid] by (metis list.size(3) zero_neq_numeral)
qed

lemma plain_profile_key [simp]: "plain (profile_key p m)" "profile_key p m \<noteq> []"
  by (cases p; cases m; simp add: profile_key_def plain_def plain_char_def is_blank_def)+

lemma plain_values_section [simp]: "plain CONFIG_VAL_SECTION" "CONFIG_VAL_SECTION \<noteq> []"
  by (simp_all add: CONFIG_VAL_SECTION_def plain_def plain_char_def is_blank_def)

lemma config_keys_plain: "\<forall>kv\<in>set (config_keys values). plain_pair kv"
  by (auto simp: config_keys_def plain_pair_def)

lemma profile_keys_plain: "\<forall>kv\<in>set (profile_keys profiles). plain_pair kv"
  by (auto simp: profile_keys_def plain_pair_def)

lemma format_tid_not_values [simp]: "format_016lX tid \<noteq> CONFIG_VAL_SECTION"
  by (auto simp: CONFIG_VAL_SECTION_def dest: arg_cong [where f = length])

lemma key_matches_iff: "key_matches key p m \<longleftrightarrow> key = profile_key p m"
  by (auto simp: key_matches_def profile_key_def strip_prefix_Some split: option.splits list.splits)

lemma profile_key_inject: "profile_key p m = profile_key q n \<longleftrightarrow> p = q \<and> m = n"
  by (cases p; cases m; cases q; cases n; simp add: profile_key_def)

lemma set_profile_grid [simp]: "set profile_grid = UNIV"
proof -
  have "(p, m) \<in> set profile_grid" for p m
    by (cases p; cases m; simp add: profile_grid_def all_profiles_def all_modules_def)
  then show ?thesis by auto
qed

lemma distinct_profile_grid [simp]: "distinct profile_grid"
  by (simp add: profile_grid_def all_profiles_def all_modules_def)

text \<open>
  The key of a profile and a module is parsed back as exactly these two, although the profile
  names are prefixes of one another.
\<close>

lemma parse_profile_key_round [simp]: "parse_profile_key (profile_key p m) = Some (p, m)"
  unfolding parse_profile_key_def key_matches_iff profile_key_inject
  by (cases p; cases m; simp add: all_profiles_def all_modules_def)

lemma parse_profile_key_Some:
  assumes "parse_profile_key key = Some (p, m)"
  shows "key = profile_key p m"
proof -
  have "parse_profile_key key = None" if "\<nexists>p m. key = profile_key p m"
    using that unfolding parse_profile_key_def key_matches_iff
    by (simp add: all_profiles_def all_modules_def)
  with assms obtain q n where "key = profile_key q n" by fastforce
  with assms show ?thesis by simp
qed

lemma find_config_key [simp]:
  "find (\<lambda>k. hocclkFormatConfigValue v False = hocclkFormatConfigValue k False) all_config_values
    = Some v"
proof -
  have "find (\<lambda>k. v = k) all_config_values \<noteq> None"
    by (simp add: find_None_iff)
  then obtain w where w: "find (\<lambda>k. v = k) all_config_values = Some w" by blast
  then have "v = w" by (auto simp: find_Some_iff)
  with w show ?thesis by (simp add: config_key_inject)
qed

section \<open>What loading does to the values\<close>

definition value_step ::
  "string \<times> string \<Rightarrow> (HocClkConfigValue \<Rightarrow> u64) \<Rightarrow> (HocClkConfigValue \<Rightarrow> u64)" where
  "value_step kv cv =
     (case find (\<lambda>kval. fst kv = hocclkFormatConfigValue kval False) all_config_values of
        Some kval \<Rightarrow> cv(kval := parse_config_value kval (snd kv))
      | None \<Rightarrow> cv)"

lemma section_entries_Cons:
  "section_entries s (e # es) =
    (if fst e = s then snd e # section_entries s es else section_entries s es)"
  by (simp add: section_entries_def)

lemma section_entries_Nil [simp]: "section_entries s [] = []"
  by (simp add: section_entries_def)

lemma browse_values:
  "configValues (BrowseIniFunc e s) =
    (if fst e = CONFIG_VAL_SECTION then value_step (snd e) (configValues s) else configValues s)"
  by (auto simp: BrowseIniFunc_def value_step_def Let_def split: prod.splits option.splits)

lemma fold_browse_values:
  "configValues (fold BrowseIniFunc es s) =
    fold value_step (section_entries CONFIG_VAL_SECTION es) (configValues s)"
  by (induction es arbitrary: s) (auto simp: browse_values section_entries_Cons)

lemma browse_frame [frame]:
  "gFs (BrowseIniFunc e s) = gFs s" "gEnabled (BrowseIniFunc e s) = gEnabled s"
  "gOverrideFreqs (BrowseIniFunc e s) = gOverrideFreqs s" "gMtime (BrowseIniFunc e s) = gMtime s"
  by (auto simp: BrowseIniFunc_def Let_def split: prod.splits option.splits)

lemma fold_browse_frame [frame]:
  "gFs (fold BrowseIniFunc es s) = gFs s" "gEnabled (fold BrowseIniFunc es s) = gEnabled s"
  "gOverrideFreqs (fold BrowseIniFunc es s) = gOverrideFreqs s"
  "gMtime (fold BrowseIniFunc es s) = gMtime s"
  by (rule fold_frame, simp add: frame)+

lemma Close_simps [simp]:
  "gFs (Close s) = gFs s" "gEnabled (Close s) = gEnabled s" "gMtime (Close s) = gMtime s"
  "gOverrideFreqs (Close s) = gOverrideFreqs s" "configValues (Close s) = hocclkDefaultConfigValue"
  "gProfileMHzMap (Close s) = Map.empty" "gProfileCountMap (Close s) = Map.empty"
  by (simp_all add: Close_def)

lemma CheckModificationTime_cong: "gFs s = gFs t \<Longrightarrow> CheckModificationTime s = CheckModificationTime t"
  by (simp add: CheckModificationTime_def split: option.splits)

definition loaded_lines :: "config_state \<Rightarrow> string list" where
  "loaded_lines s = (case fs_lines (gFs s) of None \<Rightarrow> [] | Some f \<Rightarrow>
     if fs_mtime (gFs s) = 0 then [] else f)"

lemma Load_eq:
  "Load s = (fold BrowseIniFunc (ini_entries [] (loaded_lines s))
     ((Close s)\<lparr>gMtime := CheckModificationTime s\<rparr>))\<lparr>gLoaded := True\<rparr>"
  by (auto simp: Load_def Let_def loaded_lines_def CheckModificationTime_def split: option.splits)

lemma Load_values:
  "configValues (Load s) =
    fold value_step (section_entries CONFIG_VAL_SECTION (ini_entries [] (loaded_lines s)))
      hocclkDefaultConfigValue"
  by (simp add: Load_eq fold_browse_values)

lemma Load_frame [frame]:
  "gFs (Load s) = gFs s" "gEnabled (Load s) = gEnabled s" "gOverrideFreqs (Load s) = gOverrideFreqs s"
  "gLoaded (Load s)" "gMtime (Load s) = CheckModificationTime s"
  by (simp_all add: Load_eq frame)

lemma value_step_key:
  "value_step (hocclkFormatConfigValue k False, v) cv = cv(k := parse_config_value k v)"
  by (simp add: value_step_def)

lemma fold_value_step_keys:
  "distinct ks \<Longrightarrow> fold value_step (map (\<lambda>k. (hocclkFormatConfigValue k False, g k)) ks) cv =
    (\<lambda>k. if k \<in> set ks then parse_config_value k (g k) else cv k)"
  by (induction ks arbitrary: cv) (auto simp: value_step_key fun_eq_iff)

lemma parse_config_value_to_string:
  "parse_config_value k (to_string (unat x)) =
    (if hocclkValidConfigValue k x then x else hocclkDefaultConfigValue k)"
proof -
  have "unat x < 2 ^ 64" by (rule less_le_trans [OF unat_lt_u64]) simp
  then have "strtoul (to_string (unat x)) 0 = x"
    by (simp add: strtoul_to_string_0)
  then show ?thesis by (simp add: parse_config_value_def)
qed

section \<open>Saving and loading again\<close>

definition cfg_wf :: "config_state \<Rightarrow> bool" where
  "cfg_wf s \<longleftrightarrow> (case fs_lines (gFs s) of None \<Rightarrow> True | Some f \<Rightarrow> wf_ini f)"

definition stored_section :: "string \<Rightarrow> config_state \<Rightarrow> (string \<times> string) list" where
  "stored_section sec s = section_entries sec (ini_entries [] (loaded_lines s))"

text \<open>A missing file behaves as an empty one: the rewrite of the store covers both.\<close>

definition fs_content :: "ini_fs \<Rightarrow> string list" where
  "fs_content fs = (case fs_lines fs of None \<Rightarrow> [] | Some f \<Rightarrow> f)"

lemma fs_putsection_content:
  assumes "fs_putsection sec kvs fs = Some fs'"
  obtains b where "fs_lines fs' = Some (ini_putsection b sec kvs (fs_content fs))"
    "fs_mtime fs' = fs_now fs" "fs_now fs' = fs_now fs" "fs_writable fs"
proof (cases "fs_lines fs")
  case None
  have "putsection sec kvs = ini_putsection False sec kvs []"
    by (simp add: ini_putsection_def)
  with assms None show thesis
    by (intro that [of False]) (auto simp: fs_putsection_def fs_content_def split: if_splits)
next
  case (Some f)
  with assms show thesis
    by (intro that [of "fs_blank fs"]) (auto simp: fs_putsection_def fs_content_def split: if_splits)
qed

lemma wf_ini_Nil [simp]: "wf_ini []"
  by (simp add: wf_ini_def)

lemma cfg_wf_content: "cfg_wf s \<longleftrightarrow> wf_ini (fs_content (gFs s))"
  by (simp add: cfg_wf_def fs_content_def split: option.splits)

lemma stored_after_put:
  assumes "cfg_wf s" "fs_putsection sec kvs (gFs s) = Some fs'" "gFs t = fs'" "fs_now (gFs s) > 0"
    and "plain sec" "sec \<noteq> []" "\<forall>kv\<in>set kvs. plain_pair kv"
  shows "stored_section sec t = kvs" "cfg_wf t"
proof -
  obtain b where b: "fs_lines fs' = Some (ini_putsection b sec kvs (fs_content (gFs s)))"
    "fs_mtime fs' = fs_now (gFs s)" by (rule fs_putsection_content [OF assms(2)])
  then have "loaded_lines t = ini_putsection b sec kvs (fs_content (gFs s))"
    using assms(3,4) by (simp add: loaded_lines_def)
  then show "stored_section sec t = kvs"
    using assms(1,5,6,7) by (simp add: stored_section_def cfg_wf_content ini.put_same)
  show "cfg_wf t"
    using assms(1,3,5,7) b by (simp add: cfg_wf_content fs_content_def [of fs'] ini.put_wf)
qed

lemma stored_other_after_put:
  assumes "cfg_wf s" "fs_putsection sec kvs (gFs s) = Some fs'" "gFs t = fs'" "fs_now (gFs s) > 0"
    and "plain sec" "\<forall>kv\<in>set kvs. plain_pair kv" "map upper sec' \<noteq> map upper sec"
  shows "stored_section sec' t = section_entries sec' (ini_entries [] (fs_content (gFs s)))"
proof -
  obtain b where b: "fs_lines fs' = Some (ini_putsection b sec kvs (fs_content (gFs s)))"
    "fs_mtime fs' = fs_now (gFs s)" by (rule fs_putsection_content [OF assms(2)])
  then have "loaded_lines t = ini_putsection b sec kvs (fs_content (gFs s))"
    using assms(3,4) by (simp add: loaded_lines_def)
  then show ?thesis
    using assms(1,5-7) by (simp add: stored_section_def cfg_wf_content ini.put_other)
qed

lemma Load_values_stored:
  "configValues (Load s) = fold value_step (stored_section CONFIG_VAL_SECTION s) hocclkDefaultConfigValue"
  by (simp add: Load_values stored_section_def)

lemma fold_config_keys:
  "fold value_step (config_keys values) hocclkDefaultConfigValue =
    (\<lambda>k. if hocclkValidConfigValue k (values k) then values k else hocclkDefaultConfigValue k)"
  unfolding config_keys_def
  by (subst fold_value_step_keys) (auto simp: fun_eq_iff parse_config_value_to_string)

text \<open>
  C3. Saving the configuration values and reading the file back gives exactly the values the
  running sysmodule holds after the save: the valid ones as given, the default for every other.
\<close>

theorem config_values_round_trip:
  assumes "cfg_wf s" "fs_now (gFs s) > 0" "SetConfigValues values True s = (True, t)"
  shows "configValues (Load t) = configValues t \<and>
    configValues t = (\<lambda>k. if hocclkValidConfigValue k (values k) then values k
      else hocclkDefaultConfigValue k)"
proof -
  obtain fs where fs: "fs_putsection CONFIG_VAL_SECTION (config_keys values) (gFs s) = Some fs"
    and t: "gFs t = fs" "configValues t = (\<lambda>k. if hocclkValidConfigValue k (values k) then values k
           else hocclkDefaultConfigValue k)"
    using assms(3) by (auto simp: SetConfigValues_def Let_def split: option.splits)
  have "stored_section CONFIG_VAL_SECTION t = config_keys values"
    by (rule stored_after_put [OF assms(1) fs t(1) assms(2)]) (simp_all add: config_keys_plain)
  then show ?thesis
    by (simp add: Load_values_stored fold_config_keys t(2))
qed

text \<open>
  \<open>SetConfigValue\<close> rewrites the whole section with its one key: once the file is loaded
  again, every other value is back at its default, whatever had been saved before.
\<close>

lemma set_config_value_drops_the_others:
  assumes "cfg_wf s" "fs_now (gFs s) > 0" "SetConfigValue kval value immediate s = (True, t)"
  shows "configValues (Load t) = hocclkDefaultConfigValue(kval := value)"
proof -
  define kvs where "kvs = [(hocclkFormatConfigValue kval False, to_string (unat value))]"
  obtain fs where fs: "fs_putsection CONFIG_VAL_SECTION kvs (gFs s) = Some fs"
    and t: "gFs t = fs" and v: "hocclkValidConfigValue kval value"
    using assms(3) by (auto simp: SetConfigValue_def kvs_def Let_def split: option.splits if_splits)
  have "stored_section CONFIG_VAL_SECTION t = kvs"
    by (rule stored_after_put [OF assms(1) fs t assms(2)]) (simp_all add: kvs_def plain_pair_def)
  then show ?thesis
    using v by (simp add: Load_values_stored kvs_def value_step_key parse_config_value_to_string)
qed

text \<open>
  \<open>ResetConfigValue\<close> stores the empty string, which is read back as 0: after the next load
  the value is 0 wherever 0 is valid, not the default the operation has set in memory.
\<close>

lemma reset_config_value_reloads_zero:
  assumes "cfg_wf s" "fs_now (gFs s) > 0" "ResetConfigValue kval s = (True, t)"
  shows "configValues t kval = hocclkDefaultConfigValue kval \<and>
    configValues (Load t) kval =
      (if hocclkValidConfigValue kval 0 then 0 else hocclkDefaultConfigValue kval)"
proof -
  obtain fs where
    fs: "fs_putsection CONFIG_VAL_SECTION [(hocclkFormatConfigValue kval False, [])] (gFs s) = Some fs"
    and t: "gFs t = fs" and v: "configValues t kval = hocclkDefaultConfigValue kval"
    using assms(3) by (auto simp: ResetConfigValue_def split: option.splits)
  have "stored_section CONFIG_VAL_SECTION t = [(hocclkFormatConfigValue kval False, [])]"
    by (rule stored_after_put [OF assms(1) fs t assms(2)]) (simp_all add: plain_pair_def)
  moreover have "strtoul [] 0 = 0"
    by (simp add: strtoul_def scan_sign_def scan_base_def has_hex_prefix_def)
  ultimately show ?thesis
    by (simp add: Load_values_stored value_step_key parse_config_value_def v)
qed

section \<open>Saving and loading the profiles of a title\<close>

text \<open>What an entry does to the profile clocks of its title.\<close>

definition profile_step :: "u64 \<Rightarrow> string \<times> string \<Rightarrow>
    (u64 \<times> HocClkProfile \<times> HocClkModule \<Rightarrow> u32 option) \<Rightarrow>
    (u64 \<times> HocClkProfile \<times> HocClkModule \<Rightarrow> u32 option)" where
  "profile_step tid kv mm =
     (case parse_profile_key (fst kv) of
        None \<Rightarrow> mm
      | Some (profile, module) \<Rightarrow>
          (let mhz = (ucast (strtoul (snd kv) 10) :: u32)
           in if mhz = 0 then mm else mm((tid, profile, module) \<mapsto> mhz)))"

text \<open>The title a section belongs to; the values section belongs to none.\<close>

definition title_of_section :: "string \<Rightarrow> u64 option" where
  "title_of_section sec = (if sec = CONFIG_VAL_SECTION then None else parse_tid sec)"

lemma browse_profiles:
  "gProfileMHzMap (BrowseIniFunc e s) =
    (case title_of_section (fst e) of
       None \<Rightarrow> gProfileMHzMap s
     | Some tid \<Rightarrow> profile_step tid (snd e) (gProfileMHzMap s))"
  by (auto simp: BrowseIniFunc_def title_of_section_def profile_step_def Let_def
      split: prod.splits option.splits)

lemma fold_browse_profiles:
  "gProfileMHzMap (fold BrowseIniFunc es s) (tid, p, m) =
    fold (profile_step tid) (map snd (filter (\<lambda>e. title_of_section (fst e) = Some tid) es))
      (gProfileMHzMap s) (tid, p, m)"
proof -
  have other: "profile_step t kv mm (tid, p, m) = mm (tid, p, m)" if "t \<noteq> tid" for t kv mm
    using that by (auto simp: profile_step_def Let_def split: option.splits)
  have local: "fold (profile_step tid) kvs mm (tid, p, m) = fold (profile_step tid) kvs mm' (tid, p, m)"
    if "\<forall>q n. mm (tid, q, n) = mm' (tid, q, n)" for kvs mm mm'
    using that
  proof (induction kvs arbitrary: mm mm')
    case (Cons kv kvs)
    have "\<forall>q n. profile_step tid kv mm (tid, q, n) = profile_step tid kv mm' (tid, q, n)"
      using Cons.prems by (auto simp: profile_step_def Let_def split: option.splits)
    then show ?case using Cons.IH by simp
  qed simp
  have keep: "\<forall>q n. profile_step t kv mm (tid, q, n) = mm (tid, q, n)" if "t \<noteq> tid" for t kv mm
    using that by (auto simp: profile_step_def Let_def split: option.splits)
  show ?thesis
  proof (induction es arbitrary: s)
    case (Cons e es)
    show ?case
    proof (cases "title_of_section (fst e)")
      case (Some t)
      show ?thesis
      proof (cases "t = tid")
        case False
        then have "\<forall>q n. profile_step t (snd e) (gProfileMHzMap s) (tid, q, n) =
            gProfileMHzMap s (tid, q, n)" by (rule keep)
        from local [OF this] Some False Cons.IH [of "BrowseIniFunc e s"] show ?thesis
          by (simp add: browse_profiles)
      qed (use Some Cons.IH in \<open>simp add: browse_profiles\<close>)
    qed (use Cons.IH in \<open>simp add: browse_profiles\<close>)
  qed simp
qed

definition title_entries :: "u64 \<Rightarrow> string list \<Rightarrow> (string \<times> string) list" where
  "title_entries tid f =
     map snd (filter (\<lambda>e. title_of_section (fst e) = Some tid) (ini_entries [] f))"

lemma Load_profiles:
  "gProfileMHzMap (Load s) (tid, p, m) =
    fold (profile_step tid) (title_entries tid (loaded_lines s)) Map.empty (tid, p, m)"
  by (simp add: Load_eq fold_browse_profiles title_entries_def)

lemma GetProfiles_Load:
  "GetProfiles (Load s) tid p m =
    (case fold (profile_step tid) (title_entries tid (loaded_lines s)) Map.empty (tid, p, m) of
       Some mhz \<Rightarrow> mhz | None \<Rightarrow> 0)"
  by (simp add: GetProfiles_def FindClockMHz_def frame Load_profiles)

text \<open>
  A canonical file names every title by its sixteen hexadecimal digits, in either case: what the
  program writes, and no second spelling of a title it would read as well.
\<close>

definition canonical_titles :: "string list \<Rightarrow> bool" where
  "canonical_titles f \<longleftrightarrow>
     (\<forall>l\<in>set f. case section_of l of
        None \<Rightarrow> True
      | Some h \<Rightarrow> (case title_of_section h of
          None \<Rightarrow> True | Some tid \<Rightarrow> map upper h = format_016lX tid))"

lemma upper_digit: "d < 16 \<Longrightarrow> upper (digit_char d) = digit_char d"
  by (simp add: upper_def of_char_digit)

lemma upper_format [simp]: "map upper (format_016lX tid) = format_016lX tid"
  using hex_rev_bound [of 16 "unat tid"] upper_digit by (simp add: format_016lX_def)

lemma title_of_format [simp]: "tid \<noteq> 0 \<Longrightarrow> title_of_section (format_016lX tid) = Some tid"
  by (simp add: title_of_section_def parse_tid_def strtoul_format_016lX)

lemma format_inject [simp]: "format_016lX a = format_016lX b \<longleftrightarrow> a = b"
  by (metis strtoul_format_016lX)

lemma title_of_Nil [simp]: "title_of_section [] = None"
  by (simp add: title_of_section_def parse_tid_def Let_def)

lemma canonical_titlesD:
  assumes "canonical_titles f" "l \<in> set f" "section_of l = Some h" "title_of_section h = Some tid"
  shows "map upper h = format_016lX tid"
proof -
  have "case section_of l of None \<Rightarrow> True | Some h \<Rightarrow> (case title_of_section h of
      None \<Rightarrow> True | Some tid \<Rightarrow> map upper h = format_016lX tid)"
    using assms(1,2) by (simp add: canonical_titles_def)
  with assms(3,4) show ?thesis by simp
qed

lemma canonical_putsection:
  assumes "wf_ini f" "canonical_titles f" "\<forall>kv\<in>set kvs. plain_pair kv"
  shows "canonical_titles (ini_putsection b (format_016lX tid) kvs f)"
  unfolding canonical_titles_def
proof
  fix l assume l: "l \<in> set (ini_putsection b (format_016lX tid) kvs f)"
  have "map upper h = format_016lX t"
    if h: "section_of l = Some h" and t: "title_of_section h = Some t" for h t
  proof (cases "h = format_016lX tid")
    case True
    with t have "t = tid"
      by (auto simp: title_of_section_def parse_tid_def strtoul_format_016lX Let_def split: if_splits)
    with True show ?thesis by simp
  next
    case False
    with putsection_headers [OF assms(1) plain_format_016lX(1) assms(3) l h]
    show ?thesis using canonical_titlesD [OF assms(2) _ h t] by blast
  qed
  then show "case section_of l of None \<Rightarrow> True | Some h \<Rightarrow> (case title_of_section h of
      None \<Rightarrow> True | Some tid \<Rightarrow> map upper h = format_016lX tid)"
    by (auto split: option.splits)
qed

lemma title_entries_own:
  assumes "wf_ini f" "canonical_titles f" "\<forall>kv\<in>set kvs. plain_pair kv" "tid \<noteq> 0"
  shows "title_entries tid (ini_putsection b (format_016lX tid) kvs f) = kvs"
proof -
  let ?g = "ini_putsection b (format_016lX tid) kvs f"
  have can: "canonical_titles ?g" by (rule canonical_putsection [OF assms(1-3)])
  have "title_of_section h = Some tid \<longleftrightarrow> h = format_016lX tid"
    if e: "(h, kv) \<in> set (ini_entries [] ?g)" for h kv
  proof
    assume t: "title_of_section h = Some tid"
    then have "h \<noteq> []" by auto
    then obtain l where l: "l \<in> set ?g" "section_of l = Some h"
      using ini_entries_sections [OF e] by auto
    then have "map upper h = format_016lX tid" by (rule canonical_titlesD [OF can _ _ t])
    with putsection_headers [OF assms(1) plain_format_016lX(1) assms(3) l]
    show "h = format_016lX tid" by auto
  qed (use assms(4) in simp)
  then have "filter (\<lambda>e. title_of_section (fst e) = Some tid) (ini_entries [] ?g) =
      filter (\<lambda>e. fst e = format_016lX tid) (ini_entries [] ?g)"
    by (intro filter_cong) auto
  then have "title_entries tid ?g = section_entries (format_016lX tid) (ini_entries [] ?g)"
    by (simp add: title_entries_def section_entries_def)
  then show ?thesis
    using assms by (simp add: putsection_own_section)
qed

lemma title_entries_other:
  assumes "wf_ini f" "canonical_titles f" "\<forall>kv\<in>set kvs. plain_pair kv" "tid' \<noteq> tid"
  shows "title_entries tid' (ini_putsection b (format_016lX tid) kvs f) = title_entries tid' f"
proof -
  define P where "P h \<longleftrightarrow> title_of_section h = Some tid' \<and> map upper h = format_016lX tid'" for h
  have canon: "title_entries tid' g = map snd (filter (\<lambda>e. P (fst e)) (ini_entries [] g))"
    if g: "canonical_titles g" for g
  proof -
    have "title_of_section h = Some tid' \<longleftrightarrow> P h" if e: "(h, kv) \<in> set (ini_entries [] g)" for h kv
    proof
      assume t: "title_of_section h = Some tid'"
      then have "h \<noteq> []" by auto
      then obtain l where "l \<in> set g" "section_of l = Some h"
        using ini_entries_sections [OF e] by auto
      with t canonical_titlesD [OF g] show "P h" by (simp add: P_def)
    qed (simp add: P_def)
    then have "filter (\<lambda>e. title_of_section (fst e) = Some tid') (ini_entries [] g) =
        filter (\<lambda>e. P (fst e)) (ini_entries [] g)"
      by (intro filter_cong) auto
    then show ?thesis by (simp add: title_entries_def)
  qed
  have "filter (\<lambda>e. P (fst e)) (ini_entries [] (ini_putsection b (format_016lX tid) kvs f)) =
      filter (\<lambda>e. P (fst e)) (ini_entries [] f)"
    by (rule putsection_filter [OF assms(1) _ assms(3)]) (use assms(4) in \<open>auto simp: P_def\<close>)
  then show ?thesis
    by (simp add: canon assms(2) canonical_putsection [OF assms(1-3)])
qed

lemma profile_step_key:
  "profile_step tid (profile_key p m, to_string (unat (x :: u32))) mm =
    (if x = 0 then mm else mm((tid, p, m) \<mapsto> x))"
proof -
  have lt: "unat x < 2 ^ 64"
    by (rule less_trans [OF unat_lt_u32]) simp
  have "(of_nat (unat x) :: u64) = ucast x" by simp
  then have "(ucast (strtoul (to_string (unat x)) 10) :: u32) = x"
    by (simp add: strtoul_to_string_10 [OF lt] del: of_nat_unat)
  then show ?thesis by (simp add: profile_step_def Let_def)
qed

lemma fold_profile_keys:
  assumes "distinct grid"
  shows "fold (profile_step tid)
      (map (\<lambda>(p, m). (profile_key p m, to_string (unat (profiles p m))))
        (filter (\<lambda>(p, m). profiles p m \<noteq> 0) grid)) mm (tid, p, m) =
    (if (p, m) \<in> set grid \<and> profiles p m \<noteq> 0 then Some (profiles p m) else mm (tid, p, m))"
  using assms
proof (induction grid arbitrary: mm)
  case (Cons g grid)
  then show ?case
    by (cases g; cases "g = (p, m)") (auto simp: profile_step_key)
qed simp

lemma fs_content_loaded:
  "fs_mtime (gFs s) > 0 \<or> fs_lines (gFs s) = None \<Longrightarrow> loaded_lines s = fs_content (gFs s)"
  by (auto simp: loaded_lines_def fs_content_def split: option.splits)

text \<open>
  C4. Saving the profiles of a title and reading the file back gives the saved clocks for that
  title, and every other title keeps the clocks it had in the file.
\<close>

theorem profiles_round_trip:
  assumes "cfg_wf s" "canonical_titles (fs_content (gFs s))" "fs_now (gFs s) > 0" "tid \<noteq> 0"
    and "SetProfiles tid profiles immediate s = (True, t)"
    and "fs_mtime (gFs s) > 0 \<or> fs_lines (gFs s) = None"
  shows "GetProfiles (Load t) =
    (\<lambda>tid'. if tid' = tid then profiles else GetProfiles (Load s) tid')"
proof -
  obtain fs where fs: "fs_putsection (format_016lX tid) (profile_keys profiles) (gFs s) = Some fs"
    and t: "gFs t = fs"
    using assms(5) by (auto simp: SetProfiles_def Let_def split: option.splits if_splits)
  obtain b where b: "fs_lines fs = Some (ini_putsection b (format_016lX tid) (profile_keys profiles)
      (fs_content (gFs s)))" "fs_mtime fs = fs_now (gFs s)" by (rule fs_putsection_content [OF fs])
  have lines: "loaded_lines t = ini_putsection b (format_016lX tid) (profile_keys profiles)
      (fs_content (gFs s))"
    using b t assms(3) by (simp add: loaded_lines_def)
  have wf: "wf_ini (fs_content (gFs s))" using assms(1) by (simp add: cfg_wf_content)
  have "title_entries tid (loaded_lines t) = profile_keys profiles"
    unfolding lines using wf assms(2,4) by (simp add: title_entries_own profile_keys_plain)
  then have "GetProfiles (Load t) tid = profiles"
    by (auto simp: fun_eq_iff GetProfiles_Load profile_keys_def fold_profile_keys)
  moreover have "GetProfiles (Load t) tid' = GetProfiles (Load s) tid'" if "tid' \<noteq> tid" for tid'
  proof -
    have "title_entries tid' (loaded_lines t) = title_entries tid' (loaded_lines s)"
      unfolding lines using that wf assms(2,6)
      by (simp add: title_entries_other profile_keys_plain fs_content_loaded)
    then show ?thesis by (simp add: fun_eq_iff GetProfiles_Load)
  qed
  ultimately show ?thesis by auto
qed

section \<open>Invariants\<close>

text \<open>
  Every operation of the component as one step, and any edit of the file from outside, such as a
  user editing it while the sysmodule runs.
\<close>

inductive config_step :: "config_state \<Rightarrow> config_state \<Rightarrow> bool" where
  refresh: "config_step s (snd (Refresh s))"
| "exit": "config_step s (Exit s)"
| set_profiles: "config_step s (snd (SetProfiles tid profiles immediate s))"
| set_enabled: "config_step s (SetEnabled enabled s)"
| set_override: "config_step s (SetOverrideHz module hz s)"
| set_values: "config_step s (snd (SetConfigValues values immediate s))"
| set_value: "config_step s (snd (SetConfigValue kval value immediate s))"
| reset_value: "config_step s (snd (ResetConfigValue kval s))"
| file_edit: "config_step s (s\<lparr>gFs := fs\<rparr>)"

inductive config_reachable :: "config_state \<Rightarrow> bool" where
  start: "config_reachable (Initialize s)"
| step: "config_reachable s \<Longrightarrow> config_step s t \<Longrightarrow> config_reachable t"

definition values_valid :: "config_state \<Rightarrow> bool" where
  "values_valid s \<longleftrightarrow> (\<forall>k. hocclkValidConfigValue k (configValues s k))"

definition no_zero_clock :: "config_state \<Rightarrow> bool" where
  "no_zero_clock s \<longleftrightarrow> (\<forall>k. gProfileMHzMap s k \<noteq> Some 0)"

lemma parse_config_value_valid: "hocclkValidConfigValue k (parse_config_value k v)"
  by (simp add: parse_config_value_def Let_def default_config_value_valid)

lemma fold_value_step_valid:
  "(\<forall>k. hocclkValidConfigValue k (cv k)) \<Longrightarrow>
     \<forall>k. hocclkValidConfigValue k (fold value_step kvs cv k)"
  by (induction kvs arbitrary: cv)
    (auto simp: value_step_def parse_config_value_valid split: option.splits)

lemma fold_browse_no_zero:
  "no_zero_clock s \<Longrightarrow> no_zero_clock (fold BrowseIniFunc es s)"
proof (induction es arbitrary: s)
  case (Cons e es)
  have "no_zero_clock (BrowseIniFunc e s)"
    using Cons.prems
    by (auto simp: no_zero_clock_def browse_profiles profile_step_def Let_def split: option.splits)
  then show ?case using Cons.IH by simp
qed simp

lemma Load_valid: "values_valid (Load s)"
  by (simp add: values_valid_def Load_values fold_value_step_valid default_config_value_valid)

lemma Load_no_zero: "no_zero_clock (Load s)"
proof -
  have "no_zero_clock (fold BrowseIniFunc (ini_entries [] (loaded_lines s))
      ((Close s)\<lparr>gMtime := CheckModificationTime s\<rparr>))"
    by (rule fold_browse_no_zero) (simp add: no_zero_clock_def)
  then show ?thesis by (simp add: no_zero_clock_def Load_eq)
qed

lemma SetProfiles_no_zero:
  "no_zero_clock s \<Longrightarrow> no_zero_clock (snd (SetProfiles tid profiles immediate s))"
proof -
  assume z: "no_zero_clock s"
  have "\<forall>k. fold (\<lambda>(p, m) mm. if profiles p m \<noteq> 0 then mm((tid, p, m) \<mapsto> profiles p m)
      else mm((tid, p, m) := None)) grid mm k \<noteq> Some 0" if "\<forall>k. mm k \<noteq> Some 0" for grid mm
    using that by (induction grid arbitrary: mm) (auto split: prod.splits)
  with z show ?thesis
    by (auto simp: no_zero_clock_def SetProfiles_def Let_def split: option.splits)
qed

lemmas config_update_defs = SetProfiles_def SetConfigValues_def SetConfigValue_def
  ResetConfigValue_def SetEnabled_def SetOverrideHz_def Exit_def Refresh_def

lemma config_step_invariant:
  assumes "config_step s t" "values_valid s" "no_zero_clock s"
  shows "values_valid t \<and> no_zero_clock t"
  using assms
proof (cases rule: config_step.cases)
  case refresh
  with assms show ?thesis by (simp add: Refresh_def Load_valid Load_no_zero)
next
  case (set_profiles tid profiles immediate)
  have "configValues (snd (SetProfiles tid profiles immediate s)) = configValues s"
    by (simp add: SetProfiles_def Let_def split: option.splits)
  with set_profiles assms show ?thesis
    using SetProfiles_no_zero by (auto simp: values_valid_def)
qed (auto simp: config_update_defs values_valid_def no_zero_clock_def default_config_value_valid
    Let_def split: option.splits)

text \<open>
  C34. In every state the component can reach, by any sequence of its operations and any edits of
  the file, each configuration value is valid and no stored profile clock is 0.
\<close>

theorem config_reachable_valid:
  assumes "config_reachable s"
  shows "(\<forall>k. hocclkValidConfigValue k (configValues s k)) \<and> (\<forall>k. gProfileMHzMap s k \<noteq> Some 0)"
proof -
  have "values_valid s \<and> no_zero_clock s"
    using assms
  proof (induction rule: config_reachable.induct)
    case (start s)
    show ?case
      by (simp add: values_valid_def no_zero_clock_def Initialize_def default_config_value_valid)
  qed (blast dest: config_step_invariant)
  then show ?thesis by (simp add: values_valid_def no_zero_clock_def)
qed

section \<open>Profile fallback\<close>

text \<open>The profiles a profile falls back to, in order: the charging variants end in the handheld one.\<close>

fun profile_chain :: "HocClkProfile \<Rightarrow> HocClkProfile list" where
  "profile_chain HocClkProfile_Handheld = [HocClkProfile_Handheld]"
| "profile_chain HocClkProfile_HandheldCharging =
     [HocClkProfile_HandheldChargingUSB, HocClkProfile_HandheldCharging, HocClkProfile_Handheld]"
| "profile_chain HocClkProfile_HandheldChargingUSB =
     [HocClkProfile_HandheldChargingUSB, HocClkProfile_HandheldCharging, HocClkProfile_Handheld]"
| "profile_chain HocClkProfile_HandheldChargingOfficial =
     [HocClkProfile_HandheldChargingOfficial, HocClkProfile_HandheldCharging, HocClkProfile_Handheld]"
| "profile_chain HocClkProfile_Docked = [HocClkProfile_Docked]"

lemma first_clock_find:
  "first_clock s tid module ps =
    (case find (\<lambda>q. FindClockMHz s tid module q \<noteq> 0) ps of
       None \<Rightarrow> 0 | Some q \<Rightarrow> FindClockMHz s tid module q)"
  by (induction ps) (auto simp: Let_def)

text \<open>
  The clock of a title under a profile is the first non-zero clock stored along the fallback
  chain of the profile, scaled to Hz (modulo 32 bits) unless the raw value is asked for, and 0
  when nothing is stored or loaded.
\<close>

lemma auto_clock_fallback:
  "GetAutoClockHz s tid module profile returnRaw =
    (case find (\<lambda>q. FindClockMHz s tid module q \<noteq> 0) (profile_chain profile) of
       None \<Rightarrow> 0
     | Some q \<Rightarrow> FindClockMHz s tid module q * (if returnRaw then 1 else 1000000))"
proof -
  have unloaded: "FindClockMHz s tid module q = 0" if "\<not> gLoaded s" for q
    using that by (simp add: FindClockMHz_def)
  have eq: "FindClockHzFromProfiles s tid module ps k =
      (case find (\<lambda>q. FindClockMHz s tid module q \<noteq> 0) ps of
         None \<Rightarrow> 0 | Some q \<Rightarrow> FindClockMHz s tid module q * k)" for ps k
    by (cases "gLoaded s")
      (auto simp: FindClockHzFromProfiles_def first_clock_find unloaded split: option.splits)
  show ?thesis
    by (cases profile) (simp_all only: GetAutoClockHz.simps profile_chain.simps eq)
qed

section \<open>The properties at work\<close>

text \<open>A configuration file with a value and one title, and the state after the start of the sysmodule.\<close>

definition demo_fs :: ini_fs where
  "demo_fs = \<lparr>fs_lines = Some [''[values]'', ''poll_interval_ms=500'', ''[0100000000010000]'',
     ''docked_gpu=921''], fs_mtime = 7, fs_now = 9, fs_writable = True, fs_blank = False\<rparr>"

definition demo_config :: config_state where
  "demo_config = \<lparr>gLoaded = False, gMtime = 0, gEnabled = False, gOverrideFreqs = (\<lambda>_. 0),
     gProfileMHzMap = Map.empty, gProfileCountMap = Map.empty,
     configValues = hocclkDefaultConfigValue, gFs = demo_fs\<rparr>"

lemmas ini_eval = section_of_def skipleading_def is_blank_def key_value_of_def striptrailing_def
  split_at_char_def clean_value_def

lemmas strtoul_eval = strtoul_def scan_sign_def scan_base_def has_hex_prefix_def digit_val_def
  is_space_def

lemma hex_rev_numeral: "hex_rev (numeral k) n = n mod 16 # hex_rev (pred_numeral k) (n div 16)"
  by (metis hex_rev.simps(2) numeral_eq_Suc)

lemma demo_entries: "ini_entries [] (loaded_lines demo_config) =
    [(''values'', ''poll_interval_ms'', ''500''), (''0100000000010000'', ''docked_gpu'', ''921'')]"
  by (simp add: ini_eval loaded_lines_def demo_config_def demo_fs_def)

lemma demo_values: "configValues (Load demo_config) (Hoc HocClkConfigValue_PollingIntervalMs) = 500"
proof -
  have key: "value_step (''poll_interval_ms'', v) cv =
      cv(Hoc HocClkConfigValue_PollingIntervalMs :=
           parse_config_value (Hoc HocClkConfigValue_PollingIntervalMs) v)" for v cv
    using value_step_key [of "Hoc HocClkConfigValue_PollingIntervalMs" v cv] by simp
  show ?thesis
    by (simp add: Load_values demo_entries section_entries_Cons CONFIG_VAL_SECTION_def key
        parse_config_value_def strtoul_eval)
qed

lemma demo_title: "title_of_section ''values'' = None" "title_of_section ''0100000000010000'' = Some 0x0100000000010000"
  "format_016lX 0x0100000000010000 = ''0100000000010000''"
  by (simp_all add: title_of_section_def parse_tid_def strtoul_eval CONFIG_VAL_SECTION_def
      format_016lX_def digit_char_def hex_rev_numeral char_of_def bit_0)

lemma demo_profile_clock:
  "GetProfiles (Load demo_config) 0x0100000000010000 HocClkProfile_Docked HocClkModule_GPU = 921"
proof -
  have "''docked_gpu'' = profile_key HocClkProfile_Docked HocClkModule_GPU"
    by (simp add: profile_key_def)
  then show ?thesis
    by (simp add: GetProfiles_Load title_entries_def demo_entries demo_title title_of_section_def
        CONFIG_VAL_SECTION_def parse_tid_def profile_step_def strtoul_eval)
qed

lemma demo_wf: "cfg_wf demo_config" "fs_now (gFs demo_config) > 0" "fs_mtime (gFs demo_config) > 0"
  "canonical_titles (fs_content (gFs demo_config))"
proof -
  show "cfg_wf demo_config"
    unfolding cfg_wf_def demo_config_def demo_fs_def
    by (simp add: wf_ini_def starts_bracket_def headers_def ini_eval upper_def)
  show "fs_now (gFs demo_config) > 0" "fs_mtime (gFs demo_config) > 0"
    by (simp_all add: demo_config_def demo_fs_def)
  have "map upper ''0100000000010000'' = ''0100000000010000''"
    by (metis demo_title(3) upper_format)
  then show "canonical_titles (fs_content (gFs demo_config))"
    by (auto simp: canonical_titles_def demo_config_def demo_fs_def fs_content_def ini_eval
        demo_title)
qed

lemma demo_put: "fs_putsection sec kvs (gFs demo_config) =
    Some (demo_fs\<lparr>fs_lines := Some (ini_putsection False sec kvs (fs_content demo_fs)), fs_mtime := 9\<rparr>)"
  by (simp add: fs_putsection_def demo_config_def demo_fs_def fs_content_def)

lemma config_values_round_trip_witness:
  "configValues (Load (snd (SetConfigValues
      (hocclkDefaultConfigValue(Hoc HocClkConfigValue_PollingIntervalMs := 250)) True demo_config)))
    (Hoc HocClkConfigValue_PollingIntervalMs) = 250"
proof -
  let ?v = "hocclkDefaultConfigValue(Hoc HocClkConfigValue_PollingIntervalMs := (250 :: u64))"
  have "SetConfigValues ?v True demo_config = (True, snd (SetConfigValues ?v True demo_config))"
    by (simp add: SetConfigValues_def demo_put Let_def)
  from config_values_round_trip [OF demo_wf(1,2) this] show ?thesis by simp
qed

lemma set_config_value_drops_the_others_witness:
  "configValues (Load demo_config) (Hoc HocClkConfigValue_PollingIntervalMs) = 500 \<and>
   configValues (Load (snd (SetConfigValue (Hoc HocClkConfigValue_UncappedClocks) 1 True demo_config)))
     (Hoc HocClkConfigValue_PollingIntervalMs) \<noteq> 500"
proof -
  let ?t = "SetConfigValue (Hoc HocClkConfigValue_UncappedClocks) 1 True demo_config"
  have "?t = (True, snd ?t)"
    by (simp add: SetConfigValue_def demo_put Let_def)
  from set_config_value_drops_the_others [OF demo_wf(1,2) this]
  have "configValues (Load (snd ?t)) (Hoc HocClkConfigValue_PollingIntervalMs) \<noteq> 500" by simp
  with demo_values show ?thesis by simp
qed

lemma reset_config_value_reloads_zero_witness:
  "configValues (Load (snd (ResetConfigValue (Hoc HocClkConfigValue_HandheldTDP) demo_config)))
     (Hoc HocClkConfigValue_HandheldTDP) = 0 \<and>
   hocclkDefaultConfigValue (Hoc HocClkConfigValue_HandheldTDP) \<noteq> 0"
proof -
  let ?t = "ResetConfigValue (Hoc HocClkConfigValue_HandheldTDP) demo_config"
  have "?t = (True, snd ?t)"
    by (simp add: ResetConfigValue_def demo_put)
  from reset_config_value_reloads_zero [OF demo_wf(1,2) this] show ?thesis by simp
qed

definition demo_profiles :: title_profiles where
  "demo_profiles = (\<lambda>p m. if p = HocClkProfile_Handheld \<and> m = HocClkModule_MEM then 1600 else 0)"

lemma profiles_round_trip_witness:
  "GetProfiles (Load (snd (SetProfiles 0x0100AABBCCDD0000 demo_profiles True demo_config)))
     0x0100AABBCCDD0000 = demo_profiles \<and>
   GetProfiles (Load (snd (SetProfiles 0x0100AABBCCDD0000 demo_profiles True demo_config)))
     0x0100000000010000 HocClkProfile_Docked HocClkModule_GPU = 921"
proof -
  let ?t = "SetProfiles 0x0100AABBCCDD0000 demo_profiles True demo_config"
  have "?t = (True, snd ?t)"
    by (simp add: SetProfiles_def demo_put Let_def)
  note r = profiles_round_trip [OF demo_wf(1,4,2) _ this disjI1 [OF demo_wf(3)]]
  from r demo_profile_clock show ?thesis by simp
qed

lemma config_reachable_valid_witness:
  "hocclkValidConfigValue (Hoc HocClkConfigValue_HandheldTDP)
     (configValues (Load (Initialize demo_config)) (Hoc HocClkConfigValue_HandheldTDP))"
proof -
  have "snd (Refresh (Initialize demo_config)) = Load (Initialize demo_config)"
    by (simp add: Refresh_def Initialize_def)
  then have "config_reachable (Load (Initialize demo_config))"
    by (metis config_reachable.intros config_step.refresh)
  from config_reachable_valid [OF this] show ?thesis by simp
qed

end
