(* ===== verification/Board.thy ===== *)
theory Board
  imports Config "HOL-Library.Sublist"
begin

text \<open>
  The board layer of the sysmodule: \<open>board/board_freq.cpp\<close> and \<open>board_freq.hpp\<close> (setting and
  reading clocks, the return to stock clocks), \<open>board/board_volt.cpp\<close> (CPU undervolt tunings, the
  GPU voltage floor and its write into the voltage table of the system's clock service),
  \<open>board/board_profile.cpp\<close>, \<open>board/board_fuse.cpp\<close>, the hardware identification of
  \<open>board/board.cpp\<close> and the table of \<open>hos/apm_profile_table.c\<close>.

  The hardware and the system services are outside the repository. Every command the code issues
  to them is appended to the log \<open>hw_log\<close>; what they answer is a function, in \<open>hw_env\<close>, of the
  log so far, so answers may depend on everything that was commanded before. A failed
  assertion aborts the process: \<open>halted\<close> is set and no later command reaches the log. Service
  calls whose failure the code only asserts against are taken to succeed.
\<close>

section \<open>Commands and answers\<close>

datatype PcvModule = PcvModule_CpuBus | PcvModule_GPU | PcvModule_EMC

datatype hw_cmd =
    ClkrstSetRate PcvModule u32
  | PcvSetRate PcvModule u32
  | ApmRequestMode u32
  | SleepThread u64
  | DisplaySetRate u32
  | DisplayDockedState bool
  | Gm20bSetClock u32
  | WriteTune0 "u32 option"
  | WriteTune1 "u32 option"
  | PcvWriteVoltTable "u32 list"
  | SetChargeCurrent u64
  | SetDisplayMv u64
  | SetDisplayColor u64
  | NvSchedCtrl u32
  | IniPutsGpuScheduling string
  | WriteCsvRow
  | ReadSensor

record hw_env =
  hos_at_least_9 :: bool
  hos_has_clkrst :: bool
  soc_type :: HocClkSocType
  console_type :: HocClkConsoleType
  speedo_bracket :: u32
  rd_clock :: "hw_cmd list \<Rightarrow> PcvModule \<Rightarrow> u32"
  rd_real_clock :: "hw_cmd list \<Rightarrow> HocClkModule \<Rightarrow> u32"
  rd_display :: "hw_cmd list \<Rightarrow> u32"
  rd_apm_ok :: "hw_cmd list \<Rightarrow> bool"
  rd_apm_conf :: "hw_cmd list \<Rightarrow> u32"
  rd_perf_mode :: "hw_cmd list \<Rightarrow> u32"
  rd_pcv_handle :: "hw_cmd list \<Rightarrow> bool"
  rd_pcv_write :: "hw_cmd list \<Rightarrow> bool"
  rd_freq_list :: "hw_cmd list \<Rightarrow> PcvModule \<Rightarrow> u32 list option"
  rd_app_id :: "hw_cmd list \<Rightarrow> u64"
  rd_profile :: "hw_cmd list \<Rightarrow> HocClkProfile"
  rd_ns :: "hw_cmd list \<Rightarrow> u64"
  rd_soc_temp :: "hw_cmd list \<Rightarrow> int"
  rd_temp :: "hw_cmd list \<Rightarrow> HocClkThermalSensor \<Rightarrow> int"
  rd_power :: "hw_cmd list \<Rightarrow> HocClkPowerSensor \<Rightarrow> int"
  rd_load :: "hw_cmd list \<Rightarrow> HocClkPartLoad \<Rightarrow> u32"
  rd_voltage :: "hw_cmd list \<Rightarrow> HocClkVoltage \<Rightarrow> u32"
  rd_fps :: "hw_cmd list \<Rightarrow> u8"
  rd_resolution :: "hw_cmd list \<Rightarrow> u16"
  rd_out_of_focus :: "hw_cmd list \<Rightarrow> bool option"
  nv_sched_available :: bool

record board_state =
  hw_log :: "hw_cmd list"
  halted :: bool
  currentInjectedHz :: u32
  volt_table :: "u32 list"
  ram_vmin :: u32

definition emit :: "hw_cmd \<Rightarrow> board_state \<Rightarrow> board_state" where
  "emit c b = (if halted b then b else b\<lparr>hw_log := hw_log b @ [c]\<rparr>)"

definition abort_process :: "board_state \<Rightarrow> board_state" where
  "abort_process b = b\<lparr>halted := True\<rparr>"

section \<open>Stock configurations\<close>

record apm_configuration =
  apm_id :: u32
  cpu_hz :: u32
  gpu_hz :: u32
  mem_hz :: u32

definition apm_row :: "u32 \<Rightarrow> u32 \<Rightarrow> u32 \<Rightarrow> u32 \<Rightarrow> apm_configuration" where
  "apm_row i c g m = \<lparr>apm_id = i, cpu_hz = c, gpu_hz = g, mem_hz = m\<rparr>"

definition hocclk_g_apm_configurations :: "apm_configuration list" where
  "hocclk_g_apm_configurations = [
    apm_row 0x00010000 1020000000 384000000 1600000000,
    apm_row 0x00010001 1020000000 768000000 1600000000,
    apm_row 0x00010002 1224000000 691200000 1600000000,
    apm_row 0x00020000 1020000000 230400000 1600000000,
    apm_row 0x00020001 1020000000 307200000 1600000000,
    apm_row 0x00020002 1224000000 230400000 1600000000,
    apm_row 0x00020003 1020000000 307200000 1331200000,
    apm_row 0x00020004 1020000000 384000000 1331200000,
    apm_row 0x00020005 1020000000 307200000 1065600000,
    apm_row 0x00020006 1020000000 384000000 1065600000,
    apm_row 0x92220007 1020000000 460800000 1600000000,
    apm_row 0x92220008 1020000000 460800000 1331200000,
    apm_row 0x92220009 1785000000 76800000 1600000000,
    apm_row 0x9222000A 1785000000 76800000 1331200000,
    apm_row 0x9222000B 1020000000 76800000 1600000000,
    apm_row 0x9222000C 1020000000 76800000 1331200000]"

definition apmExtIsBoostMode :: "u32 \<Rightarrow> bool" where
  "apmExtIsBoostMode conf_id \<longleftrightarrow> conf_id \<ge> 0x92220009 \<and> conf_id \<le> 0x9222000C"

definition apmExtIsCPUBoosted :: "u32 \<Rightarrow> bool" where
  "apmExtIsCPUBoosted conf_id \<longleftrightarrow> conf_id = 0x92220009 \<or> conf_id = 0x9222000A"

section \<open>Hardware identification\<close>

definition soc_of_hidrev :: "u32 \<Rightarrow> HocClkSocType" where
  "soc_of_hidrev hidrev =
     (if drop_bit 4 hidrev AND 0xF \<ge> 2 then HocClkSocType_Mariko else HocClkSocType_Erista)"

definition console_of_odm4 :: "HocClkSocType \<Rightarrow> u32 \<Rightarrow> HocClkConsoleType" where
  "console_of_odm4 soc odm4 =
     (if soc = HocClkSocType_Mariko then
        (let v = drop_bit 16 (odm4 AND 0xF0000) in
         if v = 2 then HocClkConsoleType_Hoag
         else if v = 4 then HocClkConsoleType_Aula
         else HocClkConsoleType_Iowa)
      else HocClkConsoleType_Icosa)"

definition dram_id_of_odm4 :: "HocClkSocType \<Rightarrow> u32 \<Rightarrow> u8" where
  "dram_id_of_odm4 soc odm4 =
     (let i = (ucast (drop_bit 3 (odm4 AND 0xF8)) :: u8) in
      if soc = HocClkSocType_Mariko then i OR ucast (drop_bit 7 (odm4 AND 0x7000)) else i)"

definition SetGpuBracket :: "HocClkSocType \<Rightarrow> u16 \<Rightarrow> u8" where
  "SetGpuBracket soc speedo =
     (if soc = HocClkSocType_Mariko then
        (if speedo \<le> 1624 then 0
         else if speedo \<le> 1689 then 1
         else if speedo \<le> 1753 then 2
         else 3)
      else
        (if 1850 \<le> speedo \<and> speedo \<le> 1925 then 0
         else if 1926 \<le> speedo \<and> speedo \<le> 2025 then 1
         else if 2026 \<le> speedo \<and> speedo \<le> 2100 then 2
         else if 2101 \<le> speedo \<and> speedo \<le> 2200 then 3
         else 0))"

datatype PsmChargerType =
    PsmChargerType_Unconnected
  | PsmChargerType_EnoughPower
  | PsmChargerType_LowPower
  | PsmChargerType_NotSupported

definition GetProfile :: "u32 \<Rightarrow> PsmChargerType \<Rightarrow> HocClkProfile" where
  "GetProfile mode chargerType =
     (if mode \<noteq> 0 then HocClkProfile_Docked
      else if chargerType = PsmChargerType_EnoughPower then HocClkProfile_HandheldChargingOfficial
      else if chargerType = PsmChargerType_LowPower then HocClkProfile_HandheldChargingUSB
      else HocClkProfile_Handheld)"

section \<open>Clock access\<close>

text \<open>The governor and display modules have no clock of their own and take module 0.\<close>

fun GetPcvModule :: "HocClkModule \<Rightarrow> PcvModule" where
  "GetPcvModule HocClkModule_CPU = PcvModule_CpuBus"
| "GetPcvModule HocClkModule_GPU = PcvModule_GPU"
| "GetPcvModule HocClkModule_MEM = PcvModule_EMC"
| "GetPcvModule _ = PcvModule_CpuBus"

definition GetHz :: "hw_env \<Rightarrow> HocClkModule \<Rightarrow> board_state \<Rightarrow> u32" where
  "GetHz env module b =
     (if module = HocClkModule_Display then rd_display env (hw_log b)
      else if module = HocClkModule_GPU \<and> currentInjectedHz b \<noteq> 0 then currentInjectedHz b
      else rd_clock env (hw_log b) (GetPcvModule module))"

definition GetRealHz :: "hw_env \<Rightarrow> HocClkModule \<Rightarrow> board_state \<Rightarrow> u32" where
  "GetRealHz env module b =
     (case module of
        HocClkModule_Display \<Rightarrow> rd_display env (hw_log b)
      | HocClkModule_Governor \<Rightarrow> 0
      | _ \<Rightarrow> rd_real_clock env (hw_log b) module)"

section \<open>CPU undervolt tunings\<close>

text \<open>An index past the end of a table reads memory the code does not control: \<open>None\<close>.\<close>

definition table_read :: "'a list \<Rightarrow> nat \<Rightarrow> 'a option" where
  "table_read xs i = (if i < length xs then Some (xs ! i) else None)"

definition eristaCpuUvTable :: "(u32 \<times> u32) list" where
  "eristaCpuUvTable = [(0xFFEAD0FF, 0x0), (0xffff, 0x27007ff), (0xefff, 0x27407ff),
     (0xdfff, 0x27807ff), (0xdfdf, 0x27a07ff), (0xcfdf, 0x37007ff)]"

text \<open>Only the low fields of the low table and the high fields of the high table are read.\<close>

definition marikoCpuUvLow :: "(u32 \<times> u32) list" where
  "marikoCpuUvLow = [(0xffa0, 0x21107ff), (0x0, 0x21107ff), (0xffdf, 0x21107ff),
     (0xffff, 0x21107ff), (0x0, 0x21607ff), (0x0, 0x21607ff), (0x0, 0x21607ff),
     (0xdfff, 0x21707ff), (0xdfff, 0x21707ff), (0xdfff, 0x21707ff), (0xdfff, 0x21707ff),
     (0xdfff, 0x21707ff)]"

definition marikoCpuUvHigh :: "(u32 \<times> u32) list" where
  "marikoCpuUvHigh = [(0xffff, 0), (0xffdf, 0x27207ff), (0xffdf, 0x27307ff), (0xffdf, 0x27407ff),
     (0xffdf, 0x27707ff), (0xffdf, 0x27807ff), (0xdfff, 0x27b07ff), (0xdfff, 0x27c07ff),
     (0xdfff, 0x27d07ff), (0xdfff, 0x27e07ff), (0xdfff, 0x27f07ff), (0xdfff, 0x27f07ff)]"

definition write_tunes :: "(u32 \<times> u32) option \<Rightarrow> board_state \<Rightarrow> board_state" where
  "write_tunes e b = emit (WriteTune1 (map_option snd e)) (emit (WriteTune0 (map_option fst e)) b)"

text \<open>The code after the two returning branches of the Mariko case is unreachable.\<close>

definition SetDfllTunings :: "hw_env \<Rightarrow> u32 \<Rightarrow> u32 \<Rightarrow> u32 \<Rightarrow> board_state \<Rightarrow> board_state" where
  "SetDfllTunings env levelLow levelHigh tbreakPoint b =
     (if soc_type env = HocClkSocType_Mariko then
        (let b1 = (if levelLow \<noteq> 0 then write_tunes (table_read marikoCpuUvLow (unat levelLow - 1)) b
                   else b) in
         if GetHz env HocClkModule_CPU b < tbreakPoint \<and> (levelLow \<noteq> 0 \<or> levelHigh \<noteq> 0) then b1
         else if levelHigh \<noteq> 0 then
           write_tunes (table_read marikoCpuUvHigh (unat levelHigh - 1)) b1
         else b1)
      else write_tunes (table_read eristaCpuUvTable (unat levelLow)) b)"

definition CalculateTbreak :: "hw_env \<Rightarrow> u32 \<Rightarrow> u32" where
  "CalculateTbreak env table =
     (if soc_type env = HocClkSocType_Erista then 1581000000
      else if 1 \<le> table \<and> table \<le> 2 then 1581000000
      else if table = 4 then 1581000000
      else if table = 3 then 1683000000
      else 1581000000)"

definition HandleCpuUv :: "hw_env \<Rightarrow> config_state \<Rightarrow> board_state \<Rightarrow> board_state" where
  "HandleCpuUv env c b =
     (if soc_type env = HocClkSocType_Erista then
        SetDfllTunings env (ucast (GetConfigValue c (Kip KipConfigValue_eristaCpuUV))) 0 1581000000 b
      else
        SetDfllTunings env (ucast (GetConfigValue c (Kip KipConfigValue_marikoCpuUVLow)))
          (ucast (GetConfigValue c (Kip KipConfigValue_marikoCpuUVHigh)))
          (CalculateTbreak env (ucast (GetConfigValue c (Kip KipConfigValue_tableConf)))) b)"

section \<open>Setting clocks\<close>

definition MIDDLE_FREQ_TABLE_START_POINT :: u32 where
  "MIDDLE_FREQ_TABLE_START_POINT = 1228800000"

definition use_gm20b :: "hw_env \<Rightarrow> HocClkModule \<Rightarrow> u32 \<Rightarrow> bool" where
  "use_gm20b env module hz \<longleftrightarrow> module = HocClkModule_GPU \<and> soc_type env = HocClkSocType_Mariko \<and>
     hz mod 38400000 = 0 \<and> hz mod 76800000 \<noteq> 0 \<and> hz < MIDDLE_FREQ_TABLE_START_POINT"

definition rate_cmd :: "hw_env \<Rightarrow> HocClkModule \<Rightarrow> u32 \<Rightarrow> hw_cmd" where
  "rate_cmd env module hz =
     (if hos_has_clkrst env then ClkrstSetRate (GetPcvModule module) hz
      else PcvSetRate (GetPcvModule module) hz)"

definition set_rate :: "hw_env \<Rightarrow> HocClkModule \<Rightarrow> u32 \<Rightarrow> board_state \<Rightarrow> board_state" where
  "set_rate env module hz b = emit (rate_cmd env module hz) b"

definition SetHz ::
  "hw_env \<Rightarrow> config_state \<Rightarrow> HocClkModule \<Rightarrow> u32 \<Rightarrow> board_state \<Rightarrow> board_state" where
  "SetHz env c module hz b =
     (if module = HocClkModule_Display then emit (DisplaySetRate hz) b
      else if module > HocClkModule_MEM then b
      else
        (let useGm20b = use_gm20b env module hz;
             pcvHz = (if useGm20b then ((hz + 76800000 - 1) div 76800000) * 76800000 else hz);
             b1 = (if module = HocClkModule_GPU then b\<lparr>currentInjectedHz := 0\<rparr> else b);
             b2 = set_rate env module pcvHz b1;
             b3 = (if module = HocClkModule_CPU
                   then set_rate env module pcvHz (emit (SleepThread 300000) b2) else b2);
             b4 = (if GetConfigValue c (Hoc HocClkConfigValue_LiveCpuUv) \<noteq> 0 \<and>
                      module = HocClkModule_CPU
                   then HandleCpuUv env c b3 else b3)
         in if useGm20b then (emit (Gm20bSetClock (hz div 1000)) b4)\<lparr>currentInjectedHz := hz\<rparr>
            else b4))"

text \<open>\<open>ResetToStockModule\<close>: back to the rate of the current performance configuration.\<close>

definition ResetToStockModule ::
  "hw_env \<Rightarrow> config_state \<Rightarrow> (apm_configuration \<Rightarrow> u32) \<Rightarrow> HocClkModule \<Rightarrow>
     board_state \<Rightarrow> board_state" where
  "ResetToStockModule env c getHz module b =
     (if hos_at_least_9 env then
        (case find (\<lambda>r. apm_id r = rd_apm_conf env (hw_log b)) hocclk_g_apm_configurations of
           None \<Rightarrow> abort_process b
         | Some r \<Rightarrow> SetHz env c module (getHz r) b)
      else emit (ApmRequestMode (rd_perf_mode env (hw_log b))) b)"

definition ResetToStockCpu :: "hw_env \<Rightarrow> config_state \<Rightarrow> board_state \<Rightarrow> board_state" where
  "ResetToStockCpu env c b = ResetToStockModule env c cpu_hz HocClkModule_CPU b"

definition ResetToStockGpu :: "hw_env \<Rightarrow> config_state \<Rightarrow> board_state \<Rightarrow> board_state" where
  "ResetToStockGpu env c b = ResetToStockModule env c gpu_hz HocClkModule_GPU b"

definition ResetToStockMem :: "hw_env \<Rightarrow> config_state \<Rightarrow> board_state \<Rightarrow> board_state" where
  "ResetToStockMem env c b = ResetToStockModule env c mem_hz HocClkModule_MEM b"

definition ResetToStock :: "hw_env \<Rightarrow> config_state \<Rightarrow> board_state \<Rightarrow> board_state" where
  "ResetToStock env c b =
     (if hos_at_least_9 env then
        (case find (\<lambda>r. apm_id r = rd_apm_conf env (hw_log b)) hocclk_g_apm_configurations of
           None \<Rightarrow> abort_process b
         | Some r \<Rightarrow>
             SetHz env c HocClkModule_MEM (mem_hz r)
               (SetHz env c HocClkModule_GPU (gpu_hz r)
                 (SetHz env c HocClkModule_CPU (cpu_hz r) b)))
      else emit (ApmRequestMode (rd_perf_mode env (hw_log b))) b)"

definition ResetToStockDisplay :: "board_state \<Rightarrow> board_state" where
  "ResetToStockDisplay b = emit (DisplaySetRate 60) b"

definition SetDisplayRefreshDockedState :: "hw_env \<Rightarrow> bool \<Rightarrow> board_state \<Rightarrow> board_state" where
  "SetDisplayRefreshDockedState env docked b =
     (if console_type env \<noteq> HocClkConsoleType_Hoag then emit (DisplayDockedState docked) b else b)"

section \<open>GPU voltage floor\<close>

definition marikoRamTable :: "u32 list list" where
  "marikoRamTable = [
     [2133, 2200, 2266, 2300, 2366, 2400, 2433, 2466, 2533, 2566, 2600, 2633, 2700, 2733, 2766,
      2833, 2866, 2900, 2933, 3033, 3066, 3100],
     [2300, 2366, 2433, 2466, 2533, 2566, 2633, 2700, 2733, 2800, 2833, 2900, 2933, 2966, 3033,
      3066, 3100, 3133, 3166, 3200, 3233, 3266],
     [2433, 2466, 2533, 2566, 2600, 2666, 2766, 2800, 2833, 2866, 2933, 2966, 3033, 3066, 3100,
      3133, 3166, 3200, 3233, 3300, 3333, 3366],
     [2500, 2533, 2600, 2633, 2666, 2733, 2800, 2866, 2900, 2966, 3033, 3100, 3166, 3200, 3233,
      3266, 3300, 3333, 3366, 3400, 3400, 3400]]"

definition gpuVoltArray :: "u32 list" where
  "gpuVoltArray = [590, 600, 610, 620, 630, 640, 650, 660, 670, 680, 690, 700, 710, 720, 730, 740,
     750, 760, 770, 780, 790, 800]"

definition eristaRamTable :: "(u32 \<times> u32) list list" where
  "eristaRamTable = [
     [(1733, 725), (1800, 730), (1866, 735), (1920, 740), (1958, 745), (1996, 750), (2035, 755),
      (2073, 760), (2112, 765), (2131, 770), (2150, 775), (2169, 780), (2188, 785), (2227, 790),
      (2265, 795), (2304, 800), (2342, 805), (2380, 810), (2400, 815)],
     [(1733, 715), (1800, 720), (1866, 725), (1920, 730), (1958, 735), (1996, 740), (2035, 745),
      (2073, 750), (2112, 755), (2131, 760), (2150, 765), (2169, 770), (2188, 775), (2227, 780),
      (2265, 785), (2304, 790), (2342, 795), (2380, 800), (2400, 805)],
     [(1733, 705), (1800, 710), (1866, 715), (1920, 720), (1958, 725), (1996, 730), (2035, 735),
      (2073, 740), (2112, 745), (2131, 750), (2150, 755), (2169, 760), (2188, 765), (2227, 770),
      (2265, 775), (2304, 780), (2342, 785), (2380, 790), (2400, 795)],
     [(1733, 695), (1800, 700), (1866, 705), (1920, 710), (1958, 715), (1996, 720), (2035, 725),
      (2073, 730), (2112, 735), (2131, 740), (2150, 745), (2169, 750), (2188, 755), (2227, 760),
      (2265, 765), (2304, 770), (2342, 775), (2380, 780), (2400, 785)]]"

text \<open>The voltage of the first step that reaches the frequency, \<open>d\<close> past the last one.\<close>

definition first_step :: "u32 \<Rightarrow> (u32 \<times> u32) list \<Rightarrow> u32 \<Rightarrow> u32" where
  "first_step freqMhz steps d =
     (case find (\<lambda>e. freqMhz \<le> fst e) steps of None \<Rightarrow> d | Some e \<Rightarrow> snd e)"

text \<open>Between 1633 MHz and the start of the table: a linear ramp, rounded to steps of 5 mV.\<close>

definition ramp_volt :: "u32 \<Rightarrow> u32 \<Rightarrow> u32 \<Rightarrow> u32" where
  "ramp_volt freqMhz bracketStart rampStartVolt =
     (let rampSpan = 590 - rampStartVolt;
          raw = rampStartVolt + ((freqMhz - 1633) * rampSpan) div (bracketStart - 1633);
          volt = ((raw + 2) div 5) * 5;
          volt1 = (if volt < rampStartVolt then rampStartVolt else volt)
      in if volt1 > 590 then 590 else volt1)"

definition GetMinimumGpuVmin :: "HocClkSocType \<Rightarrow> u32 \<Rightarrow> u32 \<Rightarrow> u32" where
  "GetMinimumGpuVmin soc freqMhz bracket0 =
     (if freqMhz \<le> 1600 then 0
      else
        (let bracket = (if bracket0 \<ge> 4 then 0 else bracket0) in
         if soc = HocClkSocType_Mariko then
           (let row = marikoRamTable ! unat bracket;
                bracketStart = row ! 0;
                rampStartVolt = (if bracket = 0 then 535 else 525)
            in if freqMhz \<ge> 1633 \<and> freqMhz < bracketStart
               then ramp_volt freqMhz bracketStart rampStartVolt
               else first_step freqMhz (zip row gpuVoltArray) (last gpuVoltArray))
         else
           (let entries = eristaRamTable ! unat bracket
            in first_step freqMhz entries (snd (last entries)))))"

text \<open>
  \<open>PcvHijackGpuVolts\<close>: every entry that is in use and not above the floor is raised to it, in a
  copy of the table, and the copy is written into the clock service's memory.
\<close>

definition raise_floor :: "u32 \<Rightarrow> u32 list \<Rightarrow> u32 list" where
  "raise_floor vmin table = map (\<lambda>v. if v \<noteq> 0 \<and> v \<le> vmin then vmin else v) table"

definition PcvHijackGpuVolts :: "hw_env \<Rightarrow> u32 \<Rightarrow> board_state \<Rightarrow> board_state" where
  "PcvHijackGpuVolts env vmin b =
     (if ram_vmin b = vmin then b
      else if \<not> rd_pcv_handle env (hw_log b) then b
      else
        (let b1 = emit (PcvWriteVoltTable (raise_floor vmin (volt_table b))) b
         in if rd_pcv_write env (hw_log b1) then b1\<lparr>ram_vmin := vmin\<rparr> else b1))"

section \<open>Readings, frequency lists and GPU scheduling\<close>

definition HOCCLK_FREQ_LIST_MAX :: nat where
  "HOCCLK_FREQ_LIST_MAX = 48"

text \<open>The service fills at most the capacity it is given; a list that is not discrete is an error.\<close>

definition GetFreqList :: "hw_env \<Rightarrow> HocClkModule \<Rightarrow> nat \<Rightarrow> board_state \<Rightarrow> u32 list option" where
  "GetFreqList env module maxCount b =
     map_option (take maxCount) (rd_freq_list env (hw_log b) (GetPcvModule module))"

text \<open>The PMIC has no sensor and reads as a constant.\<close>

definition GetTemperatureMilli :: "hw_env \<Rightarrow> HocClkThermalSensor \<Rightarrow> board_state \<Rightarrow> int" where
  "GetTemperatureMilli env sensor b =
     max 0 (if sensor = HocClkThermalSensor_PMIC then 50000 else rd_temp env (hw_log b) sensor)"

definition GetPowerMw :: "hw_env \<Rightarrow> HocClkPowerSensor \<Rightarrow> board_state \<Rightarrow> int" where
  "GetPowerMw env sensor b = rd_power env (hw_log b) sensor"

definition NVschedCtrlEnable :: u32 where "NVschedCtrlEnable = 0x601"
definition NVschedCtrlDisable :: u32 where "NVschedCtrlDisable = 0x602"

definition SetGpuSchedulingMode ::
  "hw_env \<Rightarrow> GpuSchedulingMode \<Rightarrow> GpuSchedulingOverrideMethod \<Rightarrow> board_state \<Rightarrow> board_state" where
  "SetGpuSchedulingMode env mode method b =
     (if \<not> nv_sched_available env \<and> method = GpuSchedulingOverrideMethod_NvService then b
      else
        (let b1 = (if method = GpuSchedulingOverrideMethod_NvService then
                     (case mode of
                        GpuSchedulingMode_DoNotOverride \<Rightarrow> b
                      | GpuSchedulingMode_Disabled \<Rightarrow> emit (NvSchedCtrl NVschedCtrlDisable) b
                      | GpuSchedulingMode_Enabled \<Rightarrow> emit (NvSchedCtrl NVschedCtrlEnable) b)
                   else b);
             enabled = (mode = GpuSchedulingMode_Enabled \<and>
                        method \<noteq> GpuSchedulingOverrideMethod_NvService)
         in if method = GpuSchedulingOverrideMethod_Ini
            then emit (IniPutsGpuScheduling (if enabled then ''u8!0x1'' else ''u8!0x0'')) b1
            else b1))"

section \<open>The log only grows\<close>

text \<open>
  What every operation on the board promises: commands are only appended to the log, an aborted
  process stays aborted, and it sends nothing more.
\<close>

definition log_le :: "board_state \<Rightarrow> board_state \<Rightarrow> bool" where
  "log_le b b' \<longleftrightarrow> prefix (hw_log b) (hw_log b') \<and>
     (halted b \<longrightarrow> halted b' \<and> hw_log b' = hw_log b)"

lemma log_le_refl [simp, intro]: "log_le b b"
  by (simp add: log_le_def)

lemma log_le_trans [trans]: "log_le a b \<Longrightarrow> log_le b c \<Longrightarrow> log_le a c"
  by (auto simp: log_le_def intro: prefix_order.trans)

lemma log_le_emit [effects]: "log_le a b \<Longrightarrow> log_le a (emit c b)"
  by (auto simp: log_le_def emit_def)

lemma log_le_abort [effects]: "log_le a b \<Longrightarrow> log_le a (abort_process b)"
  by (auto simp: log_le_def abort_process_def)

lemma log_le_update [effects]:
  "log_le a b \<Longrightarrow> log_le a (b\<lparr>currentInjectedHz := hz\<rparr>)"
  "log_le a b \<Longrightarrow> log_le a (b\<lparr>ram_vmin := v\<rparr>)"
  by (auto simp: log_le_def)

locale board_op =
  fixes f :: "board_state \<Rightarrow> board_state"
  assumes extends: "log_le b (f b)"
begin

lemma after: "log_le a b \<Longrightarrow> log_le a (f b)"
  by (rule log_le_trans [OF _ extends])

lemma iter: "log_le b ((f ^^ n) b)"
  by (induction n) (auto intro: after)

lemma keeps: "c \<in> set (hw_log b) \<Longrightarrow> c \<in> set (hw_log (f b))"
  using extends [of b] by (auto simp: log_le_def dest: set_mono_prefix)

lemma silent: "halted b \<Longrightarrow> hw_log (f b) = hw_log b"
  using extends [of b] by (simp add: log_le_def)

end

interpretation rate: board_op "set_rate env module hz"
  by unfold_locales (simp add: set_rate_def log_le_emit)

interpretation tunings: board_op "SetDfllTunings env lo hi tbreak"
  by unfold_locales (auto simp: SetDfllTunings_def write_tunes_def Let_def intro!: log_le_emit)

interpretation cpu_uv: board_op "HandleCpuUv env c"
  by unfold_locales (simp add: HandleCpuUv_def tunings.extends)

interpretation set_hz: board_op "SetHz env c module hz"
  by unfold_locales
    (auto simp: SetHz_def Let_def intro!: log_le_emit log_le_update rate.after cpu_uv.after)

interpretation reset_module: board_op "ResetToStockModule env c getHz module"
  by unfold_locales
    (auto simp: ResetToStockModule_def set_hz.extends log_le_emit log_le_abort split: option.splits)

interpretation reset_all: board_op "ResetToStock env c"
  by unfold_locales
    (auto simp: ResetToStock_def intro: set_hz.after log_le_emit log_le_abort split: option.splits)

interpretation reset_display: board_op "ResetToStockDisplay"
  by unfold_locales (simp add: ResetToStockDisplay_def log_le_emit)

interpretation docked_state: board_op "SetDisplayRefreshDockedState env docked"
  by unfold_locales (simp add: SetDisplayRefreshDockedState_def log_le_emit)

interpretation hijack: board_op "PcvHijackGpuVolts env vmin"
  by unfold_locales (auto simp: PcvHijackGpuVolts_def Let_def intro!: log_le_emit log_le_update)

interpretation scheduling: board_op "SetGpuSchedulingMode env mode method"
  by unfold_locales
    (auto simp: SetGpuSchedulingMode_def Let_def intro!: log_le_emit split: GpuSchedulingMode.splits)

lemmas board_after = log_le_emit log_le_abort log_le_update rate.after cpu_uv.after set_hz.after
  reset_module.after reset_all.after reset_display.after docked_state.after hijack.after
  scheduling.after

text \<open>The operations leave the voltage data of the clock service alone, the hijack apart.\<close>

lemma emit_simps [simp]:
  "volt_table (emit cmd b) = volt_table b" "ram_vmin (emit cmd b) = ram_vmin b"
  "currentInjectedHz (emit cmd b) = currentInjectedHz b" "halted (emit cmd b) = halted b"
  by (simp_all add: emit_def)

lemma SetHz_volt [frame]:
  "volt_table (SetHz env c module hz b) = volt_table b"
  "ram_vmin (SetHz env c module hz b) = ram_vmin b"
  by (simp_all add: SetHz_def set_rate_def HandleCpuUv_def SetDfllTunings_def write_tunes_def Let_def)

section \<open>The voltage floor\<close>

lemma first_step_ge: "\<forall>e\<in>set steps. v \<le> snd e \<Longrightarrow> v \<le> d \<Longrightarrow> v \<le> first_step g steps d"
  by (auto simp: first_step_def split: option.splits dest!: find_Some_in)

lemma first_step_le: "\<forall>e\<in>set steps. snd e \<le> v \<Longrightarrow> d \<le> v \<Longrightarrow> first_step g steps d \<le> v"
  by (auto simp: first_step_def split: option.splits dest!: find_Some_in)

lemma first_step_Cons:
  "first_step f (e # steps) d = (if f \<le> fst e then snd e else first_step f steps d)"
  by (simp add: first_step_def)

lemma first_step_mono:
  "sorted (map snd steps @ [d]) \<Longrightarrow> f \<le> g \<Longrightarrow> first_step f steps d \<le> first_step g steps d"
proof (induction steps)
  case (Cons e steps)
  then have "snd e \<le> first_step g steps d"
    by (intro first_step_ge) auto
  with Cons show ?case by (auto simp: first_step_Cons)
qed (simp add: first_step_def)

lemma ramp_raw:
  fixes f s v0 :: u32
  assumes "1633 \<le> f" "f < s" "s \<le> 2500" "525 \<le> v0" "v0 \<le> 535"
  shows "unat (v0 + ((f - 1633) * (590 - v0)) div (s - 1633)) =
    unat v0 + (unat f - 1633) * (590 - unat v0) div (unat s - 1633)"
    (is "unat (v0 + ?q) = unat v0 + ?n")
    and "unat v0 + (unat f - 1633) * (590 - unat v0) div (unat s - 1633) \<le> 590"
proof -
  have n: "1633 \<le> unat f" "unat f < unat s" "unat s \<le> 2500" "525 \<le> unat v0" "unat v0 \<le> 535"
    using assms by (simp_all add: word_le_nat_alt word_less_nat_alt)
  have subs: "unat (f - 1633) = unat f - 1633" "unat (s - 1633) = unat s - 1633"
    "unat (590 - v0) = 590 - unat v0"
    using n by (simp_all add: unat_sub_if_size)
  have "(unat f - 1633) * (590 - unat v0) \<le> 867 * 65"
    using n by (intro mult_le_mono) auto
  then have "unat ((f - 1633) * (590 - v0)) = (unat f - 1633) * (590 - unat v0)"
    by (simp add: unat_word_ariths subs)
  then have q: "unat ?q = ?n"
    by (simp add: unat_div subs)
  have "?n \<le> ((unat s - 1633) * (590 - unat v0)) div (unat s - 1633)"
    using n by (intro div_le_mono mult_le_mono) auto
  then have "?n \<le> 590 - unat v0" using n by simp
  then show b: "unat v0 + ?n \<le> 590" using n by linarith
  then show "unat (v0 + ?q) = unat v0 + ?n"
    unfolding unat_word_ariths(1) q by simp
qed

lemma unat_round5:
  fixes r :: u32 assumes "unat r \<le> 590"
  shows "unat (((r + 2) div 5) * 5) = (unat r + 2) div 5 * 5"
  using assms by (simp add: unat_word_ariths unat_div)

lemma ramp_volt_unat:
  assumes "1633 \<le> f" "f < s" "s \<le> 2500" "525 \<le> v0" "v0 \<le> 535"
  shows "unat (ramp_volt f s v0) = max (unat v0)
    ((unat v0 + (unat f - 1633) * (590 - unat v0) div (unat s - 1633) + 2) div 5 * 5)"
proof -
  define r where "r = v0 + ((f - 1633) * (590 - v0)) div (s - 1633)"
  have r: "unat r = unat v0 + (unat f - 1633) * (590 - unat v0) div (unat s - 1633)"
    "unat r \<le> 590" using ramp_raw [OF assms] by (simp_all add: r_def)
  have v: "unat v0 \<le> 535" using assms by (simp add: word_le_nat_alt)
  have "unat (ramp_volt f s v0) = max (unat v0) ((unat r + 2) div 5 * 5)"
    using v r(2) unfolding ramp_volt_def Let_def r_def [symmetric]
    by (auto simp: word_less_nat_alt unat_round5)
  then show ?thesis by (simp only: r(1))
qed

lemma ramp_volt_mono:
  assumes "1633 \<le> f" "f \<le> g" "g < s" "s \<le> 2500" "525 \<le> v0" "v0 \<le> 535"
  shows "ramp_volt f s v0 \<le> ramp_volt g s v0"
proof -
  have "f < s" "1633 \<le> g" using assms by auto
  have "unat f \<le> unat g" using assms(2) by (simp add: word_le_nat_alt)
  then show ?thesis
    unfolding word_le_nat_alt ramp_volt_unat [OF assms(1) \<open>f < s\<close> assms(4-6)]
      ramp_volt_unat [OF \<open>1633 \<le> g\<close> assms(3-6)]
    by (intro max.mono order.refl mult_le_mono div_le_mono add_le_mono diff_le_mono)
qed

lemma ramp_volt_bounds:
  assumes "1633 \<le> f" "f < s" "s \<le> 2500" "525 \<le> v0" "v0 \<le> 535"
  shows "v0 \<le> ramp_volt f s v0 \<and> ramp_volt f s v0 \<le> 590"
proof -
  have v: "unat v0 \<le> 535" using assms by (simp add: word_le_nat_alt)
  have "(unat v0 + (unat f - 1633) * (590 - unat v0) div (unat s - 1633) + 2) div 5 * 5 \<le> 590"
    using ramp_raw(2) [OF assms] by simp
  with v show ?thesis by (simp add: word_le_nat_alt ramp_volt_unat [OF assms])
qed


lemma find_bracket:
  obtains (b0) "bracket \<ge> 4 \<or> bracket = (0 :: u32)" | (b1) "bracket = 1" | (b2) "bracket = 2"
  | (b3) "bracket = 3"
proof -
  have "unat bracket \<ge> 4 \<or> unat bracket = 0 \<or> unat bracket = 1 \<or> unat bracket = 2 \<or> unat bracket = 3"
    by linarith
  then have "bracket \<ge> 4 \<or> bracket = 0 \<or> bracket = 1 \<or> bracket = 2 \<or> bracket = 3"
    by (simp add: word_le_nat_alt word_unat_eq_iff)
  with that show thesis by blast
qed

definition mariko_floor :: "u32 list \<Rightarrow> u32 \<Rightarrow> u32 \<Rightarrow> u32" where
  "mariko_floor row v0 f = (if f \<ge> 1633 \<and> f < row ! 0 then ramp_volt f (row ! 0) v0
     else first_step f (zip row gpuVoltArray) 800)"

lemma mariko_floor_mono:
  assumes "1633 \<le> f" "f \<le> g" "row ! 0 \<le> 2500" "525 \<le> v0" "v0 \<le> 535"
  shows "mariko_floor row v0 f \<le> mariko_floor row v0 g"
proof -
  have sorted: "sorted (map snd (zip row gpuVoltArray) @ [800])"
    by (simp add: map_snd_zip_take gpuVoltArray_def take_Cons split: nat.splits)
  have "590 \<le> first_step g (zip row gpuVoltArray) 800"
    by (rule first_step_ge) (auto simp: gpuVoltArray_def dest!: set_zip_rightD)
  moreover have "1633 \<le> g" using assms by auto
  ultimately show ?thesis
    using assms ramp_volt_mono [of f g "row ! 0" v0] ramp_volt_bounds [of f "row ! 0" v0]
      first_step_mono [OF sorted assms(2)]
    by (auto simp: mariko_floor_def)
qed
lemma GetMinimumGpuVmin_mariko:
  "f > 1600 \<Longrightarrow> GetMinimumGpuVmin HocClkSocType_Mariko f b =
    mariko_floor (marikoRamTable ! unat (if b \<ge> 4 then 0 else b)) (if b \<ge> 4 \<or> b = 0 then 535 else 525) f"
  by (auto simp: GetMinimumGpuVmin_def mariko_floor_def Let_def gpuVoltArray_def)

text \<open>
  The GPU voltage floor never falls when the memory clock rises, on both chips and for every
  bracket, outside the gap between 1600 and 1633 MHz that the Mariko table leaves before its ramp.
\<close>

lemma gpu_floor_mono:
  assumes "soc = HocClkSocType_Mariko \<longrightarrow> f \<le> 1600 \<or> 1633 \<le> f" "f \<le> g"
  shows "GetMinimumGpuVmin soc f bracket \<le> GetMinimumGpuVmin soc g bracket"
proof (cases "f \<le> 1600")
  case False
  then have g: "\<not> g \<le> 1600" "\<not> f \<le> 1600" using assms(2) by auto
  show ?thesis
  proof (cases soc)
    case HocClkSocType_Mariko
    then have "1633 \<le> f" using assms(1) False by auto
    then show ?thesis
      unfolding HocClkSocType_Mariko using g assms(2)
      by (cases bracket rule: find_bracket)
         (auto simp: GetMinimumGpuVmin_mariko marikoRamTable_def not_le intro!: mariko_floor_mono)
  next
    case HocClkSocType_Erista
    then show ?thesis
      using g assms(2)
      by (cases bracket rule: find_bracket)
        (auto simp: GetMinimumGpuVmin_def Let_def eristaRamTable_def intro!: first_step_mono)
  qed
qed (simp add: GetMinimumGpuVmin_def)

lemma gpu_floor_mono_witness:
  "GetMinimumGpuVmin HocClkSocType_Mariko 1866 1 \<le> GetMinimumGpuVmin HocClkSocType_Mariko 2400 1"
  by (rule gpu_floor_mono) simp_all

text \<open>
  In the gap the Mariko floor is 590 mV, and it drops as the ramp starts: a faster memory
  clock gets a lower floor.
\<close>

lemma gpu_floor_gap:
  assumes "1600 < f" "f < 1633"
  shows "GetMinimumGpuVmin HocClkSocType_Mariko f bracket = 590 \<and>
    GetMinimumGpuVmin HocClkSocType_Mariko 1633 bracket < 590"
proof -
  have "f \<le> 2500" using assms(2) by (rule order.trans [OF less_imp_le]) simp
  have le: "f \<le> 2133" "f \<le> 2300" "f \<le> 2433"
    using assms(2) by (auto intro: order.trans [OF less_imp_le])
  show ?thesis
    using assms le \<open>f \<le> 2500\<close>
    by (cases bracket rule: find_bracket)
      (auto simp: GetMinimumGpuVmin_mariko mariko_floor_def marikoRamTable_def gpuVoltArray_def
        first_step_def ramp_volt_def)
qed

lemma gpu_floor_gap_witness: "GetMinimumGpuVmin HocClkSocType_Mariko 1620 2 = 590"
  using gpu_floor_gap [of 1620 2] by simp

lemma raise_floor_nth:
  "i < length t \<Longrightarrow> raise_floor v t ! i = (if t ! i = 0 then 0 else max (t ! i) v)"
  by (auto simp: raise_floor_def max_def)

lemma raise_floor_0 [simp]: "raise_floor 0 t = t"
  by (simp add: raise_floor_def map_idI)

text \<open>
  A successful write of the voltage floor sends the original table with every entry in use
  raised to at least the floor, unused entries left 0 and higher ones unchanged; a floor of 0
  restores the original table. The floor is remembered, so asking for it again does nothing.
\<close>

lemma hijack_floor:
  assumes "\<not> halted b" "ram_vmin b \<noteq> vmin" "rd_pcv_handle env (hw_log b)"
    and "rd_pcv_write env (hw_log b @ [PcvWriteVoltTable (raise_floor vmin (volt_table b))])"
  shows "\<exists>t. hw_log (PcvHijackGpuVolts env vmin b) = hw_log b @ [PcvWriteVoltTable t] \<and>
    t = map (\<lambda>v. if v = 0 then 0 else max v vmin) (volt_table b) \<and>
    (vmin = 0 \<longrightarrow> t = volt_table b) \<and>
    PcvHijackGpuVolts env vmin (PcvHijackGpuVolts env vmin b) = PcvHijackGpuVolts env vmin b"
proof (intro exI conjI)
  let ?t = "raise_floor vmin (volt_table b)"
  show "hw_log (PcvHijackGpuVolts env vmin b) = hw_log b @ [PcvWriteVoltTable ?t]"
    using assms by (simp add: PcvHijackGpuVolts_def emit_def Let_def)
  show "?t = map (\<lambda>v. if v = 0 then 0 else max v vmin) (volt_table b)"
    by (auto simp: raise_floor_def max_def)
  show "vmin = 0 \<longrightarrow> ?t = volt_table b" by simp
  have "ram_vmin (PcvHijackGpuVolts env vmin b) = vmin"
    using assms by (simp add: PcvHijackGpuVolts_def emit_def Let_def)
  then show "PcvHijackGpuVolts env vmin (PcvHijackGpuVolts env vmin b) = PcvHijackGpuVolts env vmin b"
    by (subst PcvHijackGpuVolts_def) simp
qed

text \<open>An odd multiple of half the step is half a step below the next whole one.\<close>

lemma next_step_nat:
  fixes n :: nat
  assumes "n mod 38400000 = 0" "n mod 76800000 \<noteq> 0"
  shows "(n + 76799999) div 76800000 * 76800000 = n + 38400000"
proof -
  obtain k where k: "n = 38400000 * k" using assms(1) by (metis mod_0_imp_dvd dvdE)
  have "odd k"
  proof
    assume "even k"
    then obtain j where "k = 2 * j" by blast
    with k assms(2) show False by simp
  qed
  then obtain j where "k = 2 * j + 1" by (rule oddE)
  with k have "n = 76800000 * j + 38400000" by simp
  then show ?thesis by simp
qed

lemma next_step:
  fixes hz :: u32
  assumes "hz mod 38400000 = 0" "hz mod 76800000 \<noteq> 0" "hz < 1228800000"
  shows "((hz + 76800000 - 1) div 76800000) * 76800000 = hz + 38400000"
proof -
  have lt: "unat hz < 1228800000" using assms(3) by (simp add: word_less_nat_alt)
  have "unat hz mod 38400000 = 0" "unat hz mod 76800000 \<noteq> 0"
    using assms(1,2) by (simp_all add: word_unat_eq_iff unat_mod)
  note n = next_step_nat [OF this]
  have a: "unat (hz + 76799999) = unat hz + 76799999"
    using lt by (simp add: unat_word_ariths)
  have "unat ((hz + 76799999) div 76800000 * 76800000) = unat (hz + 38400000)"
    using lt n by (simp add: unat_word_ariths(2) unat_div a) (simp add: unat_word_ariths)
  then show ?thesis by (simp add: word_unat_eq_iff add.commute)
qed

text \<open>
  Setting a GPU clock: a half step of the Mariko table (an odd multiple of 38.4 MHz below
  1228.8 MHz) is programmed as the next whole step and then injected directly, and is what the
  clock reads as afterwards; every other clock is programmed as it is and ends the injection.
\<close>

lemma set_gpu_clock:
  assumes "\<not> halted b"
  shows "hw_log (SetHz env c HocClkModule_GPU hz b) = hw_log b @
      (if use_gm20b env HocClkModule_GPU hz
       then [rate_cmd env HocClkModule_GPU (hz + 38400000), Gm20bSetClock (hz div 1000)]
       else [rate_cmd env HocClkModule_GPU hz]) \<and>
    (if use_gm20b env HocClkModule_GPU hz
     then GetHz env HocClkModule_GPU (SetHz env c HocClkModule_GPU hz b) = hz
     else currentInjectedHz (SetHz env c HocClkModule_GPU hz b) = 0)"
proof (cases "use_gm20b env HocClkModule_GPU hz")
  case True
  then have hz: "hz mod 38400000 = 0" "hz mod 76800000 \<noteq> 0" "hz < 1228800000" "hz \<noteq> 0"
    by (auto simp: use_gm20b_def MIDDLE_FREQ_TABLE_START_POINT_def)
  have "((hz + 76800000 - 1) div 76800000) * 76800000 = hz + 38400000"
    using hz(1-3) by (rule next_step)
  with True assms hz(4) show ?thesis
    by (simp add: SetHz_def Let_def set_rate_def rate_cmd_def emit_def enum_order_defs GetHz_def)
next
  case False
  with assms show ?thesis
    by (simp add: SetHz_def Let_def set_rate_def rate_cmd_def emit_def enum_order_defs)
qed

text \<open>
  On the performance configurations the system can be in, the boost tests agree with the
  stock clocks of the table: boost mode is the configurations with the lowest GPU clock, the CPU
  is boosted in those at 1785 MHz; and no configuration is listed twice.
\<close>

lemma apm_table_boost:
  "list_all (\<lambda>r. (apmExtIsBoostMode (apm_id r) \<longleftrightarrow> gpu_hz r = 76800000) \<and>
      (apmExtIsCPUBoosted (apm_id r) \<longleftrightarrow> cpu_hz r = 1785000000)) hocclk_g_apm_configurations \<and>
   distinct (map apm_id hocclk_g_apm_configurations)"
  by (simp add: hocclk_g_apm_configurations_def apm_row_def apmExtIsBoostMode_def
      apmExtIsCPUBoosted_def)

text \<open>
  Under the default override method the scheduling setting of the system is written even
  when the mode says not to override it, and what is written switches GPU scheduling off.
\<close>

lemma scheduling_not_overridden_is_disabled:
  assumes "\<not> halted b"
  shows "hw_log (SetGpuSchedulingMode env GpuSchedulingMode_DoNotOverride
      GpuSchedulingOverrideMethod_Ini b) = hw_log b @ [IniPutsGpuScheduling ''u8!0x0''] \<and>
    SetGpuSchedulingMode env GpuSchedulingMode_DoNotOverride GpuSchedulingOverrideMethod_Ini b =
    SetGpuSchedulingMode env GpuSchedulingMode_Disabled GpuSchedulingOverrideMethod_Ini b"
  using assms by (simp add: SetGpuSchedulingMode_def emit_def)

section \<open>The properties at work\<close>

text \<open>A Mariko console whose readings never change.\<close>

definition demo_env :: hw_env where
  "demo_env = \<lparr>hos_at_least_9 = True, hos_has_clkrst = True, soc_type = HocClkSocType_Mariko,
     console_type = HocClkConsoleType_Aula, speedo_bracket = 1, rd_clock = (\<lambda>_ _. 1020000000),
     rd_real_clock = (\<lambda>_ _. 1020000000), rd_display = (\<lambda>_. 60), rd_apm_ok = (\<lambda>_. True),
     rd_apm_conf = (\<lambda>_. 0x00020003),
     rd_perf_mode = (\<lambda>_. 0), rd_pcv_handle = (\<lambda>_. True), rd_pcv_write = (\<lambda>_. True),
     rd_freq_list = (\<lambda>_ m. Some (case m of
         PcvModule_CpuBus \<Rightarrow> [612000000, 1020000000, 1224000000, 1785000000]
       | PcvModule_GPU \<Rightarrow> [76800000, 153600000, 460800000, 768000000, 921600000]
       | PcvModule_EMC \<Rightarrow> [204000000, 665600000, 1331200000, 1600000000, 1862400000])),
     rd_app_id = (\<lambda>_. 0x0100000000010000), rd_profile = (\<lambda>_. HocClkProfile_Docked),
     rd_ns = (\<lambda>_. 0), rd_soc_temp = (\<lambda>_. 45000), rd_temp = (\<lambda>_ _. 45000),
     rd_power = (\<lambda>_ _. - 5000), rd_load = (\<lambda>_ _. 500), rd_voltage = (\<lambda>_ _. 1000),
     rd_fps = (\<lambda>_. 60), rd_resolution = (\<lambda>_. 720), rd_out_of_focus = (\<lambda>_. Some False),
     nv_sched_available = True\<rparr>"

definition demo_board :: board_state where
  "demo_board = \<lparr>hw_log = [], halted = False, currentInjectedHz = 0,
     volt_table = [500, 610, 0, 800], ram_vmin = 0\<rparr>"

lemma hijack_floor_witness:
  "hw_log (PcvHijackGpuVolts demo_env 620 demo_board) = [PcvWriteVoltTable [620, 620, 0, 800]]"
  using hijack_floor [of demo_board 620 demo_env]
  by (simp add: demo_board_def demo_env_def max_def)

lemma set_gpu_clock_witness:
  "hw_log (SetHz demo_env demo_config HocClkModule_GPU 844800000 demo_board) =
     [ClkrstSetRate PcvModule_GPU 844800000] \<and>
   hw_log (SetHz demo_env demo_config HocClkModule_GPU 883200000 demo_board) =
     [ClkrstSetRate PcvModule_GPU 921600000, Gm20bSetClock 883200]"
  using set_gpu_clock [of demo_board demo_env demo_config 844800000]
    set_gpu_clock [of demo_board demo_env demo_config 883200000]
  by (simp add: demo_board_def demo_env_def rate_cmd_def use_gm20b_def
      MIDDLE_FREQ_TABLE_START_POINT_def)

lemma scheduling_not_overridden_is_disabled_witness:
  "hw_log (SetGpuSchedulingMode demo_env GpuSchedulingMode_DoNotOverride
      GpuSchedulingOverrideMethod_Ini demo_board) = [IniPutsGpuScheduling ''u8!0x0'']"
proof -
  have b: "\<not> halted demo_board" "hw_log demo_board = []" by (simp_all add: demo_board_def)
  show ?thesis
    using conjunct1 [OF scheduling_not_overridden_is_disabled [OF b(1), of demo_env]]
    unfolding b(2) append_Nil .
qed

end
