(* ===== verification/Clock_State.thy ===== *)
theory Clock_State
  imports Board "HOL-Library.Signed_Division"
begin

text \<open>
  The state the clock manager and the governor share (\<open>mgr/clock_manager.cpp\<close>, the globals of
  \<open>mgr/governor.cpp\<close> and the context of \<open>common/include/hocclk/clock_manager.h\<close>) and the
  functions both call: the assignable clocks, the cap of a profile, the choice of a table entry
  and the clock the settings ask for.

  The static fields of the context that are written once at the start (fuses, DRAM, console,
  installed integrations other than SaltyNX) and the padding are left out.
\<close>

section \<open>State\<close>

record stable_context =
  st_freqs :: "HocClkModule \<Rightarrow> u32"
  st_realFreqs :: "HocClkModule \<Rightarrow> u32"
  st_overrideFreqs :: "HocClkModule \<Rightarrow> u32"
  st_temps :: "HocClkThermalSensor \<Rightarrow> int"
  st_power :: "HocClkPowerSensor \<Rightarrow> int"
  st_partLoad :: "HocClkPartLoad \<Rightarrow> u32"
  st_voltages :: "HocClkVoltage \<Rightarrow> u32"

record hoc_context =
  c_stable :: stable_context
  c_applicationId :: u64
  c_profile :: HocClkProfile
  c_freqs :: "HocClkModule \<Rightarrow> u32"
  c_realFreqs :: "HocClkModule \<Rightarrow> u32"
  c_overrideFreqs :: "HocClkModule \<Rightarrow> u32"
  c_temps :: "HocClkThermalSensor \<Rightarrow> int"
  c_power :: "HocClkPowerSensor \<Rightarrow> int"
  c_partLoad :: "HocClkPartLoad \<Rightarrow> u32"
  c_voltages :: "HocClkVoltage \<Rightarrow> u32"
  c_isSaltyNXInstalled :: bool
  c_fps :: u8
  c_resolutionHeight :: u16

record governor_state =
  isGpuGovernorEnabled :: bool
  isCpuGovernorEnabled :: bool
  isVRREnabled :: bool
  lastGpuGovernorState :: bool
  lastCpuGovernorState :: bool
  lastVrrGovernorState :: bool
  isCpuGovernorInBoostMode :: bool

record sys =
  cfg :: config_state
  brd :: board_state
  gContext :: hoc_context
  gFreqTable :: "HocClkModule \<Rightarrow> u32 list"
  gov :: governor_state
  gRunning :: bool
  prepareBoostExit :: bool
  miscTick :: u32
  gLastTempLogNs :: u64
  gLastFreqLogNs :: u64
  gLastPowerLogNs :: u64
  gLastCsvWriteNs :: u64

definition on_board :: "(board_state \<Rightarrow> board_state) \<Rightarrow> sys \<Rightarrow> sys" where
  "on_board f s = s\<lparr>brd := f (brd s)\<rparr>"

text \<open>\<open>gContext.freqs[module] = hz; gContext.stable.freqs[module] = hz\<close> and its siblings.\<close>

definition set_ctx_freq :: "HocClkModule \<Rightarrow> u32 \<Rightarrow> hoc_context \<Rightarrow> hoc_context" where
  "set_ctx_freq module hz c =
     c\<lparr>c_freqs := (c_freqs c)(module := hz),
       c_stable := (c_stable c)\<lparr>st_freqs := (st_freqs (c_stable c))(module := hz)\<rparr>\<rparr>"

definition set_ctx_real :: "HocClkModule \<Rightarrow> u32 \<Rightarrow> hoc_context \<Rightarrow> hoc_context" where
  "set_ctx_real module hz c =
     c\<lparr>c_realFreqs := (c_realFreqs c)(module := hz),
       c_stable := (c_stable c)\<lparr>st_realFreqs := (st_realFreqs (c_stable c))(module := hz)\<rparr>\<rparr>"

definition set_ctx_override :: "HocClkModule \<Rightarrow> u32 \<Rightarrow> hoc_context \<Rightarrow> hoc_context" where
  "set_ctx_override module hz c =
     c\<lparr>c_overrideFreqs := (c_overrideFreqs c)(module := hz),
       c_stable := (c_stable c)\<lparr>st_overrideFreqs := (st_overrideFreqs (c_stable c))(module := hz)\<rparr>\<rparr>"

definition on_ctx :: "(hoc_context \<Rightarrow> hoc_context) \<Rightarrow> sys \<Rightarrow> sys" where
  "on_ctx f s = s\<lparr>gContext := f (gContext s)\<rparr>"

text \<open>A configuration value read into an \<open>int\<close>.\<close>

definition config_int :: "sys \<Rightarrow> HocClkConfigValue \<Rightarrow> int" where
  "config_int s kval = sint (ucast (GetConfigValue (cfg s) kval) :: u32)"

definition config_on :: "sys \<Rightarrow> HocClkConfigValue \<Rightarrow> bool" where
  "config_on s kval \<longleftrightarrow> GetConfigValue (cfg s) kval \<noteq> 0"

section \<open>Limits\<close>

fun IsAssignableHz :: "HocClkModule \<Rightarrow> u32 \<Rightarrow> bool" where
  "IsAssignableHz HocClkModule_CPU hz \<longleftrightarrow> hz \<ge> 500000000"
| "IsAssignableHz HocClkModule_MEM hz \<longleftrightarrow> hz \<ge> 665600000"
| "IsAssignableHz _ hz \<longleftrightarrow> True"

text \<open>0 stands for no cap.\<close>

definition GetMaxAllowedHz ::
  "hw_env \<Rightarrow> config_state \<Rightarrow> HocClkModule \<Rightarrow> HocClkProfile \<Rightarrow> u32" where
  "GetMaxAllowedHz env c module profile =
     (if GetConfigValue c (Hoc HocClkConfigValue_UncappedClocks) \<noteq> 0 then - 1
      else
        (let uv = GetConfigValue c (Kip KipConfigValue_marikoGpuUV) in
         if module = HocClkModule_GPU then
           (if profile < HocClkProfile_HandheldCharging then
              (if soc_type env = HocClkSocType_Erista then 460800000
               else if uv = 0 then 614400000 else if uv = 1 then 691200000
               else if uv = 2 then 768000000 else 614400000)
            else if profile \<le> HocClkProfile_HandheldChargingUSB then
              (if soc_type env = HocClkSocType_Erista then 768000000
               else if uv = 0 then 844800000 else if uv = 1 then 921600000
               else if uv = 2 then 998400000 else 844800000)
            else 0)
         else if module = HocClkModule_CPU then
           (if profile < HocClkProfile_HandheldCharging \<and> soc_type env = HocClkSocType_Erista
            then 1581000000 else - 1)
         else 0))"

section \<open>The choice of a table entry\<close>

text \<open>
  The loop of \<open>GetNearestHz\<close>: it stops at the first entry that reaches the cap, at the first one
  the request is not past the midpoint above of, and at the last one.
\<close>

fun nearest_from :: "u32 list \<Rightarrow> u32 \<Rightarrow> u32 \<Rightarrow> u32" where
  "nearest_from [] inHz maxHz = 0"
| "nearest_from [f] inHz maxHz = f"
| "nearest_from (f # g # fs) inHz maxHz =
     (if maxHz > 0 \<and> f \<ge> maxHz then f
      else if (ucast inHz :: u64) \<le> ((ucast f :: u64) + ucast g) div 2 then f
      else nearest_from (g # fs) inHz maxHz)"

text \<open>On an empty table the count underflows and the loop reads past the table: \<open>None\<close>.\<close>

definition GetNearestHz :: "u32 list \<Rightarrow> u32 \<Rightarrow> u32 \<Rightarrow> u32 option" where
  "GetNearestHz table inHz maxHz =
     (if table = [] then None else Some (nearest_from table inHz maxHz))"

definition TableIndexForHz :: "u32 list \<Rightarrow> u32 \<Rightarrow> nat" where
  "TableIndexForHz table targetHz =
     (case first_index (\<lambda>f. f \<ge> targetHz) table of Some i \<Rightarrow> i | None \<Rightarrow> length table - 1)"

text \<open>\<open>table.list[TableIndexForHz(table, desiredHz)]\<close>, undefined on an empty table.\<close>

definition table_pick :: "u32 list \<Rightarrow> u32 \<Rightarrow> u32 option" where
  "table_pick table hz = (if table = [] then None else Some (table ! TableIndexForHz table hz))"

section \<open>The clock the settings ask for\<close>

text \<open>The temporary override, then the clock of the running title, then the global profile.\<close>

definition target_hz :: "sys \<Rightarrow> HocClkModule \<Rightarrow> bool \<Rightarrow> u32" where
  "target_hz s module returnRaw =
     (let c = gContext s;
          t0 = c_overrideFreqs c module;
          t1 = (if t0 = 0 then GetAutoClockHz (cfg s) (c_applicationId c) module (c_profile c) returnRaw
                else t0)
      in if t1 = 0 then GetAutoClockHz (cfg s) HOCCLK_GLOBAL_PROFILE_TID module (c_profile c) returnRaw
         else t1)"

definition ResolveTargetHz :: "sys \<Rightarrow> HocClkModule \<Rightarrow> u32" where
  "ResolveTargetHz s module = target_hz s module False"

section \<open>The chosen entry is in the table\<close>

text \<open>
  What the callers rely on: whatever the request, a choice from a table is an entry of it, and
  there is one unless the table is empty.
\<close>

locale freq_pick =
  fixes pick :: "u32 list \<Rightarrow> u32 \<Rightarrow> u32 option"
  assumes pick_empty: "pick [] hz = None"
    and pick_entry: "table \<noteq> [] \<Longrightarrow> \<exists>f\<in>set table. pick table hz = Some f"
begin

lemma pick_in: "pick table hz = Some f \<Longrightarrow> f \<in> set table"
  using pick_entry [of table hz] pick_empty [of hz] by (cases "table = []") auto

lemma pick_defined: "pick table hz \<noteq> None \<longleftrightarrow> table \<noteq> []"
  using pick_entry [of table hz] pick_empty [of hz] by auto

lemma pick_single: "pick [f] hz = Some f"
  using pick_entry [of "[f]" hz] by auto

end

lemma nearest_from_in: "table \<noteq> [] \<Longrightarrow> nearest_from table inHz maxHz \<in> set table"
  by (induction table inHz maxHz rule: nearest_from.induct) (auto simp: Let_def)

interpretation nearest: freq_pick "\<lambda>table hz. GetNearestHz table hz maxHz"
  by unfold_locales (auto simp: GetNearestHz_def nearest_from_in)

lemma TableIndexForHz_less: "table \<noteq> [] \<Longrightarrow> TableIndexForHz table hz < length table"
  by (auto simp: TableIndexForHz_def dest: first_index_Some split: option.splits)

interpretation indexed: freq_pick table_pick
  by unfold_locales (auto simp: table_pick_def TableIndexForHz_less)

section \<open>The choice is the nearest one allowed\<close>

text \<open>The entries a cap allows: those below it and the first that reaches it.\<close>

definition allowed_entry :: "u32 list \<Rightarrow> u32 \<Rightarrow> u32 \<Rightarrow> bool" where
  "allowed_entry table maxHz f \<longleftrightarrow>
     f \<in> set table \<and> (maxHz = 0 \<or> (\<forall>g\<in>set table. g < f \<longrightarrow> g < maxHz))"

definition hz_distance :: "u32 \<Rightarrow> u32 \<Rightarrow> int" where
  "hz_distance f g = \<bar>int (unat f) - int (unat g)\<bar>"

lemma midpoint:
  "(ucast inHz :: u64) \<le> ((ucast (f :: u32) :: u64) + ucast (g :: u32)) div 2 \<longleftrightarrow>
    2 * unat (inHz :: u32) \<le> unat f + unat g"
  by (simp add: word_le_nat_alt unat_mean_u64) linarith

lemma nearest_from_optimal:
  "sorted_wrt (<) table \<Longrightarrow> allowed_entry table maxHz x \<Longrightarrow>
    allowed_entry table maxHz (nearest_from table inHz maxHz) \<and>
    hz_distance inHz (nearest_from table inHz maxHz) \<le> hz_distance inHz x"
proof (induction table inHz maxHz arbitrary: x rule: nearest_from.induct)
  case (3 f g fs inHz maxHz)
  have lt: "unat f < unat y" if "y \<in> set (g # fs)" for y
    using 3(2) that by (auto simp: word_less_nat_alt)
  have ge: "unat g \<le> unat y" if "y \<in> set (g # fs)" for y
    using 3(2) that by (auto simp: word_less_nat_alt)
  have f: "allowed_entry (f # g # fs) maxHz f"
    using lt by (fastforce simp: allowed_entry_def word_less_nat_alt)
  show ?case
  proof (cases "maxHz > 0 \<and> f \<ge> maxHz")
    case True
    then have "x = f" using 3(2,3) by (auto simp: allowed_entry_def)
    with True f show ?thesis by simp
  next
    case uncapped: False
    show ?thesis
    proof (cases "2 * unat inHz \<le> unat f + unat g")
      case True
      have "hz_distance inHz f \<le> hz_distance inHz x"
      proof (cases "x = f")
        case False
        then have "unat g \<le> unat x" "unat f < unat g"
          using 3(3) ge lt by (auto simp: allowed_entry_def)
        with True show ?thesis unfolding hz_distance_def by linarith
      qed simp
      with True uncapped f show ?thesis by (simp add: midpoint)
    next
      case False
      let ?r = "nearest_from (g # fs) inHz maxHz"
      have eq: "nearest_from (f # g # fs) inHz maxHz = ?r"
        using uncapped False by (auto simp: midpoint)
      have sorted: "sorted_wrt (<) (g # fs)" using 3(2) by simp
      have IH: "allowed_entry (g # fs) maxHz ?r \<and> hz_distance inHz ?r \<le> hz_distance inHz y"
        if "allowed_entry (g # fs) maxHz y" for y
        using 3(1) [OF _ _ sorted that] uncapped False by (auto simp: midpoint)
      have g: "allowed_entry (g # fs) maxHz g"
        using 3(2) by (fastforce simp: allowed_entry_def)
      have "maxHz = 0 \<or> f < maxHz"
        using uncapped by (metis not_le word_gt_0)
      then have r: "allowed_entry (f # g # fs) maxHz ?r"
        using IH [OF g] by (auto simp: allowed_entry_def)
      have "hz_distance inHz g \<le> hz_distance inHz f"
        using False lt [OF list.set_intros(1)] unfolding hz_distance_def by linarith
      moreover have "allowed_entry (g # fs) maxHz x" if "x \<noteq> f"
        using 3(3) that by (auto simp: allowed_entry_def)
      ultimately show ?thesis
        using IH [OF g] IH [of x] r unfolding eq by (cases "x = f") auto
    qed
  qed
qed (auto simp: allowed_entry_def)

text \<open>
  C35. On an ascending table the clock \<open>GetNearestHz\<close> chooses is, of the entries below the cap
  and the first one that reaches it, one with the least distance from the requested clock.
\<close>

theorem nearest_hz_optimal:
  assumes "sorted_wrt (<) table" "GetNearestHz table inHz maxHz = Some f"
  shows "allowed_entry table maxHz f \<and>
    (\<forall>x. allowed_entry table maxHz x \<longrightarrow> hz_distance inHz f \<le> hz_distance inHz x)"
proof -
  have f: "f = nearest_from table inHz maxHz" "table \<noteq> []"
    using assms(2) by (auto simp: GetNearestHz_def split: if_splits)
  have "allowed_entry table maxHz (hd table)"
    using assms(1) f(2) by (cases table) (auto simp: allowed_entry_def)
  then show ?thesis
    using nearest_from_optimal [OF assms(1)] f(1) by blast
qed

lemma nearest_hz_optimal_witness:
  "hz_distance 700000000 614400000 \<le> hz_distance 700000000 (537600000 :: u32)"
proof -
  have "GetNearestHz [537600000, 614400000, 768000000] 700000000 614400000 = Some 614400000"
    by (simp add: GetNearestHz_def)
  moreover have "allowed_entry [537600000, 614400000, 768000000] 614400000 537600000"
    by (simp add: allowed_entry_def)
  ultimately show ?thesis
    using nearest_hz_optimal [of "[537600000, 614400000, 768000000]" 700000000 614400000 614400000]
    by simp
qed

text \<open>
  A cap that is itself an entry of the table is respected; and no cap (0) leaves every entry
  allowed.
\<close>

lemma nearest_respects_cap:
  assumes "sorted_wrt (<) table" "maxHz \<in> set table" "GetNearestHz table inHz maxHz = Some f"
  shows "f \<le> maxHz \<or> maxHz = 0"
proof -
  have "table \<noteq> []" and f: "f = nearest_from table inHz maxHz"
    using assms(3) by (auto simp: GetNearestHz_def split: if_splits)
  then have "allowed_entry table maxHz (hd table)"
    using assms(1) by (cases table) (auto simp: allowed_entry_def)
  then have "allowed_entry table maxHz f"
    using nearest_from_optimal [OF assms(1)] f by blast
  with assms(2) show ?thesis by (fastforce simp: allowed_entry_def)
qed

lemma nearest_respects_cap_witness:
  "614400000 \<le> (614400000 :: u32) \<and>
   GetNearestHz [537600000, 614400000, 768000000] 921600000 614400000 = Some 614400000"
proof -
  have n: "GetNearestHz [537600000, 614400000, 768000000] 921600000 614400000 = Some 614400000"
    by (simp add: GetNearestHz_def)
  with nearest_respects_cap [of "[537600000, 614400000, 768000000]" 614400000 921600000 614400000]
  show ?thesis by simp
qed

section \<open>Precedence of the settings\<close>

text \<open>The places the profile clock of a module is looked for, in order.\<close>

definition target_sources :: "sys \<Rightarrow> (u64 \<times> HocClkProfile) list" where
  "target_sources s =
     (let chain = profile_chain (c_profile (gContext s))
      in map (Pair (c_applicationId (gContext s))) chain @ map (Pair HOCCLK_GLOBAL_PROFILE_TID) chain)"

lemma find_map_Pair: "find P (map (Pair t) qs) = map_option (Pair t) (find (\<lambda>q. P (t, q)) qs)"
  by (induction qs) auto

lemma scaled_nonzero:
  fixes mhz :: u32
  assumes "mhz \<noteq> 0" "mhz < 4295"
  shows "mhz * 1000000 \<noteq> 0"
proof -
  have "unat mhz < 4295" "unat mhz \<noteq> 0"
    using assms by (simp_all add: word_less_nat_alt unat_eq_zero)
  then have "unat (mhz * 1000000) \<noteq> 0" by (simp add: unat_word_ariths)
  then show ?thesis by (metis unat_0)
qed

lemma target_lookup:
  assumes "\<forall>t q. FindClockMHz (cfg s) t module q < 4295"
  shows "target_hz s module returnRaw =
    (if c_overrideFreqs (gContext s) module \<noteq> 0 then c_overrideFreqs (gContext s) module
     else (case find (\<lambda>(t, q). FindClockMHz (cfg s) t module q \<noteq> 0) (target_sources s) of
             None \<Rightarrow> 0
           | Some (t, q) \<Rightarrow> FindClockMHz (cfg s) t module q * (if returnRaw then 1 else 1000000)))"
proof -
  have nz: "FindClockMHz (cfg s) t module q * (if returnRaw then 1 else 1000000) \<noteq> 0"
    if "find (\<lambda>q. FindClockMHz (cfg s) t module q \<noteq> 0) ps = Some q" for t q ps
    using find_Some_in [OF that] assms by (auto simp: scaled_nonzero)
  show ?thesis
    unfolding target_hz_def Let_def auto_clock_fallback target_sources_def find_append find_map_Pair
    by (auto simp: split_beta dest: nz split: option.splits)
qed

text \<open>
  C36. The clock a module is set to is its temporary override when there is one; otherwise the
  first clock stored for the running title along the fallback chain of the profile; otherwise
  the first one of the global profile, along the same chain; and 0 when nothing is stored.
\<close>

theorem target_precedence:
  assumes "\<forall>t q. FindClockMHz (cfg s) t module q < 4295"
  shows "target_hz s module returnRaw =
    (if c_overrideFreqs (gContext s) module \<noteq> 0 then c_overrideFreqs (gContext s) module
     else (case find (\<lambda>(t, q). FindClockMHz (cfg s) t module q \<noteq> 0) (target_sources s) of
             None \<Rightarrow> 0
           | Some (t, q) \<Rightarrow> FindClockMHz (cfg s) t module q * (if returnRaw then 1 else 1000000)))"
  by (rule target_lookup [OF assms])

section \<open>The properties at work\<close>

definition demo_context :: hoc_context where
  "demo_context = \<lparr>c_stable = \<lparr>st_freqs = (\<lambda>_. 0), st_realFreqs = (\<lambda>_. 0),
       st_overrideFreqs = (\<lambda>_. 0), st_temps = (\<lambda>_. 0), st_power = (\<lambda>_. 0),
       st_partLoad = (\<lambda>_. 0), st_voltages = (\<lambda>_. 0)\<rparr>,
     c_applicationId = 0x0100000000010000, c_profile = HocClkProfile_Docked, c_freqs = (\<lambda>_. 0),
     c_realFreqs = (\<lambda>_. 0), c_overrideFreqs = (\<lambda>_. 0), c_temps = (\<lambda>_. 0), c_power = (\<lambda>_. 0),
     c_partLoad = (\<lambda>_. 0), c_voltages = (\<lambda>_. 0), c_isSaltyNXInstalled = True, c_fps = 0,
     c_resolutionHeight = 0\<rparr>"

definition demo_sys :: sys where
  "demo_sys = \<lparr>
     cfg = demo_config\<lparr>gLoaded := True, gProfileMHzMap :=
       [(HOCCLK_GLOBAL_PROFILE_TID, HocClkProfile_Docked, HocClkModule_GPU) \<mapsto> 900,
        (HOCCLK_GLOBAL_PROFILE_TID, HocClkProfile_Docked, HocClkModule_MEM) \<mapsto> 1600]\<rparr>,
     brd = demo_board, gContext = demo_context,
     gFreqTable = (\<lambda>m. case m of
         HocClkModule_CPU \<Rightarrow> [612000000, 1020000000, 1785000000]
       | HocClkModule_GPU \<Rightarrow> [460800000, 768000000, 921600000]
       | HocClkModule_MEM \<Rightarrow> [665600000, 1331200000, 1600000000]
       | _ \<Rightarrow> [60]),
     gov = \<lparr>isGpuGovernorEnabled = False, isCpuGovernorEnabled = False, isVRREnabled = False,
       lastGpuGovernorState = False, lastCpuGovernorState = False, lastVrrGovernorState = False,
       isCpuGovernorInBoostMode = False\<rparr>,
     gRunning = True, prepareBoostExit = False, miscTick = 0, gLastTempLogNs = 0,
     gLastFreqLogNs = 0, gLastPowerLogNs = 0, gLastCsvWriteNs = 0\<rparr>"

lemma target_precedence_witness:
  "target_hz demo_sys HocClkModule_GPU False = 900000000"
proof -
  have "FindClockMHz (cfg demo_sys) t HocClkModule_GPU q < 4295" for t q
    by (simp add: FindClockMHz_def demo_sys_def demo_config_def)
  then have "\<forall>t q. FindClockMHz (cfg demo_sys) t HocClkModule_GPU q < 4295" by blast
  from target_precedence [OF this] show ?thesis
    by (simp add: target_sources_def FindClockMHz_def demo_sys_def demo_config_def demo_context_def
        HOCCLK_GLOBAL_PROFILE_TID_def)
qed

end
