(* ===== verification/Governor.thy ===== *)
theory Governor
  imports Clock_State
begin

text \<open>
  The governor, \<open>sysmodule/src/mgr/governor.cpp\<close>: the switch of the three component governors
  and one pass of the governor thread, which follows the load with the CPU and GPU clocks and the
  frame rate with the display. The thread's local variables are the record \<open>gov_thread\<close>. The
  passes of the thread and the ticks of the clock manager exclude each other by the context
  mutex; a whole pass is one step here.

  An empty frequency table, on which the code would read past the array, stops the model as an
  abort does.
\<close>

section \<open>The switch\<close>

definition resolve_governor :: "u8 \<Rightarrow> u8 \<Rightarrow> u8" where
  "resolve_governor app temp =
     (if temp = ComponentGovernor_Disabled then ComponentGovernor_Disabled
      else if temp \<noteq> ComponentGovernor_DoNotOverride then temp
      else app)"

definition HandleGovernor :: "hw_env \<Rightarrow> u32 \<Rightarrow> sys \<Rightarrow> sys" where
  "HandleGovernor env targetHz s =
     (let tempTargetHz = target_hz s HocClkModule_Governor True;
          effectiveCpu = resolve_governor (GovernorStateCpu targetHz) (GovernorStateCpu tempTargetHz);
          effectiveGpu = resolve_governor (GovernorStateGpu targetHz) (GovernorStateGpu tempTargetHz);
          effectiveVrr = resolve_governor (GovernorStateVrr targetHz) (GovernorStateVrr tempTargetHz);
          newCpu = (effectiveCpu = ComponentGovernor_Enabled);
          newGpu = (effectiveGpu = ComponentGovernor_Enabled);
          newVrr = (effectiveVrr = ComponentGovernor_Enabled);
          g = gov s;
          s1 = s\<lparr>gov := g\<lparr>isCpuGovernorEnabled := newCpu, isGpuGovernorEnabled := newGpu,
                 isVRREnabled := newVrr\<rparr>\<rparr>;
          s2 = (if \<not> newCpu \<and> lastCpuGovernorState g then on_board (ResetToStockCpu env (cfg s)) s1
                else s1);
          s3 = (if \<not> newGpu \<and> lastGpuGovernorState g then on_board (ResetToStockGpu env (cfg s)) s2
                else s2);
          s4 = (if \<not> newVrr \<and> lastVrrGovernorState g then on_board ResetToStockDisplay s3 else s3)
      in if newCpu \<noteq> lastCpuGovernorState g \<or> newGpu \<noteq> lastGpuGovernorState g \<or>
            newVrr \<noteq> lastVrrGovernorState g
         then s4\<lparr>gov := (gov s4)\<lparr>lastCpuGovernorState := newCpu, lastGpuGovernorState := newGpu,
                lastVrrGovernorState := newVrr\<rparr>\<rparr>
         else s4)"

section \<open>The thread\<close>

record gov_thread =
  cpuDownHoldRemaining :: u32
  cpuLastHz :: u32
  gpuDownHoldRemaining :: u32
  gpuLastHz :: u32
  minHz :: u32
  cpuTick :: u32
  vrrTick :: u8
  vrrFocusTick :: u8

definition gov_thread_start :: gov_thread where
  "gov_thread_start = \<lparr>cpuDownHoldRemaining = 0, cpuLastHz = 0, gpuDownHoldRemaining = 0,
     gpuLastHz = 0, minHz = 612, cpuTick = 0, vrrTick = 0, vrrFocusTick = 0\<rparr>"

definition POLL_NS :: u64 where "POLL_NS = 5000000"
definition DOWN_HOLD_TICKS :: u32 where "DOWN_HOLD_TICKS = 10"
definition STEP_UTIL :: u64 where "STEP_UTIL = 900"

definition SchedutilTargetHz :: "u32 \<Rightarrow> u32 \<Rightarrow> u32" where
  "SchedutilTargetHz util tableMaxHz =
     (let hz = (ucast tableMaxHz :: u64) * ucast util div STEP_UTIL
      in ucast (min hz (ucast tableMaxHz)))"

text \<open>The clock the load asks for, under the target of the settings and the cap of the profile.\<close>

definition desired_hz :: "u32 \<Rightarrow> u32 \<Rightarrow> u32 \<Rightarrow> u32 \<Rightarrow> u32" where
  "desired_hz load tableMaxHz targetHz maxHz =
     (let d0 = SchedutilTargetHz load tableMaxHz;
          d1 = (if targetHz \<noteq> 0 \<and> d0 > targetHz then targetHz else d0)
      in if maxHz \<noteq> 0 \<and> d1 > maxHz then maxHz else d1)"

definition governor_pick ::
  "hw_env \<Rightarrow> HocClkModule \<Rightarrow> HocClkPartLoad \<Rightarrow> sys \<Rightarrow> u32 option" where
  "governor_pick env module load s =
     (let table = gFreqTable s module in
      if table = [] then None
      else table_pick table
             (desired_hz (rd_load env (hw_log (brd s)) load) (last table)
               (ResolveTargetHz s module)
               (GetMaxAllowedHz env (cfg s) module (c_profile (gContext s)))))"

text \<open>How long a lower clock is held back: the countdown after this pass.\<close>

definition going_down :: "u32 \<Rightarrow> u32 \<Rightarrow> bool" where
  "going_down lastHz newHz \<longleftrightarrow> lastHz \<noteq> 0 \<and> newHz < lastHz"

definition hold_after :: "u32 \<Rightarrow> u32 \<Rightarrow> u32 \<Rightarrow> u32" where
  "hold_after hold lastHz newHz =
     (let h = (if \<not> going_down lastHz newHz then 0
               else if hold = 0 then DOWN_HOLD_TICKS else hold)
      in if h > 0 then h - 1 else h)"

definition apply_governor_hz :: "hw_env \<Rightarrow> HocClkModule \<Rightarrow> u32 \<Rightarrow> sys \<Rightarrow> sys" where
  "apply_governor_hz env module hz s =
     on_ctx (set_ctx_freq module hz) (on_board (SetHz env (cfg s) module hz) s)"

definition set_boost_flag :: "bool \<Rightarrow> sys \<Rightarrow> sys" where
  "set_boost_flag v s = s\<lparr>gov := (gov s)\<lparr>isCpuGovernorInBoostMode := v\<rparr>\<rparr>"

definition cpu_pass :: "hw_env \<Rightarrow> gov_thread \<times> sys \<Rightarrow> gov_thread \<times> sys" where
  "cpu_pass env ts =
     (case ts of (t, s) \<Rightarrow>
        if \<not> isCpuGovernorEnabled (gov s) then
          (t\<lparr>cpuDownHoldRemaining := 0, cpuLastHz := 0\<rparr>, set_boost_flag False s)
        else if rd_apm_ok env (hw_log (brd s)) \<and> apmExtIsBoostMode (rd_apm_conf env (hw_log (brd s)))
        then (t\<lparr>cpuDownHoldRemaining := 0, cpuLastHz := 0\<rparr>, set_boost_flag True s)
        else
          (let s1 = set_boost_flag False s in
           case governor_pick env HocClkModule_CPU HocClkPartLoad_CPUMax s1 of
             None \<Rightarrow> (t, on_board abort_process s1)
           | Some picked \<Rightarrow>
               (let hold = hold_after (cpuDownHoldRemaining t) (cpuLastHz t) picked;
                    t1 = t\<lparr>cpuDownHoldRemaining := hold\<rparr>;
                    t2 = (if cpuTick t + 1 > 50
                          then t1\<lparr>cpuTick := 0, minHz := ucast (GetConfigValue (cfg s1)
                                 (Hoc HocClkConfigValue_CpuGovernorMinimumFreq))\<rparr>
                          else t1\<lparr>cpuTick := cpuTick t + 1\<rparr>);
                    newHz = (if picked < minHz t2 then minHz t2 else picked)
                in if (\<not> going_down (cpuLastHz t) picked \<or> hold = 0) \<and>
                      IsAssignableHz HocClkModule_CPU newHz
                   then (t2\<lparr>cpuLastHz := newHz\<rparr>, apply_governor_hz env HocClkModule_CPU newHz s1)
                   else (t2, s1))))"

definition gpu_pass :: "hw_env \<Rightarrow> gov_thread \<times> sys \<Rightarrow> gov_thread \<times> sys" where
  "gpu_pass env ts =
     (case ts of (t, s) \<Rightarrow>
        if \<not> isGpuGovernorEnabled (gov s) then (t\<lparr>gpuDownHoldRemaining := 0, gpuLastHz := 0\<rparr>, s)
        else
          (case governor_pick env HocClkModule_GPU HocClkPartLoad_GPU s of
             None \<Rightarrow> (t, on_board abort_process s)
           | Some newHz \<Rightarrow>
               (let hold = hold_after (gpuDownHoldRemaining t) (gpuLastHz t) newHz;
                    t1 = t\<lparr>gpuDownHoldRemaining := hold\<rparr>
                in if (\<not> going_down (gpuLastHz t) newHz \<or> hold = 0) \<and>
                      IsAssignableHz HocClkModule_GPU newHz
                   then (t1\<lparr>gpuLastHz := newHz\<rparr>, apply_governor_hz env HocClkModule_GPU newHz s)
                   else (t1, s))))"

section \<open>The display\<close>

text \<open>The target is read scaled to Hz and then cut to eight bits.\<close>

definition vrr_max :: "sys \<Rightarrow> u8" where
  "vrr_max s = (let targetHz = target_hz s HocClkModule_Display False
                in if targetHz \<noteq> 0 then ucast targetHz else 60)"

definition vrr_min :: "hw_env \<Rightarrow> u8" where
  "vrr_min env = (if console_type env = HocClkConsoleType_Aula then 45 else 40)"

text \<open>The frame rate itself when the panel can show it, or its first multiple that it can.\<close>

definition vrr_choice :: "u8 \<Rightarrow> u8 \<Rightarrow> u8 \<Rightarrow> u32 option" where
  "vrr_choice fps minDisplay maxDisplay =
     (if fps \<ge> minDisplay \<and> fps \<le> maxDisplay then Some (ucast fps)
      else find (\<lambda>compareHz. compareHz \<ge> ucast minDisplay \<and> compareHz \<le> ucast maxDisplay)
             (map (\<lambda>i. ucast fps * i) [1, 2, 3, 4, 5, 6, 7, 8, 9]))"

definition set_display_hz :: "hw_env \<Rightarrow> u32 \<Rightarrow> sys \<Rightarrow> sys" where
  "set_display_hz env hz s =
     on_ctx (set_ctx_real HocClkModule_Display hz \<circ> set_ctx_freq HocClkModule_Display hz)
       (on_board (SetHz env (cfg s) HocClkModule_Display hz) s)"

definition vrr_apply :: "hw_env \<Rightarrow> gov_thread \<times> sys \<Rightarrow> gov_thread \<times> sys" where
  "vrr_apply env ts =
     (case ts of (t, s) \<Rightarrow>
        let fps = rd_fps env (hw_log (brd s)); maxDisplay = vrr_max s; minDisplay = vrr_min env in
        if fps = 254 \<or> maxDisplay = minDisplay then (t, s)
        else
          (let s1 = (case vrr_choice fps minDisplay maxDisplay of
                       Some hz \<Rightarrow> set_display_hz env hz s | None \<Rightarrow> s)
           in if vrrTick t + 1 > 50
              then (t\<lparr>vrrTick := 0\<rparr>,
                    on_board (emit (SleepThread 50000000) \<circ>
                      SetHz env (cfg s1) HocClkModule_Display (ucast maxDisplay)) s1)
              else (t\<lparr>vrrTick := vrrTick t + 1\<rparr>, s1)))"

definition vrr_pass :: "hw_env \<Rightarrow> gov_thread \<times> sys \<Rightarrow> gov_thread \<times> sys" where
  "vrr_pass env ts =
     (case ts of (t, s) \<Rightarrow>
        if isVRREnabled (gov s) \<and> c_profile (gContext s) \<noteq> HocClkProfile_Docked \<and>
           c_isSaltyNXInstalled (gContext s) then
          (if vrrFocusTick t + 1 > 100 then
             (let t1 = t\<lparr>vrrFocusTick := 0\<rparr> in
              if rd_out_of_focus env (hw_log (brd s)) \<noteq> Some False
              then (t1, on_board ResetToStockDisplay s)
              else vrr_apply env (t1, s))
           else vrr_apply env (t\<lparr>vrrFocusTick := vrrFocusTick t + 1\<rparr>, s))
        else (t, s))"

text \<open>One pass of the thread's loop.\<close>

definition GovernorThread :: "hw_env \<Rightarrow> gov_thread \<times> sys \<Rightarrow> gov_thread \<times> sys" where
  "GovernorThread env ts =
     (case ts of (t, s) \<Rightarrow>
        let (t1, s1) =
          (if \<not> gRunning s then
             (t\<lparr>cpuDownHoldRemaining := 0, cpuLastHz := 0, gpuDownHoldRemaining := 0,
                gpuLastHz := 0\<rparr>, s)
           else vrr_pass env (gpu_pass env (cpu_pass env (t, s))))
        in (t1, on_board (emit (SleepThread POLL_NS)) s1))"

section \<open>The clock the load asks for\<close>

lemma SchedutilTargetHz_unat:
  "unat (SchedutilTargetHz util m) = min (unat m * unat util div 900) (unat m)"
proof -
  have "unat m \<le> 4294967295" "unat util \<le> 4294967295"
    using unat_lt_u32 [of m] unat_lt_u32 [of util] by linarith+
  then have "unat m * unat util \<le> 4294967295 * 4294967295" by (rule mult_le_mono)
  then have "unat m * unat util < 2 ^ 64" by (rule le_less_trans) simp
  then have "unat ((ucast m :: u64) * ucast util) = unat m * unat util"
    by (simp add: unat_word_ariths unat_ucast_u32_u64)
  then have hz: "unat ((ucast m :: u64) * ucast util div STEP_UTIL) = unat m * unat util div 900"
    by (simp add: unat_div STEP_UTIL_def)
  have narrow: "unat (ucast (w :: u64) :: u32) = unat w" if "unat w < 2 ^ 32" for w
    using that by (simp add: unsigned_ucast_eq take_bit_nat_eq_self)
  define h where "h = min ((ucast m :: u64) * ucast util div STEP_UTIL) (ucast m)"
  have h: "unat h = min (unat m * unat util div 900) (unat m)"
    using hz by (auto simp: h_def min_def word_le_nat_alt unat_ucast_u32_u64)
  have "unat h < 2 ^ 32"
    using unat_lt_u32 [of m] unfolding h min_less_iff_disj by simp
  with h show ?thesis
    by (simp add: SchedutilTargetHz_def Let_def h_def [symmetric] narrow)
qed

text \<open>
  The load's clock is the table maximum scaled by the load over 90 per cent of full load, and
  the maximum itself from there on: no intermediate product overflows.
\<close>

lemma schedutil_target:
  "unat (SchedutilTargetHz util tableMaxHz) =
      min (unat tableMaxHz * unat util div 900) (unat tableMaxHz) \<and>
    (util < 900 \<or> SchedutilTargetHz util tableMaxHz = tableMaxHz)"
proof -
  have "SchedutilTargetHz util tableMaxHz = tableMaxHz" if "\<not> util < 900"
  proof -
    have "900 \<le> unat util" using that by (simp add: word_less_nat_alt)
    then have "unat tableMaxHz * 900 \<le> unat tableMaxHz * unat util" by simp
    then have "unat tableMaxHz \<le> unat tableMaxHz * unat util div 900"
      by (metis div_le_mono nonzero_mult_div_cancel_right zero_neq_numeral)
    then have "unat (SchedutilTargetHz util tableMaxHz) = unat tableMaxHz"
      by (simp add: SchedutilTargetHz_unat)
    then show ?thesis by (simp add: word_unat_eq_iff)
  qed
  then show ?thesis using SchedutilTargetHz_unat by blast
qed

lemma desired_hz_le:
  "desired_hz load m targetHz maxHz \<le> m"
  "targetHz \<noteq> 0 \<Longrightarrow> desired_hz load m targetHz maxHz \<le> targetHz"
  "maxHz \<noteq> 0 \<Longrightarrow> desired_hz load m targetHz maxHz \<le> maxHz"
proof -
  have "SchedutilTargetHz load m \<le> m"
    by (simp add: word_le_nat_alt SchedutilTargetHz_unat)
  then show "desired_hz load m targetHz maxHz \<le> m"
    "targetHz \<noteq> 0 \<Longrightarrow> desired_hz load m targetHz maxHz \<le> targetHz"
    "maxHz \<noteq> 0 \<Longrightarrow> desired_hz load m targetHz maxHz \<le> maxHz"
    by (auto simp: desired_hz_def Let_def)
qed

lemma table_pick_first:
  assumes "sorted_wrt (<) table" "table_pick table hz = Some f" "g \<in> set table" "hz \<le> g"
  shows "f \<le> g \<and> hz \<le> f"
proof -
  have "table \<noteq> []" using assms(3) by auto
  obtain i where i: "first_index (\<lambda>f. hz \<le> f) table = Some i"
    using assms(3,4) by (metis first_index_None option.exhaust)
  then have f: "f = table ! i" using assms(2) \<open>table \<noteq> []\<close>
    by (simp add: table_pick_def TableIndexForHz_def)
  obtain j where j: "j < length table" "g = table ! j" using assms(3) by (metis in_set_conv_nth)
  have "i \<le> j" using first_index_Some [OF i] j assms(4) by (metis not_le)
  then have "table ! i \<le> table ! j"
    using assms(1) j(1) by (metis le_less less_imp_le sorted_wrt_nth_less)
  with f j first_index_Some [OF i] show ?thesis by simp
qed


section \<open>Holding a clock\<close>

text \<open>The GPU governor while it wants one lower clock: the state stays, the countdown runs.\<close>

lemma hold_after_down:
  "going_down lastHz newHz \<Longrightarrow> hold_after hold lastHz newHz = (if hold = 0 then 9 else hold - 1)"
  by (auto simp: hold_after_def Let_def DOWN_HOLD_TICKS_def word_gt_0)

lemma gpu_pass_held:
  assumes "isGpuGovernorEnabled (gov s)" "governor_pick env HocClkModule_GPU HocClkPartLoad_GPU s = Some newHz"
    and "going_down (gpuLastHz t) newHz"
  shows "gpu_pass env (t, s) =
    (let hold = (if gpuDownHoldRemaining t = 0 then 9 else gpuDownHoldRemaining t - 1)
     in if hold = 0
        then (t\<lparr>gpuDownHoldRemaining := 0, gpuLastHz := newHz\<rparr>,
              apply_governor_hz env HocClkModule_GPU newHz s)
        else (t\<lparr>gpuDownHoldRemaining := hold\<rparr>, s))"
  using assms by (simp add: gpu_pass_def hold_after_down Let_def)

lemma gpu_held_passes:
  assumes "isGpuGovernorEnabled (gov s)" "governor_pick env HocClkModule_GPU HocClkPartLoad_GPU s = Some newHz"
    and "going_down (gpuLastHz t) newHz" "gpuDownHoldRemaining t = 0"
  shows "n < 9 \<Longrightarrow> (gpu_pass env ^^ Suc n) (t, s) = (t\<lparr>gpuDownHoldRemaining := 9 - of_nat n\<rparr>, s)"
proof (induction n)
  case 0
  then show ?case using assms by (simp add: gpu_pass_held [OF assms(1-3)])
next
  case (Suc n)
  let ?t = "t\<lparr>gpuDownHoldRemaining := 9 - of_nat n\<rparr>"
  have n: "n < 8" using Suc.prems by simp
  have few: "n = 0 \<or> n = 1 \<or> n = 2 \<or> n = 3 \<or> n = 4 \<or> n = 5 \<or> n = 6 \<or> n = 7"
    using n by linarith
  have nz: "(9 :: u32) - of_nat n \<noteq> 0" "(9 :: u32) - of_nat n - 1 \<noteq> 0"
    using few by auto
  have "gpu_pass env (?t, s) = (t\<lparr>gpuDownHoldRemaining := 9 - of_nat n - 1\<rparr>, s)"
    using assms nz by (simp add: gpu_pass_held)
  then show ?case using Suc by (simp add: algebra_simps)
qed

text \<open>
  C38. When the load falls to a lower clock and stays there, the GPU governor leaves the clock
  alone for nine passes and sets the lower one on the tenth; a rising clock is set at once.
\<close>

theorem gpu_down_hold:
  assumes "isGpuGovernorEnabled (gov s)"
    and "governor_pick env HocClkModule_GPU HocClkPartLoad_GPU s = Some newHz"
  shows "(going_down (gpuLastHz t) newHz \<and> gpuDownHoldRemaining t = 0 \<longrightarrow>
      (\<forall>n. 0 < n \<and> n < 10 \<longrightarrow> snd ((gpu_pass env ^^ n) (t, s)) = s) \<and>
      (gpu_pass env ^^ 10) (t, s) =
        (t\<lparr>gpuDownHoldRemaining := 0, gpuLastHz := newHz\<rparr>,
         apply_governor_hz env HocClkModule_GPU newHz s)) \<and>
    (\<not> going_down (gpuLastHz t) newHz \<longrightarrow>
      gpu_pass env (t, s) = (t\<lparr>gpuDownHoldRemaining := 0, gpuLastHz := newHz\<rparr>,
         apply_governor_hz env HocClkModule_GPU newHz s))"
proof (intro conjI impI allI)
  assume d: "going_down (gpuLastHz t) newHz \<and> gpuDownHoldRemaining t = 0"
  note held = gpu_held_passes [OF assms conjunct1 [OF d] conjunct2 [OF d]]
  show "snd ((gpu_pass env ^^ n) (t, s)) = s" if "0 < n \<and> n < 10" for n
  proof -
    have "n = Suc (n - 1)" "n - 1 < 9" using that by auto
    with held [of "n - 1"] show ?thesis by (metis snd_conv)
  qed
  have "(gpu_pass env ^^ 9) (t, s) = (t\<lparr>gpuDownHoldRemaining := 1\<rparr>, s)"
    using held [of 8] by (simp add: numeral_eq_Suc del: funpow.simps)
  moreover have "(10 :: nat) = Suc 9" by simp
  ultimately have "(gpu_pass env ^^ 10) (t, s) = gpu_pass env (t\<lparr>gpuDownHoldRemaining := 1\<rparr>, s)"
    by (simp only: funpow.simps o_apply)
  also have "\<dots> = (t\<lparr>gpuDownHoldRemaining := 0, gpuLastHz := newHz\<rparr>,
      apply_governor_hz env HocClkModule_GPU newHz s)"
    using assms d by (simp add: gpu_pass_held)
  finally show "(gpu_pass env ^^ 10) (t, s) = (t\<lparr>gpuDownHoldRemaining := 0, gpuLastHz := newHz\<rparr>,
      apply_governor_hz env HocClkModule_GPU newHz s)" .
next
  assume "\<not> going_down (gpuLastHz t) newHz"
  with assms show "gpu_pass env (t, s) = (t\<lparr>gpuDownHoldRemaining := 0, gpuLastHz := newHz\<rparr>,
      apply_governor_hz env HocClkModule_GPU newHz s)"
    by (simp add: gpu_pass_def hold_after_def Let_def)
qed

section \<open>Switching the governors\<close>

lemma on_board_simps [simp]:
  "cfg (on_board f s) = cfg s" "gContext (on_board f s) = gContext s" "gov (on_board f s) = gov s"
  "brd (on_board f s) = f (brd s)" "gFreqTable (on_board f s) = gFreqTable s"
  by (simp_all add: on_board_def)

lemma target_hz_cong:
  "cfg s = cfg s' \<Longrightarrow> gContext s = gContext s' \<Longrightarrow> target_hz s = target_hz s'"
  by (simp add: fun_eq_iff target_hz_def Let_def)

lemma resolve_governor_same [simp]: "resolve_governor a a = a"
  by (simp add: resolve_governor_def)

lemma HandleGovernor_frame [frame]:
  "cfg (HandleGovernor env hz s) = cfg s" "gContext (HandleGovernor env hz s) = gContext s"
  "gFreqTable (HandleGovernor env hz s) = gFreqTable s"
  by (simp_all add: HandleGovernor_def Let_def)

text \<open>
  Called with the target of the settings, as the clock manager does, the switch turns each
  governor on exactly when its byte of that target says so, whatever the state before; it sends a
  reset only for a governor that was on and goes off; and repeating it changes nothing.
\<close>

lemma governor_switch:
  assumes "p = target_hz s HocClkModule_Governor True" "s' = HandleGovernor env p s"
  shows "(isCpuGovernorEnabled (gov s') \<longleftrightarrow> GovernorStateCpu p = ComponentGovernor_Enabled) \<and>
    (isGpuGovernorEnabled (gov s') \<longleftrightarrow> GovernorStateGpu p = ComponentGovernor_Enabled) \<and>
    (isVRREnabled (gov s') \<longleftrightarrow> GovernorStateVrr p = ComponentGovernor_Enabled) \<and>
    (brd s' = brd s \<or>
      lastCpuGovernorState (gov s) \<and> \<not> isCpuGovernorEnabled (gov s') \<or>
      lastGpuGovernorState (gov s) \<and> \<not> isGpuGovernorEnabled (gov s') \<or>
      lastVrrGovernorState (gov s) \<and> \<not> isVRREnabled (gov s')) \<and>
    HandleGovernor env (target_hz s' HocClkModule_Governor True) s' = s'"
proof -
  have p: "target_hz s HocClkModule_Governor True = p" using assms(1) by simp
  have p': "target_hz s' HocClkModule_Governor True = p"
    unfolding p [symmetric] by (rule fun_cong [OF fun_cong [OF target_hz_cong]])
      (simp_all add: assms(2) frame)
  have flags: "isCpuGovernorEnabled (gov s') \<longleftrightarrow> GovernorStateCpu p = ComponentGovernor_Enabled"
    "isGpuGovernorEnabled (gov s') \<longleftrightarrow> GovernorStateGpu p = ComponentGovernor_Enabled"
    "isVRREnabled (gov s') \<longleftrightarrow> GovernorStateVrr p = ComponentGovernor_Enabled"
    by (simp_all add: assms(2) HandleGovernor_def p Let_def)
  have last: "lastCpuGovernorState (gov s') = isCpuGovernorEnabled (gov s')"
    "lastGpuGovernorState (gov s') = isGpuGovernorEnabled (gov s')"
    "lastVrrGovernorState (gov s') = isVRREnabled (gov s')"
    by (simp_all add: assms(2) HandleGovernor_def p Let_def)
  have "HandleGovernor env p s' = s'"
    by (simp add: HandleGovernor_def p' last flags [symmetric] Let_def)
  moreover have "brd s' = brd s \<or>
      lastCpuGovernorState (gov s) \<and> \<not> isCpuGovernorEnabled (gov s') \<or>
      lastGpuGovernorState (gov s) \<and> \<not> isGpuGovernorEnabled (gov s') \<or>
      lastVrrGovernorState (gov s) \<and> \<not> isVRREnabled (gov s')"
    unfolding flags by (auto simp: assms(2) HandleGovernor_def p Let_def)
  ultimately show ?thesis using flags p' by blast
qed

section \<open>The display follows the frame rate\<close>

lemma unat_ucast_u8_u32 [simp]: "unat (ucast (b :: u8) :: u32) = unat b"
proof -
  have "unat b < 256" using unsigned_less [of b] by simp
  then show ?thesis by (simp add: unsigned_ucast_eq take_bit_nat_eq_self)
qed

lemma u8_times_small:
  fixes fps :: u8
  shows "i \<le> 9 \<Longrightarrow> unat ((ucast fps :: u32) * of_nat i) = unat fps * i"
proof -
  assume i: "i \<le> 9"
  have f: "unat fps < 256" using unsigned_less [of fps] by simp
  have "unat fps * i \<le> 255 * 9" using f i by (intro mult_le_mono) auto
  then show ?thesis
    using i by (simp add: unat_word_ariths take_bit_nat_eq_self unsigned_of_nat)
qed

text \<open>The direct case is the first multiple.\<close>

lemma ucast_u8_le [simp]: "(ucast (a :: u8) :: u32) \<le> ucast b \<longleftrightarrow> a \<le> b"
  by (simp add: word_le_nat_alt)

definition in_panel_range :: "u8 \<Rightarrow> u8 \<Rightarrow> nat \<Rightarrow> bool" where
  "in_panel_range minDisplay maxDisplay n \<longleftrightarrow> unat minDisplay \<le> n \<and> n \<le> unat maxDisplay"

lemma vrr_choice_find:
  "vrr_choice fps minDisplay maxDisplay =
    map_option (\<lambda>i. ucast fps * of_nat i)
      (find (\<lambda>i. in_panel_range minDisplay maxDisplay (unat fps * i)) [1..<10])"
proof -
  let ?R = "\<lambda>hz. ucast minDisplay \<le> hz \<and> hz \<le> (ucast maxDisplay :: u32)"
  let ?f = "\<lambda>i. (ucast fps :: u32) * of_nat i"
  have range: "?R (?f i) \<longleftrightarrow> in_panel_range minDisplay maxDisplay (unat fps * i)" if "i \<le> 9" for i
    using u8_times_small [OF that, of fps] by (simp add: word_le_nat_alt in_panel_range_def)
  have "find ?R (map ?f is) =
      map_option ?f (find (\<lambda>i. in_panel_range minDisplay maxDisplay (unat fps * i)) is)"
    if "\<forall>i\<in>set is. i \<le> 9" for "is"
    using that by (induction "is") (simp_all add: range del: of_nat_mult)
  from this [of "[1..<10]"] have find: "find ?R (map ?f [1..<10]) =
      map_option ?f (find (\<lambda>i. in_panel_range minDisplay maxDisplay (unat fps * i)) [1..<10])"
    by simp
  have list: "map ?f [1..<10] = map (\<lambda>i. ucast fps * i) [1, 2, 3, 4, 5, 6, 7, 8, 9]"
    by (simp add: upt_rec)
  have "find ?R (map (\<lambda>i. ucast fps * i) [1, 2, 3, 4, 5, 6, 7, 8, 9]) = Some (ucast fps)"
    if "minDisplay \<le> fps \<and> fps \<le> maxDisplay"
    using that by simp
  then show ?thesis
    unfolding vrr_choice_def find [symmetric] list by simp
qed

text \<open>
  The rate chosen for the display is in the range of the panel and the least multiple of the
  frame rate, up to nine times it, that is; none is chosen only when there is none.
\<close>

lemma vrr_choice_multiple:
  "case vrr_choice fps minDisplay maxDisplay of
     Some hz \<Rightarrow> (\<exists>i. 1 \<le> i \<and> i \<le> 9 \<and> unat hz = unat fps * i \<and>
       in_panel_range minDisplay maxDisplay (unat hz) \<and>
       list_all (\<lambda>j. \<not> in_panel_range minDisplay maxDisplay (unat fps * j)) [1..<i])
   | None \<Rightarrow> list_all (\<lambda>j. \<not> in_panel_range minDisplay maxDisplay (unat fps * j)) [1..<10]"
proof (cases "find (\<lambda>i. in_panel_range minDisplay maxDisplay (unat fps * i)) [1..<10]")
  case None
  then have "\<forall>i\<in>set [1..<10]. \<not> in_panel_range minDisplay maxDisplay (unat fps * i)"
    by (simp only: find_None_iff) blast
  then show ?thesis
    by (simp only: vrr_choice_find None option.map option.case list_all_iff)
next
  case (Some i)
  then obtain k where k: "k < 9" "i = 1 + k" "in_panel_range minDisplay maxDisplay (unat fps * i)"
    "\<forall>j<k. \<not> in_panel_range minDisplay maxDisplay (unat fps * (1 + j))"
    by (auto simp: find_Some_iff)
  have "\<not> in_panel_range minDisplay maxDisplay (unat fps * j)" if "1 \<le> j" "j < i" for j
    using k(2,4) that by (metis Suc_leD le_add_diff_inverse less_diff_conv2 add.commute)
  then have "list_all (\<lambda>j. \<not> in_panel_range minDisplay maxDisplay (unat fps * j)) [1..<i]"
    by (simp add: list_all_iff)
  moreover have "unat ((ucast fps :: u32) * of_nat i) = unat fps * i"
    using k by (intro u8_times_small) simp
  moreover have "1 \<le> i" "i \<le> 9" using k by simp_all
  ultimately show ?thesis
    using k(3) unfolding vrr_choice_find Some option.map option.case by metis
qed

text \<open>
  The thread reads the display rate of the settings scaled to Hz, unlike the clock manager,
  and keeps its low eight bits: a stored rate that is a multiple of four gives the maximum 0, for
  which no rate is ever chosen, whatever the frame rate.
\<close>

lemma vrr_profile_rate_lost:
  assumes "\<forall>t q. FindClockMHz (cfg s) t HocClkModule_Display q < 4295"
    and "c_overrideFreqs (gContext s) HocClkModule_Display = 0"
    and "target_hz s HocClkModule_Display True = rate" "rate \<noteq> 0" "4 dvd unat rate"
  shows "vrr_max s = 0 \<and> vrr_choice fps (vrr_min env) (vrr_max s) = None"
proof -
  let ?src = "find (\<lambda>(t, q). FindClockMHz (cfg s) t HocClkModule_Display q \<noteq> 0) (target_sources s)"
  obtain t q where tq: "?src = Some (t, q)"
    using assms(2-4) by (auto simp: target_lookup [OF assms(1)] split: option.splits)
  then have rate: "rate = FindClockMHz (cfg s) t HocClkModule_Display q"
    using assms(2,3) by (simp add: target_lookup [OF assms(1)])
  then have hz: "target_hz s HocClkModule_Display False = rate * 1000000"
    using assms(2) tq by (simp add: target_lookup [OF assms(1)])
  have "rate < 4295" using assms(1) rate by blast
  then have nz: "rate * 1000000 \<noteq> 0" using assms(4) by (rule scaled_nonzero [rotated])
  obtain k where k: "unat rate = 4 * k" using assms(5) by (auto elim: dvdE)
  have "unat rate < 4295" using \<open>rate < 4295\<close> by (simp add: word_less_nat_alt)
  then have "unat (rate * 1000000) = 256 * (k * 15625)"
    using k by (simp add: unat_word_ariths)
  then have "unat (ucast (rate * 1000000) :: u8) = 0"
    by (simp add: unsigned_ucast_eq take_bit_eq_mod)
  then have max: "vrr_max s = 0"
    using nz by (simp add: vrr_max_def hz unat_eq_zero)
  have "vrr_min env = 45 \<or> vrr_min env = 40" by (simp add: vrr_min_def)
  then have "unat (vrr_min env) \<ge> 40" by auto
  then have "\<not> in_panel_range (vrr_min env) 0 n" for n
    by (auto simp: in_panel_range_def)
  then have "vrr_choice fps (vrr_min env) 0 = None"
    by (simp add: vrr_choice_find find_None_iff)
  with max show ?thesis by simp
qed

section \<open>The properties at work\<close>

definition demo_gov :: sys where
  "demo_gov = demo_sys\<lparr>gov := (gov demo_sys)\<lparr>isGpuGovernorEnabled := True\<rparr>,
     gContext := demo_context\<lparr>c_overrideFreqs := (\<lambda>m. if m = HocClkModule_Governor then 2
       else if m = HocClkModule_GPU then 460800000 else 0)\<rparr>\<rparr>"

lemmas demo_defs = demo_gov_def demo_sys_def demo_context_def demo_config_def demo_env_def
  demo_board_def

lemma demo_gov_pick:
  "governor_pick demo_env HocClkModule_GPU HocClkPartLoad_GPU demo_gov = Some 460800000"
proof -
  have "ResolveTargetHz demo_gov HocClkModule_GPU = 460800000"
    by (simp add: ResolveTargetHz_def target_hz_def demo_defs)
  moreover have "GetMaxAllowedHz demo_env (cfg demo_gov) HocClkModule_GPU (c_profile (gContext demo_gov)) = 0"
    by (simp add: GetMaxAllowedHz_def GetConfigValue_def demo_defs enum_order_defs)
  moreover have "gFreqTable demo_gov HocClkModule_GPU = [460800000, 768000000, 921600000]"
    by (simp add: demo_defs)
  moreover have "rd_load demo_env (hw_log (brd demo_gov)) HocClkPartLoad_GPU = 500"
    by (simp add: demo_defs)
  moreover have "desired_hz 500 921600000 460800000 0 = 460800000"
    by (simp add: desired_hz_def SchedutilTargetHz_def STEP_UTIL_def)
  ultimately show ?thesis
    by (simp add: governor_pick_def table_pick_def TableIndexForHz_def)
qed


definition demo_thread :: gov_thread where
  "demo_thread = gov_thread_start\<lparr>gpuLastHz := 921600000\<rparr>"

lemma gpu_down_hold_witness:
  "snd ((gpu_pass demo_env ^^ 5) (demo_thread, demo_gov)) = demo_gov \<and>
   gpuLastHz (fst ((gpu_pass demo_env ^^ 10) (demo_thread, demo_gov))) = 460800000"
proof -
  have "isGpuGovernorEnabled (gov demo_gov)" by (simp add: demo_defs)
  from gpu_down_hold [OF this demo_gov_pick, of demo_thread] show ?thesis
    by (simp add: demo_thread_def gov_thread_start_def going_down_def)
qed

lemma governor_switch_witness:
  "isCpuGovernorEnabled (gov (HandleGovernor demo_env 2 demo_gov)) \<and>
   \<not> isGpuGovernorEnabled (gov (HandleGovernor demo_env 2 demo_gov))"
proof -
  have "2 = target_hz demo_gov HocClkModule_Governor True"
    by (simp add: target_hz_def demo_defs)
  from governor_switch [OF this refl, of demo_env] show ?thesis
    by (simp add: GovernorStateCpu_def GovernorStateGpu_def ComponentGovernor_defs)
qed

lemma vrr_profile_rate_lost_witness:
  "vrr_max (demo_sys\<lparr>cfg := (cfg demo_sys)\<lparr>gProfileMHzMap :=
     [(HOCCLK_GLOBAL_PROFILE_TID, HocClkProfile_Docked, HocClkModule_Display) \<mapsto> 60]\<rparr>\<rparr>) = 0"
proof -
  let ?s = "demo_sys\<lparr>cfg := (cfg demo_sys)\<lparr>gProfileMHzMap :=
     [(HOCCLK_GLOBAL_PROFILE_TID, HocClkProfile_Docked, HocClkModule_Display) \<mapsto> 60]\<rparr>\<rparr>"
  have "FindClockMHz (cfg ?s) t HocClkModule_Display q < 4295" for t q
    by (simp add: FindClockMHz_def demo_defs)
  then have small: "\<forall>t q. FindClockMHz (cfg ?s) t HocClkModule_Display q < 4295" by blast
  have "target_hz ?s HocClkModule_Display True = 60"
    unfolding target_lookup [OF small]
    by (simp add: target_sources_def FindClockMHz_def demo_defs HOCCLK_GLOBAL_PROFILE_TID_def)
  from vrr_profile_rate_lost [OF small _ this] show ?thesis
    by (simp add: demo_defs)
qed

end
