(* ===== verification/Clock_Manager.thy ===== *)
theory Clock_Manager
  imports Governor
begin

text \<open>
  The clock manager, \<open>sysmodule/src/mgr/clock_manager.cpp\<close>: the frequency tables, the safety and
  periodic features, the GPU voltage floor that follows the memory clock, the setting of all
  clocks, the refresh of the context and the tick that the main loop runs.

  Log lines of the sysmodule's own log file are left out; the row of the CSV log is a command.
  Reads of loads and voltages are commands too, because the code reads them twice and the second
  answer may differ. A read past an empty frequency table stops the model as an abort does.
\<close>

section \<open>Resets and intervals\<close>

text \<open>The undervolt tunings for the current configuration, \<open>LiveCpuUv\<close> being on.\<close>

definition live_tunings :: "hw_env \<Rightarrow> sys \<Rightarrow> sys" where
  "live_tunings env s =
     (if config_on s (Hoc HocClkConfigValue_LiveCpuUv) then on_board (HandleCpuUv env (cfg s)) s
      else s)"

definition ResetToStockClocks :: "hw_env \<Rightarrow> sys \<Rightarrow> sys" where
  "ResetToStockClocks env s =
     on_board (ResetToStockGpu env (cfg s))
       (live_tunings env (on_board (ResetToStockCpu env (cfg s)) s))"

text \<open>Whether the interval has passed, and the time of the last log line.\<close>

definition ConfigIntervalTimeout :: "sys \<Rightarrow> HocClkConfigValue \<Rightarrow> u64 \<Rightarrow> u64 \<Rightarrow> bool \<times> u64" where
  "ConfigIntervalTimeout s kval ns lastLogNs =
     (let logInterval = GetConfigValue (cfg s) kval * 1000000;
          shouldLog = (logInterval \<noteq> 0 \<and> ns - lastLogNs > logInterval)
      in (shouldLog, if shouldLog then ns else lastLogNs))"

section \<open>Frequency tables\<close>

definition kStep :: u32 where "kStep = 38400000"
definition kPcvStep :: u32 where "kPcvStep = 76800000"

text \<open>
  The end of the region with middle steps: the last clock of the list that has one 38.4 MHz below
  it, or the highest clock when there is none.
\<close>

definition middle_max :: "u32 list \<Rightarrow> u32" where
  "middle_max freqs =
     (let kMax = fold (\<lambda>f k. if f + kStep \<in> set freqs then f + kStep else k) freqs 0
      in if kMax = 0 then fold max freqs 0 else kMax)"

text \<open>
  The ascending walk over the steps. The counter of the loop is fuel; \<open>None\<close> stands for a walk
  that is not finished. The code's 32-bit step can wrap only past 4256 MHz.
\<close>

fun middle_walk ::
  "nat \<Rightarrow> bool \<Rightarrow> u32 list \<Rightarrow> u32 \<Rightarrow> u32 \<Rightarrow> u32 list \<Rightarrow> u32 list option" where
  "middle_walk 0 middle freqs kMax f acc = None"
| "middle_walk (Suc n) middle freqs kMax f acc =
     (if f \<le> kMax \<and> length acc < HOCCLK_FREQ_LIST_MAX then
        middle_walk n middle freqs kMax (f + kStep)
          (if f mod kPcvStep \<noteq> 0 then (if middle then acc @ [f] else acc)
           else if f \<in> set freqs then acc @ [f] else acc)
      else Some acc)"

definition middle_fuel :: nat where "middle_fuel = 112"

fun append_assignable :: "HocClkModule \<Rightarrow> u32 \<Rightarrow> u32 list \<Rightarrow> u32 list \<Rightarrow> u32 list" where
  "append_assignable module kMax [] acc = acc"
| "append_assignable module kMax (f # fs) acc =
     (if length acc < HOCCLK_FREQ_LIST_MAX then
        append_assignable module kMax fs
          (if f > kMax \<and> IsAssignableHz module f then acc @ [f] else acc)
      else acc)"

definition eristaGpuVoltMap :: "(u32 \<times> HocClkConfigValue) list" where
  "eristaGpuVoltMap = [
     (76800000, EristaGpuVolt KipConfigValue_g_volt_e_76800),
     (115200000, EristaGpuVolt KipConfigValue_g_volt_e_115200),
     (153600000, EristaGpuVolt KipConfigValue_g_volt_e_153600),
     (192000000, EristaGpuVolt KipConfigValue_g_volt_e_192000),
     (230400000, EristaGpuVolt KipConfigValue_g_volt_e_230400),
     (268800000, EristaGpuVolt KipConfigValue_g_volt_e_268800),
     (307200000, EristaGpuVolt KipConfigValue_g_volt_e_307200),
     (345600000, EristaGpuVolt KipConfigValue_g_volt_e_345600),
     (384000000, EristaGpuVolt KipConfigValue_g_volt_e_384000),
     (422400000, EristaGpuVolt KipConfigValue_g_volt_e_422400),
     (460800000, EristaGpuVolt KipConfigValue_g_volt_e_460800),
     (499200000, EristaGpuVolt KipConfigValue_g_volt_e_499200),
     (537600000, EristaGpuVolt KipConfigValue_g_volt_e_537600),
     (576000000, EristaGpuVolt KipConfigValue_g_volt_e_576000),
     (614400000, EristaGpuVolt KipConfigValue_g_volt_e_614400),
     (652800000, EristaGpuVolt KipConfigValue_g_volt_e_652800),
     (691200000, EristaGpuVolt KipConfigValue_g_volt_e_691200),
     (729600000, EristaGpuVolt KipConfigValue_g_volt_e_729600),
     (768000000, EristaGpuVolt KipConfigValue_g_volt_e_768000),
     (806400000, EristaGpuVolt KipConfigValue_g_volt_e_806400),
     (844800000, EristaGpuVolt KipConfigValue_g_volt_e_844800),
     (883200000, EristaGpuVolt KipConfigValue_g_volt_e_883200),
     (921600000, EristaGpuVolt KipConfigValue_g_volt_e_921600),
     (960000000, EristaGpuVolt KipConfigValue_g_volt_e_960000),
     (998400000, EristaGpuVolt KipConfigValue_g_volt_e_998400),
     (1036800000, EristaGpuVolt KipConfigValue_g_volt_e_1036800),
     (1075200000, EristaGpuVolt KipConfigValue_g_volt_e_1075200)]"

definition erista_disabled :: "config_state \<Rightarrow> u32 \<Rightarrow> bool" where
  "erista_disabled c hz \<longleftrightarrow>
     (case map_of eristaGpuVoltMap hz of None \<Rightarrow> False | Some kval \<Rightarrow> GetConfigValue c kval = 2000)"

definition freq_row :: "hw_env \<Rightarrow> config_state \<Rightarrow> HocClkModule \<Rightarrow> u32 list \<Rightarrow> u32 list option" where
  "freq_row env c module freqs =
     (if module = HocClkModule_GPU \<and> soc_type env = HocClkSocType_Mariko then
        (let kMax = middle_max freqs;
             middle = (GetConfigValue c (Hoc HocClkConfigValue_MarikoMiddleFreqs) \<noteq> 0)
         in map_option (append_assignable module kMax freqs)
              (middle_walk middle_fuel middle freqs kMax kPcvStep []))
      else
        Some (filter (\<lambda>f. IsAssignableHz module f \<and>
          \<not> (module = HocClkModule_GPU \<and> soc_type env = HocClkSocType_Erista \<and> erista_disabled c f))
          freqs))"

definition RefreshFreqTableRow :: "hw_env \<Rightarrow> HocClkModule \<Rightarrow> sys \<Rightarrow> sys" where
  "RefreshFreqTableRow env module s =
     (case GetFreqList env module HOCCLK_FREQ_LIST_MAX (brd s) of
        None \<Rightarrow> on_board abort_process s
      | Some freqs \<Rightarrow>
          (case freq_row env (cfg s) module freqs of
             None \<Rightarrow> on_board abort_process s
           | Some row \<Rightarrow> s\<lparr>gFreqTable := (gFreqTable s)(module := row)\<rparr>))"

section \<open>Safety and periodic features\<close>

definition tdp_exceeded :: "hw_env \<Rightarrow> sys \<Rightarrow> bool" where
  "tdp_exceeded env s \<longleftrightarrow>
     config_on s (Hoc HocClkConfigValue_HandheldTDP) \<and>
     c_profile (gContext s) \<noteq> HocClkProfile_Docked \<and>
     GetPowerMw env HocClkPowerSensor_Avg (brd s) <
       - config_int s (if console_type env = HocClkConsoleType_Hoag
           then Hoc HocClkConfigValue_LiteTDPLimit else Hoc HocClkConfigValue_HandheldTDPLimit)"

definition too_hot :: "hw_env \<Rightarrow> sys \<Rightarrow> bool" where
  "too_hot env s \<longleftrightarrow>
     rd_soc_temp env (hw_log (brd s)) sdiv 1000 >
       config_int s (Hoc HocClkConfigValue_ThermalThrottleThreshold) \<and>
     config_on s (Hoc HocClkConfigValue_ThermalThrottle)"

definition HandleSafetyFeatures :: "hw_env \<Rightarrow> sys \<Rightarrow> bool \<times> sys" where
  "HandleSafetyFeatures env s =
     (if tdp_exceeded env s then (True, ResetToStockClocks env s)
      else if too_hot env s then (True, ResetToStockClocks env s)
      else (False, s))"

text \<open>\<open>AulaDisplay::SetDisplayColorMode\<close>: 0xFF is \<open>AulaDisplayColorMode_DoNotOverride\<close>.\<close>

definition SetDisplayColorMode :: "u64 \<Rightarrow> board_state \<Rightarrow> board_state" where
  "SetDisplayColorMode mode b =
     (if (ucast mode :: u32) = 0xFF then b else emit (SetDisplayColor mode) b)"

definition HandleMiscFeatures :: "hw_env \<Rightarrow> sys \<Rightarrow> sys" where
  "HandleMiscFeatures env s =
     (if miscTick s + 1 > 10 then
        (let s0 = s\<lparr>miscTick := 0\<rparr>;
             charge = GetConfigValue (cfg s) (Hoc HocClkConfigValue_BatteryChargeCurrent);
             s1 = (if charge \<noteq> 0 then on_board (emit (SetChargeCurrent charge)) s0 else s0);
             s2 = on_board (emit (SetDisplayMv
                    (GetConfigValue (cfg s) (Hoc HocClkConfigValue_DisplayVoltage)))) s1;
             s3 = (if console_type env = HocClkConsoleType_Aula
                   then on_board (SetDisplayColorMode
                     (GetConfigValue (cfg s) (Hoc HocClkConfigValue_AulaDisplayColorPreset))) s2
                   else s2)
         in live_tunings env s3)
      else s\<lparr>miscTick := miscTick s + 1\<rparr>)"

section \<open>The GPU voltage follows the memory clock\<close>

definition is_hijack_mode :: "sys \<Rightarrow> bool" where
  "is_hijack_mode s \<longleftrightarrow> GetConfigValue (cfg s) (Hoc HocClkConfigValue_DVFSMode) = DVFSMode_Hijack"

text \<open>The floor with the user's offset (at least -80 mV) and the 1000 mV ceiling.\<close>

definition dvfs_vmin :: "hw_env \<Rightarrow> sys \<Rightarrow> u32 \<Rightarrow> u32" where
  "dvfs_vmin env s targetHz =
     (let dvfsOffset = max (config_int s (Hoc HocClkConfigValue_DVFSOffset)) (- 80);
          vmin = GetMinimumGpuVmin (soc_type env) (targetHz div 1000000) (speedo_bracket env);
          vmin1 = (if vmin \<noteq> 0 then vmin + of_int dvfsOffset else vmin)
      in min vmin1 1000)"

text \<open>The entry the code would set a module to, for a clock and the cap of the profile.\<close>

definition capped_nearest :: "hw_env \<Rightarrow> HocClkModule \<Rightarrow> u32 \<Rightarrow> sys \<Rightarrow> u32 option" where
  "capped_nearest env module hz s =
     GetNearestHz (gFreqTable s module) hz
       (GetMaxAllowedHz env (cfg s) module (c_profile (gContext s)))"

definition ApplyGpuDvfs :: "hw_env \<Rightarrow> u32 \<Rightarrow> sys \<Rightarrow> sys" where
  "ApplyGpuDvfs env targetHz s =
     (case capped_nearest env HocClkModule_GPU (GetHz env HocClkModule_GPU (brd s)) s of
        None \<Rightarrow> on_board abort_process s
      | Some nearestGpuHz \<Rightarrow>
          (let s1 = on_board (PcvHijackGpuVolts env (dvfs_vmin env s targetHz)) s in
           if targetHz \<noteq> 0 then on_board (SetHz env (cfg s1) HocClkModule_GPU nearestGpuHz) s1
           else on_board (ResetToStockGpu env (cfg s1)) s1))"

definition DVFSReset :: "hw_env \<Rightarrow> sys \<Rightarrow> sys" where
  "DVFSReset env s =
     (if is_hijack_mode s then
        (let s1 = on_board (PcvHijackGpuVolts env 0) s;
             targetHz = target_hz s1 HocClkModule_GPU False
         in case capped_nearest env HocClkModule_GPU targetHz s1 of
              None \<Rightarrow> on_board abort_process s1
            | Some nearestHz \<Rightarrow>
                (let s2 = on_board (ResetToStockGpu env (cfg s1)) s1 in
                 if targetHz \<noteq> 0 then on_board (SetHz env (cfg s2) HocClkModule_GPU nearestHz) s2
                 else s2))
      else s)"

text \<open>\<open>didHijackPcv\<close> is passed by value: its assignment at the end of the branch is lost.\<close>

fun HandleFreqReset :: "hw_env \<Rightarrow> HocClkModule \<Rightarrow> bool \<Rightarrow> bool \<Rightarrow> sys \<Rightarrow> sys" where
  "HandleFreqReset env HocClkModule_CPU isBoost didHijackPcv s =
     live_tunings env
       (if \<not> (isBoost \<or> (config_on s (Hoc HocClkConfigValue_OverwriteBoostMode) \<and> isBoost))
        then on_board (ResetToStockCpu env (cfg s)) s else s)"
| "HandleFreqReset env HocClkModule_GPU isBoost didHijackPcv s =
     on_board (ResetToStockGpu env (cfg s)) s"
| "HandleFreqReset env HocClkModule_MEM isBoost didHijackPcv s =
     (let s1 = on_board (ResetToStockMem env (cfg s)) s
      in if \<not> didHijackPcv then DVFSReset env s1 else s1)"
| "HandleFreqReset env HocClkModule_Display isBoost didHijackPcv s =
     (if config_on s (Hoc HocClkConfigValue_OverwriteRefreshRate)
      then on_board ResetToStockDisplay s else s)"
| "HandleFreqReset env HocClkModule_Governor isBoost didHijackPcv s = s"

section \<open>Setting the clocks\<close>

text \<open>The part of the loop for the CPU, GPU and memory clocks once the module is not skipped.\<close>

definition set_module ::
  "hw_env \<Rightarrow> bool \<Rightarrow> HocClkModule \<Rightarrow> u32 \<Rightarrow> u32 \<Rightarrow> bool \<times> sys \<Rightarrow> bool \<times> sys" where
  "set_module env isBoost module oldHz targetHz ds =
     (case ds of (didHijackPcv, s) \<Rightarrow>
        if targetHz = 0 then (didHijackPcv, HandleFreqReset env module isBoost didHijackPcv s)
        else
          (case capped_nearest env module targetHz s of
             None \<Rightarrow> (didHijackPcv, on_board abort_process s)
           | Some nearestHz \<Rightarrow>
               if nearestHz = c_freqs (gContext s) module then (didHijackPcv, s)
               else
                 (let hijack = (module = HocClkModule_MEM \<and> is_hijack_mode s);
                      s1 = (if hijack \<and> targetHz > oldHz then ApplyGpuDvfs env targetHz s else s);
                      s2 = on_board (SetHz env (cfg s1) module nearestHz) s1;
                      s3 = on_ctx (set_ctx_freq module nearestHz) s2;
                      s4 = (if hijack \<and> targetHz < oldHz then ApplyGpuDvfs env targetHz s3 else s3)
                  in (if hijack then False else didHijackPcv, s4))))"

definition clock_step :: "hw_env \<Rightarrow> bool \<Rightarrow> HocClkModule \<Rightarrow> bool \<times> sys \<Rightarrow> bool \<times> sys" where
  "clock_step env isBoost module ds =
     (case ds of (didHijackPcv, s0) \<Rightarrow>
        let oldHz = GetHz env module (brd s0);
            targetHz = target_hz s0 module (module > HocClkModule_MEM);
            s = (if module = HocClkModule_Governor then HandleGovernor env targetHz s0 else s0)
        in if module = HocClkModule_Display then
             (if isVRREnabled (gov s) \<or> \<not> config_on s (Hoc HocClkConfigValue_OverwriteRefreshRate)
              then (didHijackPcv, s)
              else if targetHz \<noteq> 0 then
                (didHijackPcv,
                 on_ctx (set_ctx_real HocClkModule_Display targetHz \<circ>
                     set_ctx_freq HocClkModule_Display targetHz)
                   (on_board (SetHz env (cfg s) HocClkModule_Display targetHz) s))
              else (didHijackPcv, HandleFreqReset env HocClkModule_Display isBoost didHijackPcv s))
           else if module > HocClkModule_MEM then (didHijackPcv, s)
           else if isCpuGovernorEnabled (gov s) \<and> module = HocClkModule_CPU then (didHijackPcv, s)
           else if isGpuGovernorEnabled (gov s) \<and> module = HocClkModule_GPU then (didHijackPcv, s)
           else set_module env isBoost module oldHz targetHz (didHijackPcv, s))"

definition reapply_cpu :: "hw_env \<Rightarrow> sys \<Rightarrow> sys" where
  "reapply_cpu env s =
     on_board (\<lambda>b. SetHz env (cfg s) HocClkModule_CPU (GetHz env HocClkModule_CPU b) b) s"

definition SetClocks :: "hw_env \<Rightarrow> bool \<Rightarrow> sys \<Rightarrow> sys" where
  "SetClocks env isBoost s =
     (if isBoost \<and> \<not> config_on s (Hoc HocClkConfigValue_OverwriteBoostMode)
      then (reapply_cpu env s)\<lparr>prepareBoostExit := True\<rparr>
      else
        (let s1 = (if prepareBoostExit s then (reapply_cpu env s)\<lparr>prepareBoostExit := False\<rparr> else s)
         in snd (fold (clock_step env isBoost) all_modules (False, s1))))"

section \<open>The tick\<close>

definition WaitForNextTick :: "hw_env \<Rightarrow> sys \<Rightarrow> sys" where
  "WaitForNextTick env s =
     on_board (emit (SleepThread
       (if GetHz env HocClkModule_MEM (brd s) > 665000000
        then GetConfigValue (cfg s) (Hoc HocClkConfigValue_PollingIntervalMs) * 1000000
        else 5000 * 1000000))) s"

text \<open>One module of the refresh: the clock it runs at and its temporary override.\<close>

definition refresh_module :: "hw_env \<Rightarrow> HocClkModule \<Rightarrow> bool \<times> sys \<Rightarrow> bool \<times> sys" where
  "refresh_module env module cs =
     (case cs of (hasChanged, s) \<Rightarrow>
        let hz = GetHz env module (brd s);
            changed = (hz \<noteq> 0 \<and> hz \<noteq> c_freqs (gContext s) module);
            s1 = (if changed then on_ctx (set_ctx_freq module hz) s else s);
            ohz = GetOverrideHz (cfg s1) module;
            ochanged = (ohz \<noteq> c_overrideFreqs (gContext s1) module);
            s2 = (if ochanged then on_ctx (set_ctx_override module ohz) s1 else s1)
        in (hasChanged \<or> changed \<or> ochanged, s2))"

definition all_part_loads :: "HocClkPartLoad list" where
  "all_part_loads = [HocClkPartLoad_EMC, HocClkPartLoad_EMCCpu, HocClkPartLoad_GPU,
     HocClkPartLoad_CPUMax, HocClkPartLoad_BAT, HocClkPartLoad_FAN, HocClkPartLoad_RamBWAll,
     HocClkPartLoad_RamBWCpu, HocClkPartLoad_RamBWGpu, HocClkPartLoad_RamBWPeak]"

definition all_voltages :: "HocClkVoltage list" where
  "all_voltages = [HocClkVoltage_SOC, HocClkVoltage_EMCVDD2, HocClkVoltage_CPU,
     HocClkVoltage_GPU, HocClkVoltage_EMCVDDQ, HocClkVoltage_Display, HocClkVoltage_Battery]"
text \<open>The loads and voltages are read once for the context and again for its stable copy.\<close>

definition refresh_load :: "hw_env \<Rightarrow> HocClkPartLoad \<Rightarrow> sys \<Rightarrow> sys" where
  "refresh_load env loadSource s =
     (let s1 = on_board (emit ReadSensor) s;
          s2 = on_ctx (\<lambda>c. c\<lparr>c_partLoad := (c_partLoad c)(loadSource :=
                 rd_load env (hw_log (brd s1)) loadSource)\<rparr>) s1;
          s3 = on_board (emit ReadSensor) s2
      in on_ctx (\<lambda>c. c\<lparr>c_stable := (c_stable c)\<lparr>st_partLoad := (st_partLoad (c_stable c))(loadSource :=
           rd_load env (hw_log (brd s3)) loadSource)\<rparr>\<rparr>) s3)"

definition refresh_voltage :: "hw_env \<Rightarrow> HocClkVoltage \<Rightarrow> sys \<Rightarrow> sys" where
  "refresh_voltage env voltageSource s =
     (let s1 = on_board (emit ReadSensor) s;
          s2 = on_ctx (\<lambda>c. c\<lparr>c_voltages := (c_voltages c)(voltageSource :=
                 rd_voltage env (hw_log (brd s1)) voltageSource)\<rparr>) s1;
          s3 = on_board (emit ReadSensor) s2
      in on_ctx (\<lambda>c. c\<lparr>c_stable := (c_stable c)\<lparr>st_voltages := (st_voltages (c_stable c))(voltageSource :=
           rd_voltage env (hw_log (brd s3)) voltageSource)\<rparr>\<rparr>) s3)"

text \<open>The loops over the temperatures, the power sensors and the real clocks.\<close>

definition refresh_sensors :: "hw_env \<Rightarrow> sys \<Rightarrow> sys" where
  "refresh_sensors env s =
     (let temps = (\<lambda>sensor. GetTemperatureMilli env sensor (brd s));
          power = (\<lambda>sensor. GetPowerMw env sensor (brd s));
          real = (\<lambda>module. GetRealHz env module (brd s))
      in on_ctx (\<lambda>c. c\<lparr>c_temps := temps, c_power := power, c_realFreqs := real,
           c_stable := (c_stable c)\<lparr>st_temps := temps, st_power := power, st_realFreqs := real\<rparr>\<rparr>) s)"

definition refresh_log_times :: "hw_env \<Rightarrow> sys \<Rightarrow> sys" where
  "refresh_log_times env s =
     (let ns = rd_ns env (hw_log (brd s)) in
      s\<lparr>gLastTempLogNs := snd (ConfigIntervalTimeout s (Hoc HocClkConfigValue_TempLogIntervalMs)
           ns (gLastTempLogNs s)),
        gLastPowerLogNs := snd (ConfigIntervalTimeout s (Hoc HocClkConfigValue_PowerLogIntervalMs)
           ns (gLastPowerLogNs s)),
        gLastFreqLogNs := snd (ConfigIntervalTimeout s (Hoc HocClkConfigValue_FreqLogIntervalMs)
           ns (gLastFreqLogNs s))\<rparr>)"

definition write_csv :: "u64 \<Rightarrow> sys \<Rightarrow> sys" where
  "write_csv ns s =
     (let (due, last) = ConfigIntervalTimeout s (Hoc HocClkConfigValue_CsvWriteIntervalMs) ns
            (gLastCsvWriteNs s);
          s1 = s\<lparr>gLastCsvWriteNs := last\<rparr>
      in if due then on_board (emit WriteCsvRow) s1 else s1)"

text \<open>The first half: title and profile, back to stock on a change, then the modules.\<close>

definition refresh_clocks :: "hw_env \<Rightarrow> sys \<Rightarrow> bool \<times> sys" where
  "refresh_clocks env s =
     (let applicationId = rd_app_id env (hw_log (brd s));
          profile = rd_profile env (hw_log (brd s));
          changed = (applicationId \<noteq> c_applicationId (gContext s) \<or> profile \<noteq> c_profile (gContext s));
          s1 = on_ctx (\<lambda>c. c\<lparr>c_applicationId := applicationId, c_profile := profile\<rparr>) s;
          s2 = (if changed then
                  (let r1 = on_board (ResetToStock env (cfg s1)) s1;
                       r2 = (if is_hijack_mode r1
                             then on_board (ResetToStockGpu env (cfg r1))
                                    (on_board (PcvHijackGpuVolts env 0) r1)
                             else r1)
                   in WaitForNextTick env r2)
                else s1)
      in fold (refresh_module env) all_modules (changed, s2))"

definition RefreshContext :: "hw_env \<Rightarrow> sys \<Rightarrow> bool \<times> sys" where
  "RefreshContext env s =
     (let (hasChanged, s1) = refresh_clocks env s;
          ns = rd_ns env (hw_log (brd s1));
          s2 = refresh_sensors env (refresh_log_times env s1);
          s3 = fold (refresh_voltage env) all_voltages (fold (refresh_load env) all_part_loads s2);
          s4 = write_csv ns s3;
          s5 = on_board (SetDisplayRefreshDockedState env
                 (c_profile (gContext s4) = HocClkProfile_Docked)) s4;
          salty = c_isSaltyNXInstalled (gContext s5);
          s6 = on_ctx (\<lambda>c. c\<lparr>c_fps := if salty then rd_fps env (hw_log (brd s5)) else 254,
                 c_resolutionHeight := if salty then rd_resolution env (hw_log (brd s5)) else 0\<rparr>) s5
      in (hasChanged, s6))"

text \<open>The disjunction of the tick is short-circuit: a later operand runs only when the earlier fail.\<close>

definition Tick :: "hw_env \<Rightarrow> sys \<Rightarrow> sys" where
  "Tick env s =
     (let isBoost = apmExtIsBoostMode (rd_apm_conf env (hw_log (brd s)));
          (shouldSkipClockSet, s1) = HandleSafetyFeatures env s;
          s2 = HandleMiscFeatures env s1;
          (changed, s3) = RefreshContext env s2;
          (reloaded, c) = (if changed then (False, cfg s3) else Refresh (cfg s3));
          s4 = s3\<lparr>cfg := c\<rparr>;
          drifted = (GetRealHz env HocClkModule_GPU (brd s4) \<noteq> c_freqs (gContext s4) HocClkModule_GPU)
      in if (changed \<or> reloaded \<or> drifted) \<and> \<not> shouldSkipClockSet
         then SetClocks env isBoost s4 else s4)"

text \<open>One round of the main loop.\<close>

definition main_round :: "hw_env \<Rightarrow> sys \<Rightarrow> sys" where
  "main_round env s = WaitForNextTick env (Tick env s)"

definition SetRunning :: "bool \<Rightarrow> sys \<Rightarrow> sys" where
  "SetRunning running s = s\<lparr>gRunning := running\<rparr>"

definition Running :: "sys \<Rightarrow> bool" where
  "Running s = gRunning s"

definition GetCurrentContext :: "sys \<Rightarrow> hoc_context" where
  "GetCurrentContext s = gContext s"

definition manager_GetFreqList :: "HocClkModule \<Rightarrow> nat \<Rightarrow> sys \<Rightarrow> u32 list" where
  "manager_GetFreqList module maxCount s = take maxCount (gFreqTable s module)"

text \<open>
  The part of \<open>Initialize\<close> that fills the context and the tables, then the GPU scheduling
  setting. The raw values of the two scheduling settings select the enumerators.
\<close>

definition empty_context :: hoc_context where
  "empty_context = \<lparr>c_stable = \<lparr>st_freqs = (\<lambda>_. 0), st_realFreqs = (\<lambda>_. 0),
       st_overrideFreqs = (\<lambda>_. 0), st_temps = (\<lambda>_. 0), st_power = (\<lambda>_. 0),
       st_partLoad = (\<lambda>_. 0), st_voltages = (\<lambda>_. 0)\<rparr>,
     c_applicationId = 0, c_profile = HocClkProfile_Handheld, c_freqs = (\<lambda>_. 0),
     c_realFreqs = (\<lambda>_. 0), c_overrideFreqs = (\<lambda>_. 0), c_temps = (\<lambda>_. 0), c_power = (\<lambda>_. 0),
     c_partLoad = (\<lambda>_. 0), c_voltages = (\<lambda>_. 0), c_isSaltyNXInstalled = False, c_fps = 0,
     c_resolutionHeight = 0\<rparr>"

definition init_scheduling :: "hw_env \<Rightarrow> sys \<Rightarrow> sys" where
  "init_scheduling env s =
     (let mode = GetConfigValue (cfg s) (Hoc HocClkConfigValue_GPUScheduling);
          method = (if GetConfigValue (cfg s) (Hoc HocClkConfigValue_GPUSchedulingMethod) = 0
                    then GpuSchedulingOverrideMethod_Ini else GpuSchedulingOverrideMethod_NvService)
      in if mode = 0 then on_board (SetGpuSchedulingMode env GpuSchedulingMode_DoNotOverride method) s
         else if mode = 1 then on_board (SetGpuSchedulingMode env GpuSchedulingMode_Enabled method) s
         else if mode = 2 then on_board (SetGpuSchedulingMode env GpuSchedulingMode_Disabled method) s
         else on_board abort_process s)"

definition manager_Initialize :: "hw_env \<Rightarrow> bool \<Rightarrow> sys \<Rightarrow> sys" where
  "manager_Initialize env saltyNX s =
     (let s1 = fold (RefreshFreqTableRow env) all_modules (s\<lparr>gContext := empty_context\<rparr>);
          s2 = init_scheduling env (s1\<lparr>gRunning := False, gLastTempLogNs := 0, gLastCsvWriteNs := 0\<rparr>)
      in on_ctx (\<lambda>c. c\<lparr>c_isSaltyNXInstalled := saltyNX\<rparr>) s2)"

section \<open>Operations on the board alone\<close>

text \<open>
  Many steps of the manager touch nothing but the board, and only by sending commands: the
  configuration, the context, the tables and the governor flags stay as they are.
\<close>

definition board_step :: "sys \<Rightarrow> sys \<Rightarrow> bool" where
  "board_step s s' \<longleftrightarrow> s' = s\<lparr>brd := brd s'\<rparr> \<and> log_le (brd s) (brd s')"

lemma board_step_refl [simp, intro]: "board_step s s"
  by (simp add: board_step_def)

lemma board_step_trans [trans]: "board_step a b \<Longrightarrow> board_step b c \<Longrightarrow> board_step a c"
  unfolding board_step_def
  by (metis log_le_trans sys.surjective sys.update_convs(2))

lemma board_step_on_board:
  "board_step a s \<Longrightarrow> log_le (brd s) (g (brd s)) \<Longrightarrow> board_step a (on_board g s)"
  by (erule board_step_trans) (simp add: board_step_def on_board_def)

lemma board_step_keeps:
  assumes "board_step s s'"
  shows "cfg s' = cfg s" "gContext s' = gContext s" "gFreqTable s' = gFreqTable s"
    "gov s' = gov s" "gRunning s' = gRunning s" "prepareBoostExit s' = prepareBoostExit s"
    "log_le (brd s) (brd s')"
  using assms unfolding board_step_def by (metis sys.simps sys.update_convs sys.surjective)+

locale board_only =
  fixes f :: "sys \<Rightarrow> sys"
  assumes step: "board_step s (f s)"
begin

lemma keeps [simp]:
  "cfg (f s) = cfg s" "gContext (f s) = gContext s" "gFreqTable (f s) = gFreqTable s"
  "gov (f s) = gov s" "gRunning (f s) = gRunning s" "prepareBoostExit (f s) = prepareBoostExit s"
  using board_step_keeps [OF step] by auto

lemma keeps_target [simp]: "target_hz (f s) = target_hz s"
  by (rule target_hz_cong) simp_all

lemma board_log: "log_le (brd s) (brd (f s))"
  by (rule board_step_keeps [OF step])

lemma after: "board_step a s \<Longrightarrow> board_step a (f s)"
  by (rule board_step_trans [OF _ step])

lemma log_after: "log_le b (brd s) \<Longrightarrow> log_le b (brd (f s))"
  by (rule log_le_trans [OF _ board_log])

end

interpretation live: board_only "live_tunings env"
  by unfold_locales (auto simp: live_tunings_def cpu_uv.extends intro: board_step_on_board)

interpretation stock_clocks: board_only "ResetToStockClocks env"
  by unfold_locales
    (auto simp: ResetToStockClocks_def ResetToStockCpu_def ResetToStockGpu_def reset_module.extends
      intro!: board_step_on_board live.after)

interpretation gpu_dvfs: board_only "ApplyGpuDvfs env targetHz"
  by unfold_locales
    (auto simp: ApplyGpuDvfs_def Let_def ResetToStockGpu_def reset_module.extends set_hz.extends
      hijack.extends log_le_abort intro!: board_step_on_board split: option.splits)

interpretation dvfs_reset: board_only "DVFSReset env"
  by unfold_locales
    (auto simp: DVFSReset_def Let_def ResetToStockGpu_def reset_module.extends set_hz.extends
      hijack.extends log_le_abort intro!: board_step_on_board split: option.splits)

interpretation freq_reset: board_only "HandleFreqReset env module isBoost didHijackPcv"
proof
  fix s show "board_step s (HandleFreqReset env module isBoost didHijackPcv s)"
    by (cases module)
      (auto simp: Let_def ResetToStockGpu_def ResetToStockCpu_def ResetToStockMem_def
        reset_module.extends reset_display.extends
        intro!: board_step_on_board live.after dvfs_reset.after)
qed

interpretation reapply: board_only "reapply_cpu env"
  by unfold_locales (auto simp: reapply_cpu_def set_hz.extends intro!: board_step_on_board)

interpretation wait: board_only "WaitForNextTick env"
  by unfold_locales (auto simp: WaitForNextTick_def log_le_emit intro!: board_step_on_board)

section \<open>What setting the clocks leaves alone\<close>

definition same_settings :: "sys \<Rightarrow> sys \<Rightarrow> bool" where
  "same_settings s s' \<longleftrightarrow> cfg s' = cfg s \<and> gFreqTable s' = gFreqTable s \<and>
     c_applicationId (gContext s') = c_applicationId (gContext s) \<and>
     c_profile (gContext s') = c_profile (gContext s) \<and>
     c_overrideFreqs (gContext s') = c_overrideFreqs (gContext s)"

lemma same_settings_refl [simp, intro]: "same_settings s s"
  by (simp add: same_settings_def)

lemma same_settings_trans [trans]: "same_settings a b \<Longrightarrow> same_settings b c \<Longrightarrow> same_settings a c"
  by (simp add: same_settings_def)

lemma same_settings_board: "board_step s s' \<Longrightarrow> same_settings s s'"
  by (simp add: same_settings_def board_step_keeps)

lemma same_settings_target: "same_settings s s' \<Longrightarrow> target_hz s' = target_hz s"
  by (simp add: fun_eq_iff target_hz_def same_settings_def Let_def)

lemma same_settings_nearest:
  "same_settings s s' \<Longrightarrow> capped_nearest env module hz s' = capped_nearest env module hz s"
  by (simp add: capped_nearest_def same_settings_def)

lemma on_ctx_simps [simp]:
  "cfg (on_ctx f s) = cfg s" "brd (on_ctx f s) = brd s" "gov (on_ctx f s) = gov s"
  "gFreqTable (on_ctx f s) = gFreqTable s" "gContext (on_ctx f s) = f (gContext s)"
  by (simp_all add: on_ctx_def)

lemma set_ctx_simps [simp]:
  "c_applicationId (set_ctx_freq m hz c) = c_applicationId c" "c_profile (set_ctx_freq m hz c) = c_profile c"
  "c_overrideFreqs (set_ctx_freq m hz c) = c_overrideFreqs c"
  "c_freqs (set_ctx_freq m hz c) = (c_freqs c)(m := hz)"
  "c_applicationId (set_ctx_real m hz c) = c_applicationId c" "c_profile (set_ctx_real m hz c) = c_profile c"
  "c_overrideFreqs (set_ctx_real m hz c) = c_overrideFreqs c" "c_freqs (set_ctx_real m hz c) = c_freqs c"
  "c_applicationId (set_ctx_override m hz c) = c_applicationId c"
  "c_profile (set_ctx_override m hz c) = c_profile c" "c_freqs (set_ctx_override m hz c) = c_freqs c"
  by (simp_all add: set_ctx_freq_def set_ctx_real_def set_ctx_override_def)

text \<open>The module part changes the context clock of its own module only.\<close>

lemma set_module_frame:
  fixes env isBoost m old t d s
  defines "s' \<equiv> snd (set_module env isBoost m old t (d, s))"
  shows "same_settings s s'" "gov s' = gov s" "m' \<noteq> m \<Longrightarrow> c_freqs (gContext s') m' = c_freqs (gContext s) m'"
    and "t \<noteq> 0 \<Longrightarrow> capped_nearest env m t s = Some f \<Longrightarrow> c_freqs (gContext s') m = f"
  unfolding s'_def
  by (auto simp: set_module_def same_settings_def Let_def split: option.splits)

lemma clock_step_frame:
  fixes env isBoost m d s
  defines "s' \<equiv> snd (clock_step env isBoost m (d, s))"
  shows "same_settings s s'" "m \<noteq> HocClkModule_Governor \<Longrightarrow> gov s' = gov s"
    "m' \<noteq> m \<Longrightarrow> c_freqs (gContext s') m' = c_freqs (gContext s) m'"
proof -
  have g: "same_settings s (HandleGovernor env hz s)" for hz
    by (simp add: same_settings_def frame)
  show "same_settings s s'" "m \<noteq> HocClkModule_Governor \<Longrightarrow> gov s' = gov s"
    "m' \<noteq> m \<Longrightarrow> c_freqs (gContext s') m' = c_freqs (gContext s) m'"
    unfolding s'_def clock_step_def Let_def
    using g set_module_frame by (auto simp: frame same_settings_def split: prod.splits)
qed

lemma HandleGovernor_log: "log_le (brd s) (brd (HandleGovernor env hz s))"
  by (auto simp: HandleGovernor_def Let_def ResetToStockCpu_def ResetToStockGpu_def
      intro!: reset_module.after reset_display.after)

lemma set_module_log: "log_le (brd s) (brd (snd (set_module env isBoost m old t (d, s))))"
  by (auto simp: set_module_def Let_def
      intro!: freq_reset.log_after gpu_dvfs.log_after set_hz.after log_le_abort split: option.splits
      simp del: HandleFreqReset.simps)

lemma clock_step_log: "log_le (brd s) (brd (snd (clock_step env isBoost m (d, s))))"
proof (cases "m = HocClkModule_Governor \<or> m = HocClkModule_Display")
  case True
  then show ?thesis
    by (auto simp: clock_step_def Let_def HandleGovernor_log enum_order_defs
        intro!: freq_reset.log_after set_hz.after simp del: HandleFreqReset.simps)
next
  case False
  then have "\<not> m > HocClkModule_MEM" by (cases m) (simp_all add: enum_order_defs)
  with False show ?thesis
    by (auto simp: clock_step_def Let_def set_module_log)
qed

lemma fold_clock_frame:
  "same_settings s (snd (fold (clock_step env isBoost) ms (d, s))) \<and>
   log_le (brd s) (brd (snd (fold (clock_step env isBoost) ms (d, s)))) \<and>
   (HocClkModule_Governor \<notin> set ms \<longrightarrow> gov (snd (fold (clock_step env isBoost) ms (d, s))) = gov s) \<and>
   (m \<notin> set ms \<longrightarrow> c_freqs (gContext (snd (fold (clock_step env isBoost) ms (d, s)))) m =
      c_freqs (gContext s) m)"
proof (induction ms arbitrary: d s)
  case (Cons n ms)
  obtain d1 s1 where ds: "clock_step env isBoost n (d, s) = (d1, s1)" by fastforce
  have s1: "s1 = snd (clock_step env isBoost n (d, s))" using ds by simp
  show ?case
    using Cons [where d = d1 and s = s1] clock_step_frame [where env = env and isBoost = isBoost and m = n and d = d and s = s]
      clock_step_log [where env = env and isBoost = isBoost and m = n and d = d and s = s]
    by (auto simp: ds s1 [symmetric] intro: same_settings_trans log_le_trans)
qed simp

text \<open>The loop, cut at one of the first three modules.\<close>

lemma all_modules_split:
  assumes "m \<le> HocClkModule_MEM"
  obtains pre post where "all_modules = pre @ m # post" "m \<notin> set pre" "m \<notin> set post"
    "HocClkModule_Governor \<notin> set pre"
proof -
  have "m = HocClkModule_CPU \<or> m = HocClkModule_GPU \<or> m = HocClkModule_MEM"
    using assms by (cases m) (simp_all add: enum_order_defs)
  then show thesis
  proof (elim disjE)
    assume "m = HocClkModule_CPU"
    then show thesis by (intro that [of "[]"]) (auto simp: all_modules_def)
  next
    assume "m = HocClkModule_GPU"
    then show thesis by (intro that [of "[HocClkModule_CPU]"]) (auto simp: all_modules_def)
  next
    assume "m = HocClkModule_MEM"
    then show thesis
      by (intro that [of "[HocClkModule_CPU, HocClkModule_GPU]"]) (auto simp: all_modules_def)
  qed
qed

text \<open>The state the loop starts in.\<close>

definition loop_start :: "hw_env \<Rightarrow> sys \<Rightarrow> sys" where
  "loop_start env s =
     (if prepareBoostExit s then (reapply_cpu env s)\<lparr>prepareBoostExit := False\<rparr> else s)"

lemma loop_start_keeps [simp]:
  "cfg (loop_start env s) = cfg s" "gContext (loop_start env s) = gContext s"
  "gFreqTable (loop_start env s) = gFreqTable s" "gov (loop_start env s) = gov s"
  "log_le (brd s) (brd (loop_start env s))"
  by (simp_all add: loop_start_def reapply.board_log)

lemma loop_start_settings [simp]: "same_settings s (loop_start env s)"
  by (simp add: same_settings_def)

definition governed :: "sys \<Rightarrow> HocClkModule \<Rightarrow> bool" where
  "governed s m \<longleftrightarrow> isCpuGovernorEnabled (gov s) \<and> m = HocClkModule_CPU \<or>
     isGpuGovernorEnabled (gov s) \<and> m = HocClkModule_GPU"

lemma clock_step_module:
  assumes "m \<le> HocClkModule_MEM" "\<not> governed s m"
  shows "clock_step env isBoost m (d, s) =
    set_module env isBoost m (GetHz env m (brd s)) (target_hz s m False) (d, s)"
proof -
  have "m \<noteq> HocClkModule_Governor" "m \<noteq> HocClkModule_Display" "\<not> m > HocClkModule_MEM"
    using assms(1) by (auto simp: enum_order_defs)
  then show ?thesis using assms(2) by (auto simp: clock_step_def Let_def governed_def)
qed

lemma set_module_commands:
  assumes "t \<noteq> 0" "capped_nearest env m t s = Some f" "f \<noteq> c_freqs (gContext s) m"
  shows "\<exists>b. log_le (brd s) b \<and>
    log_le (SetHz env (cfg s) m f b) (brd (snd (set_module env isBoost m old t (d, s))))"
proof -
  define hijack where "hijack \<longleftrightarrow> m = HocClkModule_MEM \<and> is_hijack_mode s"
  let ?s1 = "if hijack \<and> t > old then ApplyGpuDvfs env t s else s"
  have "log_le (brd s) (brd ?s1)" by (simp add: gpu_dvfs.board_log)
  moreover have "log_le (SetHz env (cfg s) m f (brd ?s1))
      (brd (snd (set_module env isBoost m old t (d, s))))"
    using assms
    by (auto simp: set_module_def Let_def hijack_def intro: log_le_trans [OF _ gpu_dvfs.board_log])
  ultimately show ?thesis by blast
qed


section \<open>The voltage floor and the memory clock\<close>

lemma SetHz_halted [frame]: "halted (SetHz env c m hz b) = halted b"
  by (simp add: SetHz_def set_rate_def HandleCpuUv_def SetDfllTunings_def write_tunes_def Let_def)

lemma SetHz_MEM: "SetHz env c HocClkModule_MEM hz b = emit (rate_cmd env HocClkModule_MEM hz) b"
  by (simp add: SetHz_def set_rate_def use_gm20b_def enum_order_defs)

lemma hijack_sets_floor:
  "\<forall>log. rd_pcv_handle env log \<and> rd_pcv_write env log \<Longrightarrow>
    ram_vmin (PcvHijackGpuVolts env vmin b) = vmin \<and> halted (PcvHijackGpuVolts env vmin b) = halted b"
  by (simp add: PcvHijackGpuVolts_def Let_def)

lemma ApplyGpuDvfs_floor:
  assumes "\<forall>log. rd_pcv_handle env log \<and> rd_pcv_write env log" "t \<noteq> 0"
    and "gFreqTable s HocClkModule_GPU \<noteq> []"
  shows "ram_vmin (brd (ApplyGpuDvfs env t s)) = dvfs_vmin env s t"
    "halted (brd (ApplyGpuDvfs env t s)) = halted (brd s)"
proof -
  obtain f where "capped_nearest env HocClkModule_GPU (GetHz env HocClkModule_GPU (brd s)) s = Some f"
    using assms(3) nearest.pick_defined unfolding capped_nearest_def by blast
  then show "ram_vmin (brd (ApplyGpuDvfs env t s)) = dvfs_vmin env s t"
    "halted (brd (ApplyGpuDvfs env t s)) = halted (brd s)"
    using assms(2) hijack_sets_floor [OF assms(1)] by (simp_all add: ApplyGpuDvfs_def Let_def frame)
qed


section \<open>The frequency tables\<close>

lemma unat_step:
  fixes f kMax :: u32
  assumes "f \<le> kMax" "unat kMax < 4256000000"
  shows "unat (f + kStep) = unat f + 38400000"
proof -
  have "unat f < 4256000000" using assms by (simp add: word_le_nat_alt)
  then show ?thesis by (simp add: kStep_def unat_word_ariths)
qed

lemma middle_walk_ends:
  assumes "unat kMax < 4256000000"
  shows "unat kMax < unat f + 38400000 * n \<Longrightarrow> middle_walk (Suc n) middle freqs kMax f acc \<noteq> None"
proof (induction n arbitrary: f acc)
  case 0
  then have "\<not> f \<le> kMax" by (simp add: word_le_nat_alt)
  then show ?case by simp
next
  case (Suc n)
  show ?case
  proof (cases "f \<le> kMax")
    case True
    have "unat kMax < unat (f + kStep) + 38400000 * n"
      using Suc.prems unat_step [OF True assms] by simp
    from Suc.IH [OF this] show ?thesis
      by (subst middle_walk.simps) auto
  qed simp
qed

text \<open>What the walk may put into the table.\<close>

definition walk_entry :: "bool \<Rightarrow> u32 list \<Rightarrow> u32 \<Rightarrow> u32 \<Rightarrow> bool" where
  "walk_entry middle freqs kMax x \<longleftrightarrow> x \<le> kMax \<and>
     (x \<in> set freqs \<or> middle \<and> x mod kPcvStep \<noteq> 0 \<and> x mod kStep = 0)"

lemma walk_entryD:
  "walk_entry middle freqs kMax x \<Longrightarrow>
    x \<in> set freqs \<or> middle \<and> x mod kStep = 0 \<and> x mod kPcvStep \<noteq> 0"
  unfolding walk_entry_def by argo

lemma step_mod:
  assumes "f mod kStep = 0" "f \<le> kMax" "unat kMax < 4256000000"
  shows "(f + kStep) mod kStep = 0"
proof -
  have "unat f mod 38400000 = 0"
    using assms(1) by (simp add: kStep_def word_unat_eq_iff unat_mod)
  then show ?thesis
    using unat_step [OF assms(2,3)] by (simp add: word_unat_eq_iff unat_mod) (simp add: kStep_def)
qed

lemma middle_walk_row:
  assumes "unat kMax < 4256000000" "middle_walk n middle freqs kMax f acc = Some row"
    and "f mod kStep = 0" "sorted_wrt (<) acc" "\<forall>x\<in>set acc. x < f \<and> walk_entry middle freqs kMax x"
    and "length acc \<le> HOCCLK_FREQ_LIST_MAX"
  shows "sorted_wrt (<) row \<and> (\<forall>x\<in>set row. walk_entry middle freqs kMax x) \<and>
    length row \<le> HOCCLK_FREQ_LIST_MAX"
  using assms(2-6)
proof (induction n arbitrary: f acc)
  case (Suc n)
  show ?case
  proof (cases "f \<le> kMax \<and> length acc < HOCCLK_FREQ_LIST_MAX")
    case True
    then have le: "f \<le> kMax" by simp
    define acc' where "acc' = (if f mod kPcvStep \<noteq> 0 then (if middle then acc @ [f] else acc)
        else if f \<in> set freqs then acc @ [f] else acc)"
    have walk: "middle_walk n middle freqs kMax (f + kStep) acc' = Some row"
      using Suc.prems(1) True by (simp add: acc'_def)
    have lt: "f < f + kStep"
      using unat_step [OF le assms(1)] by (simp add: word_less_nat_alt)
    have "sorted_wrt (<) acc'"
      using Suc.prems(3,4) by (auto simp: acc'_def sorted_wrt_append)
    moreover have "acc' = acc \<or> acc' = acc @ [f] \<and> walk_entry middle freqs kMax f"
      using Suc.prems(2) le by (auto simp: acc'_def walk_entry_def)
    then have "\<forall>x\<in>set acc'. x < f + kStep \<and> walk_entry middle freqs kMax x"
      using Suc.prems(4) lt by (auto intro: less_trans)
    moreover have "length acc' \<le> HOCCLK_FREQ_LIST_MAX"
      using True by (auto simp: acc'_def)
    ultimately show ?thesis
      using Suc.IH [OF walk step_mod [OF Suc.prems(2) le assms(1)]] by blast
  next
    case False
    with Suc.prems show ?thesis by simp
  qed
qed simp

lemma append_assignable_row:
  assumes "sorted_wrt (<) freqs" "sorted_wrt (<) acc" "\<forall>x\<in>set acc. \<forall>y\<in>set freqs. kMax < y \<longrightarrow> x < y"
    and "length acc \<le> HOCCLK_FREQ_LIST_MAX"
  shows "sorted_wrt (<) (append_assignable m kMax freqs acc) \<and>
    length (append_assignable m kMax freqs acc) \<le> HOCCLK_FREQ_LIST_MAX \<and>
    set (append_assignable m kMax freqs acc) \<subseteq> set acc \<union> {f \<in> set freqs. IsAssignableHz m f}"
  using assms
proof (induction freqs arbitrary: acc)
  case (Cons f freqs)
  show ?case
  proof (cases "length acc < HOCCLK_FREQ_LIST_MAX")
    case True
    define acc' where "acc' = (if f > kMax \<and> IsAssignableHz m f then acc @ [f] else acc)"
    have "sorted_wrt (<) acc'"
      using Cons.prems by (auto simp: acc'_def sorted_wrt_append)
    moreover have "\<forall>x\<in>set acc'. \<forall>y\<in>set freqs. kMax < y \<longrightarrow> x < y"
      using Cons.prems by (auto simp: acc'_def)
    moreover have "length acc' \<le> HOCCLK_FREQ_LIST_MAX"
      using True by (simp add: acc'_def)
    ultimately have "sorted_wrt (<) (append_assignable m kMax freqs acc') \<and>
        length (append_assignable m kMax freqs acc') \<le> HOCCLK_FREQ_LIST_MAX \<and>
        set (append_assignable m kMax freqs acc') \<subseteq> set acc' \<union> {f \<in> set freqs. IsAssignableHz m f}"
      using Cons.prems(1) by (intro Cons.IH) auto
    then show ?thesis using True by (auto simp: acc'_def split: if_splits)
  next
    case False
    with Cons.prems show ?thesis by simp
  qed
qed simp

lemma fold_max_bound:
  "\<forall>f\<in>set freqs. f \<le> b \<Longrightarrow> a \<le> b \<Longrightarrow> fold max freqs a \<le> (b :: u32)"
  by (induction freqs arbitrary: a) auto

lemma middle_max_bound:
  assumes "\<forall>f\<in>set freqs. f \<le> b"
  shows "middle_max freqs \<le> b"
proof -
  define step where "step = (\<lambda>f k. if f + kStep \<in> set freqs then f + kStep else k)"
  have "fold step fs k \<le> b" if "k \<le> b" for fs k
    using that assms by (induction fs arbitrary: k) (auto simp: step_def)
  from this [of 0 freqs] show ?thesis
    using fold_max_bound [OF assms, of 0] by (simp add: middle_max_def Let_def step_def)
qed

text \<open>
  C23. From an ascending list of clocks below 4256 MHz the refresh of a table always ends, within
  the fuel of the walk, with an ascending table of at most 48 entries, all assignable to the
  module and each from the list, except for the middle steps of the Mariko GPU, which are odd
  multiples of 38.4 MHz and only there when the setting is on.
\<close>

theorem freq_row_sound:
  assumes "sorted_wrt (<) freqs" "length freqs \<le> HOCCLK_FREQ_LIST_MAX"
    and "\<forall>f\<in>set freqs. f < 4256000000"
  shows "\<exists>row. freq_row env c m freqs = Some row \<and> sorted_wrt (<) row \<and>
    length row \<le> HOCCLK_FREQ_LIST_MAX \<and>
    (\<forall>f\<in>set row. IsAssignableHz m f \<and> (f \<in> set freqs \<or>
      m = HocClkModule_GPU \<and> soc_type env = HocClkSocType_Mariko \<and>
      GetConfigValue c (Hoc HocClkConfigValue_MarikoMiddleFreqs) \<noteq> 0 \<and>
      f mod kStep = 0 \<and> f mod kPcvStep \<noteq> 0))"
proof (cases "m = HocClkModule_GPU \<and> soc_type env = HocClkSocType_Mariko")
  case True
  let ?mid = "GetConfigValue c (Hoc HocClkConfigValue_MarikoMiddleFreqs) \<noteq> 0"
  define kMax where "kMax = middle_max freqs"
  have "\<forall>f\<in>set freqs. f \<le> 4255999999"
    using assms(3) by (auto simp: word_le_nat_alt word_less_nat_alt)
  then have "kMax \<le> 4255999999" unfolding kMax_def by (rule middle_max_bound)
  then have small: "unat kMax < 4256000000" by (simp add: word_le_nat_alt)
  have "unat kMax < unat kPcvStep + 38400000 * 111"
    using small by (simp add: kPcvStep_def)
  from middle_walk_ends [OF small this, of ?mid freqs "[]"] obtain walk where
    "middle_walk (Suc 111) ?mid freqs kMax kPcvStep [] = Some walk" by blast
  then have walk: "middle_walk middle_fuel ?mid freqs kMax kPcvStep [] = Some walk"
    by (simp only: middle_fuel_def) simp
  have w: "sorted_wrt (<) walk" "\<forall>x\<in>set walk. walk_entry ?mid freqs kMax x"
    "length walk \<le> HOCCLK_FREQ_LIST_MAX"
    using middle_walk_row [OF small walk] by (auto simp: kPcvStep_def kStep_def)
  have "\<forall>x\<in>set walk. \<forall>y\<in>set freqs. kMax < y \<longrightarrow> x < y"
    using w(2) by (auto simp: walk_entry_def)
  from append_assignable_row [OF assms(1) w(1) this w(3)]
  have row: "sorted_wrt (<) (append_assignable m kMax freqs walk)"
    "length (append_assignable m kMax freqs walk) \<le> HOCCLK_FREQ_LIST_MAX"
    "set (append_assignable m kMax freqs walk) \<subseteq> set walk \<union> {f \<in> set freqs. IsAssignableHz m f}"
    by blast+
  show ?thesis
  proof (intro exI conjI ballI)
    show "freq_row env c m freqs = Some (append_assignable m kMax freqs walk)"
      using True walk by (simp add: freq_row_def kMax_def Let_def)
    show "IsAssignableHz m f" for f using True by simp
    fix f assume "f \<in> set (append_assignable m kMax freqs walk)"
    then have "f \<in> set walk \<or> f \<in> set freqs" using row(3) by blast
    then have "f \<in> set freqs \<or> ?mid \<and> f mod kStep = 0 \<and> f mod kPcvStep \<noteq> 0"
      using w(2) walk_entryD [of ?mid freqs kMax f] by metis
    with True show "f \<in> set freqs \<or> m = HocClkModule_GPU \<and> soc_type env = HocClkSocType_Mariko \<and>
        ?mid \<and> f mod kStep = 0 \<and> f mod kPcvStep \<noteq> 0" by argo
  qed (fact row)+
next
  case False
  then have row: "freq_row env c m freqs = Some (filter (\<lambda>f. IsAssignableHz m f \<and>
      \<not> (m = HocClkModule_GPU \<and> soc_type env = HocClkSocType_Erista \<and> erista_disabled c f)) freqs)"
    unfolding freq_row_def by (simp only: if_False)
  show ?thesis
    unfolding row using assms(1,2)
    by (auto intro!: sorted_wrt_filter order.trans [OF length_filter_le])
qed

text \<open>
  The handheld cap of an Erista GPU is not kept when the step at the cap is disabled: its
  table entry is gone, and a request above the cap gets the next step, 499.2 MHz.
\<close>

lemma erista_cap_exceeded:
  assumes "soc_type env = HocClkSocType_Erista"
    and "GetConfigValue c (Hoc HocClkConfigValue_UncappedClocks) = 0"
    and "GetConfigValue c (EristaGpuVolt KipConfigValue_g_volt_e_460800) = 2000"
    and "GetConfigValue c (EristaGpuVolt KipConfigValue_g_volt_e_499200) \<noteq> 2000"
    and "sorted_wrt (<) freqs" "499200000 \<in> set freqs"
    and "\<forall>f\<in>set freqs. \<not> (460800000 < f \<and> f < 499200000)" "499200000 \<le> hz"
    and "freq_row env c HocClkModule_GPU freqs = Some row"
  shows "GetMaxAllowedHz env c HocClkModule_GPU HocClkProfile_Handheld = 460800000 \<and>
    GetNearestHz row hz (GetMaxAllowedHz env c HocClkModule_GPU HocClkProfile_Handheld) =
      Some 499200000"
proof -
  let ?x = "499200000 :: u32"
  have cap: "GetMaxAllowedHz env c HocClkModule_GPU HocClkProfile_Handheld = 460800000"
    using assms(1,2) by (simp add: GetMaxAllowedHz_def enum_order_defs)
  have row: "row = filter (\<lambda>f. \<not> erista_disabled c f) freqs"
    using assms(1,9) by (simp add: freq_row_def)
  have "erista_disabled c 460800000" "\<not> erista_disabled c ?x"
    using assms(3,4) by (simp_all add: erista_disabled_def eristaGpuVoltMap_def)
  then have x: "?x \<in> set row" "(460800000 :: u32) \<notin> set row" using assms(6) by (simp_all add: row)
  have sorted: "sorted_wrt (<) row" using assms(5) by (simp add: row sorted_wrt_filter)
  have below: "f < 460800000" if "f \<in> set row" "f < ?x" for f
  proof -
    have "f \<in> set freqs" using that(1) by (simp add: row)
    with assms(7) that(2) have "\<not> 460800000 < f" by blast
    moreover have "f \<noteq> 460800000" using that(1) x(2) by blast
    ultimately show ?thesis by (metis linorder_neqE)
  qed
  have allowed: "allowed_entry row 460800000 f \<longleftrightarrow> f \<in> set row \<and> f \<le> ?x" for f
    using x below by (force simp: allowed_entry_def)
  define r where "r = nearest_from row hz 460800000"
  have r: "r \<in> set row" "r \<le> ?x" "hz_distance hz r \<le> hz_distance hz ?x"
    using nearest_from_optimal [OF sorted, of 460800000 ?x hz] x(1)
    by (simp_all add: allowed r_def [symmetric])
  have "unat ?x \<le> unat hz" "unat r \<le> unat ?x"
    using assms(8) r(2) unfolding word_le_nat_alt .
  then have "unat r = unat ?x"
    using r(3) unfolding hz_distance_def by linarith
  then have "r = ?x" by (simp only: word_unat_eq_iff)
  moreover have "row \<noteq> []" using x(1) by auto
  ultimately show ?thesis
    by (simp add: cap GetNearestHz_def r_def [symmetric])
qed

section \<open>The properties at work\<close>

definition demo_hijack :: sys where
  "demo_hijack = demo_sys\<lparr>cfg := (cfg demo_sys)\<lparr>configValues :=
     (configValues (cfg demo_sys))(Hoc HocClkConfigValue_DVFSMode := 1)\<rparr>\<rparr>"

lemma demo_target: "target_hz demo_sys HocClkModule_GPU False = 900000000"
proof -
  have "FindClockMHz (cfg demo_sys) t HocClkModule_GPU q < 4295" for t q
    by (simp add: FindClockMHz_def demo_defs)
  then have "\<forall>t q. FindClockMHz (cfg demo_sys) t HocClkModule_GPU q < 4295" by blast
  from target_lookup [OF this] show ?thesis
    by (simp add: target_sources_def FindClockMHz_def demo_defs HOCCLK_GLOBAL_PROFILE_TID_def)
qed



lemma freq_row_sound_witness:
  "\<exists>row. freq_row demo_env demo_config HocClkModule_GPU
      [76800000, 153600000, 460800000, 768000000, 921600000] = Some row \<and> sorted_wrt (<) row"
  using freq_row_sound [of "[76800000, 153600000, 460800000, 768000000, 921600000]" demo_env
      demo_config HocClkModule_GPU]
  by (auto simp: HOCCLK_FREQ_LIST_MAX_def)

lemma erista_cap_exceeded_witness:
  "GetNearestHz [384000000, 499200000, 768000000] 768000000 460800000 = Some 499200000"
proof -
  let ?env = "demo_env\<lparr>soc_type := HocClkSocType_Erista\<rparr>"
  let ?c = "demo_config\<lparr>configValues := (configValues demo_config)
      (EristaGpuVolt KipConfigValue_g_volt_e_460800 := 2000)\<rparr>"
  have row: "freq_row ?env ?c HocClkModule_GPU [384000000, 460800000, 499200000, 768000000] =
      Some [384000000, 499200000, 768000000]"
    by (simp add: freq_row_def erista_disabled_def eristaGpuVoltMap_def GetConfigValue_def demo_config_def)
  have c: "GetConfigValue ?c (Hoc HocClkConfigValue_UncappedClocks) = 0"
    "GetConfigValue ?c (EristaGpuVolt KipConfigValue_g_volt_e_460800) = 2000"
    "GetConfigValue ?c (EristaGpuVolt KipConfigValue_g_volt_e_499200) \<noteq> 2000"
    by (simp_all add: GetConfigValue_def demo_config_def)
  have "soc_type ?env = HocClkSocType_Erista" by simp
  note cap = erista_cap_exceeded [OF this c _ _ _ _ row, of 768000000]
  have list: "sorted_wrt (<) [384000000, 460800000, 499200000, 768000000 :: u32]"
    "(499200000 :: u32) \<in> set [384000000, 460800000, 499200000, 768000000]"
    "\<forall>f\<in>set [384000000, 460800000, 499200000, 768000000 :: u32].
       \<not> (460800000 < f \<and> f < 499200000)" "(499200000 :: u32) \<le> 768000000"
    by simp_all
  show ?thesis using cap [OF list] by metis
qed

end
