(* ===== verification/Command_Safety.thy ===== *)
theory Command_Safety
  imports Clock_Manager
begin

text \<open>
  Properties of whole runs: the rounds of the main loop, the passes of the governor thread and the
  requests of clients, in any order. Which clock rates ever reach the hardware, what the throttle
  and the boost mode let through, and the invariants of the context.
\<close>

section \<open>Rates among the commands\<close>

text \<open>
  \<open>sends R b b'\<close>: from \<open>b\<close> to \<open>b'\<close> commands are only appended, none after an abort, and every
  clock rate among them satisfies \<open>R\<close> for its clock.
\<close>

fun rate_ok :: "(PcvModule \<Rightarrow> u32 \<Rightarrow> bool) \<Rightarrow> hw_cmd \<Rightarrow> bool" where
  "rate_ok R (ClkrstSetRate m hz) = R m hz"
| "rate_ok R (PcvSetRate m hz) = R m hz"
| "rate_ok R _ = True"

definition sends :: "(PcvModule \<Rightarrow> u32 \<Rightarrow> bool) \<Rightarrow> board_state \<Rightarrow> board_state \<Rightarrow> bool" where
  "sends R b b' \<longleftrightarrow> log_le b b' \<and> list_all (rate_ok R) (drop (length (hw_log b)) (hw_log b'))"

lemma sends_refl [simp, intro]: "sends R b b"
  by (simp add: sends_def)

lemma sends_trans [trans]: "sends R a b \<Longrightarrow> sends R b c \<Longrightarrow> sends R a c"
  by (auto simp: sends_def log_le_def prefix_def intro: prefix_order.trans)

lemma sends_emit: "rate_ok R cmd \<Longrightarrow> sends R b (emit cmd b)"
  by (auto simp: sends_def log_le_def emit_def)

lemma sends_abort: "sends R b (abort_process b)"
  by (simp add: sends_def log_le_def abort_process_def)

lemma sends_inject: "sends R b (b\<lparr>currentInjectedHz := hz\<rparr>)"
  by (simp add: sends_def log_le_def)

lemma sends_if:
  "(P \<Longrightarrow> sends R a b) \<Longrightarrow> (\<not> P \<Longrightarrow> sends R a b') \<Longrightarrow> sends R a (if P then b else b')"
  by simp

lemma rate_ok_cmd: "rate_ok R (rate_cmd env m hz) = R (GetPcvModule m) hz"
  by (simp add: rate_cmd_def)

text \<open>An operation of the board under a fixed rate condition.\<close>

locale safe_op =
  fixes R :: "PcvModule \<Rightarrow> u32 \<Rightarrow> bool" and f :: "board_state \<Rightarrow> board_state"
  assumes safe: "sends R b (f b)"
begin

lemma after: "sends R a b \<Longrightarrow> sends R a (f b)"
  by (rule sends_trans [OF _ safe])

lemma iter: "sends R b ((f ^^ n) b)"
  by (induction n) (auto intro: after)

end

text \<open>Commands other than rates satisfy every condition.\<close>

interpretation safe_tunings: safe_op R "SetDfllTunings env lo hi tbreak"
  by unfold_locales
    (auto simp: SetDfllTunings_def write_tunes_def Let_def intro!: sends_trans [OF _ sends_emit])

interpretation safe_cpu_uv: safe_op R "HandleCpuUv env c"
  by unfold_locales (simp add: HandleCpuUv_def safe_tunings.safe)

interpretation safe_hijack: safe_op R "PcvHijackGpuVolts env vmin"
  by unfold_locales
    (auto simp: PcvHijackGpuVolts_def Let_def sends_def log_le_def emit_def)

interpretation safe_display: safe_op R ResetToStockDisplay
  by unfold_locales (simp add: ResetToStockDisplay_def sends_emit)

interpretation safe_docked: safe_op R "SetDisplayRefreshDockedState env docked"
  by unfold_locales (simp add: SetDisplayRefreshDockedState_def sends_emit)

text \<open>The rate \<open>SetHz\<close> commands for a clock: the next whole step when it injects.\<close>

definition commanded_hz :: "hw_env \<Rightarrow> HocClkModule \<Rightarrow> u32 \<Rightarrow> u32" where
  "commanded_hz env m hz = (if use_gm20b env m hz then hz + 38400000 else hz)"

lemma SetHz_sends:
  assumes "m \<le> HocClkModule_MEM \<Longrightarrow> R (GetPcvModule m) (commanded_hz env m hz)"
  shows "sends R b (SetHz env c m hz b)"
proof (cases "m \<le> HocClkModule_MEM")
  case True
  have pcv: "(if use_gm20b env m hz then ((hz + 76800000 - 1) div 76800000) * 76800000 else hz) =
      commanded_hz env m hz"
    using next_step by (auto simp: commanded_hz_def use_gm20b_def MIDDLE_FREQ_TABLE_START_POINT_def)
  have rate: "sends R a b \<Longrightarrow> sends R a (set_rate env m (commanded_hz env m hz) b)" for a b
    using assms [OF True]
    by (auto simp: set_rate_def rate_ok_cmd intro!: sends_trans [OF _ sends_emit])
  have sleep: "sends R a b \<Longrightarrow> sends R a (emit (SleepThread n) b)"
    "sends R a b \<Longrightarrow> sends R a (emit (Gm20bSetClock k) b)" for a b n k
    by (auto intro: sends_trans [OF _ sends_emit])
  have inj: "sends R a b \<Longrightarrow> sends R a (b\<lparr>currentInjectedHz := h\<rparr>)" for a b h
    by (rule sends_trans [OF _ sends_inject])
  have "m \<noteq> HocClkModule_Display" "\<not> m > HocClkModule_MEM"
    using True by (auto simp: enum_order_defs)
  then show ?thesis
    unfolding SetHz_def Let_def pcv
    by (simp only: if_False) (intro sends_if rate sleep inj safe_cpu_uv.after sends_refl)
next
  case False
  then show ?thesis
    by (cases m) (simp_all add: SetHz_def enum_order_defs sends_emit)
qed

section \<open>Stock rates\<close>

definition stock_rate :: "PcvModule \<Rightarrow> u32 \<Rightarrow> bool" where
  "stock_rate m hz \<longleftrightarrow> (\<exists>r\<in>set hocclk_g_apm_configurations.
     hz = (case m of PcvModule_CpuBus \<Rightarrow> cpu_hz r | PcvModule_GPU \<Rightarrow> gpu_hz r | PcvModule_EMC \<Rightarrow> mem_hz r))"

text \<open>No stock GPU rate is a half step.\<close>

lemma stock_commanded:
  assumes "r \<in> set hocclk_g_apm_configurations"
  shows "commanded_hz env HocClkModule_GPU (gpu_hz r) = gpu_hz r"
proof -
  have "list_all (\<lambda>r. gpu_hz r mod 76800000 = 0) hocclk_g_apm_configurations"
    by (simp add: hocclk_g_apm_configurations_def apm_row_def)
  then show ?thesis using assms by (simp add: commanded_hz_def use_gm20b_def list_all_iff)
qed

lemma commanded_other [simp]:
  "commanded_hz env HocClkModule_CPU hz = hz" "commanded_hz env HocClkModule_MEM hz = hz"
  by (simp_all add: commanded_hz_def use_gm20b_def)

lemma stock_config:
  "find (\<lambda>r. apm_id r = i) hocclk_g_apm_configurations = Some r \<Longrightarrow>
    r \<in> set hocclk_g_apm_configurations"
  by (rule conjunct1 [OF find_Some_in])

lemma stock_rates:
  assumes "r \<in> set hocclk_g_apm_configurations"
  shows "stock_rate PcvModule_CpuBus (cpu_hz r)" "stock_rate PcvModule_GPU (gpu_hz r)"
    "stock_rate PcvModule_EMC (mem_hz r)"
  using assms by (auto simp: stock_rate_def)

lemma ResetToStockModule_sends:
  assumes "\<And>r. r \<in> set hocclk_g_apm_configurations \<Longrightarrow> R (GetPcvModule m) (commanded_hz env m (getHz r))"
  shows "sends R b (ResetToStockModule env c getHz m b)"
  using assms stock_config
  by (auto simp: ResetToStockModule_def sends_abort intro!: SetHz_sends sends_emit split: option.splits)

text \<open>A condition that every stock rate satisfies.\<close>

locale stock_ok =
  fixes R :: "PcvModule \<Rightarrow> u32 \<Rightarrow> bool"
  assumes stock: "stock_rate m hz \<Longrightarrow> R m hz"
begin

lemma stock_cpu: "sends R b (ResetToStockCpu env c b)"
  unfolding ResetToStockCpu_def
  by (rule ResetToStockModule_sends) (simp add: stock stock_rates)

lemma stock_gpu: "sends R b (ResetToStockGpu env c b)"
  unfolding ResetToStockGpu_def
  by (rule ResetToStockModule_sends) (simp add: stock stock_rates stock_commanded)

lemma stock_mem: "sends R b (ResetToStockMem env c b)"
  unfolding ResetToStockMem_def
  by (rule ResetToStockModule_sends) (simp add: stock stock_rates)

lemma stock_all: "sends R b (ResetToStock env c b)"
proof -
  have hz: "sends R a b \<Longrightarrow> sends R a (SetHz env c m h b)"
    if "m \<le> HocClkModule_MEM \<Longrightarrow> R (GetPcvModule m) (commanded_hz env m h)" for a b m h
    using SetHz_sends [of m R env h b c] that by (blast intro: sends_trans)
  show ?thesis
    using stock_config
    by (auto simp: ResetToStock_def sends_abort stock stock_rates stock_commanded
        intro!: hz sends_emit split: option.splits)
qed

end

interpretation stock: stock_ok stock_rate
  by unfold_locales

section \<open>Steps of the system\<close>

definition sys_sends :: "(PcvModule \<Rightarrow> u32 \<Rightarrow> bool) \<Rightarrow> sys \<Rightarrow> sys \<Rightarrow> bool" where
  "sys_sends R s s' \<longleftrightarrow> sends R (brd s) (brd s')"

lemma sys_sends_refl [simp, intro]: "sys_sends R s s"
  by (simp add: sys_sends_def)

lemma sys_sends_trans [trans]: "sys_sends R a b \<Longrightarrow> sys_sends R b c \<Longrightarrow> sys_sends R a c"
  unfolding sys_sends_def by (rule sends_trans)

lemma sys_sends_board:
  "sys_sends R a s \<Longrightarrow> sends R (brd s) (g (brd s)) \<Longrightarrow> sys_sends R a (on_board g s)"
  by (auto simp: sys_sends_def intro: sends_trans)

lemma sys_sends_other:
  "sys_sends R a s \<Longrightarrow> sys_sends R a (on_ctx f s)"
  "sys_sends R a s \<Longrightarrow> sys_sends R a (s\<lparr>cfg := c\<rparr>)"
  "sys_sends R a s \<Longrightarrow> sys_sends R a (s\<lparr>gov := g\<rparr>)"
  "sys_sends R a s \<Longrightarrow> sys_sends R a (s\<lparr>prepareBoostExit := v\<rparr>)"
  "sys_sends R a s \<Longrightarrow> sys_sends R a (s\<lparr>miscTick := n\<rparr>)"
  "sys_sends R a s \<Longrightarrow> sys_sends R a (s\<lparr>gLastCsvWriteNs := t\<rparr>)"
  by (simp_all add: sys_sends_def)

lemma live_tunings_sends: "sys_sends R a s \<Longrightarrow> sys_sends R a (live_tunings env s)"
  by (auto simp: live_tunings_def intro!: sys_sends_board safe_cpu_uv.safe)

lemma HandleMiscFeatures_sends: "sys_sends R a s \<Longrightarrow> sys_sends R a (HandleMiscFeatures env s)"
  by (auto simp: HandleMiscFeatures_def Let_def SetDisplayColorMode_def
      intro!: live_tunings_sends sys_sends_board sends_emit sys_sends_other)

lemma WaitForNextTick_sends: "sys_sends R a s \<Longrightarrow> sys_sends R a (WaitForNextTick env s)"
  by (auto simp: WaitForNextTick_def intro!: sys_sends_board sends_emit)

lemma fold_sends:
  "(\<And>x s. sys_sends R a s \<Longrightarrow> sys_sends R a (f x s)) \<Longrightarrow> sys_sends R a s \<Longrightarrow>
    sys_sends R a (fold f xs s)"
  by (induction xs arbitrary: s) auto

lemma refresh_module_sends: "sys_sends R a (snd cs) \<Longrightarrow> sys_sends R a (snd (refresh_module env m cs))"
  by (auto simp: refresh_module_def Let_def intro!: sys_sends_other split: prod.splits)

lemma fold_refresh_module_sends:
  "sys_sends R a (snd cs) \<Longrightarrow> sys_sends R a (snd (fold (refresh_module env) ms cs))"
  by (induction ms arbitrary: cs) (simp_all add: refresh_module_sends)

lemma refresh_rest_sends:
  "sys_sends R a s \<Longrightarrow> sys_sends R a (refresh_load env l s)"
  "sys_sends R a s \<Longrightarrow> sys_sends R a (refresh_voltage env v s)"
  "sys_sends R a s \<Longrightarrow> sys_sends R a (refresh_sensors env s)"
  "sys_sends R a s \<Longrightarrow> sys_sends R a (refresh_log_times env s)"
  "sys_sends R a s \<Longrightarrow> sys_sends R a (write_csv ns s)"
proof -
  show "sys_sends R a s \<Longrightarrow> sys_sends R a (refresh_load env l s)"
    "sys_sends R a s \<Longrightarrow> sys_sends R a (refresh_voltage env v s)"
    "sys_sends R a s \<Longrightarrow> sys_sends R a (refresh_sensors env s)"
    by (simp_all add: refresh_load_def refresh_voltage_def refresh_sensors_def Let_def
        sys_sends_other sys_sends_board sends_emit)
  show "sys_sends R a s \<Longrightarrow> sys_sends R a (refresh_log_times env s)"
    by (simp add: refresh_log_times_def Let_def sys_sends_def)
  show "sys_sends R a s \<Longrightarrow> sys_sends R a (write_csv ns s)"
    by (auto simp: write_csv_def Let_def sys_sends_other sys_sends_board sends_emit split: prod.splits)
qed

context stock_ok
begin

lemma ResetToStockClocks_sends: "sys_sends R a s \<Longrightarrow> sys_sends R a (ResetToStockClocks env s)"
  by (simp add: ResetToStockClocks_def sys_sends_board live_tunings_sends stock_cpu stock_gpu)

lemma HandleSafetyFeatures_sends:
  "sys_sends R a s \<Longrightarrow> sys_sends R a (snd (HandleSafetyFeatures env s))"
  by (simp add: HandleSafetyFeatures_def ResetToStockClocks_sends)

lemma refresh_clocks_sends: "sys_sends R a s \<Longrightarrow> sys_sends R a (snd (refresh_clocks env s))"
  unfolding refresh_clocks_def Let_def
  by (rule fold_refresh_module_sends)
    (auto intro!: WaitForNextTick_sends sys_sends_board sys_sends_other stock_all stock_gpu
      safe_hijack.safe)

lemma RefreshContext_sends: "sys_sends R a s \<Longrightarrow> sys_sends R a (snd (RefreshContext env s))"
  using refresh_clocks_sends [of a s env]
  by (auto simp: RefreshContext_def Let_def split: prod.splits
      intro!: sys_sends_other sys_sends_board safe_docked.safe refresh_rest_sends fold_sends)

lemma HandleGovernor_sends: "sys_sends R a s \<Longrightarrow> sys_sends R a (HandleGovernor env hz s)"
  by (auto simp: HandleGovernor_def Let_def
      intro!: sys_sends_other sys_sends_board stock_cpu stock_gpu safe_display.safe)

end

section \<open>Rates of the tables\<close>

text \<open>
  A memory rate is an entry of the memory table or a stock rate, a GPU rate is what is commanded
  for an entry of the GPU table or a stock rate. The CPU rate is not restricted: it also takes
  clocks read back from the hardware and the configured minimum of the governor.
\<close>

definition table_rate :: "hw_env \<Rightarrow> (HocClkModule \<Rightarrow> u32 list) \<Rightarrow> PcvModule \<Rightarrow> u32 \<Rightarrow> bool" where
  "table_rate env T m hz \<longleftrightarrow> stock_rate m hz \<or>
     (case m of
        PcvModule_CpuBus \<Rightarrow> True
      | PcvModule_GPU \<Rightarrow> \<exists>f\<in>set (T HocClkModule_GPU). hz = commanded_hz env HocClkModule_GPU f
      | PcvModule_EMC \<Rightarrow> hz \<in> set (T HocClkModule_MEM))"

interpretation table: stock_ok "table_rate env T"
  by unfold_locales (simp add: table_rate_def)

lemma table_entry:
  "f \<in> set (T m) \<or> m = HocClkModule_CPU \<Longrightarrow> m \<le> HocClkModule_MEM \<Longrightarrow>
    table_rate env T (GetPcvModule m) (commanded_hz env m f)"
  by (cases m) (auto simp: table_rate_def enum_order_defs)

lemma SetHz_table:
  "f \<in> set (T m) \<or> m = HocClkModule_CPU \<or> \<not> m \<le> HocClkModule_MEM \<Longrightarrow>
    sends (table_rate env T) b (SetHz env c m f b)"
  by (rule SetHz_sends) (auto intro: table_entry)

lemma capped_in: "capped_nearest env m hz s = Some f \<Longrightarrow> f \<in> set (gFreqTable s m)"
  unfolding capped_nearest_def by (rule nearest.pick_in)

lemma reapply_cpu_sends:
  "sys_sends (table_rate env T) a s \<Longrightarrow> sys_sends (table_rate env T) a (reapply_cpu env s)"
  by (simp add: reapply_cpu_def sys_sends_board SetHz_table)

lemma ApplyGpuDvfs_sends:
  assumes "gFreqTable s = T" "sys_sends (table_rate env T) a s"
  shows "sys_sends (table_rate env T) a (ApplyGpuDvfs env t s)"
  using assms capped_in [of env HocClkModule_GPU _ s]
  by (auto simp: ApplyGpuDvfs_def Let_def
      intro!: sys_sends_board sends_abort safe_hijack.safe SetHz_table table.stock_gpu split: option.splits)

lemma DVFSReset_sends:
  assumes "gFreqTable s = T" "sys_sends (table_rate env T) a s"
  shows "sys_sends (table_rate env T) a (DVFSReset env s)"
  using assms capped_in [of env HocClkModule_GPU _ "on_board (PcvHijackGpuVolts env 0) s"]
  by (auto simp: DVFSReset_def Let_def
      intro!: sys_sends_board sends_abort safe_hijack.safe SetHz_table table.stock_gpu split: option.splits)

lemma HandleFreqReset_sends:
  assumes "gFreqTable s = T" "sys_sends (table_rate env T) a s"
  shows "sys_sends (table_rate env T) a (HandleFreqReset env m isBoost d s)"
  using assms
  by (cases m) (auto simp: Let_def intro!: live_tunings_sends sys_sends_board DVFSReset_sends
      table.stock_cpu table.stock_gpu table.stock_mem safe_display.safe)

lemma set_module_sends:
  assumes "gFreqTable s = T" "sys_sends (table_rate env T) a s"
  shows "sys_sends (table_rate env T) a (snd (set_module env isBoost m old t (d, s)))"
  using assms capped_in [of env m _ s]
  by (auto simp: set_module_def Let_def
      intro!: HandleFreqReset_sends ApplyGpuDvfs_sends sys_sends_board sys_sends_other sends_abort
        SetHz_table split: option.splits simp del: HandleFreqReset.simps)

lemma clock_step_sends:
  assumes "gFreqTable s = T" "sys_sends (table_rate env T) a s"
  shows "sys_sends (table_rate env T) a (snd (clock_step env isBoost m (d, s)))"
proof -
  consider (gov) "m = HocClkModule_Governor" | (disp) "m = HocClkModule_Display" | (clock) "m \<le> HocClkModule_MEM"
    by (cases m) (simp_all add: enum_order_defs)
  then show ?thesis
  proof cases
    case gov
    have "snd (clock_step env isBoost m (d, s)) =
        HandleGovernor env (target_hz s HocClkModule_Governor True) s"
      by (simp add: clock_step_def Let_def gov enum_order_defs)
    then show ?thesis by (simp only: table.HandleGovernor_sends [OF assms(2)])
  next
    case disp
    have "sends (table_rate env T) b (SetHz env c HocClkModule_Display hz b)" for b c hz
      by (rule SetHz_table) (simp add: enum_order_defs)
    then show ?thesis
      using assms HandleFreqReset_sends [OF assms]
      by (simp add: clock_step_def Let_def disp sys_sends_other sys_sends_board del: HandleFreqReset.simps)
  next
    case clock
    then have "m \<noteq> HocClkModule_Governor" "m \<noteq> HocClkModule_Display" "\<not> m > HocClkModule_MEM"
      by (auto simp: enum_order_defs)
    then show ?thesis
      using assms by (simp add: clock_step_def Let_def set_module_sends)
  qed
qed

lemma fold_clock_sends:
  "gFreqTable s = T \<Longrightarrow> sys_sends (table_rate env T) a s \<Longrightarrow>
    sys_sends (table_rate env T) a (snd (fold (clock_step env isBoost) ms (d, s)))"
proof (induction ms arbitrary: d s)
  case (Cons m ms)
  obtain d1 s1 where ds: "clock_step env isBoost m (d, s) = (d1, s1)" by fastforce
  then have s1: "s1 = snd (clock_step env isBoost m (d, s))" by simp
  have table: "gFreqTable s1 = T"
    using clock_step_frame(1) [where env = env and isBoost = isBoost and m = m and d = d and s = s]
      Cons.prems(1) by (simp add: s1 same_settings_def)
  then show ?case
    using Cons.IH [OF table] clock_step_sends [OF Cons.prems, of isBoost m d] by (simp add: ds)
qed simp

lemma SetClocks_sends:
  assumes "gFreqTable s = T" "sys_sends (table_rate env T) a s"
  shows "sys_sends (table_rate env T) a (SetClocks env isBoost s)"
  using assms
  by (auto simp: SetClocks_def Let_def intro!: sys_sends_other reapply_cpu_sends fold_clock_sends)

section \<open>What a tick leaves alone\<close>

lemma HandleSafetyFeatures_keeps [simp]:
  "cfg (snd (HandleSafetyFeatures env s)) = cfg s"
  "gContext (snd (HandleSafetyFeatures env s)) = gContext s"
  "gFreqTable (snd (HandleSafetyFeatures env s)) = gFreqTable s"
  by (simp_all add: HandleSafetyFeatures_def)

lemma HandleMiscFeatures_keeps [simp]:
  "cfg (HandleMiscFeatures env s) = cfg s" "gContext (HandleMiscFeatures env s) = gContext s"
  "gFreqTable (HandleMiscFeatures env s) = gFreqTable s"
  by (simp_all add: HandleMiscFeatures_def Let_def)

lemma refresh_module_keeps:
  "cfg (snd (refresh_module env m cs)) = cfg (snd cs) \<and>
   gFreqTable (snd (refresh_module env m cs)) = gFreqTable (snd cs)"
  by (simp add: refresh_module_def Let_def split: prod.splits)

lemma fold_refresh_module_keeps:
  "cfg (snd (fold (refresh_module env) ms cs)) = cfg (snd cs) \<and>
   gFreqTable (snd (fold (refresh_module env) ms cs)) = gFreqTable (snd cs)"
  by (induction ms arbitrary: cs) (simp_all add: refresh_module_keeps)

lemma refresh_clocks_keeps [simp]:
  "cfg (snd (refresh_clocks env s)) = cfg s" "gFreqTable (snd (refresh_clocks env s)) = gFreqTable s"
  by (simp_all add: refresh_clocks_def Let_def fold_refresh_module_keeps)

lemma refresh_rest_keeps [simp]:
  "cfg (refresh_load env l s) = cfg s" "gFreqTable (refresh_load env l s) = gFreqTable s"
  "cfg (refresh_voltage env v s) = cfg s" "gFreqTable (refresh_voltage env v s) = gFreqTable s"
  "cfg (refresh_sensors env s) = cfg s" "gFreqTable (refresh_sensors env s) = gFreqTable s"
  "cfg (refresh_log_times env s) = cfg s" "gFreqTable (refresh_log_times env s) = gFreqTable s"
  "cfg (write_csv ns s) = cfg s" "gFreqTable (write_csv ns s) = gFreqTable s"
  by (simp_all add: refresh_load_def refresh_voltage_def refresh_sensors_def refresh_log_times_def
      write_csv_def Let_def split: prod.splits)

lemma fold_refresh_rest_keeps [simp]:
  "cfg (fold (refresh_load env) ls s) = cfg s" "gFreqTable (fold (refresh_load env) ls s) = gFreqTable s"
  "cfg (fold (refresh_voltage env) vs s) = cfg s"
  "gFreqTable (fold (refresh_voltage env) vs s) = gFreqTable s"
  by (rule fold_frame, simp)+

lemma RefreshContext_keeps [simp]:
  "cfg (snd (RefreshContext env s)) = cfg s" "gFreqTable (snd (RefreshContext env s)) = gFreqTable s"
proof -
  obtain ch s1 where rc: "refresh_clocks env s = (ch, s1)" by fastforce
  then have "cfg s1 = cfg s" "gFreqTable s1 = gFreqTable s"
    using refresh_clocks_keeps [of env s] by simp_all
  then show "cfg (snd (RefreshContext env s)) = cfg s"
    "gFreqTable (snd (RefreshContext env s)) = gFreqTable s"
    by (simp_all add: RefreshContext_def rc Let_def)
qed

text \<open>The states of a tick up to the decision to set the clocks.\<close>

definition tick_refreshed :: "hw_env \<Rightarrow> sys \<Rightarrow> bool \<times> sys" where
  "tick_refreshed env s = RefreshContext env (HandleMiscFeatures env (snd (HandleSafetyFeatures env s)))"

definition tick_config :: "hw_env \<Rightarrow> sys \<Rightarrow> sys" where
  "tick_config env s = (snd (tick_refreshed env s))\<lparr>cfg :=
     (if fst (tick_refreshed env s) then cfg s else snd (Refresh (cfg s)))\<rparr>"

lemma Tick_cases:
  "Tick env s = tick_config env s \<or>
   \<not> fst (HandleSafetyFeatures env s) \<and>
   Tick env s = SetClocks env (apmExtIsBoostMode (rd_apm_conf env (hw_log (brd s)))) (tick_config env s)"
proof -
  obtain skip s1 where hs: "HandleSafetyFeatures env s = (skip, s1)" by fastforce
  obtain ch s3 where rc: "RefreshContext env (HandleMiscFeatures env s1) = (ch, s3)" by fastforce
  obtain rl c where rf: "(if ch then (False, cfg s3) else Refresh (cfg s3)) = (rl, c)" by fastforce
  have tr: "tick_refreshed env s = (ch, s3)" by (simp add: tick_refreshed_def hs rc)
  have "cfg s3 = cfg s"
    using RefreshContext_keeps(1) [of env "HandleMiscFeatures env s1"]
      HandleSafetyFeatures_keeps(1) [of env s] by (simp add: rc hs)
  moreover have "c = (if ch then cfg s3 else snd (Refresh (cfg s3)))"
    using rf by (metis snd_conv)
  ultimately have "tick_config env s = s3\<lparr>cfg := c\<rparr>" by (simp add: tick_config_def tr)
  then show ?thesis by (simp add: Tick_def hs rc rf Let_def)
qed

lemma tick_refreshed_keeps [simp]:
  "cfg (snd (tick_refreshed env s)) = cfg s" "gFreqTable (snd (tick_refreshed env s)) = gFreqTable s"
  by (simp_all add: tick_refreshed_def)

lemma tick_config_table [simp]: "gFreqTable (tick_config env s) = gFreqTable s"
  by (simp add: tick_config_def)

context stock_ok
begin

lemma tick_config_sends: "sys_sends R s (tick_config env s)"
  unfolding tick_config_def tick_refreshed_def
  by (intro sys_sends_other RefreshContext_sends HandleMiscFeatures_sends HandleSafetyFeatures_sends
      sys_sends_refl)

end

lemma Tick_sends: "sys_sends (table_rate env (gFreqTable s)) s (Tick env s)"
  using Tick_cases [of env s] table.tick_config_sends [of env "gFreqTable s" s env]
    SetClocks_sends [OF tick_config_table] by metis

section \<open>The governor's rates\<close>

lemma governor_pick_in:
  "governor_pick env m l s = Some f \<Longrightarrow> f \<in> set (gFreqTable s m)"
  by (auto simp: governor_pick_def Let_def split: if_splits dest: indexed.pick_in)

lemma apply_governor_sends:
  assumes "f \<in> set (gFreqTable s m) \<or> m = HocClkModule_CPU"
  shows "sys_sends (table_rate env (gFreqTable s)) s (apply_governor_hz env m f s)"
  unfolding apply_governor_hz_def using assms
  by (intro sys_sends_other sys_sends_board sys_sends_refl SetHz_table) auto

lemma cpu_pass_sends: "sys_sends (table_rate env (gFreqTable s)) s (snd (cpu_pass env (t, s)))"
proof -
  have flag: "sys_sends R s (set_boost_flag v s)" "gFreqTable (set_boost_flag v s) = gFreqTable s" for R v
    by (simp_all add: set_boost_flag_def sys_sends_def)
  have abort: "sys_sends R s (on_board abort_process (set_boost_flag False s))" for R
    by (intro sys_sends_board flag sends_abort)
  have set: "sys_sends (table_rate env (gFreqTable s)) s
      (apply_governor_hz env HocClkModule_CPU hz (set_boost_flag False s))" for hz
    using apply_governor_sends [of hz "set_boost_flag False s" HocClkModule_CPU env] flag
    by (auto intro: sys_sends_trans)
  show ?thesis
    using flag(1) abort set by (auto simp: cpu_pass_def Let_def split: option.splits)
qed

lemma gpu_pass_sends: "sys_sends (table_rate env (gFreqTable s)) s (snd (gpu_pass env (t, s)))"
  using apply_governor_sends [of _ s HocClkModule_GPU env] governor_pick_in
  by (auto simp: gpu_pass_def Let_def sys_sends_board sends_abort split: option.splits)

lemma display_sends: "sends R b (SetHz env c HocClkModule_Display hz b)"
  by (rule SetHz_sends) (simp add: enum_order_defs)

lemma vrr_apply_sends: "sys_sends R s (snd (vrr_apply env (t, s)))"
  by (auto simp: vrr_apply_def Let_def set_display_hz_def intro!: sys_sends_board sys_sends_other
      display_sends sends_trans [OF display_sends sends_emit] split: option.splits)

lemma vrr_pass_sends: "sys_sends R s (snd (vrr_pass env (t, s)))"
  by (auto simp: vrr_pass_def Let_def vrr_apply_sends sys_sends_board safe_display.safe)

lemma pass_tables [simp]:
  "gFreqTable (snd (cpu_pass env (t, s))) = gFreqTable s"
  "gFreqTable (snd (gpu_pass env (t, s))) = gFreqTable s"
  by (auto simp: cpu_pass_def gpu_pass_def apply_governor_hz_def set_boost_flag_def Let_def
      split: option.splits)

lemma vrr_tables [simp]: "gFreqTable (snd (vrr_pass env (t, s))) = gFreqTable s"
  by (auto simp: vrr_pass_def vrr_apply_def set_display_hz_def Let_def split: option.splits)

lemma GovernorThread_sends:
  "sys_sends (table_rate env (gFreqTable s)) s (snd (GovernorThread env (t, s))) \<and>
   gFreqTable (snd (GovernorThread env (t, s))) = gFreqTable s"
proof -
  obtain t1 s1 where c: "cpu_pass env (t, s) = (t1, s1)" by fastforce
  obtain t2 s2 where g: "gpu_pass env (t1, s1) = (t2, s2)" by fastforce
  obtain t3 s3 where v: "vrr_pass env (t2, s2) = (t3, s3)" by fastforce
  have T: "gFreqTable s1 = gFreqTable s" "gFreqTable s2 = gFreqTable s" "gFreqTable s3 = gFreqTable s"
    using pass_tables(1) [of env t s] pass_tables(2) [of env t1 s1] vrr_tables [of env t2 s2]
    by (simp_all add: c g v)
  have "sys_sends (table_rate env (gFreqTable s)) s s1" "sys_sends (table_rate env (gFreqTable s)) s1 s2"
    "sys_sends (table_rate env (gFreqTable s)) s2 s3"
    using cpu_pass_sends [of env s t] gpu_pass_sends [of env s1 t1]
      vrr_pass_sends [of "table_rate env (gFreqTable s)" s2 env t2] T by (simp_all add: c g v)
  then have "sys_sends (table_rate env (gFreqTable s)) s s3" by (meson sys_sends_trans)
  then show ?thesis
    using T by (auto simp: GovernorThread_def c g v Let_def intro!: sys_sends_board sends_emit)
qed

section \<open>Runs\<close>

text \<open>
  The rounds of the main loop and the passes of the governor thread, in any order; between them
  clients and the user change the configuration in any way and start or stop the manager.
\<close>

inductive sys_step :: "hw_env \<Rightarrow> gov_thread \<times> sys \<Rightarrow> gov_thread \<times> sys \<Rightarrow> bool" for env where
  round: "sys_step env (t, s) (t, main_round env s)"
| governor: "sys_step env ts (GovernorThread env ts)"
| config: "sys_step env (t, s) (t, s\<lparr>cfg := c\<rparr>)"
| running: "sys_step env (t, s) (t, SetRunning v s)"

inductive sys_run :: "hw_env \<Rightarrow> gov_thread \<times> sys \<Rightarrow> gov_thread \<times> sys \<Rightarrow> bool" for env where
  start: "sys_run env ts ts"
| step: "sys_run env ts us \<Longrightarrow> sys_step env us vs \<Longrightarrow> sys_run env ts vs"

lemma SetClocks_table [simp]: "gFreqTable (SetClocks env isBoost s) = gFreqTable s"
proof -
  have "gFreqTable (snd (fold (clock_step env isBoost) ms (d, s))) = gFreqTable s" for ms d s
    using fold_clock_frame [where s = s and env = env and isBoost = isBoost and ms = ms and d = d]
    by (simp add: same_settings_def)
  then show ?thesis by (simp add: SetClocks_def Let_def)
qed

lemma Tick_table [simp]: "gFreqTable (Tick env s) = gFreqTable s"
  using Tick_cases [of env s] by (metis SetClocks_table tick_config_table)

lemma sys_step_sends:
  "sys_step env us vs \<Longrightarrow> sys_sends (table_rate env (gFreqTable (snd us))) (snd us) (snd vs) \<and>
    gFreqTable (snd vs) = gFreqTable (snd us)"
proof (induction rule: sys_step.induct)
  case (round t s)
  then show ?case by (simp add: main_round_def WaitForNextTick_sends Tick_sends)
next
  case (governor ts)
  then show ?case using GovernorThread_sends by (cases ts) simp
qed (simp_all add: sys_sends_def SetRunning_def)



section \<open>Boost mode\<close>

definition boost_rate :: "PcvModule \<Rightarrow> u32 \<Rightarrow> bool" where
  "boost_rate m hz \<longleftrightarrow> m = PcvModule_CpuBus \<or> stock_rate m hz"

interpretation boost: stock_ok boost_rate
  by unfold_locales (simp add: boost_rate_def)


section \<open>The stable copy of the context\<close>

definition mirrored :: "hoc_context \<Rightarrow> bool" where
  "mirrored c \<longleftrightarrow> st_freqs (c_stable c) = c_freqs c \<and> st_realFreqs (c_stable c) = c_realFreqs c \<and>
     st_overrideFreqs (c_stable c) = c_overrideFreqs c \<and> st_temps (c_stable c) = c_temps c \<and>
     st_power (c_stable c) = c_power c"

lemma mirrored_updates [simp]:
  "mirrored c \<Longrightarrow> mirrored (set_ctx_freq m hz c)" "mirrored c \<Longrightarrow> mirrored (set_ctx_real m hz c)"
  "mirrored c \<Longrightarrow> mirrored (set_ctx_override m hz c)"
  by (simp_all add: mirrored_def set_ctx_freq_def set_ctx_real_def set_ctx_override_def)

lemma mirrored_set_module:
  "mirrored (gContext s) \<Longrightarrow> mirrored (gContext (snd (set_module env isBoost m old t (d, s))))"
  by (auto simp: set_module_def Let_def split: option.splits)

lemma mirrored_clock_step:
  "mirrored (gContext s) \<Longrightarrow> mirrored (gContext (snd (clock_step env isBoost m (d, s))))"
  by (auto simp: clock_step_def Let_def mirrored_set_module frame)

lemma mirrored_fold_clock:
  "mirrored (gContext (snd ds)) \<Longrightarrow> mirrored (gContext (snd (fold (clock_step env isBoost) ms ds)))"
proof (induction ms arbitrary: ds)
  case (Cons m ms)
  then show ?case
    using mirrored_clock_step [of "snd ds" env isBoost m "fst ds"] by simp
qed simp

lemma mirrored_SetClocks: "mirrored (gContext s) \<Longrightarrow> mirrored (gContext (SetClocks env isBoost s))"
  by (simp add: SetClocks_def Let_def mirrored_fold_clock)

lemma mirrored_refresh_module:
  "mirrored (gContext (snd cs)) \<Longrightarrow> mirrored (gContext (snd (refresh_module env m cs)))"
  by (auto simp: refresh_module_def Let_def split: prod.splits)

lemma mirrored_fold_refresh:
  "mirrored (gContext (snd cs)) \<Longrightarrow> mirrored (gContext (snd (fold (refresh_module env) ms cs)))"
  by (induction ms arbitrary: cs) (simp_all add: mirrored_refresh_module)

lemma mirrored_refresh_clocks:
  "mirrored (gContext s) \<Longrightarrow> mirrored (gContext (snd (refresh_clocks env s)))"
  unfolding refresh_clocks_def Let_def
  by (rule mirrored_fold_refresh) (simp add: mirrored_def)

lemma mirrored_refresh_rest:
  "mirrored (gContext s) \<Longrightarrow> mirrored (gContext (refresh_load env l s))"
  "mirrored (gContext s) \<Longrightarrow> mirrored (gContext (refresh_voltage env v s))"
  "mirrored (gContext s) \<Longrightarrow> mirrored (gContext (refresh_sensors env s))"
  "gContext (refresh_log_times env s) = gContext s" "gContext (write_csv ns s) = gContext s"
  by (simp_all add: refresh_load_def refresh_voltage_def refresh_sensors_def refresh_log_times_def
      write_csv_def mirrored_def Let_def split: prod.splits)

lemma mirrored_RefreshContext:
  assumes "mirrored (gContext s)"
  shows "mirrored (gContext (snd (RefreshContext env s)))"
proof -
  obtain ch s1 where rc: "refresh_clocks env s = (ch, s1)" by fastforce
  have s1: "mirrored (gContext s1)" using mirrored_refresh_clocks [OF assms, of env] by (simp add: rc)
  let ?s2 = "refresh_sensors env (refresh_log_times env s1)"
  let ?s3 = "fold (refresh_voltage env) all_voltages (fold (refresh_load env) all_part_loads ?s2)"
  have s2: "mirrored (gContext ?s2)" using s1 by (simp add: mirrored_refresh_rest)
  have "mirrored (gContext (fold (refresh_load env) ls ?s2))" for ls
    by (rule fold_invariant_simple [where P = "\<lambda>s. mirrored (gContext s)", OF s2])
      (simp add: mirrored_refresh_rest)
  then have s3: "mirrored (gContext ?s3)"
    by (rule fold_invariant_simple [where P = "\<lambda>s. mirrored (gContext s)"])
      (simp add: mirrored_refresh_rest)
  then show ?thesis
    by (simp add: RefreshContext_def rc Let_def mirrored_refresh_rest) (simp add: mirrored_def)
qed

lemma mirrored_Tick: "mirrored (gContext s) \<Longrightarrow> mirrored (gContext (Tick env s))"
proof -
  assume "mirrored (gContext s)"
  then have "mirrored (gContext (tick_config env s))"
    using mirrored_RefreshContext by (simp add: tick_config_def tick_refreshed_def)
  then show ?thesis using Tick_cases [of env s] mirrored_SetClocks by metis
qed

lemma mirrored_passes:
  "mirrored (gContext s) \<Longrightarrow> mirrored (gContext (snd (cpu_pass env (t, s))))"
  "mirrored (gContext s) \<Longrightarrow> mirrored (gContext (snd (gpu_pass env (t, s))))"
  "mirrored (gContext s) \<Longrightarrow> mirrored (gContext (snd (vrr_pass env (t, s))))"
  by (auto simp: cpu_pass_def gpu_pass_def vrr_pass_def vrr_apply_def apply_governor_hz_def
      set_display_hz_def set_boost_flag_def Let_def split: option.splits)

lemma mirrored_GovernorThread:
  assumes "mirrored (gContext (snd ts))"
  shows "mirrored (gContext (snd (GovernorThread env ts)))"
proof -
  obtain t s where ts: "ts = (t, s)" by (cases ts)
  obtain t1 s1 where c: "cpu_pass env (t, s) = (t1, s1)" by fastforce
  obtain t2 s2 where g: "gpu_pass env (t1, s1) = (t2, s2)" by fastforce
  obtain t3 s3 where v: "vrr_pass env (t2, s2) = (t3, s3)" by fastforce
  have "mirrored (gContext s3)"
    using assms mirrored_passes(1) [of s env t] mirrored_passes(2) [of s1 env t1]
      mirrored_passes(3) [of s2 env t2] by (simp add: ts c g v)
  then show ?thesis using assms by (auto simp: GovernorThread_def ts c g v Let_def)
qed

lemma mirrored_Initialize: "mirrored (gContext (manager_Initialize env saltyNX s))"
proof -
  have "gContext (fold (RefreshFreqTableRow env) ms s) = gContext s" for ms s
    by (rule fold_frame) (simp add: RefreshFreqTableRow_def split: option.splits)
  then show ?thesis
    by (simp add: manager_Initialize_def init_scheduling_def Let_def mirrored_def empty_context_def)
qed

text \<open>
  The clocks, overrides, temperatures and powers of the stable part of the context, which
  clients of any version read, always equal those of the context itself.
\<close>

lemma stable_context_mirrors:
  assumes "sys_run env (t0, manager_Initialize env saltyNX s0) (t, s)"
  shows "st_freqs (c_stable (gContext s)) = c_freqs (gContext s) \<and>
    st_realFreqs (c_stable (gContext s)) = c_realFreqs (gContext s) \<and>
    st_overrideFreqs (c_stable (gContext s)) = c_overrideFreqs (gContext s) \<and>
    st_temps (c_stable (gContext s)) = c_temps (gContext s) \<and>
    st_power (c_stable (gContext s)) = c_power (gContext s)"
proof -
  have step: "sys_step env us vs \<Longrightarrow> mirrored (gContext (snd us)) \<Longrightarrow> mirrored (gContext (snd vs))" for us vs
    by (induction rule: sys_step.induct)
      (simp_all add: main_round_def mirrored_Tick mirrored_GovernorThread SetRunning_def)
  have "sys_run env us vs \<Longrightarrow> mirrored (gContext (snd us)) \<Longrightarrow> mirrored (gContext (snd vs))" for us vs
    by (induction rule: sys_run.induct) (auto intro: step)
  from this [OF assms] have "mirrored (gContext s)"
    by (simp add: mirrored_Initialize)
  then show ?thesis by (simp add: mirrored_def)
qed

section \<open>The properties at work\<close>

lemma demo_run: "sys_run env (t, s) (t, main_round env s)"
  by (rule sys_run.step [OF sys_run.start sys_step.round])




lemma stable_context_mirrors_witness:
  "st_freqs (c_stable (gContext (main_round demo_env (manager_Initialize demo_env True demo_sys)))) =
   c_freqs (gContext (main_round demo_env (manager_Initialize demo_env True demo_sys)))"
  using stable_context_mirrors [OF demo_run [of demo_env gov_thread_start]] by blast

end
