(* ===== verification/Kip_File.thy ===== *)
theory Kip_File
  imports Config
begin

text \<open>
  The customisation block of the loader's file, \<open>sysmodule/src/file/kip.hpp\<close>, and its checksum,
  \<open>util/crc32.cpp\<close>: the search for the block's magic in blocks of 512 bytes, the reading and
  writing of the packed \<open>CustomizeTable\<close>, and the CRC-32 over chunks of 1024 bytes.

  A file is its list of bytes. A read gives what is left of the file, at most the size asked for;
  reads and writes of an open file are taken to succeed.
\<close>

section \<open>Bytes\<close>

definition le32 :: "u32 \<Rightarrow> u8 list" where
  "le32 w = [ucast w, ucast (drop_bit 8 w), ucast (drop_bit 16 w), ucast (drop_bit 24 w)]"

fun le_nat :: "u8 list \<Rightarrow> nat" where
  "le_nat [] = 0"
| "le_nat (b # bs) = unat b + 256 * le_nat bs"

definition get32 :: "u8 list \<Rightarrow> u32" where
  "get32 bs = of_nat (le_nat (take 4 bs))"

definition get64 :: "u8 list \<Rightarrow> u64" where
  "get64 bs = of_nat (le_nat (take 8 bs))"

lemma length_le32 [simp]: "length (le32 w) = 4"
  by (simp add: le32_def)

lemma base_256: "n mod 256 + 256 * (n div 256 mod 256 + 256 * (n div 65536 mod 256 + 256 * (n div 16777216))) = (n :: nat)"
proof -
  have "n div 16777216 = n div 65536 div 256" by (simp add: div_mult2_eq [symmetric])
  then have "n div 65536 mod 256 + 256 * (n div 16777216) = n div 65536" by simp
  moreover have "n div 65536 = n div 256 div 256" by (simp add: div_mult2_eq [symmetric])
  then have "n div 256 mod 256 + 256 * (n div 65536) = n div 256" by simp
  moreover have "n mod 256 + 256 * (n div 256) = n" by simp
  ultimately show ?thesis by presburger
qed

lemma le_nat_le32: "le_nat (le32 w) = unat w"
proof -
  have b: "unat (ucast (w :: u32) :: u8) = unat w mod 256" for w
    by (simp add: unsigned_ucast_eq take_bit_eq_mod)
  have d: "unat (drop_bit n w) = unat w div 2 ^ n" for n
    unfolding unsigned_drop_bit_eq by (simp add: drop_bit_eq_div take_bit_nat_eq_self)
  have "unat w div 16777216 < 256" using unat_lt_u32 [of w] by (simp add: div_less_iff_less_mult)
  then have "unat w div 16777216 mod 256 = unat w div 16777216" by simp
  then have "le_nat (le32 w) = unat w mod 256 + 256 * (unat w div 256 mod 256 +
      256 * (unat w div 65536 mod 256 + 256 * (unat w div 16777216)))"
    by (simp add: le32_def b d)
  then show ?thesis by (simp only: base_256)
qed

lemma get32_le32 [simp]: "get32 (le32 w @ bs) = w"
  by (simp add: get32_def le_nat_le32)

section \<open>The table\<close>

text \<open>
  The fields of \<open>CustomizeTable\<close> after the magic and before the reserved words. The two voltage
  arrays have one field per entry, in the order of the configuration values they hold.
\<close>

datatype cust_field =
    F_custRev
  | F_kipVersion
  | F_hpMode
  | F_commonEmcMemVolt
  | F_eristaEmcMaxClock
  | F_stepMode
  | F_marikoEmcMaxClock
  | F_marikoEmcVddqVolt
  | F_emcDvbShift
  | F_marikoSocVmax
  | F_t1_tRCD
  | F_t2_tRP
  | F_t3_tRAS
  | F_t4_tRRD
  | F_t5_tRFC
  | F_t6_tRTW
  | F_t7_tWTR
  | F_t8_tREFI
  | F_t2_tRP_cap
  | F_timingEmcTbreak
  | F_low_t6_tRTW
  | F_low_t7_tWTR
  | F_readLatency1333
  | F_readLatency1600
  | F_readLatency1866
  | F_readLatency2133
  | F_writeLatency1333
  | F_writeLatency1600
  | F_writeLatency1866
  | F_writeLatency2133
  | F_eristaCpuUV
  | F_eristaCpuVmin
  | F_eristaCpuMaxVolt
  | F_eristaCpuUnlock
  | F_marikoCpuUVLow
  | F_marikoCpuUVHigh
  | F_tableConf
  | F_marikoCpuLowVmin
  | F_marikoCpuHighVmin
  | F_marikoCpuMaxVolt
  | F_marikoCpuMaxClock
  | F_eristaCpuBoostClock
  | F_marikoCpuBoostClock
  | F_eristaGpuUV
  | F_eristaGpuVmin
  | F_marikoGpuUV
  | F_marikoGpuVmin
  | F_marikoGpuBootVolt
  | F_marikoGpuVmax
  | F_commonGpuVoltOffset
  | F_t6_tRTW_fine_tune
  | F_t7_tWTR_fine_tune
  | F_eristaGpuVoltArray erista_gpu_volt
  | F_marikoGpuVoltArray mariko_gpu_volt

definition cust_fields :: "cust_field list" where
  "cust_fields = [
     F_custRev, F_kipVersion, F_hpMode, F_commonEmcMemVolt, F_eristaEmcMaxClock, F_stepMode,
     F_marikoEmcMaxClock, F_marikoEmcVddqVolt, F_emcDvbShift, F_marikoSocVmax, F_t1_tRCD,
     F_t2_tRP, F_t3_tRAS, F_t4_tRRD, F_t5_tRFC, F_t6_tRTW, F_t7_tWTR, F_t8_tREFI, F_t2_tRP_cap,
     F_timingEmcTbreak, F_low_t6_tRTW, F_low_t7_tWTR, F_readLatency1333, F_readLatency1600,
     F_readLatency1866, F_readLatency2133, F_writeLatency1333, F_writeLatency1600,
     F_writeLatency1866, F_writeLatency2133, F_eristaCpuUV, F_eristaCpuVmin,
     F_eristaCpuMaxVolt, F_eristaCpuUnlock, F_marikoCpuUVLow, F_marikoCpuUVHigh, F_tableConf,
     F_marikoCpuLowVmin, F_marikoCpuHighVmin, F_marikoCpuMaxVolt, F_marikoCpuMaxClock,
     F_eristaCpuBoostClock, F_marikoCpuBoostClock, F_eristaGpuUV, F_eristaGpuVmin,
     F_marikoGpuUV, F_marikoGpuVmin, F_marikoGpuBootVolt, F_marikoGpuVmax,
     F_commonGpuVoltOffset] @
     map F_eristaGpuVoltArray all_erista_gpu_volts @ map F_marikoGpuVoltArray all_mariko_gpu_volts @
     [F_t6_tRTW_fine_tune, F_t7_tWTR_fine_tune]"

record CustomizeTable =
  cust :: "u8 list"
  cust_val :: "cust_field \<Rightarrow> u32"
  reserved :: "u32 list"

definition CUST_MAGIC :: "u8 list" where
  "CUST_MAGIC = [0x43, 0x55, 0x53, 0x54]"

definition table_size :: nat where
  "table_size = 4 + 4 * length cust_fields + 4 * 60"

definition table_bytes :: "CustomizeTable \<Rightarrow> u8 list" where
  "table_bytes t = cust t @ concat (map (\<lambda>f. le32 (cust_val t f)) cust_fields) @
     concat (map le32 (reserved t))"

fun read_words :: "nat \<Rightarrow> u8 list \<Rightarrow> u32 list" where
  "read_words 0 bs = []"
| "read_words (Suc n) bs = get32 bs # read_words n (drop 4 bs)"

text \<open>A field reads as its word in the packed layout.\<close>

definition parse_table :: "u8 list \<Rightarrow> CustomizeTable" where
  "parse_table bs =
     (let ws = read_words (length cust_fields + 60) (drop 4 bs);
          vals = map_of (zip cust_fields ws)
      in \<lparr>cust = take 4 bs, cust_val = (\<lambda>f. case vals f of Some w \<Rightarrow> w | None \<Rightarrow> 0),
          reserved = drop (length cust_fields) ws\<rparr>)"

section \<open>Finding, reading and writing the table\<close>

definition magic_at :: "u8 list \<Rightarrow> nat \<Rightarrow> bool" where
  "magic_at bs i \<longleftrightarrow> take 4 (drop i bs) = CUST_MAGIC"

text \<open>The loop over blocks: the last three bytes of a block are searched again with the next.\<close>

function find_loop :: "u8 list \<Rightarrow> nat \<Rightarrow> nat option" where
  "find_loop f pos =
     (let buf = take 512 (drop pos f); r = length buf in
      if r < 4 then None
      else (case find (magic_at buf) [0..<r - 3] of
              Some i \<Rightarrow> Some (pos + i)
            | None \<Rightarrow> find_loop f (pos + (r - 3))))"
  by pat_completeness auto
termination
  by (relation "measure (\<lambda>(f, pos). length f - pos)") auto

declare find_loop.simps [simp del]

definition cust_find_offset :: "u8 list \<Rightarrow> nat option" where
  "cust_find_offset f = find_loop f 0"

definition cust_read_table :: "u8 list \<Rightarrow> CustomizeTable option" where
  "cust_read_table f =
     (case cust_find_offset f of
        None \<Rightarrow> None
      | Some off \<Rightarrow>
          if off + table_size > length f then None
          else (let t = parse_table (take table_size (drop off f))
                in if cust t = CUST_MAGIC then Some t else None))"

definition cust_write_table :: "CustomizeTable \<Rightarrow> u8 list \<Rightarrow> u8 list option" where
  "cust_write_table t f =
     (case cust_find_offset f of
        None \<Rightarrow> None
      | Some off \<Rightarrow>
          if off + table_size > length f then None
          else Some (take off f @ table_bytes t @ drop (off + table_size) f))"

section \<open>CRC-32\<close>

definition crc_bit :: "u32 \<Rightarrow> u32" where
  "crc_bit crc = drop_bit 1 crc XOR (0xEDB88320 AND - (crc AND 1))"

definition crc_byte :: "u8 \<Rightarrow> u32 \<Rightarrow> u32" where
  "crc_byte b crc = (crc_bit ^^ 8) (crc XOR ucast b)"

definition crc32 :: "u8 list \<Rightarrow> u32" where
  "crc32 bs = NOT (fold crc_byte bs 0xFFFFFFFF)"

text \<open>The file is read in chunks of 1024 bytes; a missing file has checksum 0.\<close>

function checksum_loop :: "u8 list \<Rightarrow> u32 \<Rightarrow> u32" where
  "checksum_loop bs crc =
     (if bs = [] then crc else checksum_loop (drop 1024 bs) (fold crc_byte (take 1024 bs) crc))"
  by pat_completeness auto
termination
  by (relation "measure (\<lambda>(bs, crc). length bs)") auto

declare checksum_loop.simps [simp del]

definition checksum_file :: "u8 list option \<Rightarrow> u32" where
  "checksum_file f = (case f of None \<Rightarrow> 0 | Some bs \<Rightarrow> NOT (checksum_loop bs 0xFFFFFFFF))"

section \<open>The packed layout\<close>

lemma distinct_cust_fields: "distinct cust_fields"
proof -
  have "distinct all_erista_gpu_volts" "distinct all_mariko_gpu_volts"
    by (simp_all add: all_erista_gpu_volts_def all_mariko_gpu_volts_def)
  then show ?thesis
    unfolding cust_fields_def by (auto simp: distinct_map inj_on_def)
qed

lemma set_cust_fields: "f \<in> set cust_fields"
proof -
  have "v \<in> set all_erista_gpu_volts" for v
    by (cases v) (simp_all add: all_erista_gpu_volts_def)
  moreover have "v \<in> set all_mariko_gpu_volts" for v
    by (cases v) (simp_all add: all_mariko_gpu_volts_def)
  ultimately show ?thesis
    unfolding cust_fields_def by (cases f) simp_all
qed

lemma length_words: "length (concat (map le32 ws)) = 4 * length ws"
  by (induction ws) simp_all

lemma read_words_concat: "read_words (length ws) (concat (map le32 ws) @ bs) = ws"
  by (induction ws) simp_all

lemma length_read_words [simp]: "length (read_words n bs) = n"
  by (induction n arbitrary: bs) simp_all

definition wf_table :: "CustomizeTable \<Rightarrow> bool" where
  "wf_table t \<longleftrightarrow> cust t = CUST_MAGIC \<and> length (reserved t) = 60"

lemma table_bytes_eq:
  "table_bytes t = cust t @ concat (map le32 (map (cust_val t) cust_fields @ reserved t))"
  by (simp add: table_bytes_def comp_def)

lemma length_table_bytes: "wf_table t \<Longrightarrow> length (table_bytes t) = table_size"
  unfolding table_bytes_eq length_append length_words
  by (simp add: wf_table_def table_size_def CUST_MAGIC_def)

text \<open>Writing out a table and parsing the bytes gives it back.\<close>

lemma parse_table_bytes:
  assumes "wf_table t"
  shows "parse_table (table_bytes t) = t"
proof -
  have magic: "length (cust t) = 4" using assms by (simp add: wf_table_def CUST_MAGIC_def)
  let ?ws = "map (cust_val t) cust_fields @ reserved t"
  have len: "length ?ws = length cust_fields + 60" using assms by (simp add: wf_table_def)
  have ws: "read_words (length cust_fields + 60) (drop 4 (table_bytes t)) = ?ws"
    using read_words_concat [of ?ws "[]"] magic unfolding len by (simp add: table_bytes_eq del: map_append)
  have "map_of (zip cust_fields ?ws) f = Some (cust_val t f)" for f
    using distinct_cust_fields set_cust_fields [of f]
    by (simp add: zip_append2 map_of_zip_map)
  then have "(\<lambda>f. case map_of (zip cust_fields ?ws) f of Some w \<Rightarrow> w | None \<Rightarrow> 0) = cust_val t"
    by simp
  moreover have "take 4 (table_bytes t) = cust t"
    using magic by (simp add: table_bytes_eq)
  ultimately show ?thesis
    unfolding parse_table_def ws Let_def by simp
qed

section \<open>The search finds the first magic\<close>

lemma magic_at_block:
  "i + 4 \<le> n \<Longrightarrow> magic_at (take n (drop pos f)) i \<longleftrightarrow> magic_at f (pos + i)"
  by (simp add: magic_at_def drop_take take_take add.commute min_def)

definition first_magic :: "u8 list \<Rightarrow> nat option" where
  "first_magic f = find (magic_at f) [0..<length f - 3]"

lemma find_shift: "find P (map (\<lambda>i. n + i) xs) = map_option (\<lambda>i. n + i) (find (\<lambda>i. P (n + i)) xs)"
  by (induction xs) auto

lemma find_loop_find: "find_loop f pos = find (magic_at f) [pos..<length f - 3]"
proof (induction f pos rule: find_loop.induct)
  case (1 f pos)
  define buf where "buf = take 512 (drop pos f)"
  define r where "r = length buf"
  have r: "r = min 512 (length f - pos)" by (simp add: r_def buf_def)
  show ?case
  proof (cases "r < 4")
    case True
    then have "find_loop f pos = None"
      by (subst find_loop.simps) (simp only: buf_def [symmetric] r_def [symmetric] Let_def if_True)
    moreover have "[pos..<length f - 3] = []" using True r by auto
    then have "find (magic_at f) [pos..<length f - 3] = None" by (simp only: find.simps)
    ultimately show ?thesis by (simp only:)
  next
    case False
    have block: "find (magic_at buf) [0..<r - 3] = find (\<lambda>i. magic_at f (pos + i)) [0..<r - 3]"
    proof (rule find_cong [OF refl])
      fix i assume "i \<in> set [0..<r - 3]"
      then have "i + 4 \<le> 512" using r by auto
      then show "magic_at buf i = magic_at f (pos + i)" by (simp add: buf_def magic_at_block)
    qed
    have shift: "[pos..<pos + (r - 3)] = map (\<lambda>i. pos + i) [0..<r - 3]"
      by (rule nth_equalityI) simp_all
    have "pos + (r - 3) \<le> length f - 3" using False r by auto
    then have split: "[pos..<length f - 3] = [pos..<pos + (r - 3)] @ [pos + (r - 3)..<length f - 3]"
      by (metis le_add1 le_add_diff_inverse upt_add_eq_append)
    have loop: "find_loop f pos = (case find (magic_at buf) [0..<r - 3] of Some i \<Rightarrow> Some (pos + i)
        | None \<Rightarrow> find_loop f (pos + (r - 3)))"
      using False by (subst find_loop.simps) (simp only: buf_def [symmetric] r_def [symmetric] Let_def if_False)
    show ?thesis
      unfolding loop split find_append shift find_shift block
      using 1 [OF refl refl] False by (auto simp: buf_def [symmetric] r_def [symmetric] block split: option.splits)
  qed
qed

lemma cust_find_offset_eq: "cust_find_offset f = first_magic f"
  by (simp add: cust_find_offset_def find_loop_find first_magic_def)

lemma magic_at_length: "magic_at f i \<Longrightarrow> i + 4 \<le> length f"
  unfolding magic_at_def CUST_MAGIC_def by (drule arg_cong [where f = length]) auto

lemma first_magic_iff:
  "first_magic f = Some off \<longleftrightarrow> magic_at f off \<and> (\<forall>i<off. \<not> magic_at f i)"
proof -
  have "magic_at f off \<Longrightarrow> off < length f - 3" using magic_at_length [of f off] by simp
  then show ?thesis
    unfolding first_magic_def find_Some_iff by (auto intro!: exI [of _ off])
qed

lemma first_magic_None: "first_magic f = None \<longleftrightarrow> (\<forall>i. \<not> magic_at f i)"
proof -
  have "magic_at f i \<Longrightarrow> i < length f - 3" for i using magic_at_length [of f i] by simp
  then show ?thesis unfolding first_magic_def find_None_iff by auto
qed

text \<open>A table written over the first magic leaves the first magic where it was.\<close>

lemma first_magic_write:
  assumes "first_magic f = Some off" "take 4 bs = CUST_MAGIC"
  shows "first_magic (take off f @ bs @ rest) = Some off"
proof -
  have off: "magic_at f off" "\<And>i. i < off \<Longrightarrow> \<not> magic_at f i"
    using assms(1) by (auto simp: first_magic_iff)
  have len: "off + 4 \<le> length f" using magic_at_length [OF off(1)] .
  have blen: "4 \<le> length bs" using assms(2) by (cases "4 \<le> length bs") (auto simp: CUST_MAGIC_def)
  have same: "take (off + 4) (take off f @ bs @ rest) = take (off + 4) f"
    using len blen assms(2) off(1) by (simp add: take_add magic_at_def min_absorb2 min_absorb1)
  have agree: "magic_at (take off f @ bs @ rest) i \<longleftrightarrow> magic_at f i" if "i \<le> off" for i
  proof -
    have "take 4 (drop i g) = take 4 (drop i (take (off + 4) g))" for g :: "u8 list"
      using that by (simp add: drop_take)
    then show ?thesis unfolding magic_at_def by (metis same)
  qed
  show ?thesis using off agree by (simp add: first_magic_iff)
qed

lemma cust_write_Some:
  "cust_write_table t f = Some g \<longleftrightarrow> (\<exists>off. first_magic f = Some off \<and> off + table_size \<le> length f \<and>
     g = take off f @ table_bytes t @ drop (off + table_size) f)"
  by (auto simp: cust_write_table_def cust_find_offset_eq split: option.splits if_splits)

lemma cust_read_after_write:
  assumes "wf_table t" "cust_write_table t f = Some g"
  shows "cust_read_table g = Some t \<and> length g = length f"
proof -
  obtain off where off: "first_magic f = Some off" "off + table_size \<le> length f"
    and g: "g = take off f @ table_bytes t @ drop (off + table_size) f"
    using assms(2) by (auto simp: cust_write_Some)
  have magic: "take 4 (table_bytes t) = CUST_MAGIC"
    using assms(1) by (simp add: table_bytes_def wf_table_def CUST_MAGIC_def)
  have first: "cust_find_offset g = Some off"
    unfolding g cust_find_offset_eq by (rule first_magic_write [OF off(1) magic])
  have len: "length (table_bytes t) = table_size" by (rule length_table_bytes [OF assms(1)])
  have "take table_size (drop off g) = table_bytes t"
    using off(2) len by (simp add: g min_absorb1)
  moreover have "length g = length f" using off(2) len by (simp add: g min_absorb1)
  ultimately show ?thesis
    using assms(1) first off(2) by (simp add: cust_read_table_def parse_table_bytes wf_table_def)
qed

lemma cust_read_wf: "cust_read_table f = Some t \<Longrightarrow> wf_table t"
  by (auto simp: cust_read_table_def wf_table_def parse_table_def Let_def table_size_def
      split: option.splits if_splits)

lemma cust_read_write_possible:
  "cust_read_table f = Some t \<Longrightarrow> \<exists>g. cust_write_table t' f = Some g"
  by (auto simp: cust_read_table_def cust_write_table_def split: option.splits if_splits)

section \<open>The checksum\<close>

lemma checksum_loop_fold: "checksum_loop bs crc = fold crc_byte bs crc"
proof (induction bs crc rule: checksum_loop.induct)
  case (1 bs crc)
  show ?case
  proof (cases "bs = []")
    case True
    then show ?thesis by (simp add: checksum_loop.simps)
  next
    case False
    have "checksum_loop bs crc = checksum_loop (drop 1024 bs) (fold crc_byte (take 1024 bs) crc)"
      using False by (subst checksum_loop.simps) simp
    also have "\<dots> = fold crc_byte (take 1024 bs @ drop 1024 bs) crc"
      unfolding fold_append comp_def by (rule 1 [OF False])
    finally show ?thesis by simp
  qed
qed

lemma bit_crc_bit:
  assumes "n < 32"
  shows "bit (crc_bit c) n \<longleftrightarrow> bit c (Suc n) \<noteq> (bit (0xEDB88320 :: u32) n \<and> bit c 0)"
proof -
  have "- (c AND 1) = (if bit c 0 then - 1 else 0)"
    by (simp add: and_one_eq bit_0 odd_iff_mod_2_eq_one even_iff_mod_2_eq_zero)
  then show ?thesis using assms by (auto simp: crc_bit_def bit_simps)
qed

lemma crc_bit_inj: "crc_bit c = crc_bit d \<Longrightarrow> c = d"
proof (rule bit_word_eqI)
  fix n assume eq: "crc_bit c = crc_bit d" and n: "n < LENGTH(32)"
  have top: "bit c 0 = bit d 0"
    using eq bit_crc_bit [of 31 c] bit_crc_bit [of 31 d] bit_imp_le_length [of c 32]
      bit_imp_le_length [of d 32] by auto
  show "bit c n = bit d n"
  proof (cases n)
    case 0 then show ?thesis using top by simp
  next
    case (Suc k)
    then show ?thesis using eq n top bit_crc_bit [of k c] bit_crc_bit [of k d] by auto
  qed
qed

lemma crc_bits_inj: "(crc_bit ^^ n) c = (crc_bit ^^ n) d \<Longrightarrow> c = d"
  by (induction n) (auto dest: crc_bit_inj)

lemma xor_cancel: "a XOR x = b XOR x \<Longrightarrow> a = (b :: u32)"
  by (drule arg_cong [where f = "\<lambda>w. w XOR x"]) (simp add: xor.assoc)

lemma crc_byte_inj_state: "crc_byte b c = crc_byte b d \<Longrightarrow> c = d"
  unfolding crc_byte_def by (drule crc_bits_inj) (rule xor_cancel)

lemma crc_byte_inj_byte:
  assumes "crc_byte b c = crc_byte b' c"
  shows "b = b'"
proof -
  have "c XOR ucast b = c XOR ucast b'"
    by (rule crc_bits_inj) (rule assms [unfolded crc_byte_def])
  then have "(ucast b :: u32) = ucast b'"
    by (simp only: xor.commute [of c]) (rule xor_cancel)
  then have "unat (ucast b :: u32) = unat (ucast b' :: u32)" by (rule arg_cong)
  then have "unat b = unat b'" by (simp add: unsigned_ucast_eq take_bit_nat_eq_self unsigned_less [THEN order_less_trans])
  then show ?thesis by (rule word_unat_eq_iff [THEN iffD2])
qed

lemma fold_crc_inj: "fold crc_byte bs c = fold crc_byte bs d \<Longrightarrow> c = d"
  by (induction bs arbitrary: c d) (auto dest: crc_byte_inj_state)

lemma checksum_file_Some: "checksum_file (Some bs) = NOT (fold crc_byte bs 0xFFFFFFFF)"
  by (simp add: checksum_file_def checksum_loop_fold)

section \<open>Properties\<close>

text \<open>
  The search by blocks of 512 bytes finds the first occurrence of the magic in the file, also
  across the edge of two blocks, and reports none only when there is none.
\<close>

lemma cust_find_offset_first:
  "case cust_find_offset f of
     Some off \<Rightarrow> magic_at f off \<and> list_all (\<lambda>i. \<not> magic_at f i) [0..<off]
   | None \<Rightarrow> list_all (\<lambda>i. \<not> magic_at f i) [0..<length f]"
  unfolding cust_find_offset_eq
  by (auto simp: first_magic_iff first_magic_None list_all_iff split: option.splits)

text \<open>
  A table written into the file is read back as it was written, field by field, and the file
  keeps its length and every byte outside the table.
\<close>

lemma table_round_trip:
  assumes "wf_table t" "cust_write_table t f = Some g"
  shows "cust_read_table g = Some t \<and> length g = length f \<and>
    (\<exists>off. cust_find_offset f = Some off \<and> take off g = take off f \<and>
      drop (off + table_size) g = drop (off + table_size) f)"
proof -
  obtain off where off: "first_magic f = Some off" "off + table_size \<le> length f"
    and g: "g = take off f @ table_bytes t @ drop (off + table_size) f"
    using assms(2) by (auto simp: cust_write_Some)
  have "take off g = take off f \<and> drop (off + table_size) g = drop (off + table_size) f"
    using off(2) length_table_bytes [OF assms(1)] by (simp add: g min_absorb1)
  then show ?thesis
    using cust_read_after_write [OF assms] off(1) by (auto simp: cust_find_offset_eq)
qed

definition demo_table :: CustomizeTable where
  "demo_table = \<lparr>cust = CUST_MAGIC, cust_val = (\<lambda>f. if f = F_kipVersion then 240 else 4),
     reserved = replicate 60 0\<rparr>"

text \<open>A small file with a table between two other bytes.\<close>

definition demo_file :: "CustomizeTable \<Rightarrow> u8 list" where
  "demo_file t = 0x4B # table_bytes t @ [0x50]"

lemma demo_table_wf: "wf_table demo_table"
  by (simp add: demo_table_def wf_table_def)

lemma demo_file_magic: "wf_table t \<Longrightarrow> first_magic (demo_file t) = Some 1"
  unfolding first_magic_iff
  by (simp add: magic_at_def demo_file_def table_bytes_def wf_table_def CUST_MAGIC_def)

lemma demo_file_write: "wf_table t \<Longrightarrow> cust_write_table t (demo_file t) = Some (demo_file t)"
  using length_table_bytes [of t] demo_file_magic [of t] by (simp add: cust_write_Some demo_file_def)

lemma demo_file_read: "wf_table t \<Longrightarrow> cust_read_table (demo_file t) = Some t"
  by (rule conjunct1 [OF cust_read_after_write [OF _ demo_file_write]])

lemma table_round_trip_witness:
  "cust_read_table (demo_file demo_table) = Some demo_table \<and>
   wf_table demo_table \<and> cust_write_table demo_table (demo_file demo_table) = Some (demo_file demo_table)"
  using table_round_trip [OF demo_table_wf demo_file_write [OF demo_table_wf]] demo_table_wf demo_file_write [OF demo_table_wf] by blast

text \<open>
  The checksum of a file, computed in chunks of 1024 bytes, is the CRC-32 of all its bytes.
\<close>

lemma checksum_file_is_crc32: "checksum_file (Some bs) = crc32 bs"
  by (simp add: checksum_file_Some crc32_def)

text \<open>
  A change of one byte of the file, anywhere in it, changes the checksum.
\<close>

lemma checksum_detects_byte:
  assumes "b \<noteq> b'"
  shows "checksum_file (Some (xs @ b # ys)) \<noteq> checksum_file (Some (xs @ b' # ys))"
  using assms by (auto simp: checksum_file_Some dest!: fold_crc_inj crc_byte_inj_byte)

lemma checksum_detects_byte_witness:
  "checksum_file (Some [0x43, 0x55]) \<noteq> checksum_file (Some [0x43, 0x54])"
  using checksum_detects_byte [where b = "0x55" and b' = "0x54" and xs = "[0x43]" and ys = "[]"]
  by simp

end
