(* ===== verification/Kip.thy ===== *)
theory Kip
  imports Kip_File Config
begin

text \<open>
  The exchange of settings with the loader's file, \<open>sysmodule/src/file/kip.cpp\<close>: \<open>SetKipData\<close>
  writes the configuration into the customisation block, \<open>GetKipData\<close> reads it back at start,
  \<open>MigrateKipData\<close> adds what older versions did not have. The configuration keeps the checksum of
  the file it last agreed with.

  The state is the file, whether it can be opened for writing, the configuration, the two fields
  of the clock manager's context that are set here and the messages shown to the user. Log lines
  are left out.
\<close>

section \<open>State\<close>

datatype kip_note =
    Kip_opening_failed
  | Kip_read_failed
  | Outdated_kip
  | Outdated_sysmodule
  | Kip_write_failed
  | Kip_config_set_failed
  | Kip_updated
  | Horizon_OC_installed

record kip_state =
  k_file :: "u8 list option"
  k_writable :: bool
  k_available :: bool
  k_cfg :: config_state
  k_custRev :: u8
  k_kipVersion :: u16
  k_notes :: "kip_note list"

definition writeNotification :: "kip_note \<Rightarrow> kip_state \<Rightarrow> kip_state" where
  "writeNotification n s = s\<lparr>k_notes := k_notes s @ [n]\<rparr>"

definition CUST_REV :: u32 where "CUST_REV = 4"
definition KIP_VERSION :: u32 where "KIP_VERSION = 240"

section \<open>The fields and their configuration values\<close>

text \<open>In the order \<open>SetKipData\<close> writes them.\<close>

definition kip_written :: "(cust_field \<times> HocClkConfigValue) list" where
  "kip_written = [
     (F_hpMode, Kip KipConfigValue_hpMode),
     (F_commonEmcMemVolt, Kip KipConfigValue_commonEmcMemVolt),
     (F_eristaEmcMaxClock, Kip KipConfigValue_eristaEmcMaxClock),
     (F_marikoEmcMaxClock, Kip KipConfigValue_marikoEmcMaxClock),
     (F_marikoEmcVddqVolt, Kip KipConfigValue_marikoEmcVddqVolt),
     (F_emcDvbShift, Kip KipConfigValue_emcDvbShift),
     (F_marikoSocVmax, Kip KipConfigValue_marikoSocVmax),
     (F_t1_tRCD, Kip KipConfigValue_t1_tRCD),
     (F_t2_tRP, Kip KipConfigValue_t2_tRP),
     (F_t3_tRAS, Kip KipConfigValue_t3_tRAS),
     (F_t4_tRRD, Kip KipConfigValue_t4_tRRD),
     (F_t5_tRFC, Kip KipConfigValue_t5_tRFC),
     (F_t6_tRTW, Kip KipConfigValue_t6_tRTW),
     (F_t7_tWTR, Kip KipConfigValue_t7_tWTR),
     (F_t8_tREFI, Kip KipConfigValue_t8_tREFI),
     (F_stepMode, Kip KipConfigValue_stepMode),
     (F_timingEmcTbreak, Kip KipConfigValue_timingEmcTbreak),
     (F_low_t6_tRTW, Kip KipConfigValue_low_t6_tRTW),
     (F_low_t7_tWTR, Kip KipConfigValue_low_t7_tWTR),
     (F_t2_tRP_cap, Kip KipConfigValue_t2_tRP_cap),
     (F_readLatency1333, Kip KipConfigValue_read_latency_1333),
     (F_readLatency1600, Kip KipConfigValue_read_latency_1600),
     (F_readLatency1866, Kip KipConfigValue_read_latency_1866),
     (F_readLatency2133, Kip KipConfigValue_read_latency_2133),
     (F_writeLatency1333, Kip KipConfigValue_write_latency_1333),
     (F_writeLatency1600, Kip KipConfigValue_write_latency_1600),
     (F_writeLatency1866, Kip KipConfigValue_write_latency_1866),
     (F_writeLatency2133, Kip KipConfigValue_write_latency_2133),
     (F_eristaCpuUV, Kip KipConfigValue_eristaCpuUV),
     (F_eristaCpuVmin, Kip KipConfigValue_eristaCpuVmin),
     (F_eristaCpuMaxVolt, Kip KipConfigValue_eristaCpuMaxVolt),
     (F_eristaCpuUnlock, Kip KipConfigValue_eristaCpuUnlock),
     (F_marikoCpuUVLow, Kip KipConfigValue_marikoCpuUVLow),
     (F_marikoCpuUVHigh, Kip KipConfigValue_marikoCpuUVHigh),
     (F_tableConf, Kip KipConfigValue_tableConf),
     (F_marikoCpuLowVmin, Kip KipConfigValue_marikoCpuLowVmin),
     (F_marikoCpuHighVmin, Kip KipConfigValue_marikoCpuHighVmin),
     (F_marikoCpuMaxVolt, Kip KipConfigValue_marikoCpuMaxVolt),
     (F_marikoCpuMaxClock, Kip KipConfigValue_marikoCpuMaxClock),
     (F_eristaCpuBoostClock, Kip KipConfigValue_eristaCpuBoostClock),
     (F_marikoCpuBoostClock, Kip KipConfigValue_marikoCpuBoostClock),
     (F_eristaGpuUV, Kip KipConfigValue_eristaGpuUV),
     (F_eristaGpuVmin, Kip KipConfigValue_eristaGpuVmin),
     (F_marikoGpuUV, Kip KipConfigValue_marikoGpuUV),
     (F_marikoGpuVmin, Kip KipConfigValue_marikoGpuVmin),
     (F_marikoGpuBootVolt, Kip KipConfigValue_marikoGpuBootVolt),
     (F_marikoGpuVmax, Kip KipConfigValue_marikoGpuVmax),
     (F_commonGpuVoltOffset, Kip KipConfigValue_commonGpuVoltOffset)] @
     map (\<lambda>v. (F_marikoGpuVoltArray v, MarikoGpuVolt v)) all_mariko_gpu_volts @
     map (\<lambda>v. (F_eristaGpuVoltArray v, EristaGpuVolt v)) all_erista_gpu_volts @
     [(F_t6_tRTW_fine_tune, Kip KipConfigValue_t6_tRTW_fine_tune),
      (F_t7_tWTR_fine_tune, Kip KipConfigValue_t7_tWTR_fine_tune)]"

text \<open>In the order \<open>GetKipData\<close> reads them.\<close>

definition kip_read :: "(HocClkConfigValue \<times> cust_field) list" where
  "kip_read = [
     (Kip KipConfigValue_custRev, F_custRev),
     (Kip KipConfigValue_KipVersion, F_kipVersion),
     (Kip KipConfigValue_hpMode, F_hpMode),
     (Kip KipConfigValue_commonEmcMemVolt, F_commonEmcMemVolt),
     (Kip KipConfigValue_eristaEmcMaxClock, F_eristaEmcMaxClock),
     (Kip KipConfigValue_marikoEmcMaxClock, F_marikoEmcMaxClock),
     (Kip KipConfigValue_marikoEmcVddqVolt, F_marikoEmcVddqVolt),
     (Kip KipConfigValue_emcDvbShift, F_emcDvbShift),
     (Kip KipConfigValue_marikoSocVmax, F_marikoSocVmax),
     (Kip KipConfigValue_t1_tRCD, F_t1_tRCD),
     (Kip KipConfigValue_t2_tRP, F_t2_tRP),
     (Kip KipConfigValue_t3_tRAS, F_t3_tRAS),
     (Kip KipConfigValue_t4_tRRD, F_t4_tRRD),
     (Kip KipConfigValue_t5_tRFC, F_t5_tRFC),
     (Kip KipConfigValue_t6_tRTW, F_t6_tRTW),
     (Kip KipConfigValue_t7_tWTR, F_t7_tWTR),
     (Kip KipConfigValue_t8_tREFI, F_t8_tREFI),
     (Kip KipConfigValue_stepMode, F_stepMode),
     (Kip KipConfigValue_timingEmcTbreak, F_timingEmcTbreak),
     (Kip KipConfigValue_low_t6_tRTW, F_low_t6_tRTW),
     (Kip KipConfigValue_low_t7_tWTR, F_low_t7_tWTR),
     (Kip KipConfigValue_t2_tRP_cap, F_t2_tRP_cap),
     (Kip KipConfigValue_read_latency_1333, F_readLatency1333),
     (Kip KipConfigValue_read_latency_1600, F_readLatency1600),
     (Kip KipConfigValue_read_latency_1866, F_readLatency1866),
     (Kip KipConfigValue_read_latency_2133, F_readLatency2133),
     (Kip KipConfigValue_write_latency_1333, F_writeLatency1333),
     (Kip KipConfigValue_write_latency_1600, F_writeLatency1600),
     (Kip KipConfigValue_write_latency_1866, F_writeLatency1866),
     (Kip KipConfigValue_write_latency_2133, F_writeLatency2133),
     (Kip KipConfigValue_eristaCpuUV, F_eristaCpuUV),
     (Kip KipConfigValue_eristaCpuVmin, F_eristaCpuVmin),
     (Kip KipConfigValue_eristaCpuMaxVolt, F_eristaCpuMaxVolt),
     (Kip KipConfigValue_eristaCpuUnlock, F_eristaCpuUnlock),
     (Kip KipConfigValue_marikoCpuUVLow, F_marikoCpuUVLow),
     (Kip KipConfigValue_marikoCpuUVHigh, F_marikoCpuUVHigh),
     (Kip KipConfigValue_tableConf, F_tableConf),
     (Kip KipConfigValue_marikoCpuLowVmin, F_marikoCpuLowVmin),
     (Kip KipConfigValue_marikoCpuHighVmin, F_marikoCpuHighVmin),
     (Kip KipConfigValue_marikoCpuMaxVolt, F_marikoCpuMaxVolt),
     (Kip KipConfigValue_marikoCpuMaxClock, F_marikoCpuMaxClock),
     (Kip KipConfigValue_eristaCpuBoostClock, F_eristaCpuBoostClock),
     (Kip KipConfigValue_marikoCpuBoostClock, F_marikoCpuBoostClock),
     (Kip KipConfigValue_eristaGpuUV, F_eristaGpuUV),
     (Kip KipConfigValue_eristaGpuVmin, F_eristaGpuVmin),
     (Kip KipConfigValue_marikoGpuUV, F_marikoGpuUV),
     (Kip KipConfigValue_marikoGpuVmin, F_marikoGpuVmin),
     (Kip KipConfigValue_marikoGpuBootVolt, F_marikoGpuBootVolt),
     (Kip KipConfigValue_marikoGpuVmax, F_marikoGpuVmax),
     (Kip KipConfigValue_commonGpuVoltOffset, F_commonGpuVoltOffset)] @
     map (\<lambda>v. (MarikoGpuVolt v, F_marikoGpuVoltArray v)) all_mariko_gpu_volts @
     map (\<lambda>v. (EristaGpuVolt v, F_eristaGpuVoltArray v)) all_erista_gpu_volts @
     [(Kip KipConfigValue_t7_tWTR_fine_tune, F_t7_tWTR_fine_tune),
      (Kip KipConfigValue_t6_tRTW_fine_tune, F_t6_tRTW_fine_tune)]"

section \<open>Operations\<close>

definition set_fields :: "config_state \<Rightarrow> CustomizeTable \<Rightarrow> CustomizeTable" where
  "set_fields c t =
     fold (\<lambda>(fld, kval) t. t\<lparr>cust_val := (cust_val t)(fld := ucast (GetConfigValue c kval))\<rparr>)
       kip_written t"

definition read_fields ::
  "CustomizeTable \<Rightarrow> (HocClkConfigValue \<Rightarrow> u64) \<Rightarrow> HocClkConfigValue \<Rightarrow> u64" where
  "read_fields t values = fold (\<lambda>(kval, fld) v. v(kval := ucast (cust_val t fld))) kip_read values"

definition save_values :: "(HocClkConfigValue \<Rightarrow> u64) \<Rightarrow> kip_state \<Rightarrow> kip_state" where
  "save_values values s =
     (case SetConfigValues values True (k_cfg s) of
        (True, c) \<Rightarrow> s\<lparr>k_cfg := c\<rparr>
      | (False, c) \<Rightarrow> writeNotification Kip_config_set_failed (s\<lparr>k_cfg := c\<rparr>))"

definition write_block :: "CustomizeTable \<Rightarrow> u8 list \<Rightarrow> kip_state \<Rightarrow> kip_state" where
  "write_block t f s =
     (if \<not> k_writable s then writeNotification Kip_write_failed s
      else (case cust_write_table t f of
              Some g \<Rightarrow> s\<lparr>k_file := Some g\<rparr>
            | None \<Rightarrow> writeNotification Kip_write_failed s))"

definition version_note :: "CustomizeTable \<Rightarrow> kip_note option" where
  "version_note t =
     (let custRev = cust_val t F_custRev; kipVersion = cust_val t F_kipVersion in
      if custRev < CUST_REV \<or> kipVersion < KIP_VERSION then Some Outdated_kip
      else if custRev > CUST_REV \<or> kipVersion > KIP_VERSION then Some Outdated_sysmodule
      else None)"

definition SetKipData :: "kip_state \<Rightarrow> kip_state" where
  "SetKipData s0 =
     (case k_file s0 of
        None \<Rightarrow> (writeNotification Kip_opening_failed s0)\<lparr>k_available := False\<rparr>
      | Some f \<Rightarrow>
          (let s = s0\<lparr>k_available := True\<rparr> in
           case cust_read_table f of
             None \<Rightarrow> writeNotification Kip_read_failed s
           | Some table \<Rightarrow>
               (case version_note table of
                  Some n \<Rightarrow> writeNotification n s
                | None \<Rightarrow>
                    (let s1 = write_block (set_fields (k_cfg s) table) f s
                     in save_values ((GetConfigValues (k_cfg s1))
                          (Kip KipCrc32 := ucast (checksum_file (k_file s1)))) s1))))"

definition MigrateKipData :: "u32 \<Rightarrow> kip_state \<Rightarrow> kip_state" where
  "MigrateKipData version s =
     (let values = GetConfigValues (k_cfg s);
          previousVersion = (ucast (values (Kip KipConfigValue_KipVersion)) :: u32);
          values' = (if previousVersion < 240 \<and> version \<ge> 240
                     then values(Kip KipConfigValue_marikoGpuBootVolt := 800) else values)
      in s\<lparr>k_cfg := snd (SetConfigValues values' True (k_cfg s))\<rparr>)"

definition GetKipData :: "kip_state \<Rightarrow> kip_state" where
  "GetKipData s0 =
     (case k_file s0 of
        None \<Rightarrow> (writeNotification Kip_opening_failed s0)\<lparr>k_available := False\<rparr>
      | Some f \<Rightarrow>
          (let s = s0\<lparr>k_available := True\<rparr>; values = GetConfigValues (k_cfg s) in
           case cust_read_table f of
             None \<Rightarrow> writeNotification Kip_read_failed s
           | Some table \<Rightarrow>
               if (ucast (checksum_file (k_file s)) :: u64) \<noteq> GetConfigValue (k_cfg s) (Kip KipCrc32)
                  \<and> GetConfigValue (k_cfg s) (Hoc HocClkConfigValue_IsFirstLoad) = 0
               then writeNotification Kip_updated
                      (SetKipData (MigrateKipData (cust_val table F_kipVersion) s))
               else
                 (let first = (GetConfigValue (k_cfg s) (Hoc HocClkConfigValue_IsFirstLoad) = 1);
                      values1 = (if first then values(Hoc HocClkConfigValue_IsFirstLoad := 0)
                                 else values);
                      s1 = (if first then writeNotification Horizon_OC_installed s else s);
                      values2 = values1(Kip KipCrc32 := ucast (checksum_file (k_file s1)));
                      s2 = s1\<lparr>k_custRev := ucast (cust_val table F_custRev)\<rparr>
                  in case version_note table of
                       Some n \<Rightarrow> writeNotification n s2
                     | None \<Rightarrow>
                         save_values (read_fields table values2)
                           (s2\<lparr>k_kipVersion := ucast (cust_val table F_kipVersion)\<rparr>))))"

section \<open>Facts\<close>

lemma notes_simps [simp]:
  "k_file (writeNotification n s) = k_file s" "k_cfg (writeNotification n s) = k_cfg s"
  "k_notes (writeNotification n s) = k_notes s @ [n]"
  by (simp_all add: writeNotification_def)

lemma fold_fun_upd:
  assumes "distinct (map fst ps)"
  shows "fold (\<lambda>(x, y) m. m(x := h y)) ps m k = (case map_of ps k of Some y \<Rightarrow> h y | None \<Rightarrow> m k)"
  using assms
proof (induction ps arbitrary: m)
  case (Cons p ps)
  then have "map_of ps (fst p) = None" by (simp add: map_of_eq_None_iff)
  then show ?case using Cons by (cases p) (auto split: option.splits)
qed simp

lemma set_fields_eq:
  "set_fields c t = t\<lparr>cust_val := fold (\<lambda>(fld, kval) v. v(fld := ucast (GetConfigValue c kval)))
     kip_written (cust_val t)\<rparr>"
proof -
  have "fold (\<lambda>(fld, kval) t. t\<lparr>cust_val := (cust_val t)(fld := ucast (GetConfigValue c kval))\<rparr>) ps t
      = t\<lparr>cust_val := fold (\<lambda>(fld, kval) v. v(fld := ucast (GetConfigValue c kval))) ps (cust_val t)\<rparr>"
    for ps by (induction ps arbitrary: t) auto
  then show ?thesis by (simp add: set_fields_def)
qed

lemmas kip_list_simps = kip_written_def kip_read_def all_mariko_gpu_volts_def all_erista_gpu_volts_def

lemma distinct_kip_written: "distinct (map fst kip_written)"
  by (simp add: kip_list_simps)

lemma distinct_kip_read: "distinct (map fst kip_read)"
  by (simp add: kip_list_simps)

text \<open>Both operations pair the same fields with the same values.\<close>

lemma kip_read_written:
  "set kip_read = insert (Kip KipConfigValue_custRev, F_custRev)
     (insert (Kip KipConfigValue_KipVersion, F_kipVersion) ((\<lambda>(fld, kval). (kval, fld)) ` set kip_written))"
  unfolding kip_list_simps by (simp add: insert_commute)

lemma set_fields_written:
  "(fld, kval) \<in> set kip_written \<Longrightarrow> cust_val (set_fields c t) fld = ucast (GetConfigValue c kval)"
  unfolding set_fields_eq by (simp add: fold_fun_upd distinct_kip_written)

lemma set_fields_other:
  "fld \<notin> fst ` set kip_written \<Longrightarrow> cust_val (set_fields c t) fld = cust_val t fld"
  unfolding set_fields_eq by (simp add: fold_fun_upd distinct_kip_written map_of_eq_None_iff [THEN iffD2])

lemma unwritten_fields:
  "F_custRev \<notin> fst ` set kip_written" "F_kipVersion \<notin> fst ` set kip_written"
  by (simp_all add: kip_list_simps)

lemma set_fields_keeps:
  "version_note (set_fields c t) = version_note t" "wf_table (set_fields c t) = wf_table t"
  "cust_val (set_fields c t) F_custRev = cust_val t F_custRev"
  "cust_val (set_fields c t) F_kipVersion = cust_val t F_kipVersion"
  by (simp_all add: version_note_def set_fields_other unwritten_fields)
     (simp add: set_fields_eq wf_table_def)

lemma read_fields_other:
  "kval \<notin> fst ` set kip_read \<Longrightarrow> read_fields t v kval = v kval"
  unfolding read_fields_def
  by (simp add: fold_fun_upd distinct_kip_read map_of_eq_None_iff [THEN iffD2])

lemma read_fields_read:
  "(kval, fld) \<in> set kip_read \<Longrightarrow> read_fields t v kval = ucast (cust_val t fld)"
  unfolding read_fields_def by (simp add: fold_fun_upd distinct_kip_read)

lemma save_values_ok:
  assumes "fs_writable (gFs (k_cfg s))"
  shows "k_file (save_values v s) = k_file s \<and> k_notes (save_values v s) = k_notes s
    \<and> k_writable (save_values v s) = k_writable s
    \<and> fs_writable (gFs (k_cfg (save_values v s)))
    \<and> configValues (k_cfg (save_values v s)) =
        (\<lambda>k. if hocclkValidConfigValue k (v k) then v k else hocclkDefaultConfigValue k)"
  using assms by (simp add: save_values_def SetConfigValues_def fs_putsection_def)

lemma SetConfigValues_ok:
  assumes "fs_writable (gFs c)"
  shows "configValues (snd (SetConfigValues v True c)) =
      (\<lambda>k. if hocclkValidConfigValue k (v k) then v k else hocclkDefaultConfigValue k)
    \<and> fs_writable (gFs (snd (SetConfigValues v True c)))"
  using assms by (simp add: SetConfigValues_def fs_putsection_def)

text \<open>A state in which \<open>SetKipData\<close> goes through to its end.\<close>

definition kip_ready :: "kip_state \<Rightarrow> u8 list \<Rightarrow> CustomizeTable \<Rightarrow> bool" where
  "kip_ready s f t \<longleftrightarrow> k_file s = Some f \<and> cust_read_table f = Some t \<and> version_note t = None \<and>
     k_writable s \<and> fs_writable (gFs (k_cfg s)) \<and> values_valid (k_cfg s)"

lemma valid_kip [simp]: "hocclkValidConfigValue (Kip v) x"
  by simp

lemma SetKipData_ready:
  assumes "kip_ready s f t"
  obtains g where "cust_write_table (set_fields (k_cfg s) t) f = Some g"
    and "cust_read_table g = Some (set_fields (k_cfg s) t)"
    and "k_file (SetKipData s) = Some g" "k_notes (SetKipData s) = k_notes s"
    and "configValues (k_cfg (SetKipData s)) =
      (configValues (k_cfg s))(Kip KipCrc32 := ucast (checksum_file (Some g)))"
    and "kip_ready (SetKipData s) g (set_fields (k_cfg s) t)"
proof -
  let ?t = "set_fields (k_cfg s) t"
  have ready: "k_file s = Some f" "cust_read_table f = Some t" "version_note t = None"
    "k_writable s" "fs_writable (gFs (k_cfg s))" "values_valid (k_cfg s)"
    using assms by (simp_all add: kip_ready_def)
  obtain g where g: "cust_write_table ?t f = Some g"
    using cust_read_write_possible [OF ready(2)] by blast
  have wf: "wf_table ?t" using cust_read_wf [OF ready(2)] by (simp add: set_fields_keeps)
  have read_g: "cust_read_table g = Some ?t" using cust_read_after_write [OF wf g] by simp
  define s1 where "s1 = s\<lparr>k_available := True, k_file := Some g\<rparr>"
  define v where "v = (configValues (k_cfg s))(Kip KipCrc32 := ucast (checksum_file (Some g)))"
  have eq: "SetKipData s = save_values v s1"
    using ready g
    by (simp add: SetKipData_def write_block_def s1_def v_def Let_def GetConfigValues_def)
  have vals: "(\<lambda>k. if hocclkValidConfigValue k (v k) then v k else hocclkDefaultConfigValue k) = v"
    using ready(6) by (auto simp: v_def values_valid_def fun_eq_iff)
  have saved: "k_file (save_values v s1) = Some g" "k_notes (save_values v s1) = k_notes s"
    "k_writable (save_values v s1)" "fs_writable (gFs (k_cfg (save_values v s1)))"
    "configValues (k_cfg (save_values v s1)) = v"
    using save_values_ok [of s1 v] ready(4,5) unfolding vals by (simp_all add: s1_def)
  have "kip_ready (SetKipData s) g ?t"
    using ready read_g saved unfolding eq
    by (auto simp: kip_ready_def set_fields_keeps values_valid_def v_def)
  then show thesis using that [OF g read_g] saved unfolding eq v_def by simp
qed

lemma ucast_u32_u64_id:
  assumes "x < (4294967296 :: u64)"
  shows "ucast (ucast x :: u32) = x"
proof -
  have "unat x < 2 ^ 32" using assms by (simp add: word_less_nat_alt)
  then have "unat (ucast (ucast x :: u32) :: u64) = unat x"
    by (simp only: unsigned_ucast_eq) (simp add: unsigned_take_bit_eq take_bit_nat_eq_self)
  then show ?thesis by (rule word_unat_eq_iff [THEN iffD2])
qed

text \<open>When the checksum agrees, reading the block saves its fields into the configuration.\<close>

lemma GetKipData_agrees:
  assumes "kip_ready s f t"
    and "GetConfigValue (k_cfg s) (Kip KipCrc32) = ucast (checksum_file (Some f))"
    and "GetConfigValue (k_cfg s) (Hoc HocClkConfigValue_IsFirstLoad) = 0"
  shows "k_file (GetKipData s) = Some f \<and> k_notes (GetKipData s) = k_notes s \<and>
    configValues (k_cfg (GetKipData s)) = read_fields t (configValues (k_cfg s))"
proof -
  have ready: "k_file s = Some f" "cust_read_table f = Some t" "version_note t = None"
    "fs_writable (gFs (k_cfg s))" "values_valid (k_cfg s)"
    using assms by (simp_all add: kip_ready_def)
  have crc: "(configValues (k_cfg s))(Kip KipCrc32 := ucast (checksum_file (Some f))) = configValues (k_cfg s)"
    using assms(2) by (auto simp: GetConfigValue_def)
  have hoc: "Hoc h \<notin> fst ` set kip_read" for h
    by (auto simp: kip_read_written kip_list_simps)
  have "hocclkValidConfigValue k (read_fields t (configValues (k_cfg s)) k)" for k
    using ready(5) read_fields_other [OF hoc] by (cases k) (auto simp: values_valid_def)
  then have vals: "(\<lambda>k. if hocclkValidConfigValue k (read_fields t (configValues (k_cfg s)) k)
      then read_fields t (configValues (k_cfg s)) k else hocclkDefaultConfigValue k)
      = read_fields t (configValues (k_cfg s))" by simp
  define s1 where "s1 = s\<lparr>k_available := True, k_custRev := ucast (cust_val t F_custRev),
    k_kipVersion := ucast (cust_val t F_kipVersion)\<rparr>"
  have "GetKipData s = save_values (read_fields t (configValues (k_cfg s))) s1"
    using ready assms(2,3) crc
    by (simp add: GetKipData_def Let_def s1_def GetConfigValues_def)
  then show ?thesis
    using save_values_ok [of s1 "read_fields t (configValues (k_cfg s))"] ready unfolding vals
    by (simp add: s1_def)
qed

lemma read_written_fields:
  assumes "\<forall>(fld, kval)\<in>set kip_written. configValues c kval < 4294967296"
    and "kval \<noteq> Kip KipConfigValue_custRev" "kval \<noteq> Kip KipConfigValue_KipVersion"
    and "configValues c kval = v kval"
  shows "read_fields (set_fields c t) v kval = configValues c kval"
proof (cases "kval \<in> fst ` set kip_read")
  case True
  then obtain fld where fld: "(kval, fld) \<in> set kip_read" by auto
  then have "(fld, kval) \<in> set kip_written" using assms(2,3) by (auto simp: kip_read_written)
  then show ?thesis
    using read_fields_read [OF fld] set_fields_written assms(1) ucast_u32_u64_id
    by (auto simp: GetConfigValue_def)
next
  case False
  then show ?thesis using assms(4) by (simp add: read_fields_other)
qed

section \<open>Properties\<close>

text \<open>
  C15. What \<open>SetKipData\<close> writes, \<open>GetKipData\<close> reads back: at the next start the configuration is as
  it was saved, the loader's file is untouched and nothing is reported, for values that fit the
  32 bits of a field.
\<close>

theorem kip_round_trip:
  assumes "kip_ready s f t"
    and "\<forall>(fld, kval)\<in>set kip_written. configValues (k_cfg s) kval < 4294967296"
    and "configValues (k_cfg s) (Hoc HocClkConfigValue_IsFirstLoad) = 0"
  shows "k_notes (GetKipData (SetKipData s)) = k_notes s \<and>
    k_file (GetKipData (SetKipData s)) = k_file (SetKipData s) \<and>
    (\<forall>kval. kval \<notin> {Kip KipConfigValue_custRev, Kip KipConfigValue_KipVersion, Kip KipCrc32} \<longrightarrow>
       configValues (k_cfg (GetKipData (SetKipData s))) kval = configValues (k_cfg s) kval)"
proof -
  let ?t = "set_fields (k_cfg s) t"
  obtain g where g: "k_file (SetKipData s) = Some g" "k_notes (SetKipData s) = k_notes s"
    "configValues (k_cfg (SetKipData s)) =
      (configValues (k_cfg s))(Kip KipCrc32 := ucast (checksum_file (Some g)))"
    "kip_ready (SetKipData s) g ?t"
    using SetKipData_ready [OF assms(1)] by metis
  have "k_file (GetKipData (SetKipData s)) = Some g \<and>
    k_notes (GetKipData (SetKipData s)) = k_notes (SetKipData s) \<and>
    configValues (k_cfg (GetKipData (SetKipData s))) =
      read_fields ?t (configValues (k_cfg (SetKipData s)))"
    using g(3) assms(3) by (intro GetKipData_agrees [OF g(4)]) (simp_all add: GetConfigValue_def)
  then show ?thesis
    using g read_written_fields [OF assms(2)] by simp
qed

text \<open>
  When the file was replaced, so that its checksum is not the saved one, the configuration
  wins: it keeps its values, apart from the boot voltage an older version did not have, and
  the file ends up with exactly these values in its fields.
\<close>

lemma kip_configuration_wins:
  assumes "kip_ready s f t"
    and "configValues (k_cfg s) (Kip KipCrc32) \<noteq> ucast (checksum_file (Some f))"
    and "configValues (k_cfg s) (Hoc HocClkConfigValue_IsFirstLoad) = 0"
    and "s' = GetKipData s"
  shows "k_notes s' = k_notes s @ [Kip_updated] \<and>
    (\<forall>kval. kval \<notin> {Kip KipCrc32, Kip KipConfigValue_marikoGpuBootVolt} \<longrightarrow>
       configValues (k_cfg s') kval = configValues (k_cfg s) kval) \<and>
    (\<exists>g t'. k_file s' = Some g \<and> cust_read_table g = Some t' \<and>
       configValues (k_cfg s') (Kip KipCrc32) = ucast (checksum_file (Some g)) \<and>
       (\<forall>(fld, kval)\<in>set kip_written. cust_val t' fld = ucast (configValues (k_cfg s') kval)))"
proof -
  define m where "m = MigrateKipData (cust_val t F_kipVersion) (s\<lparr>k_available := True\<rparr>)"
  have "s' = writeNotification Kip_updated (SetKipData m)"
    using assms by (simp add: GetKipData_def Let_def kip_ready_def GetConfigValue_def m_def)
  moreover have mig: "kip_ready m f t \<and> k_notes m = k_notes s \<and>
    (\<forall>kval. kval \<noteq> Kip KipConfigValue_marikoGpuBootVolt \<longrightarrow>
       configValues (k_cfg m) kval = configValues (k_cfg s) kval)"
    using assms(1) SetConfigValues_ok [of "k_cfg s"]
    by (auto simp: m_def MigrateKipData_def Let_def kip_ready_def GetConfigValues_def values_valid_def)
  moreover obtain g where "k_file (SetKipData m) = Some g" "k_notes (SetKipData m) = k_notes m"
    "cust_read_table g = Some (set_fields (k_cfg m) t)"
    "configValues (k_cfg (SetKipData m)) =
      (configValues (k_cfg m))(Kip KipCrc32 := ucast (checksum_file (Some g)))"
    using SetKipData_ready [OF conjunct1 [OF mig]] by metis
  moreover have "\<forall>(fld, kval)\<in>set kip_written. kval \<noteq> Kip KipCrc32"
    by (simp add: kip_list_simps)
  ultimately show ?thesis
    using set_fields_written by (fastforce simp: GetConfigValue_def)
qed

text \<open>
  An outdated file is reported as updated although nothing was written: when the checksum
  differs and the versions do not match, the file stays as it is, and after the request to update
  the user is also told that the file has been updated.
\<close>

lemma outdated_kip_reported_updated:
  assumes "k_file s = Some f" "cust_read_table f = Some t" "version_note t = Some n"
    and "configValues (k_cfg s) (Kip KipCrc32) \<noteq> ucast (checksum_file (Some f))"
    and "configValues (k_cfg s) (Hoc HocClkConfigValue_IsFirstLoad) = 0"
  shows "k_file (GetKipData s) = k_file s \<and> k_notes (GetKipData s) = k_notes s @ [n, Kip_updated]"
  using assms
  by (simp add: GetKipData_def SetKipData_def MigrateKipData_def Let_def GetConfigValue_def)

definition demo_kip_state :: kip_state where
  "demo_kip_state = \<lparr>k_file = Some (demo_file demo_table), k_writable = True, k_available = False,
     k_cfg = demo_config\<lparr>configValues := hocclkDefaultConfigValue
       (Hoc HocClkConfigValue_IsFirstLoad := 0, Kip KipConfigValue_hpMode := 1)\<rparr>,
     k_custRev = 0, k_kipVersion = 0, k_notes = []\<rparr>"

lemma demo_kip_values:
  "configValues (k_cfg demo_kip_state) = hocclkDefaultConfigValue
     (Hoc HocClkConfigValue_IsFirstLoad := 0, Kip KipConfigValue_hpMode := 1)"
  by (simp add: demo_kip_state_def)

lemma demo_kip_ready: "kip_ready demo_kip_state (demo_file demo_table) demo_table"
  using demo_file_read [OF demo_table_wf] default_config_value_valid
  by (simp add: kip_ready_def demo_kip_state_def version_note_def demo_table_def CUST_REV_def
      KIP_VERSION_def values_valid_def demo_config_def demo_fs_def)

lemma demo_fields_small:
  "\<forall>(fld, kval)\<in>set kip_written. configValues (k_cfg demo_kip_state) kval < 4294967296"
  unfolding demo_kip_values by (simp add: kip_list_simps)

lemma kip_round_trip_witness:
  "configValues (k_cfg (GetKipData (SetKipData demo_kip_state))) (Kip KipConfigValue_hpMode) = 1"
  using kip_round_trip [OF demo_kip_ready demo_fields_small] by (simp add: demo_kip_values)

text \<open>A state whose saved checksum is not that of the file.\<close>

definition other_crc_state :: "CustomizeTable \<Rightarrow> kip_state" where
  "other_crc_state t = demo_kip_state\<lparr>k_file := Some (demo_file t), k_cfg := (k_cfg demo_kip_state)
     \<lparr>configValues := (configValues (k_cfg demo_kip_state))
       (Kip KipCrc32 := NOT (ucast (checksum_file (Some (demo_file t)))))\<rparr>\<rparr>"

lemma not_self: "NOT x \<noteq> (x :: u64)"
proof
  assume "NOT x = x"
  then have "bit (NOT x) 0 = bit x 0" by simp
  then show False by (simp add: bit_not_iff)
qed

lemma other_crc: "configValues (k_cfg (other_crc_state t)) (Kip KipCrc32)
    \<noteq> ucast (checksum_file (Some (demo_file t)))"
  by (simp add: other_crc_state_def not_self)

lemma other_kip_ready: "kip_ready (other_crc_state demo_table) (demo_file demo_table) demo_table"
  using demo_kip_ready by (auto simp: kip_ready_def other_crc_state_def values_valid_def)

lemma kip_configuration_wins_witness:
  "k_notes (GetKipData (other_crc_state demo_table)) = [Kip_updated] \<and>
   configValues (k_cfg (GetKipData (other_crc_state demo_table))) (Kip KipConfigValue_hpMode) = 1"
  using kip_configuration_wins [OF other_kip_ready other_crc _ refl]
  by (simp add: other_crc_state_def demo_kip_state_def)

lemma outdated_kip_reported_updated_witness:
  "k_notes (GetKipData (other_crc_state (demo_table\<lparr>cust_val := (\<lambda>_. 3)\<rparr>))) = [Outdated_kip, Kip_updated]"
proof -
  let ?t = "demo_table\<lparr>cust_val := (\<lambda>_. 3)\<rparr>"
  have "wf_table ?t" using demo_table_wf by (simp add: wf_table_def)
  then have "cust_read_table (demo_file ?t) = Some ?t" by (rule demo_file_read)
  moreover have "version_note ?t = Some Outdated_kip" by (simp add: version_note_def CUST_REV_def)
  ultimately show ?thesis
    using outdated_kip_reported_updated [where s = "other_crc_state ?t", OF _ _ _ other_crc]
    by (simp add: other_crc_state_def demo_kip_state_def)
qed

end
