(* ===== verification/Ipc_Server.thy ===== *)
theory Ipc_Server
  imports Prelude "HOL-Library.Multiset"
begin

text \<open>
  The session table of the IPC server, \<open>sysmodule/src/ipc/ipc_server.c\<close>. Entry 0 is the handle of
  the service itself, the others are the sessions of clients, in the order they were accepted.
  The kernel is outside the repository: what its calls return in one round is the record
  \<open>kernel_answers\<close>, with result code 0 for success. The errors of the library keep their names.

  Handles the server opens and closes are logged, so that the theorems can speak of leaks.
\<close>

section \<open>State\<close>

type_synonym handle = u32

datatype ipc_result =
    Ipc_Ok
  | LibnxError_BadInput
  | LibnxError_OutOfMemory
  | LibnxError_NotFound
  | KernelError u32

definition R_SUCCEEDED :: "ipc_result \<Rightarrow> bool" where
  "R_SUCCEEDED rc \<longleftrightarrow> rc = Ipc_Ok"

record ipc_server =
  srv_handles :: "handle list"
  srv_max :: nat
  srv_accepted :: "handle list"
  srv_closed :: "handle list"

definition svcCloseHandle :: "handle \<Rightarrow> ipc_server \<Rightarrow> ipc_server" where
  "svcCloseHandle h s = s\<lparr>srv_closed := srv_closed s @ [h]\<rparr>"

text \<open>
  Two constants of the system's library: how many handles one wait can take, and the magic number
  of a request's header.
\<close>

record ipc_abi =
  max_wait_objects :: nat
  cmif_in_magic :: u64

section \<open>Operations\<close>

definition ipcServerInit :: "ipc_abi \<Rightarrow> ipc_result \<times> handle \<Rightarrow> nat \<Rightarrow> ipc_server \<Rightarrow> ipc_result \<times> ipc_server" where
  "ipcServerInit abi registered max_sessions s =
     (if max_sessions < 1 \<or> max_sessions > max_wait_objects abi - 1 then (LibnxError_BadInput, s)
      else
        (let s1 = s\<lparr>srv_max := max_sessions + 1, srv_handles := []\<rparr>; (rc, h) = registered
         in (rc, if R_SUCCEEDED rc then s1\<lparr>srv_handles := [h]\<rparr> else s1)))"

definition ipcServerExit :: "ipc_server \<Rightarrow> ipc_server" where
  "ipcServerExit s = (fold svcCloseHandle (srv_handles s) s)\<lparr>srv_handles := []\<rparr>"

definition ipcServerAddSession :: "handle \<Rightarrow> ipc_server \<Rightarrow> ipc_result \<times> ipc_server" where
  "ipcServerAddSession session s =
     (if length (srv_handles s) \<ge> srv_max s then (LibnxError_OutOfMemory, s)
      else (Ipc_Ok, s\<lparr>srv_handles := srv_handles s @ [session]\<rparr>))"

text \<open>The loop of \<open>_ipcServerDeleteSession\<close> moves every later entry down by one.\<close>

fun shift_down :: "nat \<Rightarrow> nat \<Rightarrow> 'a list \<Rightarrow> 'a list" where
  "shift_down j 0 xs = xs"
| "shift_down j (Suc n) xs = shift_down (Suc j) n (xs[j := xs ! Suc j])"

definition ipcServerDeleteSession :: "nat \<Rightarrow> ipc_server \<Rightarrow> ipc_result \<times> ipc_server" where
  "ipcServerDeleteSession index s =
     (let count = length (srv_handles s) in
      if index = 0 \<or> index \<ge> count then (LibnxError_BadInput, s)
      else
        (let s1 = svcCloseHandle (srv_handles s ! index) s
         in (Ipc_Ok, s1\<lparr>srv_handles :=
              take (count - 1) (shift_down index (count - 1 - index) (srv_handles s1))\<rparr>)))"

text \<open>
  A message. A request carries the number of its data words, the header's magic and command, the
  bytes after the header, the sizes of the buffers to be filled and the contents of the buffers
  sent along.
\<close>

record ipc_request =
  r_cmdId :: u64
  r_data :: "u8 list"
  r_recv :: "nat list"
  r_send :: "u8 list list"

datatype ipc_message =
    Msg_Request nat u64 ipc_request
  | Msg_Close
  | Msg_Other

definition ipcServerParseRequest :: "ipc_abi \<Rightarrow> ipc_message \<Rightarrow> ipc_result + ipc_request" where
  "ipcServerParseRequest abi msg =
     (case msg of
        Msg_Request words magic r \<Rightarrow>
          (let dataSize = words * 4 in
           if dataSize < 16 \<or> magic \<noteq> cmif_in_magic abi then Inl LibnxError_BadInput
           else Inr (r\<lparr>r_data := if dataSize > 16 then take (dataSize - 16) (r_data r) else []\<rparr>))
      | _ \<Rightarrow> Inr \<lparr>r_cmdId = 0, r_data = [], r_recv = [], r_send = []\<rparr>)"

text \<open>What a session is answered: the handler's result, the closing, or an unknown message.\<close>

datatype 'r ipc_response =
    Resp_Result 'r
  | Resp_Closed
  | Resp_Unknown

text \<open>What the kernel returns in one round; a reply that times out counts as sent.\<close>

record kernel_answers =
  ans_wait :: "ipc_result \<times> int"
  ans_accept :: "ipc_result \<times> handle"
  ans_receive :: ipc_result
  ans_message :: ipc_message
  ans_reply :: ipc_result
  ans_reply_timed_out :: bool

type_synonym ('w, 'r) ipc_handler = "ipc_request \<Rightarrow> 'w \<Rightarrow> 'r \<times> 'w"

definition ipcServerProcessNewSession ::
  "kernel_answers \<Rightarrow> ipc_server \<Rightarrow> ipc_result \<times> ipc_server" where
  "ipcServerProcessNewSession a s =
     (let (rc, session) = ans_accept a in
      if \<not> R_SUCCEEDED rc then (rc, s)
      else
        (let (rc', s1) = ipcServerAddSession session (s\<lparr>srv_accepted := srv_accepted s @ [session]\<rparr>)
         in if R_SUCCEEDED rc' then (rc', s1) else (rc', svcCloseHandle session s1)))"

definition answer :: "('w, 'r) ipc_handler \<Rightarrow> ipc_message \<Rightarrow> ipc_request \<Rightarrow> 'w \<Rightarrow>
    'r ipc_response \<times> 'w" where
  "answer handler msg req w =
     (case msg of
        Msg_Request _ _ _ \<Rightarrow> (let (r, w') = handler req w in (Resp_Result r, w'))
      | Msg_Close \<Rightarrow> (Resp_Closed, w)
      | Msg_Other \<Rightarrow> (Resp_Unknown, w))"

definition ipcServerProcessSession ::
  "ipc_abi \<Rightarrow> ('w, 'r) ipc_handler \<Rightarrow> kernel_answers \<Rightarrow> nat \<Rightarrow> ipc_server \<times> 'w \<Rightarrow>
   ipc_result \<times> 'r ipc_response option \<times> ipc_server \<times> 'w" where
  "ipcServerProcessSession abi handler a handleIndex sw =
     (let (s, w) = sw;
          parsed = (if R_SUCCEEDED (ans_receive a) then ipcServerParseRequest abi (ans_message a)
                    else Inl (ans_receive a));
          (rc, resp, w1) =
            (case parsed of
               Inl e \<Rightarrow> (e, None, w)
             | Inr req \<Rightarrow>
                 (let (r, w') = answer handler (ans_message a) req w
                  in (if ans_reply_timed_out a then Ipc_Ok else ans_reply a, Some r, w')));
          close = (case parsed of Inl _ \<Rightarrow> False | Inr _ \<Rightarrow> ans_message a = Msg_Close)
      in (rc, resp,
          if \<not> R_SUCCEEDED rc \<or> close then snd (ipcServerDeleteSession handleIndex s) else s, w1))"

definition ipcServerProcess ::
  "ipc_abi \<Rightarrow> ('w, 'r) ipc_handler \<Rightarrow> kernel_answers \<Rightarrow> ipc_server \<times> 'w \<Rightarrow>
   ipc_result \<times> 'r ipc_response option \<times> ipc_server \<times> 'w" where
  "ipcServerProcess abi handler a sw =
     (let (rc, index) = ans_wait a; (s, w) = sw;
          rc' = (if R_SUCCEEDED rc \<and> (index < 0 \<or> index \<ge> int (length (srv_handles s)))
                 then LibnxError_NotFound else rc)
      in if \<not> R_SUCCEEDED rc' then (rc', None, s, w)
         else if index \<noteq> 0 then ipcServerProcessSession abi handler a (nat index) (s, w)
         else (let (rc'', s1) = ipcServerProcessNewSession a s in (rc'', None, s1, w)))"

text \<open>The rounds of the service thread, \<open>ProcessThreadFunc\<close> of \<open>ipc_service.cpp\<close>.\<close>

definition ipc_round :: "ipc_abi \<Rightarrow> ('w, 'r) ipc_handler \<Rightarrow> kernel_answers \<Rightarrow>
    ipc_server \<times> 'w \<Rightarrow> ipc_server \<times> 'w" where
  "ipc_round abi handler a sw = snd (snd (ipcServerProcess abi handler a sw))"

definition ipc_rounds :: "ipc_abi \<Rightarrow> ('w, 'r) ipc_handler \<Rightarrow> kernel_answers list \<Rightarrow>
    ipc_server \<times> 'w \<Rightarrow> ipc_server \<times> 'w" where
  "ipc_rounds abi handler as sw = fold (ipc_round abi handler) as sw"

section \<open>The session table\<close>

lemma shift_down_eq:
  "j + n < length xs \<Longrightarrow> shift_down j n xs = take j xs @ take n (drop (Suc j) xs) @ drop (j + n) xs"
proof (induction n arbitrary: j xs)
  case 0
  then show ?case by simp
next
  case (Suc n)
  have "shift_down j (Suc n) xs = take (Suc j) (xs[j := xs ! Suc j])
      @ take n (drop (Suc (Suc j)) xs) @ drop (j + Suc n) xs"
    using Suc by simp
  moreover have "take (Suc j) (xs[j := xs ! Suc j]) = take j xs @ [xs ! Suc j]"
    using Suc.prems by (simp add: take_Suc_conv_app_nth)
  moreover have "take (Suc n) (drop (Suc j) xs) = xs ! Suc j # take n (drop (Suc (Suc j)) xs)"
    using Suc.prems by (simp add: Cons_nth_drop_Suc [symmetric])
  ultimately show ?case by simp
qed

lemma deleted_handles:
  "0 < i \<Longrightarrow> i < length xs \<Longrightarrow>
   take (length xs - 1) (shift_down i (length xs - 1 - i) xs) = take i xs @ drop (Suc i) xs"
  by (simp add: shift_down_eq)

lemma DeleteSession_eq:
  "ipcServerDeleteSession i s =
     (if i = 0 \<or> i \<ge> length (srv_handles s) then (LibnxError_BadInput, s)
      else (Ipc_Ok, s\<lparr>srv_closed := srv_closed s @ [srv_handles s ! i],
              srv_handles := take i (srv_handles s) @ drop (Suc i) (srv_handles s)\<rparr>))"
  using deleted_handles [of i "srv_handles s"]
  by (auto simp: ipcServerDeleteSession_def svcCloseHandle_def Let_def)

text \<open>The invariant: the service handle stays first, and no session is lost or closed twice.\<close>

definition table_ok :: "handle \<Rightarrow> nat \<Rightarrow> ipc_server \<Rightarrow> bool" where
  "table_ok h n s \<longleftrightarrow> srv_handles s \<noteq> [] \<and> hd (srv_handles s) = h \<and>
     length (srv_handles s) \<le> n \<and> srv_max s = n \<and>
     mset (srv_accepted s) = mset (tl (srv_handles s)) + mset (srv_closed s)"

lemma table_ok_delete: "table_ok h n s \<Longrightarrow> table_ok h n (snd (ipcServerDeleteSession i s))"
proof -
  assume ok: "table_ok h n s"
  show ?thesis
  proof (cases "i = 0 \<or> i \<ge> length (srv_handles s)")
    case True
    then show ?thesis using ok by (auto simp: DeleteSession_eq)
  next
    case False
    then obtain xs j where xs: "srv_handles s = h # xs" "i = Suc j" "j < length xs"
      using ok by (cases "srv_handles s"; cases i) (auto simp: table_ok_def)
    have "mset xs = mset (take j xs @ drop (Suc j) xs) + {#xs ! j#}"
      using xs(3) by (simp add: id_take_nth_drop [of j xs, THEN arg_cong [where f = mset]])
    then show ?thesis using ok xs by (auto simp: table_ok_def DeleteSession_eq)
  qed
qed

lemma table_ok_new: "table_ok h n s \<Longrightarrow> table_ok h n (snd (ipcServerProcessNewSession a s))"
  by (auto simp: table_ok_def ipcServerProcessNewSession_def ipcServerAddSession_def
      svcCloseHandle_def R_SUCCEEDED_def split: prod.splits)

lemma table_ok_session:
  "table_ok h n s \<Longrightarrow> table_ok h n (fst (snd (snd (ipcServerProcessSession abi handler a i (s, w)))))"
  by (simp add: ipcServerProcessSession_def table_ok_delete split_beta Let_def)

lemma table_ok_round: "table_ok h n (fst sw) \<Longrightarrow> table_ok h n (fst (ipc_round abi handler a sw))"
  by (cases sw) (auto simp: ipc_round_def ipcServerProcess_def table_ok_new table_ok_session
      split_beta Let_def)

lemma table_ok_rounds: "table_ok h n (fst sw) \<Longrightarrow> table_ok h n (fst (ipc_rounds abi handler as sw))"
  unfolding ipc_rounds_def by (induction as arbitrary: sw) (simp_all add: table_ok_round)

section \<open>Properties\<close>

text \<open>
  C30. Whatever the clients and the kernel do, the first entry of the table stays the service's
  handle, the table never outgrows what one wait can take, and every session the kernel handed
  out is either still in the table or has been closed, exactly once.
\<close>

theorem sessions_accounted:
  assumes "ipcServerInit abi (Ipc_Ok, h) n s0 = (Ipc_Ok, s)" "srv_accepted s0 = []" "srv_closed s0 = []"
    and "s' = fst (ipc_rounds abi handler as (s, w))"
  shows "hd (srv_handles s') = h \<and> length (srv_handles s') \<le> n + 1 \<and> n + 1 \<le> max_wait_objects abi \<and>
    mset (srv_accepted s') = mset (tl (srv_handles s')) + mset (srv_closed s')"
proof -
  have n: "1 \<le> n" "n \<le> max_wait_objects abi - 1"
    using assms(1) by (auto simp: ipcServerInit_def split: if_splits)
  have "table_ok h (n + 1) s"
    using assms(1-3) by (auto simp: ipcServerInit_def table_ok_def R_SUCCEEDED_def Let_def split: if_splits)
  then have "table_ok h (n + 1) s'"
    using table_ok_rounds [where sw = "(s, w)"] assms(4) by simp
  then show ?thesis using n by (auto simp: table_ok_def)
qed

text \<open>
  A round of a session that goes wrong, or in which the client closes it, removes that session
  from the table, in whose order the others stay, and closes its handle; any other round leaves
  the table alone. The program's state changes only in rounds that answered a request.
\<close>

lemma session_round:
  assumes "0 < i" "i < length (srv_handles s)"
    and "ipcServerProcessSession abi handler a i (s, w) = (rc, resp, s', w')"
  shows "(if rc \<noteq> Ipc_Ok \<or> resp = Some Resp_Closed
          then srv_handles s' = take i (srv_handles s) @ drop (Suc i) (srv_handles s) \<and>
               srv_closed s' = srv_closed s @ [srv_handles s ! i]
          else s' = s) \<and> (w' = w \<or> (\<exists>r. resp = Some (Resp_Result r)))"
  using assms
  by (cases "ans_message a")
     (auto simp: ipcServerProcessSession_def answer_def DeleteSession_eq R_SUCCEEDED_def Let_def
        split_beta split: sum.splits if_splits)

definition demo_abi :: ipc_abi where
  "demo_abi = \<lparr>max_wait_objects = 64, cmif_in_magic = 7\<rparr>"

definition demo_server :: ipc_server where
  "demo_server = \<lparr>srv_handles = [], srv_max = 0, srv_accepted = [], srv_closed = []\<rparr>"

definition accept_round :: "handle \<Rightarrow> kernel_answers" where
  "accept_round h = \<lparr>ans_wait = (Ipc_Ok, 0), ans_accept = (Ipc_Ok, h), ans_receive = Ipc_Ok,
     ans_message = Msg_Other, ans_reply = Ipc_Ok, ans_reply_timed_out = False\<rparr>"

definition close_round :: "int \<Rightarrow> kernel_answers" where
  "close_round i = (accept_round 0)\<lparr>ans_wait := (Ipc_Ok, i), ans_message := Msg_Close\<rparr>"

lemmas ipc_eval = demo_abi_def demo_server_def accept_round_def close_round_def ipc_rounds_def
  ipc_round_def ipcServerProcess_def ipcServerProcessNewSession_def ipcServerAddSession_def
  ipcServerProcessSession_def ipcServerParseRequest_def answer_def DeleteSession_eq R_SUCCEEDED_def

lemma demo_server_rounds:
  "fst (ipc_rounds demo_abi (\<lambda>_ w. ((), w)) [accept_round 5, accept_round 6, close_round 1]
     (demo_server\<lparr>srv_handles := [4], srv_max := 43\<rparr>, ())) =
   \<lparr>srv_handles = [4, 6], srv_max = 43, srv_accepted = [5, 6], srv_closed = [5]\<rparr>"
  by (simp add: ipc_eval Let_def)

lemma sessions_accounted_witness:
  "let s' = fst (ipc_rounds demo_abi (\<lambda>_ w. ((), w)) [accept_round 5, accept_round 6, close_round 1]
     (demo_server\<lparr>srv_handles := [4], srv_max := 43\<rparr>, ()))
   in mset (srv_accepted s') = mset (tl (srv_handles s')) + mset (srv_closed s') \<and> srv_closed s' = [5]"
proof -
  have init: "ipcServerInit demo_abi (Ipc_Ok, 4) 42 demo_server =
      (Ipc_Ok, demo_server\<lparr>srv_handles := [4], srv_max := 43\<rparr>)"
    by (simp add: ipcServerInit_def R_SUCCEEDED_def demo_server_def demo_abi_def Let_def)
  show ?thesis
    using sessions_accounted [OF init _ _ demo_server_rounds [symmetric]]
    unfolding demo_server_rounds Let_def by (simp add: demo_server_def)
qed

lemma session_round_witness:
  "let (rc, resp, s', w') = ipcServerProcessSession demo_abi (\<lambda>_ w. ((), w)) (close_round 1) 1
     (demo_server\<lparr>srv_handles := [4, 5, 6]\<rparr>, ()) in srv_handles s' = [4, 6]"
proof -
  have "ipcServerProcessSession demo_abi (\<lambda>_ w. ((), w)) (close_round 1) 1
     (demo_server\<lparr>srv_handles := [4, 5, 6]\<rparr>, ()) =
     (Ipc_Ok, Some Resp_Closed, demo_server\<lparr>srv_handles := [4, 6], srv_closed := [5]\<rparr>, ())"
    by (simp add: ipc_eval Let_def)
  from session_round [OF _ _ this] show ?thesis
    unfolding \<open>ipcServerProcessSession _ _ _ _ _ = _\<close> by (simp add: demo_server_def)
qed

end
