(* ===== verification/Ipc.thy ===== *)
theory Ipc
  imports Clock_Manager Kip Ipc_Server
begin

text \<open>
  The IPC service, \<open>sysmodule/src/ipc/ipc_service.cpp\<close>, and its client, \<open>common/src/client/ipc.c\<close>:
  the commands, their handlers on the state of the sysmodule and the requests the client sends
  for them. Arguments travel as bytes in the packed layout of \<open>common/include/hocclk/ipc.h\<close>; the
  structures written into the client's buffers are kept as values.

  The state is that of the clock manager with the files of the loader exchange; the configuration
  is the one of the clock manager.
\<close>

section \<open>State and replies\<close>

record service_state =
  sv_sys :: sys
  sv_kip :: kip_state

definition config_of :: "service_state \<Rightarrow> config_state" where
  "config_of w = cfg (sv_sys w)"

definition put_config :: "config_state \<Rightarrow> service_state \<Rightarrow> service_state" where
  "put_config c w = w\<lparr>sv_sys := (sv_sys w)\<lparr>cfg := c\<rparr>\<rparr>"

datatype out_buffer =
    Out_string string
  | Out_context hoc_context
  | Out_profiles title_profiles
  | Out_values "HocClkConfigValue \<Rightarrow> u64"
  | Out_list "u32 list"

record ipc_reply =
  rp_result :: u32
  rp_data :: "u8 list"
  rp_buffer :: "out_buffer option"

datatype HocClkError = HocClkError_Generic | HocClkError_ConfigNotLoaded | HocClkError_ConfigSaveFailed

fun HocClkError_value :: "HocClkError \<Rightarrow> u32" where
  "HocClkError_value HocClkError_Generic = 0"
| "HocClkError_value HocClkError_ConfigNotLoaded = 1"
| "HocClkError_value HocClkError_ConfigSaveFailed = 2"

definition HOCCLK_ERROR :: "HocClkError \<Rightarrow> u32" where
  "HOCCLK_ERROR e = (388 AND 0x1FF) OR push_bit 9 (HocClkError_value e AND 0x1FFF)"

definition fails :: "HocClkError \<Rightarrow> ipc_reply" where
  "fails e = \<lparr>rp_result = HOCCLK_ERROR e, rp_data = [], rp_buffer = None\<rparr>"

definition succeeds :: "u8 list \<Rightarrow> out_buffer option \<Rightarrow> ipc_reply" where
  "succeeds bs b = \<lparr>rp_result = 0, rp_data = bs, rp_buffer = b\<rparr>"

section \<open>Arguments\<close>

definition le64 :: "u64 \<Rightarrow> u8 list" where
  "le64 w = le32 (ucast w) @ le32 (ucast (drop_bit 32 w))"

definition sizeof_HocClkContext :: nat where "sizeof_HocClkContext = 0x500"

definition sizeof_TitleProfileList :: nat where
  "sizeof_TitleProfileList = 4 * length all_profiles * length all_modules"

definition sizeof_ConfigValueList :: nat where
  "sizeof_ConfigValueList = 8 * length all_config_values"

text \<open>The arguments are structures: the profile list is followed by four bytes of padding.\<close>

definition sizeof_SetProfiles_Args :: nat where
  "sizeof_SetProfiles_Args = 8 + sizeof_TitleProfileList + 4"

definition decode_profiles :: "u8 list \<Rightarrow> title_profiles" where
  "decode_profiles bs =
     (let ws = read_words (length profile_grid) bs
      in (\<lambda>p m. case map_of (zip profile_grid ws) (p, m) of Some w \<Rightarrow> w | None \<Rightarrow> 0))"

fun read_longs :: "nat \<Rightarrow> u8 list \<Rightarrow> u64 list" where
  "read_longs 0 bs = []"
| "read_longs (Suc n) bs = get64 bs # read_longs n (drop 8 bs)"

definition decode_values :: "u8 list \<Rightarrow> HocClkConfigValue \<Rightarrow> u64" where
  "decode_values bs =
     (let ws = read_longs (length all_config_values) bs
      in (\<lambda>k. case map_of (zip all_config_values ws) k of Some w \<Rightarrow> w | None \<Rightarrow> 0))"

section \<open>Handlers\<close>

definition HOCCLK_IPC_API_VERSION :: u32 where "HOCCLK_IPC_API_VERSION = 2"
definition TARGET_VERSION :: string where "TARGET_VERSION = ''2.4.0''"

definition GetApiVersion :: ipc_reply where
  "GetApiVersion = succeeds (le32 HOCCLK_IPC_API_VERSION) None"

definition GetVersionString :: "nat \<Rightarrow> ipc_reply" where
  "GetVersionString bufSize =
     succeeds [] (if bufSize \<noteq> 0 then Some (Out_string (take (bufSize - 1) TARGET_VERSION)) else None)"

definition GetCurrentContextHandler :: "service_state \<Rightarrow> ipc_reply" where
  "GetCurrentContextHandler w = succeeds [] (Some (Out_context (GetCurrentContext (sv_sys w))))"

definition ExitHandler :: "service_state \<Rightarrow> ipc_reply \<times> service_state" where
  "ExitHandler w = (succeeds [] None, w\<lparr>sv_sys := SetRunning False (sv_sys w)\<rparr>)"

definition GetProfileCountHandler :: "u64 \<Rightarrow> service_state \<Rightarrow> ipc_reply" where
  "GetProfileCountHandler tid w =
     (if \<not> HasProfilesLoaded (config_of w) then fails HocClkError_ConfigNotLoaded
      else succeeds [GetProfileCount (config_of w) tid] None)"

definition GetProfilesHandler :: "u64 \<Rightarrow> service_state \<Rightarrow> ipc_reply" where
  "GetProfilesHandler tid w =
     (if \<not> HasProfilesLoaded (config_of w) then fails HocClkError_ConfigNotLoaded
      else succeeds [] (Some (Out_profiles (GetProfiles (config_of w) tid))))"

definition SetProfilesHandler ::
  "u64 \<Rightarrow> title_profiles \<Rightarrow> service_state \<Rightarrow> ipc_reply \<times> service_state" where
  "SetProfilesHandler tid profiles w =
     (if \<not> HasProfilesLoaded (config_of w) then (fails HocClkError_ConfigNotLoaded, w)
      else (case SetProfiles tid profiles True (config_of w) of
              (False, c) \<Rightarrow> (fails HocClkError_ConfigSaveFailed, put_config c w)
            | (True, c) \<Rightarrow> (succeeds [] None, put_config c w)))"

definition SetEnabledHandler :: "u8 \<Rightarrow> service_state \<Rightarrow> ipc_reply \<times> service_state" where
  "SetEnabledHandler enabled w =
     (succeeds [] None, put_config (SetEnabled (enabled \<noteq> 0) (config_of w)) w)"

definition SetOverrideHandler :: "u32 \<Rightarrow> u32 \<Rightarrow> service_state \<Rightarrow> ipc_reply \<times> service_state" where
  "SetOverrideHandler module hz w =
     (case module_of_u32 module of
        None \<Rightarrow> (fails HocClkError_Generic, w)
      | Some m \<Rightarrow> (succeeds [] None, put_config (SetOverrideHz m hz (config_of w)) w))"

definition GetConfigValuesHandler :: "service_state \<Rightarrow> ipc_reply" where
  "GetConfigValuesHandler w =
     (if \<not> HasProfilesLoaded (config_of w) then fails HocClkError_ConfigNotLoaded
      else succeeds [] (Some (Out_values (GetConfigValues (config_of w)))))"

definition SetConfigValuesHandler ::
  "(HocClkConfigValue \<Rightarrow> u64) \<Rightarrow> service_state \<Rightarrow> ipc_reply \<times> service_state" where
  "SetConfigValuesHandler values w =
     (if \<not> HasProfilesLoaded (config_of w) then (fails HocClkError_ConfigNotLoaded, w)
      else (case SetConfigValues values True (config_of w) of
              (False, c) \<Rightarrow> (fails HocClkError_ConfigSaveFailed, put_config c w)
            | (True, c) \<Rightarrow> (succeeds [] None, put_config c w)))"

definition GetFreqListHandler :: "u32 \<Rightarrow> u32 \<Rightarrow> nat \<Rightarrow> service_state \<Rightarrow> ipc_reply" where
  "GetFreqListHandler module maxCount bufSize w =
     (case module_of_u32 module of
        None \<Rightarrow> fails HocClkError_Generic
      | Some m \<Rightarrow>
          if unat maxCount \<noteq> bufSize div 4 then fails HocClkError_Generic
          else (let list = manager_GetFreqList m (unat maxCount) (sv_sys w)
                in succeeds (le32 (of_nat (length list))) (Some (Out_list list))))"

definition SetKipDataHandler :: "service_state \<Rightarrow> ipc_reply \<times> service_state" where
  "SetKipDataHandler w =
     (let k = SetKipData ((sv_kip w)\<lparr>k_cfg := config_of w\<rparr>)
      in (succeeds [] None, put_config (k_cfg k) (w\<lparr>sv_kip := k\<rparr>)))"

definition reads :: "service_state \<Rightarrow> ipc_reply \<Rightarrow> ipc_reply \<times> service_state" where
  "reads w rp = (rp, w)"

definition ServiceHandlerFunc :: "(service_state, ipc_reply) ipc_handler" where
  "ServiceHandlerFunc r w =
     (let dataSize = length (r_data r);
          recv = r_recv r \<noteq> [];
          bufSize = hd (r_recv r);
          generic = (fails HocClkError_Generic, w)
      in if r_cmdId r = 0 then reads w GetApiVersion
         else if r_cmdId r = 1 then
           (if recv then reads w (GetVersionString bufSize) else generic)
         else if r_cmdId r = 2 then
           (if dataSize \<ge> 8 \<and> recv \<and> bufSize \<ge> sizeof_HocClkContext
            then reads w (GetCurrentContextHandler w) else generic)
         else if r_cmdId r = 3 then ExitHandler w
         else if r_cmdId r = 4 then
           (if dataSize \<ge> 8 then reads w (GetProfileCountHandler (get64 (r_data r)) w) else generic)
         else if r_cmdId r = 5 then
           (if dataSize \<ge> 8 \<and> recv \<and> bufSize \<ge> sizeof_TitleProfileList
            then reads w (GetProfilesHandler (get64 (r_data r)) w) else generic)
         else if r_cmdId r = 6 then
           (if dataSize \<ge> sizeof_SetProfiles_Args
            then SetProfilesHandler (get64 (r_data r)) (decode_profiles (drop 8 (r_data r))) w
            else generic)
         else if r_cmdId r = 7 then
           (if dataSize \<ge> 1 then SetEnabledHandler (hd (r_data r)) w else generic)
         else if r_cmdId r = 8 then
           (if dataSize \<ge> 8 then SetOverrideHandler (get32 (r_data r)) (get32 (drop 4 (r_data r))) w
            else generic)
         else if r_cmdId r = 9 then
           (if recv \<and> bufSize \<ge> sizeof_ConfigValueList
            then reads w (GetConfigValuesHandler w) else generic)
         else if r_cmdId r = 10 then
           (if r_send r \<noteq> [] \<and> length (hd (r_send r)) \<ge> sizeof_ConfigValueList
            then SetConfigValuesHandler (decode_values (hd (r_send r))) w else generic)
         else if r_cmdId r = 11 then
           (if dataSize \<ge> 8 \<and> recv
            then reads w (GetFreqListHandler (get32 (r_data r)) (get32 (drop 4 (r_data r))) bufSize w)
            else generic)
         else if r_cmdId r = 12 then SetKipDataHandler w
         else generic)"

section \<open>The client\<close>

text \<open>The padding after the arguments is up to the client's library.\<close>

definition dispatch :: "u64 \<Rightarrow> u8 list \<Rightarrow> nat list \<Rightarrow> u8 list list \<Rightarrow> ipc_request" where
  "dispatch cmd data recv send = \<lparr>r_cmdId = cmd, r_data = data, r_recv = recv, r_send = send\<rparr>"

definition encode_profiles :: "title_profiles \<Rightarrow> u8 list" where
  "encode_profiles profiles = concat (map (\<lambda>(p, m). le32 (profiles p m)) profile_grid)"

definition encode_values :: "(HocClkConfigValue \<Rightarrow> u64) \<Rightarrow> u8 list" where
  "encode_values values = concat (map (\<lambda>k. le64 (values k)) all_config_values)"

definition hocclkIpcGetCurrentContext :: "u8 list \<Rightarrow> ipc_request" where
  "hocclkIpcGetCurrentContext pad = dispatch 2 pad [sizeof_HocClkContext] []"

definition hocclkIpcGetProfileCount :: "u64 \<Rightarrow> u8 list \<Rightarrow> ipc_request" where
  "hocclkIpcGetProfileCount tid pad = dispatch 4 (le64 tid @ pad) [] []"

definition hocclkIpcSetEnabled :: "bool \<Rightarrow> u8 list \<Rightarrow> ipc_request" where
  "hocclkIpcSetEnabled enabled pad = dispatch 7 ((if enabled then 1 else 0) # pad) [] []"

definition hocclkIpcSetOverride :: "u32 \<Rightarrow> u32 \<Rightarrow> u8 list \<Rightarrow> ipc_request" where
  "hocclkIpcSetOverride module hz pad = dispatch 8 (le32 module @ le32 hz @ pad) [] []"

definition hocclkIpcGetProfiles :: "u64 \<Rightarrow> u8 list \<Rightarrow> ipc_request" where
  "hocclkIpcGetProfiles tid pad = dispatch 5 (le64 tid @ pad) [sizeof_TitleProfileList] []"

definition hocclkIpcSetProfiles :: "u64 \<Rightarrow> title_profiles \<Rightarrow> u8 list \<Rightarrow> ipc_request" where
  "hocclkIpcSetProfiles tid profiles pad =
     dispatch 6 (le64 tid @ encode_profiles profiles @ replicate 4 0 @ pad) [] []"

definition hocclkIpcGetConfigValues :: "u8 list \<Rightarrow> ipc_request" where
  "hocclkIpcGetConfigValues pad = dispatch 9 pad [sizeof_ConfigValueList] []"

definition hocclkIpcSetConfigValues :: "(HocClkConfigValue \<Rightarrow> u64) \<Rightarrow> u8 list \<Rightarrow> ipc_request" where
  "hocclkIpcSetConfigValues values pad = dispatch 10 pad [] [encode_values values]"

definition hocclkIpcGetFreqList :: "u32 \<Rightarrow> u32 \<Rightarrow> u8 list \<Rightarrow> ipc_request" where
  "hocclkIpcGetFreqList module maxCount pad =
     dispatch 11 (le32 module @ le32 maxCount @ pad) [unat maxCount * 4] []"

definition hocClkIpcSetKipData :: "u8 list \<Rightarrow> ipc_request" where
  "hocClkIpcSetKipData pad = dispatch 12 (le32 0 @ pad) [] []"

definition hocClkIpcGetKipData :: "u8 list \<Rightarrow> ipc_request" where
  "hocClkIpcGetKipData pad = dispatch 13 (le32 0 @ pad) [] []"

section \<open>Layout\<close>

lemma length_le64 [simp]: "length (le64 w) = 8"
  by (simp add: le64_def)

lemma le_nat_append: "le_nat (xs @ ys) = le_nat xs + 256 ^ length xs * le_nat ys"
  by (induction xs) (simp_all add: algebra_simps)

lemma get64_le64 [simp]: "get64 (le64 w @ bs) = w"
proof -
  have low: "unat (ucast w :: u32) = unat w mod 4294967296"
    by (simp add: unsigned_ucast_eq take_bit_eq_mod)
  have "unat (drop_bit 32 w) = unat w div 4294967296"
    unfolding unsigned_drop_bit_eq by (simp add: drop_bit_eq_div take_bit_nat_eq_self)
  moreover have "unat w div 4294967296 < 4294967296"
    using unat_lt_u64 [of w] by (simp add: div_less_iff_less_mult)
  ultimately have high: "unat (ucast (drop_bit 32 w) :: u32) = unat w div 4294967296"
    by (simp add: unsigned_ucast_eq take_bit_nat_eq_self)
  have "le_nat (le64 w) = unat w"
    by (simp add: le64_def le_nat_append le_nat_le32 low high)
  then show ?thesis by (simp add: get64_def)
qed

lemma read_longs_concat: "read_longs (length ws) (concat (map le64 ws) @ bs) = ws"
  by (induction ws) simp_all

lemma length_encode_profiles: "length (encode_profiles p) = sizeof_TitleProfileList"
proof -
  have "length (concat (map (\<lambda>(q, m). le32 (p q m)) xs)) = 4 * length xs" for xs
    by (induction xs) auto
  then show ?thesis
    by (simp add: encode_profiles_def sizeof_TitleProfileList_def profile_grid_def all_profiles_def
        all_modules_def)
qed

lemma decode_encode_profiles: "decode_profiles (encode_profiles p @ bs) = p"
proof -
  let ?ws = "map (\<lambda>(q, m). p q m) profile_grid"
  have "encode_profiles p = concat (map le32 ?ws)"
    by (simp add: encode_profiles_def comp_def split_def)
  then have ws: "read_words (length profile_grid) (encode_profiles p @ bs) = ?ws"
    using read_words_concat [of ?ws bs] by simp
  have lookup: "map_of (zip profile_grid ?ws) (q, m) = Some (p q m)" for q m
    using set_profile_grid distinct_profile_grid by (simp add: map_of_zip_map)
  show ?thesis unfolding decode_profiles_def ws Let_def by (simp only: lookup option.case)
qed

lemma length_encode_values: "length (encode_values v) = sizeof_ConfigValueList"
proof -
  have "length (concat (map (\<lambda>k. le64 (v k)) xs)) = 8 * length xs" for xs
    by (induction xs) auto
  then show ?thesis by (simp add: encode_values_def sizeof_ConfigValueList_def)
qed

lemma decode_encode_values: "decode_values (encode_values v) = v"
proof -
  let ?ws = "map v all_config_values"
  have "encode_values v = concat (map le64 ?ws) @ []"
    by (simp add: encode_values_def comp_def)
  then have ws: "read_longs (length all_config_values) (encode_values v) = ?ws"
    using read_longs_concat [of ?ws "[]"] by simp
  have lookup: "map_of (zip all_config_values ?ws) k = Some (v k)" for k
    by (simp add: map_of_zip_map)
  show ?thesis unfolding decode_values_def ws Let_def by (simp only: lookup option.case)
qed

section \<open>Facts\<close>

lemma config_put [simp]: "config_of (put_config c w) = c"
  by (simp add: config_of_def put_config_def)

lemma put_config_same [simp]: "put_config (config_of w) w = w"
  by (simp add: config_of_def put_config_def)

lemma reads_eq [simp]: "reads w rp = (rp, w)"
  by (simp add: reads_def)

lemma result_simps [simp]: "rp_result (succeeds bs b) = 0" "rp_result (fails e) \<noteq> 0"
  by (simp add: succeeds_def) (cases e; simp add: fails_def HOCCLK_ERROR_def)

lemma saving_fails:
  "SetProfiles tid p imm c = (False, c') \<Longrightarrow> c' = c" "SetConfigValues v imm c = (False, c') \<Longrightarrow> c' = c"
  by (auto simp: SetProfiles_def SetConfigValues_def Let_def split: option.splits if_splits)

lemmas handler_defs = ExitHandler_def SetProfilesHandler_def SetEnabledHandler_def
  SetOverrideHandler_def SetConfigValuesHandler_def SetKipDataHandler_def

lemma handlers_error:
  "ExitHandler w = (rp, w') \<Longrightarrow> rp_result rp = 0"
  "SetProfilesHandler tid p w = (rp, w') \<Longrightarrow> rp_result rp \<noteq> 0 \<Longrightarrow> w' = w"
  "SetEnabledHandler b w = (rp, w') \<Longrightarrow> rp_result rp = 0"
  "SetOverrideHandler m hz w = (rp, w') \<Longrightarrow> rp_result rp \<noteq> 0 \<Longrightarrow> w' = w"
  "SetConfigValuesHandler v w = (rp, w') \<Longrightarrow> rp_result rp \<noteq> 0 \<Longrightarrow> w' = w"
  "SetKipDataHandler w = (rp, w') \<Longrightarrow> rp_result rp = 0"
  by (auto simp: handler_defs Let_def dest!: saving_fails split: if_splits prod.splits bool.splits option.splits)

lemma fold_set_clocks:
  "fold (\<lambda>(p, m) mm. if profiles p m \<noteq> 0 then mm((tid, p, m) \<mapsto> profiles p m)
       else mm((tid, p, m) := None)) grid mm (t, q, n) =
   (if t = tid \<and> (q, n) \<in> set grid then (if profiles q n \<noteq> 0 then Some (profiles q n) else None)
    else mm (t, q, n))"
  by (induction grid arbitrary: mm) (auto split: if_splits)

lemma GetProfiles_SetProfiles:
  assumes "SetProfiles tid profiles True c = (True, c')" "gLoaded c"
  shows "gLoaded c' \<and> GetProfiles c' tid = profiles"
  using assms
  by (auto simp: SetProfiles_def GetProfiles_def FindClockMHz_def fold_set_clocks Let_def fun_eq_iff
      split: option.splits if_splits)

lemma SetProfiles_writable:
  "fs_writable (gFs c) \<Longrightarrow> fst (SetProfiles tid profiles imm c)"
  by (simp add: SetProfiles_def fs_putsection_def Let_def)

lemma profiles_args_fit: "sizeof_SetProfiles_Args \<le> length (le64 tid @ encode_profiles p @ replicate 4 0 @ pad)"
  by (simp add: length_encode_profiles sizeof_SetProfiles_Args_def)

section \<open>Properties\<close>

text \<open>
  C32. A request that is answered with an error, whether it is too short, its command is unknown,
  its module does not exist or saving fails, has changed nothing.
\<close>

theorem errors_change_nothing:
  assumes "ServiceHandlerFunc r w = (rp, w')" "rp_result rp \<noteq> 0"
  shows "w' = w"
  using assms
  by (auto simp: ServiceHandlerFunc_def Let_def dest: handlers_error split: if_splits)

text \<open>
  The profiles a client sets with its library are the ones every client gets from then on.
\<close>

lemma client_profiles_round_trip:
  assumes "gLoaded (config_of w)" "fs_writable (gFs (config_of w))"
    and "ServiceHandlerFunc (hocclkIpcSetProfiles tid profiles pad) w = (rp, w')"
  shows "rp_result rp = 0 \<and>
    ServiceHandlerFunc (hocclkIpcGetProfiles tid pad') w' = (succeeds [] (Some (Out_profiles profiles)), w')"
proof -
  obtain c where c: "SetProfiles tid profiles True (config_of w) = (True, c)"
    using SetProfiles_writable [OF assms(2), of tid profiles True]
    by (cases "SetProfiles tid profiles True (config_of w)") auto
  have "(rp, w') = (succeeds [] None, put_config c w)"
    using assms(1,3) c profiles_args_fit [of tid profiles pad]
    by (simp add: hocclkIpcSetProfiles_def dispatch_def ServiceHandlerFunc_def SetProfilesHandler_def
        HasProfilesLoaded_def decode_encode_profiles)
  then show ?thesis
    using GetProfiles_SetProfiles [OF c assms(1)]
    by (simp add: hocclkIpcGetProfiles_def dispatch_def ServiceHandlerFunc_def GetProfilesHandler_def
        HasProfilesLoaded_def)
qed

text \<open>
  The configuration values a client sets are the ones every client gets from then on, with
  the default for each value that is out of its range.
\<close>

lemma client_values_round_trip:
  assumes "gLoaded (config_of w)" "fs_writable (gFs (config_of w))"
    and "ServiceHandlerFunc (hocclkIpcSetConfigValues values pad) w = (rp, w')"
  shows "rp_result rp = 0 \<and>
    ServiceHandlerFunc (hocclkIpcGetConfigValues pad') w' =
      (succeeds [] (Some (Out_values (\<lambda>k. if hocclkValidConfigValue k (values k) then values k
        else hocclkDefaultConfigValue k))), w')"
proof -
  obtain c where c: "SetConfigValues values True (config_of w) = (True, c)"
    "gLoaded c" "configValues c = (\<lambda>k. if hocclkValidConfigValue k (values k) then values k
        else hocclkDefaultConfigValue k)"
    using assms(1,2) by (auto simp: SetConfigValues_def fs_putsection_def)
  have "(rp, w') = (succeeds [] None, put_config c w)"
    using assms(1,3) c(1)
    by (simp add: hocclkIpcSetConfigValues_def dispatch_def ServiceHandlerFunc_def
        SetConfigValuesHandler_def HasProfilesLoaded_def decode_encode_values length_encode_values)
  then show ?thesis
    using c(2,3)
    by (simp add: hocclkIpcGetConfigValues_def dispatch_def ServiceHandlerFunc_def
        GetConfigValuesHandler_def HasProfilesLoaded_def GetConfigValues_def)
qed

text \<open>
  A clock override is taken for the module it names and for no other, a module that does not
  exist is refused; nothing else of the configuration changes.
\<close>

lemma client_override:
  "ServiceHandlerFunc (hocclkIpcSetOverride module hz pad) w =
     (case module_of_u32 module of
        None \<Rightarrow> (fails HocClkError_Generic, w)
      | Some m \<Rightarrow> (succeeds [] None,
          put_config ((config_of w)\<lparr>gOverrideFreqs := (gOverrideFreqs (config_of w))(m := hz)\<rparr>) w))"
  by (simp add: hocclkIpcSetOverride_def dispatch_def ServiceHandlerFunc_def SetOverrideHandler_def
      SetOverrideHz_def get32_le32 [of hz, simplified] split: option.splits)

text \<open>
  A client that asks for the clocks of a module gets the first entries of its table, as many
  as it has room for, and their number.
\<close>

lemma client_freq_list:
  "ServiceHandlerFunc (hocclkIpcGetFreqList (of_nat (module_index m)) maxCount pad) w =
     (let list = take (unat maxCount) (gFreqTable (sv_sys w) m)
      in (succeeds (le32 (of_nat (length list))) (Some (Out_list list)), w))"
  by (simp add: hocclkIpcGetFreqList_def dispatch_def ServiceHandlerFunc_def GetFreqListHandler_def
      module_of_u32_index manager_GetFreqList_def Let_def)

lemma get_kip_data_unhandled:
  "ServiceHandlerFunc (hocClkIpcGetKipData pad) w = (fails HocClkError_Generic, w)"
  by (simp add: hocClkIpcGetKipData_def dispatch_def ServiceHandlerFunc_def Let_def)

section \<open>Witnesses\<close>

definition demo_service :: service_state where
  "demo_service = \<lparr>sv_sys = demo_sys\<lparr>cfg := demo_config\<lparr>gLoaded := True\<rparr>\<rparr>, sv_kip = demo_kip_state\<rparr>"

lemma demo_service_ready: "gLoaded (config_of demo_service)" "fs_writable (gFs (config_of demo_service))"
  by (simp_all add: demo_service_def config_of_def demo_config_def demo_fs_def)

lemma errors_change_nothing_witness:
  "snd (ServiceHandlerFunc (hocClkIpcGetKipData []) demo_service) = demo_service"
  using errors_change_nothing [OF get_kip_data_unhandled] by (simp add: get_kip_data_unhandled)

lemma client_profiles_round_trip_witness:
  "fst (ServiceHandlerFunc (hocclkIpcGetProfiles 7 [])
     (snd (ServiceHandlerFunc (hocclkIpcSetProfiles 7 (\<lambda>_ _. 921) []) demo_service))) =
   succeeds [] (Some (Out_profiles (\<lambda>_ _. 921)))"
  using client_profiles_round_trip [OF demo_service_ready, OF surjective_pairing] by simp

lemma client_values_round_trip_witness:
  "rp_result (fst (ServiceHandlerFunc (hocclkIpcSetConfigValues (\<lambda>_. 1) []) demo_service)) = 0"
  using client_values_round_trip [OF demo_service_ready, OF surjective_pairing] by simp

end
