(* ===== verification/Display.thy ===== *)
theory Display
  imports Prelude "HOL-Library.Signed_Division"
begin

text \<open>
  The refresh rate of the display, \<open>sysmodule/src/display/display_refresh_rate.cpp\<close>: the choice of
  a rate for the built-in panel, for a docked screen and for the replacement panel, the
  programming of the display's clock (PLLD) and reading the rate back.

  The display driver is outside the repository: the record \<open>nv_display\<close> says which devices open and
  what its requests return. Modes that the code sets are logged. The gamma correction of the OLED
  panel is timing dependent writes to a device and is left out.
\<close>

section \<open>Data\<close>

record timings =
  t_hFrontPorch :: nat
  t_hSyncWidth :: nat
  t_hBackPorch :: nat
  t_vFrontPorch :: nat
  t_vSyncWidth :: nat
  t_vBackPorch :: nat
  t_pixelClock_kHz :: nat

definition docked_timing :: "nat \<Rightarrow> nat \<Rightarrow> nat \<Rightarrow> nat \<Rightarrow> nat \<Rightarrow> nat \<Rightarrow> nat \<Rightarrow> nat \<Rightarrow> timings" where
  "docked_timing hfp hsw hbp vfp vsw vbp vic clk =
     \<lparr>t_hFrontPorch = hfp, t_hSyncWidth = hsw, t_hBackPorch = hbp, t_vFrontPorch = vfp,
      t_vSyncWidth = vsw, t_vBackPorch = vbp, t_pixelClock_kHz = clk\<rparr>"

definition handheld_timing :: "nat \<Rightarrow> nat \<Rightarrow> nat \<Rightarrow> nat \<Rightarrow> nat \<Rightarrow> nat \<Rightarrow> nat \<Rightarrow> timings" where
  "handheld_timing hsw hfp hbp vsw vfp vbp clk =
     \<lparr>t_hFrontPorch = hfp, t_hSyncWidth = hsw, t_hBackPorch = hbp, t_vFrontPorch = vfp,
      t_vSyncWidth = vsw, t_vBackPorch = vbp, t_pixelClock_kHz = clk\<rparr>"

definition g_dockedRefreshRates :: "nat list" where
  "g_dockedRefreshRates = [40, 45, 50, 55, 60, 70, 72, 75, 80, 90, 95, 100, 110, 120, 130, 140, 144,
     150, 160, 165, 170, 180, 190, 200, 210, 220, 230, 240]"

definition g_dockedTimings1080p :: "timings list" where
  "g_dockedTimings1080p = [
     docked_timing 8 32 40 7 8 6 0 88080,
     docked_timing 8 32 40 9 8 6 0 99270,
     docked_timing 528 44 148 4 5 36 31 148500,
     docked_timing 8 32 40 15 8 6 0 121990,
     docked_timing 88 44 148 4 5 36 16 148500,
     docked_timing 8 32 40 22 8 6 0 156240,
     docked_timing 8 32 40 23 8 6 0 160848,
     docked_timing 8 32 40 25 8 6 0 167850,
     docked_timing 8 32 40 28 8 6 0 179520,
     docked_timing 8 32 40 33 8 6 0 202860,
     docked_timing 8 32 40 36 8 6 0 214700,
     docked_timing 528 44 148 4 5 36 64 297000,
     docked_timing 8 32 40 44 8 6 0 250360,
     docked_timing 88 44 148 4 5 36 63 297000,
     docked_timing 8 32 40 55 8 6 0 298750,
     docked_timing 8 32 40 61 8 6 0 323400,
     docked_timing 8 32 40 63 8 6 0 333216,
     docked_timing 8 32 40 67 8 6 0 348300,
     docked_timing 8 32 40 72 8 6 0 373120,
     docked_timing 8 32 40 75 8 6 0 385770,
     docked_timing 8 32 40 78 8 6 0 398480,
     docked_timing 8 32 40 84 8 6 0 424080,
     docked_timing 8 32 40 90 8 6 0 449920,
     docked_timing 8 32 40 96 8 6 0 476000,
     docked_timing 8 32 40 102 8 6 0 502320,
     docked_timing 8 32 40 108 8 6 0 528880,
     docked_timing 8 32 40 114 8 6 0 555680,
     docked_timing 8 32 40 121 8 6 0 583200]"

definition g_handheldTimingsRETRO :: "timings list" where
  "g_handheldTimingsRETRO = [
     handheld_timing 72 136 72 1 660 9 78000,
     handheld_timing 72 136 72 1 612 9 77982,
     handheld_timing 72 136 72 1 567 9 77994,
     handheld_timing 72 136 72 1 524 9 78002,
     handheld_timing 72 136 72 1 483 9 78012,
     handheld_timing 72 136 72 1 443 9 77985,
     handheld_timing 72 136 72 1 406 9 78016,
     handheld_timing 72 136 72 1 370 9 78020,
     handheld_timing 72 136 72 1 335 9 78000,
     handheld_timing 72 136 72 1 302 9 78008,
     handheld_timing 72 136 72 1 270 9 78000,
     handheld_timing 72 136 72 1 239 9 77979,
     handheld_timing 72 136 72 1 210 9 78000,
     handheld_timing 72 136 72 1 182 9 78016,
     handheld_timing 72 136 72 1 154 9 77976,
     handheld_timing 72 136 72 1 128 9 77990,
     handheld_timing 72 136 72 1 103 9 78008,
     handheld_timing 72 136 72 1 78 9 77976,
     handheld_timing 72 136 72 1 55 9 78010,
     handheld_timing 72 136 72 1 32 9 77998,
     handheld_timing 72 136 72 1 10 9 78000]"

definition handheld_min :: nat where "handheld_min = 40"
definition handheld_max :: nat where "handheld_max = 80"

record NvdcMode2 =
  hActive :: u32
  vActive :: u32
  hSyncWidth :: u32
  vSyncWidth :: u32
  hFrontPorch :: u32
  vFrontPorch :: u32
  hBackPorch :: u32
  vBackPorch :: u32
  pclkKHz :: u32
  bitsPerPixel :: u32
  vmode :: u32
  sync :: u32
  unk1 :: u32

definition h_total :: "NvdcMode2 \<Rightarrow> u32" where
  "h_total m = hActive m + hFrontPorch m + hSyncWidth m + hBackPorch m"

definition v_total :: "NvdcMode2 \<Rightarrow> u32" where
  "v_total m = vActive m + vFrontPorch m + vSyncWidth m + vBackPorch m"

text \<open>The rate of a mode, in 32-bit arithmetic.\<close>

definition mode_rate :: "NvdcMode2 \<Rightarrow> u32" where
  "mode_rate m = (pclkKHz m * 1000 + 999) div (h_total m * v_total m)"

text \<open>The fields of the clock's two registers the code uses; the others are kept.\<close>

record plld =
  PLLD_DIVM :: u8
  PLLD_DIVN :: u8
  PLLD_SDM_DIN :: "16 word"

record display_config =
  has_clk :: bool
  isDocked :: bool
  isLite :: bool
  isRetroSUPER :: bool
  isPossiblySpoofedRetro :: bool
  matchLowestDocked :: bool
  displaySync :: bool

text \<open>The driver's devices: the built-in panel and the docked screen.\<close>

datatype nv_head = Disp0 | Disp1

record display_state =
  g_config :: display_config
  g_initialized :: bool
  g_dockedHighestRefreshRate :: nat
  g_wasRetroSuperTurnedOff :: bool
  g_lastVActive :: u32
  g_canChangeRefreshRateDocked :: bool
  g_rate_value :: u32
  g_plld :: plld
  modes_set :: "(nv_head \<times> NvdcMode2) list"

record nv_display =
  nv_open :: "nv_head \<Rightarrow> bool"
  nv_panel :: "nv_head \<Rightarrow> u32"
  nv_panel_0x100 :: u32
  nv_mode :: "nv_head \<Rightarrow> NvdcMode2 option"
  nv_mode_db :: "NvdcMode2 list option"
  nv_validate :: "NvdcMode2 \<Rightarrow> bool"

section \<open>The built-in panel\<close>

text \<open>
  A rate outside the panel's range: half, a third or a quarter of 60 becomes 60, otherwise the
  first multiple in the range is taken, up to \<open>limit\<close> times the rate.
\<close>

definition handheld_rate :: "nat \<Rightarrow> nat \<Rightarrow> nat" where
  "handheld_rate limit r =
     (if r > handheld_max then handheld_max
      else if r < handheld_min then
        (if list_ex (\<lambda>i. r * i = 60) [2..<5] then 60
         else (case find (\<lambda>i. handheld_min \<le> r * i \<and> r * i \<le> handheld_max) [2..<limit + 1] of
                 Some i \<Rightarrow> r * i
               | None \<Rightarrow> 60))
      else r)"

definition plld_value :: "plld \<Rightarrow> nat" where
  "plld_value p = (unat (PLLD_DIVN p) div unat (PLLD_DIVM p)) * 10 div 4"

text \<open>The pixel clock as \<open>_setPLLDHandheldRefreshRate\<close> computes it, in 32-bit signed arithmetic.\<close>

definition pixel_clock_s32 :: "plld \<Rightarrow> u32" where
  "pixel_clock_s32 p =
     word_of_int (sint (word_of_int (9375 * (4096 * (2 * uint (PLLD_DIVN p) + 1) + sint (PLLD_SDM_DIN p))) :: u32)
       sdiv (8 * uint (PLLD_DIVM p)))"

text \<open>The pixel clock as \<open>GetRate\<close> computes it, in 64-bit arithmetic.\<close>

definition pixel_clock_u64 :: "plld \<Rightarrow> u32" where
  "pixel_clock_u64 p =
     ucast ((9375 * word_of_int (4096 * (2 * uint (PLLD_DIVN p) + 1) + sint (PLLD_SDM_DIN p)) :: u64)
       div (8 * ucast (PLLD_DIVM p)))"

definition program_plld :: "nat \<Rightarrow> plld \<Rightarrow> plld" where
  "program_plld r p =
     (let base_refreshRate = (of_nat (r - r mod 5) :: u8);
          divn = (of_nat (4 * unat base_refreshRate div 10) :: u8);
          expected_pixel_clock = 234000000 * r div 60
      in p\<lparr>PLLD_DIVN := divn, PLLD_DIVM := 1,
           PLLD_SDM_DIN := word_of_int (int (8 * expected_pixel_clock div 9375)
             - 4096 * (2 * uint divn + 1))\<rparr>)"

definition setPLLDHandheldRefreshRate :: "nv_display \<Rightarrow> u32 \<Rightarrow> display_state \<Rightarrow> bool \<times> display_state" where
  "setPLLDHandheldRefreshRate nv new_refreshRate s =
     (if \<not> has_clk (g_config s) \<or> \<not> nv_open nv Disp0 \<or> nv_panel nv Disp0 \<noteq> 0x75c then (False, s)
      else
        (let p = g_plld s; value = plld_value p in
         if value = 0 \<or> value = 80 then (False, s)
         else
           (let r = handheld_rate 4 (unat new_refreshRate);
                refreshRateNow = (ucast (pixel_clock_s32 p div 3900000) :: u16)
            in if unat refreshRateNow = r then (True, s)
               else (True, s\<lparr>g_plld := program_plld r p\<rparr>))))"

section \<open>A docked screen\<close>

definition rate_index :: "nat \<Rightarrow> nat option" where
  "rate_index r = first_index (\<lambda>v. v = r) g_dockedRefreshRates"

definition docked_index :: "bool \<Rightarrow> nat \<Rightarrow> nat \<Rightarrow> nat" where
  "docked_index matchLowest highest r =
     (let rates = g_dockedRefreshRates;
          i60 = (case rate_index 60 of Some i \<Rightarrow> i | None \<Rightarrow> 0);
          itr = (if r \<le> 60 \<and> 60 mod r = 0 then i60
                 else (case first_index (\<lambda>v. v mod r = 0) rates of
                         Some i \<Rightarrow> i
                       | None \<Rightarrow>
                           if \<not> matchLowest then i60
                           else (case first_index (\<lambda>v. r < v) rates of Some i \<Rightarrow> i | None \<Rightarrow> i60)))
      in if rates ! itr > highest
         then (case find (\<lambda>i. rates ! i \<le> highest) (rev [0..<itr + 1]) of Some i \<Rightarrow> i | None \<Rightarrow> itr)
         else itr)"

text \<open>The rate of a mode of the screen, rounded to the nearest and kept to eight bits.\<close>

definition rounded_rate :: "NvdcMode2 \<Rightarrow> nat" where
  "rounded_rate m =
     (let a = unat (pclkKHz m * 1000); b = unat (v_total m * h_total m)
      in (2 * a + b) div (2 * b) mod 256)"

definition getDockedHighestRefreshRate :: "nv_display \<Rightarrow> display_state \<Rightarrow> display_state" where
  "getDockedHighestRefreshRate nv s =
     (let modes = (case nv_mode_db nv of None \<Rightarrow> [] | Some ms \<Rightarrow> ms);
          highest = fold (\<lambda>m h. if hActive m < 1920 \<or> vActive m < 1080 then h
                                else if h < rounded_rate m then rounded_rate m else h) modes 60;
          top = last g_dockedRefreshRates
      in s\<lparr>g_dockedHighestRefreshRate := if highest > top then top else highest\<rparr>)"

definition GetDockedHighestAllowed :: "display_state \<Rightarrow> nat" where
  "GetDockedHighestAllowed s =
     (if g_dockedHighestRefreshRate s > 60 then g_dockedHighestRefreshRate s else 60)"

definition with_timings :: "timings \<Rightarrow> NvdcMode2 \<Rightarrow> NvdcMode2" where
  "with_timings t m = m\<lparr>hFrontPorch := of_nat (t_hFrontPorch t), hSyncWidth := of_nat (t_hSyncWidth t),
     hBackPorch := of_nat (t_hBackPorch t), vFrontPorch := of_nat (t_vFrontPorch t),
     vSyncWidth := of_nat (t_vSyncWidth t), vBackPorch := of_nat (t_vBackPorch t),
     pclkKHz := of_nat (t_pixelClock_kHz t)\<rparr>"

definition set_mode :: "nv_display \<Rightarrow> nv_head \<Rightarrow> nat \<Rightarrow> NvdcMode2 \<Rightarrow> display_state \<Rightarrow> display_state" where
  "set_mode nv head n m s =
     (if nv_validate nv m then s\<lparr>modes_set := modes_set s @ replicate n (head, m)\<rparr> else s)"

definition docked_mode :: "nat \<Rightarrow> NvdcMode2 \<Rightarrow> NvdcMode2" where
  "docked_mode itr m =
     (let rate = g_dockedRefreshRates ! itr in
      if vActive m = 720 then m\<lparr>pclkKHz := h_total m * v_total m * of_nat rate div 1000\<rparr>
      else (with_timings (g_dockedTimings1080p ! itr) m)\<lparr>
             vmode := (if rate \<ge> 100 then 0x400000 else 0x200000),
             unk1 := (if rate \<ge> 100 then 0x80 else 0), sync := 3, bitsPerPixel := 24\<rparr>)"

definition setNvDispDockedRefreshRate :: "nv_display \<Rightarrow> u32 \<Rightarrow> display_state \<Rightarrow> bool \<times> display_state" where
  "setNvDispDockedRefreshRate nv new_refreshRate s =
     (if isLite (g_config s) \<or> \<not> g_canChangeRefreshRateDocked s \<or> \<not> nv_open nv Disp1 then (False, s)
      else
        (case nv_mode nv Disp1 of
           None \<Rightarrow> (False, s)
         | Some m \<Rightarrow>
             if pclkKHz m = 0 \<or>
                \<not> ((vActive m = 480 \<and> hActive m = 720) \<or> (vActive m = 720 \<and> hActive m = 1280) \<or>
                   (vActive m = 1080 \<and> hActive m = 1920)) then (False, s)
             else
               (let itr = docked_index (matchLowestDocked (g_config s)) (g_dockedHighestRefreshRate s)
                            (unat new_refreshRate)
                in if unat (mode_rate m) = g_dockedRefreshRates ! itr then (True, s)
                   else (True, set_mode nv Disp1 1 (docked_mode itr m) s))))"

section \<open>The replacement panel\<close>

definition setNvDispHandheldRefreshRate :: "nv_display \<Rightarrow> u32 \<Rightarrow> display_state \<Rightarrow> bool \<times> display_state" where
  "setNvDispHandheldRefreshRate nv new_refreshRate s0 =
     (if \<not> isRetroSUPER (g_config s0) then (False, s0)
      else
        (let s = s0\<lparr>g_wasRetroSuperTurnedOff := False\<rparr> in
         if \<not> nv_open nv Disp0 then (False, s)
         else
           (case nv_mode nv Disp0 of
              None \<Rightarrow> (False, s)
            | Some m \<Rightarrow>
                if pclkKHz m = 0 \<or> \<not> (vActive m = 1280 \<and> hActive m = 720) then (False, s)
                else
                  (let r = handheld_rate (length g_handheldTimingsRETRO) (unat new_refreshRate) in
                   if r = unat (mode_rate m) then (True, s)
                   else (True, set_mode nv Disp0 5
                           (with_timings (g_handheldTimingsRETRO ! ((r - 40) div 5)) m) s)))))"

section \<open>The interface\<close>

definition display_Initialize :: "display_config \<Rightarrow> display_state \<Rightarrow> display_state" where
  "display_Initialize config s = s\<lparr>g_config := config, g_initialized := True\<rparr>"

definition SetDockedState :: "bool \<Rightarrow> display_state \<Rightarrow> display_state" where
  "SetDockedState docked s = s\<lparr>g_config := (g_config s)\<lparr>isDocked := docked\<rparr>\<rparr>"

definition Shutdown :: "display_state \<Rightarrow> display_state" where
  "Shutdown s = s\<lparr>g_initialized := False, g_config := \<lparr>has_clk = False, isDocked = False,
     isLite = False, isRetroSUPER = False, isPossiblySpoofedRetro = False,
     matchLowestDocked = False, displaySync = False\<rparr>\<rparr>"

definition SetRate :: "nv_display \<Rightarrow> u32 \<Rightarrow> display_state \<Rightarrow> bool \<times> display_state" where
  "SetRate nv new_refreshRate s =
     (let c = g_config s in
      if new_refreshRate = 0 \<or> \<not> g_initialized s then (False, s)
      else if isRetroSUPER c \<and> \<not> isDocked c then setNvDispHandheldRefreshRate nv new_refreshRate s
      else if (\<not> isRetroSUPER c \<and> isLite c) \<or> \<not> nv_open nv Disp1
      then (False, snd (setPLLDHandheldRefreshRate nv new_refreshRate s))
      else if nv_panel nv Disp1 \<noteq> 0 then
        (if \<not> isRetroSUPER c then setPLLDHandheldRefreshRate nv new_refreshRate s
         else setNvDispHandheldRefreshRate nv new_refreshRate s)
      else if isDocked c then setNvDispDockedRefreshRate nv new_refreshRate s
      else (True, s))"

definition mode_rate64 :: "NvdcMode2 \<Rightarrow> u32" where
  "mode_rate64 m =
     ucast ((ucast (pclkKHz m * 1000 + 999) :: u64) div (ucast (h_total m) * ucast (v_total m)))"

text \<open>The rate in docked mode, once it may be changed.\<close>

definition docked_rate :: "nv_display \<Rightarrow> display_state \<Rightarrow> u32 option \<times> display_state" where
  "docked_rate nv s =
     (if \<not> nv_open nv Disp1 then (Some 60, s)
      else
        (case nv_mode nv Disp1 of
           None \<Rightarrow> (Some 60, s)
         | Some m \<Rightarrow>
             if pclkKHz m = 0 then (None, s)
             else
               (let s1 = (if g_lastVActive s \<noteq> vActive m
                          then getDockedHighestRefreshRate nv (s\<lparr>g_lastVActive := vActive m\<rparr>) else s)
                in (Some (mode_rate64 m), s1))))"

definition GetRate :: "nv_display \<Rightarrow> bool \<Rightarrow> display_state \<Rightarrow> u32 option \<times> display_state" where
  "GetRate nv internal s0 =
     (let c = g_config s0; p = g_plld s0; value = (of_nat (plld_value p) :: u32);
          keep = (\<lambda>v s. (Some v, s\<lparr>g_rate_value := v\<rparr>))
      in if \<not> g_initialized s0 \<or> \<not> has_clk c then (None, s0)
         else if isRetroSUPER c \<and> \<not> isDocked c then
           (let s = s0\<lparr>g_rate_value := value\<rparr> in
            if value \<noteq> 0 \<and> value \<noteq> 80 then
              (if \<not> nv_open nv Disp0 then (None, s)
               else (case nv_mode nv Disp0 of
                       Some m \<Rightarrow> keep (mode_rate64 m) s
                     | None \<Rightarrow> (Some value, s)))
            else (Some value, s\<lparr>g_wasRetroSuperTurnedOff := True\<rparr>))
         else if \<not> isPossiblySpoofedRetro c \<or> \<not> isRetroSUPER c then
           (let s = s0\<lparr>g_rate_value := value\<rparr> in
            if value = 0 \<or> value = 80 then
              (if isLite c then (None, s)
               else
                 (let s1 = s\<lparr>g_config := c\<lparr>isDocked := True\<rparr>\<rparr>;
                      allowed = g_canChangeRefreshRateDocked s1 \<or>
                        (nv_open nv Disp1 \<and> nv_panel_0x100 nv = 0);
                      s2 = (if g_canChangeRefreshRateDocked s1 then s1
                            else (getDockedHighestRefreshRate nv s1)\<lparr>g_canChangeRefreshRateDocked := True\<rparr>)
                  in if \<not> allowed then (None, s1)
                     else if internal then (Some value, s2)
                     else (case docked_rate nv s2 of
                             (Some v, s3) \<Rightarrow> keep v s3
                           | (None, s3) \<Rightarrow> (None, s3))))
            else if \<not> isRetroSUPER c then
              keep (pixel_clock_u64 p div 3900000)
                (s\<lparr>g_config := c\<lparr>isDocked := False\<rparr>, g_canChangeRefreshRateDocked := False\<rparr>)
            else (None, s))
         else (Some (g_rate_value s0), s0))"

section \<open>Reading back the panel's rate\<close>

lemma program_plld_eq: "program_plld r p = program_plld r \<lparr>PLLD_DIVM = 0, PLLD_DIVN = 0, PLLD_SDM_DIN = 0\<rparr>"
  by (cases p) (simp add: program_plld_def Let_def)

definition plld_at :: "nat \<Rightarrow> plld" where
  "plld_at r = program_plld r \<lparr>PLLD_DIVM = 0, PLLD_DIVN = 0, PLLD_SDM_DIN = 0\<rparr>"

lemma program_plld_at: "program_plld r p = plld_at r"
  unfolding plld_at_def by (rule program_plld_eq)

text \<open>
  The clock programmed for a rate, as \<open>GetRate\<close> and as the next \<open>_setPLLDHandheldRefreshRate\<close> read
  it. The second computes in 32 bits and overflows from 69 Hz on; it then sees a rate above 80.
\<close>

lemma plld_at_read:
  "list_all (\<lambda>r. pixel_clock_u64 (plld_at r) div 3900000 = of_nat r) [40..<81]"
  by (simp add: plld_at_def program_plld_def Let_def pixel_clock_u64_def unsigned_of_int)

lemma plld_at_now:
  "list_all (\<lambda>r. let now = unat (ucast (pixel_clock_s32 (plld_at r) div 3900000) :: u16)
     in now = r \<or> 80 < now) [40..<81]"
  by (simp add: plld_at_def program_plld_def Let_def pixel_clock_s32_def)

lemma plld_at_value:
  "list_all (\<lambda>r. plld_value (plld_at r) = r - r mod 5) [40..<81]"
  by (simp add: plld_at_def program_plld_def Let_def plld_value_def)

lemma list_all_uptD: "list_all P [a..<b] \<Longrightarrow> a \<le> r \<Longrightarrow> r < b \<Longrightarrow> P r"
  by (simp add: list_all_iff)

lemma plld_atD:
  assumes "40 \<le> r" "r \<le> 80"
  shows "pixel_clock_u64 (plld_at r) div 3900000 = of_nat r"
    and "unat (ucast (pixel_clock_s32 (plld_at r) div 3900000) :: u16) = r' \<Longrightarrow> r' \<le> 80 \<Longrightarrow> r' = r"
    and "plld_value (plld_at r) = r - r mod 5"
  using list_all_uptD [OF plld_at_read, of r] list_all_uptD [OF plld_at_now, of r]
    list_all_uptD [OF plld_at_value, of r] assms by (simp_all add: Let_def)

lemma plld_value_at: "40 \<le> r \<Longrightarrow> r < 80 \<Longrightarrow> 40 \<le> plld_value (plld_at r) \<and> plld_value (plld_at r) < 80"
  using plld_atD(3) [of r] by (simp; presburger)

lemma handheld_rate_bounds: "40 \<le> handheld_rate limit r \<and> handheld_rate limit r \<le> 80"
proof (cases "find (\<lambda>i. handheld_min \<le> r * i \<and> r * i \<le> handheld_max) [2..<limit + 1]")
  case None
  then show ?thesis by (simp add: handheld_rate_def handheld_min_def handheld_max_def)
next
  case (Some i)
  then have "handheld_min \<le> r * i \<and> r * i \<le> handheld_max" by (auto simp: find_Some_iff)
  with Some show ?thesis by (simp add: handheld_rate_def handheld_min_def handheld_max_def)
qed

definition plain_panel :: "nv_display \<Rightarrow> display_state \<Rightarrow> bool" where
  "plain_panel nv s \<longleftrightarrow> g_initialized s \<and> has_clk (g_config s) \<and> \<not> isRetroSUPER (g_config s) \<and>
     \<not> isLite (g_config s) \<and> nv_open nv Disp0 \<and> nv_panel nv Disp0 = 0x75c \<and>
     nv_open nv Disp1 \<and> nv_panel nv Disp1 \<noteq> 0"

lemma setPLLD_programs:
  assumes "has_clk (g_config s)" "nv_open nv Disp0" "nv_panel nv Disp0 = 0x75c"
    and old: "g_plld s = plld_at r0" "40 \<le> r0" "r0 < 80"
  shows "setPLLDHandheldRefreshRate nv r s =
    (True, s\<lparr>g_plld := plld_at (handheld_rate 4 (unat r))\<rparr>)"
proof (cases "unat (ucast (pixel_clock_s32 (plld_at r0) div 3900000) :: u16) = handheld_rate 4 (unat r)")
  case True
  then have "handheld_rate 4 (unat r) = r0"
    using plld_atD(2) [of r0] old handheld_rate_bounds by simp
  moreover have "s\<lparr>g_plld := plld_at r0\<rparr> = s" using old(1) by (cases s) simp
  ultimately show ?thesis
    using assms True plld_value_at [of r0] by (simp add: setPLLDHandheldRefreshRate_def Let_def)
next
  case False
  then show ?thesis
    using assms plld_value_at [of r0]
    by (simp add: setPLLDHandheldRefreshRate_def Let_def program_plld_at)
qed

text \<open>
  A rate asked for the built-in panel is read back: with the clock as an earlier request left
  it, below 80 Hz, \<open>SetRate\<close> succeeds and \<open>GetRate\<close> then answers the rate chosen for the request, if
  that is below 80 Hz. The choice does not depend on the clock before.
\<close>

lemma handheld_round_trip:
  assumes panel: "plain_panel nv s" and old: "g_plld s = plld_at r0" "40 \<le> r0" "r0 < 80"
    and r: "r \<noteq> 0" "handheld_rate 4 (unat r) < 80"
  shows "\<exists>s'. SetRate nv r s = (True, s') \<and> g_plld s' = plld_at (handheld_rate 4 (unat r)) \<and>
    fst (GetRate nv internal s') = Some (of_nat (handheld_rate 4 (unat r)))"
proof -
  let ?r = "handheld_rate 4 (unat r)"
  have b: "40 \<le> ?r" "?r \<le> 80" using handheld_rate_bounds by auto
  let ?s = "s\<lparr>g_plld := plld_at ?r\<rparr>"
  have set_rate: "SetRate nv r s = (True, ?s)"
    using panel r(1) setPLLD_programs [OF _ _ _ old] by (simp add: SetRate_def plain_panel_def)
  have v: "(of_nat (plld_value (plld_at ?r)) :: u32) \<noteq> 0" "(of_nat (plld_value (plld_at ?r)) :: u32) \<noteq> 80"
    using plld_value_at [OF b(1) r(2)] by (simp_all add: word_unat_eq_iff unat_of_nat_u32)
  have "fst (GetRate nv internal ?s) = Some (pixel_clock_u64 (plld_at ?r) div 3900000)"
    using panel v by (simp add: GetRate_def plain_panel_def Let_def)
  then show ?thesis using set_rate plld_atD(1) [OF b] by simp
qed

text \<open>
  The clock of 80 Hz is the value the code takes for a docked console: once the built-in panel
  runs at 80 Hz no request changes it any more, whatever the rate.
\<close>

lemma panel_stuck_at_80:
  assumes "plain_panel nv s" "g_plld s = plld_at 80"
  shows "SetRate nv r s = (False, s)"
  using assms plld_atD(3) [of 80]
  by (simp add: SetRate_def setPLLDHandheldRefreshRate_def plain_panel_def Let_def)

section \<open>A docked screen shows what was chosen\<close>

lemma find_rev_upt:
  assumes "P 0" shows "\<exists>i. find P (rev [0..<n + 1]) = Some i \<and> i \<le> n \<and> P i"
  using assms by (induction n) (auto intro: le_SucI)

text \<open>The entry before the clamp to the screen's highest rate.\<close>

definition docked_wish :: "bool \<Rightarrow> nat \<Rightarrow> nat" where
  "docked_wish matchLowest r =
     (if r \<le> 60 \<and> 60 mod r = 0 then 4
      else (case first_index (\<lambda>v. v mod r = 0) g_dockedRefreshRates of
              Some i \<Rightarrow> i
            | None \<Rightarrow> if \<not> matchLowest then 4
                else (case first_index (\<lambda>v. r < v) g_dockedRefreshRates of Some i \<Rightarrow> i | None \<Rightarrow> 4)))"

lemma rate_index_60: "rate_index 60 = Some 4"
  by (simp add: rate_index_def g_dockedRefreshRates_def)

lemma docked_index_wish:
  "docked_index ml highest r =
    (if g_dockedRefreshRates ! docked_wish ml r > highest
     then (case find (\<lambda>i. g_dockedRefreshRates ! i \<le> highest) (rev [0..<docked_wish ml r + 1]) of
             Some i \<Rightarrow> i | None \<Rightarrow> docked_wish ml r)
     else docked_wish ml r)"
  by (simp add: docked_index_def docked_wish_def rate_index_60 Let_def split: option.split)

lemma docked_rates: "length g_dockedRefreshRates = 28" "g_dockedRefreshRates ! 0 = 40"
  "g_dockedRefreshRates ! 4 = 60" "last g_dockedRefreshRates = 240"
  by (simp_all add: g_dockedRefreshRates_def)

lemma docked_wish_bound: "docked_wish ml r < 28"
  using docked_rates(1) by (auto simp: docked_wish_def dest!: first_index_Some split: option.split)

text \<open>
  The rate for a docked screen is an entry of the table and never above what the screen allows.
  A rate that divides 60 becomes 60; a rate for which the table has a multiple becomes one, if the
  screen allows it.
\<close>

lemma docked_choice:
  assumes "40 \<le> highest"
  shows "docked_index ml highest r < length g_dockedRefreshRates \<and>
    g_dockedRefreshRates ! docked_index ml highest r \<le> highest \<and>
    (60 mod r = 0 \<and> r \<le> 60 \<and> 60 \<le> highest \<longrightarrow> g_dockedRefreshRates ! docked_index ml highest r = 60) \<and>
    (g_dockedRefreshRates ! docked_wish ml r \<le> highest \<and> (\<exists>v\<in>set g_dockedRefreshRates. r dvd v) \<longrightarrow>
       r dvd g_dockedRefreshRates ! docked_index ml highest r)"
proof -
  let ?w = "docked_wish ml r"
  obtain i where i: "find (\<lambda>i. g_dockedRefreshRates ! i \<le> highest) (rev [0..<?w + 1]) = Some i"
      "i \<le> ?w" "g_dockedRefreshRates ! i \<le> highest"
    using find_rev_upt [of "\<lambda>i. g_dockedRefreshRates ! i \<le> highest" ?w] assms docked_rates(2) by auto
  have dvd: "r dvd g_dockedRefreshRates ! ?w" if "\<exists>v\<in>set g_dockedRefreshRates. r dvd v"
  proof (cases "60 mod r = 0 \<and> r \<le> 60")
    case True
    then show ?thesis by (simp add: docked_wish_def docked_rates mod_eq_0_iff_dvd)
  next
    case False
    with that obtain j where "first_index (\<lambda>v. v mod r = 0) g_dockedRefreshRates = Some j"
      by (cases "first_index (\<lambda>v. v mod r = 0) g_dockedRefreshRates")
        (auto simp: first_index_None mod_eq_0_iff_dvd)
    with False show ?thesis
      by (auto simp: docked_wish_def mod_eq_0_iff_dvd dest: first_index_Some)
  qed
  have s60: "60 mod r = 0 \<and> r \<le> 60 \<Longrightarrow> ?w = 4" by (simp add: docked_wish_def)
  show ?thesis
    using i dvd s60 docked_wish_bound [of ml r] docked_rates by (auto simp: docked_index_wish)
qed

text \<open>Every entry of the timing table runs a 1080p screen at its rate.\<close>

definition timing_rate :: "timings \<Rightarrow> nat" where
  "timing_rate t = (t_pixelClock_kHz t * 1000 + 999) div
     ((1920 + t_hFrontPorch t + t_hSyncWidth t + t_hBackPorch t) *
      (1080 + t_vFrontPorch t + t_vSyncWidth t + t_vBackPorch t))"

definition timing_small :: "timings \<Rightarrow> bool" where
  "timing_small t \<longleftrightarrow> t_pixelClock_kHz t < 600000 \<and>
     1920 + t_hFrontPorch t + t_hSyncWidth t + t_hBackPorch t < 3000 \<and>
     1080 + t_vFrontPorch t + t_vSyncWidth t + t_vBackPorch t < 1500"

lemma timing_table_exact:
  "list_all2 (\<lambda>t r. timing_rate t = r \<and> timing_small t) g_dockedTimings1080p g_dockedRefreshRates"
  by (simp add: g_dockedTimings1080p_def g_dockedRefreshRates_def docked_timing_def timing_rate_def
      timing_small_def)

lemma mode_rate_nat:
  assumes m: "pclkKHz m = of_nat p" "h_total m = of_nat h" "v_total m = of_nat v"
    and b: "p * 1000 + 999 < 4294967296" "h < 65536" "v < 65536"
  shows "unat (mode_rate64 m) = (p * 1000 + 999) div (h * v)"
    and "unat (mode_rate m) = (p * 1000 + 999) div (h * v)"
proof -
  have hv: "h * v < 4294967296"
    using mult_strict_mono [OF b(2,3)] by simp
  have p: "unat (pclkKHz m * 1000 + 999) = p * 1000 + 999"
  proof -
    have "pclkKHz m * 1000 + 999 = (of_nat (p * 1000 + 999) :: u32)" using m(1) by simp
    then show ?thesis using b(1) by (simp only: unat_of_nat_u32)
  qed
  have u: "unat (h_total m * v_total m) = h * v"
  proof -
    have "h_total m * v_total m = (of_nat (h * v) :: u32)" using m(2,3) by simp
    then show ?thesis using hv by (simp only: unat_of_nat_u32)
  qed
  show "unat (mode_rate m) = (p * 1000 + 999) div (h * v)"
    by (simp add: mode_rate_def unat_div_distrib p u)
  have c: "(ucast (of_nat n :: u32) :: u64) = of_nat n" if "n < 65536" for n
    using that by (simp add: word_unat_eq_iff unat_of_nat_u64 unat_of_nat_u32)
  have w: "(ucast (h_total m) * ucast (v_total m) :: u64) = of_nat (h * v)"
    using m(2,3) c b(2,3) by simp
  have "unat ((ucast (pclkKHz m * 1000 + 999) :: u64) div (ucast (h_total m) * ucast (v_total m))) =
      (p * 1000 + 999) div (h * v)"
    using p hv by (simp add: w unat_div_distrib unat_of_nat_u64 del: of_nat_mult)
  moreover have "(p * 1000 + 999) div (h * v) < 4294967296"
    using b(1) div_le_dividend le_less_trans by blast
  ultimately show "unat (mode_rate64 m) = (p * 1000 + 999) div (h * v)"
    by (simp add: mode_rate64_def unsigned_ucast_eq take_bit_nat_eq_self)
qed

lemma docked_mode_1080:
  assumes "i < 28" "hActive m = 1920" "vActive m = 1080"
  shows "unat (mode_rate64 (docked_mode i m)) = g_dockedRefreshRates ! i"
proof -
  let ?t = "g_dockedTimings1080p ! i"
  have t: "timing_rate ?t = g_dockedRefreshRates ! i" "timing_small ?t"
    using timing_table_exact assms(1) docked_rates(1) by (auto simp: list_all2_conv_all_nth)
  have "unat (mode_rate64 (docked_mode i m)) = (t_pixelClock_kHz ?t * 1000 + 999) div
      ((1920 + t_hFrontPorch ?t + t_hSyncWidth ?t + t_hBackPorch ?t) *
       (1080 + t_vFrontPorch ?t + t_vSyncWidth ?t + t_vBackPorch ?t))"
    using t(2) assms(2,3)
    by (intro mode_rate_nat(1))
      (simp_all add: docked_mode_def with_timings_def h_total_def v_total_def Let_def timing_small_def)
  then show ?thesis using t(1) by (simp add: timing_rate_def)
qed

text \<open>On a 720p screen the pixel clock is computed, rounded down to kHz; the rate read back rounds up.\<close>

lemma kHz_round_trip:
  fixes total rate :: nat
  assumes "999 < total"
  shows "((total * rate div 1000) * 1000 + 999) div total = rate"
proof -
  have le: "total * rate \<le> (total * rate div 1000) * 1000 + 999"
    using div_mult_mod_eq [of "total * rate" 1000] mod_less_divisor [of 1000 "total * rate"] by linarith
  have lt: "(total * rate div 1000) * 1000 + 999 < total * rate + total"
    using assms div_times_less_eq_dividend [of "total * rate" 1000] by linarith
  show ?thesis
    by (rule div_nat_eqI) (use le lt in \<open>simp_all add: algebra_simps\<close>)
qed

lemma docked_rate_range: "i < 28 \<Longrightarrow> 40 \<le> g_dockedRefreshRates ! i \<and> g_dockedRefreshRates ! i \<le> 240"
proof -
  have "list_all (\<lambda>v. 40 \<le> v \<and> v \<le> 240) g_dockedRefreshRates" by (simp add: g_dockedRefreshRates_def)
  then show "i < 28 \<Longrightarrow> 40 \<le> g_dockedRefreshRates ! i \<and> g_dockedRefreshRates ! i \<le> 240"
    using docked_rates(1) by (simp add: list_all_length)
qed

lemma docked_mode_720:
  assumes i: "i < 28" and m: "vActive m = 720" "h_total m = of_nat h" "v_total m = of_nat v"
    and b: "h < 65536" "v < 65536" "999 < h * v" "h * v < 17000000"
  shows "unat (mode_rate64 (docked_mode i m)) = g_dockedRefreshRates ! i"
proof -
  let ?r = "g_dockedRefreshRates ! i"
  have "h * v * ?r \<le> h * v * 240" using docked_rate_range [OF i] by simp
  then have small: "h * v * ?r < 4294966297" using b(4) by linarith
  have "pclkKHz (docked_mode i m) = of_nat (h * v * ?r) div 1000"
    using m by (simp add: docked_mode_def Let_def)
  also have "\<dots> = of_nat (h * v * ?r div 1000)"
    using small by (simp add: word_unat_eq_iff unat_div_distrib unat_of_nat_u32 del: of_nat_mult)
  finally have p: "pclkKHz (docked_mode i m) = of_nat (h * v * ?r div 1000)" .
  have "h_total (docked_mode i m) = of_nat h" "v_total (docked_mode i m) = of_nat v"
    using m by (simp_all add: docked_mode_def Let_def h_total_def v_total_def)
  moreover have "h * v * ?r div 1000 * 1000 + 999 < 4294967296"
    using small div_times_less_eq_dividend [of "h * v * ?r" 1000] by linarith
  ultimately have "unat (mode_rate64 (docked_mode i m)) = (h * v * ?r div 1000 * 1000 + 999) div (h * v)"
    using p b(1,2) by (intro mode_rate_nat(1)) simp_all
  also have "\<dots> = ?r" using b(3) by (intro kHz_round_trip) simp_all
  finally show ?thesis .
qed

text \<open>What the screen allows is at least 60 and at most the top of the table.\<close>

lemma docked_highest_bounds:
  "60 \<le> g_dockedHighestRefreshRate (getDockedHighestRefreshRate nv s) \<and>
   g_dockedHighestRefreshRate (getDockedHighestRefreshRate nv s) \<le> 240"
proof -
  have "n \<le> fold (\<lambda>m h. if hActive m < 1920 \<or> vActive m < 1080 then h
      else if h < rounded_rate m then rounded_rate m else h) ms n" for ms and n :: nat
    by (induction ms arbitrary: n) (auto intro: order_trans [OF less_imp_le])
  from this [of 60] show ?thesis
    by (simp add: getDockedHighestRefreshRate_def docked_rates Let_def)
qed

definition docked_1080p :: "nv_display \<Rightarrow> display_state \<Rightarrow> NvdcMode2 \<Rightarrow> bool" where
  "docked_1080p nv s m \<longleftrightarrow> g_initialized s \<and> isDocked (g_config s) \<and> \<not> isLite (g_config s) \<and>
     g_canChangeRefreshRateDocked s \<and> 40 \<le> g_dockedHighestRefreshRate s \<and>
     nv_open nv Disp1 \<and> nv_panel nv Disp1 = 0 \<and> nv_mode nv Disp1 = Some m \<and> nv_validate nv = (\<lambda>_. True) \<and>
     pclkKHz m \<noteq> 0 \<and> hActive m = 1920 \<and> vActive m = 1080"

definition docked_target :: "display_state \<Rightarrow> u32 \<Rightarrow> nat" where
  "docked_target s r = g_dockedRefreshRates !
     docked_index (matchLowestDocked (g_config s)) (g_dockedHighestRefreshRate s) (unat r)"


section \<open>The replacement panel's table\<close>

definition retro_rate :: "timings \<Rightarrow> nat" where
  "retro_rate t = (t_pixelClock_kHz t * 1000 + 999) div
     ((720 + t_hFrontPorch t + t_hSyncWidth t + t_hBackPorch t) *
      (1280 + t_vFrontPorch t + t_vSyncWidth t + t_vBackPorch t))"

lemma retro_table:
  "list_all2 (\<lambda>t r. retro_rate t = r \<and> t_pixelClock_kHz t < 80000 \<and>
      720 + t_hFrontPorch t + t_hSyncWidth t + t_hBackPorch t < 2000 \<and>
      1280 + t_vFrontPorch t + t_vSyncWidth t + t_vBackPorch t < 2000)
    g_handheldTimingsRETRO [40..<61]"
  by (simp add: g_handheldTimingsRETRO_def handheld_timing_def retro_rate_def)

text \<open>
  The table has one entry per Hz from 40 to 60 but is indexed by steps of 5 Hz. A request for
  \<open>r\<close> Hz sets a mode of \<open>40 + (r - 40) div 5\<close> Hz: 44 Hz for 60, and never more than 48 Hz.
\<close>

lemma retro_request_shown:
  assumes s: "g_initialized s" "isRetroSUPER (g_config s)" "\<not> isDocked (g_config s)" "r \<noteq> 0"
    and m: "nv_open nv Disp0" "nv_mode nv Disp0 = Some m" "nv_validate nv = (\<lambda>_. True)" "pclkKHz m \<noteq> 0"
      "vActive m = 1280" "hActive m = 720" "handheld_rate 21 (unat r) \<noteq> unat (mode_rate m)"
  shows "\<exists>m'. modes_set (snd (SetRate nv r s)) = modes_set s @ replicate 5 (Disp0, m') \<and>
    unat (mode_rate64 m') = 40 + (handheld_rate 21 (unat r) - 40) div 5"
proof -
  let ?i = "(handheld_rate 21 (unat r) - 40) div 5"
  let ?t = "g_handheldTimingsRETRO ! ?i"
  have len: "length g_handheldTimingsRETRO = 21" by (simp add: g_handheldTimingsRETRO_def)
  have i: "?i < 21" using handheld_rate_bounds [of 21 "unat r"] by auto
  then have t: "retro_rate ?t = 40 + ?i" "t_pixelClock_kHz ?t < 80000"
      "720 + t_hFrontPorch ?t + t_hSyncWidth ?t + t_hBackPorch ?t < 2000"
      "1280 + t_vFrontPorch ?t + t_vSyncWidth ?t + t_vBackPorch ?t < 2000"
    using list_all2_nthD [OF retro_table, of ?i] len by (simp_all add: nth_upt del: upt_rec_numeral)
  have "unat (mode_rate64 (with_timings ?t m)) = (t_pixelClock_kHz ?t * 1000 + 999) div
      ((720 + t_hFrontPorch ?t + t_hSyncWidth ?t + t_hBackPorch ?t) *
       (1280 + t_vFrontPorch ?t + t_vSyncWidth ?t + t_vBackPorch ?t))"
    using t(2-4) m(5,6)
    by (intro mode_rate_nat(1)) (simp_all add: with_timings_def h_total_def v_total_def)
  then have "unat (mode_rate64 (with_timings ?t m)) = 40 + ?i" using t(1) by (simp add: retro_rate_def)
  with s m len show ?thesis
    by (auto simp: SetRate_def setNvDispHandheldRefreshRate_def set_mode_def Let_def)
qed

section \<open>Witnesses\<close>

definition demo_mode :: NvdcMode2 where
  "demo_mode = \<lparr>hActive = 1920, vActive = 1080, hSyncWidth = 44, vSyncWidth = 5, hFrontPorch = 88,
     vFrontPorch = 4, hBackPorch = 148, vBackPorch = 36, pclkKHz = 148500, bitsPerPixel = 24,
     vmode = 0x200000, sync = 3, unk1 = 0\<rparr>"

definition demo_nv :: "u32 \<Rightarrow> NvdcMode2 \<Rightarrow> nv_display" where
  "demo_nv panel1 m = \<lparr>nv_open = (\<lambda>_. True), nv_panel = (\<lambda>h. if h = Disp0 then 0x75c else panel1),
     nv_panel_0x100 = 0, nv_mode = (\<lambda>_. Some m), nv_mode_db = Some [m], nv_validate = (\<lambda>_. True)\<rparr>"

definition demo_display :: "bool \<Rightarrow> bool \<Rightarrow> nat \<Rightarrow> display_state" where
  "demo_display docked retro r = \<lparr>g_config = \<lparr>has_clk = True, isDocked = docked, isLite = False,
       isRetroSUPER = retro, isPossiblySpoofedRetro = False, matchLowestDocked = False, displaySync = False\<rparr>,
     g_initialized = True, g_dockedHighestRefreshRate = 75, g_wasRetroSuperTurnedOff = False,
     g_lastVActive = 1080, g_canChangeRefreshRateDocked = True, g_rate_value = 60, g_plld = plld_at r,
     modes_set = []\<rparr>"

lemma handheld_round_trip_witness:
  "\<exists>s'. SetRate (demo_nv 1 demo_mode) 24 (demo_display False False 60) = (True, s') \<and>
    g_plld s' = plld_at 48 \<and> fst (GetRate (demo_nv 1 demo_mode) True s') = Some 48"
proof -
  have r: "handheld_rate 4 24 = 48" by (simp add: handheld_rate_def handheld_min_def handheld_max_def)
  show ?thesis
    using handheld_round_trip [of "demo_nv 1 demo_mode" "demo_display False False 60" 60 24 True]
    by (simp add: r plain_panel_def demo_nv_def demo_display_def)
qed

lemma docked_choice_witness: "g_dockedRefreshRates ! docked_index False 75 30 = 60"
  using docked_choice [of 75 False 30] by simp


lemma retro_request_shown_witness:
  "\<exists>m'. modes_set (snd (SetRate (demo_nv 1 (demo_mode\<lparr>hActive := 720, vActive := 1280\<rparr>)) 60
      (demo_display False True 60))) = replicate 5 (Disp0, m') \<and> unat (mode_rate64 m') = 44"
proof -
  let ?m = "demo_mode\<lparr>hActive := 720, vActive := 1280\<rparr>"
  have r: "handheld_rate 21 60 = 60" by (simp add: handheld_rate_def handheld_min_def handheld_max_def)
  have now: "unat (mode_rate ?m) \<noteq> 60"
    by (simp add: mode_rate_def h_total_def v_total_def demo_mode_def)
  show ?thesis
    using retro_request_shown [of "demo_display False True 60" 60 "demo_nv 1 ?m" ?m] now
    by (simp add: r demo_nv_def demo_display_def) (simp add: demo_mode_def)
qed

end
