(* ===== verification/Loader_Customize.thy ===== *)
theory Loader_Customize
  imports Kip_File
begin

text \<open>
  The settings as the loader sees them, \<open>oc/customize.hpp\<close> and \<open>oc/customize.cpp\<close>: the record, the
  frequency and voltage tables with their default contents, the end of a table
  (\<open>pcv_common.hpp\<close>), and the word order of the packed block that the system module patches in the
  file.
\<close>

section \<open>Voltage tables\<close>

text \<open>
  An entry is a frequency in kHz and six coefficients for each of the two clock sources, signed
  32-bit words. In memory it takes fourteen words.
\<close>

record cvb_entry =
  cvb_freq :: u64
  cvb_dfll :: "u32 list"
  cvb_pll :: "u32 list"

definition coeffs :: "int list \<Rightarrow> u32 list" where
  "coeffs cs = take 6 (map word_of_int cs @ replicate 6 0)"

definition cvb :: "nat \<Rightarrow> int list \<Rightarrow> int list \<Rightarrow> cvb_entry" where
  "cvb f dfll pll = \<lparr>cvb_freq = of_nat f, cvb_dfll = coeffs dfll, cvb_pll = coeffs pll\<rparr>"

definition cvb_words :: "cvb_entry \<Rightarrow> u32 list" where
  "cvb_words e = [ucast (cvb_freq e), ucast (drop_bit 32 (cvb_freq e))] @ cvb_dfll e @ cvb_pll e"

definition DvfsTableEntryCount :: nat where "DvfsTableEntryCount = 32"
definition DvfsTableEntryLimit :: nat where "DvfsTableEntryLimit = 31"

text \<open>A list stands for the array up to its first empty entry; what follows is zero.\<close>

definition is_empty_entry :: "cvb_entry \<Rightarrow> bool" where
  "is_empty_entry e \<longleftrightarrow> list_all (\<lambda>w. w = 0) (cvb_words e)"

definition GetDvfsTableEntryCount :: "cvb_entry list \<Rightarrow> nat" where
  "GetDvfsTableEntryCount t =
     length (takeWhile (\<lambda>e. \<not> is_empty_entry e) (take DvfsTableEntryLimit t))"

definition GetDvfsTableLastEntry :: "cvb_entry list \<Rightarrow> cvb_entry option" where
  "GetDvfsTableLastEntry t =
     (let count = GetDvfsTableEntryCount t in if count = 0 then None else Some (t ! (count - 1)))"

text \<open>The frequency of the last entry as 32 bits; reading it of an empty table is a null access.\<close>

definition last_freq :: "cvb_entry list \<Rightarrow> u32" where
  "last_freq t = (case GetDvfsTableLastEntry t of Some e \<Rightarrow> ucast (cvb_freq e) | None \<Rightarrow> 0)"

section \<open>The tables\<close>

definition mariko_CpuCvbTableDefault :: "cvb_entry list" where
  "mariko_CpuCvbTableDefault = [
     cvb 204000 [721589, -12695, 27] [],
     cvb 306000 [747134, -14195, 27] [],
     cvb 408000 [776324, -15705, 27] [],
     cvb 510000 [809160, -17205, 27] [],
     cvb 612000 [845641, -18715, 27] [],
     cvb 714000 [885768, -20215, 27] [],
     cvb 816000 [929540, -21725, 27] [],
     cvb 918000 [976958, -23225, 27] [],
     cvb 1020000 [1028021, -24725, 27] [1120000],
     cvb 1122000 [1082730, -26235, 27] [1120000],
     cvb 1224000 [1141084, -27735, 27] [1120000],
     cvb 1326000 [1203084, -29245, 27] [1120000],
     cvb 1428000 [1268729, -30745, 27] [1120000],
     cvb 1581000 [1374032, -33005, 27] [1120000],
     cvb 1683000 [1448791, -34505, 27] [1120000],
     cvb 1785000 [1527196, -36015, 27] [1120000],
     cvb 1887000 [1609246, -37515, 27] [1120000],
     cvb 1963500 [1675751, -38635, 27] [1120000]]"

definition mariko_GpuCvbTableDefault :: "cvb_entry list" where
  "mariko_GpuCvbTableDefault = [
     cvb 76800 [] [610000],
     cvb 153600 [] [610000],
     cvb 230400 [] [610000],
     cvb 307200 [] [610000],
     cvb 384000 [] [610000],
     cvb 460800 [] [610000],
     cvb 537600 [] [801688, -10900, -163, 298, -10599, 162],
     cvb 614400 [] [824214, -5743, -452, 238, -6325, 81],
     cvb 691200 [] [848830, -3903, -552, 119, -4030, -2],
     cvb 768000 [] [891575, -4409, -584, 0, -2849, 39],
     cvb 844800 [] [940071, -5367, -602, -60, -63, -93],
     cvb 921600 [] [986765, -6637, -614, -179, 1905, -13],
     cvb 998400 [] [1098475, -13529, -497, -179, 3626, 9],
     cvb 1075200 [] [1163644, -12688, -648, 0, 1077, 40],
     cvb 1152000 [] [1204812, -9908, -830, 0, 1469, 110],
     cvb 1228800 [] [1277303, -11675, -859, 0, 3722, 313],
     cvb 1267200 [] [1335531, -12567, -867, 0, 3681, 559]]"

definition erista_CpuCvbTableDefault :: "cvb_entry list" where
  "erista_CpuCvbTableDefault = [
     cvb 204000 [721094] [],
     cvb 306000 [754040] [],
     cvb 408000 [786986] [],
     cvb 510000 [819932] [],
     cvb 612000 [852878] [],
     cvb 714000 [885824] [],
     cvb 816000 [918770] [],
     cvb 918000 [951716] [],
     cvb 1020000 [984662] [-2875621, 358099, -8585],
     cvb 1122000 [1017608] [-52225, 104159, -2816],
     cvb 1224000 [1050554] [1076868, 8356, -727],
     cvb 1326000 [1083500] [2208191, -84659, 1240],
     cvb 1428000 [1116446] [2519460, -105063, 1611],
     cvb 1581000 [1130000] [2889664, -122173, 1834],
     cvb 1683000 [1168000] [5100873, -279186, 4747],
     cvb 1785000 [1227500] [5100873, -279186, 4747]]"

definition erista_GpuCvbTableDefault :: "cvb_entry list" where
  "erista_GpuCvbTableDefault = [
     cvb 76800 [] [814294, 8144, -940, 808, -21583, 226],
     cvb 153600 [] [856185, 8144, -940, 808, -21583, 226],
     cvb 230400 [] [898077, 8144, -940, 808, -21583, 226],
     cvb 307200 [] [939968, 8144, -940, 808, -21583, 226],
     cvb 384000 [] [981860, 8144, -940, 808, -21583, 226],
     cvb 460800 [] [1023751, 8144, -940, 808, -21583, 226],
     cvb 537600 [] [1065642, 8144, -940, 808, -21583, 226],
     cvb 614400 [] [1107534, 8144, -940, 808, -21583, 226],
     cvb 691200 [] [1149425, 8144, -940, 808, -21583, 226],
     cvb 768000 [] [1191317, 8144, -940, 808, -21583, 226],
     cvb 844800 [] [1233208, 8144, -940, 808, -21583, 226],
     cvb 921600 [] [1275100, 8144, -940, 808, -21583, 226]]"

definition eristaCpuDvfsTable_default :: "cvb_entry list" where
  "eristaCpuDvfsTable_default = [
     cvb 204000 [721094] [],
     cvb 306000 [754040] [],
     cvb 408000 [786986] [],
     cvb 510000 [819932] [],
     cvb 612000 [852878] [],
     cvb 714000 [885824] [],
     cvb 816000 [918770] [],
     cvb 918000 [951716] [],
     cvb 1020000 [984662] [-2875621, 358099, -8585],
     cvb 1122000 [1017608] [-52225, 104159, -2816],
     cvb 1224000 [1050554] [1076868, 8356, -727],
     cvb 1326000 [1083500] [2208191, -84659, 1240],
     cvb 1428000 [1116446] [2519460, -105063, 1611],
     cvb 1581000 [1130000] [2889664, -122173, 1834],
     cvb 1683000 [1168000] [5100873, -279186, 4747],
     cvb 1785000 [1225000] [5100873, -279186, 4747],
     cvb 1887000 [1225000] [5100873, -279186, 4747],
     cvb 1989000 [1227500] [5100873, -279186, 4747],
     cvb 2091000 [1256250] [5100873, -279186, 4747]]"

definition eristaCpuDvfsTableSLT_default :: "cvb_entry list" where
  "eristaCpuDvfsTableSLT_default = [
     cvb 204000 [721094] [],
     cvb 306000 [754040] [],
     cvb 408000 [786986] [],
     cvb 510000 [819932] [],
     cvb 612000 [852878] [],
     cvb 714000 [885824] [],
     cvb 816000 [918770] [],
     cvb 918000 [951716] [],
     cvb 1020000 [984662] [-2875621, 358099, -8585],
     cvb 1122000 [1017608] [-52225, 104159, -2816],
     cvb 1224000 [1050554] [1076868, 8356, -727],
     cvb 1326000 [1083500] [2208191, -84659, 1240],
     cvb 1428000 [1116446] [2519460, -105063, 1611],
     cvb 1581000 [1130000] [2889664, -122173, 1834],
     cvb 1683000 [1168000] [5100873, -279186, 4747],
     cvb 1785000 [1225000] [5100873, -279186, 4747],
     cvb 1887000 [1225000] [5100873, -279186, 4747],
     cvb 1989000 [1227500] [5100873, -279186, 4747],
     cvb 2091000 [1227500] [5100873, -279186, 4747],
     cvb 2193000 [1227500] [5100873, -279186, 4747],
     cvb 2295000 [1256250] [5100873, -279186, 4747],
     cvb 2397000 [1256250] [5100873, -279186, 4747]]"

definition marikoCpuDvfsTable_default :: "cvb_entry list" where
  "marikoCpuDvfsTable_default = [
     cvb 204000 [721589, -12695, 27] [],
     cvb 306000 [747134, -14195, 27] [],
     cvb 408000 [776324, -15705, 27] [],
     cvb 510000 [809160, -17205, 27] [],
     cvb 612000 [845641, -18715, 27] [],
     cvb 714000 [885768, -20215, 27] [],
     cvb 816000 [929540, -21725, 27] [],
     cvb 918000 [976958, -23225, 27] [],
     cvb 1020000 [1028021, -24725, 27] [1120000],
     cvb 1122000 [1082730, -26235, 27] [1120000],
     cvb 1224000 [1141084, -27735, 27] [1120000],
     cvb 1326000 [1203084, -29245, 27] [1120000],
     cvb 1428000 [1268729, -30745, 27] [1120000],
     cvb 1581000 [1374032, -33005, 27] [1120000],
     cvb 1683000 [1448791, -34505, 27] [1120000],
     cvb 1785000 [1527196, -36015, 27] [1120000],
     cvb 1887000 [1609246, -37515, 27] [1120000],
     cvb 1963500 [1675751, -38635, 27] [1120000]]"

definition marikoCpuDvfsTableSLT_default :: "cvb_entry list" where
  "marikoCpuDvfsTableSLT_default = [
     cvb 204000 [732856, -17335, 113] [],
     cvb 306000 [760024, -18195, 113] [],
     cvb 408000 [789258, -19055, 113] [],
     cvb 510000 [789258, -19055, 113] [],
     cvb 612000 [789258, -19055, 113] [],
     cvb 714000 [789258, -19055, 113] [],
     cvb 816000 [789258, -19055, 113] [],
     cvb 918000 [820558, -19055, 113] [],
     cvb 1020000 [853926, -20775, 113] [1120000],
     cvb 1122000 [889361, -21625, 113] [1120000],
     cvb 1224000 [926862, -22485, 113] [1120000],
     cvb 1326000 [926862, -22485, 113] [1120000],
     cvb 1428000 [926862, -22485, 113] [1120000],
     cvb 1581000 [966431, -23345, 113] [1120000],
     cvb 1683000 [1097537, -25925, 113] [1120000],
     cvb 1785000 [1145373, -26785, 113] [1120000],
     cvb 1887000 [1195276, -27645, 113] [1120000],
     cvb 1963500 [1274006, -29795, 113] [1120000],
     cvb 2091000 [1349076, -33235, 113] [1200000],
     cvb 2193000 [1386213, -33235, 113] [1200000],
     cvb 2295000 [1445416, -34095, 113] [1200000],
     cvb 2397000 [1490873, -34955, 113] [1200000],
     cvb 2499000 [1580725, -35815, 113] [1200000],
     cvb 2601000 [1702903, -36675, 113] [1200000],
     cvb 2703000 [1770375, -37515, 113] [1200000]]"

definition marikoCpuDvfsTable1581Tbreak_default :: "cvb_entry list" where
  "marikoCpuDvfsTable1581Tbreak_default = [
     cvb 204000 [732856, -17335, 113] [],
     cvb 306000 [760024, -18195, 113] [],
     cvb 408000 [789258, -19055, 113] [],
     cvb 510000 [789258, -19055, 113] [],
     cvb 612000 [853926, -20775, 113] [],
     cvb 714000 [889361, -21625, 113] [],
     cvb 816000 [926862, -22485, 113] [],
     cvb 918000 [966431, -23345, 113] [],
     cvb 1020000 [1008066, -24205, 113] [1120000],
     cvb 1122000 [1008066, -24205, 113] [1120000],
     cvb 1224000 [1008066, -24205, 113] [1120000],
     cvb 1326000 [1008066, -24205, 113] [1120000],
     cvb 1428000 [1008066, -24205, 113] [1120000],
     cvb 1581000 [1274006, -28935, 113] [1120000],
     cvb 1683000 [1329076, -29795, 113] [1120000],
     cvb 1785000 [1386213, -30655, 113] [1120000],
     cvb 1887000 [1445416, -31515, 113] [1120000],
     cvb 1963500 [1490873, -32155, 113] [1120000],
     cvb 2091000 [1580725, -33235, 113] [1200000],
     cvb 2193000 [1580725, -33235, 113] [1200000],
     cvb 2295000 [1635431, -34095, 113] [1200000],
     cvb 2397000 [1702903, -34955, 113] [1200000],
     cvb 2499000 [1736856, -35286, 113] [1200000],
     cvb 2601000 [1787838, -35967, 113] [1200000],
     cvb 2703000 [1838820, -36648, 113] [1200000]]"

definition marikoCpuDvfsTable1683Tbreak_default :: "cvb_entry list" where
  "marikoCpuDvfsTable1683Tbreak_default = [
     cvb 204000 [732856, -17335, 113] [],
     cvb 306000 [760024, -18195, 113] [],
     cvb 408000 [789258, -19055, 113] [],
     cvb 510000 [789258, -19055, 113] [],
     cvb 612000 [853926, -20775, 113] [],
     cvb 714000 [889361, -21625, 113] [],
     cvb 816000 [926862, -22485, 113] [],
     cvb 918000 [966431, -23345, 113] [],
     cvb 1020000 [1008066, -24205, 113] [1120000],
     cvb 1122000 [1008066, -24205, 113] [1120000],
     cvb 1224000 [1008066, -24205, 113] [1120000],
     cvb 1326000 [1008066, -24205, 113] [1120000],
     cvb 1428000 [1008066, -24205, 113] [1120000],
     cvb 1581000 [1008066, -24205, 113] [1120000],
     cvb 1683000 [1329076, -29795, 113] [1120000],
     cvb 1785000 [1386213, -30655, 113] [1120000],
     cvb 1887000 [1445416, -31515, 113] [1120000],
     cvb 1963500 [1490873, -32155, 113] [1120000],
     cvb 2091000 [1580725, -33235, 113] [1200000],
     cvb 2193000 [1580725, -33235, 113] [1200000],
     cvb 2295000 [1635431, -34095, 113] [1200000],
     cvb 2397000 [1702903, -34955, 113] [1200000],
     cvb 2499000 [1736856, -35286, 113] [1200000],
     cvb 2601000 [1787838, -35967, 113] [1200000],
     cvb 2703000 [1838820, -36648, 113] [1200000]]"

definition marikoCpuDvfsTableExtreme_default :: "cvb_entry list" where
  "marikoCpuDvfsTableExtreme_default = [
     cvb 204000 [732856, -17335, 113] [],
     cvb 306000 [760024, -18195, 113] [],
     cvb 408000 [789258, -19055, 113] [],
     cvb 510000 [789258, -19915, 113] [],
     cvb 612000 [789258, -19055, 113] [],
     cvb 714000 [820558, -19915, 113] [],
     cvb 816000 [853926, -20775, 113] [],
     cvb 918000 [889361, -21625, 113] [],
     cvb 1020000 [926862, -22485, 113] [1120000],
     cvb 1122000 [926862, -22485, 113] [1120000],
     cvb 1224000 [926862, -22485, 113] [1120000],
     cvb 1326000 [966431, -23345, 113] [1120000],
     cvb 1428000 [1008066, -24205, 113] [1120000],
     cvb 1581000 [1051768, -25065, 113] [1120000],
     cvb 1683000 [1097537, -25925, 113] [1120000],
     cvb 1785000 [1145373, -26785, 113] [1120000],
     cvb 1887000 [1195276, -27645, 113] [1120000],
     cvb 1963500 [1274006, -29795, 113] [1120000],
     cvb 2091000 [1349076, -33235, 113] [1200000],
     cvb 2193000 [1386213, -33235, 113] [1200000],
     cvb 2295000 [1445416, -34095, 113] [1200000],
     cvb 2397000 [1490873, -34955, 113] [1200000],
     cvb 2499000 [1580725, -35815, 113] [1200000],
     cvb 2601000 [1702903, -36675, 113] [1200000],
     cvb 2703000 [1775375, -37515, 113] [1200000]]"

definition eristaGpuDvfsTable_default :: "cvb_entry list" where
  "eristaGpuDvfsTable_default = [
     cvb 76800 [] [814294, 8144, -940, 808, -21583, 226],
     cvb 115200 [] [856185, 8144, -940, 808, -21583, 226],
     cvb 153600 [] [856185, 8144, -940, 808, -21583, 226],
     cvb 192000 [] [898077, 8144, -940, 808, -21583, 226],
     cvb 230400 [] [898077, 8144, -940, 808, -21583, 226],
     cvb 268800 [] [939968, 8144, -940, 808, -21583, 226],
     cvb 307200 [] [939968, 8144, -940, 808, -21583, 226],
     cvb 345600 [] [981860, 8144, -940, 808, -21583, 226],
     cvb 384000 [] [981860, 8144, -940, 808, -21583, 226],
     cvb 422400 [] [1023751, 8144, -940, 808, -21583, 226],
     cvb 460800 [] [1023751, 8144, -940, 808, -21583, 226],
     cvb 499200 [] [1065642, 8144, -940, 808, -21583, 226],
     cvb 537600 [] [1065642, 8144, -940, 808, -21583, 226],
     cvb 576000 [] [1107534, 8144, -940, 808, -21583, 226],
     cvb 614400 [] [1107534, 8144, -940, 808, -21583, 226],
     cvb 652800 [] [1149425, 8144, -940, 808, -21583, 226],
     cvb 691200 [] [1149425, 8144, -940, 808, -21583, 226],
     cvb 729600 [] [1191317, 8144, -940, 808, -21583, 226],
     cvb 768000 [] [1191317, 8144, -940, 808, -21583, 226],
     cvb 806400 [] [1233208, 8144, -940, 808, -21583, 226],
     cvb 844800 [] [1233208, 8144, -940, 808, -21583, 226],
     cvb 883200 [] [1275100, 8144, -940, 808, -21583, 226],
     cvb 921600 [] [1275100, 8144, -940, 808, -21583, 226]]"

definition eristaGpuDvfsTableSLT_default :: "cvb_entry list" where
  "eristaGpuDvfsTableSLT_default = [
     cvb 76800 [] [814294, 8144, -940, 0, 0, 226],
     cvb 115200 [] [856185, 8144, -940, 0, 0, 226],
     cvb 153600 [] [856185, 8144, -940, 0, 0, 226],
     cvb 192000 [] [908077, 8144, -940, 0, 0, 226],
     cvb 230400 [] [908077, 8144, -940, 0, 0, 226],
     cvb 268800 [] [934968, 8144, -940, 0, 0, 226],
     cvb 307200 [] [934968, 8144, -940, 0, 0, 226],
     cvb 345600 [] [952860, 8144, -940, 0, 0, 226],
     cvb 384000 [] [952860, 8144, -940, 0, 0, 226],
     cvb 422400 [] [978751, 8144, -940, 0, 0, 226],
     cvb 460800 [] [978751, 8144, -940, 0, 0, 226],
     cvb 499200 [] [990642, 8144, -940, 0, 0, 226],
     cvb 537600 [] [990642, 8144, -940, 0, 0, 226],
     cvb 576000 [] [1017534, 8144, -940, 0, 0, 226],
     cvb 614400 [] [1017534, 8144, -940, 0, 0, 226],
     cvb 652800 [] [1042425, 8144, -940, 0, 0, 226],
     cvb 691200 [] [1042425, 8144, -940, 0, 0, 226],
     cvb 729600 [] [1066317, 8144, -940, 0, 0, 226],
     cvb 768000 [] [1066317, 8144, -940, 0, 0, 226],
     cvb 806400 [] [1093208, 8144, -940, 0, 0, 226],
     cvb 844800 [] [1093208, 8144, -940, 0, 0, 226],
     cvb 883200 [] [1118100, 8144, -940, 0, 0, 226],
     cvb 921600 [] [1118100, 8144, -940, 0, 0, 226],
     cvb 960000 [] [1156991, 8144, -940, 0, 0, 226]]"

definition eristaGpuDvfsTableHiOPT_default :: "cvb_entry list" where
  "eristaGpuDvfsTableHiOPT_default = [
     cvb 76800 [] [814294, 8144, -940, 0, 0, 226],
     cvb 115200 [] [856185, 8144, -940, 0, 0, 226],
     cvb 153600 [] [856185, 8144, -940, 0, 0, 226],
     cvb 192000 [] [908077, 8144, -940, 0, 0, 226],
     cvb 230400 [] [908077, 8144, -940, 0, 0, 226],
     cvb 268800 [] [934968, 8144, -940, 0, 0, 226],
     cvb 307200 [] [934968, 8144, -940, 0, 0, 226],
     cvb 345600 [] [952860, 8144, -940, 0, 0, 226],
     cvb 384000 [] [952860, 8144, -940, 0, 0, 226],
     cvb 422400 [] [978751, 8144, -940, 0, 0, 226],
     cvb 460800 [] [978751, 8144, -940, 0, 0, 226],
     cvb 499200 [] [990642, 8144, -940, 0, 0, 226],
     cvb 537600 [] [990642, 8144, -940, 0, 0, 226],
     cvb 576000 [] [1017534, 8144, -940, 0, 0, 226],
     cvb 614400 [] [1017534, 8144, -940, 0, 0, 226],
     cvb 652800 [] [1042425, 8144, -940, 0, 0, 226],
     cvb 691200 [] [1042425, 8144, -940, 0, 0, 226],
     cvb 729600 [] [1066317, 8144, -940, 0, 0, 226],
     cvb 768000 [] [1066317, 8144, -940, 0, 0, 226],
     cvb 806400 [] [1093208, 8144, -940, 0, 0, 226],
     cvb 844800 [] [1093208, 8144, -940, 0, 0, 226],
     cvb 883200 [] [1118100, 8144, -940, 0, 0, 226],
     cvb 921600 [] [1118100, 8144, -940, 0, 0, 226],
     cvb 960000 [] [1156991, 8144, -940, 0, 0, 226],
     cvb 998400 [] [1156991, 8144, -940, 0, 0, 226],
     cvb 1036800 [] [],
     cvb 1075200 [] []]"

definition marikoGpuDvfsTable_default :: "cvb_entry list" where
  "marikoGpuDvfsTable_default = [
     cvb 76800 [] [480000],
     cvb 153600 [] [480000],
     cvb 230400 [] [480000],
     cvb 307200 [] [738712, -7304, -552, 119, -3750, -2],
     cvb 384000 [] [758712, -7304, -552, 119, -3750, -2],
     cvb 460800 [] [778712, -7304, -552, 119, -3750, -2],
     cvb 537600 [] [798712, -7304, -552, 119, -3750, -2],
     cvb 614400 [] [818712, -7304, -552, 119, -3750, -2],
     cvb 691200 [] [838712, -7304, -552, 119, -3750, -2],
     cvb 768000 [] [880210, -7955, -584, 0, -2849, 39],
     cvb 844800 [] [926398, -8892, -602, -60, -384, -93],
     cvb 921600 [] [970060, -10108, -614, -179, 1508, -13],
     cvb 998400 [] [1065665, -16075, -497, -179, 3213, 9],
     cvb 1075200 [] [1132576, -16093, -648, 0, 1077, 40]]"

definition marikoGpuDvfsTableSLT_default :: "cvb_entry list" where
  "marikoGpuDvfsTableSLT_default = [
     cvb 76800 [] [480000],
     cvb 153600 [] [480000],
     cvb 230400 [] [480000],
     cvb 307200 [] [738712, -7304, -552, 119, -3750, -2],
     cvb 384000 [] [758712, -7304, -552, 119, -3750, -2],
     cvb 460800 [] [778712, -7304, -552, 119, -3750, -2],
     cvb 537600 [] [798712, -7304, -552, 119, -3750, -2],
     cvb 614400 [] [818712, -7304, -552, 119, -3750, -2],
     cvb 691200 [] [838712, -7304, -552, 119, -3750, -2],
     cvb 768000 [] [880210, -7955, -584, 0, -2849, 39],
     cvb 844800 [] [926398, -8892, -602, -60, -384, -93],
     cvb 921600 [] [970060, -10108, -614, -179, 1508, -13],
     cvb 998400 [] [1065665, -16075, -497, -179, 3213, 9],
     cvb 1075200 [] [1132576, -16093, -648, 0, 1077, 40],
     cvb 1152000 [] [1180029, -14534, -830, 0, 1469, 110],
     cvb 1228800 [] [1238293, -16383, -859, 0, 3722, 313]]"

definition marikoGpuDvfsTableHiOPT_default :: "cvb_entry list" where
  "marikoGpuDvfsTableHiOPT_default = [
     cvb 76800 [] [480000],
     cvb 153600 [] [480000],
     cvb 230400 [] [480000],
     cvb 307200 [] [738712, -7304, -552, 119, -3750, -2],
     cvb 384000 [] [758712, -7304, -552, 119, -3750, -2],
     cvb 460800 [] [778712, -7304, -552, 119, -3750, -2],
     cvb 537600 [] [798712, -7304, -552, 119, -3750, -2],
     cvb 614400 [] [818712, -7304, -552, 119, -3750, -2],
     cvb 691200 [] [838712, -7304, -552, 119, -3750, -2],
     cvb 768000 [] [880210, -7955, -584, 0, -2849, 39],
     cvb 844800 [] [926398, -8892, -602, -60, -384, -93],
     cvb 921600 [] [970060, -10108, -614, -179, 1508, -13],
     cvb 998400 [] [1060665, -16075, -497, -179, 3213, 9],
     cvb 1075200 [] [1061475, -12688, -648, 0, 1077, 40],
     cvb 1152000 [] [1094475, -12688, -648, 0, 1077, 40],
     cvb 1228800 [] [1124475, -12688, -648, 0, 1077, 40],
     cvb 1267200 [] [1142060, -12688, -648, 0, 1077, 40],
     cvb 1305600 [] [1163644, -12688, -648, 0, 1077, 40],
     cvb 1344000 [] [0, 0, 0, 0, 0, 0],
     cvb 1382400 [] [0, 0, 0, 0, 0, 0],
     cvb 1420800 [] [0, 0, 0, 0, 0, 0],
     cvb 1459200 [] [0, 0, 0, 0, 0, 0],
     cvb 1497600 [] [0, 0, 0, 0, 0, 0],
     cvb 1536000 [] [0, 0, 0, 0, 0, 0]]"

section \<open>The settings\<close>

text \<open>Values of the enumerations \<open>TableConfig\<close> and \<open>StepMode\<close>.\<close>

definition DEFAULT_TABLE :: u32 where "DEFAULT_TABLE = 1"
definition TBREAK_1581 :: u32 where "TBREAK_1581 = 2"
definition TBREAK_1683 :: u32 where "TBREAK_1683 = 3"
definition EXTREME_TABLE :: u32 where "EXTREME_TABLE = 4"
definition StepMode_66MHz :: u32 where "StepMode_66MHz = 0"
definition StepMode_100MHz :: u32 where "StepMode_100MHz = 1"
definition StepMode_Jedec :: u32 where "StepMode_Jedec = 2"
definition StepMode_133MHz :: u32 where "StepMode_133MHz = 3"

record customize =
  hpMode :: u32
  commonEmcMemVolt :: u32
  eristaEmcMaxClock :: u32
  eristaEmcMaxClock1 :: u32
  eristaEmcMaxClock2 :: u32
  stepMode :: u32
  marikoEmcMaxClock :: u32
  marikoEmcVddqVolt :: u32
  emcDvbShift :: u32
  marikoSocVmax :: u32
  t1_tRCD :: u32
  t2_tRP :: u32
  t3_tRAS :: u32
  t4_tRRD :: u32
  t5_tRFC :: u32
  t6_tRTW :: u32
  t7_tWTR :: u32
  t8_tREFI :: u32
  t2_tRP_cap :: u32
  timingEmcTbreak :: u32
  low_t6_tRTW :: u32
  low_t7_tWTR :: u32
  readLatency :: "u32 list"
  writeLatency :: "u32 list"
  mem_burst_read_latency :: u32
  mem_burst_write_latency :: u32
  eristaCpuUV :: u32
  eristaCpuVmin :: u32
  eristaCpuMaxVolt :: u32
  eristaCpuUnlock :: u32
  marikoCpuUVLow :: u32
  marikoCpuUVHigh :: u32
  tableConf :: u32
  marikoCpuLowVmin :: u32
  marikoCpuHighVmin :: u32
  marikoCpuMaxVolt :: u32
  marikoCpuMaxClock :: u32
  eristaCpuBoostClock :: u32
  marikoCpuBoostClock :: u32
  eristaGpuUV :: u32
  eristaGpuVmin :: u32
  marikoGpuUV :: u32
  marikoGpuVmin :: u32
  marikoGpuVmax :: u32
  commonGpuVoltOffset :: u32
  gpuSpeedo :: u32
  eristaGpuVoltArray :: "u32 list"
  marikoGpuVoltArray :: "u32 list"
  fineTune_t6_tRTW :: u32
  fineTune_t7_tWTR :: u32
  eristaCpuDvfsTable :: "cvb_entry list"
  eristaCpuDvfsTableSLT :: "cvb_entry list"
  marikoCpuDvfsTable :: "cvb_entry list"
  marikoCpuDvfsTableSLT :: "cvb_entry list"
  marikoCpuDvfsTable1581Tbreak :: "cvb_entry list"
  marikoCpuDvfsTable1683Tbreak :: "cvb_entry list"
  marikoCpuDvfsTableExtreme :: "cvb_entry list"
  eristaGpuDvfsTable :: "cvb_entry list"
  eristaGpuDvfsTableSLT :: "cvb_entry list"
  eristaGpuDvfsTableHiOPT :: "cvb_entry list"
  marikoGpuDvfsTable :: "cvb_entry list"
  marikoGpuDvfsTableSLT :: "cvb_entry list"
  marikoGpuDvfsTableHiOPT :: "cvb_entry list"

definition C_default :: customize where
  "C_default = \<lparr>
     hpMode = 0,
     commonEmcMemVolt = 1175000,
     eristaEmcMaxClock = 1600000,
     eristaEmcMaxClock1 = 1600000,
     eristaEmcMaxClock2 = 1600000,
     stepMode = 0,
     marikoEmcMaxClock = 2133000,
     marikoEmcVddqVolt = 600000,
     emcDvbShift = 0,
     marikoSocVmax = 0,
     t1_tRCD = 0,
     t2_tRP = 0,
     t3_tRAS = 0,
     t4_tRRD = 0,
     t5_tRFC = 0,
     t6_tRTW = 0,
     t7_tWTR = 0,
     t8_tREFI = 0,
     t2_tRP_cap = 2,
     timingEmcTbreak = 0,
     low_t6_tRTW = 0,
     low_t7_tWTR = 0,
     readLatency = [0, 0, 0, 0],
     writeLatency = [0, 0, 0, 0],
     mem_burst_read_latency = 32,
     mem_burst_write_latency = 14,
     eristaCpuUV = 0,
     eristaCpuVmin = 800,
     eristaCpuMaxVolt = 1200,
     eristaCpuUnlock = 0,
     marikoCpuUVLow = 0,
     marikoCpuUVHigh = 0,
     tableConf = 3,
     marikoCpuLowVmin = 620,
     marikoCpuHighVmin = 750,
     marikoCpuMaxVolt = 1120,
     marikoCpuMaxClock = 1963500,
     eristaCpuBoostClock = 1785000,
     marikoCpuBoostClock = 1963500,
     eristaGpuUV = 0,
     eristaGpuVmin = 810,
     marikoGpuUV = 0,
     marikoGpuVmin = 610,
     marikoGpuVmax = 800,
     commonGpuVoltOffset = 0,
     gpuSpeedo = 1450,
     eristaGpuVoltArray = [
       0, 0, 0, 0, 0, 0, 0, 0, 0, 0, 0, 0, 0, 0, 0, 0, 0, 0, 0, 0, 0, 0, 0, 2000, 2000, 2000,
       2000],
     marikoGpuVoltArray = [
       0, 0, 0, 0, 0, 0, 0, 0, 0, 0, 0, 0, 0, 0, 0, 0, 2000, 2000, 2000, 2000, 2000, 2000, 2000,
       2000],
     fineTune_t6_tRTW = 0,
     fineTune_t7_tWTR = 0,
     eristaCpuDvfsTable = eristaCpuDvfsTable_default,
     eristaCpuDvfsTableSLT = eristaCpuDvfsTableSLT_default,
     marikoCpuDvfsTable = marikoCpuDvfsTable_default,
     marikoCpuDvfsTableSLT = marikoCpuDvfsTableSLT_default,
     marikoCpuDvfsTable1581Tbreak = marikoCpuDvfsTable1581Tbreak_default,
     marikoCpuDvfsTable1683Tbreak = marikoCpuDvfsTable1683Tbreak_default,
     marikoCpuDvfsTableExtreme = marikoCpuDvfsTableExtreme_default,
     eristaGpuDvfsTable = eristaGpuDvfsTable_default,
     eristaGpuDvfsTableSLT = eristaGpuDvfsTableSLT_default,
     eristaGpuDvfsTableHiOPT = eristaGpuDvfsTableHiOPT_default,
     marikoGpuDvfsTable = marikoGpuDvfsTable_default,
     marikoGpuDvfsTableSLT = marikoGpuDvfsTableSLT_default,
     marikoGpuDvfsTableHiOPT = marikoGpuDvfsTableHiOPT_default\<rparr>"

end
