(* ===== verification/Pcv_Asm.thy ===== *)
theory Pcv_Asm
  imports Prelude
begin

text \<open>
  The fields of AArch64 instruction words, \<open>oc/pcv/pcv_asm.hpp\<close> of the loader: comparing two
  instructions up to a register or an immediate, reading a field and setting it, and the scan for an
  instruction. An instruction is its 32-bit word.
\<close>

section \<open>Fields\<close>

definition NopIns :: u32 where "NopIns = 0x1f2003d5"

definition asm_compare_no_rd :: "u32 \<Rightarrow> u32 \<Rightarrow> bool" where
  "asm_compare_no_rd ins1 ins2 \<longleftrightarrow> drop_bit 5 (ins1 XOR ins2) = 0"

definition asm_get_rd :: "u32 \<Rightarrow> u32" where
  "asm_get_rd ins = ins AND 0x1F"

definition asm_set_rd :: "u32 \<Rightarrow> u8 \<Rightarrow> u32" where
  "asm_set_rd ins rd = (ins AND 0xFFFFFFE0) OR (ucast rd AND 0x1F)"

definition asm_set_imm16 :: "u32 \<Rightarrow> u16 \<Rightarrow> u32" where
  "asm_set_imm16 ins imm = (ins AND 0xFFE0001F) OR push_bit 5 (ucast imm AND 0xFFFF)"

definition AsmGetImm16 :: "u32 \<Rightarrow> u16" where
  "AsmGetImm16 ins = ucast (drop_bit 5 ins AND 0xFFFF)"

definition AsmCompareBrNoRd :: "u32 \<Rightarrow> u32 \<Rightarrow> bool" where
  "AsmCompareBrNoRd ins1 ins2 \<longleftrightarrow> (ins1 AND NOT 0x3E0) XOR (ins2 AND NOT 0x3E0) = 0"

definition AsmCompareAddNoImm12 :: "u32 \<Rightarrow> u32 \<Rightarrow> bool" where
  "AsmCompareAddNoImm12 ins1 ins2 \<longleftrightarrow> (ins1 AND NOT 0x3FFC00) XOR (ins2 AND NOT 0x3FFC00) = 0"

definition AsmCompareAdrpNoImm :: "u32 \<Rightarrow> u32 \<Rightarrow> bool" where
  "AsmCompareAdrpNoImm ins1 ins2 \<longleftrightarrow> (ins1 AND NOT 0x60FFFFE0) XOR (ins2 AND NOT 0x60FFFFE0) = 0"

definition AsmCompareCselNoReg :: "u32 \<Rightarrow> u32 \<Rightarrow> bool" where
  "AsmCompareCselNoReg ins1 ins2 \<longleftrightarrow> (ins1 AND NOT 0x1F03FF) XOR (ins2 AND NOT 0x1F03FF) = 0"

definition AsmCompareMullNoReg :: "u32 \<Rightarrow> u32 \<Rightarrow> bool" where
  "AsmCompareMullNoReg ins1 ins2 \<longleftrightarrow> (ins1 AND NOT 0x1F03FF) XOR (ins2 AND NOT 0x1F03FF) = 0"

definition AsmGetMullRn :: "u32 \<Rightarrow> u32" where
  "AsmGetMullRn ins = drop_bit 5 (ins AND 0x3E0)"

definition AsmGetMullRm :: "u32 \<Rightarrow> u32" where
  "AsmGetMullRm ins = drop_bit 16 (ins AND 0x1F0000)"

definition AsmSubsSetRn :: "u32 \<Rightarrow> u8 \<Rightarrow> u32" where
  "AsmSubsSetRn ins rn = (ins AND NOT 0x3E0) OR push_bit 5 (ucast rn AND 0x1F)"

definition AsmSubsSetImm12 :: "u32 \<Rightarrow> u16 \<Rightarrow> u32" where
  "AsmSubsSetImm12 ins imm12 = (ins AND NOT 0x3FFC00) OR push_bit 10 (ucast imm12 AND 0xFFF)"

definition AsmSubsCompareNoReg :: "u32 \<Rightarrow> u32 \<Rightarrow> bool" where
  "AsmSubsCompareNoReg ins1 ins2 \<longleftrightarrow> drop_bit 10 (ins1 XOR ins2) = 0"

definition AsmCompareBrConNoImm19 :: "u32 \<Rightarrow> u32 \<Rightarrow> bool" where
  "AsmCompareBrConNoImm19 ins1 ins2 \<longleftrightarrow> ins1 AND NOT 0xFFFFE0 = ins2 AND NOT 0xFFFFE0"

text \<open>
  Memory as 32-bit words at word addresses. The scan returns the address of the first word that
  compares equal to the pattern within the limit.
\<close>

type_synonym words = "int \<Rightarrow> u32"

definition ScanAssembly :: "words \<Rightarrow> int \<Rightarrow> nat \<Rightarrow> u32 \<Rightarrow> (u32 \<Rightarrow> u32 \<Rightarrow> bool) \<Rightarrow> int option" where
  "ScanAssembly w ptr scanLimit pattern cmp =
     map_option (\<lambda>i. ptr + int i) (first_index (\<lambda>i. cmp pattern (w (ptr + int i))) [0..<scanLimit])"

section \<open>Reading back what was set\<close>

lemmas asm_fields = asm_compare_no_rd_def asm_get_rd_def asm_set_rd_def asm_set_imm16_def
  AsmGetImm16_def AsmSubsSetRn_def AsmSubsSetImm12_def AsmSubsCompareNoReg_def

text \<open>The literals as masks, so that each field is read bit by bit.\<close>

lemma asm_masks:
  "(0x1F :: u32) = mask 5" "(0xFFFF :: u32) = mask 16" "(0xFFF :: u32) = mask 12"
  "(0xFFFFFFE0 :: u32) = NOT (mask 5)" "(0xFFE0001F :: u32) = NOT (push_bit 5 (mask 16))"
  "(0x3E0 :: u32) = push_bit 5 (mask 5)" "(0x3FFC00 :: u32) = push_bit 10 (mask 12)"
  by (simp_all add: mask_eq_exp_minus_1)

lemma asm_set_rd_same: "asm_set_rd ins (ucast (asm_get_rd ins)) = ins"
  by (rule bit_word_eqI) (auto simp: asm_fields asm_masks bit_simps)

lemma asm_get_set_rd: "asm_get_rd (asm_set_rd ins rd) = ucast (rd AND mask 5)"
  by (rule bit_word_eqI) (auto simp: asm_fields asm_masks bit_simps)

lemma asm_compare_iff: "asm_compare_no_rd a b \<longleftrightarrow> drop_bit 5 a = drop_bit 5 b"
proof -
  have "x XOR y = 0 \<longleftrightarrow> x = y" for x y :: u32
    by (metis xor.right_neutral xor.left_commute xor_self_eq)
  then show ?thesis by (simp add: asm_compare_no_rd_def drop_bit_xor)
qed

lemma asm_compare_set_rd: "asm_compare_no_rd a (asm_set_rd a rd)"
  unfolding asm_compare_iff
  by (rule bit_word_eqI) (auto simp: asm_fields asm_masks bit_simps dest: bit_imp_le_length)

lemma AsmGetImm16_set [simp]: "AsmGetImm16 (asm_set_imm16 ins imm) = imm"
  by (rule bit_word_eqI) (auto simp: asm_fields asm_masks bit_simps)

lemma AsmGetImm16_set_rd [simp]: "AsmGetImm16 (asm_set_rd ins rd) = AsmGetImm16 ins"
  by (rule bit_word_eqI) (auto simp: asm_fields asm_masks bit_simps)

lemma asm_get_rd_set_imm16 [simp]: "asm_get_rd (asm_set_imm16 ins imm) = asm_get_rd ins"
  by (rule bit_word_eqI) (auto simp: asm_fields asm_masks bit_simps)

text \<open>
  A wide immediate written with a pair of moves is the value: the low half with the first, the
  high half with the second, both into the register the pair had.
\<close>

lemma asm_move_pair:
  "push_bit 16 (ucast (AsmGetImm16 (asm_set_rd (asm_set_imm16 i2 (ucast (drop_bit 16 v))) rd)) :: u32) OR
     ucast (AsmGetImm16 (asm_set_rd (asm_set_imm16 i1 (ucast (v :: u32))) rd)) = v \<and>
   asm_get_rd (asm_set_rd (asm_set_imm16 i1 (ucast v)) rd) = ucast (rd AND mask 5)"
  by (simp add: asm_get_set_rd) (rule bit_word_eqI, auto simp: bit_simps)

text \<open>The scan finds the first instruction that compares equal.\<close>

lemma ScanAssembly_first:
  "ScanAssembly w ptr n pattern cmp = Some q \<longleftrightarrow>
     (\<exists>i<n. q = ptr + int i \<and> cmp pattern (w q) \<and> (\<forall>j<i. \<not> cmp pattern (w (ptr + int j))))"
proof
  assume "ScanAssembly w ptr n pattern cmp = Some q"
  then obtain i where "first_index (\<lambda>i. cmp pattern (w (ptr + int i))) [0..<n] = Some i" "q = ptr + int i"
    by (auto simp: ScanAssembly_def)
  then show "\<exists>i<n. q = ptr + int i \<and> cmp pattern (w q) \<and> (\<forall>j<i. \<not> cmp pattern (w (ptr + int j)))"
    by (auto dest!: first_index_Some)
next
  assume "\<exists>i<n. q = ptr + int i \<and> cmp pattern (w q) \<and> (\<forall>j<i. \<not> cmp pattern (w (ptr + int j)))"
  then obtain i where i: "i < n" "q = ptr + int i" "cmp pattern (w q)"
      "\<forall>j<i. \<not> cmp pattern (w (ptr + int j))" by blast
  then obtain k where k: "first_index (\<lambda>i. cmp pattern (w (ptr + int i))) [0..<n] = Some k"
    by (cases "first_index (\<lambda>i. cmp pattern (w (ptr + int i))) [0..<n]") (auto simp: first_index_None)
  then have "k < n \<and> cmp pattern (w (ptr + int k)) \<and> (\<forall>j<k. \<not> cmp pattern (w (ptr + int j)))"
    by (auto dest!: first_index_Some)
  then have "k = i" using i by (metis linorder_neqE_nat)
  then show "ScanAssembly w ptr n pattern cmp = Some q" using k i(2) by (simp add: ScanAssembly_def)
qed

text \<open>The word written for a no-operation is not the instruction's encoding, but its bytes reversed.\<close>

definition byte_swap :: "u32 \<Rightarrow> u32" where
  "byte_swap v = push_bit 24 (v AND 0xFF) OR push_bit 8 (v AND 0xFF00) OR
     (drop_bit 8 v AND 0xFF00) OR drop_bit 24 v"

lemma NopIns_is_reversed: "NopIns \<noteq> 0xD503201F \<and> NopIns = byte_swap 0xD503201F"
  by (simp add: NopIns_def byte_swap_def)

end
