(* ===== verification/Pcv_Patch.thy ===== *)
theory Pcv_Patch
  imports Pcv_Asm Loader_Customize
begin

text \<open>
  The patch machinery of the loader: results, \<open>PatcherEntry\<close> of \<open>oc/oc_common.hpp\<close> and the search
  loop shared by \<open>oc/pcv/pcv_mariko.cpp\<close> and \<open>oc/pcv/pcv_erista.cpp\<close>.

  The image of the patched process is a function from word addresses, relative to its start, to
  32-bit words; addresses outside the image hold what lies there. A patcher gets the state and the
  address of a match and returns its result and the new state, also when it fails after it has
  written. Commands to the voltage regulator are logged; \<open>erista_maxEmcClocks\<close> is the array of the patches
  for Erista, which one of them sorts and clears in place.

  The locale \<open>windowed\<close> is the contract of a patcher the loop relies on: it writes only within a window
  around its address.
\<close>

section \<open>Results\<close>

datatype ldr_error = OutOfRange | InvalidMemPllmEntry | InvalidMtcMagic | InvalidMtcTable
  | InvalidDvbTable | InvalidCpuFreqVddEntry | InvalidCpuVoltDfllEntry | InvalidCpuDvfs
  | InvalidCpuMinVolt | InvalidGpuDvfs | InvalidGpuFreqMaxPattern | InvalidGpuPllEntry
  | InvalidRegulatorEntry | UninitializedPatcher | UnsuccessfulPatcher | SafetyCheckFailure
  | InvalidMtcTablePattern | InvalidSocVoltPattern | InvalidSocVoltLimit

text \<open>A result is success, an error of the loader or the code a system call returned.\<close>

datatype ldr_result = R_Success | R_Error ldr_error | R_System u32

abbreviation R_SUCCEEDED :: "ldr_result \<Rightarrow> bool" where
  "R_SUCCEEDED r \<equiv> r = R_Success"

section \<open>The image\<close>

record pcv_state =
  nso :: words
  i2c_log :: "(u8 \<times> u8) list"
  erista_maxEmcClocks :: "u32 list"
  stopped :: "string option"

text \<open>Stopping the boot with a message: nothing runs after it.\<close>

definition stop_boot :: "string \<Rightarrow> pcv_state \<Rightarrow> pcv_state" where
  "stop_boot msg s = s\<lparr>stopped := Some msg\<rparr>"

definition patch_word :: "int \<Rightarrow> u32 \<Rightarrow> pcv_state \<Rightarrow> pcv_state" where
  "patch_word p v s = s\<lparr>nso := (nso s)(p := v)\<rparr>"

definition patch_words :: "int \<Rightarrow> u32 list \<Rightarrow> pcv_state \<Rightarrow> pcv_state" where
  "patch_words p ws s = s\<lparr>nso := (\<lambda>a. if p \<le> a \<and> a < p + int (length ws) then ws ! nat (a - p)
     else nso s a)\<rparr>"

definition words_at :: "pcv_state \<Rightarrow> int \<Rightarrow> nat \<Rightarrow> u32 list" where
  "words_at s p n = map (\<lambda>i. nso s (p + int i)) [0..<n]"

text \<open>A 64-bit field, low word first.\<close>

definition word64_at :: "pcv_state \<Rightarrow> int \<Rightarrow> u64" where
  "word64_at s p = ucast (nso s p) OR push_bit 32 (ucast (nso s (p + 1)))"

section \<open>Patchers\<close>

type_synonym patcher_fn = "pcv_state \<Rightarrow> int \<Rightarrow> ldr_result \<times> pcv_state"

datatype patch_trigger = Value u32 | Pattern "u32 \<Rightarrow> bool"

record patcher_entry =
  pe_description :: string
  pe_patcher_fn :: patcher_fn
  pe_maximum_patched_count :: nat
  pe_trigger :: patch_trigger
  pe_patched_count :: nat

definition patcher :: "string \<Rightarrow> patcher_fn \<Rightarrow> nat \<Rightarrow> patch_trigger \<Rightarrow> patcher_entry" where
  "patcher d f n t = \<lparr>pe_description = d, pe_patcher_fn = f, pe_maximum_patched_count = n,
     pe_trigger = t, pe_patched_count = 0\<rparr>"

definition triggered :: "patcher_entry \<Rightarrow> pcv_state \<Rightarrow> int \<Rightarrow> bool" where
  "triggered e s p = (case pe_trigger e of Value v \<Rightarrow> v = nso s p | Pattern f \<Rightarrow> f (nso s p))"

definition Apply :: "patcher_entry \<Rightarrow> pcv_state \<Rightarrow> int \<Rightarrow> ldr_result \<times> patcher_entry \<times> pcv_state" where
  "Apply e s p =
     (case pe_patcher_fn e s p of
        (res, s') \<Rightarrow>
          (res, if R_SUCCEEDED res then e\<lparr>pe_patched_count := pe_patched_count e + 1\<rparr> else e, s'))"

definition SearchAndApply ::
  "patcher_entry \<Rightarrow> pcv_state \<Rightarrow> int \<Rightarrow> ldr_result \<times> patcher_entry \<times> pcv_state" where
  "SearchAndApply e s p =
     (if triggered e s p then Apply e s p else (R_Error UnsuccessfulPatcher, e, s))"

definition CheckResult :: "patcher_entry \<Rightarrow> ldr_result" where
  "CheckResult e =
     (if \<not> pe_patched_count e > 0 then R_Error UnsuccessfulPatcher
      else if pe_maximum_patched_count e \<noteq> 0 \<and>
              \<not> pe_patched_count e \<le> pe_maximum_patched_count e then R_Error UnsuccessfulPatcher
      else R_Success)"

text \<open>At one address the entries are tried in order until one succeeds.\<close>

fun try_entries :: "patcher_entry list \<Rightarrow> pcv_state \<Rightarrow> int \<Rightarrow> patcher_entry list \<times> pcv_state" where
  "try_entries [] s p = ([], s)"
| "try_entries (e # es) s p =
     (if stopped s \<noteq> None then (e # es, s)
      else
        (case SearchAndApply e s p of
           (res, e', s') \<Rightarrow>
             if R_SUCCEEDED res then (e' # es, s')
             else (case try_entries es s' p of (es', s'') \<Rightarrow> (e' # es', s''))))"

fun search_loop ::
  "nat \<Rightarrow> int \<Rightarrow> patcher_entry list \<Rightarrow> pcv_state \<Rightarrow> patcher_entry list \<times> pcv_state" where
  "search_loop 0 p es s = (es, s)"
| "search_loop (Suc n) p es s =
     (case try_entries es s p of (es', s') \<Rightarrow> search_loop n (p + 1) es' s')"

text \<open>
  The loop stops where a table would no longer fit; afterwards every count is checked. The first
  entry whose check fails stops the boot: the outcome is its description.
\<close>

definition search_steps :: "nat \<Rightarrow> nat \<Rightarrow> nat" where
  "search_steps nso_words table_words =
     (if nso_words < table_words then 0 else nso_words - table_words + 1)"

definition run_patches ::
  "nat \<Rightarrow> nat \<Rightarrow> patcher_entry list \<Rightarrow> pcv_state \<Rightarrow> string + pcv_state" where
  "run_patches nso_words table_words es s =
     (case search_loop (search_steps nso_words table_words) 0 es s of
        (es', s') \<Rightarrow>
          (case stopped s' of
             Some msg \<Rightarrow> Inl msg
           | None \<Rightarrow>
               (case find (\<lambda>e. \<not> R_SUCCEEDED (CheckResult e)) es' of
                  Some e \<Rightarrow> Inl (pe_description e)
                | None \<Rightarrow> Inr s')))"

section \<open>Reading what was written\<close>

lemma nso_patch_word [simp]: "nso (patch_word p v s) = (nso s)(p := v)"
  by (simp add: patch_word_def)

lemma nso_patch_words_outside [simp]:
  "a < p \<or> p + int (length ws) \<le> a \<Longrightarrow> nso (patch_words p ws s) a = nso s a"
  by (auto simp: patch_words_def)

lemma nso_patch_words_inside [simp]:
  "i < length ws \<Longrightarrow> nso (patch_words p ws s) (p + int i) = ws ! i"
  by (simp add: patch_words_def)

lemma i2c_patch [simp]: "i2c_log (patch_word p v s) = i2c_log s" "i2c_log (patch_words p ws s) = i2c_log s"
  by (simp_all add: patch_word_def patch_words_def)

lemma length_words_at [simp]: "length (words_at s p n) = n"
  by (simp add: words_at_def)

lemma nth_words_at [simp]: "i < n \<Longrightarrow> words_at s p n ! i = nso s (p + int i)"
  by (simp add: words_at_def)

lemma words_at_patch_words [simp]: "words_at (patch_words p ws s) p (length ws) = ws"
  by (rule nth_equalityI) simp_all

section \<open>The contract of a patcher\<close>

locale windowed =
  fixes f :: patcher_fn and lo hi :: int
  assumes window: "f s p = (r, s') \<Longrightarrow> a < p + lo \<or> p + hi < a \<Longrightarrow> nso s' a = nso s a"
begin

lemma SearchAndApply_window:
  assumes "pe_patcher_fn e = f" "SearchAndApply e s p = (r, e', s')" "nso s' a \<noteq> nso s a"
  shows "triggered e s p \<and> p + lo \<le> a \<and> a \<le> p + hi"
proof -
  obtain r1 s1 where f: "f s p = (r1, s1)" by (cases "f s p")
  have "triggered e s p \<and> s' = s1"
    using assms f by (auto simp: SearchAndApply_def Apply_def split: if_splits)
  then show ?thesis using window [OF f, of a] assms(3) by force
qed

end

text \<open>Entries as the loop leaves them: only the counts differ.\<close>

definition same_entry :: "patcher_entry \<Rightarrow> patcher_entry \<Rightarrow> bool" where
  "same_entry e e' \<longleftrightarrow> e' = e\<lparr>pe_patched_count := pe_patched_count e'\<rparr> \<and>
     pe_patched_count e \<le> pe_patched_count e'"

lemma same_entry_refl [simp]: "same_entry e e"
  by (simp add: same_entry_def)

lemma same_entry_trans [trans]: "same_entry a b \<Longrightarrow> same_entry b c \<Longrightarrow> same_entry a c"
  unfolding same_entry_def
  by (metis le_trans patcher_entry.surjective patcher_entry.update_convs(5))

lemma same_entry_fields:
  assumes "same_entry e e'"
  shows "pe_patcher_fn e' = pe_patcher_fn e" and "triggered e' = triggered e"
    and "pe_maximum_patched_count e' = pe_maximum_patched_count e"
    and "pe_description e' = pe_description e"
proof -
  have e: "e' = e\<lparr>pe_patched_count := pe_patched_count e'\<rparr>" using assms by (simp add: same_entry_def)
  show "pe_patcher_fn e' = pe_patcher_fn e" "pe_maximum_patched_count e' = pe_maximum_patched_count e"
    "pe_description e' = pe_description e" by (subst e, simp)+
  show "triggered e' = triggered e" by (intro ext, subst e, simp add: triggered_def)
qed

lemma SearchAndApply_entry:
  assumes "SearchAndApply e s p = (r, e', s')"
  shows "same_entry e e' \<and> pe_patched_count e' = pe_patched_count e + (if R_SUCCEEDED r then 1 else 0)"
proof (cases "triggered e s p")
  case True
  obtain r1 s1 where "pe_patcher_fn e s p = (r1, s1)" by (cases "pe_patcher_fn e s p")
  then show ?thesis using assms True by (auto simp: SearchAndApply_def Apply_def same_entry_def)
next
  case False
  then show ?thesis using assms by (auto simp: SearchAndApply_def)
qed

definition total_count :: "patcher_entry list \<Rightarrow> nat" where
  "total_count es = sum_list (map pe_patched_count es)"

lemma try_entries_count:
  "try_entries es s p = (es', s') \<Longrightarrow>
     list_all2 same_entry es es' \<and> total_count es' \<le> total_count es + 1"
proof (induction es arbitrary: s es' s')
  case (Cons e es)
  obtain r e1 s1 where 1: "SearchAndApply e s p = (r, e1, s1)" by (metis prod_cases3)
  obtain es2 s2 where 2: "try_entries es s1 p = (es2, s2)" by fastforce
  from Cons.IH [OF 2] SearchAndApply_entry [OF 1] Cons.prems 1 2 show ?case
    by (auto simp: total_count_def list_all2_refl split: if_splits)
qed (simp add: total_count_def)

lemma search_loop_count:
  "search_loop n p es s = (es', s') \<Longrightarrow>
     list_all2 same_entry es es' \<and> total_count es' \<le> total_count es + n"
proof (induction n arbitrary: p es s)
  case 0
  then show ?case by (auto simp: list_all2_refl)
next
  case (Suc n)
  obtain es1 s1 where 1: "try_entries es s p = (es1, s1)" by fastforce
  with Suc.prems have "search_loop n (p + 1) es1 s1 = (es', s')" by simp
  from Suc.IH [OF this] try_entries_count [OF 1] show ?case
    by (auto elim: list_all2_trans [rotated -2] intro: same_entry_trans)
qed

text \<open>Windows are given by the descriptions, which the loop keeps.\<close>

definition in_windows :: "(string \<Rightarrow> int \<times> int) \<Rightarrow> patcher_entry list \<Rightarrow> bool" where
  "in_windows w es \<longleftrightarrow>
     (\<forall>e\<in>set es. windowed (pe_patcher_fn e) (fst (w (pe_description e))) (snd (w (pe_description e))))"

definition hit :: "(string \<Rightarrow> int \<times> int) \<Rightarrow> patcher_entry list \<Rightarrow> int \<Rightarrow> int \<Rightarrow> bool" where
  "hit w es q a \<longleftrightarrow> (\<exists>e\<in>set es. q + fst (w (pe_description e)) \<le> a \<and> a \<le> q + snd (w (pe_description e)))"

lemma same_entries:
  assumes "list_all2 same_entry es es'"
  shows "in_windows w es \<Longrightarrow> in_windows w es'" and "hit w es' q a \<Longrightarrow> hit w es q a"
proof -
  have "\<exists>e\<in>set es. same_entry e e'" if "e' \<in> set es'" for e'
    using that assms by (metis in_set_conv_nth list_all2_conv_all_nth)
  then show "in_windows w es \<Longrightarrow> in_windows w es'" "hit w es' q a \<Longrightarrow> hit w es q a"
    unfolding in_windows_def hit_def by (metis same_entry_fields(1,4))+
qed

lemma try_entries_window:
  "in_windows w es \<Longrightarrow> try_entries es s p = (es', s') \<Longrightarrow> nso s' a \<noteq> nso s a \<Longrightarrow> hit w es p a"
proof (induction es arbitrary: s es' s')
  case (Cons e es)
  obtain r e1 s1 where 1: "SearchAndApply e s p = (r, e1, s1)" by (metis prod_cases3)
  obtain es2 s2 where 2: "try_entries es s1 p = (es2, s2)" by fastforce
  have e: "windowed (pe_patcher_fn e) (fst (w (pe_description e))) (snd (w (pe_description e)))"
    using Cons.prems(1) by (simp add: in_windows_def)
  show ?case
  proof (cases "nso s1 a = nso s a")
    case True
    with Cons.prems 1 2 have "\<not> R_SUCCEEDED r \<and> s' = s2" by (auto split: if_splits)
    with Cons.IH [OF _ 2] Cons.prems True show ?thesis by (auto simp: in_windows_def hit_def)
  next
    case False
    with windowed.SearchAndApply_window [OF e refl 1] show ?thesis by (auto simp: hit_def)
  qed
qed simp

lemma search_loop_window:
  "in_windows w es \<Longrightarrow> search_loop n p es s = (es', s') \<Longrightarrow> nso s' a \<noteq> nso s a \<Longrightarrow>
     \<exists>q. p \<le> q \<and> q < p + int n \<and> hit w es q a"
proof (induction n arbitrary: p es s)
  case (Suc n)
  obtain es1 s1 where 1: "try_entries es s p = (es1, s1)" by fastforce
  with Suc.prems have 2: "search_loop n (p + 1) es1 s1 = (es', s')" by simp
  note same = same_entries [OF conjunct1 [OF try_entries_count [OF 1]]]
  show ?case
  proof (cases "nso s1 a = nso s a")
    case True
    with Suc.IH [OF same(1) [OF Suc.prems(1)] 2] Suc.prems(3) obtain q
      where "p + 1 \<le> q" "q < p + 1 + int n" "hit w es1 q a" by auto
    with same(2) show ?thesis by (intro exI [of _ q]) auto
  next
    case False
    with try_entries_window [OF Suc.prems(1) 1] show ?thesis by (intro exI [of _ p]) auto
  qed
qed simp

text \<open>
  C31. A boot that the checks let pass has applied every patch at least once and no more often than
  its limit, at most one at each address.
\<close>

theorem patches_counted:
  assumes "run_patches n t es s = Inr s'" "total_count es = 0"
  shows "\<exists>es'. search_loop (search_steps n t) 0 es s = (es', s') \<and> list_all2 same_entry es es' \<and>
    total_count es' \<le> search_steps n t \<and>
    (\<forall>e\<in>set es'. 1 \<le> pe_patched_count e \<and>
       (pe_maximum_patched_count e = 0 \<or> pe_patched_count e \<le> pe_maximum_patched_count e))"
proof -
  obtain es' s1 where l: "search_loop (search_steps n t) 0 es s = (es', s1)" by fastforce
  with assms(1) have f: "find (\<lambda>e. \<not> R_SUCCEEDED (CheckResult e)) es' = None" and "s1 = s'"
    by (auto simp: run_patches_def split: option.splits)
  from f have ok: "R_SUCCEEDED (CheckResult e)" if "e \<in> set es'" for e
    using that by (auto simp: find_None_iff)
  have "1 \<le> pe_patched_count e \<and>
      (pe_maximum_patched_count e = 0 \<or> pe_patched_count e \<le> pe_maximum_patched_count e)"
    if "e \<in> set es'" for e
    using ok [OF that] by (auto simp: CheckResult_def split: if_splits)
  then show ?thesis using l search_loop_count [OF l] assms(2) \<open>s1 = s'\<close> by auto
qed

text \<open>
  Whatever the image holds, a word that differs after the patches lies in the window of a patch
  around an address of the search.
\<close>

lemma patches_stay_in_windows:
  assumes "in_windows w es" "run_patches n t es s = Inr s'" "nso s' a \<noteq> nso s a"
  shows "\<exists>q. 0 \<le> q \<and> q < int (search_steps n t) \<and> hit w es q a"
proof -
  obtain es' where "search_loop (search_steps n t) 0 es s = (es', s')"
    using assms(2) by (auto simp: run_patches_def split: option.splits prod.splits)
  from search_loop_window [OF assms(1) this assms(3)] show ?thesis by simp
qed

end
