(* ===== verification/Pcv_Common.thy ===== *)
theory Pcv_Common
  imports Pcv_Patch
begin

text \<open>
  The patches both SoCs share and the check of the settings: \<open>oc/pcv/pcv.hpp\<close>, \<open>oc/pcv/pcv.cpp\<close> and
  the structures of \<open>oc/pcv/pcv_common.hpp\<close>. A structure field is the offset of its word:
  \<open>cvb_entry_t\<close> has 14 words (frequency 0 and 1, coefficients 2 to 7 and 8 to 13), \<open>clk_pll_param\<close>
  has \<open>freq\<close> at 0 and \<open>vco_max\<close> at 6, \<open>regulator\<close> has \<open>id\<close> at 0 and 1, \<open>type\<close> at 4, then per type
  \<open>volt_reg\<close> 5, \<open>step_uv\<close> 6, \<open>min_uv\<close> 7, \<open>default_uv\<close> 8, \<open>max_uv\<close> 9 or \<open>step_uv\<close> 6, \<open>min_uv\<close> 8,
  \<open>default_uv\<close> 11.
\<close>

section \<open>What the patches ask the system\<close>

text \<open>
  Result codes are 0 for success. The speedo of the SoC is read from a mapping that can be refused;
  a command to the regulator needs a session.
\<close>

record pcv_env =
  env_soc_speedo :: "u32 + u32"
  env_i2c_open :: u32
  env_i2c_send :: "u8 \<Rightarrow> u8 \<Rightarrow> u32"
  env_dram_id :: u64

section \<open>Frequency tables\<close>

definition table_words :: "cvb_entry list \<Rightarrow> u32 list" where
  "table_words t = concat (map cvb_words (take (GetDvfsTableEntryCount t) t))"

definition cvb_at :: "int \<Rightarrow> nat \<Rightarrow> int" where
  "cvb_at head i = head + 14 * int i"

definition pll_c0 :: "int \<Rightarrow> nat \<Rightarrow> int" where
  "pll_c0 head i = cvb_at head i + 8"

definition cpu_customize_table :: "bool \<Rightarrow> customize \<Rightarrow> cvb_entry list" where
  "cpu_customize_table isMariko C =
     (if isMariko then
        (if tableConf C = TBREAK_1683 then marikoCpuDvfsTable1683Tbreak C
         else if tableConf C = TBREAK_1581 then marikoCpuDvfsTable1581Tbreak C
         else if tableConf C = EXTREME_TABLE then marikoCpuDvfsTableExtreme C
         else mariko_CpuCvbTableDefault)
      else if eristaCpuUV C \<noteq> 0 then
        (if eristaCpuUnlock C \<noteq> 0 then eristaCpuDvfsTableSLT C else eristaCpuDvfsTable C)
      else erista_CpuCvbTableDefault)"

definition table_head :: "cvb_entry list \<Rightarrow> int \<Rightarrow> int" where
  "table_head default_table ptr = ptr + 14 - int (length (table_words default_table))"

definition cpu_volt_entry :: "bool \<Rightarrow> u32 \<Rightarrow> int \<Rightarrow> nat \<Rightarrow> pcv_state \<Rightarrow> pcv_state" where
  "cpu_volt_entry isMariko v head i s =
     (if word64_at s (cvb_at head i) \<ge> 2091000 \<and> isMariko
      then patch_word (pll_c0 head i) (v * 1000) s else s)"

definition CpuFreqCvbTable :: "bool \<Rightarrow> customize \<Rightarrow> patcher_fn" where
  "CpuFreqCvbTable isMariko C s ptr =
     (let default_table = (if isMariko then mariko_CpuCvbTableDefault else erista_CpuCvbTableDefault);
          customize_table = cpu_customize_table isMariko C;
          cpu_max_volt = (if isMariko then marikoCpuMaxVolt C else eristaCpuMaxVolt C);
          count = GetDvfsTableEntryCount customize_table;
          head = table_head default_table ptr
      in if words_at s head (length (table_words default_table)) \<noteq> table_words default_table
         then (R_Error InvalidCpuDvfs, s)
         else
           (let s1 = patch_words head (table_words customize_table) s in
            if cpu_max_volt = 0 then (R_Success, s1)
            else (R_Success,
              fold (cpu_volt_entry isMariko cpu_max_volt head) [0..<count] s1)))"

definition ClearCvbPllEntry :: "int \<Rightarrow> pcv_state \<Rightarrow> pcv_state" where
  "ClearCvbPllEntry entry s = patch_words (entry + 9) [0, 0, 0, 0, 0] s"

definition gpu_uv :: "bool \<Rightarrow> customize \<Rightarrow> u32" where
  "gpu_uv isMariko C = (if isMariko then marikoGpuUV C else eristaGpuUV C)"

definition gpu_customize_table :: "bool \<Rightarrow> customize \<Rightarrow> cvb_entry list" where
  "gpu_customize_table isMariko C =
     (if isMariko then
        (if marikoGpuUV C = 1 then marikoGpuDvfsTableSLT C
         else if marikoGpuUV C = 2 then marikoGpuDvfsTableHiOPT C
         else marikoGpuDvfsTable C)
      else if eristaGpuUV C = 1 then eristaGpuDvfsTableSLT C
      else if eristaGpuUV C = 2 then eristaGpuDvfsTableHiOPT C
      else eristaGpuDvfsTable C)"

text \<open>The voltage arrays have an entry for every entry of the tables.\<close>

definition gpu_volt_entry :: "u32 list \<Rightarrow> u32 \<Rightarrow> int \<Rightarrow> nat \<Rightarrow> pcv_state \<Rightarrow> pcv_state" where
  "gpu_volt_entry volts offset head i s =
     (if volts ! i \<noteq> 0
      then ClearCvbPllEntry (cvb_at head i) (patch_word (pll_c0 head i) (volts ! i * 1000) s)
      else patch_word (pll_c0 head i) (nso s (pll_c0 head i) - offset * 1000) s)"

definition gpu_volt_offset :: "u32 \<Rightarrow> int \<Rightarrow> nat \<Rightarrow> pcv_state \<Rightarrow> pcv_state" where
  "gpu_volt_offset offset head i s =
     patch_word (pll_c0 head i) (nso s (pll_c0 head i) - offset * 1000) s"

definition GpuFreqCvbTable :: "bool \<Rightarrow> customize \<Rightarrow> patcher_fn" where
  "GpuFreqCvbTable isMariko C s ptr =
     (let default_table = (if isMariko then mariko_GpuCvbTableDefault else erista_GpuCvbTableDefault);
          customize_table = gpu_customize_table isMariko C;
          volts = (if isMariko then marikoGpuVoltArray C else eristaGpuVoltArray C);
          offset = commonGpuVoltOffset C;
          count = GetDvfsTableEntryCount customize_table;
          head = table_head default_table ptr
      in if words_at s head (length (table_words default_table)) \<noteq> table_words default_table
         then (R_Error InvalidGpuDvfs, s)
         else
           (let s1 = patch_words head (table_words customize_table) s;
                s2 = fold (gpu_volt_entry volts offset head) [0..<count] s1
            in if offset \<noteq> 0 \<and> gpu_uv isMariko C = 0
               then (R_Success, fold (gpu_volt_offset offset head) [0..<count] s2)
               else (R_Success, s2)))"

section \<open>Memory clock and voltage\<close>

definition MemFreqPllmLimit :: patcher_fn where
  "MemFreqPllmLimit s ptr =
     (if nso s ptr \<noteq> nso s (ptr + 6) then (R_Error InvalidMemPllmEntry, s)
      else (let max_clk = nso s ptr * 2
            in (R_Success, patch_word (ptr + 6) max_clk (patch_word ptr max_clk s))))"

definition valid_type_1 :: "pcv_state \<Rightarrow> int \<Rightarrow> bool" where
  "valid_type_1 s entry \<longleftrightarrow> word64_at s entry = 1 \<and> nso s (entry + 4) = 1 \<and> nso s (entry + 5) = 0x17 \<and>
     nso s (entry + 6) = 12500 \<and> nso s (entry + 7) = 600000"

definition MemVoltHandler :: "customize \<Rightarrow> patcher_fn" where
  "MemVoltHandler C s ptr =
     (if \<not> (valid_type_1 s (ptr - 8) \<or> valid_type_1 s (ptr - 9)) then (R_Error InvalidRegulatorEntry, s)
      else
        (let emc_uv = commonEmcMemVolt C in
         if emc_uv = 0 then (R_Success, s)
         else (R_Success, patch_word ptr
                (if emc_uv mod 12500 \<noteq> 0 then emc_uv div 12500 * 12500 else emc_uv) s)))"

section \<open>The check of the settings\<close>

text \<open>The colour of the error screen.\<close>

definition PackCode :: "u32 \<Rightarrow> u32 \<Rightarrow> u32 \<Rightarrow> u32" where
  "PackCode r g b = push_bit 8 (r AND 0xF) OR push_bit 4 (g AND 0xF) OR (b AND 0xF)"

definition panic_Gpu :: u32 where "panic_Gpu = PackCode 0xF 0x7 0x0"
definition panic_Cpu :: u32 where "panic_Cpu = PackCode 0xF 0x0 0x0"
definition panic_Emc :: u32 where "panic_Emc = PackCode 0x0 0xF 0xF"
definition panic_Patch :: u32 where "panic_Patch = PackCode 0x8 0x0 0xF"

definition validator_ok :: "u32 \<Rightarrow> u32 \<Rightarrow> u32 \<Rightarrow> bool \<Rightarrow> bool" where
  "validator_ok v lo hi value_required \<longleftrightarrow>
     (\<not> value_required \<and> v = 0) \<or> \<not> (lo \<noteq> 0 \<and> v < lo) \<and> \<not> (hi \<noteq> 0 \<and> v > hi)"

definition maxEmcClocks :: "customize \<Rightarrow> u32 list" where
  "maxEmcClocks C = [eristaEmcMaxClock2 C, eristaEmcMaxClock1 C, eristaEmcMaxClock C]"

definition GET_MAX_OF_ARR :: "u32 list \<Rightarrow> u32" where
  "GET_MAX_OF_ARR arr = foldl max (hd arr) (tl arr)"

definition validators :: "customize \<Rightarrow> (u32 \<times> u32 \<times> u32 \<times> u32 \<times> bool) list" where
  "validators C = [
     (eristaCpuBoostClock C, 1020000, 2397000, panic_Cpu, True),
     (marikoCpuBoostClock C, 1020000, 2703000, panic_Cpu, True),
     (eristaCpuMaxVolt C, 1000, 1260, panic_Cpu, False),
     (marikoCpuMaxVolt C, 1000, 1200, panic_Cpu, False),
     (last_freq (eristaCpuDvfsTable C), 1785000, 2397000, panic_Cpu, False),
     (last_freq (if marikoCpuUVHigh C \<noteq> 0 then marikoCpuDvfsTableSLT C else marikoCpuDvfsTable C),
        1785000, 2703000, panic_Cpu, False),
     (commonEmcMemVolt C, 912500, 1350000, panic_Emc, False),
     (GET_MAX_OF_ARR (maxEmcClocks C), 1600000, 2600000, panic_Emc, False),
     (marikoEmcMaxClock C, 1600000, 3500000, panic_Emc, False),
     (marikoEmcVddqVolt C, 400000, 750000, panic_Emc, False),
     (marikoSocVmax C, 1000, 1200, panic_Emc, False),
     (last_freq (gpu_customize_table False C), 768000, 1152000, panic_Gpu, False),
     (last_freq (gpu_customize_table True C), 768000, 1536000, panic_Gpu, False),
     (marikoGpuVmax C, 800, 960, panic_Gpu, False)]"

text \<open>The colour of the first value that is out of range; the boot stops there.\<close>

definition SafetyCheck :: "customize \<Rightarrow> u32 option" where
  "SafetyCheck C =
     map_option (\<lambda>(v, lo, hi, panic, required). panic)
       (find (\<lambda>(v, lo, hi, panic, required). \<not> validator_ok v lo hi required) (validators C))"

section \<open>Writing a table entry by entry\<close>

text \<open>
  The contract of a step of a loop over a table: step \<open>i\<close> writes only in entry \<open>i\<close>, and what it
  writes depends on that entry alone. Then each entry ends as its own step leaves it.
\<close>

locale entrywise =
  fixes g :: "nat \<Rightarrow> pcv_state \<Rightarrow> pcv_state" and head :: int
  assumes outside: "a < cvb_at head i \<or> cvb_at head (Suc i) \<le> a \<Longrightarrow> nso (g i s) a = nso s a"
    and local: "(\<And>b. cvb_at head i \<le> b \<Longrightarrow> b < cvb_at head (Suc i) \<Longrightarrow> nso s b = nso s' b) \<Longrightarrow>
      cvb_at head i \<le> a \<Longrightarrow> a < cvb_at head (Suc i) \<Longrightarrow> nso (g i s) a = nso (g i s') a"
begin

lemma fold_outside:
  "a < head \<or> cvb_at head n \<le> a \<Longrightarrow> nso (fold g [0..<n] s) a = nso s a"
proof (induction n)
  case (Suc n)
  have "cvb_at head 0 \<le> cvb_at head n" by (simp add: cvb_at_def)
  then have "a < head \<or> cvb_at head n \<le> a" "a < cvb_at head n \<or> cvb_at head (Suc n) \<le> a"
    using Suc.prems by (auto simp: cvb_at_def)
  with Suc.IH show ?case by (simp add: outside)
qed simp

lemma fold_inside:
  assumes "cvb_at head i \<le> a" "a < cvb_at head (Suc i)"
  shows "i < n \<Longrightarrow> nso (fold g [0..<n] s) a = nso (g i s) a"
proof (induction n)
  case (Suc n)
  show ?case
  proof (cases "i = n")
    case True
    have "nso (fold g [0..<n] s) b = nso s b" if "cvb_at head n \<le> b" for b
      using that by (intro fold_outside) simp
    then show ?thesis using True assms by (simp add: local [of n "fold g [0..<n] s" s a])
  next
    case False
    with Suc.prems have "i < n" by simp
    then have "cvb_at head (Suc i) \<le> cvb_at head n" by (simp add: cvb_at_def)
    with assms(2) have "a < cvb_at head n" by simp
    with Suc.IH [OF \<open>i < n\<close>] show ?thesis by (simp add: outside)
  qed
qed simp

end

interpretation gpu_volts: entrywise "gpu_volt_entry volts offset head" head for volts offset head
  by unfold_locales
    (auto simp: gpu_volt_entry_def ClearCvbPllEntry_def patch_words_def pll_c0_def cvb_at_def)

interpretation gpu_offset: entrywise "gpu_volt_offset offset head" head for offset head
  by unfold_locales (auto simp: gpu_volt_offset_def pll_c0_def cvb_at_def)

interpretation cpu_volts: entrywise "cpu_volt_entry isMariko v head" head for isMariko v head
  by unfold_locales (auto simp: cpu_volt_entry_def word64_at_def pll_c0_def cvb_at_def)

section \<open>The tables in memory\<close>

definition wf_cvb :: "cvb_entry list \<Rightarrow> bool" where
  "wf_cvb t \<longleftrightarrow> list_all (\<lambda>e. length (cvb_dfll e) = 6 \<and> length (cvb_pll e) = 6) t"

lemma concat_nth_const:
  "list_all (\<lambda>x. length x = k) xs \<Longrightarrow> i < length xs \<Longrightarrow> j < k \<Longrightarrow> concat xs ! (k * i + j) = xs ! i ! j"
proof (induction xs arbitrary: i)
  case (Cons x xs)
  then show ?case by (cases i) (auto simp: nth_append)
qed simp

lemma entry_count_le: "GetDvfsTableEntryCount t \<le> length t" "GetDvfsTableEntryCount t \<le> 31"
proof -
  have "GetDvfsTableEntryCount t \<le> length (take DvfsTableEntryLimit t)"
    unfolding GetDvfsTableEntryCount_def by (rule length_takeWhile_le)
  then show "GetDvfsTableEntryCount t \<le> length t" "GetDvfsTableEntryCount t \<le> 31"
    by (simp_all add: DvfsTableEntryLimit_def)
qed

lemma length_concat_const: "\<forall>x\<in>set xs. length x = k \<Longrightarrow> length (concat xs) = k * length xs"
  by (induction xs) auto

lemma length_table_words: "wf_cvb t \<Longrightarrow> length (table_words t) = 14 * GetDvfsTableEntryCount t"
proof -
  assume "wf_cvb t"
  then have "\<forall>x\<in>set (map cvb_words (take (GetDvfsTableEntryCount t) t)). length x = 14"
    by (auto simp: wf_cvb_def cvb_words_def list_all_iff dest!: in_set_takeD)
  then have "length (table_words t) = 14 * length (map cvb_words (take (GetDvfsTableEntryCount t) t))"
    unfolding table_words_def by (rule length_concat_const)
  then show ?thesis using entry_count_le(1) [of t] by simp
qed

lemma nth_table_words:
  assumes "wf_cvb t" "i < GetDvfsTableEntryCount t" "k < 14"
  shows "table_words t ! (14 * i + k) = cvb_words (t ! i) ! k"
proof -
  have "list_all (\<lambda>x. length x = 14) (map cvb_words (take (GetDvfsTableEntryCount t) t))"
    using assms(1) by (auto simp: wf_cvb_def cvb_words_def list_all_iff dest!: in_set_takeD)
  then show ?thesis
    unfolding table_words_def using concat_nth_const assms(2,3) entry_count_le(1) [of t]
    by (subst concat_nth_const) simp_all
qed

lemma patched_entry:
  assumes "wf_cvb t" "i < GetDvfsTableEntryCount t" "k < 14"
  shows "nso (patch_words head (table_words t) s) (cvb_at head i + int k) = cvb_words (t ! i) ! k"
proof -
  have "14 * i + k < length (table_words t)" using assms by (simp add: length_table_words)
  moreover have "cvb_at head i + int k = head + int (14 * i + k)" by (simp add: cvb_at_def)
  ultimately show ?thesis using nth_table_words [OF assms] by (simp only: nso_patch_words_inside)
qed

lemma word64_of_halves: "ucast (ucast v :: u32) OR push_bit 32 (ucast (ucast (drop_bit 32 v) :: u32)) = (v :: u64)"
  by (rule bit_word_eqI) (auto simp: bit_simps)

lemma patched_freq:
  assumes "wf_cvb t" "i < GetDvfsTableEntryCount t"
  shows "word64_at (patch_words head (table_words t) s) (cvb_at head i) = cvb_freq (t ! i)"
  using patched_entry [OF assms, of 0 head s] patched_entry [OF assms, of 1 head s]
  by (simp add: word64_at_def cvb_words_def word64_of_halves)

lemma patched_c0:
  assumes "wf_cvb t" "i < GetDvfsTableEntryCount t"
  shows "nso (patch_words head (table_words t) s) (pll_c0 head i) = cvb_pll (t ! i) ! 0"
proof -
  have "i < length t" using assms(2) entry_count_le(1) [of t] by simp
  then have "length (cvb_dfll (t ! i)) = 6" using assms(1) by (simp add: wf_cvb_def list_all_length)
  then show ?thesis
    using patched_entry [OF assms, of 8 head s] by (simp add: pll_c0_def cvb_words_def nth_append)
qed

lemma gpu_steps:
  "word64_at (gpu_volt_entry volts offset head i s) (cvb_at head i) = word64_at s (cvb_at head i)"
  "nso (gpu_volt_entry volts offset head i s) (pll_c0 head i) =
     (if volts ! i \<noteq> 0 then volts ! i * 1000 else nso s (pll_c0 head i) - offset * 1000)"
  "word64_at (gpu_volt_offset offset head i s) (cvb_at head i) = word64_at s (cvb_at head i)"
  "nso (gpu_volt_offset offset head i s) (pll_c0 head i) = nso s (pll_c0 head i) - offset * 1000"
  by (auto simp: word64_at_def gpu_volt_entry_def gpu_volt_offset_def ClearCvbPllEntry_def pll_c0_def)

text \<open>
  Where the GPU table of the image is the known one, it becomes the chosen table: the same
  frequencies, and per entry the voltage set by hand or the table's less the offset. With the first
  table and an offset, the offset is taken off once more, also from a voltage set by hand.
\<close>

lemma gpu_table_written:
  assumes wf: "wf_cvb (gpu_customize_table m C)"
    and run: "GpuFreqCvbTable m C s ptr = (R_Success, s')"
    and i: "i < GetDvfsTableEntryCount (gpu_customize_table m C)"
    and volts: "volts = (if m then marikoGpuVoltArray C else eristaGpuVoltArray C)"
    and head: "head = table_head (if m then mariko_GpuCvbTableDefault else erista_GpuCvbTableDefault) ptr"
  shows "word64_at s' (cvb_at head i) = cvb_freq (gpu_customize_table m C ! i) \<and>
    nso s' (pll_c0 head i) =
      (if volts ! i \<noteq> 0 then volts ! i * 1000
       else cvb_pll (gpu_customize_table m C ! i) ! 0 - commonGpuVoltOffset C * 1000) -
      (if commonGpuVoltOffset C \<noteq> 0 \<and> gpu_uv m C = 0 then commonGpuVoltOffset C * 1000 else 0)"
proof -
  let ?t = "gpu_customize_table m C" and ?off = "commonGpuVoltOffset C"
  let ?n = "GetDvfsTableEntryCount ?t"
  let ?s1 = "patch_words head (table_words ?t) s"
  let ?s2 = "fold (gpu_volt_entry volts ?off head) [0..<?n] ?s1"
  let ?s3 = "fold (gpu_volt_offset ?off head) [0..<?n] ?s2"
  have s': "s' = (if ?off \<noteq> 0 \<and> gpu_uv m C = 0 then ?s3 else ?s2)"
    using run unfolding GpuFreqCvbTable_def volts head by (auto simp: Let_def split: if_splits)
  have in_i: "cvb_at head i \<le> cvb_at head i + k" "cvb_at head i + k < cvb_at head (Suc i)"
    if "k \<in> {0, 1, 8}" for k using that by (auto simp: cvb_at_def)
  have 2: "nso ?s2 (cvb_at head i + k) = nso (gpu_volt_entry volts ?off head i ?s1) (cvb_at head i + k)"
    if "k \<in> {0, 1, 8}" for k using in_i [OF that] i by (rule gpu_volts.fold_inside)
  have 3: "nso ?s3 (cvb_at head i + k) = nso (gpu_volt_offset ?off head i ?s2) (cvb_at head i + k)"
    if "k \<in> {0, 1, 8}" for k using in_i [OF that] i by (rule gpu_offset.fold_inside)
  have f2: "word64_at ?s2 (cvb_at head i) = word64_at ?s1 (cvb_at head i)"
    and v2: "nso ?s2 (pll_c0 head i) = nso (gpu_volt_entry volts ?off head i ?s1) (pll_c0 head i)"
    using 2 [of 0] 2 [of 1] 2 [of 8] gpu_steps(1) [of volts ?off head i ?s1]
    by (simp_all add: word64_at_def pll_c0_def)
  have f3: "word64_at ?s3 (cvb_at head i) = word64_at ?s2 (cvb_at head i)"
    and v3: "nso ?s3 (pll_c0 head i) = nso (gpu_volt_offset ?off head i ?s2) (pll_c0 head i)"
    using 3 [of 0] 3 [of 1] 3 [of 8] gpu_steps(3) [of ?off head i ?s2]
    by (simp_all add: word64_at_def pll_c0_def)
  note entry = patched_freq [OF wf i, of head s] patched_c0 [OF wf i, of head s]
  show ?thesis
  proof (cases "?off \<noteq> 0 \<and> gpu_uv m C = 0")
    case True
    show ?thesis unfolding s' if_P [OF True] by (simp only: f3 f2 v3 v2 gpu_steps entry simp_thms)
  next
    case False
    show ?thesis unfolding s' if_not_P [OF False]
      by (simp only: f2 v2 gpu_steps entry simp_thms diff_zero)
  qed
qed

text \<open>
  Where the CPU table of the image is the known one, it becomes the chosen table: the same
  frequencies, and from 2091 MHz on the chosen maximum as the voltage on Mariko.
\<close>

lemma cpu_table_written:
  assumes wf: "wf_cvb (cpu_customize_table m C)"
    and run: "CpuFreqCvbTable m C s ptr = (R_Success, s')"
    and i: "i < GetDvfsTableEntryCount (cpu_customize_table m C)"
    and head: "head = table_head (if m then mariko_CpuCvbTableDefault else erista_CpuCvbTableDefault) ptr"
  shows "word64_at s' (cvb_at head i) = cvb_freq (cpu_customize_table m C ! i) \<and>
    nso s' (pll_c0 head i) =
      (if m \<and> marikoCpuMaxVolt C \<noteq> 0 \<and> 2091000 \<le> cvb_freq (cpu_customize_table m C ! i)
       then marikoCpuMaxVolt C * 1000 else cvb_pll (cpu_customize_table m C ! i) ! 0)"
proof -
  let ?t = "cpu_customize_table m C" and ?v = "if m then marikoCpuMaxVolt C else eristaCpuMaxVolt C"
  let ?n = "GetDvfsTableEntryCount ?t"
  let ?s1 = "patch_words head (table_words ?t) s"
  let ?s2 = "fold (cpu_volt_entry m ?v head) [0..<?n] ?s1"
  have s': "s' = (if ?v = 0 then ?s1 else ?s2)"
    using run unfolding CpuFreqCvbTable_def head by (auto simp: Let_def split: if_splits)
  have in_i: "cvb_at head i \<le> cvb_at head i + k" "cvb_at head i + k < cvb_at head (Suc i)"
    if "k \<in> {0, 1, 8}" for k using that by (auto simp: cvb_at_def)
  have 2: "nso ?s2 (cvb_at head i + k) = nso (cpu_volt_entry m ?v head i ?s1) (cvb_at head i + k)"
    if "k \<in> {0, 1, 8}" for k using in_i [OF that] i by (rule cpu_volts.fold_inside)
  note entry = patched_freq [OF wf i, of head s] patched_c0 [OF wf i, of head s]
  have step: "word64_at (cpu_volt_entry m ?v head i ?s1) (cvb_at head i) = word64_at ?s1 (cvb_at head i)"
    "nso (cpu_volt_entry m ?v head i ?s1) (pll_c0 head i) =
       (if 2091000 \<le> cvb_freq (?t ! i) \<and> m then ?v * 1000 else nso ?s1 (pll_c0 head i))"
    using entry(1) by (auto simp: cpu_volt_entry_def word64_at_def pll_c0_def)
  have f2: "word64_at ?s2 (cvb_at head i) = word64_at ?s1 (cvb_at head i)"
    and v2: "nso ?s2 (pll_c0 head i) = nso (cpu_volt_entry m ?v head i ?s1) (pll_c0 head i)"
    using 2 [of 0] 2 [of 1] 2 [of 8] step(1) by (simp_all add: word64_at_def pll_c0_def)
  show ?thesis
  proof (cases "?v = 0")
    case True
    show ?thesis unfolding s' if_P [OF True] using True entry by (cases m) auto
  next
    case False
    show ?thesis unfolding s' if_not_P [OF False] f2 v2 step(2) using False entry by (cases m) auto
  qed
qed

definition in_range :: "u32 \<Rightarrow> u32 \<Rightarrow> u32 \<Rightarrow> bool" where
  "in_range lo hi v \<longleftrightarrow> v = 0 \<or> lo \<le> v \<and> v \<le> hi"

text \<open>
  Settings that pass the check are within the limits: a clock or voltage that is set, and what is
  used of the tables, lies in its range.
\<close>

lemma safety_check_limits:
  "SafetyCheck C = None \<longleftrightarrow>
     1020000 \<le> eristaCpuBoostClock C \<and> eristaCpuBoostClock C \<le> 2397000 \<and>
     1020000 \<le> marikoCpuBoostClock C \<and> marikoCpuBoostClock C \<le> 2703000 \<and>
     in_range 1000 1260 (eristaCpuMaxVolt C) \<and> in_range 1000 1200 (marikoCpuMaxVolt C) \<and>
     in_range 1785000 2397000 (last_freq (eristaCpuDvfsTable C)) \<and>
     in_range 1785000 2703000
       (last_freq (if marikoCpuUVHigh C = 0 then marikoCpuDvfsTable C else marikoCpuDvfsTableSLT C)) \<and>
     in_range 912500 1350000 (commonEmcMemVolt C) \<and>
     in_range 1600000 2600000 (max (eristaEmcMaxClock C) (max (eristaEmcMaxClock1 C) (eristaEmcMaxClock2 C))) \<and>
     in_range 1600000 3500000 (marikoEmcMaxClock C) \<and> in_range 400000 750000 (marikoEmcVddqVolt C) \<and>
     in_range 1000 1200 (marikoSocVmax C) \<and>
     in_range 768000 1152000 (last_freq (gpu_customize_table False C)) \<and>
     in_range 768000 1536000 (last_freq (gpu_customize_table True C)) \<and>
     in_range 800 960 (marikoGpuVmax C)"
proof -
  have ok: "validator_ok v lo hi False \<longleftrightarrow> in_range lo hi v" if "lo \<noteq> 0" "hi \<noteq> 0" for v lo hi
    using that by (auto simp: validator_ok_def in_range_def)
  have req: "validator_ok v lo hi True \<longleftrightarrow> lo \<le> v \<and> v \<le> hi" if "lo \<noteq> 0" "hi \<noteq> 0" for v lo hi
    using that by (auto simp: validator_ok_def)
  have "SafetyCheck C = None \<longleftrightarrow>
      list_all (\<lambda>(v, lo, hi, panic, required). validator_ok v lo hi required) (validators C)"
    by (auto simp: SafetyCheck_def find_None_iff list_all_iff)
  also have "GET_MAX_OF_ARR (maxEmcClocks C) =
      max (eristaEmcMaxClock C) (max (eristaEmcMaxClock1 C) (eristaEmcMaxClock2 C))"
    by (simp add: GET_MAX_OF_ARR_def maxEmcClocks_def max.commute max.left_commute)
  ultimately show ?thesis
    by (simp add: validators_def ok req)
qed

end
