(* ===== verification/Mtc_Layout.thy ===== *)
theory Mtc_Layout
  imports Prelude
begin

text \<open>
  Where the fields of a memory table lie, \<open>oc/mtc_timing_table.hpp\<close>: the number of its word in the
  structure. Only the fields the code names are listed. Each timing register is in three groups,
  \<open>burst_regs\<close>, \<open>shadow_regs_ca_train\<close> and \<open>shadow_regs_rdwr_train\<close>, at the same place of the group.
\<close>

section \<open>Mariko\<close>

definition m_burst_regs :: nat where "m_burst_regs = 73"
definition m_shadow_regs_ca_train :: nat where "m_shadow_regs_ca_train = 309"
definition m_shadow_regs_rdwr_train :: nat where "m_shadow_regs_rdwr_train = 537"

definition m_rate_khz :: nat where "m_rate_khz = 16"
definition m_mc_emem_arb_cfg :: nat where "m_mc_emem_arb_cfg = 968"
definition m_mc_emem_arb_timing_rcd :: nat where "m_mc_emem_arb_timing_rcd = 972"
definition m_mc_emem_arb_timing_rp :: nat where "m_mc_emem_arb_timing_rp = 973"
definition m_mc_emem_arb_timing_rc :: nat where "m_mc_emem_arb_timing_rc = 974"
definition m_mc_emem_arb_timing_ras :: nat where "m_mc_emem_arb_timing_ras = 975"
definition m_mc_emem_arb_timing_faw :: nat where "m_mc_emem_arb_timing_faw = 976"
definition m_mc_emem_arb_timing_rrd :: nat where "m_mc_emem_arb_timing_rrd = 977"
definition m_mc_emem_arb_timing_rfcpb :: nat where "m_mc_emem_arb_timing_rfcpb = 985"
definition m_mc_emem_arb_timing_rap2pre :: nat where "m_mc_emem_arb_timing_rap2pre = 978"
definition m_mc_emem_arb_timing_wap2pre :: nat where "m_mc_emem_arb_timing_wap2pre = 979"
definition m_mc_emem_arb_timing_r2r :: nat where "m_mc_emem_arb_timing_r2r = 980"
definition m_mc_emem_arb_timing_w2w :: nat where "m_mc_emem_arb_timing_w2w = 981"
definition m_mc_emem_arb_timing_r2w :: nat where "m_mc_emem_arb_timing_r2w = 982"
definition m_mc_emem_arb_timing_w2r :: nat where "m_mc_emem_arb_timing_w2r = 984"
definition m_mc_emem_arb_da_turns :: nat where "m_mc_emem_arb_da_turns = 986"
definition m_mc_emem_arb_da_covers :: nat where "m_mc_emem_arb_da_covers = 987"
definition m_mc_emem_arb_misc0 :: nat where "m_mc_emem_arb_misc0 = 988"
definition m_mc_mll_mpcorer_ptsa_rate :: nat where "m_mc_mll_mpcorer_ptsa_rate = 1001"
definition m_mc_ftop_ptsa_rate :: nat where "m_mc_ftop_ptsa_rate = 1002"
definition m_mc_ptsa_grant_decrement :: nat where "m_mc_ptsa_grant_decrement = 1003"
definition m_mc_latency_allowance_xusb_0 :: nat where "m_mc_latency_allowance_xusb_0 = 1004"
definition m_mc_latency_allowance_xusb_1 :: nat where "m_mc_latency_allowance_xusb_1 = 1005"
definition m_mc_latency_allowance_tsec_0 :: nat where "m_mc_latency_allowance_tsec_0 = 1006"
definition m_mc_latency_allowance_sdmmcaa_0 :: nat where "m_mc_latency_allowance_sdmmcaa_0 = 1008"
definition m_mc_latency_allowance_sdmmcab_0 :: nat where "m_mc_latency_allowance_sdmmcab_0 = 1010"
definition m_mc_latency_allowance_sdmmc_0 :: nat where "m_mc_latency_allowance_sdmmc_0 = 1009"
definition m_mc_latency_allowance_sdmmca_0 :: nat where "m_mc_latency_allowance_sdmmca_0 = 1007"
definition m_mc_latency_allowance_ppcs_1 :: nat where "m_mc_latency_allowance_ppcs_1 = 1012"
definition m_mc_latency_allowance_nvdec_0 :: nat where "m_mc_latency_allowance_nvdec_0 = 1020"
definition m_mc_latency_allowance_mpcore_0 :: nat where "m_mc_latency_allowance_mpcore_0 = 1013"
definition m_mc_latency_allowance_avpc_0 :: nat where "m_mc_latency_allowance_avpc_0 = 1016"
definition m_mc_latency_allowance_isp2_1 :: nat where "m_mc_latency_allowance_isp2_1 = 1024"
definition m_mc_latency_allowance_gpu_0 :: nat where "m_mc_latency_allowance_gpu_0 = 1017"
definition m_mc_latency_allowance_gpu2_0 :: nat where "m_mc_latency_allowance_gpu2_0 = 1018"
definition m_mc_latency_allowance_vic_0 :: nat where "m_mc_latency_allowance_vic_0 = 1021"
definition m_mc_latency_allowance_nvenc_0 :: nat where "m_mc_latency_allowance_nvenc_0 = 1019"
definition m_mc_latency_allowance_hc_0 :: nat where "m_mc_latency_allowance_hc_0 = 1014"
definition m_mc_latency_allowance_hc_1 :: nat where "m_mc_latency_allowance_hc_1 = 1015"
definition m_mc_latency_allowance_vi2_0 :: nat where "m_mc_latency_allowance_vi2_0 = 1022"
definition m_t_rp :: nat where "m_t_rp = 917"
definition m_t_rfc :: nat where "m_t_rfc = 919"
definition m_rl :: nat where "m_rl = 921"
definition m_emc_mrw2 :: nat where "m_emc_mrw2 = 1052"
definition m_emc_cfg_2 :: nat where "m_emc_cfg_2 = 1067"
definition m_pllmb_divm :: nat where "m_pllmb_divm = 1046"
definition m_pllmb_divn :: nat where "m_pllmb_divn = 1047"
definition m_pllm_ss_ctrl1 :: nat where "m_pllm_ss_ctrl1 = 1041"
definition m_pllm_ss_ctrl2 :: nat where "m_pllm_ss_ctrl2 = 1042"
definition m_pllmb_ss_ctrl1 :: nat where "m_pllmb_ss_ctrl1 = 1044"
definition m_pllmb_ss_ctrl2 :: nat where "m_pllmb_ss_ctrl2 = 1045"
definition m_pllm_ss_cfg :: nat where "m_pllm_ss_cfg = 1040"
definition m_pllmb_ss_cfg :: nat where "m_pllmb_ss_cfg = 1043"

text \<open>Within a group of timing registers.\<close>

definition m_emc_cfg :: nat where "m_emc_cfg = 154"
definition m_emc_rd_rcd :: nat where "m_emc_rd_rcd = 19"
definition m_emc_wr_rcd :: nat where "m_emc_wr_rcd = 20"
definition m_emc_rc :: nat where "m_emc_rc = 0"
definition m_emc_ras :: nat where "m_emc_ras = 5"
definition m_emc_rrd :: nat where "m_emc_rrd = 21"
definition m_emc_rfcpb :: nat where "m_emc_rfcpb = 2"
definition m_emc_rfc :: nat where "m_emc_rfc = 1"
definition m_emc_rp :: nat where "m_emc_rp = 6"
definition m_emc_txsr :: nat where "m_emc_txsr = 58"
definition m_emc_txsrdll :: nat where "m_emc_txsrdll = 59"
definition m_emc_tfaw :: nat where "m_emc_tfaw = 63"
definition m_emc_trpab :: nat where "m_emc_trpab = 64"
definition m_emc_tckesr :: nat where "m_emc_tckesr = 61"
definition m_emc_tcke :: nat where "m_emc_tcke = 60"
definition m_emc_tpd :: nat where "m_emc_tpd = 62"
definition m_emc_tclkstop :: nat where "m_emc_tclkstop = 66"
definition m_emc_r2p :: nat where "m_emc_r2p = 9"
definition m_emc_r2w :: nat where "m_emc_r2w = 7"
definition m_emc_trtm :: nat where "m_emc_trtm = 13"
definition m_emc_tratm :: nat where "m_emc_tratm = 15"
definition m_emc_w2p :: nat where "m_emc_w2p = 10"
definition m_emc_w2r :: nat where "m_emc_w2r = 8"
definition m_emc_twtm :: nat where "m_emc_twtm = 14"
definition m_emc_twatm :: nat where "m_emc_twatm = 16"
definition m_emc_rext :: nat where "m_emc_rext = 22"
definition m_emc_wext :: nat where "m_emc_wext = 23"
definition m_emc_refresh :: nat where "m_emc_refresh = 46"
definition m_emc_pre_refresh_req_cnt :: nat where "m_emc_pre_refresh_req_cnt = 48"
definition m_emc_trefbw :: nat where "m_emc_trefbw = 68"
definition m_emc_dyn_self_ref_control :: nat where "m_emc_dyn_self_ref_control = 156"
definition m_emc_pdex2wr :: nat where "m_emc_pdex2wr = 49"
definition m_emc_pdex2rd :: nat where "m_emc_pdex2rd = 50"
definition m_emc_pchg2pden :: nat where "m_emc_pchg2pden = 51"
definition m_emc_ar2pden :: nat where "m_emc_ar2pden = 53"
definition m_emc_pdex2cke :: nat where "m_emc_pdex2cke = 56"
definition m_emc_act2pden :: nat where "m_emc_act2pden = 52"
definition m_emc_cke2pden :: nat where "m_emc_cke2pden = 55"
definition m_emc_pdex2mrr :: nat where "m_emc_pdex2mrr = 57"
definition m_emc_rw2pden :: nat where "m_emc_rw2pden = 54"
definition m_emc_einput :: nat where "m_emc_einput = 35"
definition m_emc_einput_duration :: nat where "m_emc_einput_duration = 37"
definition m_emc_obdly :: nat where "m_emc_obdly = 34"
definition m_emc_ibdly :: nat where "m_emc_ibdly = 33"
definition m_emc_wdv_mask :: nat where "m_emc_wdv_mask = 28"
definition m_emc_quse_width :: nat where "m_emc_quse_width = 32"
definition m_emc_quse :: nat where "m_emc_quse = 31"
definition m_emc_wdv :: nat where "m_emc_wdv = 25"
definition m_emc_wsv :: nat where "m_emc_wsv = 26"
definition m_emc_wev :: nat where "m_emc_wev = 27"
definition m_emc_qrst :: nat where "m_emc_qrst = 40"
definition m_emc_tr_qrst :: nat where "m_emc_tr_qrst = 208"
definition m_emc_qsafe :: nat where "m_emc_qsafe = 41"
definition m_emc_tr_qsafe :: nat where "m_emc_tr_qsafe = 207"
definition m_emc_tr_qpop :: nat where "m_emc_tr_qpop = 204"
definition m_emc_qpop :: nat where "m_emc_qpop = 157"
definition m_emc_rdv :: nat where "m_emc_rdv = 42"
definition m_emc_tr_rdv_mask :: nat where "m_emc_tr_rdv_mask = 205"
definition m_emc_rdv_early :: nat where "m_emc_rdv_early = 44"
definition m_emc_rdv_early_mask :: nat where "m_emc_rdv_early_mask = 45"
definition m_emc_rdv_mask :: nat where "m_emc_rdv_mask = 43"
definition m_emc_tr_rdv :: nat where "m_emc_tr_rdv = 203"
definition m_emc_cmd_brlshft_2 :: nat where "m_emc_cmd_brlshft_2 = 160"
definition m_emc_cmd_brlshft_3 :: nat where "m_emc_cmd_brlshft_3 = 161"

section \<open>Erista\<close>

definition e_burst_regs :: nat where "e_burst_regs = 71"
definition e_shadow_regs_ca_train :: nat where "e_shadow_regs_ca_train = 300"
definition e_shadow_regs_rdwr_train :: nat where "e_shadow_regs_rdwr_train = 742"

definition e_rate_khz :: nat where "e_rate_khz = 16"
definition e_mc_emem_arb_cfg :: nat where "e_mc_emem_arb_cfg = 1152"
definition e_mc_emem_arb_timing_rcd :: nat where "e_mc_emem_arb_timing_rcd = 1156"
definition e_mc_emem_arb_timing_rp :: nat where "e_mc_emem_arb_timing_rp = 1157"
definition e_mc_emem_arb_timing_rc :: nat where "e_mc_emem_arb_timing_rc = 1158"
definition e_mc_emem_arb_timing_ras :: nat where "e_mc_emem_arb_timing_ras = 1159"
definition e_mc_emem_arb_timing_faw :: nat where "e_mc_emem_arb_timing_faw = 1160"
definition e_mc_emem_arb_timing_rrd :: nat where "e_mc_emem_arb_timing_rrd = 1161"
definition e_mc_emem_arb_timing_rfcpb :: nat where "e_mc_emem_arb_timing_rfcpb = 1169"
definition e_mc_emem_arb_timing_rap2pre :: nat where "e_mc_emem_arb_timing_rap2pre = 1162"
definition e_mc_emem_arb_timing_wap2pre :: nat where "e_mc_emem_arb_timing_wap2pre = 1163"
definition e_mc_emem_arb_timing_r2r :: nat where "e_mc_emem_arb_timing_r2r = 1164"
definition e_mc_emem_arb_timing_r2w :: nat where "e_mc_emem_arb_timing_r2w = 1166"
definition e_mc_emem_arb_timing_w2r :: nat where "e_mc_emem_arb_timing_w2r = 1168"
definition e_mc_emem_arb_da_turns :: nat where "e_mc_emem_arb_da_turns = 1170"
definition e_mc_emem_arb_da_covers :: nat where "e_mc_emem_arb_da_covers = 1171"
definition e_mc_emem_arb_misc0 :: nat where "e_mc_emem_arb_misc0 = 1172"
definition e_mc_mll_mpcorer_ptsa_rate :: nat where "e_mc_mll_mpcorer_ptsa_rate = 1185"
definition e_mc_ftop_ptsa_rate :: nat where "e_mc_ftop_ptsa_rate = 1186"
definition e_mc_ptsa_grant_decrement :: nat where "e_mc_ptsa_grant_decrement = 1187"
definition e_mc_latency_allowance_xusb_0 :: nat where "e_mc_latency_allowance_xusb_0 = 1188"
definition e_mc_latency_allowance_xusb_1 :: nat where "e_mc_latency_allowance_xusb_1 = 1189"
definition e_mc_latency_allowance_tsec_0 :: nat where "e_mc_latency_allowance_tsec_0 = 1190"
definition e_mc_latency_allowance_sdmmcaa_0 :: nat where "e_mc_latency_allowance_sdmmcaa_0 = 1192"
definition e_mc_latency_allowance_sdmmcab_0 :: nat where "e_mc_latency_allowance_sdmmcab_0 = 1194"
definition e_mc_latency_allowance_sdmmc_0 :: nat where "e_mc_latency_allowance_sdmmc_0 = 1193"
definition e_mc_latency_allowance_sdmmca_0 :: nat where "e_mc_latency_allowance_sdmmca_0 = 1191"
definition e_mc_latency_allowance_ppcs_1 :: nat where "e_mc_latency_allowance_ppcs_1 = 1196"
definition e_mc_latency_allowance_nvdec_0 :: nat where "e_mc_latency_allowance_nvdec_0 = 1204"
definition e_mc_latency_allowance_mpcore_0 :: nat where "e_mc_latency_allowance_mpcore_0 = 1197"
definition e_mc_latency_allowance_avpc_0 :: nat where "e_mc_latency_allowance_avpc_0 = 1200"
definition e_mc_latency_allowance_isp2_1 :: nat where "e_mc_latency_allowance_isp2_1 = 1208"
definition e_mc_latency_allowance_gpu_0 :: nat where "e_mc_latency_allowance_gpu_0 = 1201"
definition e_mc_latency_allowance_gpu2_0 :: nat where "e_mc_latency_allowance_gpu2_0 = 1202"
definition e_mc_latency_allowance_vic_0 :: nat where "e_mc_latency_allowance_vic_0 = 1205"
definition e_mc_latency_allowance_nvenc_0 :: nat where "e_mc_latency_allowance_nvenc_0 = 1203"
definition e_mc_latency_allowance_hc_0 :: nat where "e_mc_latency_allowance_hc_0 = 1198"
definition e_mc_latency_allowance_hc_1 :: nat where "e_mc_latency_allowance_hc_1 = 1199"
definition e_mc_latency_allowance_vi2_0 :: nat where "e_mc_latency_allowance_vi2_0 = 1206"
definition e_t_rp :: nat where "e_t_rp = 1115"
definition e_t_rfc :: nat where "e_t_rfc = 1117"
definition e_emc_cfg_2 :: nat where "e_emc_cfg_2 = 1226"
definition e_min_volt :: nat where "e_min_volt = 17"

text \<open>Within a group of timing registers.\<close>

definition e_emc_cfg :: nat where "e_emc_cfg = 148"
definition e_emc_rd_rcd :: nat where "e_emc_rd_rcd = 14"
definition e_emc_wr_rcd :: nat where "e_emc_wr_rcd = 15"
definition e_emc_rc :: nat where "e_emc_rc = 0"
definition e_emc_ras :: nat where "e_emc_ras = 5"
definition e_emc_rrd :: nat where "e_emc_rrd = 16"
definition e_emc_rfcpb :: nat where "e_emc_rfcpb = 2"
definition e_emc_rfc :: nat where "e_emc_rfc = 1"
definition e_emc_rp :: nat where "e_emc_rp = 6"
definition e_emc_txsr :: nat where "e_emc_txsr = 53"
definition e_emc_txsrdll :: nat where "e_emc_txsrdll = 54"
definition e_emc_tfaw :: nat where "e_emc_tfaw = 58"
definition e_emc_trpab :: nat where "e_emc_trpab = 59"
definition e_emc_tckesr :: nat where "e_emc_tckesr = 56"
definition e_emc_tcke :: nat where "e_emc_tcke = 55"
definition e_emc_tpd :: nat where "e_emc_tpd = 57"
definition e_emc_tclkstop :: nat where "e_emc_tclkstop = 61"
definition e_emc_r2p :: nat where "e_emc_r2p = 9"
definition e_emc_r2w :: nat where "e_emc_r2w = 7"
definition e_emc_w2p :: nat where "e_emc_w2p = 10"
definition e_emc_w2r :: nat where "e_emc_w2r = 8"
definition e_emc_rext :: nat where "e_emc_rext = 17"
definition e_emc_wext :: nat where "e_emc_wext = 18"
definition e_emc_refresh :: nat where "e_emc_refresh = 41"
definition e_emc_pre_refresh_req_cnt :: nat where "e_emc_pre_refresh_req_cnt = 43"
definition e_emc_trefbw :: nat where "e_emc_trefbw = 63"
definition e_emc_dyn_self_ref_control :: nat where "e_emc_dyn_self_ref_control = 150"
definition e_emc_pdex2wr :: nat where "e_emc_pdex2wr = 44"
definition e_emc_pdex2rd :: nat where "e_emc_pdex2rd = 45"
definition e_emc_pchg2pden :: nat where "e_emc_pchg2pden = 46"
definition e_emc_ar2pden :: nat where "e_emc_ar2pden = 48"
definition e_emc_pdex2cke :: nat where "e_emc_pdex2cke = 51"
definition e_emc_act2pden :: nat where "e_emc_act2pden = 47"
definition e_emc_cke2pden :: nat where "e_emc_cke2pden = 50"
definition e_emc_pdex2mrr :: nat where "e_emc_pdex2mrr = 52"
definition e_emc_rw2pden :: nat where "e_emc_rw2pden = 49"

lemmas mariko_layout = m_burst_regs_def m_shadow_regs_ca_train_def m_shadow_regs_rdwr_train_def
  m_rate_khz_def m_mc_emem_arb_cfg_def m_mc_emem_arb_timing_rcd_def m_mc_emem_arb_timing_rp_def
  m_mc_emem_arb_timing_rc_def m_mc_emem_arb_timing_ras_def m_mc_emem_arb_timing_faw_def
  m_mc_emem_arb_timing_rrd_def m_mc_emem_arb_timing_rfcpb_def m_mc_emem_arb_timing_rap2pre_def
  m_mc_emem_arb_timing_wap2pre_def m_mc_emem_arb_timing_r2r_def m_mc_emem_arb_timing_w2w_def
  m_mc_emem_arb_timing_r2w_def m_mc_emem_arb_timing_w2r_def m_mc_emem_arb_da_turns_def
  m_mc_emem_arb_da_covers_def m_mc_emem_arb_misc0_def m_mc_mll_mpcorer_ptsa_rate_def
  m_mc_ftop_ptsa_rate_def m_mc_ptsa_grant_decrement_def m_mc_latency_allowance_xusb_0_def
  m_mc_latency_allowance_xusb_1_def m_mc_latency_allowance_tsec_0_def
  m_mc_latency_allowance_sdmmcaa_0_def m_mc_latency_allowance_sdmmcab_0_def
  m_mc_latency_allowance_sdmmc_0_def m_mc_latency_allowance_sdmmca_0_def
  m_mc_latency_allowance_ppcs_1_def m_mc_latency_allowance_nvdec_0_def
  m_mc_latency_allowance_mpcore_0_def m_mc_latency_allowance_avpc_0_def
  m_mc_latency_allowance_isp2_1_def m_mc_latency_allowance_gpu_0_def
  m_mc_latency_allowance_gpu2_0_def m_mc_latency_allowance_vic_0_def
  m_mc_latency_allowance_nvenc_0_def m_mc_latency_allowance_hc_0_def m_mc_latency_allowance_hc_1_def
  m_mc_latency_allowance_vi2_0_def m_t_rp_def m_t_rfc_def m_rl_def m_emc_mrw2_def m_emc_cfg_2_def
  m_pllmb_divm_def m_pllmb_divn_def m_pllm_ss_ctrl1_def m_pllm_ss_ctrl2_def m_pllmb_ss_ctrl1_def
  m_pllmb_ss_ctrl2_def m_pllm_ss_cfg_def m_pllmb_ss_cfg_def m_emc_cfg_def m_emc_rd_rcd_def
  m_emc_wr_rcd_def m_emc_rc_def m_emc_ras_def m_emc_rrd_def m_emc_rfcpb_def m_emc_rfc_def
  m_emc_rp_def m_emc_txsr_def m_emc_txsrdll_def m_emc_tfaw_def m_emc_trpab_def m_emc_tckesr_def
  m_emc_tcke_def m_emc_tpd_def m_emc_tclkstop_def m_emc_r2p_def m_emc_r2w_def m_emc_trtm_def
  m_emc_tratm_def m_emc_w2p_def m_emc_w2r_def m_emc_twtm_def m_emc_twatm_def m_emc_rext_def
  m_emc_wext_def m_emc_refresh_def m_emc_pre_refresh_req_cnt_def m_emc_trefbw_def
  m_emc_dyn_self_ref_control_def m_emc_pdex2wr_def m_emc_pdex2rd_def m_emc_pchg2pden_def
  m_emc_ar2pden_def m_emc_pdex2cke_def m_emc_act2pden_def m_emc_cke2pden_def m_emc_pdex2mrr_def
  m_emc_rw2pden_def m_emc_einput_def m_emc_einput_duration_def m_emc_obdly_def m_emc_ibdly_def
  m_emc_wdv_mask_def m_emc_quse_width_def m_emc_quse_def m_emc_wdv_def m_emc_wsv_def m_emc_wev_def
  m_emc_qrst_def m_emc_tr_qrst_def m_emc_qsafe_def m_emc_tr_qsafe_def m_emc_tr_qpop_def
  m_emc_qpop_def m_emc_rdv_def m_emc_tr_rdv_mask_def m_emc_rdv_early_def m_emc_rdv_early_mask_def
  m_emc_rdv_mask_def m_emc_tr_rdv_def m_emc_cmd_brlshft_2_def m_emc_cmd_brlshft_3_def

lemmas erista_layout = e_burst_regs_def e_shadow_regs_ca_train_def e_shadow_regs_rdwr_train_def
  e_rate_khz_def e_mc_emem_arb_cfg_def e_mc_emem_arb_timing_rcd_def e_mc_emem_arb_timing_rp_def
  e_mc_emem_arb_timing_rc_def e_mc_emem_arb_timing_ras_def e_mc_emem_arb_timing_faw_def
  e_mc_emem_arb_timing_rrd_def e_mc_emem_arb_timing_rfcpb_def e_mc_emem_arb_timing_rap2pre_def
  e_mc_emem_arb_timing_wap2pre_def e_mc_emem_arb_timing_r2r_def e_mc_emem_arb_timing_r2w_def
  e_mc_emem_arb_timing_w2r_def e_mc_emem_arb_da_turns_def e_mc_emem_arb_da_covers_def
  e_mc_emem_arb_misc0_def e_mc_mll_mpcorer_ptsa_rate_def e_mc_ftop_ptsa_rate_def
  e_mc_ptsa_grant_decrement_def e_mc_latency_allowance_xusb_0_def e_mc_latency_allowance_xusb_1_def
  e_mc_latency_allowance_tsec_0_def e_mc_latency_allowance_sdmmcaa_0_def
  e_mc_latency_allowance_sdmmcab_0_def e_mc_latency_allowance_sdmmc_0_def
  e_mc_latency_allowance_sdmmca_0_def e_mc_latency_allowance_ppcs_1_def
  e_mc_latency_allowance_nvdec_0_def e_mc_latency_allowance_mpcore_0_def
  e_mc_latency_allowance_avpc_0_def e_mc_latency_allowance_isp2_1_def
  e_mc_latency_allowance_gpu_0_def e_mc_latency_allowance_gpu2_0_def
  e_mc_latency_allowance_vic_0_def e_mc_latency_allowance_nvenc_0_def
  e_mc_latency_allowance_hc_0_def e_mc_latency_allowance_hc_1_def e_mc_latency_allowance_vi2_0_def
  e_t_rp_def e_t_rfc_def e_emc_cfg_2_def e_min_volt_def e_emc_cfg_def e_emc_rd_rcd_def
  e_emc_wr_rcd_def e_emc_rc_def e_emc_ras_def e_emc_rrd_def e_emc_rfcpb_def e_emc_rfc_def
  e_emc_rp_def e_emc_txsr_def e_emc_txsrdll_def e_emc_tfaw_def e_emc_trpab_def e_emc_tckesr_def
  e_emc_tcke_def e_emc_tpd_def e_emc_tclkstop_def e_emc_r2p_def e_emc_r2w_def e_emc_w2p_def
  e_emc_w2r_def e_emc_rext_def e_emc_wext_def e_emc_refresh_def e_emc_pre_refresh_req_cnt_def
  e_emc_trefbw_def e_emc_dyn_self_ref_control_def e_emc_pdex2wr_def e_emc_pdex2rd_def
  e_emc_pchg2pden_def e_emc_ar2pden_def e_emc_pdex2cke_def e_emc_act2pden_def e_emc_cke2pden_def
  e_emc_pdex2mrr_def e_emc_rw2pden_def

end
