(* ===== verification/Doubles.thy ===== *)
theory Doubles
  imports Complex_Main Prelude
begin

text \<open>
  Double-precision arithmetic as the loader's memory timings use it. A number is the rational it stands
  for; every operation rounds its exact result to 53 significant bits, to the nearest and to even on a
  tie. The range of the exponent is not modelled: the values of the timings lie between \<open>10^-5\<close> and
  \<open>10^10\<close>. Rounding to a whole number is exact.

  A conversion to an integer truncates; outside the range of the type, where the language leaves it
  open, it saturates as the conversion instructions of the processor do.
\<close>

section \<open>Rounding\<close>

fun bits :: "nat \<Rightarrow> nat" where
  "bits n = (if n = 0 then 0 else Suc (bits (n div 2)))"

declare bits.simps [simp del]

text \<open>The exponent of the last of 53 significant bits of a positive number.\<close>

definition last_place :: "rat \<Rightarrow> int" where
  "last_place x =
     (if 1 \<le> x then int (bits (nat \<lfloor>x\<rfloor>)) - 53 else - int (bits (nat \<lfloor>1 / x\<rfloor>)) - 52)"

definition half_even :: "rat \<Rightarrow> int" where
  "half_even m =
     (let f = \<lfloor>m\<rfloor>; r = m - of_int f
      in if r < 1 / 2 then f else if 1 / 2 < r then f + 1 else if even f then f else f + 1)"

definition fl_pos :: "rat \<Rightarrow> rat" where
  "fl_pos x = (let u = 2 powi last_place x in of_int (half_even (x / u)) * u)"

definition fl :: "rat \<Rightarrow> rat" where
  "fl x = (if x = 0 then 0 else if 0 < x then fl_pos x else - fl_pos (- x))"

section \<open>The type\<close>

type_synonym s32 = "32 word"

datatype double = Double (exact: rat)

definition lit :: "rat \<Rightarrow> double" where
  "lit x = Double (fl x)"

definition of_u32 :: "u32 \<Rightarrow> double" where
  "of_u32 v = Double (of_nat (unat v))"

definition of_s32 :: "s32 \<Rightarrow> double" where
  "of_s32 v = Double (of_int (sint v))"

instantiation double :: "{plus, minus, uminus, times, inverse, ord}"
begin

definition plus_double :: "double \<Rightarrow> double \<Rightarrow> double" where
  "plus_double x y = Double (fl (exact x + exact y))"

definition minus_double :: "double \<Rightarrow> double \<Rightarrow> double" where
  "minus_double x y = Double (fl (exact x - exact y))"

definition uminus_double :: "double \<Rightarrow> double" where
  "uminus_double x = Double (- exact x)"

definition times_double :: "double \<Rightarrow> double \<Rightarrow> double" where
  "times_double x y = Double (fl (exact x * exact y))"

definition divide_double :: "double \<Rightarrow> double \<Rightarrow> double" where
  "divide_double x y = Double (fl (exact x / exact y))"

definition inverse_double :: "double \<Rightarrow> double" where
  "inverse_double x = Double (fl (1 / exact x))"

definition less_eq_double :: "double \<Rightarrow> double \<Rightarrow> bool" where
  "less_eq_double x y \<longleftrightarrow> exact x \<le> exact y"

definition less_double :: "double \<Rightarrow> double \<Rightarrow> bool" where
  "less_double x y \<longleftrightarrow> exact x < exact y"

instance ..

end

definition ceil :: "double \<Rightarrow> double" where
  "ceil x = Double (of_int \<lceil>exact x\<rceil>)"

definition floor_d :: "double \<Rightarrow> double" where
  "floor_d x = Double (of_int \<lfloor>exact x\<rfloor>)"

text \<open>To the nearest whole number, halves away from zero.\<close>

definition lround :: "double \<Rightarrow> int" where
  "lround x = (if 0 \<le> exact x then \<lfloor>exact x + 1 / 2\<rfloor> else - \<lfloor>1 / 2 - exact x\<rfloor>)"

definition trunc :: "rat \<Rightarrow> int" where
  "trunc x = (if 0 \<le> x then \<lfloor>x\<rfloor> else \<lceil>x\<rceil>)"

definition to_u32 :: "double \<Rightarrow> u32" where
  "to_u32 x = word_of_int (min (2 ^ 32 - 1) (max 0 (trunc (exact x))))"

definition to_s32 :: "double \<Rightarrow> s32" where
  "to_s32 x = word_of_int (min (2 ^ 31 - 1) (max (- (2 ^ 31)) (trunc (exact x))))"

lemmas double_defs = plus_double_def minus_double_def uminus_double_def times_double_def divide_double_def
  less_eq_double_def less_double_def ceil_def floor_d_def lit_def of_u32_def of_s32_def

section \<open>The error of a rounding\<close>

lemma bits_range: "0 < n \<Longrightarrow> 2 ^ (bits n - 1) \<le> n \<and> n < 2 ^ bits n"
proof (induction n rule: less_induct)
  case (less n)
  show ?case
  proof (cases "n = 1")
    case True
    then show ?thesis by (simp add: bits.simps)
  next
    case False
    with less.prems have h: "0 < n div 2" "n div 2 < n" by auto
    have b: "bits n = Suc (bits (n div 2))" using less.prems by (simp add: bits.simps)
    obtain k where k: "bits (n div 2) = Suc k" using h(1) by (simp add: bits.simps [of "n div 2"])
    show ?thesis using less.IH [OF h(2,1)] by (auto simp: b k)
  qed
qed

lemma half_even_error: "\<bar>of_int (half_even m) - m\<bar> \<le> 1 / 2"
proof -
  have "of_int \<lfloor>m\<rfloor> \<le> m" "m < of_int \<lfloor>m\<rfloor> + 1" by linarith+
  then show ?thesis by (auto simp: half_even_def Let_def abs_le_iff)
qed

text \<open>A number has at least 53 bits above its last place.\<close>

lemma last_place_below: "0 < x \<Longrightarrow> 2 ^ 52 * 2 powi last_place x \<le> x"
proof -
  assume x: "0 < x"
  show ?thesis
  proof (cases "1 \<le> x")
    case True
    let ?k = "bits (nat \<lfloor>x\<rfloor>)"
    have "0 < nat \<lfloor>x\<rfloor>" using True by simp
    from bits_range [OF this] have "2 ^ (?k - 1) \<le> nat \<lfloor>x\<rfloor>" "0 < ?k"
      by (auto simp: bits.simps [of "nat \<lfloor>x\<rfloor>"])
    then have "(2 :: rat) ^ (?k - 1) \<le> of_nat (nat \<lfloor>x\<rfloor>)"
      by (metis of_nat_le_iff of_nat_numeral of_nat_power)
    also have "\<dots> \<le> x" using True by (simp add: of_nat_nat)
    finally have "2 ^ (?k - 1) \<le> x" .
    moreover have "2 ^ 52 * 2 powi (int ?k - 53) = (2 :: rat) ^ (?k - 1)"
    proof -
      have "(2 :: rat) ^ 52 * 2 powi (int ?k - 53) = 2 powi 52 * 2 powi (int ?k - 53)" by (simp add: power_int_def)
      also have "\<dots> = 2 powi (int ?k - 1)" by (subst power_int_add [symmetric]) simp_all
      also have "\<dots> = 2 ^ (?k - 1)" using \<open>0 < ?k\<close> by (simp add: power_int_def nat_diff_distrib)
      finally show ?thesis .
    qed
    ultimately show ?thesis using True by (simp add: last_place_def)
  next
    case False
    let ?j = "bits (nat \<lfloor>1 / x\<rfloor>)"
    have "1 \<le> 1 / x" using x False by (simp add: field_simps)
    then have "0 < nat \<lfloor>1 / x\<rfloor>" by simp
    from bits_range [OF this] have "nat \<lfloor>1 / x\<rfloor> < 2 ^ ?j" by simp
    then have "\<lfloor>1 / x\<rfloor> < 2 ^ ?j" using \<open>1 \<le> 1 / x\<close> by (simp add: nat_less_iff)
    then have "1 / x < of_int (2 ^ ?j)" by (simp only: floor_less_iff)
    then have "1 / x < 2 ^ ?j" by simp
    then have "1 / 2 ^ ?j < x" using x by (simp add: field_simps)
    moreover have "2 ^ 52 * 2 powi (- int ?j - 52) = 1 / (2 :: rat) ^ ?j"
    proof -
      have "(2 :: rat) ^ 52 * 2 powi (- int ?j - 52) = 2 powi 52 * 2 powi (- int ?j - 52)" by (simp add: power_int_def)
      also have "\<dots> = 2 powi (- int ?j)" by (subst power_int_add [symmetric]) simp_all
      also have "\<dots> = 1 / 2 ^ ?j" by (simp add: power_int_minus divide_inverse)
      finally show ?thesis .
    qed
    ultimately show ?thesis using False by (simp add: last_place_def)
  qed
qed

lemma fl_pos_error: "0 < x \<Longrightarrow> \<bar>fl_pos x - x\<bar> \<le> x / 2 ^ 53"
proof -
  assume x: "0 < x"
  let ?u = "(2 :: rat) powi last_place x"
  have u: "0 < ?u" by simp
  have "fl_pos x - x = (of_int (half_even (x / ?u)) - x / ?u) * ?u"
    using u by (simp add: fl_pos_def Let_def field_simps)
  then have "\<bar>fl_pos x - x\<bar> = \<bar>of_int (half_even (x / ?u)) - x / ?u\<bar> * ?u"
    using u by (simp add: abs_mult)
  also have "\<dots> \<le> 1 / 2 * ?u" using u by (intro mult_right_mono half_even_error) simp
  also have "\<dots> \<le> x / 2 ^ 53" using last_place_below [OF x] by (simp add: field_simps)
  finally show ?thesis .
qed

lemma fl_error: "\<bar>fl x - x\<bar> \<le> \<bar>x\<bar> / 2 ^ 53"
proof -
  consider "x = 0" | "0 < x" | "x < 0" by linarith
  then show ?thesis
  proof cases
    case 3
    then have "fl x - x = - (fl_pos (- x) - - x)" by (simp add: fl_def)
    then have "\<bar>fl x - x\<bar> = \<bar>fl_pos (- x) - - x\<bar>" by (simp only: abs_minus_cancel)
    also have "\<dots> \<le> - x / 2 ^ 53" using 3 by (intro fl_pos_error) simp
    finally show ?thesis using 3 by simp
  qed (use fl_pos_error [of x] in \<open>simp_all add: fl_def\<close>)
qed

lemma fl_bounds:
  assumes "0 \<le> x"
  shows "x * (1 - 1 / 2 ^ 53) \<le> fl x" "fl x \<le> x * (1 + 1 / 2 ^ 53)" "0 \<le> fl x"
proof -
  have e: "\<bar>fl x - x\<bar> \<le> x / 2 ^ 53" using fl_error [of x] assms by simp
  then have "x - x / 2 ^ 53 \<le> fl x" "fl x \<le> x + x / 2 ^ 53" by linarith+
  then show lo: "x * (1 - 1 / 2 ^ 53) \<le> fl x" and "fl x \<le> x * (1 + 1 / 2 ^ 53)"
    by (simp_all only: right_diff_distrib distrib_left mult_1_right times_divide_eq_right)
  have "0 \<le> x * (1 - 1 / 2 ^ 53)" using assms by simp
  with lo show "0 \<le> fl x" by simp
qed

lemma fl_0 [simp]: "fl 0 = 0"
  by (simp add: fl_def)

lemma fl_pos_less: "0 < x \<Longrightarrow> 0 < fl x"
proof -
  assume x: "0 < x"
  have "0 < x * (1 - 1 / 2 ^ 53)" using x by simp
  with fl_bounds(1) [of x] x show ?thesis by simp
qed

text \<open>Whole numbers below \<open>2^53\<close> are exact.\<close>

lemma half_even_of_int [simp]: "half_even (of_int n) = n"
  by (simp add: half_even_def)

lemma fl_of_nat:
  assumes "n < 2 ^ 53"
  shows "fl (of_nat n) = of_nat n"
proof (cases "n = 0")
  case False
  let ?k = "bits n"
  have "2 ^ (?k - 1) \<le> n" using bits_range [of n] False by simp
  with assms have "(2 :: nat) ^ (?k - 1) < 2 ^ 53" by linarith
  then have "?k - 1 < 53" by (rule power_less_imp_less_exp [rotated]) simp
  then have k: "?k \<le> 53" by simp
  have lp: "last_place (of_nat n) = - int (53 - ?k)"
    using False k by (simp add: last_place_def of_nat_diff)
  have u: "(2 :: rat) powi last_place (of_nat n) = 1 / 2 ^ (53 - ?k)"
    unfolding lp by (simp add: power_int_minus divide_inverse)
  have "(of_nat n :: rat) / (1 / 2 ^ (53 - ?k)) = of_int (int n * 2 ^ (53 - ?k))" by simp
  then have "fl_pos (of_nat n) = of_int (int n * 2 ^ (53 - ?k)) * (1 / 2 ^ (53 - ?k))"
    unfolding fl_pos_def Let_def u by (simp only: half_even_of_int)
  then have "fl_pos (of_nat n) = of_nat n" by simp
  then show ?thesis using False by (simp add: fl_def)
qed simp

text \<open>For evaluation.\<close>

lemma bits_numeral [simp]: "bits 0 = 0" "bits (Suc 0) = 1" "bits 1 = 1" "bits (numeral Num.One) = 1"
  "bits (numeral (Num.Bit0 k)) = Suc (bits (numeral k))" "bits (numeral (Num.Bit1 k)) = Suc (bits (numeral k))"
  by (simp_all add: bits.simps [of "numeral k" for k] bits.simps [of 0] bits.simps [of "Suc 0"])

lemma floor_quotient [simp]: "\<lfloor>numeral a / numeral b :: rat\<rfloor> = numeral a div numeral b"
  by (metis floor_divide_of_int_eq of_int_numeral)

lemma ceiling_quotient [simp]: "\<lceil>numeral a / numeral b :: rat\<rceil> = - (- numeral a div numeral b)"
  by (metis ceiling_def floor_divide_of_int_eq minus_divide_left of_int_minus of_int_numeral)

lemmas double_eval = double_defs fl_def fl_pos_def last_place_def half_even_def Let_def

end
