(* ===== verification/Mtc_Timings.thy ===== *)
theory Mtc_Timings
  imports Doubles Loader_Customize
begin

text \<open>
  The timings of the memory: the latencies and the mode register, \<open>oc/mariko/calculate_timings.cpp\<close>,
  \<open>oc/mariko/timing_tables.cpp\<close>, \<open>oc/erista/calculate_timings_erista.cpp\<close>, with the values of
  \<open>oc/mtc_timing_value.hpp\<close>. The variables the functions set are the fields of a record; an index into
  a table of values that lies outside it reads nothing (0).
\<close>

section \<open>Values\<close>

definition value_at :: "'a list \<Rightarrow> u32 \<Rightarrow> 'a \<Rightarrow> 'a" where
  "value_at xs i d = (if unat i < length xs then xs ! unat i else d)"

definition BL :: u32 where "BL = 16"
definition RL_1331 :: u32 where "RL_1331 = 28"
definition WL_1331 :: u32 where "WL_1331 = 12"
definition tSR :: double where "tSR = lit 15"
definition tXP :: double where "tXP = lit (15 / 2)"

definition tRCD_values :: "u32 list" where "tRCD_values = [18, 17, 16, 15, 14, 13, 12, 11]"
definition tRP_values :: "u32 list" where "tRP_values = [18, 17, 16, 15, 14, 13, 12, 11]"
definition tRAS_values :: "u32 list" where "tRAS_values = [42, 36, 34, 32, 30, 28, 26, 24, 22, 20]"
definition mariko_tRRD_values :: "double list" where
  "mariko_tRRD_values = [lit (15 / 2), lit 6, lit 5, lit 4, lit 3, lit 2, lit 1]"
definition erista_tRRD_values :: "double list" where
  "erista_tRRD_values = [lit 10, lit (15 / 2), lit 6, lit 5, lit 4, lit 3, lit 2, lit 1]"
definition mariko_tRFC_values :: "u32 list" where
  "mariko_tRFC_values = [140, 130, 120, 110, 100, 90, 80, 70, 60, 50, 40]"
definition erista_tRFC_values :: "u32 list" where "erista_tRFC_values = [90, 80, 70, 60, 50, 40]"
definition tWTR_values :: "u32 list" where "tWTR_values = [10, 9, 8, 7, 6, 5, 4, 3, 2, 1]"
definition tREFpb_values :: "u32 list" where
  "tREFpb_values = [3900, 5850, 7800, 11700, 15600, 99999]"

definition PACK_U32 :: "u32 \<Rightarrow> u32 \<Rightarrow> u32" where
  "PACK_U32 high low = push_bit 16 high OR (low AND 0xFFFF)"

definition PACK_U32_NIBBLE_HIGH_BYTE_LOW :: "u32 \<Rightarrow> u32 \<Rightarrow> u32" where
  "PACK_U32_NIBBLE_HIGH_BYTE_LOW high low = push_bit 28 (high AND 0xF) OR (low AND 0xFF)"

text \<open>The cycles that cover a time, and the length of a cycle in ns at a rate in kHz.\<close>

definition tCK_of :: "u32 \<Rightarrow> double" where
  "tCK_of rate_khz = lit 1000000 / of_u32 rate_khz"

definition GET_CYCLE_CEIL :: "double \<Rightarrow> double \<Rightarrow> u32" where
  "GET_CYCLE_CEIL tCK_avg p = to_u32 (ceil (p / tCK_avg))"

section \<open>Latencies\<close>

definition g_rext_table :: "(u32 \<times> u32) list" where
  "g_rext_table = [
     (2133000, 0x1A), (2166000, 0x19), (2200000, 0x19), (2233000, 0x19), (2266000, 0x1A),
     (2300000, 0x1B), (2333000, 0x1B), (2366000, 0x1B), (2400000, 0x1B), (2433000, 0x1B),
     (2466000, 0x1B), (2500000, 0x1A), (2533000, 0x1C), (2566000, 0x1B), (2600000, 0x1B),
     (2633000, 0x1B), (2666000, 0x1B), (2700000, 0x1C), (2733000, 0x1C), (2766000, 0x1D),
     (2800000, 0x1D), (2833000, 0x1D), (2866000, 0x1D), (2900000, 0x1D), (2933000, 0x1C),
     (2966000, 0x1D), (3000000, 0x1D), (3033000, 0x1D), (3066000, 0x1D), (3100000, 0x1D),
     (3133000, 0x1D), (3166000, 0x1C), (3200000, 0x1C)]"

definition FindRext :: "customize \<Rightarrow> (u32 \<times> u32) option" where
  "FindRext C = find (\<lambda>p. fst p \<ge> marikoEmcMaxClock C) g_rext_table"

definition GetRext :: "customize \<Rightarrow> u32" where
  "GetRext C = (case FindRext C of Some p \<Rightarrow> snd p | None \<Rightarrow> 0x1E)"

definition SwitchLatency :: "u32 \<Rightarrow> nat \<Rightarrow> u32 \<Rightarrow> u32" where
  "SwitchLatency latency index latencyStep = latency + of_nat index * latencyStep"

text \<open>The last index with an entry; \<open>None\<close> stands for -1.\<close>

definition GetMaxLatencyIndex :: "u32 list \<Rightarrow> nat option" where
  "GetMaxLatencyIndex arr = find (\<lambda>i. arr ! i \<noteq> 0) (rev [0..<length arr])"

definition AutoLatency :: "u32 \<Rightarrow> u32 \<Rightarrow> u32 \<Rightarrow> u32" where
  "AutoLatency latency freq latencyStep =
     (if freq > 1600000 \<and> freq \<le> 1866000 then latency + latencyStep * 2 else latency + latencyStep * 3)"

definition pick_latency :: "u32 \<Rightarrow> u32 \<Rightarrow> u32 list \<Rightarrow> nat \<Rightarrow> u32 \<Rightarrow> u32" where
  "pick_latency freq latency arr indexMax latencyStep =
     (case find (\<lambda>i. arr ! i \<noteq> 0 \<and> freq \<le> arr ! i) [0..<indexMax + 1] of
        Some i \<Rightarrow> SwitchLatency latency i latencyStep
      | None \<Rightarrow> SwitchLatency latency indexMax latencyStep)"

definition HandleLatency :: "u32 \<Rightarrow> u32 \<Rightarrow> u32 list \<Rightarrow> u32 \<Rightarrow> u32" where
  "HandleLatency freq latency arr latencyStep =
     (case GetMaxLatencyIndex arr of
        None \<Rightarrow> AutoLatency latency freq latencyStep
      | Some indexMax \<Rightarrow> pick_latency freq latency arr indexMax latencyStep)"

definition rlMapDBI :: "u32 list" where "rlMapDBI = [6, 12, 16, 22, 28, 32, 36, 40]"
definition wlMapSetA :: "u32 list" where "wlMapSetA = [4, 6, 8, 10, 12, 14, 16, 18]"

definition index_or_0 :: "u32 list \<Rightarrow> u32 \<Rightarrow> nat" where
  "index_or_0 xs v = (case find (\<lambda>i. xs ! i = v) [0..<length xs] of Some i \<Rightarrow> i | None \<Rightarrow> 0)"

definition CalculateMrw2 :: "u32 \<Rightarrow> u32 \<Rightarrow> u8" where
  "CalculateMrw2 RL WL =
     (of_nat (index_or_0 rlMapDBI RL) AND 0x7) OR push_bit 3 (of_nat (index_or_0 wlMapSetA WL) AND 0x7)"

section \<open>The timings of Mariko\<close>

record mtc_timings =
  tRCD :: u32
  tRPpb :: u32
  tRAS :: u32
  tRRD :: double
  tRFCpb :: u32
  tRC :: u32
  tRFCab :: u32
  tXSR :: double
  tFAW :: u32
  tRPab :: double
  RL :: u32
  WL :: u32
  tR2P :: u32
  tR2W :: u32
  tRTM :: u32
  tRATM :: u32
  rext :: u32
  rdv :: u32
  qpop :: u32
  quse_width :: u32
  quse :: u32
  einput_duration :: u32
  einput :: u32
  qrst :: u32
  ibdly :: u32
  qsafe :: u32
  tW2P :: u32
  tWTPDEN :: u32
  tW2R :: u32
  tWTM :: u32
  tWATM :: u32
  wdv :: u32
  wsv :: u32
  wev :: u32
  obdly :: u32
  pdex2rw :: u32
  tCLKSTOP :: u32
  pdex2mrr :: u32
  mrw2 :: u8

definition read_to_write :: "double \<Rightarrow> u32 \<Rightarrow> u32 \<Rightarrow> u32 \<Rightarrow> u32 \<Rightarrow> u32" where
  "read_to_write t rl wl rtw fine =
     to_u32 (floor_d (floor_d (lit 5 / t + (floor_d (lit 48 / of_u32 wl) - lit (478 / 1000)) * lit 3)
               / lit (1501 / 1000))
             + of_u32 rl - of_u32 (rtw * 3) + of_s32 fine)"

definition write_to_read :: "double \<Rightarrow> u32 \<Rightarrow> u32 \<Rightarrow> u32 \<Rightarrow> u32 \<Rightarrow> u32" where
  "write_to_read t rl wl wtr fine =
     to_u32 (floor_d (max (lit (5020 / 1000) / t + lit (1130 / 1000))
                          (of_u32 wl - max (- ceil (lit (258 / 1000) * of_u32 (wl - rl))) (lit (1964 / 1000)))
                      * lit (1964 / 1000))
             + of_u32 wl - ceil (of_u32 wtr / t) + of_s32 fine)"

definition write_to_powerdown :: "double \<Rightarrow> u32 \<Rightarrow> u32 \<Rightarrow> u32" where
  "write_to_powerdown t rl w2p =
     to_u32 (ceil (lit (1803 / 1000) / t + max (of_u32 rl + lit (2694 / 1000) / t) (of_u32 w2p)
                   + of_u32 (BL div 2)))"

definition write_to_precharge :: "u32 \<Rightarrow> u32" where
  "write_to_precharge wl = to_u32 (ceil (of_u32 wl * lit (17303 / 10000)) * lit 2 - lit 5)"

definition read_to_precharge :: "u32 \<Rightarrow> u32" where
  "read_to_precharge rl = to_u32 (ceil (of_u32 rl * lit (426 / 1000) - lit 2))"

definition powerdown_exit :: "double \<Rightarrow> u32" where
  "powerdown_exit t =
     to_u32 (ceil (ceil (lit (12335 / 1000) - t) + lit (7430 / 1000) / t - ceil (t * lit (11361 / 1000))))"

definition clock_stop :: "double \<Rightarrow> u32" where
  "clock_stop t = to_u32 (floor_d (min (lit (8488 / 1000) / t) (lit 23)) + lit 8)"

definition smax0 :: "u32 \<Rightarrow> u32" where
  "smax0 v = (if sint v < 0 then 0 else v)"

definition CalculateTimings :: "customize \<Rightarrow> double \<Rightarrow> u32 \<Rightarrow> mtc_timings" where
  "CalculateTimings C t freq =
     (let rl = HandleLatency freq RL_1331 (readLatency C) 4;
          wl = HandleLatency freq WL_1331 (writeLatency C) 2;
          tRPpbIndex = (if wl = WL_1331 then min (t2_tRP_cap C) (t2_tRP C) else t2_tRP C);
          rcd = value_at tRCD_values (t1_tRCD C) 0;
          rp = value_at tRP_values tRPpbIndex 0;
          ras = value_at tRAS_values (t3_tRAS C) 0;
          rrd = value_at mariko_tRRD_values (t4_tRRD C) (lit 0);
          rfcpb = value_at mariko_tRFC_values (t5_tRFC C) 0;
          low = freq < timingEmcTbreak C;
          rtw = (if low then low_t6_tRTW C else t6_tRTW C);
          wtr = 10 - value_at tWTR_values (if low then low_t7_tWTR C else t7_tWTR C) 0;
          rfcab = rfcpb * 2;
          rtm = to_u32 (floor_d (lit 10 + of_u32 rl + lit (3502 / 1000) / t)
                  + floor_d (lit (7489 / 1000) / t));
          rv = to_u32 (of_u32 rl + floor_d (lit (5105 / 1000) / t + lit (17017 / 1000)));
          qw = to_u32 (ceil (lit (4897 / 1000) / t - floor_d (lit (2538 / 1000) / t) + lit (3782 / 1000)));
          q = to_u32 (floor_d (of_u32 rl + (lit (5082 / 1000) / t + floor_d (lit (2560 / 1000) / t)))
                - ceil (lit (4820 / 1000) / t));
          ed = to_u32 (floor_d (lit (9936 / 1000) / t) + lit 5 + of_u32 qw);
          ei = to_u32 (of_u32 q - ceil (lit (9928 / 1000) / t));
          qrst_duration = to_u32 (floor_d (lit (8399 / 1000) - t));
          qrstLow = smax0 (ei - qrst_duration - 2);
          w2p = write_to_precharge wl;
          wtm = to_u32 (ceil (of_u32 wl + (lit (7570 / 1000) / t + lit (8753 / 1000))));
          obdlyHigh = to_u32 (lit 3 / floor_d (min (lit 2) (t * of_u32 (wl - 7))));
          obdlyLow = to_u32 (max (of_u32 wl - floor_d (lit 126 / ceil (t + lit (8601 / 1000)))) (lit 0));
          mmri = to_u32 (of_u32 rcd + t * lit 3)
      in \<lparr>tRCD = rcd, tRPpb = rp, tRAS = ras, tRRD = rrd, tRFCpb = rfcpb, tRC = ras + rp, tRFCab = rfcab,
          tXSR = of_u32 rfcab + lit (15 / 2), tFAW = to_u32 (rrd * lit 4), tRPab = of_u32 (rp + 3),
          RL = rl, WL = wl, tR2P = read_to_precharge rl,
          tR2W = read_to_write t rl wl rtw (fineTune_t6_tRTW C), tRTM = rtm,
          tRATM = to_u32 (ceil (of_u32 rtm - lit 10 + of_u32 rl * lit (426 / 1000))),
          rext = GetRext C, rdv = rv, qpop = rv - 14, quse_width = qw, quse = q, einput_duration = ed,
          einput = ei, qrst = PACK_U32 qrst_duration qrstLow,
          ibdly = PACK_U32_NIBBLE_HIGH_BYTE_LOW 1 (to_u32 (of_u32 (q - qrst_duration) - lit 2)),
          qsafe = (ed + 3) + max (min (qrstLow * rv) (qrst_duration + qrst_duration)) ei,
          tW2P = w2p, tWTPDEN = write_to_powerdown t rl w2p,
          tW2R = write_to_read t rl wl wtr (fineTune_t7_tWTR C), tWTM = wtm,
          tWATM = to_u32 (of_u32 wtm + floor_d (of_u32 wl / lit (816 / 1000)) * lit 2 - lit 4),
          wdv = wl, wsv = wl - 2, wev = 0xA + (wl - 14),
          obdly = PACK_U32_NIBBLE_HIGH_BYTE_LOW obdlyHigh obdlyLow,
          pdex2rw = powerdown_exit t, tCLKSTOP = clock_stop t, pdex2mrr = mmri + 10,
          mrw2 = CalculateMrw2 rl wl\<rparr>)"

end
