(* ===== verification/Mtc_Adjust.thy ===== *)
theory Mtc_Adjust
  imports Mtc_Layout Mtc_Timings
begin

text \<open>
  The registers of a memory table for a new frequency: \<open>MemMtcTableAutoAdjust\<close> and
  \<open>MemMtcPllmbDivisor\<close> of \<open>oc/pcv/pcv_mariko.cpp\<close> and \<open>MemMtcTableAutoAdjust\<close> of
  \<open>oc/pcv/pcv_erista.cpp\<close>, on the words of the table. What a function writes is the list of words with
  their values, in the order of the code; it is computed from the table as it was and the frequency
  that was already set.
\<close>

section \<open>Writing words\<close>

definition write_words :: "(nat \<times> u32) list \<Rightarrow> u32 list \<Rightarrow> u32 list" where
  "write_words fs ws = fold (\<lambda>(k, v) ws. ws[k := v]) fs ws"

text \<open>\<open>WRITE_PARAM_ALL_REG\<close>: the same register of each group.\<close>

definition all_groups :: "nat list \<Rightarrow> (nat \<times> u32) list \<Rightarrow> (nat \<times> u32) list" where
  "all_groups groups fs = concat (map (\<lambda>(f, v). map (\<lambda>g. (g + f, v)) groups) fs)"

definition m_groups :: "nat list" where
  "m_groups = [m_burst_regs, m_shadow_regs_ca_train, m_shadow_regs_rdwr_train]"

definition e_groups :: "nat list" where
  "e_groups = [e_burst_regs, e_shadow_regs_ca_train, e_shadow_regs_rdwr_train]"

section \<open>Shared by both\<close>

definition emc_cfg_value :: "customize \<Rightarrow> u32" where
  "emc_cfg_value C = (if hpMode C \<noteq> 0 then 0x13200000 else 0xF3200000)"

definition refresh_raw :: "customize \<Rightarrow> double \<Rightarrow> u32" where
  "refresh_raw C t =
     (if t8_tREFI C \<noteq> 6
      then min (to_u32 (ceil (of_u32 (value_at tREFpb_values (t8_tREFI C) 0) / t) - lit 0x40)) 0xFFFF
      else 0xFFFF)"

definition trefbw :: "u32 \<Rightarrow> u32" where
  "trefbw refresh = min (refresh + 0x40) 0x3FFF"

definition dyn_self_ref :: "double \<Rightarrow> u32 \<Rightarrow> u32" where
  "dyn_self_ref t old = (to_u32 (lit 7605 / t) + 260) OR (old AND 0xffff0000)"

text \<open>A count of cycles in units of four.\<close>

definition quarter :: "u32 \<Rightarrow> u32 \<Rightarrow> u32" where
  "quarter cycles k = to_u32 (ceil (of_u32 cycles / lit 4) - of_u32 k)"

definition quarter_plus :: "u32 \<Rightarrow> u32" where
  "quarter_plus cycles = to_u32 (ceil (of_u32 cycles / lit 4) - lit 1 + lit 2)"

definition allowance :: "u32 \<Rightarrow> u32 \<Rightarrow> u32" where
  "allowance k rate = (k div (rate div 1000)) AND 0xFF"

text \<open>
  The registers of the memory arbiter that follow from those computed before: the turn-around times,
  the covers and the count of the row cycle.
\<close>

definition da_turns :: "u32 \<Rightarrow> u32 \<Rightarrow> u32" where
  "da_turns r2w w2r =
     push_bit 16 (ucast (ucast (r2w div 2) :: u8)) OR push_bit 24 (ucast (ucast (w2r div 2) :: u8))"

definition da_covers :: "u32 \<Rightarrow> u32 \<Rightarrow> u32 \<Rightarrow> u32 \<Rightarrow> u32 \<Rightarrow> u32" where
  "da_covers rc rap2pre wap2pre rp rcd =
     (rc div 2) OR push_bit 8 (ucast (ucast ((rap2pre + rp + rcd) div 2) :: u8))
       OR push_bit 16 (ucast (ucast ((wap2pre + rp + rcd) div 2) :: u8))"

definition misc0 :: "u32 \<Rightarrow> u32 \<Rightarrow> u32" where
  "misc0 old rc = (old AND 0xFFE08000) OR (rc + 1)"

section \<open>Mariko\<close>

definition m_timing_writes :: "customize \<Rightarrow> mtc_timings \<Rightarrow> double \<Rightarrow> u32 \<Rightarrow> u32 \<Rightarrow> (nat \<times> u32) list" where
  "m_timing_writes C T t rate old_dyn =
     (let cyc = (\<lambda>p. GET_CYCLE_CEIL t (of_u32 p)); cycd = GET_CYCLE_CEIL t; refresh = refresh_raw C t in [
      (m_emc_cfg, emc_cfg_value C),
      (m_emc_rd_rcd, cyc (tRCD T)), (m_emc_wr_rcd, cyc (tRCD T)),
      (m_emc_rc, min (cyc (tRC T)) 0xB9), (m_emc_ras, min (cyc (tRAS T)) 0x7F),
      (m_emc_rrd, cycd (tRRD T)), (m_emc_rfcpb, cyc (tRFCpb T)), (m_emc_rfc, cyc (tRFCab T)),
      (m_emc_rp, cyc (tRPpb T)), (m_emc_txsr, min (cycd (tXSR T)) 0x3fe),
      (m_emc_txsrdll, min (cycd (tXSR T)) 0x3fe), (m_emc_tfaw, cyc (tFAW T)),
      (m_emc_trpab, min (cycd (tRPab T)) 0x3F), (m_emc_tckesr, cycd tSR),
      (m_emc_tcke, cycd (lit (7425 / 1000)) + 2), (m_emc_tpd, cycd tXP),
      (m_emc_tclkstop, tCLKSTOP T), (m_emc_r2p, tR2P T), (m_emc_r2w, tR2W T), (m_emc_trtm, tRTM T),
      (m_emc_tratm, tRATM T), (m_emc_w2p, tW2P T), (m_emc_w2r, tW2R T), (m_emc_twtm, tWTM T),
      (m_emc_twatm, tWATM T), (m_emc_rext, rext T),
      (m_emc_wext, if rate \<ge> 2533000 then 0x19 else 0x16),
      (m_emc_refresh, refresh), (m_emc_pre_refresh_req_cnt, refresh div 4),
      (m_emc_trefbw, trefbw refresh), (m_emc_dyn_self_ref_control, dyn_self_ref t old_dyn),
      (m_emc_pdex2wr, pdex2rw T), (m_emc_pdex2rd, pdex2rw T),
      (m_emc_pchg2pden, cycd (lit (1763 / 1000))), (m_emc_ar2pden, cycd (lit (175 / 100))),
      (m_emc_pdex2cke, cycd (lit (105 / 100))), (m_emc_act2pden, cycd (lit 14)),
      (m_emc_cke2pden, cycd (lit (8499 / 1000))), (m_emc_pdex2mrr, cyc (pdex2mrr T)),
      (m_emc_rw2pden, tWTPDEN T), (m_emc_einput, einput T),
      (m_emc_einput_duration, einput_duration T), (m_emc_obdly, obdly T), (m_emc_ibdly, ibdly T),
      (m_emc_wdv_mask, wdv T), (m_emc_quse_width, quse_width T), (m_emc_quse, quse T),
      (m_emc_wdv, wdv T), (m_emc_wsv, wsv T), (m_emc_wev, wev T), (m_emc_qrst, qrst T),
      (m_emc_tr_qrst, qrst T), (m_emc_qsafe, qsafe T), (m_emc_tr_qsafe, qsafe T),
      (m_emc_tr_qpop, qpop T), (m_emc_qpop, qpop T), (m_emc_rdv, rdv T),
      (m_emc_tr_rdv_mask, rdv T + 2), (m_emc_rdv_early, rdv T - 2), (m_emc_rdv_early_mask, rdv T),
      (m_emc_rdv_mask, rdv T + 2), (m_emc_tr_rdv, rdv T), (m_emc_cmd_brlshft_2, 0x24),
      (m_emc_cmd_brlshft_3, 0x24)])"

definition m_arbiter_writes :: "mtc_timings \<Rightarrow> double \<Rightarrow> u32 \<Rightarrow> u32 list \<Rightarrow> (nat \<times> u32) list" where
  "m_arbiter_writes T t rate ws =
     (let cyc = (\<lambda>p. GET_CYCLE_CEIL t (of_u32 p));
          rcd = quarter (cyc (tRCD T)) 2; rp = quarter (cyc (tRPpb T)) 1; rc = quarter (cyc (tRC T)) 1;
          rap2pre = to_u32 (ceil (of_u32 (tR2P T) / lit 4));
          wap2pre = to_u32 (ceil (of_u32 (tW2P T) / lit 4) + lit 2);
          wext = (if rate \<ge> 2533000 then 0x19 else 0x16);
          r2w = quarter_plus (tR2W T); w2r = quarter_plus (tW2R T)
      in [
      (m_mc_emem_arb_cfg, to_u32 (of_u32 rate / (lit (333 / 10) * lit 1000) / lit 4)),
      (m_mc_emem_arb_timing_rcd, rcd), (m_mc_emem_arb_timing_rp, rp), (m_mc_emem_arb_timing_rc, rc),
      (m_mc_emem_arb_timing_ras, quarter (cyc (tRAS T)) 2),
      (m_mc_emem_arb_timing_faw, quarter (cyc (tFAW T)) 1),
      (m_mc_emem_arb_timing_rrd, quarter (GET_CYCLE_CEIL t (tRRD T)) 1),
      (m_mc_emem_arb_timing_rfcpb, quarter (cyc (tRFCpb T)) 1),
      (m_mc_emem_arb_timing_rap2pre, rap2pre), (m_mc_emem_arb_timing_wap2pre, wap2pre),
      (m_mc_emem_arb_timing_r2r,
         if ws ! m_mc_emem_arb_timing_r2r > 1 then to_u32 (ceil (of_u32 (rext T div 4)) - lit 1 + lit 2)
         else ws ! m_mc_emem_arb_timing_r2r),
      (m_mc_emem_arb_timing_w2w,
         if ws ! m_mc_emem_arb_timing_w2w > 1 then quarter_plus wext
         else ws ! m_mc_emem_arb_timing_w2w),
      (m_mc_emem_arb_timing_r2w, r2w), (m_mc_emem_arb_timing_w2r, w2r),
      (m_mc_emem_arb_da_turns, da_turns r2w w2r),
      (m_mc_emem_arb_da_covers, da_covers rc rap2pre wap2pre rp rcd),
      (m_mc_emem_arb_misc0, misc0 (ws ! m_mc_emem_arb_misc0) rc)])"

definition m_latency_writes :: "u32 \<Rightarrow> u32 list \<Rightarrow> (nat \<times> u32) list" where
  "m_latency_writes rate ws =
     (let a1 = allowance 0x32000 rate; a2 = allowance 0x9C40 rate; a3 = allowance 0xB540 rate;
          a4 = allowance 0x9600 rate; a5 = allowance 0x8980 rate;
          high = (\<lambda>k. (k, (ws ! k AND 0xFF00FFFF) OR push_bit 16 a1));
          both = (\<lambda>k a. (k, a OR (ws ! k AND 0xFF00FF00) OR push_bit 16 a1));
          low = (\<lambda>k a. (k, (ws ! k AND 0xFFFFFF00) OR a))
      in [
      (m_mc_mll_mpcorer_ptsa_rate, 0x115),
      (m_mc_ftop_ptsa_rate, if rate \<ge> 2133000 then 0x1F else 0x1B),
      (m_mc_ptsa_grant_decrement, 0x17ff),
      high m_mc_latency_allowance_xusb_0, high m_mc_latency_allowance_xusb_1,
      high m_mc_latency_allowance_tsec_0, high m_mc_latency_allowance_sdmmcaa_0,
      high m_mc_latency_allowance_sdmmcab_0, high m_mc_latency_allowance_sdmmc_0,
      high m_mc_latency_allowance_sdmmca_0, high m_mc_latency_allowance_ppcs_1,
      high m_mc_latency_allowance_nvdec_0, high m_mc_latency_allowance_mpcore_0,
      high m_mc_latency_allowance_avpc_0, both m_mc_latency_allowance_isp2_1 a1,
      both m_mc_latency_allowance_gpu_0 a2, both m_mc_latency_allowance_gpu2_0 a2,
      both m_mc_latency_allowance_vic_0 a3, both m_mc_latency_allowance_nvenc_0 a4,
      low m_mc_latency_allowance_hc_0 a5, low m_mc_latency_allowance_hc_1 a1,
      low m_mc_latency_allowance_vi2_0 a1])"

definition m_dram_writes :: "mtc_timings \<Rightarrow> u32 list \<Rightarrow> (nat \<times> u32) list" where
  "m_dram_writes T ws = [
     (m_t_rp, tRFCpb T), (m_t_rfc, tRFCab T), (m_rl, RL T),
     (m_emc_mrw2, (ws ! m_emc_mrw2 AND NOT 0xFF) OR ucast (mrw2 T)), (m_emc_cfg_2, 0x11083D)]"

definition m_writes :: "customize \<Rightarrow> u32 list \<Rightarrow> (nat \<times> u32) list" where
  "m_writes C ws =
     (let rate = ws ! m_rate_khz; t = tCK_of rate; T = CalculateTimings C t rate in
      all_groups m_groups
        (m_timing_writes C T t rate (ws ! (m_burst_regs + m_emc_dyn_self_ref_control))) @
      m_arbiter_writes T t rate ws @ m_latency_writes rate ws @ m_dram_writes T ws)"

definition MemMtcTableAutoAdjust :: "customize \<Rightarrow> u32 list \<Rightarrow> u32 list" where
  "MemMtcTableAutoAdjust C ws = write_words (m_writes C ws) ws"

section \<open>The divider of the memory clock on Mariko\<close>

text \<open>
  \<open>MemMtcPllmbDivisor\<close>: divider, multiplier and its fraction in 1/8192, with or without the spread of
  the spectrum. Whole numbers are as wide as in the code; a double goes through the conversion.
\<close>

definition PllOscInKHz :: u32 where "PllOscInKHz = 38400"
definition PllOscHalfKHz :: u32 where "PllOscHalfKHz = 19200"

definition remainder_check :: "u32 \<Rightarrow> bool" where
  "remainder_check rate =
     (let half = (ucast (ucast (rate div PllOscHalfKHz) :: u8) :: u32) in
      rate - PllOscInKHz * (rate div PllOscInKHz) > rate - PllOscHalfKHz * half \<and>
      to_s32 ((of_u32 rate / of_u32 PllOscHalfKHz - of_s32 half - lit (1 / 2)) * lit 8192) \<noteq> 0)"

definition pll_fraction :: "double \<Rightarrow> double \<Rightarrow> u32 \<Rightarrow> u32" where
  "pll_fraction target div_step divn = to_s32 ((target / div_step - of_s32 divn - lit (1 / 2)) * lit 8192)"

text \<open>The branch with a positive fraction of at most one half, and the other.\<close>

definition ssc_setup :: "s32 \<Rightarrow> double \<Rightarrow> u32" where
  "ssc_setup delta_int delta_frac =
     (if delta_frac \<le> lit (1 / 2) then
        (let round_val = (if sint delta_int + lround (delta_frac + delta_frac) \<noteq> 0 then lit (1 / 2) else lit 0)
         in if lround (delta_frac + delta_frac) \<noteq> 0 then to_u32 (round_val + round_val) OR 0x1000
            else to_u32 round_val)
      else
        (let frac_doubled = lround (delta_frac - lit (1 / 2) + delta_frac - lit (1 / 2)); round_val = lit 1
         in if frac_doubled \<noteq> 0 then to_u32 round_val else to_u32 (round_val + round_val) OR 0x1000))"

definition pllmb_writes :: "u32 list \<Rightarrow> (nat \<times> u32) list" where
  "pllmb_writes ws =
     (let rate = ws ! m_rate_khz; target = of_u32 rate;
          divm_final = (if remainder_check rate then 2 else 1);
          div_step = of_u32 PllOscInKHz / of_u32 divm_final;
          divn = (ucast (ucast (to_u32 (of_u32 rate / div_step)) :: u8) :: u32);
          fraction = pll_fraction target div_step divn;
          actual = to_u32 ((of_s32 divn + lit (1 / 2) + of_u32 fraction * lit (122070312 / 10 ^ 12)) * div_step)
      in [(m_pllmb_divm, divm_final), (m_pllmb_divn, divn)] @
         (if rate - 2366001 < 133999 then
            (let fraction_ssc = pll_fraction (of_u32 actual * lit (997 / 1000)) div_step divn;
                 delta_scaled = (lit (3 / 10) / div_step + lit (3 / 10) / div_step) * of_u32 (fraction - fraction_ssc);
                 delta_int = to_s32 delta_scaled;
                 setup = ssc_setup delta_int (delta_scaled - of_s32 delta_int);
                 ctrl1 = ucast (ucast fraction_ssc :: u16) OR push_bit 16 (ucast (ucast fraction :: u16));
                 ctrl2 = ucast (ucast fraction :: u16) OR push_bit 16 (ucast (ucast setup :: u16))
             in [(m_pllm_ss_ctrl1, ctrl1), (m_pllm_ss_ctrl2, ctrl2),
                 (m_pllmb_ss_ctrl1, ctrl1), (m_pllmb_ss_ctrl2, ctrl2)])
          else
            (let pair = push_bit 32 (ucast fraction :: u64) OR ucast rate;
                 pll_misc = (ws ! m_pllm_ss_ctrl2 AND 0xFFFF0000) OR
                   ucast (drop_bit 32 (pair - ucast actual))
             in [(m_pllm_ss_cfg, ws ! m_pllm_ss_cfg AND 0xBFFFFFFF),
                 (m_pllmb_ss_cfg, ws ! m_pllmb_ss_cfg AND 0xBFFFFFFF),
                 (m_pllm_ss_ctrl2, pll_misc), (m_pllmb_ss_ctrl2, pll_misc)])))"

definition MemMtcPllmbDivisor :: "u32 list \<Rightarrow> u32 list" where
  "MemMtcPllmbDivisor ws = write_words (pllmb_writes ws) ws"

section \<open>Erista\<close>

definition erista_rext :: "u32 \<Rightarrow> u32" where
  "erista_rext rate = (if rate > 3200000 then 30 else if rate \<ge> 2133001 then 28 else 26)"

definition clamp_s :: "s32 \<Rightarrow> int \<Rightarrow> int \<Rightarrow> u32" where
  "clamp_s v lo hi = word_of_int (if sint v < lo then lo else if hi < sint v then hi else sint v)"

text \<open>
  The constants \<open>mtc_timing_value.hpp\<close> computes from the settings when the loader starts, and
  \<open>CalculateTimings\<close>, which uses them.
\<close>

record erista_timings =
  e_tRCD :: u32
  e_tRPpb :: u32
  e_tRAS :: u32
  e_tRRD :: double
  e_tRFCpb :: u32
  e_tWTR :: u32
  e_tR2P :: u32
  e_tW2P :: u32
  e_tR2W :: u32
  e_tWTPDEN :: u32
  e_tW2R :: u32
  e_pdex2rw :: u32
  e_tCLKSTOP :: u32
  e_pdex2mrr :: double

definition erista_CalculateTimings :: "customize \<Rightarrow> double \<Rightarrow> erista_timings" where
  "erista_CalculateTimings C t =
     (let rl = mem_burst_read_latency C; wl = mem_burst_write_latency C;
          rcd = value_at tRCD_values (t1_tRCD C) 0;
          wtr = 10 - value_at tWTR_values (t7_tWTR C) 0;
          w2p = write_to_precharge wl
      in \<lparr>e_tRCD = rcd, e_tRPpb = value_at tRP_values (t2_tRP C) 0,
          e_tRAS = value_at tRAS_values (t3_tRAS C) 0,
          e_tRRD = value_at erista_tRRD_values (t4_tRRD C) (lit 0),
          e_tRFCpb = value_at erista_tRFC_values (t5_tRFC C) 0, e_tWTR = wtr,
          e_tR2P = read_to_precharge rl, e_tW2P = w2p,
          e_tR2W = read_to_write t rl wl (t6_tRTW C) (fineTune_t6_tRTW C),
          e_tWTPDEN = write_to_powerdown t rl w2p,
          e_tW2R = write_to_read t rl wl wtr (fineTune_t7_tWTR C),
          e_pdex2rw = powerdown_exit t, e_tCLKSTOP = clock_stop t,
          e_pdex2mrr = of_u32 rcd + t * lit 3 + lit 10\<rparr>)"

definition e_tRC :: "erista_timings \<Rightarrow> u32" where "e_tRC T = e_tRAS T + e_tRPpb T"
definition e_tRFCab :: "erista_timings \<Rightarrow> u32" where "e_tRFCab T = e_tRFCpb T * 2"
definition e_tFAW :: "erista_timings \<Rightarrow> u32" where "e_tFAW T = to_u32 (e_tRRD T * lit 4)"

definition e_timing_writes :: "customize \<Rightarrow> erista_timings \<Rightarrow> double \<Rightarrow> u32 \<Rightarrow> u32 \<Rightarrow> (nat \<times> u32) list" where
  "e_timing_writes C T t rate old_dyn =
     (let cyc = (\<lambda>p. GET_CYCLE_CEIL t (of_u32 p)); cycd = GET_CYCLE_CEIL t; refresh = refresh_raw C t;
          xsr = min (cycd (of_u32 (e_tRFCab T) + lit (15 / 2))) 0x3fe
      in [
      (e_emc_cfg, emc_cfg_value C),
      (e_emc_rd_rcd, cyc (e_tRCD T)), (e_emc_wr_rcd, cyc (e_tRCD T)),
      (e_emc_rc, min (cyc (e_tRC T)) 0xB9), (e_emc_ras, min (cyc (e_tRAS T)) 0x7F),
      (e_emc_rrd, cycd (e_tRRD T)), (e_emc_rfcpb, cyc (e_tRFCpb T)), (e_emc_rfc, cyc (e_tRFCab T)),
      (e_emc_rp, cyc (e_tRPpb T)), (e_emc_txsr, xsr), (e_emc_txsrdll, xsr),
      (e_emc_tfaw, cyc (e_tFAW T)), (e_emc_trpab, min (cyc (e_tRPpb T + 3)) 0x3F),
      (e_emc_tckesr, cycd tSR), (e_emc_tcke, cycd (lit (7425 / 1000)) + 2), (e_emc_tpd, cycd tXP),
      (e_emc_tclkstop, e_tCLKSTOP T), (e_emc_r2p, e_tR2P T), (e_emc_r2w, e_tR2W T),
      (e_emc_w2p, e_tW2P T), (e_emc_w2r, e_tW2R T), (e_emc_rext, erista_rext rate),
      (e_emc_wext, if rate \<ge> 2533000 then 0x19 else 0x16),
      (e_emc_refresh, refresh), (e_emc_pre_refresh_req_cnt, refresh div 4),
      (e_emc_trefbw, trefbw refresh), (e_emc_dyn_self_ref_control, dyn_self_ref t old_dyn),
      (e_emc_pdex2wr, e_pdex2rw T), (e_emc_pdex2rd, e_pdex2rw T),
      (e_emc_pchg2pden, cycd (lit (1763 / 1000))), (e_emc_ar2pden, cycd (lit (175 / 100))),
      (e_emc_pdex2cke, cycd (lit (105 / 100))), (e_emc_act2pden, cycd (lit 14)),
      (e_emc_cke2pden, cycd (lit (8499 / 1000))), (e_emc_pdex2mrr, cycd (e_pdex2mrr T)),
      (e_emc_rw2pden, e_tWTPDEN T)])"

definition e_arbiter_writes :: "erista_timings \<Rightarrow> double \<Rightarrow> u32 \<Rightarrow> u32 list \<Rightarrow> (nat \<times> u32) list" where
  "e_arbiter_writes T t rate ws =
     (let cyc = (\<lambda>p. GET_CYCLE_CEIL t (of_u32 p));
          rcd = quarter (cyc (e_tRCD T)) 2; rp = quarter (cyc (e_tRPpb T)) 1; rc = quarter (cyc (e_tRC T)) 1;
          rap2pre = to_u32 (ceil (of_u32 (e_tR2P T) / lit 4));
          wap2pre = to_u32 (ceil (of_u32 (e_tW2P T) / lit 4) + lit 2);
          r2w = quarter_plus (e_tR2W T); w2r = quarter_plus (e_tW2R T)
      in [
      (e_mc_emem_arb_cfg, to_u32 (of_u32 rate / (lit (333 / 10) * lit 1000) / lit 4)),
      (e_mc_emem_arb_timing_rcd, rcd), (e_mc_emem_arb_timing_rp, rp), (e_mc_emem_arb_timing_rc, rc),
      (e_mc_emem_arb_timing_ras, quarter (cyc (e_tRAS T)) 2),
      (e_mc_emem_arb_timing_faw, quarter (cyc (e_tFAW T)) 1),
      (e_mc_emem_arb_timing_rrd, quarter (GET_CYCLE_CEIL t (e_tRRD T)) 1),
      (e_mc_emem_arb_timing_rfcpb, quarter (cyc (e_tRFCpb T)) 1),
      (e_mc_emem_arb_timing_rap2pre, rap2pre), (e_mc_emem_arb_timing_wap2pre, wap2pre),
      (e_mc_emem_arb_timing_r2r,
         if ws ! e_mc_emem_arb_timing_r2r > 1
         then to_u32 (ceil (of_u32 (erista_rext rate div 4)) - lit 1 + lit 2)
         else ws ! e_mc_emem_arb_timing_r2r),
      (e_mc_emem_arb_timing_r2w, r2w), (e_mc_emem_arb_timing_w2r, w2r),
      (e_mc_emem_arb_da_turns, da_turns r2w w2r),
      (e_mc_emem_arb_da_covers, da_covers rc rap2pre wap2pre rp rcd),
      (e_mc_emem_arb_misc0, misc0 (ws ! e_mc_emem_arb_misc0) rc)])"

definition e_latency_writes :: "u32 \<Rightarrow> u32 list \<Rightarrow> (nat \<times> u32) list" where
  "e_latency_writes rate ws =
     (let a1 = allowance 0x32000 rate; a2 = allowance 0x9C40 rate; a3 = allowance 0xB540 rate;
          a4 = allowance 0x9600 rate; a5 = allowance 0x8980 rate;
          high = (\<lambda>k. (k, (ws ! k AND 0xFF00FFFF) OR push_bit 16 a1));
          both = (\<lambda>k a. (k, a OR (ws ! k AND 0xFF00FF00) OR push_bit 16 a1));
          low = (\<lambda>k a. (k, (ws ! k AND 0xFFFFFF00) OR a))
      in [
      (e_mc_mll_mpcorer_ptsa_rate, min 227 (rate div 1600000 * 208)),
      (e_mc_ftop_ptsa_rate, min 31 (rate div 1600000 * 24)),
      (e_mc_ptsa_grant_decrement, min 6143 (rate div 1600000 * 4611)),
      high e_mc_latency_allowance_xusb_0, high e_mc_latency_allowance_xusb_1,
      high e_mc_latency_allowance_tsec_0, high e_mc_latency_allowance_sdmmcaa_0,
      high e_mc_latency_allowance_sdmmcab_0, high e_mc_latency_allowance_sdmmc_0,
      high e_mc_latency_allowance_sdmmca_0, high e_mc_latency_allowance_ppcs_1,
      high e_mc_latency_allowance_nvdec_0, high e_mc_latency_allowance_mpcore_0,
      high e_mc_latency_allowance_avpc_0, both e_mc_latency_allowance_isp2_1 a1,
      both e_mc_latency_allowance_gpu_0 a2, both e_mc_latency_allowance_gpu2_0 a2,
      both e_mc_latency_allowance_vic_0 a3, both e_mc_latency_allowance_nvenc_0 a4,
      low e_mc_latency_allowance_hc_0 a5, low e_mc_latency_allowance_hc_1 a1,
      low e_mc_latency_allowance_vi2_0 a1])"

definition e_writes :: "customize \<Rightarrow> u32 list \<Rightarrow> (nat \<times> u32) list" where
  "e_writes C ws =
     (let rate = ws ! e_rate_khz; t = tCK_of rate; T = erista_CalculateTimings C t in
      all_groups e_groups
        (e_timing_writes C T t rate (ws ! (e_burst_regs + e_emc_dyn_self_ref_control))) @
      e_arbiter_writes T t rate ws @ e_latency_writes rate ws @
      [(e_t_rp, e_tRFCpb T), (e_t_rfc, e_tRFCab T), (e_emc_cfg_2, 0x11083D),
       (e_min_volt, clamp_s (900 + emcDvbShift C * 25) 900 1050)])"

definition erista_MemMtcTableAutoAdjust :: "customize \<Rightarrow> u32 list \<Rightarrow> u32 list" where
  "erista_MemMtcTableAutoAdjust C ws = write_words (e_writes C ws) ws"

section \<open>What is written where\<close>

lemma length_write_words [simp]: "length (write_words fs ws) = length ws"
  by (induction fs arbitrary: ws) (auto simp: write_words_def)

lemma write_words_other: "k \<notin> fst ` set fs \<Longrightarrow> write_words fs ws ! k = ws ! k"
  by (induction fs arbitrary: ws) (auto simp: write_words_def)

text \<open>The last write to a word counts; with different words each.\<close>

lemma write_words_nth:
  "distinct (map fst fs) \<Longrightarrow> (k, v) \<in> set fs \<Longrightarrow> k < length ws \<Longrightarrow> write_words fs ws ! k = v"
proof (induction fs arbitrary: ws)
  case (Cons f fs)
  show ?case
  proof (cases "f = (k, v)")
    case True
    then have "k \<notin> fst ` set fs" using Cons.prems(1) by auto
    then have "write_words fs (ws[k := v]) ! k = ws[k := v] ! k" by (rule write_words_other)
    then show ?thesis using True Cons.prems(3) by (simp add: write_words_def)
  next
    case False
    then show ?thesis using Cons by (cases f) (auto simp: write_words_def)
  qed
qed simp

lemma length_adjust [simp]: "length (MemMtcTableAutoAdjust C ws) = length ws"
  "length (MemMtcPllmbDivisor ws) = length ws" "length (erista_MemMtcTableAutoAdjust C ws) = length ws"
  by (simp_all add: MemMtcTableAutoAdjust_def MemMtcPllmbDivisor_def erista_MemMtcTableAutoAdjust_def)

text \<open>The words each function writes.\<close>

definition m_keys :: "nat list" where
  "m_keys = map fst (m_writes C_default (replicate 1300 0))"

lemma m_written: "map fst (m_writes C ws) = m_keys"
  unfolding m_keys_def m_writes_def Let_def m_timing_writes_def m_arbiter_writes_def m_latency_writes_def
    m_dram_writes_def all_groups_def m_groups_def by simp

definition e_keys :: "nat list" where
  "e_keys = map fst (e_writes C_default (replicate 1300 0))"

lemma e_written: "map fst (e_writes C ws) = e_keys"
  unfolding e_keys_def e_writes_def Let_def e_timing_writes_def e_arbiter_writes_def e_latency_writes_def
    all_groups_def e_groups_def by simp

text \<open>No word twice, none outside of the table, and neither its version nor its frequency.\<close>

lemma m_keys: "distinct m_keys" "list_all (\<lambda>k. k \<noteq> 0 \<and> k \<noteq> 16 \<and> k < 1075) m_keys"
  unfolding m_keys_def m_writes_def Let_def m_timing_writes_def m_arbiter_writes_def m_latency_writes_def
    m_dram_writes_def all_groups_def m_groups_def by (simp_all add: mariko_layout)

lemma e_keys: "distinct e_keys" "list_all (\<lambda>k. k \<noteq> 0 \<and> k \<noteq> 16 \<and> k < 1232) e_keys"
  unfolding e_keys_def e_writes_def Let_def e_timing_writes_def e_arbiter_writes_def e_latency_writes_def
    all_groups_def e_groups_def by (simp_all add: erista_layout)

text \<open>The version and the frequency stay.\<close>

lemma e_set: "fst ` set (e_writes C ws) = set e_keys"
  by (metis e_written list.set_map)

lemma m_set: "fst ` set (m_writes C ws) = set m_keys"
  by (metis m_written list.set_map)

lemma e_keeps: "k = 0 \<or> k = 16 \<Longrightarrow> erista_MemMtcTableAutoAdjust C ws ! k = ws ! k"
  using e_keys(2) unfolding erista_MemMtcTableAutoAdjust_def
  by (intro write_words_other) (auto simp only: e_set list_all_iff)

lemma erista_adjust_keeps [simp]: "erista_MemMtcTableAutoAdjust C ws ! 0 = ws ! 0"
  "erista_MemMtcTableAutoAdjust C ws ! 16 = ws ! 16"
  by (simp_all add: e_keeps)

lemma m_keeps: "k = 0 \<or> k = 16 \<Longrightarrow> MemMtcTableAutoAdjust C ws ! k = ws ! k"
  using m_keys(2) unfolding MemMtcTableAutoAdjust_def
  by (intro write_words_other) (auto simp only: m_set list_all_iff)

lemma mariko_adjust_keeps [simp]: "MemMtcTableAutoAdjust C ws ! 0 = ws ! 0"
  "MemMtcTableAutoAdjust C ws ! 16 = ws ! 16"
  by (simp_all add: m_keeps)

lemma pllmb_keys: "fst ` set (pllmb_writes ws) \<subseteq> {m_pllmb_divm, m_pllmb_divn, m_pllm_ss_cfg, m_pllmb_ss_cfg,
    m_pllm_ss_ctrl1, m_pllm_ss_ctrl2, m_pllmb_ss_ctrl1, m_pllmb_ss_ctrl2}"
  unfolding pllmb_writes_def Let_def by auto

lemma pllmb_keeps:
  assumes "k < m_pllm_ss_cfg"
  shows "MemMtcPllmbDivisor ws ! k = ws ! k"
  unfolding MemMtcPllmbDivisor_def
  by (rule write_words_other) (use pllmb_keys [of ws] assms in \<open>auto simp: mariko_layout\<close>)

end
