(* ===== verification/Pcv_Mariko.thy ===== *)
theory Pcv_Mariko
  imports Pcv_Common Mtc_Adjust
begin

text \<open>
  The patches for Mariko, \<open>oc/pcv/pcv_mariko.cpp\<close> with the patterns of \<open>oc/pcv/pcv_mariko.hpp\<close>. Each
  patcher gets the settings, where it uses them, then the state and the address of the match.

  The registers of a new memory table, \<open>MemMtcTableAutoAdjust\<close> and \<open>MemMtcPllmbDivisor\<close>, are in theory
  Mtc_Adjust.
\<close>

section \<open>CPU\<close>

definition patch_if :: "bool \<Rightarrow> int \<Rightarrow> u32 \<Rightarrow> pcv_state \<Rightarrow> pcv_state" where
  "patch_if b p v s = (if b then patch_word p v s else s)"

definition allowedCpuMaxFrequencies :: "u32 list" where
  "allowedCpuMaxFrequencies =
     [1963500, 2091000, 2193000, 2295000, 2397000, 2499000, 2601000, 2703000]"

fun cap_loop :: "u32 \<Rightarrow> u32 list \<Rightarrow> u32 \<Rightarrow> u32" where
  "cap_loop mx [] cap = cap"
| "cap_loop mx (f # fs) cap = (if mx \<ge> f then cap_loop mx fs f else cap)"

definition CapCpuClock :: "customize \<Rightarrow> u32" where
  "CapCpuClock C = cap_loop (marikoCpuMaxClock C) allowedCpuMaxFrequencies (hd allowedCpuMaxFrequencies)"

text \<open>\<open>dvfs_rail\<close>: \<open>id\<close> at word 0, \<open>freq\<close> at 6, \<open>min_mv\<close>, \<open>step_mv\<close>, \<open>max_mv\<close> at 16, 17, 18.\<close>

definition CpuFreqVdd :: "customize \<Rightarrow> patcher_fn" where
  "CpuFreqVdd C s ptr =
     (let entry = ptr - 6 in
      if nso s entry \<noteq> 1 \<or> nso s (entry + 16) \<noteq> 250000 \<or> nso s (entry + 17) \<noteq> 5000 \<or>
         nso s (entry + 18) \<noteq> 1525000 then (R_Error InvalidCpuFreqVddEntry, s)
      else (R_Success, patch_word ptr
             (if marikoCpuUVHigh C \<noteq> 0 then CapCpuClock C else last_freq (marikoCpuDvfsTable C)) s))"

definition CpuHighVminOfficial :: u32 where "CpuHighVminOfficial = 850"
definition CpuVoltOfficial :: u32 where "CpuVoltOfficial = 1120"
definition CpuVminOfficial :: u32 where "CpuVminOfficial = 620"
definition CpuTune0Low :: u32 where "CpuTune0Low = 0xFFCF"

text \<open>
  \<open>CvbMeta\<close>, of which the match is \<open>vmin\<close> at word 20: \<open>highVmin\<close> at 18, \<open>unkStepMaybe\<close> 19, \<open>vmax\<close>
  25, \<open>unkScale2\<close>, \<open>speedoScale\<close>, \<open>voltageScale\<close>, \<open>unkZero5\<close> at 26 to 29.
\<close>

definition CpuVoltDVFS :: "customize \<Rightarrow> patcher_fn" where
  "CpuVoltDVFS C s ptr =
     (let m = ptr - 20 in
      if nso s (m + 18) \<noteq> CpuHighVminOfficial \<or> nso s (m + 19) \<noteq> 38 \<or>
         nso s (m + 25) \<noteq> CpuVoltOfficial \<or> nso s (m + 26) \<noteq> 1000 \<or> nso s (m + 27) \<noteq> 100 \<or>
         nso s (m + 28) \<noteq> 1000 \<or> nso s (m + 29) \<noteq> 0 then (R_Error InvalidCpuMinVolt, s)
      else
        (R_Success,
         (patch_if (marikoCpuMaxVolt C \<noteq> 0) (m + 25) (marikoCpuMaxVolt C) \<circ>
          patch_if (marikoCpuHighVmin C \<noteq> 0) (m + 18) (marikoCpuHighVmin C) \<circ>
          patch_if (marikoCpuLowVmin C \<noteq> 0) (m + 20) (marikoCpuLowVmin C)) s))"

definition cpuVoltThermalData :: "u32 list" where
  "cpuVoltThermalData = [620, 1120, 20000, 620, 1120, 70000, 950, 1132, 0, 950, 1227, 0]"

text \<open>The same value at several places.\<close>

definition patch_all :: "int list \<Rightarrow> u32 \<Rightarrow> pcv_state \<Rightarrow> pcv_state" where
  "patch_all ps v s = fold (\<lambda>p. patch_word p v) ps s"

definition CpuVoltThermals :: "customize \<Rightarrow> patcher_fn" where
  "CpuVoltThermals C s ptr =
     (if words_at s ptr 12 \<noteq> cpuVoltThermalData then (R_Error InvalidCpuMinVolt, s)
      else
        (let s1 = (if marikoCpuLowVmin C \<noteq> 0 then patch_all [ptr, ptr + 3] (marikoCpuLowVmin C) s else s);
             s2 = (if marikoCpuMaxVolt C \<noteq> 0
                   then patch_all [ptr - 2, ptr - 5, ptr + 1, ptr + 4] (marikoCpuMaxVolt C) s1 else s1)
         in (R_Success, s2)))"

text \<open>
  The tuning registers per undervolt level: \<open>tune0_low\<close>, \<open>tune0_high\<close>, \<open>tune1_low\<close>, \<open>tune1_high\<close> at
  words 0 to 3. A level outside the list writes nothing.
\<close>

definition dfll_low :: "(u32 \<times> (int \<times> u32) list) list" where
  "dfll_low = [
     (1, [(0, 0xffa0), (1, 0xffff), (2, 0x21107ff), (3, 0x0)]),
     (2, [(1, 0xffdf), (2, 0x21107ff), (3, 0x27207ff)]),
     (3, [(0, 0xffdf), (1, 0xffdf), (2, 0x21107ff), (3, 0x27307ff)]),
     (4, [(0, 0xffff), (1, 0xffdf), (2, 0x21107ff), (3, 0x27407ff)]),
     (5, [(1, 0xffdf), (2, 0x21607ff), (3, 0x27707ff)]),
     (6, [(1, 0xffdf), (2, 0x21607ff), (3, 0x27807ff)]),
     (7, [(1, 0xdfff), (2, 0x21607ff), (3, 0x27b07ff)]),
     (8, [(0, 0xdfff), (1, 0xdfff), (2, 0x21707ff), (3, 0x27b07ff)]),
     (9, [(0, 0xdfff), (1, 0xdfff), (2, 0x21707ff), (3, 0x27c07ff)]),
     (10, [(0, 0xdfff), (1, 0xdfff), (2, 0x21707ff), (3, 0x27d07ff)]),
     (11, [(0, 0xdfff), (1, 0xdfff), (2, 0x21707ff), (3, 0x27e07ff)]),
     (12, [(0, 0xdfff), (1, 0xdfff), (2, 0x21707ff), (3, 0x27f07ff)])]"

definition dfll_high :: "(u32 \<times> (int \<times> u32) list) list" where
  "dfll_high = [
     (1, [(3, 0x0), (1, 0xffff)]),
     (2, [(1, 0xffdf), (3, 0x27207ff)]),
     (3, [(1, 0xffdf), (3, 0x27307ff)]),
     (4, [(1, 0xffdf), (3, 0x27407ff)]),
     (5, [(1, 0xffdf), (3, 0x27707ff)]),
     (6, [(1, 0xffdf), (3, 0x27807ff)]),
     (7, [(1, 0xdfff), (3, 0x27b07ff)]),
     (8, [(1, 0xdfff), (3, 0x27b07ff)]),
     (9, [(1, 0xdfff), (3, 0x27c07ff)]),
     (10, [(1, 0xdfff), (3, 0x27d07ff)]),
     (11, [(1, 0xdfff), (3, 0x27e07ff)]),
     (12, [(1, 0xdfff), (3, 0x27f07ff)])]"

definition patch_fields :: "int \<Rightarrow> (int \<times> u32) list \<Rightarrow> pcv_state \<Rightarrow> pcv_state" where
  "patch_fields entry fs s = fold (\<lambda>(k, v). patch_word (entry + k) v) fs s"

definition patch_level :: "(u32 \<times> (int \<times> u32) list) list \<Rightarrow> u32 \<Rightarrow> int \<Rightarrow> pcv_state \<Rightarrow> pcv_state" where
  "patch_level levels uv entry s =
     (case map_of levels uv of None \<Rightarrow> s | Some fs \<Rightarrow> patch_fields entry fs s)"

definition CpuVoltDfll :: "customize \<Rightarrow> patcher_fn" where
  "CpuVoltDfll C s entry =
     (if nso s entry \<noteq> 0xFFCF \<or> nso s (entry + 1) \<noteq> 0 \<or> nso s (entry + 2) \<noteq> 0x12207FF \<or>
         nso s (entry + 3) \<noteq> 0x3FFF7FF then (R_Error InvalidCpuVoltDfllEntry, s)
      else (R_Success,
        patch_level dfll_high (marikoCpuUVHigh C) entry
          (patch_level dfll_low (marikoCpuUVLow C) entry s)))"

section \<open>GPU\<close>

definition GpuVminOfficial :: u32 where "GpuVminOfficial = 610"
definition gpuDVFSPattern :: "u32 list" where "gpuDVFSPattern = [1050, 1000, 100, 1000, 10]"
definition gpuVoltThermalPattern :: "u32 list" where
  "gpuVoltThermalPattern = [800, 1120, 0, 610, 1120, 20000, 610, 1120, 30000, 610, 1120, 50000,
     610, 1120, 70000, 610, 1120, 90000]"

definition GpuVoltDVFS :: "customize \<Rightarrow> patcher_fn" where
  "GpuVoltDVFS C s ptr =
     (if words_at s (ptr + 1) 5 \<noteq> gpuDVFSPattern then (R_Error InvalidGpuDvfs, s)
      else (R_Success,
        (patch_if (marikoGpuVmin C \<noteq> 0) ptr (marikoGpuVmin C) \<circ>
         patch_if (marikoGpuVmax C \<noteq> 0) (ptr + 1) (marikoGpuVmax C)) s))"

definition GpuVoltThermals :: "customize \<Rightarrow> patcher_fn" where
  "GpuVoltThermals C s ptr =
     (if words_at s (ptr - 3) 18 \<noteq> gpuVoltThermalPattern then (R_Error InvalidGpuDvfs, s)
      else if marikoGpuVmin C = 0 then (R_Success, s)
      else (R_Success, patch_all [ptr, ptr + 3, ptr + 6, ptr + 9, ptr + 12] (marikoGpuVmin C) s))"

definition GpuAsmPattern :: "u32 list" where "GpuAsmPattern = [0x52820000, 0x72A001C0]"

definition GpuMaxClockPatternFn :: "u32 \<Rightarrow> bool" where
  "GpuMaxClockPatternFn w = asm_compare_no_rd w (GpuAsmPattern ! 0)"

definition GpuFreqMaxAsm :: "bool \<Rightarrow> customize \<Rightarrow> patcher_fn" where
  "GpuFreqMaxAsm isMariko C s ptr =
     (let ins1 = nso s ptr; ins2 = nso s (ptr + 1) in
      if \<not> (asm_compare_no_rd ins1 (GpuAsmPattern ! 0) \<and> asm_compare_no_rd ins2 (GpuAsmPattern ! 1))
      then (R_Error InvalidGpuFreqMaxPattern, s)
      else
        (let rd = (ucast (asm_get_rd ins1) :: u8) in
         if ucast rd \<noteq> asm_get_rd ins2 then (R_Error InvalidGpuFreqMaxPattern, s)
         else
           (let max_clock = last_freq (gpu_customize_table isMariko C)
            in (R_Success,
                patch_words ptr
                  [asm_set_rd (asm_set_imm16 (GpuAsmPattern ! 0) (ucast max_clock)) rd,
                   asm_set_rd (asm_set_imm16 (GpuAsmPattern ! 1) (ucast (drop_bit 16 max_clock))) rd] s))))"

definition GpuClkPllMax :: u32 where "GpuClkPllMax = 1300000000"
definition GpuClkPllLimit :: u32 where "GpuClkPllLimit = 2600000"

text \<open>\<open>clk_pll_param\<close> has 18 words.\<close>

definition GpuFreqPllMax :: patcher_fn where
  "GpuFreqPllMax s ptr =
     (if \<not> list_all (\<lambda>w. w = 0) (words_at s (ptr + 1) 17) then (R_Error InvalidGpuPllEntry, s)
      else (R_Success, patch_word ptr (nso s ptr * 2) s))"

definition GpuFreqPllLimit :: patcher_fn where
  "GpuFreqPllLimit s ptr =
     (let prev_freq = nso s (ptr - 1) in
      if prev_freq \<noteq> 128000 \<and> prev_freq \<noteq> 1300000 \<and> prev_freq \<noteq> 76800
      then (R_Error InvalidGpuPllEntry, s)
      else (R_Success, patch_word ptr 3600000 s))"

section \<open>The list of memory clocks\<close>

definition EmcClkOSLimit :: u32 where "EmcClkOSLimit = 1600000"
definition EmcListDefault :: "u32 list" where "EmcListDefault = [204000, 1331200, 1600000]"

definition jedecFreqs :: "u32 list" where
  "jedecFreqs = [1866000, 1996000, 2133000, 2400000, 2666000, 2933000, 3200000]"

definition stepFreqs133 :: "u32 list" where
  "stepFreqs133 = [1733000, 1866000, 2000000, 2133000, 2266000, 2400000, 2533000, 2666000, 2800000,
     2933000, 3066000, 3200000, 3333000, 3466000]"

text \<open>The maximum closes the list unless it is its last entry.\<close>

definition with_max :: "u32 \<Rightarrow> u32 list \<Rightarrow> u32 list" where
  "with_max mx fs = (if last fs \<noteq> mx then fs @ [mx] else fs)"

definition fixed_list :: "u32 list \<Rightarrow> u32 \<Rightarrow> u32 list" where
  "fixed_list freqs mx = with_max mx (EmcListDefault @ takeWhile (\<lambda>f. f \<le> mx) freqs)"

text \<open>The stepping loop on fuel: \<open>None\<close> when it is not over after so many steps.\<close>

fun step_loop :: "nat \<Rightarrow> u32 \<Rightarrow> u32 \<Rightarrow> u32 \<Rightarrow> u32 list \<Rightarrow> u32 list option" where
  "step_loop 0 stepIndex stepRate mx fs = None"
| "step_loop (Suc n) stepIndex stepRate mx fs =
     (let newFreq = (EmcClkOSLimit + stepIndex * stepRate) div 1000 * 1000 in
      if newFreq > mx then Some (with_max mx fs)
      else step_loop n (stepIndex + 1) stepRate mx (fs @ [newFreq]))"

definition step_fuel :: nat where "step_fuel = 30"

definition MtcGenerateFreqTables :: "customize \<Rightarrow> u32 list option" where
  "MtcGenerateFreqTables C =
     (let mx = marikoEmcMaxClock C in
      if mx \<le> EmcClkOSLimit then Some []
      else map_option (take DvfsTableEntryLimit)
        (if stepMode C = StepMode_Jedec then Some (fixed_list jedecFreqs mx)
         else if stepMode C = StepMode_133MHz then Some (fixed_list stepFreqs133 mx)
         else step_loop step_fuel 1 (if stepMode C = StepMode_100MHz then 100000 else 66667) mx
                EmcListDefault))"

section \<open>Memory tables\<close>

text \<open>
  Word counts: a table of Mariko has 1075 words with \<open>rev\<close> at 0 and \<open>rate_khz\<close> at 16, a table of
  Erista 1232. The image holds 17 groups of three tables for Mariko and among them three groups of
  ten for Erista, one of them before the first of Mariko.
\<close>

definition mariko_table_words :: nat where "mariko_table_words = 1075"
definition erista_table_words :: nat where "erista_table_words = 1232"
definition MtcTableCountDefault :: nat where "MtcTableCountDefault = 3"
definition mariko_MtcFullTableSize :: int where "mariko_MtcFullTableSize = 3225"
definition erista_MtcFullTableSize :: int where "erista_MtcFullTableSize = 12320"
definition MTC_TABLE_REV :: u32 where "MTC_TABLE_REV = 3"

text \<open>Chip numbers and the group of tables for them.\<close>

definition mtcIndexTable :: "(u64 \<times> nat) list" where
  "mtcIndexTable = [
     (3, 12), (5, 12), (6, 12), (8, 1), (9, 13), (10, 3), (11, 11), (12, 1), (13, 13),
     (14, 3), (15, 11), (17, 8), (18, 9), (19, 8), (20, 14), (21, 13), (22, 13), (23, 9),
     (24, 8), (25, 4), (26, 4), (27, 4), (28, 9), (29, 15), (30, 15), (31, 15), (32, 16),
     (33, 16), (34, 16)]"

definition GetMtcDramIndex :: "u64 \<Rightarrow> nat option" where
  "GetMtcDramIndex dramId = map_of mtcIndexTable dramId"

definition GetMtcOffset :: "nat \<Rightarrow> int" where
  "GetMtcOffset index =
     (if index < 1 then int index * mariko_MtcFullTableSize
      else mariko_MtcFullTableSize * int index + 2 * erista_MtcFullTableSize)"

definition mtc_at :: "int \<Rightarrow> nat \<Rightarrow> int" where
  "mtc_at table i = table + int (mariko_table_words * i)"

definition VerifyMtcTable :: "pcv_state \<Rightarrow> int \<Rightarrow> u32 \<Rightarrow> bool" where
  "VerifyMtcTable s table expectedFreq \<longleftrightarrow> nso s (table + 16) = expectedFreq \<and> nso s table = MTC_TABLE_REV"

definition MtcValidateAllTables :: "pcv_state \<Rightarrow> int \<Rightarrow> u32 list \<Rightarrow> bool" where
  "MtcValidateAllTables s table freqs \<longleftrightarrow>
     list_all (\<lambda>i. VerifyMtcTable s (mtc_at table i) (freqs ! i)) [0..<length freqs]"

definition PrepareMtcMemoryRegion :: "int \<Rightarrow> int \<Rightarrow> pcv_state \<Rightarrow> pcv_state" where
  "PrepareMtcMemoryRegion firstTable usedTable s =
     patch_words (firstTable + mariko_MtcFullTableSize)
       (replicate (nat (mariko_MtcFullTableSize * 16 + erista_MtcFullTableSize * 2)) 0)
       (patch_words firstTable (words_at s usedTable (nat mariko_MtcFullTableSize)) s)"

definition MtcExtendTables :: "u32 list \<Rightarrow> int \<Rightarrow> pcv_state \<Rightarrow> pcv_state" where
  "MtcExtendTables newEmcList table s =
     fold (\<lambda>i s. patch_word (mtc_at table i + 16) (newEmcList ! i)
             (patch_words (mtc_at table i) (words_at s (mtc_at table (i - 1)) mariko_table_words) s))
       [MtcTableCountDefault..<length newEmcList] s"

definition adjust_table :: "customize \<Rightarrow> int \<Rightarrow> pcv_state \<Rightarrow> pcv_state" where
  "adjust_table C table s =
     patch_words table
       (MemMtcPllmbDivisor (MemMtcTableAutoAdjust C (words_at s table mariko_table_words))) s"

definition MemFreqMtcTable :: "pcv_env \<Rightarrow> u32 list \<Rightarrow> customize \<Rightarrow> patcher_fn" where
  "MemFreqMtcTable env newEmcList C s ptr =
     (case GetMtcDramIndex (env_dram_id env) of
        None \<Rightarrow> (R_System 0, stop_boot ''Invalid dramId'' s)
      | Some mtcIndex \<Rightarrow>
          (let start = ptr - 16 - int (mariko_table_words * 2);
               table = start + GetMtcOffset mtcIndex
           in if \<not> MtcValidateAllTables s table EmcListDefault then (R_Error InvalidMtcTable, s)
              else if marikoEmcMaxClock C \<le> EmcClkOSLimit then (R_Success, s)
              else
                (let s1 = PrepareMtcMemoryRegion start table s in
                 if \<not> MtcValidateAllTables s1 start EmcListDefault
                 then (R_System 0, stop_boot ''Failed mtc validation'' s1)
                 else
                   (let s2 = MtcExtendTables newEmcList start s1 in
                    if \<not> MtcValidateAllTables s2 start newEmcList
                    then (R_System 0, stop_boot ''Failed mtc validation'' s2)
                    else (R_Success,
                      fold (\<lambda>i. adjust_table C (mtc_at start i))
                        [MtcTableCountDefault..<length newEmcList] s2)))))"

section \<open>Memory voltages\<close>

text \<open>An entry of the voltage table is a 64-bit frequency in kHz and four voltages in mV.\<close>

definition dvb_words :: "u64 \<times> u32 list \<Rightarrow> u32 list" where
  "dvb_words e = (case e of (f, volts) \<Rightarrow> [ucast f, ucast (drop_bit 32 f)] @ volts)"

definition EmcDvbTableDefault :: "(u64 \<times> u32 list) list" where
  "EmcDvbTableDefault = [
     (204000, [637, 637, 637, 0]), (408000, [637, 637, 637, 0]), (800000, [637, 637, 637, 0]),
     (1065600, [637, 637, 637, 0]), (1331200, [650, 637, 637, 0]), (1600000, [675, 650, 637, 0])]"

definition dvb_clamp :: "int \<Rightarrow> int \<Rightarrow> int \<Rightarrow> u32" where
  "dvb_clamp voltAdd mx v = word_of_int (min mx (max 637 (v + voltAdd)))"

text \<open>The brackets above the stock range, from which frequency on which voltages hold.\<close>

definition dvb_steps :: "(u32 \<times> int \<times> int \<times> int) list" where
  "dvb_steps = [
     (1866000, 700, 675, 650), (2133000, 725, 700, 675), (2246000, 750, 725, 700),
     (2400000, 775, 750, 725), (2466000, 800, 775, 750), (2533000, 810, 785, 760),
     (2566000, 820, 795, 770), (2600000, 830, 805, 780), (2633000, 840, 815, 790),
     (2666000, 850, 825, 800), (2700000, 860, 835, 810), (2733000, 870, 845, 820),
     (2766000, 880, 855, 830), (2800000, 895, 865, 840), (2833000, 900, 875, 850),
     (2866000, 910, 885, 860), (2900000, 920, 895, 870), (2933000, 950, 905, 880),
     (2966000, 960, 915, 890), (3000000, 970, 925, 900), (3033000, 980, 940, 910),
     (3066000, 1000, 955, 920), (3100000, 1010, 990, 930), (3133000, 1025, 1005, 940),
     (3166000, 1035, 1015, 950), (3200000, 1050, 1025, 960)]"

definition dvb_max :: "customize \<Rightarrow> int \<times> int \<times> int" where
  "dvb_max C =
     (if marikoSocVmax C \<noteq> 0 \<and> marikoSocVmax C > 1000
      then (uint (marikoSocVmax C), uint (marikoSocVmax C), uint (marikoSocVmax C))
      else (1050, 1025, 1000))"

definition emcDvbOcTableBrackets :: "customize \<Rightarrow> (u32 \<times> u32 list) list" where
  "emcDvbOcTableBrackets C =
     (let voltAdd = sint (25 * emcDvbShift C); (max0, max1, max2) = dvb_max C
      in [(204000, [637, 637, 637, 0]), (1331200, [650, 637, 637, 0]), (1600000, [675, 650, 637, 0])] @
         map (\<lambda>(f, zero, one, two). (f, [dvb_clamp voltAdd max0 zero, dvb_clamp voltAdd max1 one,
                dvb_clamp voltAdd max2 two, 0])) dvb_steps @
         [(0xFFFFFFFF, [0, 0, 0, 0])])"

text \<open>The bracket index only moves up, over the frequencies in their order.\<close>

fun dvb_rows :: "(u32 \<times> u32 list) list \<Rightarrow> u32 list \<Rightarrow> (u64 \<times> u32 list) list" where
  "dvb_rows brackets [] = []"
| "dvb_rows (b # next # bs) (f # fs) =
     (if f \<ge> fst next then dvb_rows (next # bs) (f # fs)
      else (ucast f, snd b) # dvb_rows (b # next # bs) fs)"
| "dvb_rows bs (f # fs) = []"

definition MemFreqDvbTable :: "u32 list \<Rightarrow> customize \<Rightarrow> patcher_fn" where
  "MemFreqDvbTable newEmcList C s ptr =
     (let default_words = concat (map dvb_words EmcDvbTableDefault);
          head = ptr + 6 - int (length default_words)
      in if words_at s head (length default_words) \<noteq> default_words then (R_Error InvalidDvbTable, s)
         else if marikoEmcMaxClock C \<le> EmcClkOSLimit then (R_Success, s)
         else (R_Success,
           patch_words head (concat (map dvb_words (dvb_rows (emcDvbOcTableBrackets C) newEmcList)))
             (patch_words head (replicate (length default_words) 0) s)))"

definition MemFreqMax :: "customize \<Rightarrow> patcher_fn" where
  "MemFreqMax C s ptr =
     (if marikoEmcMaxClock C \<le> EmcClkOSLimit then (R_Success, s)
      else (R_Success, patch_word ptr (marikoEmcMaxClock C) s))"

definition I2cSet_U8 :: "pcv_env \<Rightarrow> u8 \<Rightarrow> u8 \<Rightarrow> pcv_state \<Rightarrow> u32 \<times> pcv_state" where
  "I2cSet_U8 env reg val s =
     (if env_i2c_open env \<noteq> 0 then (env_i2c_open env, s)
      else (env_i2c_send env reg val, s\<lparr>i2c_log := i2c_log s @ [(reg, val)]\<rparr>))"

definition round_up :: "u32 \<Rightarrow> u32 \<Rightarrow> u32" where
  "round_up step v = (if v mod step \<noteq> 0 then (v + step - 1) div step * step else v)"

definition EmcVddqVolt :: "pcv_env \<Rightarrow> customize \<Rightarrow> patcher_fn" where
  "EmcVddqVolt env C s ptr =
     (let entry = ptr - 11 in
      if word64_at s entry \<noteq> 2 \<or> nso s (entry + 4) \<noteq> 3 \<or> nso s (entry + 6) \<noteq> 5000 \<or>
         nso s (entry + 8) \<noteq> 250000 then (R_Error InvalidRegulatorEntry, s)
      else if marikoEmcVddqVolt C = 0 then (R_Success, s)
      else
        (let emc_uv = round_up 5000 (marikoEmcVddqVolt C);
             (res, s') = I2cSet_U8 env 0x25 (ucast ((emc_uv - 250000) div 5000)) (patch_word ptr emc_uv s)
         in (if res = 0 then R_Success else R_System res, s')))"

section \<open>Code\<close>

definition MtcBrAsm :: u32 where "MtcBrAsm = 0xD61F0140"
definition MtcMovAsm :: u32 where "MtcMovAsm = 0x52800068"
definition MtcAdrpAsm :: u32 where "MtcAdrpAsm = 0x900003A0"
definition MtcAddAsm :: u32 where "MtcAddAsm = 0x91168000"

definition MemMtcGetGetTablePatternFn :: "u32 \<Rightarrow> bool" where
  "MemMtcGetGetTablePatternFn w = AsmCompareAddNoImm12 w MtcAddAsm"

text \<open>The branch over the tables is removed and the count of tables set.\<close>

definition MemMtcTableAsm :: "u32 list \<Rightarrow> patcher_fn" where
  "MemMtcTableAsm newEmcList s ptr =
     (if \<not> ptr - 12 \<ge> 0 \<or> \<not> AsmCompareAdrpNoImm (nso s (ptr - 1)) MtcAdrpAsm \<or>
         \<not> AsmCompareBrNoRd (nso s (ptr - 12)) MtcBrAsm \<or>
         \<not> asm_compare_no_rd (nso s (ptr - 10)) MtcMovAsm then (R_Error InvalidMtcTablePattern, s)
      else
        (let movRd = (ucast (asm_get_rd (nso s (ptr - 10))) :: u8);
             movCountPatch = asm_set_rd (asm_set_imm16 MtcMovAsm (of_nat (length newEmcList))) movRd
         in (R_Success, patch_word (ptr - 10) movCountPatch (patch_word (ptr - 12) NopIns s))))"

definition GetSocProcessId :: "u32 \<Rightarrow> u32" where
  "GetSocProcessId socSpeedo = (if socSpeedo \<le> 1597 then 0 else if socSpeedo \<le> 1708 then 1 else 2)"

definition SocVoltCompareSpeedoAsm :: u32 where "SocVoltCompareSpeedoAsm = 0x7118FAFF"
definition SocVoltWriteProcessIdAsm :: u32 where "SocVoltWriteProcessIdAsm = 0x2A1F03F4"
definition SocVoltWriteVoltageAsm :: u32 where "SocVoltWriteVoltageAsm = 0x52808358"
definition SocVoltSelectRegisterAsm :: u32 where "SocVoltSelectRegisterAsm = 0x1A9A3118"
definition SocVoltMultiplyVoltsAsm :: u32 where "SocVoltMultiplyVoltsAsm = 0x1B1A7F0B"
definition SocVoltValidateLimitAsm :: u32 where "SocVoltValidateLimitAsm = 0x6B0A017F"
definition SocVoltBranchToAbortAsm :: u32 where "SocVoltBranchToAbortAsm = 0x540020AC"

definition SocVoltPatternFn :: "u32 \<Rightarrow> bool" where
  "SocVoltPatternFn w = asm_compare_no_rd w SocVoltCompareSpeedoAsm"

text \<open>
  The instructions that are looked for one after the other: where the process id, the voltage and
  the selected register are written, the multiplication and the comparison with the limit, which a
  conditional branch follows.
\<close>

definition soc_volt_sites :: "words \<Rightarrow> int \<Rightarrow> (int \<times> int \<times> int) option" where
  "soc_volt_sites w compareSpeedos =
     Option.bind (ScanAssembly w compareSpeedos 10 SocVoltWriteProcessIdAsm asm_compare_no_rd)
      (\<lambda>writeProcessId.
     Option.bind (ScanAssembly w writeProcessId 10 SocVoltWriteVoltageAsm asm_compare_no_rd)
      (\<lambda>writeVoltage.
     Option.bind (ScanAssembly w writeVoltage 24 SocVoltSelectRegisterAsm AsmCompareCselNoReg)
      (\<lambda>selectVoltage.
     Option.bind (ScanAssembly w selectVoltage 200 SocVoltMultiplyVoltsAsm AsmCompareMullNoReg)
      (\<lambda>multiplier.
     if AsmGetMullRn (w multiplier) \<noteq> asm_get_rd (w selectVoltage) \<and>
        AsmGetMullRm (w multiplier) \<noteq> asm_get_rd (w selectVoltage) then None
     else
       Option.bind (ScanAssembly w multiplier 10
           (AsmSubsSetRn SocVoltValidateLimitAsm (ucast (asm_get_rd (w multiplier)))) AsmSubsCompareNoReg)
        (\<lambda>limitValidation.
           if AsmCompareBrConNoImm19 (w (limitValidation + 1)) SocVoltBranchToAbortAsm
           then Some (writeProcessId, writeVoltage, limitValidation + 1) else None)))))"

definition SocVoltAsm :: "pcv_env \<Rightarrow> customize \<Rightarrow> patcher_fn" where
  "SocVoltAsm env C s compareSpeedos =
     (case soc_volt_sites (nso s) compareSpeedos of
        None \<Rightarrow> (R_Error InvalidSocVoltPattern, s)
      | Some (writeProcessId, writeVoltage, branchToAbort) \<Rightarrow>
          if marikoSocVmax C = 0 \<or> marikoSocVmax C \<le> 1000 then (R_Success, s)
          else
            (let s1 = patch_word compareSpeedos (AsmSubsSetImm12 (nso s compareSpeedos) 2200) s in
             case env_soc_speedo env of
               Inl res \<Rightarrow> (R_System res, s1)
             | Inr socSpeedo \<Rightarrow>
                 (R_Success,
                  patch_word branchToAbort NopIns
                    (patch_word writeVoltage
                      (asm_set_rd (asm_set_imm16 SocVoltWriteVoltageAsm (ucast (marikoSocVmax C)))
                        (ucast (asm_get_rd (nso s writeVoltage))))
                      (patch_word writeProcessId
                        (asm_set_rd (asm_set_imm16 SocVoltWriteVoltageAsm
                            (ucast (GetSocProcessId socSpeedo)))
                          (ucast (asm_get_rd (nso s writeProcessId)))) s1)))))"

definition SocVoltLimitOfficial :: u32 where "SocVoltLimitOfficial = 1050"

definition socVoltLimitArray :: "u32 list" where
  "socVoltLimitArray = [637, 650, 675, 700, 725, 750, 775, 800, 825, 850, 875, 900, 925, 950, 975,
     1000, 1025, 1050, 0, 0, 0, 0, 0, 0, 0, 0, 0, 0, 0, 0, 0, 0]"

fun volt_limit_loop :: "nat \<Rightarrow> nat \<Rightarrow> u32 \<Rightarrow> u32 \<Rightarrow> int \<Rightarrow> pcv_state \<Rightarrow> pcv_state" where
  "volt_limit_loop 0 i volt maxVolt ptr s = s"
| "volt_limit_loop (Suc n) i volt maxVolt ptr s =
     (if volt < maxVolt
      then volt_limit_loop n (i + 1) (volt + 25) maxVolt ptr (patch_word (ptr + int i) (volt + 25) s)
      else s)"

text \<open>The loop runs at most over the entries after the last used one, 1 to 14.\<close>

definition SocVoltLimit :: "customize \<Rightarrow> patcher_fn" where
  "SocVoltLimit C s ptr =
     (if words_at s (ptr - 17) 32 \<noteq> socVoltLimitArray then (R_Error InvalidSocVoltLimit, s)
      else if marikoSocVmax C = 0 \<or> marikoSocVmax C \<le> SocVoltLimitOfficial then (R_Success, s)
      else (R_Success, volt_limit_loop 14 1 SocVoltLimitOfficial (marikoSocVmax C div 25 * 25) ptr s))"

section \<open>All patches\<close>

definition mariko_patches :: "pcv_env \<Rightarrow> u32 list \<Rightarrow> customize \<Rightarrow> patcher_entry list" where
  "mariko_patches env newEmcList C = [
     patcher ''CPU Freq Vdd'' (CpuFreqVdd C) 1 (Value 1785000),
     patcher ''CPU Freq Table'' (CpuFreqCvbTable True C) 1 (Value (last_freq mariko_CpuCvbTableDefault)),
     patcher ''CPU Volt DVFS'' (CpuVoltDVFS C) 1 (Value CpuVminOfficial),
     patcher ''CPU Volt Thermals'' (CpuVoltThermals C) 1 (Value CpuVminOfficial),
     patcher ''CPU Volt Dfll'' (CpuVoltDfll C) 1 (Value CpuTune0Low),
     patcher ''GPU Volt DVFS'' (GpuVoltDVFS C) 1 (Value GpuVminOfficial),
     patcher ''GPU Volt Thermals'' (GpuVoltThermals C) 1 (Value GpuVminOfficial),
     patcher ''GPU Freq Table'' (GpuFreqCvbTable True C) 1 (Value (last_freq mariko_GpuCvbTableDefault)),
     patcher ''GPU Freq Asm'' (GpuFreqMaxAsm True C) 2 (Pattern GpuMaxClockPatternFn),
     patcher ''GPU PLL Max'' GpuFreqPllMax 1 (Value GpuClkPllMax),
     patcher ''GPU PLL Limit'' GpuFreqPllLimit 4 (Value GpuClkPllLimit),
     patcher ''MEM Freq Mtc'' (MemFreqMtcTable env newEmcList C) 1 (Value EmcClkOSLimit),
     patcher ''MEM Freq Dvb'' (MemFreqDvbTable newEmcList C) 1 (Value EmcClkOSLimit),
     patcher ''MEM Freq Max'' (MemFreqMax C) 0 (Value EmcClkOSLimit),
     patcher ''MEM Freq PLLM'' MemFreqPllmLimit 2 (Value 2133000000),
     patcher ''MEM Vddq'' (EmcVddqVolt env C) 2 (Value 600000),
     patcher ''MEM Vdd2'' (MemVoltHandler C) 2 (Value 1100000),
     patcher ''MEM Table Asm'' (MemMtcTableAsm newEmcList) 1 (Pattern MemMtcGetGetTablePatternFn),
     patcher ''SOC Volt Asm'' (SocVoltAsm env C) 1 (Pattern SocVoltPatternFn),
     patcher ''SOC Volt Limit'' (SocVoltLimit C) 1 (Value SocVoltLimitOfficial)]"

text \<open>The outcome is \<open>None\<close> only if the fuel for the list of clocks does not suffice.\<close>

definition mariko_Patch :: "pcv_env \<Rightarrow> customize \<Rightarrow> nat \<Rightarrow> pcv_state \<Rightarrow> (string + pcv_state) option" where
  "mariko_Patch env C nso_words s =
     map_option (\<lambda>fs. run_patches nso_words mariko_table_words (mariko_patches env fs C) s)
       (MtcGenerateFreqTables C)"

end
