(* ===== verification/Mariko_Memory.thy ===== *)
theory Mariko_Memory
  imports Pcv_Mariko
begin

text \<open>
  What the memory patches for Mariko achieve: the list of memory clocks they are built on, the voltages
  looked up for it, and the registers of the code they patch.
\<close>

section \<open>The list of memory clocks is sound\<close>

definition steps :: "nat \<Rightarrow> u32 \<Rightarrow> u32 \<Rightarrow> u32 list" where
  "steps n i rate = map (\<lambda>k. (EmcClkOSLimit + (i + of_nat k) * rate) div 1000 * 1000) [0..<n]"

lemma steps_Suc: "steps (Suc n) i rate =
  (EmcClkOSLimit + i * rate) div 1000 * 1000 # steps n (i + 1) rate"
  unfolding steps_def by (subst upt_conv_Cons) (simp_all add: map_Suc_upt [symmetric] add.assoc del: upt_Suc map_Suc_upt)

text \<open>The stepping loop takes the frequencies up to the maximum, like the fixed lists.\<close>

lemma step_loop_eq:
  "step_loop n i rate mx fs =
     (if list_ex (\<lambda>f. f > mx) (steps n i rate)
      then Some (with_max mx (fs @ takeWhile (\<lambda>f. f \<le> mx) (steps n i rate))) else None)"
proof (induction n arbitrary: i fs)
  case (Suc n)
  then show ?case
    by (auto simp: steps_Suc Let_def dest: leD intro: leI)
qed (simp add: steps_def)

lemma upt_30: "[0..<30] = [0, 1, 2, 3, 4, 5, 6, 7, 8, 9, 10, 11, 12, 13, 14, 15, 16, 17, 18, 19, 20, 21,
  22, 23, 24, 25, 26, 27, 28, 29 :: nat]"
  by (simp add: upt_conv_Cons)

lemma steps_66: "steps step_fuel 1 66667 = [
     1666000, 1733000, 1800000, 1866000, 1933000, 2000000, 2066000, 2133000, 2200000,
     2266000, 2333000, 2400000, 2466000, 2533000, 2600000, 2666000, 2733000, 2800000,
     2866000, 2933000, 3000000, 3066000, 3133000, 3200000, 3266000, 3333000, 3400000,
     3466000, 3533000, 3600000]"
  by (simp add: steps_def step_fuel_def upt_30 EmcClkOSLimit_def)

lemma steps_100: "steps step_fuel 1 100000 = [
     1700000, 1800000, 1900000, 2000000, 2100000, 2200000, 2300000, 2400000, 2500000,
     2600000, 2700000, 2800000, 2900000, 3000000, 3100000, 3200000, 3300000, 3400000,
     3500000, 3600000, 3700000, 3800000, 3900000, 4000000, 4100000, 4200000, 4300000,
     4400000, 4500000, 4600000]"
  by (simp add: steps_def step_fuel_def upt_30 EmcClkOSLimit_def)

definition clock_steps :: "u32 \<Rightarrow> u32 list" where
  "clock_steps mode =
     (if mode = StepMode_Jedec then jedecFreqs
      else if mode = StepMode_133MHz then stepFreqs133
      else steps step_fuel 1 (if mode = StepMode_100MHz then 100000 else 66667))"

lemma clock_steps_sorted:
  "sorted_wrt (<) (clock_steps mode) \<and> list_all (\<lambda>f. 1600000 < f) (clock_steps mode)"
  by (simp add: clock_steps_def jedecFreqs_def stepFreqs133_def steps_66 steps_100)

lemma clock_steps_enough:
  assumes "mode \<noteq> StepMode_Jedec" "mode \<noteq> StepMode_133MHz" "mx \<le> 3500000"
  shows "list_ex (\<lambda>f. f > mx) (clock_steps mode)"
proof -
  have "3600000 \<in> set (clock_steps mode)"
    using assms(1,2) by (simp add: clock_steps_def steps_66 steps_100)
  moreover have "mx < 3600000" by (rule le_less_trans [OF assms(3)]) simp
  ultimately show ?thesis by (auto simp: list_ex_iff)
qed

text \<open>All four ways make the same kind of list.\<close>

definition clock_list :: "u32 \<Rightarrow> u32 \<Rightarrow> u32 list" where
  "clock_list mode mx = with_max mx (EmcListDefault @ takeWhile (\<lambda>f. f \<le> mx) (clock_steps mode))"

lemma MtcGenerateFreqTables_eq:
  assumes "1600000 < marikoEmcMaxClock C" "marikoEmcMaxClock C \<le> 3500000"
  shows "MtcGenerateFreqTables C = Some (take 31 (clock_list (stepMode C) (marikoEmcMaxClock C)))"
  using assms clock_steps_enough [of "stepMode C" "marikoEmcMaxClock C"]
  by (auto simp: MtcGenerateFreqTables_def Let_def EmcClkOSLimit_def fixed_list_def clock_list_def
      clock_steps_def step_loop_eq DvfsTableEntryLimit_def not_le [symmetric]
      StepMode_Jedec_def StepMode_133MHz_def StepMode_100MHz_def)

lemma with_max_sorted:
  assumes "sorted_wrt (<) fs" "fs \<noteq> []" "\<forall>f\<in>set fs. f \<le> mx"
  shows "sorted_wrt (<) (with_max mx fs) \<and> (\<forall>f\<in>set (with_max mx fs). f \<le> mx) \<and> last (with_max mx fs) = mx"
proof (cases "last fs = mx")
  case False
  have "f < mx" if "f \<in> set fs" for f
  proof -
    have "f \<le> last fs"
      using that assms(1,2) by (induction fs) (auto simp: less_imp_le last_in_set split: if_splits)
    moreover have "last fs \<le> mx" using assms(2,3) by simp
    ultimately show ?thesis using False by order
  qed
  with assms False show ?thesis by (auto simp: with_max_def sorted_wrt_append)
qed (use assms in \<open>auto simp: with_max_def\<close>)

lemma clock_list_sorted:
  assumes "1600000 < mx"
  shows "sorted_wrt (<) (clock_list mode mx)" "\<forall>f\<in>set (clock_list mode mx). f \<le> mx"
    "last (clock_list mode mx) = mx" "\<exists>fs. clock_list mode mx = EmcListDefault @ fs \<and> fs \<noteq> []"
proof -
  let ?fs = "EmcListDefault @ takeWhile (\<lambda>f. f \<le> mx) (clock_steps mode)"
  have tw: "sorted_wrt (<) (takeWhile (\<lambda>f. f \<le> mx) (clock_steps mode))"
    using clock_steps_sorted [of mode] by (metis sorted_wrt_takeWhile)
  have "f \<in> set (takeWhile (\<lambda>f. f \<le> mx) (clock_steps mode)) \<Longrightarrow> 1600000 < f \<and> f \<le> mx" for f
    using clock_steps_sorted [of mode] by (auto simp: list_all_iff dest: set_takeWhileD)
  moreover have "f \<in> set EmcListDefault \<Longrightarrow> f \<le> 1600000" for f by (auto simp: EmcListDefault_def)
  moreover have "sorted_wrt (<) EmcListDefault" by (simp add: EmcListDefault_def)
  ultimately have s: "sorted_wrt (<) ?fs" "\<forall>f\<in>set ?fs. f \<le> mx"
    using tw assms by (fastforce simp: sorted_wrt_append)+
  have "?fs \<noteq> []" by (simp add: EmcListDefault_def)
  note wm = with_max_sorted [OF s(1) this s(2), folded clock_list_def]
  show "sorted_wrt (<) (clock_list mode mx)" using wm by (rule conjunct1)
  show "\<forall>f\<in>set (clock_list mode mx). f \<le> mx" using wm [THEN conjunct2] by (rule conjunct1)
  show "last (clock_list mode mx) = mx" using wm [THEN conjunct2] by (rule conjunct2)
  have "last EmcListDefault = 1600000" by (simp add: EmcListDefault_def)
  then have neq: "last EmcListDefault \<noteq> mx" using assms by (metis less_irrefl)
  show "\<exists>fs. clock_list mode mx = EmcListDefault @ fs \<and> fs \<noteq> []"
  proof (cases "last ?fs = mx")
    case True
    with neq have "takeWhile (\<lambda>f. f \<le> mx) (clock_steps mode) \<noteq> []" by (metis append_Nil2)
    with True show ?thesis unfolding clock_list_def with_max_def by simp
  next
    case False
    then show ?thesis unfolding clock_list_def with_max_def by simp
  qed
qed

lemma length_takeWhile_index: "k < length xs \<Longrightarrow> \<not> P (xs ! k) \<Longrightarrow> length (takeWhile P xs) \<le> k"
proof (induction xs arbitrary: k)
  case (Cons x xs)
  then show ?case by (cases k) auto
qed simp

definition few_steps :: "u32 \<Rightarrow> u32 \<Rightarrow> bool" where
  "few_steps mode mx \<longleftrightarrow> mode \<in> {StepMode_100MHz, StepMode_Jedec, StepMode_133MHz} \<or> mx < 3466000"

lemma clock_list_length:
  assumes "few_steps mode mx" "mx \<le> 3500000"
  shows "length (clock_list mode mx) \<le> 31"
proof -
  have "length (takeWhile (\<lambda>f. f \<le> mx) (clock_steps mode)) \<le> 27"
  proof -
    consider "mode = StepMode_Jedec" | "mode = StepMode_133MHz" | "mode = StepMode_100MHz"
      | "mode \<noteq> StepMode_Jedec" "mode \<noteq> StepMode_133MHz" "mode \<noteq> StepMode_100MHz" "mx < 3466000"
      using assms(1) by (auto simp: few_steps_def)
    then show ?thesis
    proof cases
      case 1
      have "length (takeWhile (\<lambda>f. f \<le> mx) jedecFreqs) \<le> length jedecFreqs" by (rule length_takeWhile_le)
      then show ?thesis using 1 by (simp add: clock_steps_def jedecFreqs_def)
    next
      case 2
      have "length (takeWhile (\<lambda>f. f \<le> mx) stepFreqs133) \<le> length stepFreqs133" by (rule length_takeWhile_le)
      then show ?thesis
        using 2 by (simp add: clock_steps_def stepFreqs133_def StepMode_Jedec_def StepMode_133MHz_def)
    next
      case 3
      have c: "clock_steps mode = steps step_fuel 1 100000"
        using 3 by (simp add: clock_steps_def StepMode_Jedec_def StepMode_133MHz_def StepMode_100MHz_def)
      have "mx < 3600000" by (rule le_less_trans [OF assms(2)]) simp
      then show ?thesis unfolding c using length_takeWhile_index [of 19 "steps step_fuel 1 100000" "\<lambda>f. f \<le> mx"]
        by (simp add: steps_100 not_le)
    next
      case 4
      then have c: "clock_steps mode = steps step_fuel 1 66667" by (simp add: clock_steps_def)
      show ?thesis unfolding c
        using 4(4) by (intro length_takeWhile_index) (simp_all add: steps_66 not_le)
    qed
  qed
  then show ?thesis by (simp add: clock_list_def with_max_def EmcListDefault_def)
qed


text \<open>
  Above 3466 MHz and with 66 MHz steps the maximum itself is cut off: the list ends with 3466 MHz,
  although \<open>MemFreqMax\<close> allows the clock.
\<close>

lemma emc_list_drops_max:
  assumes "stepMode C = StepMode_66MHz" "3466000 < marikoEmcMaxClock C" "marikoEmcMaxClock C \<le> 3500000"
  shows "\<exists>fs. MtcGenerateFreqTables C = Some fs \<and> last fs = 3466000"
proof -
  let ?mx = "marikoEmcMaxClock C"
  have mx: "1600000 < ?mx" "\<not> 3533000 \<le> ?mx"
    using assms(2,3) by (auto elim: less_trans [rotated] dest: order_trans)
  have "takeWhile (\<lambda>f. f \<le> ?mx) (steps step_fuel 1 66667) = take 28 (steps step_fuel 1 66667)"
    using mx(2) assms(2) by (simp add: steps_66 less_imp_le [OF less_trans [OF _ assms(2)]])
  then have "clock_list StepMode_66MHz ?mx = EmcListDefault @ take 28 (steps step_fuel 1 66667) @ [?mx]"
    using assms(2) by (simp add: clock_list_def with_max_def clock_steps_def steps_66 less_imp_neq
      StepMode_66MHz_def StepMode_Jedec_def StepMode_133MHz_def StepMode_100MHz_def)
  then have "last (take 31 (clock_list StepMode_66MHz ?mx)) = 3466000"
    by (simp add: steps_66 EmcListDefault_def)
  then show ?thesis using MtcGenerateFreqTables_eq [OF mx(1) assms(3)] assms(1) by simp
qed

end
