(* ===== verification/Mariko_Windows.thy ===== *)
theory Mariko_Windows
  imports Mariko_Memory
begin

text \<open>
  Where the patches for Mariko write. Every patcher is an instance of the contract \<open>windowed\<close>; with
  the loop over the image (theory Pcv_Patch) a word that changes lies in a window of a patch around an
  address of the image.
\<close>

section \<open>Helpers that write at several places\<close>

lemma nso_patch_if: "nso (patch_if b p v s) a = (if b \<and> a = p then v else nso s a)"
  by (simp add: patch_if_def)

lemma nso_patch_all_outside: "a \<notin> set ps \<Longrightarrow> nso (patch_all ps v s) a = nso s a"
  unfolding patch_all_def by (induction ps arbitrary: s) auto

lemma nso_patch_fields_outside:
  "(\<And>k. k \<in> fst ` set fs \<Longrightarrow> a \<noteq> entry + k) \<Longrightarrow> nso (patch_fields entry fs s) a = nso s a"
  unfolding patch_fields_def by (induction fs arbitrary: s) (auto split: prod.splits)

lemma nso_patch_level_outside:
  assumes "list_all (\<lambda>(uv, fs). list_all (\<lambda>(k, v). 0 \<le> k \<and> k \<le> 3) fs) levels"
    and "a < entry \<or> entry + 3 < a"
  shows "nso (patch_level levels uv entry s) a = nso s a"
proof (cases "map_of levels uv")
  case (Some fs)
  have "0 \<le> k \<and> k \<le> 3" if "k \<in> fst ` set fs" for k
    using that map_of_SomeD [OF Some] assms(1) by (fastforce simp: list_all_iff)
  then have "nso (patch_fields entry fs s) a = nso s a"
    using assms(2) by (intro nso_patch_fields_outside) force
  then show ?thesis by (simp add: patch_level_def Some)
qed (simp add: patch_level_def)

lemma nso_volt_limit_outside:
  "a < ptr + int i \<or> ptr + int i + int n \<le> a \<Longrightarrow> nso (volt_limit_loop n i volt mx ptr s) a = nso s a"
proof (induction n arbitrary: i volt s)
  case (Suc n)
  then show ?case using Suc.IH [of "i + 1"] by auto
qed simp

section \<open>Patchers of fixed size\<close>

lemmas patcher_defs = CpuFreqVdd_def CpuVoltDVFS_def CpuVoltThermals_def CpuVoltDfll_def
  GpuVoltDVFS_def GpuVoltThermals_def GpuFreqMaxAsm_def GpuFreqPllMax_def GpuFreqPllLimit_def
  MemFreqMax_def MemFreqPllmLimit_def EmcVddqVolt_def MemVoltHandler_def MemMtcTableAsm_def
  SocVoltLimit_def I2cSet_U8_def

interpretation cpu_vdd: windowed "CpuFreqVdd C" 0 0 for C
  by unfold_locales (auto simp: patcher_defs Let_def split: if_splits)

interpretation cpu_dvfs: windowed "CpuVoltDVFS C" "-2" 5 for C
  by unfold_locales (auto simp: patcher_defs Let_def nso_patch_if split: if_splits)

interpretation cpu_thermals: windowed "CpuVoltThermals C" "-5" 4 for C
  by unfold_locales (auto simp: patcher_defs Let_def nso_patch_all_outside split: if_splits)

lemma dfll_fields:
  "list_all (\<lambda>(uv, fs). list_all (\<lambda>(k, v). 0 \<le> k \<and> k \<le> 3) fs) dfll_low"
  "list_all (\<lambda>(uv, fs). list_all (\<lambda>(k, v). 0 \<le> k \<and> k \<le> 3) fs) dfll_high"
  by (simp_all add: dfll_low_def dfll_high_def)

interpretation cpu_dfll: windowed "CpuVoltDfll C" 0 3 for C
  by unfold_locales
    (auto simp: patcher_defs Let_def nso_patch_level_outside [OF dfll_fields(1)]
      nso_patch_level_outside [OF dfll_fields(2)] split: if_splits)

interpretation gpu_dvfs: windowed "GpuVoltDVFS C" 0 1 for C
  by unfold_locales (auto simp: patcher_defs Let_def nso_patch_if split: if_splits)

interpretation gpu_thermals: windowed "GpuVoltThermals C" 0 12 for C
  by unfold_locales (auto simp: patcher_defs Let_def nso_patch_all_outside split: if_splits)

interpretation gpu_asm: windowed "GpuFreqMaxAsm m C" 0 1 for m C
  by unfold_locales (auto simp: patcher_defs Let_def split: if_splits)

interpretation gpu_pll_max: windowed GpuFreqPllMax 0 0
  by unfold_locales (auto simp: patcher_defs Let_def split: if_splits)

interpretation gpu_pll_limit: windowed GpuFreqPllLimit 0 0
  by unfold_locales (auto simp: patcher_defs Let_def split: if_splits)

interpretation mem_max: windowed "MemFreqMax C" 0 0 for C
  by unfold_locales (auto simp: patcher_defs Let_def split: if_splits)

interpretation mem_pllm: windowed MemFreqPllmLimit 0 6
  by unfold_locales (auto simp: patcher_defs Let_def split: if_splits)

interpretation mem_vddq: windowed "EmcVddqVolt env C" 0 0 for env C
  by unfold_locales (auto simp: patcher_defs Let_def split: if_splits)

interpretation mem_volt: windowed "MemVoltHandler C" 0 0 for C
  by unfold_locales (auto simp: patcher_defs Let_def split: if_splits)

interpretation mem_asm: windowed "MemMtcTableAsm fs" "-12" "-10" for fs
  by unfold_locales (auto simp: patcher_defs Let_def split: if_splits)

interpretation soc_limit: windowed "SocVoltLimit C" 1 14 for C
  by unfold_locales (auto simp: patcher_defs Let_def nso_volt_limit_outside split: if_splits)

lemma scan_range: "ScanAssembly w p n pat cmp = Some q \<Longrightarrow> p \<le> q \<and> q < p + int n"
  by (auto simp: ScanAssembly_first)

lemma soc_volt_sites_range:
  assumes "soc_volt_sites w p = Some (writeProcessId, writeVoltage, branchToAbort)"
  shows "p \<le> writeProcessId \<and> writeProcessId \<le> writeVoltage \<and> writeVoltage \<le> branchToAbort \<and>
    branchToAbort \<le> p + 250"
  using assms unfolding soc_volt_sites_def
  by (auto simp: bind_eq_Some_conv split: if_splits dest!: scan_range)

interpretation soc_asm: windowed "SocVoltAsm env C" 0 250 for env C
proof unfold_locales
  fix s p r s' a
  assume run: "SocVoltAsm env C s p = (r, s')" and a: "a < p + 0 \<or> p + 250 < a"
  show "nso s' a = nso s a"
  proof (cases "soc_volt_sites (nso s) p")
    case None
    with run show ?thesis by (simp add: SocVoltAsm_def)
  next
    case (Some x)
    obtain i j k where x: "x = (i, j, k)" by (metis prod_cases3)
    from soc_volt_sites_range [OF Some [unfolded x]] a have "a \<noteq> p \<and> a \<noteq> i \<and> a \<noteq> j \<and> a \<noteq> k" by auto
    with run Some x show ?thesis
      by (auto simp: SocVoltAsm_def Let_def split: if_splits sum.splits)
  qed
qed

section \<open>Tables\<close>

text \<open>The tables of the settings have the shape of the structure.\<close>

definition wf_customize :: "customize \<Rightarrow> bool" where
  "wf_customize C \<longleftrightarrow> list_all wf_cvb
     [eristaCpuDvfsTable C, eristaCpuDvfsTableSLT C, marikoCpuDvfsTable C, marikoCpuDvfsTableSLT C,
      marikoCpuDvfsTable1581Tbreak C, marikoCpuDvfsTable1683Tbreak C, marikoCpuDvfsTableExtreme C,
      eristaGpuDvfsTable C, eristaGpuDvfsTableSLT C, eristaGpuDvfsTableHiOPT C,
      marikoGpuDvfsTable C, marikoGpuDvfsTableSLT C, marikoGpuDvfsTableHiOPT C]"

lemma default_tables [simp]: "wf_cvb mariko_CpuCvbTableDefault" "wf_cvb erista_CpuCvbTableDefault"
  "wf_cvb mariko_GpuCvbTableDefault" "wf_cvb erista_GpuCvbTableDefault"
  "GetDvfsTableEntryCount mariko_CpuCvbTableDefault = 18"
  "GetDvfsTableEntryCount erista_CpuCvbTableDefault = 16"
  "GetDvfsTableEntryCount mariko_GpuCvbTableDefault = 17"
  "GetDvfsTableEntryCount erista_GpuCvbTableDefault = 12"
  by (simp_all add: wf_cvb_def GetDvfsTableEntryCount_def DvfsTableEntryLimit_def is_empty_entry_def
    mariko_CpuCvbTableDefault_def erista_CpuCvbTableDefault_def mariko_GpuCvbTableDefault_def
    erista_GpuCvbTableDefault_def cvb_def coeffs_def cvb_words_def)

lemmas table_defaults = eristaCpuDvfsTable_default_def eristaCpuDvfsTableSLT_default_def
  marikoCpuDvfsTable_default_def marikoCpuDvfsTableSLT_default_def
  marikoCpuDvfsTable1581Tbreak_default_def marikoCpuDvfsTable1683Tbreak_default_def
  marikoCpuDvfsTableExtreme_default_def eristaGpuDvfsTable_default_def
  eristaGpuDvfsTableSLT_default_def eristaGpuDvfsTableHiOPT_default_def marikoGpuDvfsTable_default_def
  marikoGpuDvfsTableSLT_default_def marikoGpuDvfsTableHiOPT_default_def

lemma wf_default: "wf_customize C_default"
  by (simp add: wf_customize_def C_default_def wf_cvb_def cvb_def coeffs_def table_defaults)

lemma wf_tables:
  assumes "wf_customize C"
  shows "wf_cvb (cpu_customize_table m C)" "wf_cvb (gpu_customize_table m C)"
  using assms by (simp_all add: wf_customize_def cpu_customize_table_def gpu_customize_table_def)

text \<open>At most 31 entries of 14 words from the head of the table.\<close>

lemma table_end:
  "wf_cvb t \<Longrightarrow> head + int (length (table_words t)) \<le> head + 434"
  "cvb_at head (GetDvfsTableEntryCount t) \<le> head + 434"
  using entry_count_le(2) [of t] by (simp_all add: length_table_words cvb_at_def)

lemma cpu_table_window:
  assumes "wf_cvb (cpu_customize_table m C)" "CpuFreqCvbTable m C s p = (r, s')"
    and "head = table_head (if m then mariko_CpuCvbTableDefault else erista_CpuCvbTableDefault) p"
    and a: "a < head \<or> head + 433 < a"
  shows "nso s' a = nso s a"
proof -
  have "a < head \<or> head + int (length (table_words (cpu_customize_table m C))) \<le> a"
    using table_end(1) [OF assms(1), of head] a by linarith
  then have 1: "nso (patch_words head (table_words (cpu_customize_table m C)) s) a = nso s a" by simp
  have "nso (fold (cpu_volt_entry m v head) [0..<GetDvfsTableEntryCount (cpu_customize_table m C)] s1) a = nso s1 a"
    for v s1 by (rule cpu_volts.fold_outside) (use table_end(2) [of head "cpu_customize_table m C"] a in linarith)
  with 1 assms(2) show ?thesis
    unfolding CpuFreqCvbTable_def assms(3) by (auto simp: Let_def split: if_splits)
qed

lemma gpu_table_window:
  assumes "wf_cvb (gpu_customize_table m C)" "GpuFreqCvbTable m C s p = (r, s')"
    and "head = table_head (if m then mariko_GpuCvbTableDefault else erista_GpuCvbTableDefault) p"
    and a: "a < head \<or> head + 433 < a"
  shows "nso s' a = nso s a"
proof -
  let ?n = "GetDvfsTableEntryCount (gpu_customize_table m C)"
  have out: "a < head \<or> cvb_at head ?n \<le> a"
    using table_end(2) [of head "gpu_customize_table m C"] a by linarith
  have "a < head \<or> head + int (length (table_words (gpu_customize_table m C))) \<le> a"
    using table_end(1) [OF assms(1), of head] a by linarith
  then have 1: "nso (patch_words head (table_words (gpu_customize_table m C)) s) a = nso s a" by simp
  have 2: "nso (fold (gpu_volt_entry volts v head) [0..<?n] s1) a = nso s1 a"
    and 3: "nso (fold (gpu_volt_offset v head) [0..<?n] s1) a = nso s1 a" for volts v s1
    using out by (rule gpu_volts.fold_outside, intro gpu_offset.fold_outside)
  with 1 assms(2) show ?thesis
    unfolding GpuFreqCvbTable_def assms(3) by (auto simp: Let_def split: if_splits)
qed

lemma table_heads:
  "table_head mariko_CpuCvbTableDefault p = p - 238" "table_head erista_CpuCvbTableDefault p = p - 210"
  "table_head mariko_GpuCvbTableDefault p = p - 224" "table_head erista_GpuCvbTableDefault p = p - 154"
  by (simp_all add: table_head_def length_table_words)

lemma tables_windowed:
  assumes "wf_customize C"
  shows "windowed (CpuFreqCvbTable True C) (-238) 195" "windowed (CpuFreqCvbTable False C) (-210) 223"
    "windowed (GpuFreqCvbTable True C) (-224) 209" "windowed (GpuFreqCvbTable False C) (-154) 279"
  using cpu_table_window [OF wf_tables(1) [OF assms] _ refl] gpu_table_window [OF wf_tables(2) [OF assms] _ refl]
  by (unfold_locales; force simp: table_heads)+

text \<open>A row of the voltage table has six words, and there is at most one for each clock.\<close>

lemma dvb_rows_shape:
  "list_all (\<lambda>b. length (snd b) = 4) brackets \<Longrightarrow>
     length (dvb_rows brackets fs) \<le> length fs \<and> list_all (\<lambda>r. length (snd r) = 4) (dvb_rows brackets fs)"
  by (induction brackets fs rule: dvb_rows.induct) auto

lemma bracket_shape: "list_all (\<lambda>b. length (snd b) = 4) (emcDvbOcTableBrackets C)"
  by (simp add: emcDvbOcTableBrackets_def dvb_steps_def Let_def split: prod.split)

lemma length_dvb_words: "list_all (\<lambda>r. length (snd r) = 4) rows \<Longrightarrow> length (concat (map dvb_words rows)) = 6 * length rows"
  by (induction rows) (auto simp: dvb_words_def split: prod.splits)

lemma dvb_windowed:
  assumes "length fs \<le> 31"
  shows "windowed (MemFreqDvbTable fs C) (-30) 155"
proof unfold_locales
  fix s p r s' a
  assume run: "MemFreqDvbTable fs C s p = (r, s')" and a: "a < p + -30 \<or> p + 155 < a"
  have d: "length (concat (map dvb_words EmcDvbTableDefault)) = 36"
    by (simp add: EmcDvbTableDefault_def dvb_words_def)
  note shape = dvb_rows_shape [OF bracket_shape, of C fs]
  have "length (concat (map dvb_words (dvb_rows (emcDvbOcTableBrackets C) fs))) \<le> 186"
    using length_dvb_words [OF conjunct2 [OF shape]] conjunct1 [OF shape] assms by linarith
  then have "a < p - 30 \<or> p - 30 + int (length (concat (map dvb_words (dvb_rows (emcDvbOcTableBrackets C) fs)))) \<le> a"
    using a by linarith
  moreover have "a < p - 30 \<or> p - 30 + int (length (replicate 36 (0 :: u32))) \<le> a"
    using a by auto
  ultimately show "nso s' a = nso s a"
    using run unfolding MemFreqDvbTable_def Let_def d
    by (auto split: if_splits simp del: length_concat)
qed

lemma mtc_extend_outside:
  "a < table \<or> mtc_at table n \<le> a \<Longrightarrow>
     nso (fold (\<lambda>i s. patch_word (mtc_at table i + 16) (fs ! i)
       (patch_words (mtc_at table i) (words_at s (mtc_at table (i - 1)) mariko_table_words) s)) [k..<n] s) a = nso s a"
proof (induction n)
  case (Suc n)
  then have "a < table \<or> mtc_at table n \<le> a" by (auto simp: mtc_at_def mariko_table_words_def)
  with Suc show ?case by (auto simp: mtc_at_def mariko_table_words_def)
qed simp

lemma mtc_adjust_outside:
  "a < table \<or> mtc_at table n \<le> a \<Longrightarrow>
     nso (fold (\<lambda>i. adjust_table C (mtc_at table i)) [k..<n] s) a = nso s a"
proof (induction n)
  case (Suc n)
  then have "a < table \<or> mtc_at table n \<le> a" by (auto simp: mtc_at_def mariko_table_words_def)
  with Suc show ?case by (auto simp: adjust_table_def mtc_at_def mariko_table_words_def)
qed simp

lemma nso_stop [simp]: "nso (stop_boot msg s) = nso s"
  by (simp add: stop_boot_def)

lemma mtc_windowed:
  assumes "length fs \<le> 31"
  shows "windowed (MemFreqMtcTable env fs C) (-2166) 77298"
proof unfold_locales
  fix s p r s' a
  assume run: "MemFreqMtcTable env fs C s p = (r, s')" and a: "a < p + -2166 \<or> p + 77298 < a"
  let ?start = "p - 2166"
  have 1: "nso (PrepareMtcMemoryRegion ?start u s) a = nso s a" for u
    using a by (auto simp: PrepareMtcMemoryRegion_def mariko_MtcFullTableSize_def erista_MtcFullTableSize_def)
  have "mtc_at ?start (length fs) \<le> p + 77299"
    using assms by (simp add: mtc_at_def mariko_table_words_def)
  then have out: "a < ?start \<or> mtc_at ?start (length fs) \<le> a" using a by linarith
  have start: "p - 16 - int (mariko_table_words * 2) = ?start" by (simp add: mariko_table_words_def)
  show "nso s' a = nso s a"
    using run 1 mtc_extend_outside [OF out] mtc_adjust_outside [OF out]
    unfolding MemFreqMtcTable_def MtcExtendTables_def start Let_def
    by (auto split: option.splits if_splits)
qed

section \<open>All patches\<close>

definition mariko_windows :: "(string \<times> int \<times> int) list" where
  "mariko_windows = [
     (''CPU Freq Vdd'', 0, 0), (''CPU Freq Table'', -238, 195), (''CPU Volt DVFS'', -2, 5),
     (''CPU Volt Thermals'', -5, 4), (''CPU Volt Dfll'', 0, 3), (''GPU Volt DVFS'', 0, 1),
     (''GPU Volt Thermals'', 0, 12), (''GPU Freq Table'', -224, 209), (''GPU Freq Asm'', 0, 1),
     (''GPU PLL Max'', 0, 0), (''GPU PLL Limit'', 0, 0), (''MEM Freq Mtc'', -2166, 77298),
     (''MEM Freq Dvb'', -30, 155), (''MEM Freq Max'', 0, 0), (''MEM Freq PLLM'', 0, 6),
     (''MEM Vddq'', 0, 0), (''MEM Vdd2'', 0, 0), (''MEM Table Asm'', -12, -10),
     (''SOC Volt Asm'', 0, 250), (''SOC Volt Limit'', 1, 14)]"

text \<open>A patch without a window could write anywhere; there is none.\<close>

definition window_of :: "(string \<times> int \<times> int) list \<Rightarrow> string \<Rightarrow> int \<times> int" where
  "window_of ws d = (case map_of ws d of Some w \<Rightarrow> w | None \<Rightarrow> (0, -1))"

lemma patcher_fields [simp]: "pe_description (patcher d f n t) = d" "pe_patcher_fn (patcher d f n t) = f"
  "pe_patched_count (patcher d f n t) = 0"
  by (simp_all add: patcher_def)

lemma mariko_in_windows:
  assumes "wf_customize C" "length fs \<le> 31"
  shows "in_windows (window_of mariko_windows) (mariko_patches env fs C)"
  unfolding in_windows_def mariko_patches_def
  by (simp add: window_of_def mariko_windows_def tables_windowed [OF assms(1)]
    mtc_windowed [OF assms(2)] dvb_windowed [OF assms(2)] cpu_vdd.windowed_axioms
    cpu_dvfs.windowed_axioms cpu_thermals.windowed_axioms cpu_dfll.windowed_axioms
    gpu_dvfs.windowed_axioms gpu_thermals.windowed_axioms gpu_asm.windowed_axioms
    gpu_pll_max.windowed_axioms gpu_pll_limit.windowed_axioms mem_max.windowed_axioms
    mem_pllm.windowed_axioms mem_vddq.windowed_axioms mem_volt.windowed_axioms
    mem_asm.windowed_axioms soc_asm.windowed_axioms soc_limit.windowed_axioms)

lemma clocks_fit: "MtcGenerateFreqTables C = Some fs \<Longrightarrow> length fs \<le> 31"
  by (auto simp: MtcGenerateFreqTables_def Let_def DvfsTableEntryLimit_def split: if_splits)


definition a_boot :: pcv_env where
  "a_boot = \<lparr>env_soc_speedo = Inr 1650, env_i2c_open = 0, env_i2c_send = (\<lambda>reg val. 0), env_dram_id = 8\<rparr>"

definition an_image :: "(int \<Rightarrow> u32) \<Rightarrow> pcv_state" where
  "an_image w = \<lparr>nso = w, i2c_log = [], erista_maxEmcClocks = [], stopped = None\<rparr>"

definition stock_memory :: customize where
  "stock_memory = C_default\<lparr>marikoEmcMaxClock := 1600000\<rparr>"

lemma stock_memory: "wf_customize stock_memory" "MtcGenerateFreqTables stock_memory = Some []"
  using wf_default by (simp_all add: stock_memory_def wf_customize_def MtcGenerateFreqTables_def EmcClkOSLimit_def)


end
