(* ===== verification/Mariko_Effects.thy ===== *)
theory Mariko_Effects
  imports Mariko_Windows
begin

text \<open>
  What the patches for Mariko leave in the image: the voltage table for the memory clocks, the
  instructions with the maximum of the GPU and the memory, the voltages of the SoC.
\<close>

section \<open>Voltages of the memory clocks\<close>

text \<open>The bracket for a clock is the last one that does not lie above it.\<close>

definition dvb_lookup :: "(u32 \<times> u32 list) list \<Rightarrow> u32 \<Rightarrow> u32 list" where
  "dvb_lookup brackets f = snd (last (takeWhile (\<lambda>b. fst b \<le> f) brackets))"

lemma dvb_lookup_next:
  "fst b \<le> f \<Longrightarrow> fst next \<le> f \<Longrightarrow> dvb_lookup (b # next # bs) f = dvb_lookup (next # bs) f"
  by (simp add: dvb_lookup_def)

lemma dvb_lookup_here: "fst b \<le> f \<Longrightarrow> \<not> fst next \<le> f \<Longrightarrow> dvb_lookup (b # next # bs) f = snd b"
  by (simp add: dvb_lookup_def)

text \<open>The index that only moves up finds the same as a lookup of each clock on its own.\<close>

lemma dvb_rows_lookup:
  "sorted fs \<Longrightarrow> brackets \<noteq> [] \<Longrightarrow> \<forall>f\<in>set fs. fst (hd brackets) \<le> f \<and> f < fst (last brackets) \<Longrightarrow>
     dvb_rows brackets fs = map (\<lambda>f. (ucast f, dvb_lookup brackets f)) fs"
proof (induction brackets fs rule: dvb_rows.induct)
  case (2 b nxt bs f fs)
  show ?case
  proof (cases "fst nxt \<le> f")
    case True
    have all: "fst nxt \<le> g \<and> fst b \<le> g" if "g \<in> set (f # fs)" for g
      using that 2(3,5) True by (auto intro: order_trans)
    then have "dvb_rows (nxt # bs) (f # fs) = map (\<lambda>f. (ucast f, dvb_lookup (nxt # bs) f)) (f # fs)"
      using 2(5) by (intro 2(1) [OF True 2(3)]) auto
    moreover have "dvb_lookup (b # nxt # bs) g = dvb_lookup (nxt # bs) g" if "g \<in> set (f # fs)" for g
      using all [OF that] by (simp add: dvb_lookup_next)
    ultimately show ?thesis using True by simp
  next
    case False
    have "dvb_rows (b # nxt # bs) fs = map (\<lambda>f. (ucast f, dvb_lookup (b # nxt # bs) f)) fs"
      using 2(3,5) by (intro 2(2) [OF False]) auto
    then show ?thesis using False 2(5) by (simp add: dvb_lookup_here)
  qed
qed auto

definition dvb_volts :: "customize \<Rightarrow> u32 \<Rightarrow> u32 list" where
  "dvb_volts C = dvb_lookup (emcDvbOcTableBrackets C)"

lemma bracket_ends: "emcDvbOcTableBrackets C \<noteq> []" "fst (hd (emcDvbOcTableBrackets C)) = 204000"
  "fst (last (emcDvbOcTableBrackets C)) = 0xFFFFFFFF"
  by (simp_all add: emcDvbOcTableBrackets_def Let_def split: prod.split)

lemma clock_range:
  assumes "1600000 < marikoEmcMaxClock C" "marikoEmcMaxClock C \<le> 3500000" "MtcGenerateFreqTables C = Some fs"
    "f \<in> set fs"
  shows "204000 \<le> f \<and> f \<le> 3500000"
proof -
  let ?l = "clock_list (stepMode C) (marikoEmcMaxClock C)"
  note s = clock_list_sorted [OF assms(1), of "stepMode C"]
  have fs: "fs = take 31 ?l" using MtcGenerateFreqTables_eq [OF assms(1,2)] assms(3) by simp
  obtain ts where l: "?l = EmcListDefault @ ts" using s(4) by auto
  have "f \<in> set ?l" using assms(4) unfolding fs by (rule in_set_takeD)
  then have "f \<le> marikoEmcMaxClock C" and "f = 204000 \<or> 204000 < f"
    using s(1,2) unfolding l EmcListDefault_def by auto
  with assms(2) show ?thesis by auto
qed

lemma clocks_sorted:
  assumes "1600000 < marikoEmcMaxClock C" "marikoEmcMaxClock C \<le> 3500000" "MtcGenerateFreqTables C = Some fs"
  shows "sorted_wrt (<) fs"
  using MtcGenerateFreqTables_eq [OF assms(1,2)] assms(3) clock_list_sorted(1) [OF assms(1)]
  by (auto intro: sorted_wrt_take)

text \<open>Adding the shift and clamping keeps a voltage between 637 mV and the maximum.\<close>

lemma dvb_clamp_range: "637 \<le> mx \<Longrightarrow> mx < 2 ^ 32 \<Longrightarrow> 637 \<le> dvb_clamp add mx v \<and> dvb_clamp add mx v \<le> word_of_int mx"
  by (auto simp: dvb_clamp_def word_le_def uint_word_of_int)

lemma bracket_volts:
  assumes "b \<in> set (emcDvbOcTableBrackets C)" "fst b < 0xFFFFFFFF" "v \<in> set (take 3 (snd b))"
  shows "637 \<le> v \<and> v \<le> max 1050 (marikoSocVmax C)"
proof -
  obtain m0 m1 m2 where mx: "dvb_max C = (m0, m1, m2)" by (cases "dvb_max C")
  have lim: "637 \<le> m \<and> m < 2 ^ 32 \<and> word_of_int m \<le> max 1050 (marikoSocVmax C)" if "m \<in> {m0, m1, m2}" for m
    using that mx uint_lt2p [of "marikoSocVmax C"]
    by (auto simp: dvb_max_def word_less_def le_max_iff_disj split: if_splits)
  have "637 \<le> dvb_clamp add m z \<and> dvb_clamp add m z \<le> max 1050 (marikoSocVmax C)" if "m \<in> {m0, m1, m2}" for add m z
    using dvb_clamp_range [of m add z] lim [OF that] by (auto intro: order_trans)
  note clamp = this [of m0] this [of m1] this [of m2]
  have stock: "(675 :: u32) \<le> max 1050 (marikoSocVmax C)" "(650 :: u32) \<le> max 1050 (marikoSocVmax C)"
    "(637 :: u32) \<le> max 1050 (marikoSocVmax C)" by (simp_all add: le_max_iff_disj)
  consider "b \<in> {(204000, [637, 637, 637, 0]), (1331200, [650, 637, 637, 0]), (1600000, [675, 650, 637, 0])}"
    | f add z0 z1 z2 where "b = (f, [dvb_clamp add m0 z0, dvb_clamp add m1 z1, dvb_clamp add m2 z2, 0])"
    using assms(1,2) unfolding emcDvbOcTableBrackets_def Let_def mx by auto
  then show ?thesis
  proof cases
    case 1
    then show ?thesis using assms(3) stock by auto
  next
    case 2
    then show ?thesis using assms(3) clamp by auto
  qed
qed

lemma dvb_volts_range:
  assumes "204000 \<le> f" "f \<le> 3500000" "v \<in> set (take 3 (dvb_volts C f))"
  shows "637 \<le> v \<and> v \<le> max 1050 (marikoSocVmax C)"
proof -
  let ?bs = "emcDvbOcTableBrackets C" and ?tw = "takeWhile (\<lambda>b. fst b \<le> f) (emcDvbOcTableBrackets C)"
  obtain b bs where bs: "?bs = b # bs" using bracket_ends(1) by (cases ?bs) auto
  then have "fst b = 204000" using bracket_ends(2) [of C] by simp
  with assms(1) have "?tw \<noteq> []" unfolding bs by simp
  then have "last ?tw \<in> set ?tw" by simp
  then have "last ?tw \<in> set ?bs" "fst (last ?tw) \<le> f" by (auto dest: set_takeWhileD)
  moreover from this(2) assms(2) have "fst (last ?tw) \<le> 3500000" by (rule order_trans)
  then have "fst (last ?tw) < 0xFFFFFFFF" by (rule le_less_trans) simp
  ultimately show ?thesis
    using assms(3) unfolding dvb_volts_def dvb_lookup_def by (intro bracket_volts)
qed

definition example_clocks :: customize where
  "example_clocks = C_default\<lparr>marikoEmcMaxClock := 2133000, stepMode := StepMode_Jedec\<rparr>"

lemma example_clocks: "1600000 < marikoEmcMaxClock example_clocks" "marikoEmcMaxClock example_clocks \<le> 3500000"
  "MtcGenerateFreqTables example_clocks = Some [204000, 1331200, 1600000, 1866000, 1996000, 2133000]"
  by (simp_all add: example_clocks_def MtcGenerateFreqTables_def EmcClkOSLimit_def fixed_list_def
    with_max_def jedecFreqs_def EmcListDefault_def DvfsTableEntryLimit_def)

definition dvb_image :: pcv_state where
  "dvb_image = patch_words 0 (concat (map dvb_words EmcDvbTableDefault)) (an_image (\<lambda>a. 0))"

lemma dvb_image: "\<exists>s'. MemFreqDvbTable fs example_clocks dvb_image 30 = (R_Success, s')"
proof -
  have d: "length (concat (map dvb_words EmcDvbTableDefault)) = 36"
    by (simp add: EmcDvbTableDefault_def dvb_words_def)
  have "words_at dvb_image 0 36 = concat (map dvb_words EmcDvbTableDefault)"
    unfolding dvb_image_def d [symmetric] by (rule words_at_patch_words)
  then show ?thesis
    using example_clocks(1) unfolding MemFreqDvbTable_def Let_def d EmcClkOSLimit_def
    by (simp del: length_concat)
qed


section \<open>The maximum of the GPU\<close>

text \<open>
  The two instructions with the maximum of the GPU clock load the last frequency of the chosen
  table, into the register they had, and everything else of the image stays.
\<close>

lemma gpu_max_patched:
  assumes "GpuFreqMaxAsm m C s p = (R_Success, s')"
  shows "push_bit 16 (ucast (AsmGetImm16 (nso s' (p + 1)))) OR ucast (AsmGetImm16 (nso s' p)) =
      last_freq (gpu_customize_table m C) \<and>
    asm_get_rd (nso s' p) = asm_get_rd (nso s p) \<and> asm_get_rd (nso s' (p + 1)) = asm_get_rd (nso s p) \<and>
    nso s' = (nso s)(p := nso s' p, p + 1 := nso s' (p + 1))"
proof -
  let ?rd = "ucast (asm_get_rd (nso s p)) :: u8" and ?v = "last_freq (gpu_customize_table m C)"
  let ?i1 = "asm_set_rd (asm_set_imm16 (GpuAsmPattern ! 0) (ucast ?v)) ?rd"
  let ?i2 = "asm_set_rd (asm_set_imm16 (GpuAsmPattern ! 1) (ucast (drop_bit 16 ?v))) ?rd"
  have s': "s' = patch_words p [?i1, ?i2] s"
    using assms by (auto simp: GpuFreqMaxAsm_def Let_def split: if_splits)
  have w: "nso s' p = ?i1" "nso s' (p + 1) = ?i2"
    using nso_patch_words_inside [of 0 "[?i1, ?i2]" p s] nso_patch_words_inside [of 1 "[?i1, ?i2]" p s]
    by (simp_all add: s')
  have rd: "(ucast (?rd AND mask 5) :: u32) = asm_get_rd (nso s p)"
    by (rule bit_word_eqI) (auto simp: asm_get_rd_def asm_masks bit_simps)
  have "nso s' a = nso s a" if "a \<noteq> p" "a \<noteq> p + 1" for a
    using that unfolding s' by (intro nso_patch_words_outside) auto
  then have "nso s' = (nso s)(p := nso s' p, p + 1 := nso s' (p + 1))" by auto
  then show ?thesis using asm_move_pair [of "GpuAsmPattern ! 1" ?v ?rd "GpuAsmPattern ! 0"]
    unfolding w by (simp add: asm_get_set_rd rd)
qed

definition gpu_image :: pcv_state where
  "gpu_image = an_image (\<lambda>a. if a = 0 then 0x5282000B else 0x72A001CB)"

lemma gpu_max_patched_witness:
  "\<exists>s'. GpuFreqMaxAsm True C_default gpu_image 0 = (R_Success, s') \<and>
    push_bit 16 (ucast (AsmGetImm16 (nso s' 1))) OR ucast (AsmGetImm16 (nso s' 0)) =
      last_freq (gpu_customize_table True C_default) \<and> asm_get_rd (nso s' 1) = 11"
proof -
  have "\<exists>s'. GpuFreqMaxAsm True C_default gpu_image 0 = (R_Success, s')"
    by (simp add: GpuFreqMaxAsm_def gpu_image_def an_image_def asm_compare_no_rd_def GpuAsmPattern_def
      asm_get_rd_def Let_def)
  then obtain s' where run: "GpuFreqMaxAsm True C_default gpu_image 0 = (R_Success, s')" by blast
  have "asm_get_rd (nso gpu_image 0) = 11" by (simp add: gpu_image_def an_image_def asm_get_rd_def)
  then show ?thesis using gpu_max_patched [OF run] run by (intro exI [of _ s']) simp
qed

section \<open>Examples\<close>


definition table_image :: "cvb_entry list \<Rightarrow> pcv_state" where
  "table_image t = patch_words 0 (table_words t) (an_image (\<lambda>a. 0))"

lemma table_image: "words_at (table_image t) 0 (length (table_words t)) = table_words t"
  unfolding table_image_def by (rule words_at_patch_words)

definition example_offset :: customize where
  "example_offset = C_default\<lparr>commonGpuVoltOffset := 10\<rparr>"

lemma gpu_table_written_witness:
  "\<exists>s'. GpuFreqCvbTable True example_offset (table_image mariko_GpuCvbTableDefault) 224 = (R_Success, s') \<and>
    word64_at s' 0 = 76800 \<and> nso s' 8 = 480000 - 10000 - 10000"
proof -
  have head: "table_head mariko_GpuCvbTableDefault 224 = 0" by (simp add: table_heads)
  have "\<exists>s'. GpuFreqCvbTable True example_offset (table_image mariko_GpuCvbTableDefault) 224 = (R_Success, s')"
    unfolding GpuFreqCvbTable_def Let_def if_True head by (simp add: table_image)
  then obtain s' where run: "GpuFreqCvbTable True example_offset (table_image mariko_GpuCvbTableDefault) 224 =
      (R_Success, s')" by blast
  have wf: "wf_cvb (gpu_customize_table True example_offset)"
    using wf_default by (intro wf_tables(2)) (simp add: example_offset_def wf_customize_def)
  have t: "gpu_customize_table True example_offset = marikoGpuDvfsTable_default"
    by (simp add: example_offset_def gpu_customize_table_def C_default_def)
  have i: "0 < GetDvfsTableEntryCount (gpu_customize_table True example_offset)"
    by (simp add: t GetDvfsTableEntryCount_def marikoGpuDvfsTable_default_def DvfsTableEntryLimit_def
      is_empty_entry_def cvb_def cvb_words_def)
  have "word64_at s' 0 = 76800 \<and> nso s' 8 = 480000 - 10000 - 10000"
    using gpu_table_written [OF wf run i refl refl] unfolding t if_True head
    by (simp add: pll_c0_def cvb_at_def example_offset_def C_default_def gpu_uv_def
      marikoGpuDvfsTable_default_def cvb_def coeffs_def)
  with run show ?thesis by blast
qed

lemma cpu_table_written_witness:
  "\<exists>s'. CpuFreqCvbTable True C_default (table_image mariko_CpuCvbTableDefault) 238 = (R_Success, s') \<and>
    word64_at s' 0 = 204000"
proof -
  have head: "table_head mariko_CpuCvbTableDefault 238 = 0" by (simp add: table_heads)
  have "\<exists>s'. CpuFreqCvbTable True C_default (table_image mariko_CpuCvbTableDefault) 238 = (R_Success, s')"
    unfolding CpuFreqCvbTable_def Let_def if_True head by (simp add: table_image)
  then obtain s' where run: "CpuFreqCvbTable True C_default (table_image mariko_CpuCvbTableDefault) 238 =
      (R_Success, s')" by blast
  note wf = wf_tables(1) [OF wf_default, of True]
  have t: "cpu_customize_table True C_default = marikoCpuDvfsTable1683Tbreak_default"
    by (simp add: cpu_customize_table_def C_default_def TBREAK_1683_def TBREAK_1581_def EXTREME_TABLE_def)
  have i: "0 < GetDvfsTableEntryCount (cpu_customize_table True C_default)"
    by (simp add: t GetDvfsTableEntryCount_def marikoCpuDvfsTable1683Tbreak_default_def DvfsTableEntryLimit_def
      is_empty_entry_def cvb_def cvb_words_def)
  have "word64_at s' 0 = 204000"
    using cpu_table_written [OF wf run i refl] unfolding t if_True head
    by (simp add: pll_c0_def cvb_at_def marikoCpuDvfsTable1683Tbreak_default_def cvb_def)
  with run show ?thesis by blast
qed

lemma patches_counted_witness:
  "\<exists>s' es'. run_patches 18 18 [patcher ''GPU PLL Max'' GpuFreqPllMax 1 (Value GpuClkPllMax)]
      (an_image (\<lambda>a. if a = 0 then 1300000000 else 0)) = Inr s' \<and>
    search_loop 1 0 [patcher ''GPU PLL Max'' GpuFreqPllMax 1 (Value GpuClkPllMax)]
      (an_image (\<lambda>a. if a = 0 then 1300000000 else 0)) = (es', s') \<and> total_count es' \<le> 1"
proof -
  let ?es = "[patcher ''GPU PLL Max'' GpuFreqPllMax 1 (Value GpuClkPllMax)]"
  let ?s = "an_image (\<lambda>a. if a = 0 then 1300000000 else 0)"
  have z: "list_all (\<lambda>w. w = 0) (words_at ?s 1 17)"
    by (auto simp: words_at_def an_image_def list_all_iff)
  have "\<exists>s'. run_patches 18 18 ?es ?s = Inr s'"
    using z by (simp add: run_patches_def search_steps_def SearchAndApply_def triggered_def Apply_def patcher_def
      GpuFreqPllMax_def GpuClkPllMax_def CheckResult_def an_image_def patch_word_def)
  then obtain s' where run: "run_patches 18 18 ?es ?s = Inr s'" by blast
  from patches_counted [OF run] run show ?thesis
    by (auto simp: total_count_def search_steps_def)
qed

end
