(* ===== verification/Pcv_Erista.thy ===== *)
theory Pcv_Erista
  imports Mariko_Windows
begin

text \<open>
  The patches for Erista, \<open>oc/pcv/pcv_erista.cpp\<close> with the patterns of \<open>oc/pcv/pcv_erista.hpp\<close>. What is
  the same as for Mariko (theory Pcv_Mariko) is shared: the maximum of the GPU, the PLL, the fields of
  the tuning registers. The registers of a memory table are in theory Mtc_Adjust.

  The three memory clocks are an array that the memory patch sorts and clears in place, at every match
  of its trigger; it is part of the state.
\<close>

section \<open>CPU and GPU\<close>

definition erista_cpuVoltDvfsPattern :: "u32 list" where
  "erista_cpuVoltDvfsPattern = [1227, 1000, 100, 1000, 0]"

definition erista_cpuVoltageThermalPattern :: "u32 list" where
  "erista_cpuVoltageThermalPattern = [950, 1132, 0, 950, 1227, 0, 825, 1227, 15000, 825, 1170, 60000,
     825, 1132, 80000]"

definition erista_CpuVoltDvfs :: "customize \<Rightarrow> patcher_fn" where
  "erista_CpuVoltDvfs C s ptr =
     (if words_at s (ptr + 5) 5 \<noteq> erista_cpuVoltDvfsPattern then (R_Error InvalidCpuMinVolt, s)
      else (R_Success,
        (patch_if (eristaCpuMaxVolt C \<noteq> 0) (ptr + 5) (eristaCpuMaxVolt C) \<circ>
         patch_if (eristaCpuUV C \<noteq> 0) (ptr - 2) (eristaCpuVmin C) \<circ>
         patch_if (eristaCpuVmin C \<noteq> 0) ptr (eristaCpuVmin C)) s))"

definition erista_CpuVoltThermals :: "customize \<Rightarrow> patcher_fn" where
  "erista_CpuVoltThermals C s ptr =
     (if words_at s (ptr - 6) 15 \<noteq> erista_cpuVoltageThermalPattern then (R_Error InvalidCpuMinVolt, s)
      else
        (let s1 = (if eristaCpuVmin C \<noteq> 0
                   then patch_all [ptr, ptr + 3, ptr + 6] (eristaCpuVmin C) s else s);
             s2 = (if eristaCpuMaxVolt C \<noteq> 0
                   then patch_all [ptr - 2, ptr + 1, ptr + 4, ptr + 7] (eristaCpuMaxVolt C) s1 else s1)
         in (R_Success, s2)))"

definition erista_dfll :: "(u32 \<times> (int \<times> u32) list) list" where
  "erista_dfll = [
     (1, [(1, 0xffff), (3, 0x27007ff)]),
     (2, [(1, 0xefff), (3, 0x27407ff)]),
     (3, [(1, 0xdfff), (3, 0x27807ff)]),
     (4, [(1, 0xdfdf), (3, 0x27a07ff)]),
     (5, [(1, 0xcfdf), (3, 0x37007ff)])]"

definition erista_CpuVoltDfll :: "customize \<Rightarrow> patcher_fn" where
  "erista_CpuVoltDfll C s entry =
     (if nso s entry \<noteq> 0xFFEAD0FF \<or> nso s (entry + 1) \<noteq> 0 \<or> nso s (entry + 2) \<noteq> 0 \<or>
         nso s (entry + 3) \<noteq> 0 then (R_Error InvalidCpuVoltDfllEntry, s)
      else if eristaCpuUV C = 0 then (R_Success, s)
      else (R_Success, patch_level erista_dfll (eristaCpuUV C) entry s))"

definition erista_gpuVoltDvfsPattern :: "u32 list" where
  "erista_gpuVoltDvfsPattern = [810, 1150, 1000, 100, 1000, 10]"

definition erista_gpuVoltThermalPattern :: "u32 list" where
  "erista_gpuVoltThermalPattern = [950, 1132, 0, 810, 1132, 15000, 810, 1132, 30000, 810, 1132, 50000,
     810, 1132, 70000, 810, 1132, 105000]"

definition erista_GpuVoltDVFS :: "customize \<Rightarrow> patcher_fn" where
  "erista_GpuVoltDVFS C s ptr =
     (if words_at s ptr 6 \<noteq> erista_gpuVoltDvfsPattern then (R_Error InvalidGpuDvfs, s)
      else (R_Success, patch_if (eristaGpuVmin C \<noteq> 0) ptr (eristaGpuVmin C) s))"

definition erista_GpuVoltThermals :: "customize \<Rightarrow> patcher_fn" where
  "erista_GpuVoltThermals C s ptr =
     (if words_at s (ptr - 3) 18 \<noteq> erista_gpuVoltThermalPattern then (R_Error InvalidGpuDvfs, s)
      else if eristaGpuVmin C = 0 then (R_Success, s)
      else (R_Success, patch_all [ptr, ptr + 3, ptr + 6, ptr + 9, ptr + 12] (eristaGpuVmin C) s))"

section \<open>Memory\<close>

definition erista_khz_list :: "u32 list" where
  "erista_khz_list = [40800, 68000, 102000, 204000, 408000, 665600, 800000, 1065600, 1331200, 1600000]"

definition erista_MTC_TABLE_REV :: u32 where "erista_MTC_TABLE_REV = 7"

text \<open>The match is the frequency of the last of ten tables that lie one after the other.\<close>

definition erista_table :: "int \<Rightarrow> nat \<Rightarrow> int" where
  "erista_table ptr k = ptr - 16 - int (erista_table_words * (9 - k))"

definition erista_tables_ok :: "pcv_state \<Rightarrow> int \<Rightarrow> bool" where
  "erista_tables_ok s ptr \<longleftrightarrow>
     list_all (\<lambda>k. nso s (erista_table ptr k + 16) = erista_khz_list ! k \<and>
       nso s (erista_table ptr k) = erista_MTC_TABLE_REV) [0..<10]"

text \<open>Duplicates and clocks within the stock range are cleared; the others each need a table.\<close>

fun count_shifts :: "u32 list \<Rightarrow> nat \<Rightarrow> u32 list \<times> nat" where
  "count_shifts (a # b # cs) shifts =
     (if a \<noteq> b \<and> a > EmcClkOSLimit
      then (case count_shifts (b # cs) (shifts + 1) of (cs', n) \<Rightarrow> (a # cs', n))
      else (case count_shifts (b # cs) shifts of (cs', n) \<Rightarrow> (0 # cs', n)))"
| "count_shifts cs shifts = (cs, shifts)"

definition erista_move :: "int \<Rightarrow> nat \<Rightarrow> pcv_state \<Rightarrow> pcv_state" where
  "erista_move ptr shifts s =
     patch_words (erista_table ptr 0)
       (words_at s (erista_table ptr shifts) (erista_table_words * (10 - shifts))) s"

definition erista_copy :: "int \<Rightarrow> nat \<Rightarrow> nat \<Rightarrow> pcv_state \<Rightarrow> pcv_state" where
  "erista_copy ptr shifts i s =
     patch_words (erista_table ptr (10 - i - 1))
       (words_at s (erista_table ptr (10 - shifts - 1)) erista_table_words) s"

definition erista_adjust :: "customize \<Rightarrow> int \<Rightarrow> pcv_state \<Rightarrow> pcv_state" where
  "erista_adjust C table s =
     patch_words table (erista_MemMtcTableAutoAdjust C (words_at s table erista_table_words)) s"

fun erista_fill :: "customize \<Rightarrow> int \<Rightarrow> nat \<Rightarrow> u32 list \<Rightarrow> pcv_state \<Rightarrow> pcv_state" where
  "erista_fill C ptr i [] s = s"
| "erista_fill C ptr i (c # cs) s =
     (if i = 0 then s
      else if c = 0 then erista_fill C ptr i cs s
      else erista_fill C ptr (i - 1) cs
             (erista_adjust C (erista_table ptr (10 - i))
               (patch_word (erista_table ptr (10 - i) + 16) c s)))"

definition erista_MemFreqMtcTable :: "customize \<Rightarrow> patcher_fn" where
  "erista_MemFreqMtcTable C s ptr =
     (let clocks = sort (erista_maxEmcClocks s);
          s1 = s\<lparr>erista_maxEmcClocks := clocks\<rparr>
      in if \<not> erista_tables_ok s1 ptr then (R_Error InvalidMtcTable, s1)
         else if GET_MAX_OF_ARR clocks \<le> EmcClkOSLimit then (R_Success, s1)
         else
           (case count_shifts clocks 1 of
              (clocks', shifts) \<Rightarrow>
                (let s2 = erista_move ptr shifts (s1\<lparr>erista_maxEmcClocks := clocks'\<rparr>);
                     s3 = fold (erista_copy ptr shifts) [0..<shifts] s2
                 in (R_Success, erista_fill C ptr shifts clocks' s3))))"

definition erista_MemFreqMax :: patcher_fn where
  "erista_MemFreqMax s ptr =
     (if GET_MAX_OF_ARR (erista_maxEmcClocks s) \<le> EmcClkOSLimit then (R_Success, s)
      else (R_Success, patch_word ptr (GET_MAX_OF_ARR (erista_maxEmcClocks s)) s))"

section \<open>All patches\<close>

definition erista_patches :: "customize \<Rightarrow> patcher_entry list" where
  "erista_patches C = [
     patcher ''CPU Freq Table'' (CpuFreqCvbTable False C) 1 (Value (last_freq erista_CpuCvbTableDefault)),
     patcher ''CPU Volt DVFS'' (erista_CpuVoltDvfs C) 1 (Value 825),
     patcher ''CPU Volt Thermals'' (erista_CpuVoltThermals C) 1 (Value 825),
     patcher ''CPU Volt Dfll'' (erista_CpuVoltDfll C) 1 (Value 0xFFEAD0FF),
     patcher ''GPU Volt DVFS'' (erista_GpuVoltDVFS C) 1 (Value 810),
     patcher ''GPU Volt Thermals'' (erista_GpuVoltThermals C) 1 (Value 810),
     patcher ''GPU Freq Table'' (GpuFreqCvbTable False C) 1 (Value (last_freq erista_GpuCvbTableDefault)),
     patcher ''GPU Freq Asm'' (GpuFreqMaxAsm False C) 2 (Pattern GpuMaxClockPatternFn),
     patcher ''GPU PLL Max'' GpuFreqPllMax 1 (Value 921600000),
     patcher ''MEM Freq Mtc'' (erista_MemFreqMtcTable C) 0 (Value EmcClkOSLimit),
     patcher ''MEM Freq Max'' erista_MemFreqMax 0 (Value EmcClkOSLimit),
     patcher ''MEM Freq PLLM'' MemFreqPllmLimit 2 (Value 1866000000),
     patcher ''MEM Volt'' (MemVoltHandler C) 2 (Value 1125000)]"

definition erista_Patch :: "customize \<Rightarrow> nat \<Rightarrow> pcv_state \<Rightarrow> string + pcv_state" where
  "erista_Patch C nso_words s =
     run_patches nso_words erista_table_words (erista_patches C) s"

text \<open>
  The entry of \<open>pcv.cpp\<close>: the check of the settings, then the patches for the SoC. A failed check
  stops the boot; \<open>None\<close> is as for \<open>mariko_Patch\<close>.
\<close>

definition pcv_Patch ::
  "bool \<Rightarrow> pcv_env \<Rightarrow> customize \<Rightarrow> nat \<Rightarrow> pcv_state \<Rightarrow>
     (string + pcv_state) option" where
  "pcv_Patch isMariko env C nso_words s =
     (if SafetyCheck C \<noteq> None then Some (Inl ''Validation FAIL'')
      else if isMariko then mariko_Patch env C nso_words s
      else Some (erista_Patch C nso_words s))"

section \<open>The memory clocks\<close>

lemma count_shifts_3:
  "count_shifts [a, b, c] 1 =
     ([if a \<noteq> b \<and> a > EmcClkOSLimit then a else 0, if b \<noteq> c \<and> b > EmcClkOSLimit then b else 0, c],
      1 + (if a \<noteq> b \<and> a > EmcClkOSLimit then 1 else 0) + (if b \<noteq> c \<and> b > EmcClkOSLimit then 1 else 0))"
  by simp

text \<open>The frequency of the table with index \<open>k\<close>.\<close>

definition rate_at :: "int \<Rightarrow> pcv_state \<Rightarrow> nat \<Rightarrow> u32" where
  "rate_at ptr s k = nso s (erista_table ptr k + 16)"

lemma erista_table_eq: "k \<le> 9 \<Longrightarrow> erista_table ptr k = ptr - 11104 + 1232 * int k"
  by (simp add: erista_table_def erista_table_words_def algebra_simps)

lemma rate_patch_word:
  "j \<le> 9 \<Longrightarrow> k \<le> 9 \<Longrightarrow> rate_at ptr (patch_word (erista_table ptr j + 16) c s) k = (if k = j then c else rate_at ptr s k)"
  by (auto simp: rate_at_def erista_table_eq)

text \<open>Writing \<open>m\<close> tables from table \<open>j\<close> on.\<close>

lemma rate_patch_tables:
  assumes "j \<le> 9" "k \<le> 9" "length ws = 1232 * m"
  shows "rate_at ptr (patch_words (erista_table ptr j) ws s) k =
    (if j \<le> k \<and> k < j + m then ws ! (1232 * (k - j) + 16) else rate_at ptr s k)"
proof (cases "j \<le> k \<and> k < j + m")
  case True
  then have "1232 * (k - j) + 16 < length ws" unfolding assms(3) by linarith
  moreover have "erista_table ptr k + 16 = erista_table ptr j + int (1232 * (k - j) + 16)"
    using True by (simp add: erista_table_eq [OF assms(1)] erista_table_eq [OF assms(2)] of_nat_diff)
  ultimately show ?thesis
    using True unfolding rate_at_def by (simp only: nso_patch_words_inside if_True simp_thms)
next
  case False
  then have "int k < int j \<or> int j + int m \<le> int k" by linarith
  then have "erista_table ptr k + 16 < erista_table ptr j \<or>
      erista_table ptr j + int (length ws) \<le> erista_table ptr k + 16"
    unfolding assms(3) by (auto simp: erista_table_eq [OF assms(1)] erista_table_eq [OF assms(2)])
  then show ?thesis unfolding rate_at_def if_not_P [OF False] by (rule nso_patch_words_outside)
qed

lemma rate_adjust:
  assumes "j \<le> 9" "k \<le> 9"
  shows "rate_at ptr (erista_adjust C (erista_table ptr j) s) k = rate_at ptr s k"
proof -
  have "rate_at ptr (erista_adjust C (erista_table ptr j) s) k =
      (if j \<le> k \<and> k < j + 1
       then erista_MemMtcTableAutoAdjust C (words_at s (erista_table ptr j) erista_table_words) ! (1232 * (k - j) + 16)
       else rate_at ptr s k)"
    unfolding erista_adjust_def by (rule rate_patch_tables [OF assms(1,2)]) (simp add: erista_table_words_def)
  moreover have "j \<le> k \<and> k < j + 1 \<longleftrightarrow> k = j" by auto
  ultimately show ?thesis by (simp add: erista_adjust_keeps erista_table_words_def rate_at_def)
qed

lemma rate_fill:
  "length (filter (\<lambda>c. c \<noteq> 0) cs) \<le> i \<Longrightarrow> i \<le> 9 \<Longrightarrow> k \<le> 9 \<Longrightarrow>
    rate_at ptr (erista_fill C ptr i cs s) k =
      (if 10 - i \<le> k \<and> k < 10 - i + length (filter (\<lambda>c. c \<noteq> 0) cs)
       then filter (\<lambda>c. c \<noteq> 0) cs ! (k - (10 - i)) else rate_at ptr s k)"
proof (induction cs arbitrary: i s)
  case (Cons c cs)
  show ?case
  proof (cases "i = 0 \<or> c = 0")
    case True
    with Cons show ?thesis by (cases "i = 0") auto
  next
    case False
    let ?t = "erista_table ptr (10 - i)" and ?nz = "filter (\<lambda>c. c \<noteq> 0) cs"
    let ?s = "erista_adjust C ?t (patch_word (?t + 16) c s)"
    have j: "10 - i \<le> 9" using False by auto
    have s: "rate_at ptr ?s k = (if k = 10 - i then c else rate_at ptr s k)"
      using j Cons.prems(3) by (simp add: rate_adjust [OF j Cons.prems(3)] rate_patch_word)
    have IH: "rate_at ptr (erista_fill C ptr (i - 1) cs ?s) k =
        (if 10 - (i - 1) \<le> k \<and> k < 10 - (i - 1) + length ?nz then ?nz ! (k - (10 - (i - 1))) else rate_at ptr ?s k)"
      using False Cons.prems by (intro Cons.IH) auto
    have i: "10 - (i - 1) = Suc (10 - i)" using False Cons.prems(2) by simp
    have fill: "erista_fill C ptr i (c # cs) s = erista_fill C ptr (i - 1) cs ?s" using False by simp
    show ?thesis unfolding fill IH s i using False by (auto simp: nth_Cons')
  qed
qed auto

lemma rate_move:
  assumes "shifts \<le> 9" "k < 10 - shifts"
  shows "rate_at ptr (erista_move ptr shifts s) k = rate_at ptr s (k + shifts)"
proof -
  let ?ws = "words_at s (erista_table ptr shifts) (erista_table_words * (10 - shifts))"
  have "1232 * k + 16 < erista_table_words * (10 - shifts)"
  proof -
    have "1232 * k + 16 < 1232 * Suc k" by simp
    also have "\<dots> \<le> 1232 * (10 - shifts)" using assms(2) by (intro mult_le_mono2) simp
    finally show ?thesis by (simp add: erista_table_words_def)
  qed
  then have "?ws ! (1232 * k + 16) = rate_at ptr s (k + shifts)"
    using assms by (simp add: rate_at_def erista_table_eq algebra_simps)
  moreover have "rate_at ptr (patch_words (erista_table ptr 0) ?ws s) k =
      (if 0 \<le> k \<and> k < 0 + (10 - shifts) then ?ws ! (1232 * (k - 0) + 16) else rate_at ptr s k)"
    by (rule rate_patch_tables) (use assms in \<open>simp_all add: erista_table_words_def\<close>)
  ultimately show ?thesis using assms by (simp add: erista_move_def)
qed

text \<open>The copies go to the tables that are filled afterwards.\<close>

lemma rate_copies:
  assumes "shifts \<le> 9" "k < 10 - shifts"
  shows "n \<le> shifts \<Longrightarrow> rate_at ptr (fold (erista_copy ptr shifts) [0..<n] s) k = rate_at ptr s k"
proof (induction n)
  case (Suc n)
  let ?s = "fold (erista_copy ptr shifts) [0..<n] s"
  have "rate_at ptr (erista_copy ptr shifts n ?s) k = (if 9 - n \<le> k \<and> k < 9 - n + 1
      then words_at ?s (erista_table ptr (10 - shifts - 1)) erista_table_words ! (1232 * (k - (9 - n)) + 16)
      else rate_at ptr ?s k)"
    unfolding erista_copy_def diff_diff_left
    by (subst rate_patch_tables [where m = 1]) (use assms in \<open>simp_all add: erista_table_words_def\<close>)
  then show ?case using Suc assms by auto
qed simp
text \<open>The clocks that get a table: above the stock range, once each, in order.\<close>

definition oc_clocks :: "u32 list \<Rightarrow> u32 list" where
  "oc_clocks cs = sort (remdups (filter (\<lambda>c. c > EmcClkOSLimit) cs))"

lemma strict_list_unique: "sorted_wrt (<) (xs :: u32 list) \<Longrightarrow> sorted_wrt (<) ys \<Longrightarrow> set xs = set ys \<Longrightarrow> xs = ys"
  by (simp add: strict_sorted_iff sorted_distinct_set_unique)

lemma oc_clocks_strict: "sorted_wrt (<) (oc_clocks cs)" "set (oc_clocks cs) = {c \<in> set cs. c > EmcClkOSLimit}"
  by (auto simp: oc_clocks_def strict_sorted_iff)

lemma count_shifts_clocks:
  assumes "sorted [a, b, c]" "c > EmcClkOSLimit" "count_shifts [a, b, c] 1 = (cs, shifts)"
  shows "filter (\<lambda>c. c \<noteq> 0) cs = oc_clocks [a, b, c]" and "shifts = length (oc_clocks [a, b, c])"
    and "shifts \<le> 3"
proof -
  have pos: "x \<noteq> 0" if "x > EmcClkOSLimit" for x using that by (auto simp: EmcClkOSLimit_def)
  have cs: "cs = [if a \<noteq> b \<and> a > EmcClkOSLimit then a else 0, if b \<noteq> c \<and> b > EmcClkOSLimit then b else 0, c]"
    and sh: "shifts = 1 + (if a \<noteq> b \<and> a > EmcClkOSLimit then 1 else 0) + (if b \<noteq> c \<and> b > EmcClkOSLimit then 1 else 0)"
    using assms(3) unfolding count_shifts_3 by simp_all
  have "sorted_wrt (<) (filter (\<lambda>c. c \<noteq> 0) cs) \<and> set (filter (\<lambda>c. c \<noteq> 0) cs) = {x \<in> set [a, b, c]. x > EmcClkOSLimit}"
    using assms(1,2) pos unfolding cs by (auto simp: le_less)
  then show nz: "filter (\<lambda>c. c \<noteq> 0) cs = oc_clocks [a, b, c]"
    using oc_clocks_strict [of "[a, b, c]"] by (intro strict_list_unique) simp_all
  show "shifts = length (oc_clocks [a, b, c])" unfolding nz [symmetric] cs sh using assms(2) pos by auto
  show "shifts \<le> 3" unfolding sh by simp
qed

lemma max_of_sorted: "sorted [a, b, c :: u32] \<Longrightarrow> GET_MAX_OF_ARR [a, b, c] = c"
  by (auto simp: GET_MAX_OF_ARR_def max_def)

text \<open>
  C7. The tables for a clock above 1600 MHz: the lowest stock tables make room, and the ten tables hold
  the remaining stock frequencies followed by the distinct chosen clocks above 1600 MHz, in strictly
  increasing order, however the three clocks are given.
\<close>

theorem erista_memory_clocks:
  assumes run: "erista_MemFreqMtcTable C s ptr = (R_Success, s')"
    and cs: "length (erista_maxEmcClocks s) = 3" and oc: "list_ex (\<lambda>c. c > EmcClkOSLimit) (erista_maxEmcClocks s)"
   shows "map (rate_at ptr s') [0..<10] =
      drop (length (oc_clocks (erista_maxEmcClocks s))) erista_khz_list @ oc_clocks (erista_maxEmcClocks s) \<and>
    sorted_wrt (<) (map (rate_at ptr s') [0..<10])"
proof -
  let ?oc = "oc_clocks (erista_maxEmcClocks s)"
  have "length (sort (erista_maxEmcClocks s)) = 3" using cs by simp
  then obtain a b c where srt: "sort (erista_maxEmcClocks s) = [a, b, c]"
    by (auto simp: length_Suc_conv numeral_3_eq_3 simp del: length_sort)
  have s3: "sorted [a, b, c]" using sorted_sort [of "erista_maxEmcClocks s"] srt by simp
  have set3: "set [a, b, c] = set (erista_maxEmcClocks s)" unfolding srt [symmetric] by simp
  have oc3: "oc_clocks [a, b, c] = ?oc"
    by (rule strict_list_unique [OF oc_clocks_strict(1) oc_clocks_strict(1)]) (simp only: oc_clocks_strict(2) set3)
  obtain x where "x \<in> {a, b, c}" "x > EmcClkOSLimit" using oc set3 by (auto simp: list_ex_iff)
  then have c: "c > EmcClkOSLimit" using s3 by (auto elim: less_le_trans)
  obtain cs' shifts where sh: "count_shifts [a, b, c] 1 = (cs', shifts)" by fastforce
  note k = count_shifts_clocks [OF s3 c sh, unfolded oc3]
  let ?s1 = "s\<lparr>erista_maxEmcClocks := [a, b, c]\<rparr>"
  let ?s2 = "erista_move ptr shifts (s\<lparr>erista_maxEmcClocks := cs'\<rparr>)"
  let ?s3 = "fold (erista_copy ptr shifts) [0..<shifts] ?s2"
  have nc: "\<not> c \<le> EmcClkOSLimit" using c by simp
  have ok: "erista_tables_ok ?s1 ptr" and s': "s' = erista_fill C ptr shifts cs' ?s3"
    using run unfolding erista_MemFreqMtcTable_def Let_def srt max_of_sorted [OF s3] if_not_P [OF nc] sh
    by (simp_all split: if_splits)
  have stock: "rate_at ptr s k = erista_khz_list ! k" if "k < 10" for k
    using ok that by (auto simp: erista_tables_ok_def rate_at_def list_all_iff)
  have rates: "rate_at ptr s' k = (if 10 - shifts \<le> k then ?oc ! (k - (10 - shifts)) else erista_khz_list ! (k + shifts))"
    if "k < 10" for k
  proof -
    have "rate_at ptr ?s3 k = erista_khz_list ! (k + shifts)" if "\<not> 10 - shifts \<le> k"
      using rate_copies [of shifts k shifts] rate_move [of shifts k] stock [of "k + shifts"] that k(3)
      by (simp add: rate_at_def)
    then show ?thesis
      unfolding s' using rate_fill [of cs' shifts k ptr C ?s3] \<open>k < 10\<close> k
      by auto
  qed
  have ten: "length erista_khz_list = 10" by (simp add: erista_khz_list_def)
  have all: "map (rate_at ptr s') [0..<10] = drop (length ?oc) erista_khz_list @ ?oc"
    using rates k(2,3) ten by (intro nth_equalityI) (auto simp: nth_append add.commute)
  have "sorted_wrt (<) (drop (length ?oc) erista_khz_list)"
    by (rule sorted_wrt_drop) (simp add: erista_khz_list_def)
  moreover have "x \<le> 1600000" if "x \<in> set (drop (length ?oc) erista_khz_list)" for x
    using in_set_dropD [OF that] by (auto simp: erista_khz_list_def)
  ultimately have "sorted_wrt (<) (drop (length ?oc) erista_khz_list @ ?oc)"
    using oc_clocks_strict [of "erista_maxEmcClocks s"]
    by (fastforce simp: sorted_wrt_append EmcClkOSLimit_def intro: le_less_trans)
  then show ?thesis unfolding all by simp
qed

definition erista_image :: "u32 list \<Rightarrow> pcv_state" where
  "erista_image cs = (an_image (\<lambda>a. if a mod 1232 = 16 then erista_khz_list ! nat (a div 1232) else 7))
     \<lparr>erista_maxEmcClocks := cs\<rparr>"

lemma erista_image: "erista_tables_ok (erista_image cs) 11104"
  by (simp add: erista_tables_ok_def erista_image_def an_image_def erista_table_def erista_table_words_def
    erista_khz_list_def erista_MTC_TABLE_REV_def upt_conv_Cons)

lemma erista_memory_clocks_witness:
  "\<exists>s'. erista_MemFreqMtcTable C_default (erista_image [1996800, 1600000, 1862400]) 11104 = (R_Success, s') \<and>
    map (rate_at 11104 s') [0..<10] =
      [102000, 204000, 408000, 665600, 800000, 1065600, 1331200, 1600000, 1862400, 1996800]"
proof -
  let ?s = "erista_image [1996800, 1600000, 1862400]"
  have cs: "erista_maxEmcClocks ?s = [1996800, 1600000, 1862400]" by (simp add: erista_image_def)
  have upd: "?s\<lparr>erista_maxEmcClocks := cs\<rparr> = erista_image cs" for cs by (simp add: erista_image_def)
  have "\<exists>s'. erista_MemFreqMtcTable C_default ?s 11104 = (R_Success, s')"
    unfolding erista_MemFreqMtcTable_def Let_def upd by (simp add: erista_image split: prod.split)
  then obtain s' where run: "erista_MemFreqMtcTable C_default ?s 11104 = (R_Success, s')" by blast
  have "map (rate_at 11104 s') [0..<10] =
      drop (length (oc_clocks (erista_maxEmcClocks ?s))) erista_khz_list @ oc_clocks (erista_maxEmcClocks ?s)"
    using erista_memory_clocks [OF run] by (simp add: cs EmcClkOSLimit_def)
  then show ?thesis using run by (simp add: cs oc_clocks_def erista_khz_list_def EmcClkOSLimit_def)
qed

text \<open>
  The array is changed in place, also by a match that is not a table: its length, its maximum and the
  clocks that get a table stay, so every group of tables of the image gets the same.
\<close>

lemma fill_keeps_clocks: "erista_maxEmcClocks (erista_fill C ptr i cs s) = erista_maxEmcClocks s"
  by (induction cs arbitrary: i s) (auto simp: erista_adjust_def patch_words_def patch_word_def)

lemma copies_keep_clocks: "erista_maxEmcClocks (fold (erista_copy ptr n) ks s) = erista_maxEmcClocks s"
  by (induction ks arbitrary: s) (auto simp: erista_copy_def patch_words_def)

lemma max_of_arr: "GET_MAX_OF_ARR [a, b, c] = max (max a b) (c :: u32)"
  by (simp add: GET_MAX_OF_ARR_def)

lemma erista_clocks_kept:
  assumes "erista_MemFreqMtcTable C s ptr = (r, s')" "length (erista_maxEmcClocks s) = 3"
  shows "length (erista_maxEmcClocks s') = 3 \<and> oc_clocks (erista_maxEmcClocks s') = oc_clocks (erista_maxEmcClocks s)"
proof -
  have "length (sort (erista_maxEmcClocks s)) = 3" using assms(2) by simp
  then obtain a b c where srt: "sort (erista_maxEmcClocks s) = [a, b, c]"
    by (auto simp: length_Suc_conv numeral_3_eq_3 simp del: length_sort)
  have s3: "sorted [a, b, c]" using sorted_sort [of "erista_maxEmcClocks s"] srt by simp
  have set3: "set [a, b, c] = set (erista_maxEmcClocks s)" unfolding srt [symmetric] by simp
  have oc: "oc_clocks cs = oc_clocks (erista_maxEmcClocks s)"
    if "{x \<in> set cs. x > EmcClkOSLimit} = {x \<in> set [a, b, c]. x > EmcClkOSLimit}" for cs
    by (rule strict_list_unique [OF oc_clocks_strict(1) oc_clocks_strict(1)])
      (use that in \<open>simp only: oc_clocks_strict(2) set3\<close>)
  obtain cs' shifts where sh: "count_shifts [a, b, c] 1 = (cs', shifts)" by fastforce
  consider "erista_maxEmcClocks s' = [a, b, c]" | "c > EmcClkOSLimit" "erista_maxEmcClocks s' = cs'"
    using assms(1) unfolding erista_MemFreqMtcTable_def Let_def srt max_of_sorted [OF s3] sh
    by (auto simp: fill_keeps_clocks copies_keep_clocks erista_move_def patch_words_def not_le split: if_splits)
  then show ?thesis
  proof cases
    case 1
    then show ?thesis using oc [of "[a, b, c]"] by simp
  next
    case 2
    have pos: "x \<noteq> 0" if "x > EmcClkOSLimit" for x using that by (auto simp: EmcClkOSLimit_def)
    have "{x \<in> set cs'. x > EmcClkOSLimit} = {x \<in> set (filter (\<lambda>c. c \<noteq> 0) cs'). x > EmcClkOSLimit}"
      using pos by auto
    also have "\<dots> = {x \<in> set [a, b, c]. x > EmcClkOSLimit}"
      unfolding count_shifts_clocks(1) [OF s3 2(1) sh] oc_clocks_strict(2) by auto
    finally have "oc_clocks cs' = oc_clocks (erista_maxEmcClocks s)" by (rule oc)
    moreover have "length cs' = 3" using arg_cong [where f = "\<lambda>x. length (fst x)", OF sh] unfolding count_shifts_3 by simp
    ultimately show ?thesis using 2(2) by simp
  qed
qed

section \<open>Where the patches write\<close>

lemmas erista_defs = erista_CpuVoltDvfs_def erista_CpuVoltThermals_def erista_CpuVoltDfll_def
  erista_GpuVoltDVFS_def erista_GpuVoltThermals_def erista_MemFreqMax_def

interpretation e_cpu_dvfs: windowed "erista_CpuVoltDvfs C" "-2" 5 for C
  by unfold_locales (auto simp: erista_defs nso_patch_if split: if_splits)

interpretation e_cpu_thermals: windowed "erista_CpuVoltThermals C" "-2" 7 for C
  by unfold_locales (auto simp: erista_defs Let_def nso_patch_all_outside split: if_splits)

lemma erista_dfll_fields: "list_all (\<lambda>(uv, fs). list_all (\<lambda>(k, v). 0 \<le> k \<and> k \<le> 3) fs) erista_dfll"
  by (simp add: erista_dfll_def)

interpretation e_cpu_dfll: windowed "erista_CpuVoltDfll C" 0 3 for C
  by unfold_locales (auto simp: erista_defs nso_patch_level_outside [OF erista_dfll_fields] split: if_splits)

interpretation e_gpu_dvfs: windowed "erista_GpuVoltDVFS C" 0 0 for C
  by unfold_locales (auto simp: erista_defs nso_patch_if split: if_splits)

interpretation e_gpu_thermals: windowed "erista_GpuVoltThermals C" 0 12 for C
  by unfold_locales (auto simp: erista_defs nso_patch_all_outside split: if_splits)

interpretation e_mem_max: windowed erista_MemFreqMax 0 0
  by unfold_locales (auto simp: erista_defs split: if_splits)

text \<open>The memory patch stays within the ten tables.\<close>

lemma erista_table_words_outside:
  assumes "j \<le> 9" "length ws = 1232 * m" "j + m \<le> 10" "a < ptr - 11104 \<or> ptr + 1215 < a"
  shows "nso (patch_words (erista_table ptr j) ws s) a = nso s a"
proof (rule nso_patch_words_outside)
  show "a < erista_table ptr j \<or> erista_table ptr j + int (length ws) \<le> a"
    using assms unfolding erista_table_eq [OF assms(1)] assms(2) by auto
qed

lemma erista_fill_outside:
  "a < ptr - 11104 \<or> ptr + 1215 < a \<Longrightarrow> nso (erista_fill C ptr i cs s) a = nso s a"
proof (induction cs arbitrary: i s)
  case (Cons c cs)
  show ?case
  proof (cases "i = 0 \<or> c = 0")
    case True
    with Cons show ?thesis by (cases "i = 0") auto
  next
    case False
    then have j: "10 - i \<le> 9" by auto
    have "nso (erista_adjust C (erista_table ptr (10 - i)) s1) a = nso s1 a" for s1
      unfolding erista_adjust_def
      by (rule erista_table_words_outside [OF j, of _ 1])
        (use Cons.prems False in \<open>auto simp: erista_table_words_def\<close>)
    moreover have "a \<noteq> erista_table ptr (10 - i) + 16"
      using Cons.prems(1) j unfolding erista_table_eq [OF j] by auto
    ultimately show ?thesis using Cons False by simp
  qed
qed simp

lemma erista_copies_outside:
  "a < ptr - 11104 \<or> ptr + 1215 < a \<Longrightarrow> nso (fold (erista_copy ptr shifts) [0..<n] s) a = nso s a"
proof (induction n)
  case (Suc n)
  have "nso (erista_copy ptr shifts n s1) a = nso s1 a" for s1
    unfolding erista_copy_def
    by (rule erista_table_words_outside [of _ _ 1]) (use Suc.prems in \<open>auto simp: erista_table_words_def\<close>)
  then show ?case using Suc by simp
qed simp

interpretation e_mem_mtc: windowed "erista_MemFreqMtcTable C" "-11104" 1215 for C
proof unfold_locales
  fix s p r s' a
  assume run: "erista_MemFreqMtcTable C s p = (r, s')" and a: "a < p + -11104 \<or> p + 1215 < a"
  then have a': "a < p - 11104 \<or> p + 1215 < a" by simp
  obtain cs shifts where sh: "count_shifts (sort (erista_maxEmcClocks s)) 1 = (cs, shifts)" by fastforce
  let ?s2 = "erista_move p shifts (s\<lparr>erista_maxEmcClocks := cs\<rparr>)"
  have "nso ?s2 a = nso s a"
    unfolding erista_move_def
    by (subst erista_table_words_outside [OF _ _ _ a', where m = "10 - shifts"])
      (auto simp: erista_table_words_def)
  moreover have "nso (erista_fill C p shifts cs (fold (erista_copy p shifts) [0..<shifts] ?s2)) a = nso ?s2 a"
    using erista_fill_outside [OF a'] erista_copies_outside [OF a'] by simp
  ultimately show "nso s' a = nso s a"
    using run unfolding erista_MemFreqMtcTable_def Let_def sh by (auto split: if_splits)
qed

definition erista_windows :: "(string \<times> int \<times> int) list" where
  "erista_windows = [
     (''CPU Freq Table'', -210, 223), (''CPU Volt DVFS'', -2, 5), (''CPU Volt Thermals'', -2, 7),
     (''CPU Volt Dfll'', 0, 3), (''GPU Volt DVFS'', 0, 0), (''GPU Volt Thermals'', 0, 12),
     (''GPU Freq Table'', -154, 279), (''GPU Freq Asm'', 0, 1), (''GPU PLL Max'', 0, 0),
     (''MEM Freq Mtc'', -11104, 1215), (''MEM Freq Max'', 0, 0), (''MEM Freq PLLM'', 0, 6),
     (''MEM Volt'', 0, 0)]"

lemma erista_in_windows:
  assumes "wf_customize C"
  shows "in_windows (window_of erista_windows) (erista_patches C)"
  unfolding in_windows_def erista_patches_def
  by (simp add: window_of_def erista_windows_def tables_windowed [OF assms]
    e_cpu_dvfs.windowed_axioms e_cpu_thermals.windowed_axioms e_cpu_dfll.windowed_axioms
    e_gpu_dvfs.windowed_axioms e_gpu_thermals.windowed_axioms gpu_asm.windowed_axioms
    gpu_pll_max.windowed_axioms e_mem_mtc.windowed_axioms e_mem_max.windowed_axioms
    mem_pllm.windowed_axioms mem_volt.windowed_axioms)

text \<open>
  The patches for Erista, too, change words only within their windows.
\<close>

lemma erista_writes_in_windows:
  assumes "wf_customize C"
  shows "nso (snd (search_loop n 0 (erista_patches C) s)) a = nso s a \<or>
    (\<exists>q. 0 \<le> q \<and> q < int n \<and> hit (window_of erista_windows) (erista_patches C) q a)"
proof -
  obtain es' s' where run: "search_loop n 0 (erista_patches C) s = (es', s')" by fastforce
  show ?thesis using search_loop_window [OF erista_in_windows [OF assms] run, of a] unfolding run by force
qed

text \<open>With an undervolt level the high minimum voltage becomes \<open>eristaCpuVmin\<close> even where that is 0.\<close>

lemma erista_uv_writes_vmin:
  assumes "erista_CpuVoltDvfs C s ptr = (R_Success, s')" "eristaCpuUV C \<noteq> 0"
  shows "nso s' (ptr - 2) = eristaCpuVmin C"
  using assms by (auto simp: erista_CpuVoltDvfs_def nso_patch_if split: if_splits)

end
