(* ===== verification/Ptm.thy ===== *)
theory Ptm
  imports Pcv_Common
begin

text \<open>
  The patches for the performance table, \<open>oc/ptm/ptm.cpp\<close> and \<open>oc/ptm/ptm.hpp\<close> of the loader: the table
  is found by its first entry, then the boost clock of the CPU and, on Mariko, the memory clock of its
  entries are set. A table that is not the known one stops the boot.

  An entry has eight words: \<open>conf_id\<close> at 0, the pairs of CPU, GPU and memory frequencies at 1 to 6.
\<close>

definition entryCnt :: nat where "entryCnt = 16"
definition cpuPtmDefault :: u32 where "cpuPtmDefault = 1020000000"
definition cpuPtmDevOC :: u32 where "cpuPtmDevOC = 1224000000"
definition cpuPtmBoost :: u32 where "cpuPtmBoost = 1785000000"
definition memPtmLimit :: u32 where "memPtmLimit = 1600000000"
definition memPtmAlt :: u32 where "memPtmAlt = 1331200000"
definition memPtmClamp :: u32 where "memPtmClamp = 1065600000"

lemmas ptm_clocks = cpuPtmDefault_def cpuPtmDevOC_def cpuPtmBoost_def memPtmLimit_def memPtmAlt_def
  memPtmClamp_def

definition ptm_entry :: "int \<Rightarrow> nat \<Rightarrow> int" where
  "ptm_entry confTable i = confTable + 8 * int i"

definition CpuPtmBoost :: "bool \<Rightarrow> customize \<Rightarrow> patcher_fn" where
  "CpuPtmBoost isMariko C s e =
     (if eristaCpuBoostClock C = 0 \<or> marikoCpuBoostClock C = 0 then (R_Success, s)
      else
        (let new = (if isMariko then marikoCpuBoostClock C * 1000 else eristaCpuBoostClock C * 1000)
         in (R_Success, patch_word (e + 2) new (patch_word (e + 1) new s))))"

definition MemPtm :: patcher_fn where
  "MemPtm s e = (R_Success, patch_word (e + 6) memPtmLimit (patch_word (e + 5) memPtmLimit s))"

definition PtmEntryIsValid :: "pcv_state \<Rightarrow> int \<Rightarrow> bool" where
  "PtmEntryIsValid s e \<longleftrightarrow> nso s (e + 1) = nso s (e + 2) \<and> nso s (e + 3) = nso s (e + 4) \<and>
     nso s (e + 5) = nso s (e + 6)"

definition PtmTablePatternFn :: "pcv_state \<Rightarrow> int \<Rightarrow> bool" where
  "PtmTablePatternFn s p \<longleftrightarrow> PtmEntryIsValid s p \<and> nso s (p + 1) = cpuPtmDefault"

text \<open>The two patches and the image, through the entries; a crash is its message.\<close>

type_synonym ptm_run = "patcher_entry \<times> patcher_entry \<times> pcv_state"

definition ptm_step :: "bool \<Rightarrow> int \<Rightarrow> ptm_run \<Rightarrow> string + ptm_run" where
  "ptm_step isMariko e run =
     (case run of (cpu, mem, s) \<Rightarrow>
        if \<not> PtmEntryIsValid s e then Inl ''Invalid ptm confTable entry''
        else
          (let f = nso s (e + 1) in
           if f \<noteq> cpuPtmBoost \<and> f \<noteq> cpuPtmDefault \<and> f \<noteq> cpuPtmDevOC then Inl ''Unknown CPU Freq''
           else
             (let (cpu', s1) = (if f = cpuPtmBoost then snd (Apply cpu s e) else (cpu, s));
                  m = nso s1 (e + 5)
              in if m \<noteq> memPtmLimit \<and> m \<noteq> memPtmAlt \<and> m \<noteq> memPtmClamp then Inl ''Unknown MEM Freq''
                 else
                   (let (mem', s2) = (if isMariko then snd (Apply mem s1 e) else (mem, s1))
                    in Inr (cpu', mem', s2)))))"

fun ptm_loop :: "bool \<Rightarrow> int \<Rightarrow> nat list \<Rightarrow> ptm_run \<Rightarrow> string + ptm_run" where
  "ptm_loop isMariko confTable [] run = Inr run"
| "ptm_loop isMariko confTable (i # is) run =
     (case ptm_step isMariko (ptm_entry confTable i) run of
        Inl msg \<Rightarrow> Inl msg
      | Inr run' \<Rightarrow> ptm_loop isMariko confTable is run')"

definition ptm_Patch :: "bool \<Rightarrow> customize \<Rightarrow> nat \<Rightarrow> pcv_state \<Rightarrow> string + pcv_state" where
  "ptm_Patch isMariko C nso_words s =
     (case find (\<lambda>p. PtmTablePatternFn s (int p)) [0..<search_steps nso_words (8 * entryCnt)] of
        None \<Rightarrow> Inl ''confTable not found!''
      | Some p \<Rightarrow>
          (case ptm_loop isMariko (int p) [0..<entryCnt]
                  (patcher ''CPU Ptm Boost'' (CpuPtmBoost isMariko C) 2 (Value 0),
                   patcher ''MEM Ptm'' MemPtm 16 (Value 0), s) of
             Inl msg \<Rightarrow> Inl msg
           | Inr (cpu, mem, s') \<Rightarrow>
               if \<not> R_SUCCEEDED (CheckResult cpu) then Inl (pe_description cpu)
               else if isMariko \<and> \<not> R_SUCCEEDED (CheckResult mem) then Inl (pe_description mem)
               else Inr s'))"

section \<open>What a boot leaves in the table\<close>

text \<open>One word of an entry after the patches, from the entry before them.\<close>

definition ptm_word :: "bool \<Rightarrow> customize \<Rightarrow> (nat \<Rightarrow> u32) \<Rightarrow> nat \<Rightarrow> u32" where
  "ptm_word isMariko C e k =
     (if k \<in> {1, 2} \<and> e 1 = cpuPtmBoost \<and> eristaCpuBoostClock C \<noteq> 0 \<and> marikoCpuBoostClock C \<noteq> 0
      then (if isMariko then marikoCpuBoostClock C else eristaCpuBoostClock C) * 1000
      else if k \<in> {5, 6} \<and> isMariko then memPtmLimit else e k)"

lemma nso_boost: "nso (snd (CpuPtmBoost m C s e)) a =
  (if (a = e + 1 \<or> a = e + 2) \<and> eristaCpuBoostClock C \<noteq> 0 \<and> marikoCpuBoostClock C \<noteq> 0
   then (if m then marikoCpuBoostClock C else eristaCpuBoostClock C) * 1000 else nso s a)"
  by (simp add: CpuPtmBoost_def Let_def)

lemma nso_mem: "nso (snd (MemPtm s e)) a = (if a = e + 5 \<or> a = e + 6 then memPtmLimit else nso s a)"
  by (simp add: MemPtm_def)

lemma Apply_always:
  assumes "fst (pe_patcher_fn c s e) = R_Success"
  shows "Apply c s e = (R_Success, c\<lparr>pe_patched_count := pe_patched_count c + 1\<rparr>, snd (pe_patcher_fn c s e))"
  using assms by (cases "pe_patcher_fn c s e") (simp add: Apply_def)

lemma ptm_step_Inr:
  assumes "ptm_step m e (cpu, mem, s) = Inr (cpu', mem', s')"
    and fns: "pe_patcher_fn cpu = CpuPtmBoost m C" "pe_patcher_fn mem = MemPtm"
  shows "PtmEntryIsValid s e"
    and "cpu' = (if nso s (e + 1) = cpuPtmBoost then cpu\<lparr>pe_patched_count := pe_patched_count cpu + 1\<rparr> else cpu)"
    and "mem' = (if m then mem\<lparr>pe_patched_count := pe_patched_count mem + 1\<rparr> else mem)"
    and "s' = (let s1 = if nso s (e + 1) = cpuPtmBoost then snd (CpuPtmBoost m C s e) else s
      in if m then snd (MemPtm s1 e) else s1)"
proof -
  have ap: "Apply cpu s e = (R_Success, cpu\<lparr>pe_patched_count := pe_patched_count cpu + 1\<rparr>, snd (CpuPtmBoost m C s e))"
    and am: "Apply mem t e = (R_Success, mem\<lparr>pe_patched_count := pe_patched_count mem + 1\<rparr>, snd (MemPtm t e))" for t
    by (simp_all add: Apply_always fns CpuPtmBoost_def MemPtm_def Let_def)
  note run = assms(1) [unfolded ptm_step_def prod.case Let_def]
  show "PtmEntryIsValid s e"
    and "cpu' = (if nso s (e + 1) = cpuPtmBoost then cpu\<lparr>pe_patched_count := pe_patched_count cpu + 1\<rparr> else cpu)"
    and "mem' = (if m then mem\<lparr>pe_patched_count := pe_patched_count mem + 1\<rparr> else mem)"
    and "s' = (let s1 = if nso s (e + 1) = cpuPtmBoost then snd (CpuPtmBoost m C s e) else s
      in if m then snd (MemPtm s1 e) else s1)"
    using run by (auto simp: ap am Let_def split: if_splits)
qed

lemma ptm_step_words:
  assumes "ptm_step m e (cpu, mem, s) = Inr (cpu', mem', s')"
    and "pe_patcher_fn cpu = CpuPtmBoost m C" "pe_patcher_fn mem = MemPtm"
  shows "k < 8 \<Longrightarrow> nso s' (e + int k) = ptm_word m C (\<lambda>k. nso s (e + int k)) k"
    and "a < e \<or> e + 8 \<le> a \<Longrightarrow> nso s' a = nso s a"
  unfolding ptm_step_Inr(4) [OF assms] Let_def ptm_word_def
  by (auto simp: nso_boost nso_mem)

lemma ptm_entry_apart: "i \<noteq> j \<Longrightarrow> k < 8 \<Longrightarrow> ptm_entry t j + int k < ptm_entry t i \<or> ptm_entry t i + 8 \<le> ptm_entry t j + int k"
  by (auto simp: ptm_entry_def)

lemma ptm_word_cong: "e 1 = e' 1 \<Longrightarrow> e k = e' k \<Longrightarrow> ptm_word m C e k = ptm_word m C e' k"
  unfolding ptm_word_def by (simp only:)

lemma ptm_loop_Inr:
  assumes "ptm_loop m t is (cpu, mem, s) = Inr (cpu', mem', s')" "distinct is"
    and "pe_patcher_fn cpu = CpuPtmBoost m C" "pe_patcher_fn mem = MemPtm"
  shows "(\<forall>i k. k < 8 \<longrightarrow> nso s' (ptm_entry t i + int k) =
      (if i \<in> set is then ptm_word m C (\<lambda>k. nso s (ptm_entry t i + int k)) k else nso s (ptm_entry t i + int k))) \<and>
    (\<forall>a. (\<forall>i\<in>set is. a < ptm_entry t i \<or> ptm_entry t i + 8 \<le> a) \<longrightarrow> nso s' a = nso s a) \<and>
    pe_maximum_patched_count cpu' = pe_maximum_patched_count cpu \<and>
    pe_patched_count cpu' = pe_patched_count cpu +
      length (filter (\<lambda>i. nso s (ptm_entry t i + 1) = cpuPtmBoost) is)"
  using assms
proof (induction "is" arbitrary: cpu mem s)
  case (Cons i "is")
  obtain cpu1 mem1 s1 where 1: "ptm_step m (ptm_entry t i) (cpu, mem, s) = Inr (cpu1, mem1, s1)"
    and 2: "ptm_loop m t is (cpu1, mem1, s1) = Inr (cpu', mem', s')"
    using Cons.prems(1) by (auto split: sum.splits)
  note st = ptm_step_Inr [OF 1 Cons.prems(3,4)] and w = ptm_step_words [OF 1 Cons.prems(3,4)]
  have "pe_patcher_fn cpu1 = CpuPtmBoost m C" "pe_patcher_fn mem1 = MemPtm"
    and c: "pe_maximum_patched_count cpu1 = pe_maximum_patched_count cpu"
      "pe_patched_count cpu1 = pe_patched_count cpu + (if nso s (ptm_entry t i + 1) = cpuPtmBoost then 1 else 0)"
    using Cons.prems(3,4) by (simp_all add: st(2,3))
  note IH = Cons.IH [OF 2 _ this(1,2)]
  have i: "i \<notin> set is" "distinct is" using Cons.prems(2) by simp_all
  have other: "nso s1 (ptm_entry t j + int k) = nso s (ptm_entry t j + int k)" if "j \<noteq> i" "k < 8" for j k
    using ptm_entry_apart [of i j k t] that by (intro w(2)) auto
  have ent: "(\<lambda>k. nso s1 (ptm_entry t j + int k)) k = nso s (ptm_entry t j + int k)" if "j \<noteq> i" "k < 8" for j k
    using other [OF that] .
  have pw: "ptm_word m C (\<lambda>k. nso s1 (ptm_entry t j + int k)) k = ptm_word m C (\<lambda>k. nso s (ptm_entry t j + int k)) k"
    if "j \<noteq> i" "k < 8" for j k
    using other [OF that(1), of 1] other [OF that] by (intro ptm_word_cong) simp_all
  have words: "nso s' (ptm_entry t j + int k) =
      (if j \<in> set (i # is) then ptm_word m C (\<lambda>k. nso s (ptm_entry t j + int k)) k else nso s (ptm_entry t j + int k))"
    if "k < 8" for j k
    using IH [OF i(2)] w(1) [OF that] other [OF _ that] pw [OF _ that] that i(1) by (cases "j = i") auto
  have outside: "nso s' a = nso s a" if "\<forall>j\<in>set (i # is). a < ptm_entry t j \<or> ptm_entry t j + 8 \<le> a" for a
    using IH [OF i(2)] w(2) [of a] that by auto
  have "filter (\<lambda>j. nso s1 (ptm_entry t j + 1) = cpuPtmBoost) is = filter (\<lambda>j. nso s (ptm_entry t j + 1) = cpuPtmBoost) is"
    using i(1) other [where k = 1, simplified] by (intro filter_cong refl) (metis (no_types))
  then show ?case using IH [OF i(2)] words outside c by auto
qed auto

text \<open>
  C18. A boot that goes on has found the performance table, at the first address where one can start,
  with one or two boost entries; it has set the CPU clock of these and, on Mariko, the memory clock of
  all sixteen entries, and nothing else.
\<close>

theorem ptm_patched:
  assumes "ptm_Patch m C n s = Inr s'"
  shows "\<exists>t. PtmTablePatternFn s (int t) \<and> (\<forall>p<t. \<not> PtmTablePatternFn s (int p)) \<and> t + 128 \<le> n \<and>
    length (filter (\<lambda>i. nso s (ptm_entry (int t) i + 1) = cpuPtmBoost) [0..<16]) \<in> {1, 2} \<and>
    (\<forall>i<16. \<forall>k<8. nso s' (ptm_entry (int t) i + int k) =
       ptm_word m C (\<lambda>k. nso s (ptm_entry (int t) i + int k)) k) \<and>
    (\<forall>a. a < int t \<or> int t + 128 \<le> a \<longrightarrow> nso s' a = nso s a)"
proof -
  let ?cpu = "patcher ''CPU Ptm Boost'' (CpuPtmBoost m C) 2 (Value 0)"
  let ?mem = "patcher ''MEM Ptm'' MemPtm 16 (Value 0)"
  obtain t where t: "find (\<lambda>p. PtmTablePatternFn s (int p)) [0..<search_steps n (8 * entryCnt)] = Some t"
    using assms by (auto simp: ptm_Patch_def split: option.splits)
  then obtain cpu mem where run: "ptm_loop m (int t) [0..<entryCnt] (?cpu, ?mem, s) = Inr (cpu, mem, s')"
    and ok: "R_SUCCEEDED (CheckResult cpu)"
    using assms by (auto simp: ptm_Patch_def split: sum.splits if_splits)
  from t have found: "PtmTablePatternFn s (int t)" "\<forall>p<t. \<not> PtmTablePatternFn s (int p)"
      "t < search_steps n (8 * entryCnt)"
    by (auto simp: find_Some_iff)
  then have n: "t + 128 \<le> n" by (auto simp: search_steps_def entryCnt_def split: if_splits)
  have l: "(\<forall>i k. k < 8 \<longrightarrow> nso s' (ptm_entry (int t) i + int k) =
      (if i \<in> set [0..<16] then ptm_word m C (\<lambda>k. nso s (ptm_entry (int t) i + int k)) k
       else nso s (ptm_entry (int t) i + int k))) \<and>
    (\<forall>a. (\<forall>i\<in>set [0..<16]. a < ptm_entry (int t) i \<or> ptm_entry (int t) i + 8 \<le> a) \<longrightarrow> nso s' a = nso s a) \<and>
    pe_maximum_patched_count cpu = 2 \<and>
    pe_patched_count cpu = length (filter (\<lambda>i. nso s (ptm_entry (int t) i + 1) = cpuPtmBoost) [0..<16])"
    using ptm_loop_Inr [OF run] unfolding entryCnt_def by (simp add: patcher_def)
  have "0 < pe_patched_count cpu \<and> pe_patched_count cpu \<le> 2"
    using ok l by (simp add: CheckResult_def split: if_splits)
  moreover have "pe_patched_count cpu = length (filter (\<lambda>i. nso s (ptm_entry (int t) i + 1) = cpuPtmBoost) [0..<16])"
    using l by blast
  ultimately have cnt: "length (filter (\<lambda>i. nso s (ptm_entry (int t) i + 1) = cpuPtmBoost) [0..<16]) \<in> {1, 2}"
    by (simp only: insert_iff empty_iff) linarith
  have out: "nso s' a = nso s a" if "a < int t \<or> int t + 128 \<le> a" for a
  proof -
    have "a < ptm_entry (int t) i \<or> ptm_entry (int t) i + 8 \<le> a" if "i \<in> set [0..<16]" for i
      using that \<open>a < int t \<or> int t + 128 \<le> a\<close> by (auto simp: ptm_entry_def)
    then show ?thesis using l by blast
  qed
  have inside: "nso s' (ptm_entry (int t) i + int k) = ptm_word m C (\<lambda>k. nso s (ptm_entry (int t) i + int k)) k"
    if "i < 16" "k < 8" for i k using l that by simp
  show ?thesis by (intro exI [of _ t] conjI found(1,2) n cnt allI impI inside out)
qed

definition ptm_image :: pcv_state where
  "ptm_image = \<lparr>nso = (\<lambda>a. if a mod 8 = 1 \<or> a mod 8 = 2 then (if a div 8 = 5 then cpuPtmBoost else cpuPtmDefault)
     else if a mod 8 = 5 \<or> a mod 8 = 6 then memPtmAlt else 0), i2c_log = [], erista_maxEmcClocks = [],
     stopped = None\<rparr>"

lemma ptm_patched_witness:
  "\<exists>s' t. ptm_Patch True C_default 128 ptm_image = Inr s' \<and> PtmTablePatternFn ptm_image (int t) \<and>
    nso s' (ptm_entry (int t) 5 + 2) = 1963500000"
proof -
  have first: "PtmTablePatternFn ptm_image (int 0)"
    by (simp add: PtmTablePatternFn_def PtmEntryIsValid_def ptm_image_def)
  have find: "find (\<lambda>p. PtmTablePatternFn ptm_image (int p)) [0..<search_steps 128 (8 * entryCnt)] = Some 0"
    using first by (simp add: search_steps_def entryCnt_def)
  have "\<exists>s'. ptm_Patch True C_default 128 ptm_image = Inr s'"
    unfolding ptm_Patch_def find
    by (simp add: entryCnt_def upt_conv_Cons ptm_step_def
      Apply_def CpuPtmBoost_def MemPtm_def PtmEntryIsValid_def ptm_image_def ptm_entry_def ptm_clocks
      patcher_def CheckResult_def patch_word_def C_default_def)
  then obtain s' where run: "ptm_Patch True C_default 128 ptm_image = Inr s'" by blast
  from ptm_patched [OF run] obtain t where t: "PtmTablePatternFn ptm_image (int t)"
      "\<forall>p<t. \<not> PtmTablePatternFn ptm_image (int p)"
      "\<forall>i<16. \<forall>k<8. nso s' (ptm_entry (int t) i + int k) =
         ptm_word True C_default (\<lambda>k. nso ptm_image (ptm_entry (int t) i + int k)) k" by blast
  with first have "t = 0" by (cases t) auto
  moreover have "nso s' (ptm_entry (int t) 5 + int 2) =
      ptm_word True C_default (\<lambda>k. nso ptm_image (ptm_entry (int t) 5 + int k)) 2"
    using t(3) [rule_format, of 5 2] by (simp only: of_nat_numeral) 
  ultimately show ?thesis using run t(1)
    by (intro exI [of _ s'] exI [of _ t])
      (simp add: ptm_word_def ptm_image_def ptm_entry_def C_default_def)
qed

end
