(* ===== verification/Mtc_Registers.thy ===== *)
theory Mtc_Registers
  imports Mtc_Adjust
begin

text \<open>
  What the computed registers guarantee: a count of cycles covers its time in spite of the rounding,
  the latencies are those of the memory standard and never fall with the frequency, the mode register
  encodes them, the fields of limited width are respected and the groups of registers agree.
\<close>

section \<open>Cycles\<close>

lemma exact_of_u32 [simp]: "exact (of_u32 v) = of_nat (unat v)"
  by (simp add: of_u32_def)

lemma exact_lit_whole: "n < 2 ^ 53 \<Longrightarrow> exact (lit (of_nat n)) = of_nat n"
  by (simp add: lit_def fl_of_nat)

text \<open>Two roundings, one of them below the line.\<close>

lemma quotient_of_rounded:
  fixes p a r :: rat
  assumes p: "0 \<le> p" and a: "0 < a" and r: "0 < r"
  shows "\<bar>fl (p / fl (a / r)) - p * r / a\<bar> \<le> (p * r / a) * (4 / 2 ^ 53)"
proof -
  let ?e = "1 / 2 ^ 53 :: rat" and ?t = "fl (a / r)" and ?x = "p * r / a"
  have x: "0 \<le> ?x" using assms by simp
  have ar: "0 < a / r" using a r by simp
  have t: "a / r * (1 - ?e) \<le> ?t" "?t \<le> a / r * (1 + ?e)" "0 < ?t"
    using fl_bounds [of "a / r"] fl_pos_less [OF ar] ar by simp_all
  have lo: "?x \<le> p / ?t * (1 + ?e)"
  proof -
    have "?x * ?t \<le> ?x * (a / r * (1 + ?e))" using t(2) x by (rule mult_left_mono)
    also have "\<dots> = p * (1 + ?e)" using a r by simp
    finally show ?thesis using t(3) by (simp add: field_simps)
  qed
  have hi: "p / ?t * (1 - ?e) \<le> ?x"
  proof -
    have "p * (1 - ?e) = ?x * (a / r * (1 - ?e))" using a r by simp
    also have "\<dots> \<le> ?x * ?t" using t(1) x by (rule mult_left_mono)
    finally show ?thesis using t(3) by (simp add: field_simps)
  qed
  let ?q = "p / ?t"
  have q: "0 \<le> ?q" using p t(3) by simp
  have f: "?q * (1 - ?e) \<le> fl ?q" "fl ?q \<le> ?q * (1 + ?e)" using fl_bounds [OF q] by simp_all
  have "fl ?q * (1 - ?e) \<le> ?q * (1 + ?e) * (1 - ?e)" using f(2) by (rule mult_right_mono) simp
  also have "\<dots> \<le> ?x * (1 + ?e)" using mult_right_mono [OF hi, of "1 + ?e"] by (simp add: mult_ac)
  finally have up: "fl ?q * (1 - ?e) \<le> ?x * (1 + ?e)" .
  have "?x * (1 - ?e) \<le> ?q * (1 + ?e) * (1 - ?e)" using lo by (rule mult_right_mono) simp
  also have "\<dots> = ?q * (1 - ?e) * (1 + ?e)" by (simp only: mult_ac)
  also have "\<dots> \<le> fl ?q * (1 + ?e)" using f(1) by (rule mult_right_mono) simp
  finally have dn: "?x * (1 - ?e) \<le> fl ?q * (1 + ?e)" .
  have "fl ?q \<le> ?x * (1 + 4 * ?e)"
  proof -
    have "?x * (1 + ?e) \<le> ?x * ((1 + 4 * ?e) * (1 - ?e))" using x by (intro mult_left_mono) simp_all
    then have "fl ?q * (1 - ?e) \<le> ?x * (1 + 4 * ?e) * (1 - ?e)" using up by (simp add: mult_ac)
    then show ?thesis by (rule mult_right_le_imp_le) simp
  qed
  moreover have "?x * (1 - 4 * ?e) \<le> fl ?q"
  proof -
    have "?x * ((1 - 4 * ?e) * (1 + ?e)) \<le> ?x * (1 - ?e)" using x by (intro mult_left_mono) simp_all
    then have "?x * (1 - 4 * ?e) * (1 + ?e) \<le> fl ?q * (1 + ?e)" using dn by (simp add: mult_ac)
    then show ?thesis by (rule mult_right_le_imp_le) simp
  qed
  ultimately show ?thesis by (simp add: abs_le_iff algebra_simps)
qed

lemma unat_to_u32:
  assumes "exact x = of_nat n" "n < 2 ^ 32"
  shows "unat (to_u32 x) = n"
proof -
  have "to_u32 x = of_nat n" using assms by (simp add: to_u32_def trunc_def)
  then show ?thesis using assms(2) by (simp add: unat_of_nat)
qed

text \<open>
  A time of whole nanoseconds is covered by the cycles computed for it, exactly and in spite of two
  roundings of double precision, and by at most one cycle more than needed: with \<open>n\<close> cycles at a
  frequency of \<open>rate\<close> kHz, \<open>p * rate\<close> lies between \<open>(n - 1) * 10^6\<close> and \<open>n * 10^6\<close>.
\<close>

lemma cycles_cover:
  assumes "p \<le> 1000" "0 < rate" "rate \<le> 4000000"
  shows "unat p * unat rate \<le> unat (GET_CYCLE_CEIL (tCK_of rate) (of_u32 p)) * 10 ^ 6 \<and>
    unat (GET_CYCLE_CEIL (tCK_of rate) (of_u32 p)) * 10 ^ 6 \<le> unat p * unat rate + 10 ^ 6"
proof -
  let ?p = "of_nat (unat p) :: rat" and ?r = "of_nat (unat rate) :: rat"
  have p: "unat p \<le> 1000" and r: "0 < unat rate" "unat rate \<le> 4000000"
    using assms by (simp_all add: word_le_nat_alt unat_gt_0)
  let ?x = "?p * ?r / 1000000" and ?y = "fl (?p / fl (1000000 / ?r))"
  have "unat p * unat rate \<le> 1000 * 4000000" using p r(2) by (rule mult_le_mono)
  then have "(of_nat (unat p * unat rate) :: rat) \<le> of_nat (1000 * 4000000)" by (simp only: of_nat_le_iff)
  then have x: "?x \<le> 4000" by simp
  have "\<bar>?y - ?x\<bar> \<le> ?x * (4 / 2 ^ 53)" using r(1)
    by (intro quotient_of_rounded of_nat_0_le_iff) (simp, simp only: of_nat_0_less_iff)
  also have "\<dots> \<le> 4000 * (4 / 2 ^ 53)" using x by (rule mult_right_mono) simp
  also have "\<dots> < 1 / 1000000" by simp
  finally have near: "?y < ?x + 1 / 1000000" "?x - 1 / 1000000 < ?y" by linarith+
  have y: "0 \<le> ?y" 
    by (intro fl_bounds(3) divide_nonneg_nonneg of_nat_0_le_iff zero_le_numeral)
  let ?n = "nat \<lceil>?y\<rceil>"
  have n: "of_nat ?n = (of_int \<lceil>?y\<rceil> :: rat)" using y by (simp add: of_nat_nat)
  have up: "?y \<le> of_nat ?n" "of_nat ?n < ?y + 1" unfolding n by linarith+
  have "(of_nat ?n :: rat) < of_nat 4002" using up(2) near(1) x by simp
  then have small: "?n < 2 ^ 32" by (simp only: of_nat_less_iff) simp
  have "exact (lit 1000000) = 1000000" using exact_lit_whole [of 1000000] by simp
  then have cycles: "unat (GET_CYCLE_CEIL (tCK_of rate) (of_u32 p)) = ?n"
    unfolding GET_CYCLE_CEIL_def
    by (intro unat_to_u32 [OF _ small], unfold n) (simp add: tCK_of_def divide_double_def ceil_def)
  have "?p * ?r < of_nat ?n * 1000000 + 1" using near(2) up(1) by linarith
  then have "(of_nat (unat p * unat rate) :: rat) < of_nat (?n * 1000000 + 1)" by simp
  moreover have "of_nat ?n * 1000000 < ?p * ?r + 1000000 + 1" using near(1) up(2) by linarith
  then have "(of_nat (?n * 1000000) :: rat) < of_nat (unat p * unat rate + 1000000 + 1)" by simp
  ultimately show ?thesis unfolding cycles by (simp only: of_nat_less_iff) simp
qed

lemma cycles_example:
  "unat (18 :: u32) * unat (2133000 :: u32) \<le> unat (GET_CYCLE_CEIL (tCK_of 2133000) (of_u32 18)) * 10 ^ 6 \<and>
    unat (GET_CYCLE_CEIL (tCK_of 2133000) (of_u32 18)) = 39"
proof -
  let ?n = "unat (GET_CYCLE_CEIL (tCK_of 2133000) (of_u32 18))"
  have "unat (18 :: u32) * unat (2133000 :: u32) \<le> ?n * 10 ^ 6 \<and>
      ?n * 10 ^ 6 \<le> unat (18 :: u32) * unat (2133000 :: u32) + 10 ^ 6"
    by (rule cycles_cover) simp_all
  then show ?thesis by simp
qed

section \<open>Latencies\<close>

text \<open>The arrays of thresholds have four entries each.\<close>

definition latency_arrays :: "customize \<Rightarrow> bool" where
  "latency_arrays C \<longleftrightarrow> length (readLatency C) = 4 \<and> length (writeLatency C) = 4"

definition a_latency :: "u32 \<Rightarrow> u32 \<Rightarrow> u32 \<Rightarrow> bool" where
  "a_latency latency step v \<longleftrightarrow> (\<exists>i < 4. v = latency + of_nat i * step)"

lemma max_index: "GetMaxLatencyIndex arr = Some i \<Longrightarrow> i < length arr"
  unfolding GetMaxLatencyIndex_def by (auto simp: find_Some_iff rev_nth)

lemma picked_index:
  "\<exists>i. i \<le> indexMax \<and> pick_latency freq latency arr indexMax step = latency + of_nat i * step"
proof (cases "find (\<lambda>i. arr ! i \<noteq> 0 \<and> freq \<le> arr ! i) [0..<indexMax + 1]")
  case (Some i)
  then have "i \<le> indexMax" by (auto simp: find_Some_iff simp del: upt_Suc)
  with Some show ?thesis by (auto simp: pick_latency_def SwitchLatency_def simp del: upt_Suc)
qed (auto simp: pick_latency_def SwitchLatency_def simp del: upt_Suc)

lemma latency_value:
  assumes "length arr = 4"
  shows "a_latency latency step (HandleLatency freq latency arr step)"
proof (cases "GetMaxLatencyIndex arr")
  case None
  then show ?thesis
    by (auto simp: a_latency_def HandleLatency_def AutoLatency_def mult.commute intro: exI [of _ 2] exI [of _ 3])
next
  case (Some m)
  then show ?thesis
    using picked_index [of m freq latency arr step] max_index [OF Some] assms
    by (auto simp: a_latency_def HandleLatency_def intro: le_less_trans)
qed

lemma less_4: "i < (4 :: nat) \<longleftrightarrow> i \<in> {0, 1, 2, 3}"
  by auto

lemma read_latency: "length arr = 4 \<Longrightarrow> HandleLatency freq RL_1331 arr 4 \<in> {28, 32, 36, 40}"
  using latency_value [of arr RL_1331 4 freq] by (auto simp: a_latency_def less_4 RL_1331_def)

lemma write_latency: "length arr = 4 \<Longrightarrow> HandleLatency freq WL_1331 arr 2 \<in> {12, 14, 16, 18}"
  using latency_value [of arr WL_1331 2 freq] by (auto simp: a_latency_def less_4 WL_1331_def)

lemma mrw2_cases:
  assumes "rl \<in> {28, 32, 36, 40}" "wl \<in> {12, 14, 16, 18}"
  shows "rlMapDBI ! unat (CalculateMrw2 rl wl AND 7) = rl \<and>
    wlMapSetA ! unat (drop_bit 3 (CalculateMrw2 rl wl)) = wl"
  using assms by (auto simp: CalculateMrw2_def index_or_0_def rlMapDBI_def wlMapSetA_def upt_conv_Cons)

text \<open>
  The mode register that is computed with the timings encodes their latencies: its low three bits
  and the three above are the places of the read and of the write latency in the tables of the memory
  standard, whatever thresholds the settings give.
\<close>

lemma mode_register_encodes:
  assumes "latency_arrays C"
  shows "rlMapDBI ! unat (mrw2 (CalculateTimings C t freq) AND 7) = RL (CalculateTimings C t freq) \<and>
    wlMapSetA ! unat (drop_bit 3 (mrw2 (CalculateTimings C t freq))) = WL (CalculateTimings C t freq)"
proof -
  have "length (readLatency C) = 4" "length (writeLatency C) = 4" using assms by (simp_all add: latency_arrays_def)
  from mrw2_cases [OF read_latency [OF this(1)] write_latency [OF this(2)]] show ?thesis
    unfolding CalculateTimings_def Let_def by simp
qed

text \<open>Each latency grows with the frequency, above the stock range.\<close>

lemma find_mono:
  assumes "\<And>i. i \<in> set is \<Longrightarrow> Q i \<Longrightarrow> P i" "sorted is" "find Q is = Some j"
  shows "\<exists>i. find P is = Some i \<and> i \<le> (j :: nat)"
  using assms by (induction "is") (auto simp: find_Some_iff split: if_splits)

lemma pick_mono:
  assumes "f \<le> g"
  shows "\<exists>i j. i \<le> j \<and> j \<le> indexMax \<and> pick_latency f latency arr indexMax step = latency + of_nat i * step \<and>
    pick_latency g latency arr indexMax step = latency + of_nat j * step"
proof (cases "find (\<lambda>i. arr ! i \<noteq> 0 \<and> g \<le> arr ! i) [0..<indexMax + 1]")
  case None
  then have "pick_latency g latency arr indexMax step = latency + of_nat indexMax * step"
    by (simp add: pick_latency_def SwitchLatency_def del: upt_Suc)
  then show ?thesis using picked_index [of indexMax f latency arr step] by auto
next
  case (Some j)
  then obtain i where "find (\<lambda>i. arr ! i \<noteq> 0 \<and> f \<le> arr ! i) [0..<indexMax + 1] = Some i" "i \<le> j"
    using find_mono [of "[0..<indexMax + 1]" "\<lambda>i. arr ! i \<noteq> 0 \<and> g \<le> arr ! i" "\<lambda>i. arr ! i \<noteq> 0 \<and> f \<le> arr ! i" j]
      assms(1) order_trans by (auto simp del: upt_Suc)
  moreover have "j \<le> indexMax" using Some by (auto simp: find_Some_iff simp del: upt_Suc)
  ultimately show ?thesis using Some by (auto simp: pick_latency_def SwitchLatency_def simp del: upt_Suc)
qed

lemma latency_mono:
  assumes "1600000 < f" "f \<le> g" "length arr = 4" "(latency, step) \<in> {(RL_1331, 4), (WL_1331, 2)}"
  shows "HandleLatency f latency arr step \<le> HandleLatency g latency arr step"
proof (cases "GetMaxLatencyIndex arr")
  case None
  have "1866000 < g" if "1866000 < f" using that assms(2) by (rule less_le_trans)
  moreover have "1600000 < g" using assms(1,2) by (rule less_le_trans)
  ultimately show ?thesis
    using assms(1,4) None by (auto simp: HandleLatency_def AutoLatency_def RL_1331_def WL_1331_def not_le)
next
  case (Some m)
  then have m: "m < 4" using max_index [OF Some] assms(3) by simp
  obtain i j where ij: "i \<le> j" "j \<le> m" and
    v: "pick_latency f latency arr m step = latency + of_nat i * step"
      "pick_latency g latency arr m step = latency + of_nat j * step"
    using pick_mono [OF assms(2)] by metis
  have "j \<in> {0, 1, 2, 3}" "i \<in> {0, 1, 2, 3}" using ij m by auto
  then have "latency + of_nat i * step \<le> latency + of_nat j * step"
    using ij(1) assms(4) by (auto simp: RL_1331_def WL_1331_def)
  then show ?thesis using Some v by (simp add: HandleLatency_def)
qed

text \<open>
  C24. A faster memory never gets a shorter latency: above the stock range the read and the write latency
  grow with the frequency, also where the thresholds in the settings are not in order, and whether they
  are given or automatic.
\<close>

theorem latencies_grow:
  assumes "latency_arrays C" "1600000 < f" "f \<le> g"
  shows "RL (CalculateTimings C t f) \<le> RL (CalculateTimings C t' g) \<and>
    WL (CalculateTimings C t f) \<le> WL (CalculateTimings C t' g)"
proof -
  have "length (readLatency C) = 4" "length (writeLatency C) = 4" using assms(1) by (simp_all add: latency_arrays_def)
  then show ?thesis
    unfolding CalculateTimings_def Let_def by (simp add: latency_mono [OF assms(2,3)])
qed

lemma default_latency: "latency_arrays C_default"
  by (simp add: latency_arrays_def C_default_def)

lemma mode_register_encodes_witness:
  "rlMapDBI ! unat (mrw2 (CalculateTimings C_default (lit 0) 0) AND 7) = RL (CalculateTimings C_default (lit 0) 0)"
  using mode_register_encodes [OF default_latency, of "lit 0" 0] by (rule conjunct1)

lemma latencies_grow_witness:
  "RL (CalculateTimings C_default (tCK_of 1866000) 1866000) \<le> RL (CalculateTimings C_default (tCK_of 2133000) 2133000)"
  using latencies_grow [OF default_latency, of 1866000 2133000 "tCK_of 1866000" "tCK_of 2133000"] by simp

section \<open>The registers of a table\<close>

definition pll_keys :: "nat list" where
  "pll_keys = [m_pllmb_divm, m_pllmb_divn, m_pllm_ss_cfg, m_pllmb_ss_cfg, m_pllm_ss_ctrl1, m_pllm_ss_ctrl2,
     m_pllmb_ss_ctrl1, m_pllmb_ss_ctrl2]"

lemma pll_keys: "fst ` set (pllmb_writes ws) \<subseteq> set pll_keys"
  using pllmb_keys [of ws] by (auto simp: pll_keys_def)

lemma m_not_pll: "list_all (\<lambda>k. k \<notin> set pll_keys) m_keys"
  unfolding m_keys_def m_writes_def Let_def m_timing_writes_def m_arbiter_writes_def m_latency_writes_def
    m_dram_writes_def all_groups_def m_groups_def pll_keys_def by (simp add: mariko_layout)

text \<open>What both functions make of a table of Mariko.\<close>

definition tuned :: "customize \<Rightarrow> u32 list \<Rightarrow> u32 list" where
  "tuned C ws = MemMtcPllmbDivisor (MemMtcTableAutoAdjust C ws)"

lemma length_tuned [simp]: "length (tuned C ws) = length ws"
  by (simp add: tuned_def)

lemma tuned_pll: "k \<notin> set pll_keys \<Longrightarrow> tuned C ws ! k = MemMtcTableAutoAdjust C ws ! k"
  unfolding tuned_def MemMtcPllmbDivisor_def by (rule write_words_other) (use pll_keys in blast)

lemma tuned_written:
  assumes "(k, v) \<in> set (m_writes C ws)" "length ws = 1075"
  shows "tuned C ws ! k = v"
proof -
  have k: "k \<in> set m_keys" using imageI [OF assms(1), of fst] by (simp add: m_set)
  then have "k < length ws" "k \<notin> set pll_keys"
    using m_keys(2) m_not_pll assms(2) by (auto simp: list_all_iff)
  moreover have "distinct (map fst (m_writes C ws))" using m_keys(1) by (simp add: m_written)
  ultimately show ?thesis
    using assms(1) by (simp add: tuned_pll MemMtcTableAutoAdjust_def write_words_nth)
qed

lemma tuned_other:
  assumes "k \<notin> set m_keys" "k \<notin> set pll_keys"
  shows "tuned C ws ! k = ws ! k"
  using assms unfolding MemMtcTableAutoAdjust_def tuned_pll [OF assms(2)]
  by (simp add: write_words_other m_set)

lemma all_groups_member: "(f, v) \<in> set fs \<Longrightarrow> g \<in> set groups \<Longrightarrow> (g + f, v) \<in> set (all_groups groups fs)"
  by (force simp: all_groups_def)

lemma m_timing_written:
  assumes "(f, v) \<in> set (m_timing_writes C (CalculateTimings C (tCK_of (ws ! m_rate_khz)) (ws ! m_rate_khz))
      (tCK_of (ws ! m_rate_khz)) (ws ! m_rate_khz) (ws ! (m_burst_regs + m_emc_dyn_self_ref_control)))"
    "g \<in> set m_groups" "length ws = 1075"
  shows "tuned C ws ! (g + f) = v"
proof (rule tuned_written [OF _ assms(3)])
  have "(g + f, v) \<in> set (all_groups m_groups (m_timing_writes C (CalculateTimings C (tCK_of (ws ! m_rate_khz)) (ws ! m_rate_khz))
      (tCK_of (ws ! m_rate_khz)) (ws ! m_rate_khz) (ws ! (m_burst_regs + m_emc_dyn_self_ref_control))))"
    using assms(1,2) by (rule all_groups_member)
  show "(g + f, v) \<in> set (m_writes C ws)"
    unfolding m_writes_def Let_def set_append by (rule UnI1) fact
qed


text \<open>The value of a setting in its table.\<close>

lemma value_at_all: "list_all P (d # xs) \<Longrightarrow> P (value_at xs i d)"
  by (auto simp: value_at_def list_all_iff)

lemma settings_small:
  "value_at tRCD_values i 0 \<le> 18" "value_at tRP_values i 0 \<le> 18" "value_at mariko_tRFC_values i 0 \<le> 140"
  "value_at erista_tRFC_values i 0 \<le> 90"
  by (rule value_at_all; simp add: tRCD_values_def tRP_values_def mariko_tRFC_values_def erista_tRFC_values_def)+

text \<open>Enough cycles at a rate for a time in ns.\<close>

definition covers :: "u32 \<Rightarrow> u32 \<Rightarrow> u32 \<Rightarrow> bool" where
  "covers rate p cycles \<longleftrightarrow> unat p * unat rate \<le> unat cycles * 10 ^ 6"

text \<open>
  C8. In a table of Mariko with a new frequency, the registers of each of the three groups hold enough
  cycles for the times chosen in the settings: from a row to a column for reading and writing, for the
  precharge, and for the refresh of one bank and of all.
\<close>

theorem mariko_registers_cover:
  assumes "length ws = 1075" "0 < ws ! m_rate_khz" "ws ! m_rate_khz \<le> 4000000" "g \<in> set m_groups"
  shows "covers (ws ! m_rate_khz) (value_at tRCD_values (t1_tRCD C) 0) (tuned C ws ! (g + m_emc_rd_rcd)) \<and>
    covers (ws ! m_rate_khz) (value_at tRCD_values (t1_tRCD C) 0) (tuned C ws ! (g + m_emc_wr_rcd)) \<and>
    covers (ws ! m_rate_khz) (tRPpb (CalculateTimings C (tCK_of (ws ! m_rate_khz)) (ws ! m_rate_khz)))
      (tuned C ws ! (g + m_emc_rp)) \<and>
    covers (ws ! m_rate_khz) (value_at mariko_tRFC_values (t5_tRFC C) 0) (tuned C ws ! (g + m_emc_rfcpb)) \<and>
    covers (ws ! m_rate_khz) (value_at mariko_tRFC_values (t5_tRFC C) 0 * 2) (tuned C ws ! (g + m_emc_rfc))"
proof -
  let ?r = "ws ! m_rate_khz" let ?T = "CalculateTimings C (tCK_of ?r) ?r"
  have "covers ?r p (GET_CYCLE_CEIL (tCK_of ?r) (of_u32 p))" if "p \<le> 1000" for p
    using cycles_cover [OF that] assms(2,3) by (simp add: covers_def)
  note this [of "tRCD ?T"] this [of "tRPpb ?T"] this [of "tRFCpb ?T"] this [of "tRFCab ?T"]
  moreover have "value_at mariko_tRFC_values i 0 * 2 \<le> 1000" for i
    by (rule value_at_all [where P = "\<lambda>v. v * 2 \<le> 1000"]) (simp add: mariko_tRFC_values_def)
  moreover have "tRCD ?T \<le> 1000" "tRPpb ?T \<le> 1000" "tRFCpb ?T \<le> 1000"
    unfolding CalculateTimings_def Let_def by (simp_all add: order_trans [OF settings_small(1)]
        order_trans [OF settings_small(2)] order_trans [OF settings_small(3)])
  moreover have "tRCD ?T = value_at tRCD_values (t1_tRCD C) 0" "tRFCpb ?T = value_at mariko_tRFC_values (t5_tRFC C) 0"
    "tRFCab ?T = value_at mariko_tRFC_values (t5_tRFC C) 0 * 2"
    unfolding CalculateTimings_def Let_def by simp_all
  moreover note written = m_timing_written [OF _ assms(4,1), of _ _ C]
  have "tuned C ws ! (g + m_emc_rd_rcd) = GET_CYCLE_CEIL (tCK_of ?r) (of_u32 (tRCD ?T))"
    "tuned C ws ! (g + m_emc_wr_rcd) = GET_CYCLE_CEIL (tCK_of ?r) (of_u32 (tRCD ?T))"
    "tuned C ws ! (g + m_emc_rp) = GET_CYCLE_CEIL (tCK_of ?r) (of_u32 (tRPpb ?T))"
    "tuned C ws ! (g + m_emc_rfcpb) = GET_CYCLE_CEIL (tCK_of ?r) (of_u32 (tRFCpb ?T))"
    "tuned C ws ! (g + m_emc_rfc) = GET_CYCLE_CEIL (tCK_of ?r) (of_u32 (tRFCab ?T))"
    by (rule written, simp add: m_timing_writes_def Let_def)+
  ultimately show ?thesis by simp
qed

lemma mariko_registers_cover_witness:
  "covers 2133000 18 (tuned C_default ((replicate 1075 0)[16 := 2133000]) ! (m_burst_regs + m_emc_rd_rcd)) \<and>
    length (tuned C_default ((replicate 1075 0)[16 := 2133000])) = 1075"
proof -
  let ?ws = "(replicate 1075 0)[16 := 2133000] :: u32 list"
  have r: "?ws ! m_rate_khz = 2133000" by (simp add: m_rate_khz_def)
  have "covers (?ws ! m_rate_khz) (value_at tRCD_values (t1_tRCD C_default) 0)
      (tuned C_default ?ws ! (m_burst_regs + m_emc_rd_rcd))"
    by (rule conjunct1 [OF mariko_registers_cover]) (simp_all only: r, simp_all add: m_groups_def)
  moreover have "value_at tRCD_values (t1_tRCD C_default) 0 = 18"
    by (simp add: value_at_def tRCD_values_def C_default_def)
  ultimately show ?thesis by (simp add: r)
qed

text \<open>
  The three groups hold the same timings, and the registers with fields of limited width stay within
  them: the counts for a row, for leaving self refresh, for the precharge of all banks and for the
  refresh interval, whatever the settings are.
\<close>

lemma mariko_register_limits:
  assumes "length ws = 1075" "g \<in> set m_groups"
  shows "tuned C ws ! (g + m_emc_rc) \<le> 0xB9 \<and> tuned C ws ! (g + m_emc_ras) \<le> 0x7F \<and>
    tuned C ws ! (g + m_emc_txsr) \<le> 0x3fe \<and> tuned C ws ! (g + m_emc_trpab) \<le> 0x3F \<and>
    tuned C ws ! (g + m_emc_refresh) \<le> 0xFFFF \<and> tuned C ws ! (g + m_emc_trefbw) \<le> 0x3FFF \<and>
    (\<forall>(f, v) \<in> set (m_timing_writes C (CalculateTimings C (tCK_of (ws ! m_rate_khz)) (ws ! m_rate_khz))
        (tCK_of (ws ! m_rate_khz)) (ws ! m_rate_khz) (ws ! (m_burst_regs + m_emc_dyn_self_ref_control))).
       tuned C ws ! (g + f) = tuned C ws ! (m_burst_regs + f))"
proof -
  let ?r = "ws ! m_rate_khz" let ?t = "tCK_of ?r" let ?T = "CalculateTimings C ?t ?r"
  note written = m_timing_written [OF _ _ assms(1), of _ _ C]
  have eqs: "tuned C ws ! (g + m_emc_rc) = min (GET_CYCLE_CEIL ?t (of_u32 (tRC ?T))) 0xB9"
    "tuned C ws ! (g + m_emc_ras) = min (GET_CYCLE_CEIL ?t (of_u32 (tRAS ?T))) 0x7F"
    "tuned C ws ! (g + m_emc_txsr) = min (GET_CYCLE_CEIL ?t (tXSR ?T)) 0x3fe"
    "tuned C ws ! (g + m_emc_trpab) = min (GET_CYCLE_CEIL ?t (tRPab ?T)) 0x3F"
    "tuned C ws ! (g + m_emc_refresh) = refresh_raw C ?t"
    "tuned C ws ! (g + m_emc_trefbw) = trefbw (refresh_raw C ?t)"
    by (rule written [OF _ assms(2)], simp add: m_timing_writes_def Let_def)+
  have "refresh_raw C ?t \<le> 0xFFFF" by (simp add: refresh_raw_def)
  moreover have "m_burst_regs \<in> set m_groups" by (simp add: m_groups_def)
  ultimately show ?thesis
    using written [OF _ assms(2)] written [of _ _ m_burst_regs] unfolding eqs by (auto simp: trefbw_def)
qed

lemma mariko_register_limits_witness:
  "tuned C_default (replicate 1075 0) ! (m_shadow_regs_ca_train + m_emc_rc) \<le> 0xB9 \<and>
    tuned C_default (replicate 1075 0) ! (m_shadow_regs_ca_train + m_emc_refresh) \<le> 0xFFFF"
  using mariko_register_limits [of "replicate 1075 0" m_shadow_regs_ca_train C_default] by (simp add: m_groups_def)

section \<open>Erista\<close>

lemma e_written_nth:
  assumes "(k, v) \<in> set (e_writes C ws)" "length ws = 1232"
  shows "erista_MemMtcTableAutoAdjust C ws ! k = v"
proof -
  have "k \<in> set e_keys" using imageI [OF assms(1), of fst] by (simp add: e_set)
  then have "k < length ws" using e_keys(2) assms(2) by (auto simp: list_all_iff)
  moreover have "distinct (map fst (e_writes C ws))" using e_keys(1) by (simp add: e_written)
  ultimately show ?thesis using assms(1) by (simp add: erista_MemMtcTableAutoAdjust_def write_words_nth)
qed

lemma e_timing_written:
  assumes "(f, v) \<in> set (e_timing_writes C (erista_CalculateTimings C (tCK_of (ws ! e_rate_khz)))
      (tCK_of (ws ! e_rate_khz)) (ws ! e_rate_khz) (ws ! (e_burst_regs + e_emc_dyn_self_ref_control)))"
    "g \<in> set e_groups" "length ws = 1232"
  shows "erista_MemMtcTableAutoAdjust C ws ! (g + f) = v"
proof (rule e_written_nth [OF _ assms(3)])
  have "(g + f, v) \<in> set (all_groups e_groups (e_timing_writes C (erista_CalculateTimings C (tCK_of (ws ! e_rate_khz)))
      (tCK_of (ws ! e_rate_khz)) (ws ! e_rate_khz) (ws ! (e_burst_regs + e_emc_dyn_self_ref_control))))"
    using assms(1,2) by (rule all_groups_member)
  then show "(g + f, v) \<in> set (e_writes C ws)" unfolding e_writes_def Let_def set_append by (rule UnI1)
qed

text \<open>
  The same for a table of Erista: in each group the registers hold enough cycles for the chosen times
  from a row to a column, for the precharge and for the refresh, and the minimum voltage stays between
  900 and 1050 mV.
\<close>

lemma erista_registers_cover:
  assumes "length ws = 1232" "0 < ws ! e_rate_khz" "ws ! e_rate_khz \<le> 4000000" "g \<in> set e_groups"
  shows "covers (ws ! e_rate_khz) (value_at tRCD_values (t1_tRCD C) 0)
      (erista_MemMtcTableAutoAdjust C ws ! (g + e_emc_rd_rcd)) \<and>
    covers (ws ! e_rate_khz) (value_at tRP_values (t2_tRP C) 0) (erista_MemMtcTableAutoAdjust C ws ! (g + e_emc_rp)) \<and>
    covers (ws ! e_rate_khz) (value_at erista_tRFC_values (t5_tRFC C) 0)
      (erista_MemMtcTableAutoAdjust C ws ! (g + e_emc_rfcpb)) \<and>
    900 \<le> sint (erista_MemMtcTableAutoAdjust C ws ! e_min_volt) \<and>
    sint (erista_MemMtcTableAutoAdjust C ws ! e_min_volt) \<le> 1050"
proof -
  let ?r = "ws ! e_rate_khz" let ?T = "erista_CalculateTimings C (tCK_of ?r)"
  have "covers ?r p (GET_CYCLE_CEIL (tCK_of ?r) (of_u32 p))" if "p \<le> 1000" for p
    using cycles_cover [OF that] assms(2,3) by (simp add: covers_def)
  note this [of "e_tRCD ?T"] this [of "e_tRPpb ?T"] this [of "e_tRFCpb ?T"]
  moreover have "e_tRCD ?T \<le> 1000" "e_tRPpb ?T \<le> 1000" "e_tRFCpb ?T \<le> 1000"
    unfolding erista_CalculateTimings_def Let_def by (simp_all add: order_trans [OF settings_small(1)]
        order_trans [OF settings_small(2)] order_trans [OF settings_small(4)])
  moreover have "e_tRCD ?T = value_at tRCD_values (t1_tRCD C) 0" "e_tRPpb ?T = value_at tRP_values (t2_tRP C) 0"
    "e_tRFCpb ?T = value_at erista_tRFC_values (t5_tRFC C) 0"
    unfolding erista_CalculateTimings_def Let_def by simp_all
  moreover note written = e_timing_written [OF _ assms(4,1), of _ _ C]
  have "erista_MemMtcTableAutoAdjust C ws ! (g + e_emc_rd_rcd) = GET_CYCLE_CEIL (tCK_of ?r) (of_u32 (e_tRCD ?T))"
    "erista_MemMtcTableAutoAdjust C ws ! (g + e_emc_rp) = GET_CYCLE_CEIL (tCK_of ?r) (of_u32 (e_tRPpb ?T))"
    "erista_MemMtcTableAutoAdjust C ws ! (g + e_emc_rfcpb) = GET_CYCLE_CEIL (tCK_of ?r) (of_u32 (e_tRFCpb ?T))"
    by (rule written, simp add: e_timing_writes_def Let_def)+
  moreover have "(e_min_volt, clamp_s (900 + emcDvbShift C * 25) 900 1050) \<in> set (e_writes C ws)"
    unfolding e_writes_def Let_def by simp
  then have "erista_MemMtcTableAutoAdjust C ws ! e_min_volt = clamp_s (900 + emcDvbShift C * 25) 900 1050"
    by (rule e_written_nth [OF _ assms(1)])
  moreover have "900 \<le> sint (clamp_s v 900 1050) \<and> sint (clamp_s v 900 1050) \<le> 1050" for v
    by (simp add: clamp_s_def sint_sbintrunc' signed_take_bit_int_eq_self)
  ultimately show ?thesis by simp
qed

lemma erista_registers_cover_witness:
  "covers 1862400 18 (erista_MemMtcTableAutoAdjust C_default ((replicate 1232 0)[16 := 1862400]) ! (e_burst_regs + e_emc_rd_rcd))"
proof -
  let ?ws = "(replicate 1232 0)[16 := 1862400] :: u32 list"
  have r: "?ws ! e_rate_khz = 1862400" by (simp add: e_rate_khz_def)
  have "covers (?ws ! e_rate_khz) (value_at tRCD_values (t1_tRCD C_default) 0)
      (erista_MemMtcTableAutoAdjust C_default ?ws ! (e_burst_regs + e_emc_rd_rcd))"
    by (rule conjunct1 [OF erista_registers_cover]) (simp_all only: r, simp_all add: e_groups_def)
  moreover have "value_at tRCD_values (t1_tRCD C_default) 0 = 18"
    by (simp add: value_at_def tRCD_values_def C_default_def)
  ultimately show ?thesis by (simp add: r)
qed

section \<open>A term that has no effect\<close>

text \<open>
  The difference of the latencies in the time from a write to a read is unsigned, so \<open>-ceil\<close> of it is
  never positive and the maximum with 1.964 is always 1.964: the read latency has no influence.
\<close>

lemma write_to_read_ignores_read_latency: "write_to_read t rl wl wtr fine = write_to_read t rl' wl wtr fine"
proof -
  have "max (- ceil (lit (258 / 1000) * of_u32 d)) (lit (1964 / 1000)) = lit (1964 / 1000)" for d :: u32
  proof -
    have "0 \<le> exact (lit (258 / 1000) * of_u32 d)" unfolding times_double_def lit_def
      by (simp only: double.sel exact_of_u32) (intro fl_bounds(3) mult_nonneg_nonneg of_nat_0_le_iff; simp)
    then have "exact (- ceil (lit (258 / 1000) * of_u32 d)) \<le> 0" by (simp add: uminus_double_def ceil_def)
    also have "0 \<le> exact (lit (1964 / 1000))" unfolding lit_def by (simp only: double.sel) (intro fl_bounds(3), simp)
    finally show ?thesis by (simp add: max_def less_eq_double_def)
  qed
  then show ?thesis by (simp only: write_to_read_def)
qed

end
