(* ===== verification/Mtc_Pll.thy ===== *)
theory Mtc_Pll
  imports Mtc_Registers
begin

text \<open>
  The divider of the memory clock: what \<open>MemMtcPllmbDivisor\<close> writes gives the wanted frequency up to two
  steps of the fraction.
\<close>

lemma trunc_error: "\<bar>of_int (trunc x) - x\<bar> < 1"
  unfolding trunc_def by (cases "0 \<le> x") (simp_all, linarith+)

lemma exact_ops: "exact (x + y) = fl (exact x + exact y)" "exact (x - y) = fl (exact x - exact y)"
  "exact (x * y) = fl (exact x * exact y)" "exact (x / y) = fl (exact x / exact y)"
  by (simp_all add: plus_double_def minus_double_def times_double_def divide_double_def)

lemma fl_half: "fl (1 / 2) = 1 / 2"
  by (simp add: fl_def fl_pos_def last_place_def half_even_def Let_def)

lemma lit_whole: "lit 8192 = Double 8192" "lit (1 / 2) = Double (1 / 2)"
  using fl_of_nat [of 8192] by (simp_all add: lit_def fl_half)

text \<open>A fraction of a step in 1/8192, computed in double precision, is off by less than one and a bit.\<close>

lemma fraction_error:
  assumes q: "0 \<le> q" "q \<le> 256" and n: "of_int n \<le> fl q" "fl q < of_int n + 1"
  shows "\<bar>of_int (trunc (fl (fl (fl (fl q - of_int n) - 1 / 2) * 8192))) - (q - of_int n - 1 / 2) * 8192\<bar> < 1 + 1 / 10 ^ 9"
    "\<bar>fl (fl (fl (fl q - of_int n) - 1 / 2) * 8192)\<bar> \<le> 4097"
proof -
  let ?a = "fl q - of_int n" let ?b = "fl ?a - 1 / 2" let ?c = "fl ?b * 8192"
  have e: "\<bar>fl x - x\<bar> \<le> k / 2 ^ 53" if "\<bar>x\<bar> \<le> k" for x k
    using fl_error [of x] divide_right_mono [OF that, of "2 ^ 53"] by (simp del: divide_numeral_1)
  have 0: "\<bar>fl q - q\<bar> \<le> 256 / 2 ^ 53" using e [of q 256] q by simp
  have 1: "\<bar>fl ?a - ?a\<bar> \<le> 1 / 2 ^ 53" using e [of ?a 1] n by simp
  have a: "\<bar>fl ?a - 1 / 2\<bar> \<le> 1 / 2 + 1 / 2 ^ 53" using 1 n unfolding abs_le_iff by linarith
  have 2: "\<bar>fl ?b - ?b\<bar> \<le> 1 / 2 ^ 53" using e [of ?b 1] a by simp
  have c: "\<bar>?c\<bar> \<le> 8192" using a 2 unfolding abs_le_iff by simp
  have 3: "\<bar>fl ?c - ?c\<bar> \<le> 8192 / 2 ^ 53" by (rule e [OF c])
  have d: "\<bar>fl ?c - (q - of_int n - 1 / 2) * 8192\<bar> < 1 / 10 ^ 9" 
    unfolding abs_less_iff
    using 0 [THEN abs_le_D1] 0 [THEN abs_le_D2] 1 [THEN abs_le_D1] 1 [THEN abs_le_D2] 2 [THEN abs_le_D1]
      2 [THEN abs_le_D2] 3 [THEN abs_le_D1] 3 [THEN abs_le_D2] by simp
  then show "\<bar>of_int (trunc (fl ?c)) - (q - of_int n - 1 / 2) * 8192\<bar> < 1 + 1 / 10 ^ 9"
    using trunc_error [of "fl ?c"] by linarith
  show "\<bar>fl ?c\<bar> \<le> 4097" unfolding abs_le_iff
    using a [THEN abs_le_D1] a [THEN abs_le_D2] 2 [THEN abs_le_D1] 2 [THEN abs_le_D2] 3 [THEN abs_le_D1]
      3 [THEN abs_le_D2] by simp
qed

text \<open>Subtraction with the fraction in the upper half.\<close>

lemma upper_of_int: "(ucast (drop_bit 32 (word_of_int k :: u64)) :: u32) = word_of_int (k div 2 ^ 32)"
  unfolding drop_bit_eq_div [symmetric] by (rule bit_eqI) (auto simp: bit_simps)

lemma int_borrow: "0 \<le> r \<Longrightarrow> r < 2 ^ 32 \<Longrightarrow> 0 \<le> a \<Longrightarrow> a < 2 ^ 32 \<Longrightarrow>
    (2 ^ 32 * f + r - a) div 2 ^ 32 = (if a \<le> r then f else f - (1 :: int))"
  by (auto intro: int_div_pos_eq [of _ _ f "r - a"] int_div_pos_eq [of _ _ "f - 1" "2 ^ 32 + r - a"])

lemma upper_half:
  fixes f r a :: u32
  shows "ucast (drop_bit 32 ((push_bit 32 (ucast f :: u64) OR ucast r) - ucast a)) = (if a \<le> r then f else f - 1)"
proof -
  let ?p = "push_bit 32 (ucast f :: u64) OR ucast r"
  have "?p = push_bit 32 (ucast f :: u64) + ucast r"
    by (rule disjunctive_add [symmetric]) (auto simp: bit_simps dest: bit_imp_le_length)
  then have "?p = 2 ^ 32 * ucast f + ucast r" by (simp add: push_bit_eq_mult mult.commute)
  then have "?p - ucast a = word_of_int (2 ^ 32 * uint f + uint r - uint a)"
    by simp
  then have "ucast (drop_bit 32 (?p - ucast a)) = (word_of_int ((2 ^ 32 * uint f + uint r - uint a) div 2 ^ 32) :: u32)"
    by (simp only: upper_of_int)
  also have "(2 ^ 32 * uint f + uint r - uint a) div 2 ^ 32 = (if uint a \<le> uint r then uint f else uint f - 1)"
    by (rule int_borrow) (simp_all add: uint_lt2p [where 'a = 32, simplified])
  finally show ?thesis by (simp add: word_le_def)
qed

section \<open>The divider and its fraction\<close>

lemma small_word:
  assumes "0 \<le> k" "k < 256"
  shows "sint (ucast (ucast (word_of_int k :: u32) :: u8) :: u32) = k"
    "uint (ucast (ucast (word_of_int k :: u32) :: u8) :: u32) = k"
proof -
  have "uint (word_of_int k :: u32) = k" using assms by (simp add: uint_word_of_int)
  then have u: "uint (ucast (ucast (word_of_int k :: u32) :: u8) :: u32) = k"
    using assms by (simp add: unsigned_ucast_eq unsigned_take_bit_eq take_bit_int_eq_self)
  then show "uint (ucast (ucast (word_of_int k :: u32) :: u8) :: u32) = k" .
  show "sint (ucast (ucast (word_of_int k :: u32) :: u8) :: u32) = k"
    using assms u by (simp add: sint_uint signed_take_bit_int_eq_self)
qed

text \<open>For each divider, the multiplier and the fraction give the frequency up to one step of the fraction.\<close>

lemma pll_values:
  fixes rate m :: u32
  defines "step \<equiv> of_u32 PllOscInKHz / of_u32 m"
  defines "n \<equiv> (ucast (ucast (to_u32 (of_u32 rate / step)) :: u8) :: u32)"
  defines "f \<equiv> pll_fraction (of_u32 rate) step n"
  assumes m: "m = 1 \<or> m = 2" and rate: "rate \<le> 4000000"
  shows "\<bar>8192 * uint m * uint rate - 38400 * (8192 * uint n + 4096 + sint f)\<bar> \<le> 38400 \<and> \<bar>sint f\<bar> \<le> 4097"
proof -
  let ?M = "of_nat (unat m) :: rat" let ?q = "of_nat (unat rate) * ?M / 38400 :: rat"
  have M: "?M = 1 \<or> ?M = 2" using m by auto
  have r: "of_nat (unat rate) \<le> (4000000 :: rat)"
    using rate of_nat_le_iff [of "unat rate" 4000000, where 'a = rat] by (simp add: word_le_nat_alt)
  have r0: "0 \<le> (of_nat (unat rate) :: rat)" by (rule of_nat_0_le_iff)
  have step: "exact step = 38400 / ?M"
    using m fl_of_nat [of 38400] fl_of_nat [of 19200] by (auto simp: step_def exact_ops PllOscInKHz_def)
  have quot: "exact (of_u32 rate / step) = fl ?q" using M by (auto simp: exact_ops step)
  have q: "0 \<le> ?q" "?q \<le> 209"
    using M r r0 by (auto intro: divide_nonneg_nonneg mult_nonneg_nonneg)
  have fq: "0 \<le> fl ?q" "fl ?q < 210"
    using fl_bounds(2,3) [OF q(1)] mult_right_mono [OF q(2), of "1 + 1 / 2 ^ 53"] by simp_all
  let ?N = "\<lfloor>fl ?q\<rfloor>"
  have N: "0 \<le> ?N" "?N < 256" using fq by linarith+
  have "to_u32 (of_u32 rate / step) = word_of_int ?N"
    using N fq(1) by (simp add: to_u32_def trunc_def quot)
  then have n: "sint n = ?N" "uint n = ?N" using small_word [OF N] by (simp_all add: n_def)
  let ?D = "fl (fl (fl (fl ?q - of_int ?N) - 1 / 2) * 8192)"
  have D: "exact ((of_u32 rate / step - of_s32 n - lit (1 / 2)) * lit 8192) = ?D"
    unfolding exact_ops(2,3) quot lit_whole by (simp add: of_s32_def n)
  have b: "of_int ?N \<le> fl ?q" "fl ?q < of_int ?N + 1" "?q \<le> 256" using q(2) by linarith+
  have e: "\<bar>of_int (trunc ?D) - (?q - of_int ?N - 1 / 2) * 8192\<bar> < 1 + 1 / 10 ^ 9" "\<bar>?D\<bar> \<le> 4097"
    using fraction_error [OF q(1) b(3,1,2)] .
  have tr: "\<bar>trunc ?D\<bar> \<le> 4097" using e(2) by (auto simp: trunc_def abs_le_iff ceiling_le_iff le_floor_iff) linarith+
  have "f = word_of_int (trunc ?D)"
    using tr by (simp add: f_def pll_fraction_def to_s32_def D)
  then have f: "sint f = trunc ?D" using tr by (simp add: sint_sbintrunc' signed_take_bit_int_eq_self)
  have "\<bar>of_int (8192 * uint m * uint rate - 38400 * (8192 * uint n + 4096 + sint f)) :: rat\<bar> < of_int 38401"
  proof -
    have "of_int (8192 * uint m * uint rate - 38400 * (8192 * uint n + 4096 + sint f)) =
        - 38400 * (of_int (trunc ?D) - (?q - of_int ?N - 1 / 2) * 8192)"
      by (simp add: n f algebra_simps)
    then show ?thesis using e(1) unfolding abs_mult by (simp only: abs_mult) simp
  qed
  then have "\<bar>8192 * uint m * uint rate - 38400 * (8192 * uint n + 4096 + sint f)\<bar> < 38401"
    by (simp only: of_int_abs [symmetric] of_int_less_iff)
  then show ?thesis using tr by (simp add: f)
qed

section \<open>The registers\<close>

lemma ucast_16: "(ucast (word_of_int k :: u32) :: u16) = word_of_int k"
  by (rule bit_eqI) (auto simp: bit_simps)

lemma sint_16: "\<bar>k\<bar> \<le> 4098 \<Longrightarrow> sint (word_of_int k :: u16) = k"
  by (simp add: sint_sbintrunc' signed_take_bit_int_eq_self)

lemma low_half:
  fixes f w :: u32
  shows "(ucast (ucast (ucast f :: u16) OR push_bit 16 w) :: u16) = ucast f"
    "(ucast ((w AND 0xFFFF0000) OR f) :: u16) = ucast f"
proof -
  show "(ucast (ucast (ucast f :: u16) OR push_bit 16 w) :: u16) = ucast f"
    by (rule bit_eqI) (auto simp: bit_simps)
  have m: "(0xFFFF0000 :: u32) = NOT (mask 16)" by (simp add: mask_eq_exp_minus_1)
  show "(ucast ((w AND 0xFFFF0000) OR f) :: u16) = ucast f"
    unfolding m by (rule bit_eqI) (auto simp: bit_simps)
qed

lemma pllmb_distinct: "distinct (map fst (pllmb_writes ws))"
  unfolding pllmb_writes_def Let_def by (simp add: mariko_layout)

lemma pllmb_nth: "(k, v) \<in> set (pllmb_writes ws) \<Longrightarrow> length ws = 1075 \<Longrightarrow> k \<in> set pll_keys \<Longrightarrow>
    MemMtcPllmbDivisor ws ! k = v"
  unfolding MemMtcPllmbDivisor_def
  by (rule write_words_nth [OF pllmb_distinct]) (auto simp: pll_keys_def mariko_layout)

definition wanted_divm :: "u32 \<Rightarrow> u32" where
  "wanted_divm rate = (if remainder_check rate then 2 else 1)"

definition wanted_step :: "u32 \<Rightarrow> double" where
  "wanted_step rate = of_u32 PllOscInKHz / of_u32 (wanted_divm rate)"

definition wanted_divn :: "u32 \<Rightarrow> u32" where
  "wanted_divn rate = ucast (ucast (to_u32 (of_u32 rate / wanted_step rate)) :: u8)"

definition wanted_fraction :: "u32 \<Rightarrow> u32" where
  "wanted_fraction rate = pll_fraction (of_u32 rate) (wanted_step rate) (wanted_divn rate)"

definition wanted_actual :: "u32 \<Rightarrow> u32" where
  "wanted_actual rate = to_u32 ((of_s32 (wanted_divn rate) + lit (1 / 2) +
     of_u32 (wanted_fraction rate) * lit (122070312 / 10 ^ 12)) * wanted_step rate)"

text \<open>The control word within and outside the range of the spread spectrum.\<close>

definition wanted_setup :: "u32 \<Rightarrow> u32" where
  "wanted_setup rate =
     (let step = wanted_step rate;
          fraction_ssc = pll_fraction (of_u32 (wanted_actual rate) * lit (997 / 1000)) step (wanted_divn rate);
          delta_scaled = (lit (3 / 10) / step + lit (3 / 10) / step) * of_u32 (wanted_fraction rate - fraction_ssc);
          delta_int = to_s32 delta_scaled
      in ssc_setup delta_int (delta_scaled - of_s32 delta_int))"

definition spread_ctrl2 :: "u32 \<Rightarrow> u32" where
  "spread_ctrl2 rate = ucast (ucast (wanted_fraction rate) :: u16) OR
     push_bit 16 (ucast (ucast (wanted_setup rate) :: u16))"

definition plain_ctrl2 :: "u32 \<Rightarrow> u32 \<Rightarrow> u32" where
  "plain_ctrl2 old rate = (old AND 0xFFFF0000) OR
     (if wanted_actual rate \<le> rate then wanted_fraction rate else wanted_fraction rate - 1)"

lemma pll_written:
  assumes "length ws = 1075"
  shows "MemMtcPllmbDivisor ws ! m_pllmb_divm = wanted_divm (ws ! m_rate_khz)"
    "MemMtcPllmbDivisor ws ! m_pllmb_divn = wanted_divn (ws ! m_rate_khz)"
    "\<exists>g. (g = wanted_fraction (ws ! m_rate_khz) \<or> g = wanted_fraction (ws ! m_rate_khz) - 1) \<and>
       (ucast (MemMtcPllmbDivisor ws ! m_pllm_ss_ctrl2) :: u16) = ucast g \<and>
       MemMtcPllmbDivisor ws ! m_pllmb_ss_ctrl2 = MemMtcPllmbDivisor ws ! m_pllm_ss_ctrl2"
proof -
  let ?r = "ws ! m_rate_khz"
  note folds = wanted_divm_def [symmetric] wanted_step_def [symmetric] wanted_divn_def [symmetric]
    wanted_fraction_def [symmetric] wanted_actual_def [symmetric]
  have "(m_pllmb_divm, wanted_divm ?r) \<in> set (pllmb_writes ws)" "(m_pllmb_divn, wanted_divn ?r) \<in> set (pllmb_writes ws)"
    unfolding pllmb_writes_def Let_def folds by simp_all
  then show "MemMtcPllmbDivisor ws ! m_pllmb_divm = wanted_divm ?r" "MemMtcPllmbDivisor ws ! m_pllmb_divn = wanted_divn ?r"
    by (auto intro!: pllmb_nth [OF _ assms] simp: pll_keys_def)
  have "\<exists>g v. (g = wanted_fraction ?r \<or> g = wanted_fraction ?r - 1) \<and> (ucast v :: u16) = ucast g \<and>
      (m_pllm_ss_ctrl2, v) \<in> set (pllmb_writes ws) \<and> (m_pllmb_ss_ctrl2, v) \<in> set (pllmb_writes ws)"
  proof (cases "?r - 2366001 < 133999")
    case True
    have "(m_pllm_ss_ctrl2, spread_ctrl2 ?r) \<in> set (pllmb_writes ws)"
      "(m_pllmb_ss_ctrl2, spread_ctrl2 ?r) \<in> set (pllmb_writes ws)"
      unfolding pllmb_writes_def Let_def folds if_P [OF True] spread_ctrl2_def wanted_setup_def
      by (simp_all only: list.set set_append Un_iff insert_iff simp_thms)
    then show ?thesis using low_half(1) unfolding spread_ctrl2_def by blast
  next
    case False
    have "(m_pllm_ss_ctrl2, plain_ctrl2 (ws ! m_pllm_ss_ctrl2) ?r) \<in> set (pllmb_writes ws)"
      "(m_pllmb_ss_ctrl2, plain_ctrl2 (ws ! m_pllm_ss_ctrl2) ?r) \<in> set (pllmb_writes ws)"
      unfolding pllmb_writes_def Let_def folds upper_half if_not_P [OF False] plain_ctrl2_def [symmetric]
      by (simp_all only: list.set set_append Un_iff insert_iff simp_thms)
    moreover have "(ucast (plain_ctrl2 (ws ! m_pllm_ss_ctrl2) ?r) :: u16) =
        ucast (if wanted_actual ?r \<le> ?r then wanted_fraction ?r else wanted_fraction ?r - 1)"
      unfolding plain_ctrl2_def by (rule low_half(2))
    moreover have "(if wanted_actual ?r \<le> ?r then wanted_fraction ?r else wanted_fraction ?r - 1) = wanted_fraction ?r \<or>
        (if wanted_actual ?r \<le> ?r then wanted_fraction ?r else wanted_fraction ?r - 1) = wanted_fraction ?r - 1"
      by (simp only: split_ifs simp_thms) blast
    ultimately show ?thesis by blast
  qed
  then obtain g v where g: "g = wanted_fraction ?r \<or> g = wanted_fraction ?r - 1" "(ucast v :: u16) = ucast g"
    and v: "(m_pllm_ss_ctrl2, v) \<in> set (pllmb_writes ws)" "(m_pllmb_ss_ctrl2, v) \<in> set (pllmb_writes ws)" by blast
  have "MemMtcPllmbDivisor ws ! m_pllm_ss_ctrl2 = v" "MemMtcPllmbDivisor ws ! m_pllmb_ss_ctrl2 = v"
    using v by (auto intro!: pllmb_nth [OF _ assms] simp: pll_keys_def)
  with g show "\<exists>g. (g = wanted_fraction ?r \<or> g = wanted_fraction ?r - 1) \<and>
       (ucast (MemMtcPllmbDivisor ws ! m_pllm_ss_ctrl2) :: u16) = ucast g \<and>
       MemMtcPllmbDivisor ws ! m_pllmb_ss_ctrl2 = MemMtcPllmbDivisor ws ! m_pllm_ss_ctrl2"
    by auto
qed

lemma wanted_near:
  assumes "rate \<le> 4000000"
  shows "\<bar>8192 * uint (wanted_divm rate) * uint rate -
      38400 * (8192 * uint (wanted_divn rate) + 4096 + sint (wanted_fraction rate))\<bar> \<le> 38400"
    "\<bar>sint (wanted_fraction rate)\<bar> \<le> 4097"
proof -
  have "wanted_divm rate = 1 \<or> wanted_divm rate = 2" by (simp add: wanted_divm_def)
  from pll_values [OF this assms] show "\<bar>8192 * uint (wanted_divm rate) * uint rate -
      38400 * (8192 * uint (wanted_divn rate) + 4096 + sint (wanted_fraction rate))\<bar> \<le> 38400"
    "\<bar>sint (wanted_fraction rate)\<bar> \<le> 4097"
    unfolding wanted_step_def [symmetric] wanted_divn_def [symmetric] wanted_fraction_def [symmetric]
    by (rule conjunct1, rule conjunct2)
qed

text \<open>
  C9. The divider of the memory clock: for a frequency up to 4 GHz the divider is 1 or 2, and with the
  multiplier and the signed fraction in the low half of the control words, the frequency
  \<open>38400 / divm * (divn + 1/2 + fraction / 8192)\<close> is within two steps of the fraction, less than 9.4 kHz,
  of the wanted one; the control words of both loops are equal.
\<close>

theorem pll_hits_frequency:
  assumes "length ws = 1075" "ws ! m_rate_khz \<le> 4000000"
  shows "MemMtcPllmbDivisor ws ! m_pllmb_divm \<in> {1, 2} \<and>
    \<bar>8192 * uint (MemMtcPllmbDivisor ws ! m_pllmb_divm) * uint (ws ! m_rate_khz) -
     38400 * (8192 * uint (MemMtcPllmbDivisor ws ! m_pllmb_divn) + 4096 +
       sint (ucast (MemMtcPllmbDivisor ws ! m_pllmb_ss_ctrl2) :: u16))\<bar> \<le> 2 * 38400 \<and>
    MemMtcPllmbDivisor ws ! m_pllm_ss_ctrl2 = MemMtcPllmbDivisor ws ! m_pllmb_ss_ctrl2"
proof -
  let ?r = "ws ! m_rate_khz" let ?f = "wanted_fraction ?r"
  note w = pll_written [OF assms(1)]
  obtain g where g: "g = ?f \<or> g = ?f - 1" "(ucast (MemMtcPllmbDivisor ws ! m_pllm_ss_ctrl2) :: u16) = ucast g"
    and same: "MemMtcPllmbDivisor ws ! m_pllmb_ss_ctrl2 = MemMtcPllmbDivisor ws ! m_pllm_ss_ctrl2" using w(3) by blast
  have m: "wanted_divm ?r = 1 \<or> wanted_divm ?r = 2" by (simp add: wanted_divm_def)
  note v = wanted_near [OF assms(2)]
  obtain k where k: "g = word_of_int k" "k = sint ?f \<or> k = sint ?f - 1"
    using g(1) by (auto intro: that [of "sint ?f"] that [of "sint ?f - 1"])
  have "\<bar>k\<bar> \<le> 4098" using k(2) v(2) by auto
  then have "sint (ucast g :: u16) = k" unfolding k(1) ucast_16 by (rule sint_16)
  then show ?thesis using v(1) k(2) m unfolding same w(1,2) g(2) by auto
qed

lemma pll_hits_frequency_witness:
  "MemMtcPllmbDivisor ((replicate 1075 0)[16 := 2133000]) ! m_pllmb_divm \<in> {1, 2} \<and>
    MemMtcPllmbDivisor ((replicate 1075 0)[16 := 2133000]) ! m_pllm_ss_ctrl2 =
      MemMtcPllmbDivisor ((replicate 1075 0)[16 := 2133000]) ! m_pllmb_ss_ctrl2"
  using pll_hits_frequency [of "(replicate 1075 0)[16 := 2133000]"] by (simp add: m_rate_khz_def)

text \<open>
  The fraction is signed but used without masking: outside the range of the spread spectrum a negative
  one sets the whole upper half of the control words, whatever it held.
\<close>

lemma negative_fraction_fills_upper_half:
  assumes "length ws = 1075" "\<not> ws ! m_rate_khz - 2366001 < 133999" "ws ! m_rate_khz \<le> 4000000"
    "sint (wanted_fraction (ws ! m_rate_khz)) < 0"
  shows "drop_bit 16 (MemMtcPllmbDivisor ws ! m_pllm_ss_ctrl2) = 0xFFFF"
proof -
  let ?r = "ws ! m_rate_khz" let ?f = "wanted_fraction ?r"
  let ?g = "if wanted_actual ?r \<le> ?r then ?f else ?f - 1"
  have "(m_pllm_ss_ctrl2, plain_ctrl2 (ws ! m_pllm_ss_ctrl2) ?r) \<in> set (pllmb_writes ws)"
    unfolding pllmb_writes_def Let_def wanted_divm_def [symmetric] wanted_step_def [symmetric]
      wanted_divn_def [symmetric] wanted_fraction_def [symmetric] wanted_actual_def [symmetric]
      upper_half if_not_P [OF assms(2)] plain_ctrl2_def [symmetric]
    by (simp_all only: list.set set_append Un_iff insert_iff simp_thms)
  then have reg: "MemMtcPllmbDivisor ws ! m_pllm_ss_ctrl2 = plain_ctrl2 (ws ! m_pllm_ss_ctrl2) ?r"
    by (rule pllmb_nth [OF _ assms(1)]) (simp add: pll_keys_def)
  obtain k where k: "?g = word_of_int k" "k = sint ?f \<or> k = sint ?f - 1"
    by (cases "wanted_actual ?r \<le> ?r") (auto intro: that [of "sint ?f"] that [of "sint ?f - 1"])
  then have k0: "- 4098 \<le> k" "k < 0" using assms(4) wanted_near(2) [OF assms(3)] by auto
  have "uint (word_of_int k :: u32) = (k + 2 ^ 32) mod 2 ^ 32" by (simp add: uint_word_of_int)
  also have "\<dots> = k + 2 ^ 32" using k0 by (intro mod_pos_pos_trivial) auto
  finally have "uint (drop_bit 16 (word_of_int k :: u32)) = (k + 2 ^ 32) div 65536"
    by (simp add: drop_bit_eq_div uint_div)
  also have "\<dots> = 0xFFFF" using k0 by (intro int_div_pos_eq [of _ _ _ "k + 65536"]) auto
  finally have top: "drop_bit 16 (word_of_int k :: u32) = 0xFFFF" by (intro word_uint_eqI) simp
  have m: "(0xFFFF :: u32) = mask 16" by (simp add: mask_eq_exp_minus_1)
  have "drop_bit 16 w OR mask 16 = (mask 16 :: u32)" for w :: u32
    by (rule bit_eqI) (auto simp: bit_simps dest: bit_imp_le_length)
  then show ?thesis unfolding reg plain_ctrl2_def k(1) drop_bit_or top m .
qed

text \<open>At 2666 MHz, for example, a standard frequency.\<close>

lemma example_divider: "wanted_divm 2666000 = 1" "wanted_step 2666000 = Double 38400" "wanted_divn 2666000 = 69"
proof -
  have "\<not> remainder_check 2666000"
    by (simp add: remainder_check_def PllOscInKHz_def PllOscHalfKHz_def Let_def)
  then show m: "wanted_divm 2666000 = 1" by (simp add: wanted_divm_def)
  show s: "wanted_step 2666000 = Double 38400"
    using fl_of_nat [of 38400] by (simp add: wanted_step_def m PllOscInKHz_def divide_double_def of_u32_def)
  show "wanted_divn 2666000 = 69" by (simp add: wanted_divn_def s to_u32_def trunc_def double_eval)
qed

lemma example_fraction: "sint (wanted_fraction 2666000) = - 597"
  by (simp add: wanted_fraction_def pll_fraction_def example_divider to_s32_def trunc_def double_eval ceiling_minus)

lemma upper_half_lost:
  assumes "length ws = 1075" "ws ! m_rate_khz = 2666000"
  shows "drop_bit 16 (MemMtcPllmbDivisor ws ! m_pllm_ss_ctrl2) = 0xFFFF"
  by (rule negative_fraction_fills_upper_half [OF assms(1)]) (simp_all add: assms(2) example_fraction)

end
