(* ===== verification/Mariko_Tables.thy ===== *)
theory Mariko_Tables
  imports Mtc_Pll Mariko_Effects
begin

text \<open>
  The memory patch for Mariko as a whole: once the tables of the memory chip are recognised it succeeds,
  and the tables it leaves are the stock ones followed by one for each further clock, the last stock
  table with the new frequency and the registers computed for it.
\<close>

definition table_of :: "pcv_state \<Rightarrow> int \<Rightarrow> nat \<Rightarrow> u32 list" where
  "table_of s start i = words_at s (mtc_at start i) mariko_table_words"

lemma length_table_of [simp]: "length (table_of s start i) = 1075"
  by (simp add: table_of_def mariko_table_words_def)

lemma nth_table_of: "k < 1075 \<Longrightarrow> table_of s start i ! k = nso s (mtc_at start i + int k)"
  by (simp add: table_of_def mariko_table_words_def)

lemma table_apart:
  assumes "i \<noteq> j" "k < 1075"
  shows "mtc_at start j + int k < mtc_at start i \<or> mtc_at start i + 1075 \<le> mtc_at start j + int k"
proof -
  have "int j + 1 \<le> int i \<or> int i + 1 \<le> int j" using assms(1) by linarith
  then show ?thesis using assms(2) by (auto simp: mtc_at_def mariko_table_words_def)
qed

lemma table_of_patch_words:
  assumes "length ws = 1075"
  shows "table_of (patch_words (mtc_at start i) ws s) start j = (if j = i then ws else table_of s start j)"
proof (cases "j = i")
  case True
  then show ?thesis using assms by (intro nth_equalityI) (simp_all add: nth_table_of)
next
  case False
  then have "nso (patch_words (mtc_at start i) ws s) (mtc_at start j + int k) = nso s (mtc_at start j + int k)"
    if "k < 1075" for k
    using table_apart [OF _ that, of i j start] assms by (intro nso_patch_words_outside) auto
  then show ?thesis using False by (intro nth_equalityI) (simp_all add: nth_table_of)
qed

lemma table_of_patch_rate:
  "table_of (patch_word (mtc_at start i + 16) v s) start j =
     (if j = i then (table_of s start i)[16 := v] else table_of s start j)"
proof (cases "j = i")
  case True
  then show ?thesis by (intro nth_equalityI) (auto simp: nth_table_of nth_list_update)
next
  case False
  then have "mtc_at start j + int k \<noteq> mtc_at start i + 16" if "k < 1075" for k
    using table_apart [OF _ that, of i j start] by auto
  then show ?thesis using False by (intro nth_equalityI) (simp_all add: nth_table_of)
qed

lemma table_of_extend:
  "3 \<le> n \<Longrightarrow> table_of (fold (\<lambda>i s. patch_word (mtc_at start i + 16) (fs ! i)
       (patch_words (mtc_at start i) (words_at s (mtc_at start (i - 1)) mariko_table_words) s)) [3..<n] s) start j =
     (if 3 \<le> j \<and> j < n then (table_of s start 2)[16 := fs ! j] else table_of s start j)"
proof (induction n arbitrary: j rule: dec_induct)
  case (step n)
  have "n - Suc 0 = 2 \<or> 3 \<le> n - Suc 0" using step.hyps(1) by auto
  with step show ?case
    by (auto simp: table_of_patch_rate table_of_patch_words table_of_def [symmetric] less_Suc_eq)
qed auto

lemma table_of_adjust:
  "3 \<le> n \<Longrightarrow> table_of (fold (\<lambda>i. adjust_table C (mtc_at start i)) [3..<n] s) start j =
     (if 3 \<le> j \<and> j < n then tuned C (table_of s start j) else table_of s start j)"
proof (induction n arbitrary: j rule: dec_induct)
  case (step n)
  then show ?case
    by (auto simp: adjust_table_def table_of_patch_words table_of_def [symmetric] tuned_def [symmetric] less_Suc_eq)
qed auto

lemma table_of_prepare:
  assumes "j < 3"
  shows "table_of (PrepareMtcMemoryRegion start used s) start j = table_of s used j"
proof -
  have "nso (PrepareMtcMemoryRegion start used s) (mtc_at start j + int k) = nso s (mtc_at used j + int k)"
    if k: "k < 1075" for k
  proof -
    have "1075 * j + k < 3225" using assms k by linarith
    moreover have "mtc_at start j + int k = start + int (1075 * j + k)" "mtc_at used j + int k = used + int (1075 * j + k)"
      by (simp_all add: mtc_at_def mariko_table_words_def)
    ultimately show ?thesis
      by (simp add: PrepareMtcMemoryRegion_def mariko_MtcFullTableSize_def del: of_nat_add of_nat_mult)
  qed
  then show ?thesis by (intro nth_equalityI) (simp_all add: nth_table_of)
qed

lemma validate_tables:
  "MtcValidateAllTables s start fs \<longleftrightarrow> (\<forall>j<length fs. table_of s start j ! 16 = fs ! j \<and> table_of s start j ! 0 = 3)"
  by (auto simp: MtcValidateAllTables_def VerifyMtcTable_def list_all_iff nth_table_of MTC_TABLE_REV_def)
lemma tuned_keeps: "tuned C ws ! 16 = ws ! 16" "tuned C ws ! 0 = ws ! 0"
  by (simp_all add: tuned_def pllmb_keeps m_pllm_ss_cfg_def)

text \<open>
  C5. If the tables for the memory chip of the console are recognised, the memory patch never stops the
  boot: it succeeds, and at the start of the region it leaves one table for each clock of the list, with
  that rate and the right version. The first three are those of the chip; each further one is its last
  stock table with the new rate and the registers computed for it.
\<close>

theorem mariko_memory_tables:
  assumes chip: "GetMtcDramIndex (env_dram_id env) = Some index"
    and stock: "MtcValidateAllTables s (ptr - 2166 + GetMtcOffset index) EmcListDefault"
    and oc: "1600000 < marikoEmcMaxClock C" and fs: "take 3 fs = EmcListDefault"
  shows "\<exists>s'. MemFreqMtcTable env fs C s ptr = (R_Success, s') \<and>
    (\<forall>j<length fs. table_of s' (ptr - 2166) j ! 16 = fs ! j \<and> table_of s' (ptr - 2166) j ! 0 = 3 \<and>
       table_of s' (ptr - 2166) j =
         (if j < 3 then table_of s (ptr - 2166 + GetMtcOffset index) j
          else tuned C ((table_of s (ptr - 2166 + GetMtcOffset index) 2)[16 := fs ! j])))"
proof -
  let ?start = "ptr - 2166" let ?used = "ptr - 2166 + GetMtcOffset index"
  have three: "length EmcListDefault = 3" by (simp add: EmcListDefault_def)
  have len: "3 \<le> length fs" using fs three by (metis length_take min.cobounded1)
  have nth: "fs ! j = EmcListDefault ! j" if "j < 3" for j using fs that by (metis nth_take)
  have used: "table_of s ?used j ! 16 = fs ! j" "table_of s ?used j ! 0 = 3" if "j < 3" for j
    using stock that three by (simp_all add: validate_tables nth)
  let ?s1 = "PrepareMtcMemoryRegion ?start ?used s"
  have s1: "table_of ?s1 ?start j = table_of s ?used j" if "j < 3" for j using that by (rule table_of_prepare)
  let ?s2 = "MtcExtendTables fs ?start ?s1"
  have s2: "table_of ?s2 ?start j = (if j < 3 then table_of s ?used j else (table_of s ?used 2)[16 := fs ! j])"
    if "j < length fs" for j
    using that unfolding MtcExtendTables_def MtcTableCountDefault_def table_of_extend [OF len] by (simp add: s1)
  let ?s3 = "fold (\<lambda>i. adjust_table C (mtc_at ?start i)) [MtcTableCountDefault..<length fs] ?s2"
  have s3: "table_of ?s3 ?start j =
      (if j < 3 then table_of s ?used j else tuned C ((table_of s ?used 2)[16 := fs ! j]))" if "j < length fs" for j
    using that by (simp add: MtcTableCountDefault_def table_of_adjust [OF len] s2)
  have start: "ptr - 16 - int (mariko_table_words * 2) = ?start" by (simp add: mariko_table_words_def)
  have "MtcValidateAllTables ?s1 ?start EmcListDefault" using used nth three by (simp add: validate_tables s1)
  moreover have "MtcValidateAllTables ?s2 ?start fs" using used by (auto simp: validate_tables s2)
  ultimately have "MemFreqMtcTable env fs C s ptr = (R_Success, ?s3)"
    using stock oc unfolding MemFreqMtcTable_def chip start Let_def EmcClkOSLimit_def by (simp add: not_le)
  moreover have "table_of ?s3 ?start j ! 16 = fs ! j \<and> table_of ?s3 ?start j ! 0 = 3" if "j < length fs" for j
    using used that by (auto simp: s3 [OF that] tuned_keeps)
  ultimately show ?thesis using s3 by blast
qed

definition mtc_image :: pcv_state where
  "mtc_image = an_image (\<lambda>a. if (a - 27865) mod 1075 = 16 then EmcListDefault ! nat ((a - 27865) div 1075) else 3)"

lemma mariko_memory_tables_witness:
  "\<exists>s'. MemFreqMtcTable a_boot (EmcListDefault @ [1866000, 2133000]) example_clocks mtc_image 2166 = (R_Success, s') \<and>
    table_of s' 0 4 ! 16 = 2133000"
proof -
  have chip: "GetMtcDramIndex (env_dram_id a_boot) = Some 1" by (simp add: GetMtcDramIndex_def mtcIndexTable_def a_boot_def)
  have stock: "MtcValidateAllTables mtc_image (2166 - 2166 + GetMtcOffset 1) EmcListDefault"
    by (simp add: MtcValidateAllTables_def VerifyMtcTable_def mtc_image_def an_image_def mtc_at_def mariko_table_words_def
      GetMtcOffset_def mariko_MtcFullTableSize_def erista_MtcFullTableSize_def EmcListDefault_def MTC_TABLE_REV_def upt_conv_Cons)
  let ?fs = "EmcListDefault @ [1866000, 2133000]"
  have len: "length ?fs = 5" and hd: "take 3 ?fs = EmcListDefault" and last: "?fs ! 4 = 2133000"
    by (simp_all add: EmcListDefault_def)
  obtain s' where run: "MemFreqMtcTable a_boot ?fs example_clocks mtc_image 2166 = (R_Success, s')"
    and "\<forall>j<length ?fs. table_of s' (2166 - 2166) j ! 16 = ?fs ! j"
    using mariko_memory_tables [OF chip stock example_clocks(1) hd] by blast
  then have "table_of s' 0 4 ! 16 = ?fs ! 4" unfolding len by simp
  with run last show ?thesis by metis
qed

end
