(* ===== verification/Tsensor_Calib.thy ===== *)
theory Tsensor_Calib
  imports Complex_Main Prelude "HOL-Library.Signed_Division" "HOL-Library.Monad_Syntax"
begin

text \<open>
  \<open>tsensor/tsensor_common.hpp\<close> and \<open>tsensor_common.cpp\<close>: the calibration of the temperature sensors from
  the fuses of the chip. The arithmetic is that of the code, at its widths: \<open>s16\<close>, \<open>s32\<close> and \<open>s64\<close> are
  words that are read with \<open>sint\<close>. A division by zero, which the language leaves open, has no result.

  The fuses are a function from the offset of a register to its word.
\<close>

type_synonym s16 = "16 word"
type_synonym s32 = "32 word"
type_synonym s64 = "64 word"
type_synonym fuses = "nat \<Rightarrow> u32"

section \<open>Data\<close>

record TSensorConfig =
  tall :: u32
  tiddq_en :: u32
  ten_count :: u32
  pdiv :: u32
  pdiv_ate :: u32
  tsample :: u32
  tsample_ate :: u32

record FuseCorrCoeff =
  alpha :: s32
  beta :: s32

record TSensorFuse =
  fuse_base_cp_mask :: u32
  fuse_base_cp_shift :: nat
  fuse_base_ft_mask :: u32
  fuse_base_ft_shift :: nat
  fuse_shift_ft_mask :: u32
  fuse_shift_ft_shift :: nat
  fuse_spare_realignment :: nat

record TSensorSharedCalib =
  base_cp :: u32
  base_ft :: u32
  actual_temp_cp :: u32
  actual_temp_ft :: u32

definition FUSE_TSENSOR_COMMON :: nat where "FUSE_TSENSOR_COMMON = 0xA80"
definition FUSE_OFFSET :: nat where "FUSE_OFFSET = 0x800"

section \<open>Arithmetic\<close>

definition div64_s64 :: "s64 \<Rightarrow> s64 \<Rightarrow> s64 option" where
  "div64_s64 dividend divisor =
     (if divisor = 0 then None else Some (word_of_int (sint dividend sdiv sint divisor)))"

definition div64_s64_precise :: "s64 \<Rightarrow> s32 \<Rightarrow> s64 option" where
  "div64_s64_precise a b =
     (let al = push_bit 16 a
      in do {
        r \<leftarrow> div64_s64 (al * 2 + 1) (scast (2 * b));
        Some (signed_drop_bit 16 r)
      })"

definition sign_extend32 :: "u32 \<Rightarrow> nat \<Rightarrow> s32" where
  "sign_extend32 value index =
     (let shift = 31 - index in signed_drop_bit shift (push_bit shift value))"

section \<open>The operations\<close>

definition CalcSharedCal :: "TSensorFuse \<Rightarrow> fuses \<Rightarrow> TSensorSharedCalib" where
  "CalcSharedCal tfuse fuse =
     (let NominalCalibFt = 105;
          NominalCalibCp = 25;
          val = fuse FUSE_TSENSOR_COMMON;
          shifted_ft = drop_bit (fuse_shift_ft_shift tfuse) (val AND fuse_shift_ft_mask tfuse);
          shifted_ft = sign_extend32 shifted_ft 4;
          val' = (if fuse_spare_realignment tfuse \<noteq> 0
                  then fuse (fuse_spare_realignment tfuse + FUSE_OFFSET) else val);
          shifted_cp = sign_extend32 val' 5
      in \<lparr>base_cp = drop_bit (fuse_base_cp_shift tfuse) (val AND fuse_base_cp_mask tfuse),
          base_ft = drop_bit (fuse_base_ft_shift tfuse) (val AND fuse_base_ft_mask tfuse),
          actual_temp_cp = 2 * NominalCalibCp + shifted_cp,
          actual_temp_ft = 2 * NominalCalibFt + shifted_ft\<rparr>)"

definition CALIB_COEFFICIENT :: s32 where "CALIB_COEFFICIENT = 1000000"

definition CalcTSensorCalib ::
  "TSensorConfig \<Rightarrow> TSensorSharedCalib \<Rightarrow> FuseCorrCoeff \<Rightarrow> nat \<Rightarrow> fuses \<Rightarrow> u32 option" where
  "CalcTSensorCalib cfg shared corr offset fuse =
     (let val = fuse (offset + FUSE_OFFSET);
          actual_tsensor_cp = base_cp shared * 64 + sign_extend32 val 12;
          val' = drop_bit 13 (val AND 0x3FFE000);
          actual_tsensor_ft = base_ft shared * 32 + sign_extend32 val' 12;
          delta_sens = actual_tsensor_ft - actual_tsensor_cp;
          delta_temp = actual_temp_ft shared - actual_temp_cp shared;
          mult = pdiv cfg * tsample_ate cfg;
          divi = tsample cfg * pdiv_ate cfg
      in do {
        therma \<leftarrow> div64_s64_precise (scast delta_temp * 2 ^ 13 * scast mult)
                   (scast (scast delta_sens * scast divi :: s64));
        thermb \<leftarrow> div64_s64_precise
                   (scast actual_tsensor_ft * ucast (actual_temp_cp shared)
                    - scast actual_tsensor_cp * ucast (actual_temp_ft shared))
                   delta_sens;
        let therma = (ucast therma :: s16);
        let thermb = (ucast thermb :: s16);
        therma \<leftarrow> div64_s64_precise (scast therma * scast (alpha corr)) CALIB_COEFFICIENT;
        thermb \<leftarrow> div64_s64_precise (scast thermb * scast (alpha corr) + scast (beta corr)) CALIB_COEFFICIENT;
        let therma = (ucast therma :: s16);
        let thermb = (ucast thermb :: s16);
        Some (push_bit 16 (ucast therma) OR ucast thermb)
      })"

section \<open>The arithmetic on integers\<close>

text \<open>What \<open>div64_s64_precise\<close> computes, without a bound on the numbers.\<close>

definition precise :: "int \<Rightarrow> int \<Rightarrow> int" where
  "precise a b = ((a * 2 ^ 17 + 1) sdiv (2 * b)) div 2 ^ 16"

lemma sint_of_int:
  "- (2 ^ (LENGTH('a) - 1)) \<le> k \<Longrightarrow> k < 2 ^ (LENGTH('a) - 1) \<Longrightarrow> sint (word_of_int k :: 'a::len word) = k"
  by (simp add: signed_of_int signed_take_bit_int_eq_self)

lemma scast_of_int:
  "- (2 ^ (LENGTH('a) - 1)) \<le> k \<Longrightarrow> k < 2 ^ (LENGTH('a) - 1) \<Longrightarrow>
    scast (word_of_int k :: 'a::len word) = word_of_int k"
  by (simp add: scast_eq sint_of_int)

lemma ucast_of_int:
  "0 \<le> k \<Longrightarrow> k < 2 ^ LENGTH('a) \<Longrightarrow> ucast (word_of_int k :: 'a::len word) = word_of_int k"
  by (simp add: ucast_eq uint_word_of_int_eq take_bit_int_eq_self)

lemma signed_drop_of_int:
  assumes "- (2 ^ 63) \<le> k" "k < 2 ^ 63"
  shows "signed_drop_bit n (word_of_int k :: s64) = word_of_int (k div 2 ^ n)"
proof -
  have "signed_drop_bit n (word_of_int k :: s64) = word_of_int (sint (signed_drop_bit n (word_of_int k :: s64)))"
    by simp
  also have "\<dots> = word_of_int (k div 2 ^ n)"
    using assms by (simp only: sint_signed_drop_bit_eq drop_bit_eq_div) (simp add: sint_of_int)
  finally show ?thesis .
qed

lemma sdiv_magnitude: "\<bar>(a :: int) sdiv b\<bar> \<le> \<bar>a\<bar>"
proof -
  have "\<bar>a\<bar> div \<bar>b\<bar> \<le> \<bar>a\<bar>"
    using zdiv_mono2 [of "\<bar>a\<bar>" 1 "\<bar>b\<bar>"] by (cases "b = 0") simp_all
  then show ?thesis
    by (auto simp: signed_divide_int_def abs_mult sgn_if pos_imp_zdiv_nonneg_iff)
qed

lemma precise_exact:
  assumes a: "\<bar>a\<bar> < 2 ^ 45" and b: "\<bar>b\<bar> < 2 ^ 30"
  shows "div64_s64_precise (word_of_int a) (word_of_int b) =
    (if b = 0 then None else Some (word_of_int (precise a b)))"
proof -
  have al: "(push_bit 16 (word_of_int a) * 2 + 1 :: s64) = word_of_int (a * 2 ^ 17 + 1)"
    by (simp add: push_bit_eq_mult wi_hom_syms)
  have bl: "(scast (2 * word_of_int b :: s32) :: s64) = word_of_int (2 * b)"
  proof -
    have "(scast (word_of_int (2 * b) :: s32) :: s64) = word_of_int (2 * b)"
      using b by (intro scast_of_int) simp_all
    then show ?thesis by (simp add: wi_hom_syms)
  qed
  have s: "sint (word_of_int (a * 2 ^ 17 + 1) :: s64) = a * 2 ^ 17 + 1"
    using a by (intro sint_of_int) (simp_all add: abs_less_iff)
  have t: "sint (word_of_int (2 * b) :: s64) = 2 * b"
    using b by (intro sint_of_int) simp_all
  have z: "(word_of_int (2 * b) :: s64) = 0 \<longleftrightarrow> b = 0"
    using t by auto
  have m: "\<bar>(a * 2 ^ 17 + 1) sdiv (2 * b)\<bar> \<le> \<bar>a * 2 ^ 17 + 1\<bar>" by (rule sdiv_magnitude)
  have "signed_drop_bit 16 (word_of_int ((a * 2 ^ 17 + 1) sdiv (2 * b)) :: s64) = word_of_int (precise a b)"
  proof -
    define q where "q = (a * 2 ^ 17 + 1) sdiv (2 * b)"
    have "\<bar>q\<bar> \<le> \<bar>a * 2 ^ 17 + 1\<bar>" using m by (simp only: q_def)
    then have "- (2 ^ 63) \<le> q" "q < 2 ^ 63" using a by simp_all
    then show ?thesis unfolding precise_def q_def [symmetric] by (rule signed_drop_of_int)
  qed
  then show ?thesis
    unfolding div64_s64_precise_def Let_def al bl div64_s64_def s t z by simp
qed

lemma sign_extend: "i < 32 \<Longrightarrow> sign_extend32 v i = word_of_int (signed_take_bit i (uint v))"
  by (rule bit_word_eqI)
    (auto simp: sign_extend32_def bit_simps Let_def min_def not_less_eq_eq dest: le_antisym)
text \<open>The two coefficients on integers; a fuse pattern without two distinct points has none.\<close>

definition coefficients ::
  "int \<Rightarrow> int \<Rightarrow> int \<Rightarrow> int \<Rightarrow> int \<Rightarrow> int \<Rightarrow> int \<Rightarrow> int \<Rightarrow> (int \<times> int) option" where
  "coefficients mult divi al be cp ft tcp tft =
     (if ft = cp then None
      else let a = precise ((tft - tcp) * 2 ^ 13 * mult) ((ft - cp) * divi);
               b = precise (ft * tcp - cp * tft) (ft - cp)
           in Some (precise (signed_take_bit 15 a * al) 1000000,
                    precise (signed_take_bit 15 b * al + be) 1000000))"

definition pack_coefficients :: "int \<times> int \<Rightarrow> u32" where
  "pack_coefficients = (\<lambda>(a, b). push_bit 16 (ucast (word_of_int a :: s16)) OR ucast (word_of_int b :: s16))"

text \<open>The calibration points a fuse pattern gives: the counts and the temperatures in half degrees.\<close>

definition count_cp :: "fuses \<Rightarrow> nat \<Rightarrow> int" where
  "count_cp fuse off = uint (drop_bit 11 (fuse 0xA80 AND 0x1FF800)) * 64
     + signed_take_bit 12 (uint (fuse (off + 0x800)))"

definition count_ft :: "fuses \<Rightarrow> nat \<Rightarrow> int" where
  "count_ft fuse off = uint (drop_bit 21 (fuse 0xA80 AND 0xFFE00000)) * 32
     + signed_take_bit 12 (uint (drop_bit 13 (fuse (off + 0x800) AND 0x3FFE000)))"

definition temp_cp :: "fuses \<Rightarrow> int" where
  "temp_cp fuse = 50 + signed_take_bit 5 (uint (fuse 0xA80))"

definition temp_ft :: "fuses \<Rightarrow> int" where
  "temp_ft fuse = 210 + signed_take_bit 4 (uint (drop_bit 6 (fuse 0xA80 AND 0x7C0)))"

definition t210_layout :: TSensorFuse where
  "t210_layout = \<lparr>fuse_base_cp_mask = push_bit 11 0x3FF, fuse_base_cp_shift = 11,
     fuse_base_ft_mask = push_bit 21 0x7FF, fuse_base_ft_shift = 21,
     fuse_shift_ft_mask = push_bit 6 0x1F, fuse_shift_ft_shift = 6, fuse_spare_realignment = 0\<rparr>"

lemma signed_range: "- (2 ^ n) \<le> signed_take_bit n (k :: int) \<and> signed_take_bit n k < 2 ^ n"
  by (simp add: signed_take_bit_int_greater_eq_minus_exp signed_take_bit_int_less_exp)

lemma masked_range:
  "uint (drop_bit n (v AND m :: u32)) \<le> uint m div 2 ^ n" "0 \<le> uint (drop_bit n (v AND m :: u32))"
proof -
  have "uint (drop_bit n (v AND m)) = (uint v AND uint m) div 2 ^ n"
    unfolding drop_bit_eq_div [symmetric] by (rule bit_eqI) (auto simp: bit_simps dest: bit_imp_le_length)
  then show "uint (drop_bit n (v AND m)) \<le> uint m div 2 ^ n"
    by (simp only: zdiv_mono1 AND_upper2 uint_ge_0 zero_less_power zero_less_numeral)
qed (rule unsigned_greater_eq)

lemma base_range: "uint (drop_bit 11 (v AND 0x1FF800 :: u32)) \<le> 1023"
    "uint (drop_bit 21 (v AND 0xFFE00000 :: u32)) \<le> 2047"
  using masked_range(1) [of 11 v "0x1FF800"] masked_range(1) [of 21 v "0xFFE00000"] by simp_all

lemma temp_range: "18 \<le> temp_cp fuse" "temp_cp fuse \<le> 81" "194 \<le> temp_ft fuse" "temp_ft fuse \<le> 225"
  using signed_range [of 5 "uint (fuse 0xA80)"] signed_range [of 4 "uint (drop_bit 6 (fuse 0xA80 AND 0x7C0))"]
  by (simp_all add: temp_cp_def temp_ft_def)

lemma count_range: "- 4096 \<le> count_cp fuse off" "count_cp fuse off \<le> 69567"
    "- 4096 \<le> count_ft fuse off" "count_ft fuse off \<le> 69599"
proof -
  have 12: "- 4096 \<le> signed_take_bit 12 k \<and> signed_take_bit 12 k < 4096" for k :: int
    using signed_range [of 12 k] by simp
  note r = 12 [of "uint (fuse (off + 0x800))"] base_range [of "fuse 0xA80"]
    12 [of "uint (drop_bit 13 (fuse (off + 0x800) AND 0x3FFE000))"]
    masked_range(2) [of 11 "fuse 0xA80" "0x1FF800"] masked_range(2) [of 21 "fuse 0xA80" "0xFFE00000"]
  show "- 4096 \<le> count_cp fuse off" "count_cp fuse off \<le> 69567"
    "- 4096 \<le> count_ft fuse off" "count_ft fuse off \<le> 69599"
    unfolding count_cp_def count_ft_def using r by linarith+
qed
section \<open>The calibration is exact\<close>

lemma shared_exact:
  "CalcSharedCal t210_layout fuse =
    \<lparr>base_cp = drop_bit 11 (fuse 0xA80 AND 0x1FF800), base_ft = drop_bit 21 (fuse 0xA80 AND 0xFFE00000),
     actual_temp_cp = word_of_int (temp_cp fuse), actual_temp_ft = word_of_int (temp_ft fuse)\<rparr>"
  by (simp add: CalcSharedCal_def t210_layout_def Let_def FUSE_TSENSOR_COMMON_def sign_extend
      temp_cp_def temp_ft_def)

lemma count_words:
  "drop_bit 11 (fuse 0xA80 AND 0x1FF800) * 64 + sign_extend32 (fuse (off + 0x800)) 12 = word_of_int (count_cp fuse off)"
  "drop_bit 21 (fuse 0xA80 AND 0xFFE00000) * 32
     + sign_extend32 (drop_bit 13 (fuse (off + 0x800) AND 0x3FFE000)) 12 = word_of_int (count_ft fuse off)"
  by (simp_all add: count_cp_def count_ft_def sign_extend)

text \<open>
  The numbers a sensor brings along: products of its dividers and of its sampling times, and the
  correction of its type.
\<close>

definition in_range :: "TSensorConfig \<Rightarrow> FuseCorrCoeff \<Rightarrow> bool" where
  "in_range cfg corr \<longleftrightarrow>
     uint (pdiv cfg) * uint (tsample_ate cfg) \<le> 6000 \<and>
     1 \<le> uint (tsample cfg) * uint (pdiv_ate cfg) \<and> uint (tsample cfg) * uint (pdiv_ate cfg) \<le> 1500 \<and>
     0 \<le> sint (alpha corr) \<and> sint (alpha corr) \<le> 1200000 \<and> \<bar>sint (beta corr)\<bar> \<le> 10000000"

lemma product_bound: "\<bar>a\<bar> \<le> A \<Longrightarrow> \<bar>b\<bar> \<le> B \<Longrightarrow> \<bar>a * b\<bar> \<le> A * (B :: int)"
  by (simp add: abs_mult mult_mono)

lemma slope_exact:
  assumes "in_range cfg corr" and dt: "0 \<le> dt" "dt \<le> 300" and ds: "\<bar>ds\<bar> \<le> 80000"
  shows "div64_s64_precise
      (scast (word_of_int dt :: s32) * 2 ^ 13 * scast (pdiv cfg * tsample_ate cfg))
      (scast (scast (word_of_int ds :: s32) * scast (tsample cfg * pdiv_ate cfg) :: s64)) =
    (if ds = 0 then None
     else Some (word_of_int (precise (dt * 2 ^ 13 * (uint (pdiv cfg) * uint (tsample_ate cfg)))
       (ds * (uint (tsample cfg) * uint (pdiv_ate cfg))))))"
proof -
  define m where "m = uint (pdiv cfg) * uint (tsample_ate cfg)"
  define d where "d = uint (tsample cfg) * uint (pdiv_ate cfg)"
  have r: "0 \<le> m" "m \<le> 6000" "1 \<le> d" "d \<le> 1500"
    using assms(1) by (simp_all add: in_range_def m_def d_def)
  have mw: "pdiv cfg * tsample_ate cfg = word_of_int m" by (simp add: m_def wi_hom_mult [symmetric])
  have dw: "tsample cfg * pdiv_ate cfg = word_of_int d" by (simp add: d_def wi_hom_mult [symmetric])
  have s: "scast (word_of_int m :: s32) = (word_of_int m :: s64)" "scast (word_of_int d :: s32) = (word_of_int d :: s64)"
      "scast (word_of_int dt :: s32) = (word_of_int dt :: s64)" "scast (word_of_int ds :: s32) = (word_of_int ds :: s64)"
    by (rule scast_of_int; use r dt ds in \<open>simp add: abs_le_iff\<close>)+
  have p: "\<bar>ds * d\<bar> \<le> 80000 * 1500" using ds r by (intro product_bound) simp_all
  have sp: "scast (word_of_int (ds * d) :: s64) = (word_of_int (ds * d) :: s32)"
    by (rule scast_of_int; use p in \<open>simp add: abs_le_iff\<close>)
  have q: "\<bar>dt * (2 ^ 13 * m)\<bar> \<le> 300 * (2 ^ 13 * 6000)" using dt r by (intro product_bound) simp_all
  have "div64_s64_precise (word_of_int (dt * (2 ^ 13 * m))) (word_of_int (ds * d)) =
      (if ds * d = 0 then None else Some (word_of_int (precise (dt * (2 ^ 13 * m)) (ds * d))))"
  proof (rule precise_exact)
    show "\<bar>dt * (2 ^ 13 * m)\<bar> < 2 ^ 45" by (rule le_less_trans [OF q]) simp
    show "\<bar>ds * d\<bar> < 2 ^ 30" by (rule le_less_trans [OF p]) simp
  qed
  moreover have "scast (word_of_int dt :: s32) * 2 ^ 13 * scast (pdiv cfg * tsample_ate cfg)
      = (word_of_int (dt * (2 ^ 13 * m)) :: s64)"
    unfolding mw s by (simp add: wi_hom_mult [symmetric] ac_simps)
  moreover have "scast (scast (word_of_int ds :: s32) * scast (tsample cfg * pdiv_ate cfg) :: s64)
      = (word_of_int (ds * d) :: s32)"
    unfolding dw s wi_hom_mult by (rule sp)
  moreover have "ds * d = 0 \<longleftrightarrow> ds = 0" using r by simp
  ultimately show ?thesis unfolding m_def [symmetric] d_def [symmetric] by (simp only: mult.assoc)
qed
lemma offset_exact:
  assumes "\<bar>cp\<bar> \<le> 80000" "\<bar>ft\<bar> \<le> 80000" "0 \<le> tcp" "tcp \<le> 300" "0 \<le> tft" "tft \<le> 300"
  shows "div64_s64_precise
      (scast (word_of_int ft :: s32) * ucast (word_of_int tcp :: u32)
        - scast (word_of_int cp :: s32) * ucast (word_of_int tft :: u32))
      (word_of_int (ft - cp)) =
    (if ft = cp then None else Some (word_of_int (precise (ft * tcp - cp * tft) (ft - cp))))"
proof -
  have s: "scast (word_of_int ft :: s32) = (word_of_int ft :: s64)" "scast (word_of_int cp :: s32) = (word_of_int cp :: s64)"
    by (rule scast_of_int; use assms in \<open>simp add: abs_le_iff\<close>)+
  have u: "ucast (word_of_int tcp :: u32) = (word_of_int tcp :: s64)" "ucast (word_of_int tft :: u32) = (word_of_int tft :: s64)"
    by (rule ucast_of_int; use assms in simp)+
  have p: "\<bar>ft * tcp\<bar> \<le> 80000 * 300" "\<bar>cp * tft\<bar> \<le> 80000 * 300"
    using assms by (intro product_bound; simp)+
  have "div64_s64_precise (word_of_int (ft * tcp - cp * tft)) (word_of_int (ft - cp)) =
      (if ft - cp = 0 then None else Some (word_of_int (precise (ft * tcp - cp * tft) (ft - cp))))"
    by (rule precise_exact; use p assms(1,2) in simp)
  then show ?thesis unfolding s u by (simp only: wi_hom_mult wi_hom_sub eq_iff_diff_eq_0 [of ft cp])
qed

lemma s16_of_int: "scast (ucast (word_of_int k :: s64) :: s16) = (word_of_int (signed_take_bit 15 k) :: s64)"
  by (rule bit_word_eqI) (auto simp: bit_simps min_def not_less_eq_eq)

lemma u16_of_int: "(ucast (word_of_int k :: s64) :: s16) = word_of_int k"
  by (rule bit_word_eqI) (auto simp: bit_simps)

lemma correction_exact:
  assumes "0 \<le> sint al" "sint al \<le> 1200000" "\<bar>sint be\<bar> \<le> 10000000"
  shows "div64_s64_precise (scast (ucast (word_of_int k :: s64) :: s16) * scast (al :: s32) + scast (be :: s32))
      CALIB_COEFFICIENT =
    Some (word_of_int (precise (signed_take_bit 15 k * sint al + sint be) 1000000))"
proof -
  have k: "\<bar>signed_take_bit 15 k\<bar> \<le> 32768" using signed_range [of 15 k] by (simp add: abs_le_iff)
  have a: "\<bar>sint al\<bar> \<le> 1200000" using assms by linarith
  note p = product_bound [OF k a]
  have b: "\<bar>signed_take_bit 15 k * sint al + sint be\<bar> < 2 ^ 45"
    by (rule le_less_trans [OF abs_triangle_ineq], rule le_less_trans [OF add_mono [OF p assms(3)]]) simp
  have "(scast al :: s64) = word_of_int (sint al)" "(scast be :: s64) = word_of_int (sint be)"
    by (rule scast_eq)+
  then have "(scast (ucast (word_of_int k :: s64) :: s16) * scast al + scast be :: s64)
      = word_of_int (signed_take_bit 15 k * sint al + sint be)"
    by (simp only: s16_of_int wi_hom_mult wi_hom_add)
  moreover have "CALIB_COEFFICIENT = word_of_int 1000000" by (simp add: CALIB_COEFFICIENT_def)
  ultimately show ?thesis using precise_exact [OF b, of 1000000] by simp
qed

lemma calibration_exact:
  assumes "in_range cfg corr"
  shows "CalcTSensorCalib cfg (CalcSharedCal t210_layout fuse) corr off fuse =
    map_option pack_coefficients
      (coefficients (uint (pdiv cfg) * uint (tsample_ate cfg)) (uint (tsample cfg) * uint (pdiv_ate cfg))
        (sint (alpha corr)) (sint (beta corr))
        (count_cp fuse off) (count_ft fuse off) (temp_cp fuse) (temp_ft fuse))"
proof -
  let ?cp = "count_cp fuse off" and ?ft = "count_ft fuse off" and ?tc = "temp_cp fuse" and ?tf = "temp_ft fuse"
  note r = count_range [where fuse = fuse and off = off] temp_range [where fuse = fuse]
  have sub: "(word_of_int a - word_of_int b :: 'a::len word) = word_of_int (a - b)" for a b
    by (rule wi_hom_sub)
  have slope: "div64_s64_precise
      (scast (word_of_int (?tf - ?tc) :: s32) * 2 ^ 13 * scast (pdiv cfg * tsample_ate cfg))
      (scast (scast (word_of_int (?ft - ?cp) :: s32) * scast (tsample cfg * pdiv_ate cfg) :: s64)) =
    (if ?ft - ?cp = 0 then None
     else Some (word_of_int (precise ((?tf - ?tc) * 2 ^ 13 * (uint (pdiv cfg) * uint (tsample_ate cfg)))
       ((?ft - ?cp) * (uint (tsample cfg) * uint (pdiv_ate cfg))))))"
    by (rule slope_exact [OF assms]) (use r in \<open>simp_all add: abs_le_iff\<close>)
  have offs: "div64_s64_precise
      (scast (word_of_int ?ft :: s32) * ucast (word_of_int ?tc :: u32)
        - scast (word_of_int ?cp :: s32) * ucast (word_of_int ?tf :: u32))
      (word_of_int (?ft - ?cp)) =
    (if ?ft = ?cp then None else Some (word_of_int (precise (?ft * ?tc - ?cp * ?tf) (?ft - ?cp))))"
    by (rule offset_exact) (use r in \<open>simp_all add: abs_le_iff\<close>)
  have corr: "0 \<le> sint (alpha corr)" "sint (alpha corr) \<le> 1200000" "\<bar>sint (beta corr)\<bar> \<le> 10000000"
    using assms by (simp_all add: in_range_def)
  note c1 = correction_exact [where be = 0, OF corr(1,2), simplified, unfolded u16_of_int]
    and c2 = correction_exact [OF corr, unfolded u16_of_int]
  show ?thesis
    unfolding CalcTSensorCalib_def shared_exact Let_def TSensorSharedCalib.simps FUSE_OFFSET_def count_words sub slope offs
      coefficients_def
    by (simp add: c1 c2 pack_coefficients_def u16_of_int)
qed

section \<open>The calibration is accurate\<close>

text \<open>
  With a positive divisor the division rounds down, except for a negative dividend whose remainder is
  within one part in 65536 of the divisor: then it rounds up.
\<close>

lemma int_div_less:
  assumes "0 < c" "x < n * c"
  shows "x div c < (n :: int)"
proof (rule ccontr)
  assume "\<not> x div c < n"
  then have "n * c \<le> x div c * c" using assms(1) by (intro mult_right_mono) simp_all
  moreover have "x div c * c \<le> x" using div_mult_mod_eq [of x c] pos_mod_sign [OF assms(1), of x] by linarith
  ultimately show False using assms(2) by linarith
qed

lemma precise_steps:
  fixes a b :: int
  assumes "0 < b"
  shows "(a * 2 ^ 17 + 1) sdiv (2 * b) =
    (a div b) * 2 ^ 16 + ((a mod b) * 2 ^ 17 + 1) div (2 * b) + (if 0 \<le> a then 0 else 1)"
proof -
  have "(q * b + r) * 2 ^ 17 + 1 = r * 2 ^ 17 + 1 + (q * 2 ^ 16) * (2 * b)" for q r
    by (simp add: algebra_simps)
  from this [of "a div b" "a mod b"]
  have split: "a * 2 ^ 17 + 1 = (a mod b) * 2 ^ 17 + 1 + ((a div b) * 2 ^ 16) * (2 * b)"
    by (simp only: div_mult_mod_eq)
  have d: "(a * 2 ^ 17 + 1) div (2 * b) = (a div b) * 2 ^ 16 + ((a mod b) * 2 ^ 17 + 1) div (2 * b)"
    by (subst split, subst div_mult_self1) (use assms in simp_all)
  have odd: "\<not> 2 * b dvd a * 2 ^ 17 + 1"
  proof
    assume "2 * b dvd a * 2 ^ 17 + 1"
    then have "even (a * 2 ^ 17 + 1)" by (rule dvd_mult_left)
    then show False by simp
  qed
  show ?thesis
    unfolding signed_divide_int_eq_divide_int d using assms odd by (auto simp: sgn_if)
qed

lemma precise_floor:
  assumes "0 < b" "0 \<le> a \<or> b \<le> 65535"
  shows "precise a b = a div b"
proof -
  let ?e = "((a mod b) * 2 ^ 17 + 1) div (2 * b)"
  let ?i = "(if 0 \<le> a then 0 else 1) :: int"
  have r: "0 \<le> a mod b" "a mod b \<le> b - 1" using assms(1) by simp_all
  have "(a mod b) * 2 ^ 17 + 1 < (2 ^ 16 - ?i) * (2 * b)"
    using r assms by (auto simp: algebra_simps)
  then have "?e < 2 ^ 16 - ?i" using assms(1) by (intro int_div_less) simp_all
  moreover have "0 \<le> ?e" using r assms(1) by (simp add: pos_imp_zdiv_nonneg_iff)
  ultimately have "0 \<le> ?e + ?i" "?e + ?i < 2 ^ 16" by auto
  then show ?thesis
    unfolding precise_def precise_steps [OF assms(1)] add.assoc
    by (subst div_mult_self3) simp_all
qed

lemma precise_near:
  assumes "0 < b"
  shows "a div b \<le> precise a b" "precise a b \<le> a div b + 1"
proof -
  let ?e = "((a mod b) * 2 ^ 17 + 1) div (2 * b)"
  let ?i = "(if 0 \<le> a then 0 else 1) :: int"
  have r: "0 \<le> a mod b" "a mod b \<le> b - 1" using assms(1) by simp_all
  have "(a mod b) * 2 ^ 17 + 1 < 2 ^ 16 * (2 * b)" using r by simp
  then have "?e < 2 ^ 16" using assms(1) by (intro int_div_less) simp_all
  moreover have "0 \<le> ?e" using r assms(1) by (simp add: pos_imp_zdiv_nonneg_iff)
  moreover have "precise a b = a div b + (?e + ?i) div 2 ^ 16"
    unfolding precise_def precise_steps [OF assms(1)] add.assoc by (subst div_mult_self3) simp_all
  ultimately show "a div b \<le> precise a b" "precise a b \<le> a div b + 1" by auto
qed

lemma precise_real:
  assumes "0 < b"
  shows "\<bar>real_of_int (precise a b) - a / b\<bar> \<le> 1"
proof -
  have "a div b = \<lfloor>a / b\<rfloor>" by (simp add: floor_divide_of_int_eq)
  then have "real_of_int (a div b) \<le> a / b" "a / b < real_of_int (a div b) + 1" by linarith+
  moreover have "real_of_int (a div b) \<le> precise a b" "real_of_int (precise a b) \<le> real_of_int (a div b) + 1"
    using precise_near [OF assms, of a] by linarith+
  ultimately show ?thesis by (simp only: abs_le_iff) linarith
qed

text \<open>
  The line through the two points, corrected for the type of the sensor: the slope in units of the
  hardware, and the temperature at a count of zero.
\<close>

definition ideal_slope :: "int \<Rightarrow> int \<Rightarrow> int \<Rightarrow> int \<Rightarrow> int \<Rightarrow> real" where
  "ideal_slope mult divi al ds dt = (dt * 2 ^ 13 * mult) / (ds * divi) * al / 1000000"

definition ideal_offset :: "int \<Rightarrow> int \<Rightarrow> int \<Rightarrow> int \<Rightarrow> int \<Rightarrow> int \<Rightarrow> real" where
  "ideal_offset al be cp ft tcp tft = ((ft * tcp - cp * tft) / (ft - cp) * al + be) / 1000000"

lemma fits_s16: "\<bar>k\<bar> < 2 ^ 15 \<Longrightarrow> signed_take_bit 15 k = (k :: int)"
  by (rule signed_take_bit_int_eq_self) (simp_all add: abs_less_iff)

lemma second_division:
  fixes k al be :: int and x :: real
  assumes k: "\<bar>real_of_int k - x\<bar> \<le> 1" "\<bar>x\<bar> \<le> 22000" and al: "0 \<le> al" "al \<le> 1200000" and be: "\<bar>be\<bar> \<le> 10000000"
  shows "signed_take_bit 15 k = k"
    "\<bar>real_of_int (precise (k * al + be) 1000000) - (x * al + be) / 1000000\<bar> \<le> 3"
    "\<bar>precise (k * al + be) 1000000\<bar> < 2 ^ 15"
proof -
  have "\<bar>real_of_int k\<bar> \<le> 22001" using k by linarith
  then have kb: "\<bar>k\<bar> \<le> 22001" by linarith
  then show "signed_take_bit 15 k = k" by (intro fits_s16) simp
  have p: "\<bar>real_of_int (precise (k * al + be) 1000000) - (real_of_int k * al + be) / 1000000\<bar> \<le> 1"
    using precise_real [of 1000000 "k * al + be"] by simp
  have "\<bar>(real_of_int k - x) * al\<bar> \<le> 1 * 1200000"
    unfolding abs_mult using k al by (intro mult_mono) simp_all
  then have d: "\<bar>(real_of_int k * al + be) / 1000000 - (x * al + be) / 1000000\<bar> \<le> 2"
    by (simp add: left_diff_distrib abs_le_iff field_simps)
  from p d show "\<bar>real_of_int (precise (k * al + be) 1000000) - (x * al + be) / 1000000\<bar> \<le> 3" by linarith
  have "\<bar>real_of_int k * real_of_int al\<bar> \<le> 22001 * 1200000"
    unfolding abs_mult using kb al by (intro mult_mono) simp_all
  then have "\<bar>(real_of_int k * al + be) / 1000000\<bar> \<le> 26500" using be by (simp add: abs_le_iff)
  with p have "\<bar>real_of_int (precise (k * al + be) 1000000)\<bar> \<le> 26501" by linarith
  then show "\<bar>precise (k * al + be) 1000000\<bar> < 2 ^ 15" by simp
qed

text \<open>Two calibration points that are not too close to each other and to the origin.\<close>

definition spread :: "int \<Rightarrow> int \<Rightarrow> bool" where
  "spread cp ft \<longleftrightarrow> 400 \<le> ft - cp \<and> cp \<le> 100 * (ft - cp)"

lemma coefficients_accurate:
  assumes m: "0 \<le> mult" "mult \<le> 5 * divi" "1 \<le> divi" and al: "0 \<le> al" "al \<le> 1200000" and be: "\<bar>be\<bar> \<le> 10000000"
    and s: "spread cp ft" and cp: "- 4096 \<le> cp" and t: "18 \<le> tcp" "tcp \<le> 81" "194 \<le> tft" "tft \<le> 225"
  shows "\<exists>a b. coefficients mult divi al be cp ft tcp tft = Some (a, b) \<and>
    \<bar>real_of_int a - ideal_slope mult divi al (ft - cp) (tft - tcp)\<bar> \<le> 3 \<and>
    \<bar>real_of_int b - ideal_offset al be cp ft tcp tft\<bar> \<le> 3 \<and> \<bar>a\<bar> < 2 ^ 15 \<and> \<bar>b\<bar> < 2 ^ 15"
proof -
  define ds where "ds = ft - cp"
  define dt where "dt = tft - tcp"
  have ds: "400 \<le> ds" "cp \<le> 100 * ds" using s by (simp_all add: spread_def ds_def)
  have dt: "0 \<le> dt" "dt \<le> 207" using t by (simp_all add: dt_def)
  have num: "ft * tcp - cp * tft = ds * tcp - cp * dt" by (simp add: ds_def dt_def algebra_simps)
  let ?A = "real_of_int (dt * 2 ^ 13 * mult) / real_of_int (ds * divi)"
  let ?B = "real_of_int (ft * tcp - cp * tft) / real_of_int ds"
  have "dt * 2 ^ 13 * mult \<le> (207 * 2 ^ 13) * (5 * divi)"
    using dt m by (intro mult_mono) simp_all
  also have "\<dots> = 8478720 * divi" by simp
  also have "\<dots> \<le> 22000 * (ds * divi)" using mult_right_mono [of 400 ds divi] ds m by simp
  finally have "real_of_int (dt * 2 ^ 13 * mult) \<le> real_of_int (22000 * (ds * divi))" by (simp only: of_int_le_iff)
  moreover have "0 < real_of_int (ds * divi)" "0 \<le> real_of_int (dt * 2 ^ 13 * mult)" using ds m dt by simp_all
  ultimately have A: "\<bar>?A\<bar> \<le> 22000" by (simp add: abs_le_iff divide_le_eq)
  have "- 4096 * dt \<le> cp * dt" using cp dt by (intro mult_right_mono) simp_all
  moreover have "cp * dt \<le> (100 * ds) * 207"
  proof (cases "0 \<le> cp")
    case True
    then show ?thesis using ds dt by (intro mult_mono) simp_all
  next
    case False
    then have "cp * dt \<le> 0" using dt by (simp add: mult_nonpos_nonneg)
    then show ?thesis using ds by linarith
  qed
  moreover have "0 \<le> ds * tcp" "ds * tcp \<le> ds * 81" using ds t by simp_all
  ultimately have "\<bar>ds * tcp - cp * dt\<bar> \<le> 22000 * ds" unfolding abs_le_iff using ds dt by linarith
  then have "real_of_int \<bar>ft * tcp - cp * tft\<bar> \<le> real_of_int (22000 * ds)"
    unfolding num by (simp only: of_int_le_iff)
  then have "\<bar>real_of_int (ft * tcp - cp * tft)\<bar> \<le> 22000 * real_of_int ds"
    by (simp only: of_int_abs of_int_mult of_int_numeral)
  then have B: "\<bar>?B\<bar> \<le> 22000" using ds by (simp add: abs_divide divide_le_eq)
  have pos: "0 < ds * divi" "0 < ds" using ds m by simp_all
  let ?a = "precise (dt * 2 ^ 13 * mult) (ds * divi)" and ?b = "precise (ft * tcp - cp * tft) ds"
  have z: "\<bar>0\<bar> \<le> (10000000 :: int)" by simp
  note a = second_division [OF precise_real [OF pos(1)] A al z, unfolded add_0_right of_int_0]
    and b = second_division [OF precise_real [OF pos(2)] B al be]
  have "coefficients mult divi al be cp ft tcp tft = Some (precise (?a * al) 1000000, precise (?b * al + be) 1000000)"
    using ds unfolding coefficients_def Let_def ds_def [symmetric] dt_def [symmetric] a(1) b(1) by (auto simp: ds_def)
  moreover have "ideal_slope mult divi al ds dt = ?A * al / 1000000"
      "ideal_offset al be cp ft tcp tft = (?B * al + be) / 1000000"
    by (simp_all only: ideal_slope_def ideal_offset_def ds_def of_int_mult of_int_diff of_int_power of_int_numeral)
  ultimately show ?thesis
    unfolding ds_def [symmetric] dt_def [symmetric] using a(2,3) b(2,3) by (simp only: ex_simps simp_thms prod.inject option.inject) simp
qed
text \<open>The two halves of a calibration register.\<close>

lemma pack_fields:
  assumes "\<bar>a\<bar> < 2 ^ 15" "\<bar>b\<bar> < 2 ^ 15"
  shows "sint (ucast (drop_bit 16 (pack_coefficients (a, b))) :: s16) = a"
    "sint (ucast (pack_coefficients (a, b)) :: s16) = b"
proof -
  have "(ucast (drop_bit 16 (pack_coefficients (a, b))) :: s16) = word_of_int a"
    "(ucast (pack_coefficients (a, b)) :: s16) = word_of_int b"
    unfolding pack_coefficients_def by (simp_all, (rule bit_word_eqI, auto simp: bit_simps)+)
  moreover have "sint (word_of_int k :: s16) = k" if "\<bar>k\<bar> < 2 ^ 15" for k
    using that by (intro sint_of_int) (simp_all add: abs_less_iff)
  ultimately show "sint (ucast (drop_bit 16 (pack_coefficients (a, b))) :: s16) = a"
    "sint (ucast (pack_coefficients (a, b)) :: s16) = b"
    using assms by simp_all
qed

definition mult_of :: "TSensorConfig \<Rightarrow> int" where
  "mult_of cfg = uint (pdiv cfg) * uint (tsample_ate cfg)"

definition div_of :: "TSensorConfig \<Rightarrow> int" where
  "div_of cfg = uint (tsample cfg) * uint (pdiv_ate cfg)"

lemma calibration_accurate:
  assumes r: "in_range cfg corr" "mult_of cfg \<le> 5 * div_of cfg"
    and s: "spread (count_cp fuse off) (count_ft fuse off)"
  shows "\<exists>w. CalcTSensorCalib cfg (CalcSharedCal t210_layout fuse) corr off fuse = Some w \<and>
    \<bar>sint (ucast (drop_bit 16 w) :: s16)
      - ideal_slope (mult_of cfg) (div_of cfg) (sint (alpha corr))
          (count_ft fuse off - count_cp fuse off) (temp_ft fuse - temp_cp fuse)\<bar> \<le> 3 \<and>
    \<bar>sint (ucast w :: s16)
      - ideal_offset (sint (alpha corr)) (sint (beta corr))
          (count_cp fuse off) (count_ft fuse off) (temp_cp fuse) (temp_ft fuse)\<bar> \<le> 3"
proof -
  have m: "0 \<le> mult_of cfg" "1 \<le> div_of cfg" and c: "0 \<le> sint (alpha corr)" "sint (alpha corr) \<le> 1200000"
      "\<bar>sint (beta corr)\<bar> \<le> 10000000"
    using r(1) by (simp_all add: in_range_def mult_of_def div_of_def)
  obtain a b where ab: "coefficients (mult_of cfg) (div_of cfg) (sint (alpha corr)) (sint (beta corr))
        (count_cp fuse off) (count_ft fuse off) (temp_cp fuse) (temp_ft fuse) = Some (a, b)"
      "\<bar>a - ideal_slope (mult_of cfg) (div_of cfg) (sint (alpha corr))
          (count_ft fuse off - count_cp fuse off) (temp_ft fuse - temp_cp fuse)\<bar> \<le> 3"
      "\<bar>b - ideal_offset (sint (alpha corr)) (sint (beta corr))
          (count_cp fuse off) (count_ft fuse off) (temp_cp fuse) (temp_ft fuse)\<bar> \<le> 3"
      "\<bar>a\<bar> < 2 ^ 15" "\<bar>b\<bar> < 2 ^ 15"
    using coefficients_accurate [OF m(1) r(2) m(2) c s count_range(1) temp_range] by blast
  show ?thesis
    unfolding calibration_exact [OF r(1)] mult_of_def [symmetric] div_of_def [symmetric] ab(1) option.map(2)
    using ab(2,3) by (intro exI [of _ "pack_coefficients (a, b)"]) (simp only: pack_fields [OF ab(4,5)] simp_thms)
qed

end
