(* ===== verification/Soctherm.thy ===== *)
theory Soctherm
  imports Tsensor_Calib Hoc_Types
begin

text \<open>
  \<open>tsensor/soctherm.cpp\<close>: the temperature sensors of the SoC. The three register blocks are functions
  from offsets to words; a register keeps what is written to it. The two words with the temperatures
  change by themselves: what the \<open>n\<close>-th read of one gives is an argument. A block that could not be
  mapped cannot be accessed: then an operation has no result.
\<close>

section \<open>Data\<close>

record TSensorGroup =
  group_name :: string
  id :: u8
  sensor_temp_offset :: nat
  sensor_temp_mask :: u32
  pdiv_mask :: u32
  pllx_hotspot_diff :: u32
  pllx_hotspot_mask :: u32
  hw_pllx_offset_mask :: u32
  hw_pllx_offset_en_mask :: u32
  thermtrip_enable_mask :: u32
  thermtrip_any_en_mask :: u32
  thermtrip_threshold_mask :: u32
  thermctl_lvl0_offset :: nat
  thermctl_isr_mask :: u32
  thermctl_lvl0_up_thresh_mask :: u32
  thermctl_lvl0_dn_thresh_mask :: u32

record TSensor =
  sensor_name :: string
  base :: nat
  config :: TSensorConfig
  calib_fuse_offset :: nat
  fuse_corr :: FuseCorrCoeff
  group :: TSensorGroup

record TSensorTemps =
  t_cpu :: int
  t_gpu :: int
  t_mem :: int
  t_pllx :: int

definition SENSOR_CONFIG0 :: nat where "SENSOR_CONFIG0 = 0"
definition SENSOR_CONFIG1 :: nat where "SENSOR_CONFIG1 = 4"
definition SENSOR_CONFIG2 :: nat where "SENSOR_CONFIG2 = 8"
definition SENSOR_PDIV :: nat where "SENSOR_PDIV = 0x1C0"
definition SENSOR_HOTSPOT_OFF :: nat where "SENSOR_HOTSPOT_OFF = 0x1C4"
definition SENSOR_TEMP1 :: nat where "SENSOR_TEMP1 = 0x1C8"
definition SENSOR_TEMP2 :: nat where "SENSOR_TEMP2 = 0x1CC"
definition TSENSOR_TSENSOR_CLKEN :: nat where "TSENSOR_TSENSOR_CLKEN = 0x1DC"
definition CLK_RST_CONTROLLER_RST_DEVICES :: nat where "CLK_RST_CONTROLLER_RST_DEVICES = 0xC"
definition CLK_RST_CONTROLLER_CLK_OUT_ENB :: nat where "CLK_RST_CONTROLLER_CLK_OUT_ENB = 0x18"
definition CAR_CLK_SOURCE_TSENSOR :: nat where "CAR_CLK_SOURCE_TSENSOR = 0x3B8"
definition CAR_CLK_OUT_ENB_V :: nat where "CAR_CLK_OUT_ENB_V = 0x360"
definition CAR_CLK_SOURCE_TSENSOR_VAL :: u32 where "CAR_CLK_SOURCE_TSENSOR_VAL = 0x8000005E"
definition PDIV_RATE_T210B0 :: u32 where "PDIV_RATE_T210B0 = 0xCC0C"
definition PDIV_RATE_T210 :: u32 where "PDIV_RATE_T210 = 0x8888"
definition HOTSPOT_VAL :: u32 where "HOTSPOT_VAL = 0xA0500"
definition PDIV_MASK_T210B0 :: u32 where "PDIV_MASK_T210B0 = 0xFFFF00F0"
definition PDIV_MASK_T210 :: u32 where "PDIV_MASK_T210 = 0xFFFF0000"
definition HOTSPOT_MASK_T210B0 :: u32 where "HOTSPOT_MASK_T210B0 = 0xFF0000FF"
definition HOTSPOT_MASK_T210 :: u32 where "HOTSPOT_MASK_T210 = 0xFF000000"
definition TSENSOR_TSENSOR_ENABLE :: u32 where "TSENSOR_TSENSOR_ENABLE = 225"

definition tfuse :: TSensorFuse where
  "tfuse = \<lparr>fuse_base_cp_mask = push_bit 11 0x3FF, fuse_base_cp_shift = 11,
     fuse_base_ft_mask = push_bit 21 0x7FF, fuse_base_ft_shift = 21,
     fuse_shift_ft_mask = push_bit 6 0x1F, fuse_shift_ft_shift = 6, fuse_spare_realignment = 0\<rparr>"

definition eristaConf :: TSensorConfig where
  "eristaConf = \<lparr>tall = 16300, tiddq_en = 1, ten_count = 1, pdiv = 8, pdiv_ate = 8, tsample = 120, tsample_ate = 480\<rparr>"

definition marikoConf :: TSensorConfig where
  "marikoConf = \<lparr>tall = 16300, tiddq_en = 1, ten_count = 1, pdiv = 12, pdiv_ate = 6, tsample = 240, tsample_ate = 480\<rparr>"

definition tSensorGroupCpu :: TSensorGroup where
  "tSensorGroupCpu = \<lparr>group_name = ''cpu'', id = 0, sensor_temp_offset = SENSOR_TEMP1,
     sensor_temp_mask = 0xFFFF0000, pdiv_mask = 0xF000, pllx_hotspot_diff = 10, pllx_hotspot_mask = 0xFF0000,
     hw_pllx_offset_mask = 0xFF, hw_pllx_offset_en_mask = 2, thermtrip_enable_mask = 0x10000000,
     thermtrip_any_en_mask = 0x80000000, thermtrip_threshold_mask = push_bit 9 0x1FF, thermctl_lvl0_offset = 0x0,
     thermctl_isr_mask = push_bit 8 3, thermctl_lvl0_up_thresh_mask = push_bit 18 0x1FF,
     thermctl_lvl0_dn_thresh_mask = push_bit 9 0x1FF\<rparr>"

definition tSensorGroupGpu :: TSensorGroup where
  "tSensorGroupGpu = \<lparr>group_name = ''gpu'', id = 2, sensor_temp_offset = SENSOR_TEMP1,
     sensor_temp_mask = 0xFFFF, pdiv_mask = 0xF00, pllx_hotspot_diff = 5, pllx_hotspot_mask = 0xFF00,
     hw_pllx_offset_mask = 0xFF00, hw_pllx_offset_en_mask = 1, thermtrip_enable_mask = 0x20000000,
     thermtrip_any_en_mask = 0x80000000, thermtrip_threshold_mask = push_bit 18 0x1FF, thermctl_lvl0_offset = 0x4,
     thermctl_isr_mask = push_bit 16 3, thermctl_lvl0_up_thresh_mask = push_bit 18 0x1FF,
     thermctl_lvl0_dn_thresh_mask = push_bit 9 0x1FF\<rparr>"

definition tSensorGroupPll :: TSensorGroup where
  "tSensorGroupPll = \<lparr>group_name = ''pll'', id = 3, sensor_temp_offset = SENSOR_TEMP2,
     sensor_temp_mask = 0xFFFF, pdiv_mask = 0xF, pllx_hotspot_diff = 0, pllx_hotspot_mask = 0,
     hw_pllx_offset_mask = 0, hw_pllx_offset_en_mask = 0, thermtrip_enable_mask = 0x8000000,
     thermtrip_any_en_mask = 0x80000000, thermtrip_threshold_mask = 0x1FF, thermctl_lvl0_offset = 0xC,
     thermctl_isr_mask = 3, thermctl_lvl0_up_thresh_mask = push_bit 18 0x1FF,
     thermctl_lvl0_dn_thresh_mask = push_bit 9 0x1FF\<rparr>"

definition eristaTSensorGroupMem :: TSensorGroup where
  "eristaTSensorGroupMem = \<lparr>group_name = ''mem'', id = 1, sensor_temp_offset = SENSOR_TEMP2,
     sensor_temp_mask = 0xFFFF0000, pdiv_mask = 0xF0, pllx_hotspot_diff = 0, pllx_hotspot_mask = 0xFF,
     hw_pllx_offset_mask = 0xFF0000, hw_pllx_offset_en_mask = 4, thermtrip_enable_mask = 0x40000000,
     thermtrip_any_en_mask = 0x80000000, thermtrip_threshold_mask = push_bit 18 0x1FF, thermctl_lvl0_offset = 0x8,
     thermctl_isr_mask = push_bit 24 3, thermctl_lvl0_up_thresh_mask = push_bit 18 0x1FF,
     thermctl_lvl0_dn_thresh_mask = push_bit 9 0x1FF\<rparr>"

definition eristaTSensors :: "TSensor list" where
  "eristaTSensors = [
     \<lparr>sensor_name = ''cpu0'', base = 0xc0, config = eristaConf, calib_fuse_offset = 0x198,
       fuse_corr = \<lparr>alpha = 1085000, beta = 3244200\<rparr>, group = tSensorGroupCpu\<rparr>,
     \<lparr>sensor_name = ''cpu1'', base = 0xe0, config = eristaConf, calib_fuse_offset = 0x184,
       fuse_corr = \<lparr>alpha = 1126200, beta = -67500\<rparr>, group = tSensorGroupCpu\<rparr>,
     \<lparr>sensor_name = ''cpu2'', base = 0x100, config = eristaConf, calib_fuse_offset = 0x188,
       fuse_corr = \<lparr>alpha = 1098400, beta = 2251100\<rparr>, group = tSensorGroupCpu\<rparr>,
     \<lparr>sensor_name = ''cpu3'', base = 0x120, config = eristaConf, calib_fuse_offset = 0x22c,
       fuse_corr = \<lparr>alpha = 1108000, beta = 602700\<rparr>, group = tSensorGroupCpu\<rparr>,
     \<lparr>sensor_name = ''gpu'', base = 0x180, config = eristaConf, calib_fuse_offset = 0x254,
       fuse_corr = \<lparr>alpha = 1074300, beta = 2734900\<rparr>, group = tSensorGroupGpu\<rparr>,
     \<lparr>sensor_name = ''pllx'', base = 0x1a0, config = eristaConf, calib_fuse_offset = 0x260,
       fuse_corr = \<lparr>alpha = 1039700, beta = 6829100\<rparr>, group = tSensorGroupPll\<rparr>,
     \<lparr>sensor_name = ''mem0'', base = 0x140, config = eristaConf, calib_fuse_offset = 0x258,
       fuse_corr = \<lparr>alpha = 1069200, beta = 3549900\<rparr>, group = eristaTSensorGroupMem\<rparr>,
     \<lparr>sensor_name = ''mem1'', base = 0x160, config = eristaConf, calib_fuse_offset = 0x25c,
       fuse_corr = \<lparr>alpha = 1173700, beta = -6263600\<rparr>, group = eristaTSensorGroupMem\<rparr>]"

definition marikoTSensors :: "TSensor list" where
  "marikoTSensors = [
     \<lparr>sensor_name = ''cpu0'', base = 0xc0, config = marikoConf, calib_fuse_offset = 0x198,
       fuse_corr = \<lparr>alpha = 1085000, beta = 3244200\<rparr>, group = tSensorGroupCpu\<rparr>,
     \<lparr>sensor_name = ''cpu1'', base = 0xe0, config = marikoConf, calib_fuse_offset = 0x184,
       fuse_corr = \<lparr>alpha = 1126200, beta = -67500\<rparr>, group = tSensorGroupCpu\<rparr>,
     \<lparr>sensor_name = ''cpu2'', base = 0x100, config = marikoConf, calib_fuse_offset = 0x188,
       fuse_corr = \<lparr>alpha = 1098400, beta = 2251100\<rparr>, group = tSensorGroupCpu\<rparr>,
     \<lparr>sensor_name = ''cpu3'', base = 0x120, config = marikoConf, calib_fuse_offset = 0x22c,
       fuse_corr = \<lparr>alpha = 1108000, beta = 602700\<rparr>, group = tSensorGroupCpu\<rparr>,
     \<lparr>sensor_name = ''gpu'', base = 0x180, config = marikoConf, calib_fuse_offset = 0x254,
       fuse_corr = \<lparr>alpha = 1074300, beta = 2734900\<rparr>, group = tSensorGroupGpu\<rparr>,
     \<lparr>sensor_name = ''pllx'', base = 0x1a0, config = marikoConf, calib_fuse_offset = 0x260,
       fuse_corr = \<lparr>alpha = 1039700, beta = 6829100\<rparr>, group = tSensorGroupPll\<rparr>]"

section \<open>State and operations\<close>

record soctherm =
  isMariko :: bool
  calib :: "u32 list"
  soc_mapped :: bool
  fuse_mapped :: bool
  car_mapped :: bool
  soc_regs :: "nat \<Rightarrow> u32"
  car_regs :: "nat \<Rightarrow> u32"

definition write_soc :: "nat \<Rightarrow> u32 \<Rightarrow> soctherm \<Rightarrow> soctherm" where
  "write_soc offset v s = s\<lparr>soc_regs := (soc_regs s)(offset := v)\<rparr>"

definition write_car :: "nat \<Rightarrow> u32 \<Rightarrow> soctherm \<Rightarrow> soctherm" where
  "write_car offset v s = s\<lparr>car_regs := (car_regs s)(offset := v)\<rparr>"

definition SetBits_car :: "nat \<Rightarrow> u32 \<Rightarrow> soctherm \<Rightarrow> soctherm" where
  "SetBits_car offset m s = write_car offset (car_regs s offset OR m) s"

definition IsDisabledThroughSleep :: "soctherm \<Rightarrow> bool" where
  "IsDisabledThroughSleep s \<longleftrightarrow>
     car_regs s CLK_RST_CONTROLLER_RST_DEVICES AND push_bit 14 1 \<noteq> 0 \<or>
     car_regs s CLK_RST_CONTROLLER_CLK_OUT_ENB AND push_bit 14 1 = 0"

definition IsSensorEnabled :: "soctherm \<Rightarrow> bool" where
  "IsSensorEnabled s \<longleftrightarrow> soc_regs s TSENSOR_TSENSOR_CLKEN \<noteq> 0"

definition EnableSensor :: "TSensor \<Rightarrow> nat \<Rightarrow> soctherm \<Rightarrow> soctherm" where
  "EnableSensor sensor sensorIdx s =
     (let cfg = config sensor;
          s = write_soc (base sensor + SENSOR_CONFIG0) (push_bit 8 (tall cfg)) s;
          val = push_bit 0 (tsample cfg - 1);
          val = val OR push_bit 15 (tiddq_en cfg);
          val = val OR push_bit 24 (ten_count cfg);
          val = val OR push_bit 31 1;
          s = write_soc (base sensor + SENSOR_CONFIG1) val s
      in write_soc (base sensor + SENSOR_CONFIG2) (calib s ! sensorIdx) s)"

fun enable_from :: "nat \<Rightarrow> TSensor list \<Rightarrow> soctherm \<Rightarrow> soctherm" where
  "enable_from i [] s = s"
| "enable_from i (x # xs) s = enable_from (Suc i) xs (EnableSensor x i s)"

definition StartSensors :: "soctherm \<Rightarrow> soctherm" where
  "StartSensors s =
     (let s = (if isMariko s then enable_from 0 marikoTSensors s else enable_from 0 eristaTSensors s);
          p = (if isMariko s then (soc_regs s SENSOR_PDIV AND PDIV_MASK_T210B0) OR PDIV_RATE_T210B0
               else (soc_regs s SENSOR_PDIV AND PDIV_MASK_T210) OR PDIV_RATE_T210);
          hotspot = (if isMariko s then (soc_regs s SENSOR_HOTSPOT_OFF AND HOTSPOT_MASK_T210B0) OR HOTSPOT_VAL
               else (soc_regs s SENSOR_HOTSPOT_OFF AND HOTSPOT_MASK_T210) OR HOTSPOT_VAL);
          s = write_soc SENSOR_PDIV p s;
          s = write_soc SENSOR_HOTSPOT_OFF hotspot s
      in write_soc TSENSOR_TSENSOR_CLKEN TSENSOR_TSENSOR_ENABLE s)"

definition TranslateTemp :: "u16 \<Rightarrow> int" where
  "TranslateTemp val =
     (let t = uint (drop_bit 8 (val AND 0xFF00)) * 1000;
          t = (if val AND 0x80 \<noteq> 0 then t + 500 else t)
      in if val AND 1 \<noteq> 0 then t * - 1 else t)"

definition ReadTSensors ::
  "(nat \<Rightarrow> nat \<Rightarrow> u32) \<Rightarrow> HocClkSocType \<Rightarrow> TSensorTemps \<Rightarrow> soctherm \<Rightarrow> (TSensorTemps \<times> soctherm) option" where
  "ReadTSensors status soc temps s =
     (if \<not> car_mapped s then None
      else if IsDisabledThroughSleep s then Some (temps, s)
      else if \<not> soc_mapped s then None
      else
       (let s = (if IsSensorEnabled s then s else StartSensors s);
            cpu = TranslateTemp (ucast (drop_bit 16 (status 0 SENSOR_TEMP1)));
            gpu = TranslateTemp (ucast (status 1 SENSOR_TEMP1 AND 0xFFFF));
            pllx = TranslateTemp (ucast (status 0 SENSOR_TEMP2 AND 0xFFFF));
            mem = (if soc = HocClkSocType_Erista then TranslateTemp (ucast (drop_bit 16 (status 1 SENSOR_TEMP2)))
                   else - 1)
        in Some (\<lparr>t_cpu = cpu, t_gpu = gpu, t_mem = mem, t_pllx = pllx\<rparr>, s)))"

text \<open>The calibration words of a list of sensors, one after the other.\<close>

fun calibrate_from :: "TSensorSharedCalib \<Rightarrow> fuses \<Rightarrow> nat \<Rightarrow> TSensor list \<Rightarrow> u32 list \<Rightarrow> u32 list option" where
  "calibrate_from shared fuse i [] cs = Some cs"
| "calibrate_from shared fuse i (x # xs) cs =
     (case CalcTSensorCalib (config x) shared (fuse_corr x) (calib_fuse_offset x) fuse of
        None \<Rightarrow> None
      | Some w \<Rightarrow> calibrate_from shared fuse (Suc i) xs (cs[i := w]))"

definition InitializeSoctherm ::
  "(string \<Rightarrow> bool) \<Rightarrow> HocClkSocType \<Rightarrow> fuses \<Rightarrow> soctherm \<Rightarrow> soctherm option" where
  "InitializeSoctherm map_ok soc fuse s =
     (let s = s\<lparr>isMariko := (soc = HocClkSocType_Mariko)\<rparr>
      in if \<not> map_ok ''soctherm'' then Some s
      else let s = s\<lparr>soc_mapped := True\<rparr>
      in if \<not> map_ok ''fuse'' then Some s
      else let s = s\<lparr>fuse_mapped := True\<rparr>
      in if \<not> map_ok ''car'' then Some s
      else
       (let s = s\<lparr>car_mapped := True\<rparr>;
            s = write_car CAR_CLK_SOURCE_TSENSOR CAR_CLK_SOURCE_TSENSOR_VAL s;
            s = SetBits_car CAR_CLK_OUT_ENB_V 0x10 s;
            sharedCal = CalcSharedCal tfuse fuse
        in case calibrate_from sharedCal fuse 0 (if isMariko s then marikoTSensors else eristaTSensors) (calib s) of
             None \<Rightarrow> None
           | Some cs \<Rightarrow> Some (StartSensors (s\<lparr>calib := cs\<rparr>))))"

section \<open>The sensors\<close>

definition sensors :: "HocClkSocType \<Rightarrow> TSensor list" where
  "sensors soc = (if soc = HocClkSocType_Mariko then marikoTSensors else eristaTSensors)"

lemmas sensor_tables = sensors_def eristaTSensors_def marikoTSensors_def eristaConf_def marikoConf_def
  tSensorGroupCpu_def tSensorGroupGpu_def tSensorGroupPll_def eristaTSensorGroupMem_def

lemmas soc_offsets = SENSOR_CONFIG0_def SENSOR_CONFIG1_def SENSOR_CONFIG2_def SENSOR_PDIV_def SENSOR_HOTSPOT_OFF_def
  SENSOR_TEMP1_def SENSOR_TEMP2_def TSENSOR_TSENSOR_CLKEN_def

lemma tfuse_layout: "tfuse = t210_layout"
  by (simp add: tfuse_def t210_layout_def)

lemma sensors_in_range:
  "x \<in> set (sensors soc) \<Longrightarrow> in_range (config x) (fuse_corr x) \<and> mult_of (config x) \<le> 5 * div_of (config x)"
  by (auto simp: sensor_tables in_range_def mult_of_def div_of_def split: if_splits)

text \<open>The register blocks of two sensors do not overlap, and none reaches the common registers.\<close>

definition apart :: "TSensor \<Rightarrow> TSensor \<Rightarrow> bool" where
  "apart x y \<longleftrightarrow> base x + 8 < base y \<or> base y + 8 < base x"

lemma sensors_apart: "sorted_wrt apart (sensors soc)"
  by (simp add: sensor_tables apart_def)

lemma sensors_below: "x \<in> set (sensors soc) \<Longrightarrow> base x + 8 < SENSOR_PDIV"
  by (auto simp: sensor_tables SENSOR_PDIV_def split: if_splits)

lemma sensors_length: "length (sensors soc) \<le> 8"
  by (simp add: sensor_tables)

section \<open>Switching the sensors on\<close>

lemma enable_fields [simp]:
  "isMariko (EnableSensor x i s) = isMariko s" "calib (EnableSensor x i s) = calib s"
  "car_regs (EnableSensor x i s) = car_regs s" "car_mapped (EnableSensor x i s) = car_mapped s"
  "soc_mapped (EnableSensor x i s) = soc_mapped s"
  by (simp_all add: EnableSensor_def write_soc_def Let_def)

lemma enable_regs:
  "soc_regs (EnableSensor x i s) off =
    (if off = base x + 8 then calib s ! i
     else if off = base x + 4 then (tsample (config x) - 1) OR push_bit 15 (tiddq_en (config x))
       OR push_bit 24 (ten_count (config x)) OR 0x80000000
     else if off = base x then push_bit 8 (tall (config x)) else soc_regs s off)"
  by (simp add: EnableSensor_def write_soc_def Let_def soc_offsets or.assoc)

lemma enable_from_fields [simp]:
  "isMariko (enable_from i xs s) = isMariko s" "calib (enable_from i xs s) = calib s"
  "car_regs (enable_from i xs s) = car_regs s" "car_mapped (enable_from i xs s) = car_mapped s"
  "soc_mapped (enable_from i xs s) = soc_mapped s"
  by (induction i xs s rule: enable_from.induct) simp_all

lemma enable_from_outside:
  "(\<And>x. x \<in> set xs \<Longrightarrow> off < base x \<or> base x + 8 < off) \<Longrightarrow> soc_regs (enable_from i xs s) off = soc_regs s off"
proof (induction i xs s rule: enable_from.induct)
  case (2 i x xs s)
  have "off < base x \<or> base x + 8 < off" by (rule 2(2)) simp
  then have "soc_regs (EnableSensor x i s) off = soc_regs s off" by (auto simp: enable_regs)
  then show ?case using 2 by simp
qed simp

lemma enable_from_at:
  "sorted_wrt apart xs \<Longrightarrow> j < length xs \<Longrightarrow>
    soc_regs (enable_from i xs s) (base (xs ! j) + 8) = calib s ! (i + j) \<and>
    soc_regs (enable_from i xs s) (base (xs ! j)) = push_bit 8 (tall (config (xs ! j)))"
proof (induction i xs s arbitrary: j rule: enable_from.induct)
  case (2 i x xs s)
  show ?case
  proof (cases j)
    case 0
    have "off < base y \<or> base y + 8 < off" if "y \<in> set xs" "off = base x + 8 \<or> off = base x" for y off
      using that 2(2) by (auto simp: apart_def)
    then have "soc_regs (enable_from (Suc i) xs (EnableSensor x i s)) off = soc_regs (EnableSensor x i s) off"
      if "off = base x + 8 \<or> off = base x" for off
      using that by (intro enable_from_outside) blast
    then show ?thesis by (simp add: 0 enable_regs)
  next
    case (Suc k)
    then show ?thesis using 2 by simp
  qed
qed simp

lemma StartSensors_regs:
  assumes "isMariko s \<longleftrightarrow> soc = HocClkSocType_Mariko"
  shows "x \<in> set (sensors soc) \<Longrightarrow> off \<le> base x + 8 \<Longrightarrow>
      soc_regs (StartSensors s) off = soc_regs (enable_from 0 (sensors soc) s) off"
    "soc_regs (StartSensors s) SENSOR_PDIV =
      (if soc = HocClkSocType_Mariko then (soc_regs s SENSOR_PDIV AND PDIV_MASK_T210B0) OR PDIV_RATE_T210B0
       else (soc_regs s SENSOR_PDIV AND PDIV_MASK_T210) OR PDIV_RATE_T210)"
    "soc_regs (StartSensors s) SENSOR_HOTSPOT_OFF =
      (if soc = HocClkSocType_Mariko then (soc_regs s SENSOR_HOTSPOT_OFF AND HOTSPOT_MASK_T210B0) OR HOTSPOT_VAL
       else (soc_regs s SENSOR_HOTSPOT_OFF AND HOTSPOT_MASK_T210) OR HOTSPOT_VAL)"
    "IsSensorEnabled (StartSensors s)"
proof -
  have out: "soc_regs (enable_from 0 (sensors soc) s) off' = soc_regs s off'" if "SENSOR_PDIV \<le> off'" for off'
    using that sensors_below [of _ soc] by (intro enable_from_outside) force
  have e: "(if isMariko s then enable_from 0 marikoTSensors s else enable_from 0 eristaTSensors s)
      = enable_from 0 (sensors soc) s"
    using assms by (simp add: sensors_def)
  show "soc_regs (StartSensors s) off = soc_regs (enable_from 0 (sensors soc) s) off"
    if "x \<in> set (sensors soc)" "off \<le> base x + 8"
    using that sensors_below [OF that(1)] unfolding StartSensors_def e by (simp add: write_soc_def Let_def soc_offsets)
  show "soc_regs (StartSensors s) SENSOR_PDIV =
      (if soc = HocClkSocType_Mariko then (soc_regs s SENSOR_PDIV AND PDIV_MASK_T210B0) OR PDIV_RATE_T210B0
       else (soc_regs s SENSOR_PDIV AND PDIV_MASK_T210) OR PDIV_RATE_T210)"
    "soc_regs (StartSensors s) SENSOR_HOTSPOT_OFF =
      (if soc = HocClkSocType_Mariko then (soc_regs s SENSOR_HOTSPOT_OFF AND HOTSPOT_MASK_T210B0) OR HOTSPOT_VAL
       else (soc_regs s SENSOR_HOTSPOT_OFF AND HOTSPOT_MASK_T210) OR HOTSPOT_VAL)"
    "IsSensorEnabled (StartSensors s)"
    unfolding StartSensors_def e using out [of SENSOR_PDIV] out [of SENSOR_HOTSPOT_OFF] assms
    by (cases soc; simp add: write_soc_def Let_def soc_offsets IsSensorEnabled_def TSENSOR_TSENSOR_ENABLE_def)+
qed

section \<open>Initialisation\<close>

text \<open>
  A word in the calibration register of a sensor is accurate when its halves are the slope and the offset
  of the corrected line through the calibration points in the fuses, up to 3 units.
\<close>

definition register_accurate :: "fuses \<Rightarrow> TSensor \<Rightarrow> u32 \<Rightarrow> bool" where
  "register_accurate fuse x w \<longleftrightarrow>
     (let off = calib_fuse_offset x; al = sint (alpha (fuse_corr x)); be = sint (beta (fuse_corr x)) in
      \<bar>sint (ucast (drop_bit 16 w) :: s16)
        - ideal_slope (mult_of (config x)) (div_of (config x)) al
            (count_ft fuse off - count_cp fuse off) (temp_ft fuse - temp_cp fuse)\<bar> \<le> 3 \<and>
      \<bar>sint (ucast w :: s16)
        - ideal_offset al be (count_cp fuse off) (count_ft fuse off) (temp_cp fuse) (temp_ft fuse)\<bar> \<le> 3)"

lemma sensor_accurate:
  assumes "x \<in> set (sensors soc)"
    and "spread (count_cp fuse (calib_fuse_offset x)) (count_ft fuse (calib_fuse_offset x))"
  shows "\<exists>w. CalcTSensorCalib (config x) (CalcSharedCal tfuse fuse) (fuse_corr x) (calib_fuse_offset x) fuse = Some w
    \<and> register_accurate fuse x w"
  using calibration_accurate [OF conjunct1 [OF sensors_in_range [OF assms(1)]]
      conjunct2 [OF sensors_in_range [OF assms(1)]] assms(2)]
  by (simp only: tfuse_layout register_accurate_def Let_def)

lemma calibrate_from_Some:
  assumes "\<And>x. x \<in> set xs \<Longrightarrow> \<exists>w. CalcTSensorCalib (config x) sh (fuse_corr x) (calib_fuse_offset x) fuse = Some w \<and> P x w"
    and "i + length xs \<le> length cs"
  shows "\<exists>cs'. calibrate_from sh fuse i xs cs = Some cs' \<and> length cs' = length cs \<and>
    (\<forall>j<length xs. P (xs ! j) (cs' ! (i + j))) \<and> (\<forall>j<i. cs' ! j = cs ! j)"
  using assms
proof (induction xs arbitrary: i cs)
  case (Cons x xs)
  obtain w where w: "CalcTSensorCalib (config x) sh (fuse_corr x) (calib_fuse_offset x) fuse = Some w" "P x w"
    using Cons.prems(1) [of x] by auto
  obtain cs' where cs': "calibrate_from sh fuse (Suc i) xs (cs[i := w]) = Some cs'" "length cs' = length cs"
      "\<forall>j<length xs. P (xs ! j) (cs' ! (Suc i + j))" "\<forall>j<Suc i. cs' ! j = cs[i := w] ! j"
    using Cons.IH [of "Suc i" "cs[i := w]"] Cons.prems by auto
  have i: "cs' ! i = w" using cs'(4) Cons.prems(2) by simp
  have "P ((x # xs) ! j) (cs' ! (i + j))" if "j < length (x # xs)" for j
    using that cs'(3) w(2) i by (cases j) auto
  moreover have "\<forall>j<i. cs' ! j = cs ! j" using cs'(4) by auto
  ultimately show ?case using w(1) cs'(1,2) by auto
qed simp

definition pdiv_matches :: "(nat \<Rightarrow> u32) \<Rightarrow> TSensor \<Rightarrow> bool" where
  "pdiv_matches regs x \<longleftrightarrow>
     regs SENSOR_PDIV AND pdiv_mask (group x) = (pdiv (config x) * 0x1111) AND pdiv_mask (group x)"

definition hotspot_matches :: "(nat \<Rightarrow> u32) \<Rightarrow> TSensor \<Rightarrow> bool" where
  "hotspot_matches regs x \<longleftrightarrow>
     regs SENSOR_HOTSPOT_OFF AND pllx_hotspot_mask (group x)
       = (pllx_hotspot_diff (group x) * 0x10101) AND pllx_hotspot_mask (group x)"

lemma rates_match:
  assumes "isMariko s \<longleftrightarrow> soc = HocClkSocType_Mariko" "x \<in> set (sensors soc)"
  shows "pdiv_matches (soc_regs (StartSensors s)) x" "hotspot_matches (soc_regs (StartSensors s)) x"
  using assms(2) unfolding pdiv_matches_def hotspot_matches_def StartSensors_regs(2,3) [OF assms(1)]
  by (auto simp: sensor_tables PDIV_MASK_T210B0_def PDIV_RATE_T210B0_def PDIV_MASK_T210_def PDIV_RATE_T210_def
      HOTSPOT_MASK_T210B0_def HOTSPOT_MASK_T210_def HOTSPOT_VAL_def bit.conj_disj_distrib2 and.assoc split: if_splits)

text \<open>
  C13. When the register blocks are mapped, InitializeSoctherm programs every sensor of the chip: the slope and the
  offset in its calibration register are those of the corrected line through the two calibration points in the fuses,
  up to 3 units, and the clock divider and the hotspot offset of its group agree with the tables. No calibration
  overwrites that of another sensor, and the sensors are switched on.
\<close>

theorem sensors_calibrated:
  assumes map: "\<And>block. map_ok block" and len: "length (calib s) = 8"
    and spread: "\<And>x. x \<in> set (sensors soc) \<Longrightarrow>
      spread (count_cp fuse (calib_fuse_offset x)) (count_ft fuse (calib_fuse_offset x))"
  shows "\<exists>s'. InitializeSoctherm map_ok soc fuse s = Some s' \<and> IsSensorEnabled s' \<and>
    (\<forall>x \<in> set (sensors soc). register_accurate fuse x (soc_regs s' (base x + SENSOR_CONFIG2)) \<and>
       pdiv_matches (soc_regs s') x \<and> hotspot_matches (soc_regs s') x)"
proof -
  let ?m = "soc = HocClkSocType_Mariko"
  define s1 where "s1 = SetBits_car CAR_CLK_OUT_ENB_V 0x10 (write_car CAR_CLK_SOURCE_TSENSOR CAR_CLK_SOURCE_TSENSOR_VAL
    (s\<lparr>isMariko := ?m, soc_mapped := True, fuse_mapped := True, car_mapped := True\<rparr>))"
  have s1: "isMariko s1 \<longleftrightarrow> ?m" "calib s1 = calib s" by (simp_all add: s1_def SetBits_car_def write_car_def)
  have "0 + length (sensors soc) \<le> length (calib s)" using sensors_length [of soc] len by simp
  then obtain cs where cs: "calibrate_from (CalcSharedCal tfuse fuse) fuse 0 (sensors soc) (calib s) = Some cs"
      "\<forall>j<length (sensors soc). register_accurate fuse (sensors soc ! j) (cs ! (0 + j))"
    using calibrate_from_Some [of "sensors soc" "CalcSharedCal tfuse fuse" fuse "register_accurate fuse" 0 "calib s"]
      sensor_accurate spread by blast
  let ?s' = "StartSensors (s1\<lparr>calib := cs\<rparr>)"
  have m: "isMariko (s1\<lparr>calib := cs\<rparr>) \<longleftrightarrow> ?m" using s1 by simp
  have run: "InitializeSoctherm map_ok soc fuse s = Some ?s'"
    using cs(1) s1 map by (simp add: InitializeSoctherm_def Let_def s1_def sensors_def)
  have "register_accurate fuse x (soc_regs ?s' (base x + SENSOR_CONFIG2))" if x: "x \<in> set (sensors soc)" for x
  proof -
    obtain j where j: "j < length (sensors soc)" "x = sensors soc ! j" using x by (metis in_set_conv_nth)
    have "soc_regs ?s' (base x + 8) = soc_regs (enable_from 0 (sensors soc) (s1\<lparr>calib := cs\<rparr>)) (base x + 8)"
      by (rule StartSensors_regs(1) [OF m x order_refl])
    also have "\<dots> = cs ! (0 + j)"
      using enable_from_at [OF sensors_apart j(1), where i = 0 and s = "s1\<lparr>calib := cs\<rparr>"] by (simp add: j(2))
    finally show ?thesis using cs(2) j by (simp add: SENSOR_CONFIG2_def)
  qed
  then show ?thesis using run rates_match [OF m] StartSensors_regs(4) [OF m] by blast
qed

definition demo_fuses :: fuses where
  "demo_fuses = (\<lambda>off. if off = 0xA80 then 600 * 2 ^ 21 + 200 * 2 ^ 11 else 0)"

lemma demo_spread: "x \<in> set (sensors soc) \<Longrightarrow>
  spread (count_cp demo_fuses (calib_fuse_offset x)) (count_ft demo_fuses (calib_fuse_offset x))"
  by (auto simp: sensor_tables spread_def count_cp_def count_ft_def demo_fuses_def split: if_splits)

definition fresh_soctherm :: soctherm where
  "fresh_soctherm = \<lparr>isMariko = False, calib = replicate 8 0, soc_mapped = False, fuse_mapped = False,
     car_mapped = False, soc_regs = (\<lambda>_. 0), car_regs = (\<lambda>_. 0)\<rparr>"

theorem sensors_calibrated_witness:
  "\<exists>s'. InitializeSoctherm (\<lambda>_. True) HocClkSocType_Mariko demo_fuses fresh_soctherm = Some s' \<and> IsSensorEnabled s' \<and>
    (\<forall>x \<in> set (sensors HocClkSocType_Mariko).
       register_accurate demo_fuses x (soc_regs s' (base x + SENSOR_CONFIG2)) \<and>
       pdiv_matches (soc_regs s') x \<and> hotspot_matches (soc_regs s') x)"
  by (rule sensors_calibrated) (simp_all add: fresh_soctherm_def demo_spread)

section \<open>Reading the temperatures\<close>

text \<open>The word is a magnitude in half degrees with a sign.\<close>

definition half_degrees :: "u16 \<Rightarrow> nat" where
  "half_degrees val = 2 * unat (drop_bit 8 val) + (if bit val 7 then 1 else 0)"

lemma translate_temp: "TranslateTemp val = (if bit val 0 then - 1 else 1) * (500 * int (half_degrees val))"
proof -
  have "drop_bit 8 (val AND push_bit 8 (mask 8)) = drop_bit 8 val"
    by (rule bit_word_eqI) (auto simp: bit_simps dest: bit_imp_le_length)
  then have "drop_bit 8 (val AND 0xFF00) = drop_bit 8 val" by (simp add: mask_eq_exp_minus_1)
  moreover have "val AND 0x80 \<noteq> 0 \<longleftrightarrow> bit val 7" "val AND 1 \<noteq> 0 \<longleftrightarrow> bit val 0"
    using bit_iff_and_push_bit_not_eq_0 [of val 7] bit_iff_and_push_bit_not_eq_0 [of val 0] by simp_all
  ultimately show ?thesis by (simp add: TranslateTemp_def half_degrees_def Let_def)
qed

lemma half_degrees_less: "half_degrees val < 512"
proof -
  have "unat (drop_bit 8 val) < 256" using unat_drop_bit_eq [of 8 val] unsigned_less [of val, where 'a = nat]
    by (simp add: drop_bit_eq_div)
  then show ?thesis by (simp add: half_degrees_def)
qed

lemma translate_temp_range: "\<bar>TranslateTemp val\<bar> \<le> 255500"
  using half_degrees_less [of val] by (simp add: translate_temp abs_mult)

text \<open>Asleep, the caller's temperatures stay; otherwise the sensors run afterwards and the two words are decoded.\<close>

lemma temperatures_read:
  assumes "car_mapped s" "soc_mapped s"
  shows "\<exists>t s'. ReadTSensors status soc temps s = Some (t, s') \<and> car_regs s' = car_regs s \<and>
    (if IsDisabledThroughSleep s then t = temps \<and> s' = s
     else IsSensorEnabled s' \<and>
       {t_cpu t, t_gpu t, t_pllx t, t_mem t} \<subseteq> {- 255500..255500} \<and>
       t_cpu t = TranslateTemp (ucast (drop_bit 16 (status 0 SENSOR_TEMP1))) \<and>
       t_gpu t = TranslateTemp (ucast (status 1 SENSOR_TEMP1)) \<and>
       t_pllx t = TranslateTemp (ucast (status 0 SENSOR_TEMP2)) \<and>
       (soc = HocClkSocType_Mariko \<longrightarrow> t_mem t = - 1))"
proof -
  have low: "(ucast (v AND 0xFFFF) :: u16) = ucast (v :: u32)" for v
  proof -
    have "(ucast (v AND mask 16) :: u16) = ucast v"
      by (rule bit_word_eqI) (auto simp: bit_simps)
    then show ?thesis by (simp add: mask_eq_exp_minus_1)
  qed
  have c: "car_regs (StartSensors s) = car_regs s" by (simp add: StartSensors_def write_soc_def Let_def)
  have e: "IsSensorEnabled (StartSensors s)"
    by (cases "isMariko s") (rule StartSensors_regs(4) [where soc = HocClkSocType_Mariko], simp,
      rule StartSensors_regs(4) [where soc = HocClkSocType_Erista], simp)
  have r: "- 255500 \<le> TranslateTemp v" "TranslateTemp v \<le> 255500" for v
    using translate_temp_range [of v] by (simp_all add: abs_le_iff)
  show ?thesis
    using assms c e r by (cases soc) (auto simp: ReadTSensors_def Let_def low)
qed

end
