(* ===== verification/Secmon.thy ===== *)
theory Secmon
  imports Prelude
begin

text \<open>
  \<open>Atmosphere-Patches/secmon_smc_register_access.cpp\<close>: which device registers the patched secure monitor
  lets a program read and write. A table has one bit per register; it is built from a list of offsets,
  cut to its used bytes and searched by address. The tables of the memory controller for external memory
  are those of \<open>secmon_emc_access_table_data.inc\<close>; the others come with the system and are arguments,
  like the addresses of the devices. Device registers are a function from virtual addresses to words.

  A violated assumption or an access out of bounds in the construction of a table, which happens while
  compiling, is \<open>None\<close>.
\<close>

section \<open>Building a table\<close>

definition SetRegisterTableAllowed :: "nat \<Rightarrow> u8 list \<Rightarrow> u8 list option" where
  "SetRegisterTableAllowed reg arr =
     (if reg mod 4 \<noteq> 0 then None
      else
       (let reg = reg div 4;
            index = reg div 8;
            m = push_bit (reg mod 8) 1
        in if length arr \<le> index \<or> arr ! index AND m \<noteq> 0 then None
        else
         (let arr = arr[index := arr ! index OR m]
          in if (\<forall>i \<in> set [reg mod 8 + 1..<8]. arr ! index AND push_bit i 1 = 0) \<and>
                (\<forall>i \<in> set [index + 1..<length arr]. arr ! i = 0)
             then Some arr else None)))"

fun SetRegistersAllowed :: "nat list \<Rightarrow> u8 list \<Rightarrow> u8 list option" where
  "SetRegistersAllowed [] arr = Some arr"
| "SetRegistersAllowed (r # rs) arr =
     (case SetRegisterTableAllowed r arr of None \<Rightarrow> None | Some arr \<Rightarrow> SetRegistersAllowed rs arr)"

definition GetReducedAccessTableInfo :: "u8 list \<Rightarrow> (nat \<times> nat) option" where
  "GetReducedAccessTableInfo arr =
     (case find (\<lambda>i. arr ! i \<noteq> 0) (rev [0..<length arr]) of
        None \<Rightarrow> None
      | Some final \<Rightarrow>
          (case find (\<lambda>i. arr ! i \<noteq> 0) [0..<final + 1] of
             Some start \<Rightarrow> Some (start, final + 1)
           | None \<Rightarrow> Some (0, final + 1)))"

record AccessTableEntry =
  table :: "u8 list"
  virtual_address :: nat
  address :: nat
  entry_size :: nat

definition AccessTable :: "nat \<Rightarrow> nat \<Rightarrow> u8 list \<Rightarrow> AccessTableEntry option" where
  "AccessTable virt addr RawTable =
     (case GetReducedAccessTableInfo RawTable of
        None \<Rightarrow> None
      | Some (first, second) \<Rightarrow>
         (let reduced = map (\<lambda>i. RawTable ! i) [first..<second];
              sz = length reduced * 4 * 8
          in if sz \<le> 0x1000
             then Some \<lparr>table = reduced, virtual_address = virt, address = addr + first * 4 * 8, entry_size = sz\<rparr>
             else None))"

text \<open>The offsets of \<open>secmon_emc_access_table_data.inc\<close>: every word of the 4 KB.\<close>

definition emc_registers :: "nat list" where
  "emc_registers = map (\<lambda>i. 4 * i) [0..<1024]"

section \<open>An access\<close>

definition IsAccessAllowed :: "AccessTableEntry \<Rightarrow> nat \<Rightarrow> bool" where
  "IsAccessAllowed entry addr =
     (if \<not> (address entry \<le> addr \<and> addr < (address entry + entry_size entry) mod 2 ^ 32) then False
      else
       (let offset = addr - address entry;
            reg_index = offset div 4;
            index = reg_index div 8;
            m = push_bit (reg_index mod 8) (1 :: u8)
        in if entry_size entry div 4 \<le> index then False
           else table entry ! index AND m \<noteq> 0))"

definition GetAccessTableEntry :: "AccessTableEntry list \<Rightarrow> nat \<Rightarrow> AccessTableEntry option" where
  "GetAccessTableEntry AccessTables addr = find (\<lambda>entry. IsAccessAllowed entry addr) AccessTables"

datatype SmcResult = Success | InvalidArgument

record secmon =
  AccessTables :: "AccessTableEntry list"
  mc_physical :: nat
  mc_virtual :: nat
  MC_SMMU_AVPC_ASID :: nat
  MC_SMMU_PPCS1_ASID :: nat
  firmware_below_2 :: bool

text \<open>The arguments are the registers 1, 2 and 3 of the call; register 1 holds the answer.\<close>

definition SmcReadWriteRegister ::
  "secmon \<Rightarrow> u64 \<times> u64 \<times> u64 \<Rightarrow> (nat \<Rightarrow> u32) \<Rightarrow> SmcResult \<times> u64 \<times> (nat \<Rightarrow> u32)" where
  "SmcReadWriteRegister sm args dev =
     (case args of (r1, r2, r3) \<Rightarrow>
      let addr = unat r1;
          m = ucast r2 :: u32;
          v = ucast r3 :: u32
      in if addr mod 4 \<noteq> 0 then (InvalidArgument, r1, dev)
      else
       (let entry = GetAccessTableEntry (AccessTables sm) addr;
            MC = mc_physical sm;
            known = (addr = MC + MC_SMMU_AVPC_ASID sm \<or> addr = MC + MC_SMMU_PPCS1_ASID sm)
        in if entry = None \<and> \<not> known then (InvalidArgument, r1, dev)
        else
         (let va = (case entry of
                      Some e \<Rightarrow> virtual_address e + (addr - address e)
                    | None \<Rightarrow> if firmware_below_2 sm then mc_virtual sm + (addr - MC) else 0)
          in if va \<noteq> 0 then
              (let out = (if m \<noteq> 0xFFFFFFFF then dev va else 0);
                   dev = (if m \<noteq> 0 then dev(va := (out AND NOT m) OR (v AND m)) else dev)
               in (Success, ucast out, dev))
             else (Success, r1, dev))))"

section \<open>The bits of a table\<close>

text \<open>The register with number \<open>n\<close> is allowed by the bytes of a table.\<close>

definition allowed_bit :: "u8 list \<Rightarrow> nat \<Rightarrow> bool" where
  "allowed_bit arr n \<longleftrightarrow> n div 8 < length arr \<and> bit (arr ! (n div 8)) (n mod 8)"

lemma and_single: "(w :: u8) AND push_bit i 1 \<noteq> 0 \<longleftrightarrow> bit w i"
  by (simp only: bit_iff_and_push_bit_not_eq_0)

lemma and_single_0: "(w :: u8) AND push_bit i 1 = 0 \<longleftrightarrow> \<not> bit w i"
  using and_single [of w i] by blast

lemma div_mod_less: "n div 8 = k div 8 \<Longrightarrow> n mod 8 < k mod 8 \<Longrightarrow> n < (k :: nat)"
  by (metis div_mult_mod_eq nat_add_left_cancel_less)

lemma set_allowed:
  assumes "reg mod 4 = 0" "reg div 32 < length arr" "\<And>n. allowed_bit arr n \<Longrightarrow> n < reg div 4"
  shows "\<exists>arr'. SetRegisterTableAllowed reg arr = Some arr' \<and> length arr' = length arr \<and>
    (\<forall>n. allowed_bit arr' n \<longleftrightarrow> n = reg div 4 \<or> allowed_bit arr n)"
proof -
  let ?k = "reg div 4"
  let ?i = "?k div 8"
  have i: "?i < length arr" using assms(2) by (simp add: div_mult2_eq [symmetric])
  have above: "\<not> allowed_bit arr n" if "?k \<le> n" for n using assms(3) [of n] that by auto
  let ?arr = "arr[?i := arr ! ?i OR push_bit (?k mod 8) 1]"
  have free: "\<not> bit (arr ! ?i) j" if "?k mod 8 \<le> j" "j < 8" for j
    using above [of "8 * ?i + j"] that i div_mult_mod_eq [of ?k 8] by (simp add: allowed_bit_def)
  have "arr ! j = 0" if "?i < j" "j < length arr" for j
  proof (rule bit_word_eqI)
    fix n assume n: "n < LENGTH(8)"
    have "?k \<le> 8 * j + n" using that(1) by (metis div_le_mono div_mult_self1_is_m le_add1 less_imp_le_nat
          mult.commute nle_le not_le order_trans zero_less_numeral)
    then show "bit (arr ! j) n \<longleftrightarrow> bit 0 n"
      using above [of "8 * j + n"] n that(2) by (simp add: allowed_bit_def)
  qed
  then have rest: "\<forall>j \<in> set [?i + 1..<length ?arr]. ?arr ! j = 0" by simp
  have bits: "allowed_bit ?arr n \<longleftrightarrow> n = ?k \<or> allowed_bit arr n" for n
  proof (cases "n div 8 = ?i")
    case True
    then have "n = ?k \<longleftrightarrow> n mod 8 = ?k mod 8" by (metis div_mult_mod_eq)
    then show ?thesis using True i by (auto simp: allowed_bit_def bit_simps)
  next
    case False
    then show ?thesis by (auto simp: allowed_bit_def)
  qed
  have "SetRegisterTableAllowed reg arr = Some ?arr"
    using assms(1) i free rest
    by (auto simp: SetRegisterTableAllowed_def Let_def and_single_0 bit_simps simp del: push_bit_of_1)
  then show ?thesis using bits by auto
qed

lemma set_all_allowed:
  assumes "sorted_wrt (<) rs" "\<forall>r \<in> set rs. r mod 4 = 0 \<and> r div 32 < length arr"
    and "\<And>n r. allowed_bit arr n \<Longrightarrow> r \<in> set rs \<Longrightarrow> 4 * n < r"
  shows "\<exists>arr'. SetRegistersAllowed rs arr = Some arr' \<and> length arr' = length arr \<and>
    (\<forall>n. allowed_bit arr' n \<longleftrightarrow> 4 * n \<in> set rs \<or> allowed_bit arr n)"
  using assms
proof (induction rs arbitrary: arr)
  case (Cons r rs)
  have r: "r = 4 * (r div 4)" using Cons.prems(2) by (metis div_mult_mod_eq list.set_intros(1) mult.commute add_0_right)
  have "n < r div 4" if "allowed_bit arr n" for n using Cons.prems(3) [OF that, of r] r by simp
  then obtain a where a: "SetRegisterTableAllowed r arr = Some a" "length a = length arr"
      "\<And>n. allowed_bit a n \<longleftrightarrow> n = r div 4 \<or> allowed_bit arr n"
    using set_allowed [of r arr] Cons.prems(2) by auto
  have "4 * n < q" if "allowed_bit a n" "q \<in> set rs" for n q
    using that a(3) Cons.prems(1,3) r by (auto simp: dest: bspec)
  then obtain b where "SetRegistersAllowed rs a = Some b" "length b = length a"
      "\<And>n. allowed_bit b n \<longleftrightarrow> 4 * n \<in> set rs \<or> allowed_bit a n"
    using Cons.IH [of a] Cons.prems(1,2) a(2) by auto
  then show ?case using a r by auto
qed simp

section \<open>The reduced table decides as the list of registers\<close>

lemma allowed_iff_byte: "(\<exists>n. allowed_bit arr n \<and> n div 8 = i) \<longleftrightarrow> i < length arr \<and> arr ! i \<noteq> 0"
proof -
  have "arr ! i \<noteq> 0 \<longleftrightarrow> (\<exists>j<8. bit (arr ! i) j)"
    by (auto simp: bit_eq_iff dest: bit_imp_le_length)
  moreover have "(\<exists>n. allowed_bit arr n \<and> n div 8 = i) \<longleftrightarrow> i < length arr \<and> (\<exists>j<8. bit (arr ! i) j)"
  proof
    assume "i < length arr \<and> (\<exists>j<8. bit (arr ! i) j)"
    then obtain j where "i < length arr" "j < 8" "bit (arr ! i) j" by auto
    then show "\<exists>n. allowed_bit arr n \<and> n div 8 = i"
      by (intro exI [of _ "8 * i + j"]) (simp add: allowed_bit_def)
  qed (auto simp: allowed_bit_def intro!: exI [of _ "n mod 8" for n :: nat])
  ultimately show ?thesis by simp
qed

lemma reduced_info:
  assumes "allowed_bit arr n"
  shows "\<exists>a b. GetReducedAccessTableInfo arr = Some (a, b) \<and> a < b \<and> b \<le> length arr \<and>
    (\<forall>n. allowed_bit arr n \<longrightarrow> a \<le> n div 8 \<and> n div 8 < b)"
proof -
  have n: "n div 8 < length arr" "arr ! (n div 8) \<noteq> 0" using allowed_iff_byte [of arr "n div 8"] assms by auto
  obtain l where l: "find (\<lambda>i. arr ! i \<noteq> 0) (rev [0..<length arr]) = Some l"
    using n by (cases "find (\<lambda>i. arr ! i \<noteq> 0) (rev [0..<length arr])") (auto simp: find_None_iff)
  have l': "l < length arr" "arr ! l \<noteq> 0" using find_Some_in [OF l] by auto
  obtain f where f: "find (\<lambda>i. arr ! i \<noteq> 0) [0..<l + 1] = Some f"
    using l' by (cases "find (\<lambda>i. arr ! i \<noteq> 0) [0..<l + 1]") (auto simp: find_None_iff)
  have f': "f \<le> l" using find_Some_in [OF f] by auto
  have "f \<le> k \<and> k \<le> l" if k: "k < length arr" "arr ! k \<noteq> 0" for k
  proof
    obtain j where j: "j < length arr" "rev [0..<length arr] ! j = l" "\<forall>i<j. arr ! (rev [0..<length arr] ! i) = 0"
      using l by (auto simp: find_Some_iff)
    then have lj: "l = length arr - Suc j" by (simp add: rev_nth)
    show "k \<le> l"
    proof (rule ccontr)
      assume "\<not> k \<le> l"
      then have "length arr - Suc k < j" "rev [0..<length arr] ! (length arr - Suc k) = k"
        using lj j(1) k(1) by (simp_all add: rev_nth)
      with j(3) k(2) show False by metis
    qed
    obtain i where i: "i < l + 1" "[0..<l + 1] ! i = f" "\<forall>j<i. arr ! ([0..<l + 1] ! j) = 0"
      using f by (auto simp: find_Some_iff)
    then have "i = f" by (simp add: nth_append split: if_splits)
    then have "\<forall>j<f. arr ! j = 0" using i by (auto simp: nth_append split: if_splits)
    then show "f \<le> k" using k(2) by (meson not_le)
  qed
  then have "\<forall>n. allowed_bit arr n \<longrightarrow> f \<le> n div 8 \<and> n div 8 < l + 1"
    using allowed_iff_byte [of arr] by (metis less_Suc_eq_le Suc_eq_plus1)
  then show ?thesis using l f f' l' by (simp add: GetReducedAccessTableInfo_def)
qed
lemma table_decides:
  assumes sorted: "sorted_wrt (<) regs" and ne: "regs \<noteq> []"
    and ok: "\<forall>r \<in> set regs. r mod 4 = 0 \<and> r < 0x1000" and base: "addr + 0x1000 < 2 ^ 32"
  shows "\<exists>raw e. SetRegistersAllowed regs (replicate 128 0) = Some raw \<and> AccessTable virt addr raw = Some e \<and>
    (\<forall>a. IsAccessAllowed e a \<longleftrightarrow> addr \<le> a \<and> (a - addr) div 4 * 4 \<in> set regs) \<and>
    virtual_address e = virt \<and> ((\<exists>r \<in> set regs. r < 32) \<longrightarrow> address e = addr)"
proof -
  have none: "\<not> allowed_bit (replicate 128 0) n" for n by (simp add: allowed_bit_def)
  obtain raw where raw: "SetRegistersAllowed regs (replicate 128 0) = Some raw" "length raw = 128"
      "\<And>n. allowed_bit raw n \<longleftrightarrow> 4 * n \<in> set regs"
  proof -
    have "\<forall>r \<in> set regs. r mod 4 = 0 \<and> r div 32 < length (replicate 128 (0 :: u8))" using ok by auto
    from set_all_allowed [OF sorted this] none that show ?thesis by auto
  qed
  obtain r where r: "r \<in> set regs" using ne by (cases regs) auto
  then have "4 * (r div 4) = r" using ok by (metis div_mult_mod_eq add_0_right mult.commute)
  then have "allowed_bit raw (r div 4)" using raw(3) r by simp
  then obtain a b where ab: "GetReducedAccessTableInfo raw = Some (a, b)" "a < b" "b \<le> 128"
      "\<And>n. allowed_bit raw n \<Longrightarrow> a \<le> n div 8 \<and> n div 8 < b"
    using reduced_info raw(2) by metis
  let ?e = "\<lparr>table = map (\<lambda>i. raw ! i) [a..<b], virtual_address = virt, address = addr + a * 32, entry_size = (b - a) * 32\<rparr>"
  have e: "AccessTable virt addr raw = Some ?e" using ab by (simp add: AccessTable_def Let_def)
  have wrap: "(address ?e + entry_size ?e) mod 2 ^ 32 = addr + b * 32"
    using ab(2,3) base by (simp add: diff_mult_distrib)
  have "IsAccessAllowed ?e x \<longleftrightarrow> addr \<le> x \<and> (x - addr) div 4 * 4 \<in> set regs" for x
  proof (cases "addr + a * 32 \<le> x \<and> x < addr + b * 32")
    case True
    let ?n = "(x - addr) div 4"
    have off: "(x - address ?e) div 4 = ?n - 8 * a" "8 * a \<le> ?n"
      using True by (simp_all, linarith+)
    have "?n < 8 * b" using True by linarith
    moreover obtain m where "?n = 8 * a + m" using off(2) le_Suc_ex by blast
    ultimately have ix: "(?n - 8 * a) div 8 = ?n div 8 - a" "?n div 8 - a < b - a" "(?n - 8 * a) mod 8 = ?n mod 8"
        "a \<le> ?n div 8"
      by (simp, simp add: less_diff_iff, simp, simp)
    have up: "[a..<b] ! (k - a) = k" if "k - a < b - a" "a \<le> k" for k
      using that by (subst nth_upt) linarith+
    have "IsAccessAllowed ?e x \<longleftrightarrow> bit (raw ! (?n div 8)) (?n mod 8)"
      unfolding IsAccessAllowed_def wrap Let_def off ix using True ix(2,4)
      by (simp add: up [OF ix(2,4)] and_single_0 del: push_bit_of_1)
    moreover have "?n div 8 < 128" using ix(2,4) ab(3) by linarith
    moreover from this have "bit (raw ! (?n div 8)) (?n mod 8) \<longleftrightarrow> allowed_bit raw ?n" using raw(2) by (simp add: allowed_bit_def)
    ultimately show ?thesis using True raw(3) by (simp add: mult.commute)
  next
    case False
    have "\<not> (addr \<le> x \<and> (x - addr) div 4 * 4 \<in> set regs)"
    proof
      assume h: "addr \<le> x \<and> (x - addr) div 4 * 4 \<in> set regs"
      then have "allowed_bit raw ((x - addr) div 4)" using raw(3) by (simp add: mult.commute)
      from ab(4) [OF this] h False show False by linarith
    qed
    then show ?thesis using False unfolding IsAccessAllowed_def wrap by auto
  qed
  moreover have "address ?e = addr" if h: "\<exists>r \<in> set regs. r < 32"
  proof -
    obtain r where r: "r \<in> set regs" "r < 32" using h by auto
    then have "4 * (r div 4) = r" using ok by (metis div_mult_mod_eq add_0_right mult.commute)
    then have "a \<le> r div 4 div 8" using ab(4) [of "r div 4"] raw(3) r by simp
    then show ?thesis using r(2) by simp
  qed
  ultimately show ?thesis using raw(1) e by (intro exI [of _ raw] exI [of _ ?e]) simp
qed

text \<open>
  C14. The table that is built at compile time from a sorted list of word offsets of a page, and then cut to its used
  bytes, allows exactly the listed registers: for every address, IsAccessAllowed decides membership in the list.
\<close>

theorem access_table_exact:
  assumes "sorted_wrt (<) regs" "regs \<noteq> []" "\<forall>r \<in> set regs. r mod 4 = 0 \<and> r < 0x1000" "addr + 0x1000 < 2 ^ 32"
  shows "\<exists>raw e. SetRegistersAllowed regs (replicate 128 0) = Some raw \<and> AccessTable virt addr raw = Some e \<and>
    (\<forall>a. IsAccessAllowed e a \<longleftrightarrow> addr \<le> a \<and> (a - addr) div 4 * 4 \<in> set regs)"
  using table_decides [OF assms, of virt] by blast

text \<open>The table for the controller of the external memory: its whole page, and nothing else.\<close>

theorem access_table_exact_witness:
  "\<exists>raw e. SetRegistersAllowed emc_registers (replicate 128 0) = Some raw \<and> AccessTable 0x1000 0x7001B000 raw = Some e \<and>
    (\<forall>a. IsAccessAllowed e a \<longleftrightarrow> 0x7001B000 \<le> a \<and> (a - 0x7001B000) div 4 * 4 \<in> set emc_registers)"
  by (rule access_table_exact) (auto simp: emc_registers_def sorted_wrt_map sorted_wrt_upt)

section \<open>What a call can do\<close>

lemma table_entry_found:
  "GetAccessTableEntry ts a = Some e \<Longrightarrow> e \<in> set ts \<and> IsAccessAllowed e a"
  by (auto simp: GetAccessTableEntry_def dest: find_Some_in)


section \<open>The call of a client\<close>

text \<open>
  The handler of the secure monitor for call \<open>0xF0000002\<close>; a client that passes an address gets the answer
  in the place of the address.
\<close>

definition register_access_call :: "secmon \<Rightarrow> u64 \<times> u64 \<times> u64 \<times> u64 \<Rightarrow> (nat \<Rightarrow> u32) \<Rightarrow> u64 \<times> (nat \<Rightarrow> u32)" where
  "register_access_call sm args dev =
     (case args of (x0, x1, x2, x3) \<Rightarrow>
        if x0 = 0xF0000002 then (case SmcReadWriteRegister sm (x1, x2, x3) dev of (_, out, dev) \<Rightarrow> (out, dev))
        else (x1, dev))"

text \<open>A register is open when a table allows it and its translation is \<open>va\<close>.\<close>

definition open_at :: "secmon \<Rightarrow> nat \<Rightarrow> nat \<Rightarrow> bool" where
  "open_at sm addr va \<longleftrightarrow> addr mod 4 = 0 \<and> va \<noteq> 0 \<and>
     (\<exists>e. GetAccessTableEntry (AccessTables sm) addr = Some e \<and> virtual_address e + (addr - address e) = va)"

lemma smc_open:
  assumes "open_at sm (unat x1) va"
  shows "SmcReadWriteRegister sm (x1, r2, r3) dev =
    (let m = ucast r2 :: u32; out = (if m \<noteq> 0xFFFFFFFF then dev va else 0) in
      (Success, ucast out, if m \<noteq> 0 then dev(va := (out AND NOT m) OR (ucast r3 AND m)) else dev))"
proof -
  obtain e where e: "GetAccessTableEntry (AccessTables sm) (unat x1) = Some e"
      "virtual_address e + (unat x1 - address e) = va" "va \<noteq> 0" "unat x1 mod 4 = 0"
    by (rule exE [OF assms [unfolded open_at_def, THEN conjunct2, THEN conjunct2]], rule that)
      (erule conjunct1, erule conjunct2, rule assms [unfolded open_at_def, THEN conjunct2, THEN conjunct1],
        rule assms [unfolded open_at_def, THEN conjunct1])
  show ?thesis
    unfolding SmcReadWriteRegister_def Let_def prod.case e(1) option.case e(2)
    by (simp only: e(3,4) option.distinct simp_thms if_True if_False)
qed

lemma read_open:
  "open_at sm (unat x1) va \<Longrightarrow> register_access_call sm (0xF0000002, x1, 0, 0) dev = (ucast (dev va), dev)"
  by (simp add: register_access_call_def smc_open)

lemma write_open:
  assumes "open_at sm (unat x1) va"
  shows "register_access_call sm (0xF0000002, x1, 0xFFFFFFFF, v) dev = (0, dev(va := ucast v))"
proof -
  have "(ucast v :: u32) AND mask 32 = ucast v" by (rule bit_word_eqI) (auto simp: bit_simps)
  then have "(ucast v :: u32) AND 0xFFFFFFFF = ucast v" by (simp add: mask_eq_exp_minus_1)
  then show ?thesis by (simp add: register_access_call_def smc_open [OF assms])
qed

end
