(* ===== verification/Aotag.thy ===== *)
theory Aotag
  imports Soctherm Secmon
begin

text \<open>
  \<open>tsensor/aotag.hpp\<close> and \<open>aotag.cpp\<close>: the always-on temperature sensor. Its registers belong to the power
  controller and are reached through the secure monitor: a parameter from the four arguments of a call
  and the state behind it to the first result and the next state. \<open>Secmon\<close> provides one.
\<close>

type_synonym 'p monitor_call = "u64 \<times> u64 \<times> u64 \<times> u64 \<Rightarrow> 'p \<Rightarrow> u64 \<times> 'p"

section \<open>Registers and fields\<close>

definition PMC_BASE :: u64 where "PMC_BASE = 0x7000E400"
definition AOTAG_FUSE_ADDR :: nat where "AOTAG_FUSE_ADDR = 0x2D4"
definition PMC_AOTAG_CFG :: u64 where "PMC_AOTAG_CFG = 0x484"
definition PMC_TSENSOR_CONFIG0 :: u64 where "PMC_TSENSOR_CONFIG0 = 0x49C"
definition PMC_TSENSOR_CONFIG1 :: u64 where "PMC_TSENSOR_CONFIG1 = 0x4A0"
definition PMC_TSENSOR_CONFIG2 :: u64 where "PMC_TSENSOR_CONFIG2 = 0x4A4"
definition PMC_TSENSOR_STATUS1 :: u64 where "PMC_TSENSOR_STATUS1 = 0x4AC"
definition PMC_TSENSOR_PDIV0 :: u64 where "PMC_TSENSOR_PDIV0 = 0x4B4"

text \<open>A field is the pair of its first and its last bit.\<close>

definition field_mask :: "nat \<times> nat \<Rightarrow> u32" where
  "field_mask f = push_bit (fst f) 0xFFFFFFFF AND ucast (push_bit (snd f + 1) (1 :: u64) - 1)"

definition REG_SET :: "u64 \<Rightarrow> nat \<times> nat \<Rightarrow> u32 \<Rightarrow> u64" where
  "REG_SET r f v = (r AND ucast (NOT (field_mask f))) OR ucast (push_bit (fst f) v AND field_mask f)"

definition REG_GET :: "u32 \<Rightarrow> nat \<times> nat \<Rightarrow> u32" where
  "REG_GET r f = drop_bit (fst f) (r AND field_mask f)"

definition CONFIG0_TALL :: "nat \<times> nat" where "CONFIG0_TALL = (8, 27)"
definition CONFIG1_TEN_COUNT :: "nat \<times> nat" where "CONFIG1_TEN_COUNT = (24, 29)"
definition CONFIG1_TIDDQ_EN :: "nat \<times> nat" where "CONFIG1_TIDDQ_EN = (15, 20)"
definition CONFIG1_TSAMPLE :: "nat \<times> nat" where "CONFIG1_TSAMPLE = (0, 9)"
definition CONFIG2_THERM_A :: "nat \<times> nat" where "CONFIG2_THERM_A = (16, 31)"
definition CONFIG2_THERM_B :: "nat \<times> nat" where "CONFIG2_THERM_B = (0, 15)"
definition TSENSOR_PDIV :: "nat \<times> nat" where "TSENSOR_PDIV = (12, 15)"
definition STATUS1_TEMP_VALID :: "nat \<times> nat" where "STATUS1_TEMP_VALID = (31, 31)"
definition STATUS1_TEMP_ABS :: "nat \<times> nat" where "STATUS1_TEMP_ABS = (8, 15)"
definition STATUS1_TEMP_FRAC :: "nat \<times> nat" where "STATUS1_TEMP_FRAC = (7, 7)"
definition STATUS1_TEMP_SIGN :: "nat \<times> nat" where "STATUS1_TEMP_SIGN = (0, 0)"
definition CONFIG1_TEMP_ENABLE_POS :: nat where "CONFIG1_TEMP_ENABLE_POS = 31"
definition CFG_TAG_EN_POS :: nat where "CFG_TAG_EN_POS = 5"
definition CFG_DISABLE_CLK_POS :: nat where "CFG_DISABLE_CLK_POS = 0"

text \<open>The two work on the low word of a 64-bit variable; the places are below 32.\<close>

definition SetBit :: "nat \<Rightarrow> u64 \<Rightarrow> u64" where
  "SetBit nr r = (r AND 0xFFFFFFFF00000000) OR ucast ((ucast r :: u32) OR push_bit nr 1)"

definition ClearBit :: "nat \<Rightarrow> u64 \<Rightarrow> u64" where
  "ClearBit nr r = (r AND 0xFFFFFFFF00000000) OR ucast ((ucast r :: u32) AND NOT (push_bit nr 1))"

definition tegra_aotag_fuse :: TSensorFuse where
  "tegra_aotag_fuse = \<lparr>fuse_base_cp_mask = push_bit 11 0x3FF, fuse_base_cp_shift = 11,
     fuse_base_ft_mask = push_bit 21 0x7FF, fuse_base_ft_shift = 21,
     fuse_shift_ft_mask = push_bit 6 0x1F, fuse_shift_ft_shift = 6, fuse_spare_realignment = 0\<rparr>"

definition tegra_aotag_config :: TSensorConfig where
  "tegra_aotag_config = \<lparr>tall = 76, tiddq_en = 1, ten_count = 16, pdiv = 8, pdiv_ate = 8, tsample = 9, tsample_ate = 39\<rparr>"

definition tegra210b01_aotag_config :: TSensorConfig where
  "tegra210b01_aotag_config =
     \<lparr>tall = 76, tiddq_en = 1, ten_count = 16, pdiv = 12, pdiv_ate = 6, tsample = 19, tsample_ate = 39\<rparr>"

definition tegra_aotag_coeff :: FuseCorrCoeff where
  "tegra_aotag_coeff = \<lparr>alpha = 1063200, beta = -6749000\<rparr>"

definition tegra210b01_aotag_coeff :: FuseCorrCoeff where
  "tegra210b01_aotag_coeff = \<lparr>alpha = 991100, beta = 1096200\<rparr>"

section \<open>Operations\<close>

record aotag =
  wasInit :: bool
  therm_a :: u32
  therm_b :: u32

definition ReadPmcReg :: "'p monitor_call \<Rightarrow> u64 \<Rightarrow> 'p \<Rightarrow> u32 \<times> 'p" where
  "ReadPmcReg smc offset p =
     (let (x1, p) = smc (0xF0000002, PMC_BASE + offset, 0, 0) p
      in if x1 = PMC_BASE + offset then (0, p) else (ucast x1, p))"

definition WritePmcReg :: "'p monitor_call \<Rightarrow> u32 \<Rightarrow> u64 \<Rightarrow> 'p \<Rightarrow> 'p" where
  "WritePmcReg smc v offset p = snd (smc (0xF0000002, PMC_BASE + offset, 0xFFFFFFFF, ucast v) p)"

definition InitializeAotag ::
  "'p monitor_call \<Rightarrow> bool \<Rightarrow> bool \<Rightarrow> fuses \<Rightarrow> aotag \<times> 'p \<Rightarrow> (aotag \<times> 'p) option" where
  "InitializeAotag smc map_ok mariko fuse st =
     (if \<not> map_ok then Some st
      else
       (let (a, p) = st;
            cfg = (if mariko then tegra210b01_aotag_config else tegra_aotag_config);
            coeff = (if mariko then tegra210b01_aotag_coeff else tegra_aotag_coeff);
            shared_fuses = CalcSharedCal tegra_aotag_fuse fuse
        in case CalcTSensorCalib cfg shared_fuses coeff AOTAG_FUSE_ADDR fuse of
             None \<Rightarrow> None
           | Some therm_ab \<Rightarrow>
              (let a = a\<lparr>therm_a := REG_GET therm_ab CONFIG2_THERM_A, therm_b := REG_GET therm_ab CONFIG2_THERM_B\<rparr>;
                   p = WritePmcReg smc therm_ab PMC_TSENSOR_CONFIG2 p;
                   r = REG_SET 0 CONFIG0_TALL (tall cfg);
                   p = WritePmcReg smc (ucast r) PMC_TSENSOR_CONFIG0 p;
                   r = REG_SET 0 CONFIG1_TEN_COUNT (ten_count cfg);
                   r = REG_SET r CONFIG1_TIDDQ_EN (tiddq_en cfg);
                   r = REG_SET r CONFIG1_TSAMPLE (tsample cfg - 1);
                   r = SetBit CONFIG1_TEMP_ENABLE_POS r;
                   p = WritePmcReg smc (ucast r) PMC_TSENSOR_CONFIG1 p;
                   r = REG_SET 0 TSENSOR_PDIV (pdiv cfg);
                   p = WritePmcReg smc (ucast r) PMC_TSENSOR_PDIV0 p;
                   (v, p) = ReadPmcReg smc PMC_AOTAG_CFG p;
                   r = SetBit CFG_TAG_EN_POS (ucast v);
                   r = ClearBit CFG_DISABLE_CLK_POS r;
                   p = WritePmcReg smc (ucast r) PMC_AOTAG_CFG p
               in Some (a\<lparr>wasInit := True\<rparr>, p))))"

definition ReadAotag :: "'p monitor_call \<Rightarrow> aotag \<times> 'p \<Rightarrow> int \<times> 'p" where
  "ReadAotag smc st =
     (let (a, p) = st in
      if \<not> wasInit a then (- 126, p)
      else
       (let (regval, p) = ReadPmcReg smc PMC_TSENSOR_STATUS1 p;
            valid = REG_GET regval STATUS1_TEMP_VALID
        in if valid = 0 then (- 125, p)
        else
         (let abs_t = REG_GET regval STATUS1_TEMP_ABS;
              fraction = REG_GET regval STATUS1_TEMP_FRAC;
              sign = REG_GET regval STATUS1_TEMP_SIGN;
              temp = sint (abs_t * 1000 + fraction * 500)
          in (if sign \<noteq> 0 then - 1 * temp else temp, p))))"

definition IsInitialized :: "aotag \<Rightarrow> bool" where
  "IsInitialized a = wasInit a"

section \<open>Reading\<close>

lemmas aotag_fields = CONFIG0_TALL_def CONFIG1_TEN_COUNT_def CONFIG1_TIDDQ_EN_def CONFIG1_TSAMPLE_def
  CONFIG2_THERM_A_def CONFIG2_THERM_B_def TSENSOR_PDIV_def STATUS1_TEMP_VALID_def STATUS1_TEMP_ABS_def
  STATUS1_TEMP_FRAC_def STATUS1_TEMP_SIGN_def

lemma status_fields:
  "REG_GET w STATUS1_TEMP_VALID = drop_bit 31 (w AND 0x80000000)"
  "REG_GET w STATUS1_TEMP_ABS = drop_bit 8 (w AND 0xFF00)"
  "REG_GET w STATUS1_TEMP_FRAC = drop_bit 7 (w AND 0x80)"
  "REG_GET w STATUS1_TEMP_SIGN = w AND 1"
  by (simp_all add: REG_GET_def field_mask_def aotag_fields)

lemma and_bit: "w AND push_bit n 1 = (if bit w n then push_bit n 1 else (0 :: u32))"
  by (rule bit_word_eqI) (auto simp: bit_simps)

lemma status_bits:
  "drop_bit 31 (w AND 0x80000000 :: u32) = (if bit w 31 then 1 else 0)"
  "drop_bit 7 (w AND 0x80 :: u32) = (if bit w 7 then 1 else 0)"
  "(w AND 1 :: u32) = (if bit w 0 then 1 else 0)"
  using and_bit [of w 31] and_bit [of w 7] and_bit [of w 0] by simp_all

lemma magnitude_word: "drop_bit 8 (w AND 0xFF00 :: u32) = word_of_int (uint (drop_bit 8 (ucast w :: u16)))"
proof -
  have "drop_bit 8 (w AND push_bit 8 (mask 8)) = ucast (drop_bit 8 (ucast w :: u16))"
    by (rule bit_word_eqI) (auto simp: bit_simps)
  then have "drop_bit 8 (w AND 0xFF00) = ucast (drop_bit 8 (ucast w :: u16))" by (simp add: mask_eq_exp_minus_1)
  then show ?thesis by (rule trans) (rule ucast_eq)
qed

text \<open>
  ReadAotag, with its own masks and fields, decodes a valid status word to the same temperature as the function
  for the other sensors, TranslateTemp, and reports -125 for every word without the valid bit.
\<close>

lemma aotag_decodes:
  assumes "wasInit a" and read: "ReadPmcReg smc PMC_TSENSOR_STATUS1 p = (w, p')"
  shows "ReadAotag smc (a, p) = (if bit w 31 then TranslateTemp (ucast w) else - 125, p')"
proof -
  define m where "m = uint (drop_bit 8 (ucast w :: u16))"
  have "unat (drop_bit 8 (ucast w :: u16)) \<le> 255"
    using half_degrees_less [of "ucast w"] by (simp add: half_degrees_def split: if_splits)
  then have "int (unat (drop_bit 8 (ucast w :: u16))) \<le> 255" by linarith
  then have m: "0 \<le> m" "m \<le> 255" unfolding m_def by (simp_all only: of_nat_unat ucast_id unsigned_greater_eq)
  have t: "sint (drop_bit 8 (w AND 0xFF00) * 1000 + (if bit w 7 then 1 else 0) * 500 :: u32)
      = m * 1000 + (if bit w 7 then 500 else 0)"
  proof -
    have "(drop_bit 8 (w AND 0xFF00) * 1000 + (if bit w 7 then 1 else 0) * 500 :: u32)
        = word_of_int (m * 1000 + (if bit w 7 then 500 else 0))"
      unfolding magnitude_word m_def [symmetric] by simp
    then show ?thesis by (simp only:) (rule sint_of_int; use m in simp)
  qed
  have "TranslateTemp (ucast w) = (if bit w 0 then - 1 else 1) * (m * 1000 + (if bit w 7 then 500 else 0))"
    by (simp add: translate_temp half_degrees_def m_def bit_simps)
  then show ?thesis
    using assms(1) unfolding ReadAotag_def Let_def prod.case read status_fields status_bits t by simp
qed

lemma aotag_decodes_witness:
  "ReadAotag (\<lambda>_ p. (0x80002581, p)) (\<lparr>wasInit = True, therm_a = 0, therm_b = 0\<rparr>, ()) = (- 37500, ())"
proof -
  have "ReadPmcReg (\<lambda>_ p. (0x80002581, p)) PMC_TSENSOR_STATUS1 () = (0x80002581, ())"
    by (simp add: ReadPmcReg_def PMC_BASE_def PMC_TSENSOR_STATUS1_def)
  from aotag_decodes [OF _ this, of "\<lparr>wasInit = True, therm_a = 0, therm_b = 0\<rparr>"]
  show ?thesis by (simp add: translate_temp half_degrees_def)
qed

section \<open>Initialisation through the secure monitor\<close>

definition aotag_config :: "bool \<Rightarrow> TSensorConfig" where
  "aotag_config mariko = (if mariko then tegra210b01_aotag_config else tegra_aotag_config)"

definition aotag_coeff :: "bool \<Rightarrow> FuseCorrCoeff" where
  "aotag_coeff mariko = (if mariko then tegra210b01_aotag_coeff else tegra_aotag_coeff)"

lemmas aotag_tables = aotag_config_def aotag_coeff_def tegra210b01_aotag_config_def tegra_aotag_config_def
  tegra210b01_aotag_coeff_def tegra_aotag_coeff_def

lemma aotag_in_range: "in_range (aotag_config m) (aotag_coeff m)" "mult_of (aotag_config m) \<le> 5 * div_of (aotag_config m)"
  by (simp_all add: aotag_tables in_range_def mult_of_def div_of_def)

lemma aotag_layout: "tegra_aotag_fuse = t210_layout"
  by (simp add: tegra_aotag_fuse_def t210_layout_def)

text \<open>The power controller's registers of the sensor are open, at their offsets from \<open>va\<close>.\<close>

definition pmc_open :: "secmon \<Rightarrow> nat \<Rightarrow> bool" where
  "pmc_open sm va \<longleftrightarrow> (\<forall>off \<in> {0x484, 0x49C, 0x4A0, 0x4A4, 0x4AC, 0x4B4}. open_at sm (0x7000E400 + off) (va + off))"

lemma pmc_read:
  assumes "pmc_open sm va" "off \<in> {0x484, 0x49C, 0x4A0, 0x4A4, 0x4AC, 0x4B4}"
  shows "ReadPmcReg (register_access_call sm) (of_nat off) dev =
    (if dev (va + off) = 0x7000E400 + of_nat off then 0 else dev (va + off), dev)"
proof -
  have o: "open_at sm (unat (PMC_BASE + of_nat off)) (va + off)"
    using assms by (auto simp: pmc_open_def PMC_BASE_def)
  have "(ucast (dev (va + off)) :: u64) = PMC_BASE + of_nat off \<longleftrightarrow> dev (va + off) = 0x7000E400 + of_nat off"
  proof -
    have "PMC_BASE + of_nat off = (ucast (0x7000E400 + of_nat off :: u32) :: u64)"
      using assms(2) by (auto simp: PMC_BASE_def)
    then show ?thesis by (metis ucast_ucast_u32_u64)
  qed
  then show ?thesis by (simp add: ReadPmcReg_def read_open [OF o])
qed

lemma pmc_write:
  assumes "pmc_open sm va" "off \<in> {0x484, 0x49C, 0x4A0, 0x4A4, 0x4AC, 0x4B4}"
  shows "WritePmcReg (register_access_call sm) v (of_nat off) dev = dev(va + off := v)"
proof -
  have o: "open_at sm (unat (PMC_BASE + of_nat off)) (va + off)"
    using assms by (auto simp: pmc_open_def PMC_BASE_def)
  show ?thesis by (simp add: WritePmcReg_def write_open [OF o])
qed

lemma config_words:
  "(ucast (REG_SET 0 CONFIG0_TALL (tall (aotag_config m))) :: u32) = 76 * 2 ^ 8"
  "(ucast (SetBit CONFIG1_TEMP_ENABLE_POS (REG_SET (REG_SET (REG_SET 0 CONFIG1_TEN_COUNT (ten_count (aotag_config m)))
      CONFIG1_TIDDQ_EN (tiddq_en (aotag_config m))) CONFIG1_TSAMPLE (tsample (aotag_config m) - 1))) :: u32)
    = 2 ^ 31 + 16 * 2 ^ 24 + 2 ^ 15 + (tsample (aotag_config m) - 1)"
  "(ucast (REG_SET 0 TSENSOR_PDIV (pdiv (aotag_config m))) :: u32) = pdiv (aotag_config m) * 2 ^ 12"
  by (simp_all add: REG_SET_def field_mask_def aotag_fields aotag_tables SetBit_def CONFIG1_TEMP_ENABLE_POS_def)

lemma low_word: "(ucast ((x AND 0xFFFFFFFF00000000) OR ucast y :: u64) :: u32) = y"
proof -
  have "(ucast ((x AND push_bit 32 (mask 32)) OR ucast y :: u64) :: u32) = y"
    by (rule bit_word_eqI) (auto simp: bit_simps)
  then show ?thesis by (simp add: mask_eq_exp_minus_1)
qed

lemma enable_word:
  "(ucast (ClearBit CFG_DISABLE_CLK_POS (SetBit CFG_TAG_EN_POS (ucast v))) :: u32) = (v OR 0x20) AND NOT 1"
proof -
  have "(ucast (ucast v :: u64) :: u32) = v" by simp
  then show ?thesis
    unfolding ClearBit_def SetBit_def low_word CFG_DISABLE_CLK_POS_def CFG_TAG_EN_POS_def by (simp only:) simp
qed

text \<open>
  C25. After InitializeAotag, through the register access of the secure monitor, the sensor is calibrated, sampled and divided as its table says, and it is
  switched on with its clock, other settings of its control register as before. (A control register
  that happens to hold its own address is taken for a failed read, and the other settings are cleared.)
\<close>

theorem aotag_programmed:
  assumes pmc: "pmc_open sm va"
    and spread: "spread (count_cp fuse AOTAG_FUSE_ADDR) (count_ft fuse AOTAG_FUSE_ADDR)"
    and cfg: "dev (va + 0x484) \<noteq> 0x7000E884"
  shows "\<exists>a' dev'. InitializeAotag (register_access_call sm) True mariko fuse (a, dev) = Some (a', dev') \<and> wasInit a' \<and>
    dev' = dev(va + 0x4A4 := dev' (va + 0x4A4), va + 0x49C := 76 * 2 ^ 8,
      va + 0x4A0 := 2 ^ 31 + 16 * 2 ^ 24 + 2 ^ 15 + (tsample (aotag_config mariko) - 1),
      va + 0x4B4 := pdiv (aotag_config mariko) * 2 ^ 12,
      va + 0x484 := (dev (va + 0x484) OR 0x20) AND NOT 1) \<and>
    \<bar>sint (ucast (drop_bit 16 (dev' (va + 0x4A4))) :: s16)
      - ideal_slope (mult_of (aotag_config mariko)) (div_of (aotag_config mariko)) (sint (alpha (aotag_coeff mariko)))
          (count_ft fuse AOTAG_FUSE_ADDR - count_cp fuse AOTAG_FUSE_ADDR) (temp_ft fuse - temp_cp fuse)\<bar> \<le> 3 \<and>
    \<bar>sint (ucast (dev' (va + 0x4A4)) :: s16)
      - ideal_offset (sint (alpha (aotag_coeff mariko))) (sint (beta (aotag_coeff mariko)))
          (count_cp fuse AOTAG_FUSE_ADDR) (count_ft fuse AOTAG_FUSE_ADDR) (temp_cp fuse) (temp_ft fuse)\<bar> \<le> 3"
proof -
  obtain w where w: "CalcTSensorCalib (aotag_config mariko) (CalcSharedCal tegra_aotag_fuse fuse) (aotag_coeff mariko)
        AOTAG_FUSE_ADDR fuse = Some w"
      "\<bar>sint (ucast (drop_bit 16 w) :: s16)
        - ideal_slope (mult_of (aotag_config mariko)) (div_of (aotag_config mariko)) (sint (alpha (aotag_coeff mariko)))
            (count_ft fuse AOTAG_FUSE_ADDR - count_cp fuse AOTAG_FUSE_ADDR) (temp_ft fuse - temp_cp fuse)\<bar> \<le> 3"
      "\<bar>sint (ucast w :: s16)
        - ideal_offset (sint (alpha (aotag_coeff mariko))) (sint (beta (aotag_coeff mariko)))
            (count_cp fuse AOTAG_FUSE_ADDR) (count_ft fuse AOTAG_FUSE_ADDR) (temp_cp fuse) (temp_ft fuse)\<bar> \<le> 3"
    using calibration_accurate [OF aotag_in_range spread] unfolding aotag_layout by blast
  let ?dev = "dev(va + 0x4A4 := w, va + 0x49C := 76 * 2 ^ 8,
      va + 0x4A0 := 2 ^ 31 + 16 * 2 ^ 24 + 2 ^ 15 + (tsample (aotag_config mariko) - 1),
      va + 0x4B4 := pdiv (aotag_config mariko) * 2 ^ 12, va + 0x484 := (dev (va + 0x484) OR 0x20) AND NOT 1)"
  note wr = pmc_write [OF pmc, of "0x4A4", simplified] pmc_write [OF pmc, of "0x49C", simplified]
    pmc_write [OF pmc, of "0x4A0", simplified] pmc_write [OF pmc, of "0x4B4", simplified] pmc_write [OF pmc, of "0x484", simplified]
    pmc_read [OF pmc, of "0x484", simplified]
  let ?a = "a\<lparr>therm_a := REG_GET w CONFIG2_THERM_A, therm_b := REG_GET w CONFIG2_THERM_B, wasInit := True\<rparr>"
  have "InitializeAotag (register_access_call sm) True mariko fuse (a, dev) = Some (?a, ?dev)"
    unfolding InitializeAotag_def Let_def prod.case aotag_config_def [symmetric] aotag_coeff_def [symmetric] w(1) option.case
      PMC_TSENSOR_CONFIG2_def PMC_TSENSOR_CONFIG0_def PMC_TSENSOR_CONFIG1_def PMC_TSENSOR_PDIV0_def PMC_AOTAG_CFG_def
      config_words enable_word
    using cfg by (simp add: wr enable_word)
  moreover have "?dev = dev(va + 0x4A4 := ?dev (va + 0x4A4), va + 0x49C := 76 * 2 ^ 8,
      va + 0x4A0 := 2 ^ 31 + 16 * 2 ^ 24 + 2 ^ 15 + (tsample (aotag_config mariko) - 1),
      va + 0x4B4 := pdiv (aotag_config mariko) * 2 ^ 12, va + 0x484 := (dev (va + 0x484) OR 0x20) AND NOT 1)"
    by (simp only: fun_upd_apply) simp
  moreover have "?dev (va + 0x4A4) = w" by simp
  ultimately show ?thesis using w(2,3) by (intro exI [of _ ?a] exI [of _ ?dev]) simp
qed

definition demo_monitor :: secmon where
  "demo_monitor = \<lparr>AccessTables = [\<lparr>table = replicate 128 255, virtual_address = 0x1000, address = 0x7000E400,
     entry_size = 0x1000\<rparr>], mc_physical = 0x70019000, mc_virtual = 0x2000, MC_SMMU_AVPC_ASID = 0x23C,
     MC_SMMU_PPCS1_ASID = 0x298, firmware_below_2 = False\<rparr>"

lemma demo_open: "pmc_open demo_monitor 0x1000"
  by (simp add: pmc_open_def open_at_def demo_monitor_def GetAccessTableEntry_def IsAccessAllowed_def Let_def nth_replicate)

theorem aotag_programmed_witness:
  "\<exists>a' dev'. InitializeAotag (register_access_call demo_monitor) True True demo_fuses
      (\<lparr>wasInit = False, therm_a = 0, therm_b = 0\<rparr>, \<lambda>_. 0) = Some (a', dev') \<and> wasInit a' \<and>
    dev' 0x1484 = 0x20 \<and> dev' 0x14B4 = 12 * 2 ^ 12"
proof -
  let ?dev = "(\<lambda>_. 0) :: nat \<Rightarrow> u32"
  have s: "spread (count_cp demo_fuses AOTAG_FUSE_ADDR) (count_ft demo_fuses AOTAG_FUSE_ADDR)"
    by (simp add: spread_def count_cp_def count_ft_def demo_fuses_def AOTAG_FUSE_ADDR_def)
  have n: "?dev (0x1000 + 0x484) \<noteq> 0x7000E884" by simp
  have d: "dev' 0x1484 = 0x20 \<and> dev' 0x14B4 = 12 * 2 ^ 12"
    if "dev' = ?dev(0x1000 + 0x4A4 := dev' (0x1000 + 0x4A4), 0x1000 + 0x49C := 76 * 2 ^ 8,
        0x1000 + 0x4A0 := 2 ^ 31 + 16 * 2 ^ 24 + 2 ^ 15 + (tsample (aotag_config True) - 1),
        0x1000 + 0x4B4 := pdiv (aotag_config True) * 2 ^ 12, 0x1000 + 0x484 := (?dev (0x1000 + 0x484) OR 0x20) AND NOT 1)"
    for dev'
    by (subst that, subst that) (simp add: aotag_tables)
  show ?thesis
    using aotag_programmed [OF demo_open s n, of True "\<lparr>wasInit = False, therm_a = 0, therm_b = 0\<rparr>"]
    by (elim exE conjE) (intro exI conjI, assumption, assumption, (drule d, simp)+)
qed

end
