(* ===== verification/I2c_Devices.thy ===== *)
theory I2c_Devices
  imports Prelude Config_Values "HOL-Library.Signed_Division"
begin

text \<open>
  \<open>i2c/i2cDrv.h\<close>, \<open>i2cDrv.cpp\<close>, \<open>i2c.c\<close> and \<open>tsensor/bq24193.cpp\<close>: the chips behind
  the I2C bus. Every operation on the bus is appended to a log; its result code and the bytes it
  receives are functions of that log (the record \<open>i2c_env\<close>), so every claim holds for any chips.
  What the chips do is a hypothesis where a claim needs it.
\<close>

section \<open>The bus\<close>

datatype I2cDevice =
    I2cDevice_Bq24193
  | I2cDevice_Max17050
  | I2cDevice_Tmp451
  | I2cDevice_Max77620Pmic
  | I2cDevice_Max77621Cpu
  | I2cDevice_Max77621Gpu
  | I2cDevice_Max77812_2

datatype i2c_op =
    OpenSession I2cDevice
  | SendAuto I2cDevice "u8 list"
  | ReceiveAuto I2cDevice nat
  | CloseSession I2cDevice
  | ExecuteCommandList I2cDevice "u8 list" nat

type_synonym i2c_log = "i2c_op list"

record i2c_env =
  rc_of :: "i2c_log \<Rightarrow> u32"
  data_of :: "i2c_log \<Rightarrow> u8 list"
  tick_of :: "i2c_log \<Rightarrow> u64"
  session_active :: "I2cDevice \<Rightarrow> bool"
  armTicksToNs :: "u64 \<Rightarrow> u64"

text \<open>The byte at a place of what was received; a chip that sends less leaves the rest as it was.\<close>

definition byte_at :: "u8 list \<Rightarrow> nat \<Rightarrow> u8 \<Rightarrow> u8" where
  "byte_at bs i old = (if i < length bs then bs ! i else old)"

definition I2cSet_U8_drv :: "i2c_env \<Rightarrow> I2cDevice \<Rightarrow> u8 \<Rightarrow> u8 \<Rightarrow> i2c_log \<Rightarrow> u32 \<times> i2c_log" where
  "I2cSet_U8_drv env dev reg val log =
     (let log = log @ [OpenSession dev]; res = rc_of env log
      in if res \<noteq> 0 then (res, log)
      else
       (let log = log @ [SendAuto dev [reg, val]]; res = rc_of env log
        in (res, log @ [CloseSession dev])))"

text \<open>The value the caller's variable holds afterwards is part of the result.\<close>

definition I2cRead_OutU8 :: "i2c_env \<Rightarrow> I2cDevice \<Rightarrow> u8 \<Rightarrow> u8 \<Rightarrow> i2c_log \<Rightarrow> u32 \<times> u8 \<times> i2c_log" where
  "I2cRead_OutU8 env dev reg out log =
     (let log = log @ [OpenSession dev]; res = rc_of env log
      in if res \<noteq> 0 then (res, out, log)
      else
       (let log = log @ [SendAuto dev [reg]]; res = rc_of env log
        in if res \<noteq> 0 then (res, out, log @ [CloseSession dev])
        else
         (let log = log @ [ReceiveAuto dev 1]; res = rc_of env log; bs = data_of env log;
              log = log @ [CloseSession dev]
          in if res \<noteq> 0 then (res, out, log) else (0, byte_at bs 0 0, log))))"

definition I2C_CMD_SND :: u8 where "I2C_CMD_SND = 0"
definition I2C_CMD_RCV :: u8 where "I2C_CMD_RCV = 1"
definition I2cTransactionOption_Start :: u8 where "I2cTransactionOption_Start = 1"
definition I2cTransactionOption_All :: u8 where "I2cTransactionOption_All = 3"

definition i2csessionExtRegReceive ::
  "i2c_env \<Rightarrow> I2cDevice \<Rightarrow> u8 \<Rightarrow> nat \<Rightarrow> i2c_log \<Rightarrow> u32 \<times> u8 list \<times> i2c_log" where
  "i2csessionExtRegReceive env dev reg out_size log =
     (let cmdlist = [I2C_CMD_SND OR push_bit 6 I2cTransactionOption_Start, 1, reg,
                     I2C_CMD_RCV OR push_bit 6 I2cTransactionOption_All, of_nat out_size];
          log = log @ [ExecuteCommandList dev cmdlist out_size]
      in (rc_of env log, take out_size (data_of env log), log))"

section \<open>Voltage regulators\<close>

record I2c_BuckConverter_Domain =
  device :: I2cDevice
  reg :: u8
  volt_mask :: u8
  uv_step :: u32
  uv_min :: u32
  uv_max :: u32
  por_val :: u8

definition I2c_SOC :: I2c_BuckConverter_Domain where
  "I2c_SOC = \<lparr>device = I2cDevice_Max77620Pmic, reg = 0x16, volt_mask = 0x7F, uv_step = 12500, uv_min = 600000,
     uv_max = 1400000, por_val = 0\<rparr>"

definition I2c_VDD2 :: I2c_BuckConverter_Domain where
  "I2c_VDD2 = \<lparr>device = I2cDevice_Max77620Pmic, reg = 0x17, volt_mask = 0x7F, uv_step = 12500, uv_min = 600000,
     uv_max = 1350000, por_val = 0\<rparr>"

definition I2c_Display :: I2c_BuckConverter_Domain where
  "I2c_Display = \<lparr>device = I2cDevice_Max77620Pmic, reg = 0x23, volt_mask = 0x3F, uv_step = 25000, uv_min = 800000,
     uv_max = 1325000, por_val = 0\<rparr>"

definition I2c_Erista_CPU :: I2c_BuckConverter_Domain where
  "I2c_Erista_CPU = \<lparr>device = I2cDevice_Max77621Cpu, reg = 0x00, volt_mask = 0x7F, uv_step = 6250, uv_min = 606250,
     uv_max = 1400000, por_val = 0\<rparr>"

definition I2c_Erista_GPU :: I2c_BuckConverter_Domain where
  "I2c_Erista_GPU = \<lparr>device = I2cDevice_Max77621Gpu, reg = 0x00, volt_mask = 0x7F, uv_step = 6250, uv_min = 606250,
     uv_max = 1400000, por_val = 0\<rparr>"

definition I2c_Mariko_CPU :: I2c_BuckConverter_Domain where
  "I2c_Mariko_CPU = \<lparr>device = I2cDevice_Max77812_2, reg = 0x26, volt_mask = 0xFF, uv_step = 5000, uv_min = 250000,
     uv_max = 1525000, por_val = 0x78\<rparr>"

definition I2c_Mariko_GPU :: I2c_BuckConverter_Domain where
  "I2c_Mariko_GPU = \<lparr>device = I2cDevice_Max77812_2, reg = 0x23, volt_mask = 0xFF, uv_step = 5000, uv_min = 250000,
     uv_max = 1525000, por_val = 0x78\<rparr>"

definition I2c_Mariko_DRAM_VDDQ :: I2c_BuckConverter_Domain where
  "I2c_Mariko_DRAM_VDDQ = \<lparr>device = I2cDevice_Max77812_2, reg = 0x25, volt_mask = 0xFF, uv_step = 5000, uv_min = 250000,
     uv_max = 700000, por_val = 0x78\<rparr>"

definition I2c_BuckConverter_MultiplierToMvOut :: "I2c_BuckConverter_Domain \<Rightarrow> u8 \<Rightarrow> u32" where
  "I2c_BuckConverter_MultiplierToMvOut domain multiplier = (uv_min domain + uv_step domain * ucast multiplier) div 1000"

definition I2c_BuckConverter_MultiplierToUvOut :: "I2c_BuckConverter_Domain \<Rightarrow> u8 \<Rightarrow> u32" where
  "I2c_BuckConverter_MultiplierToUvOut domain multiplier = uv_min domain + uv_step domain * ucast multiplier"

definition I2c_BuckConverter_MvOutToMultiplier :: "I2c_BuckConverter_Domain \<Rightarrow> u32 \<Rightarrow> u8" where
  "I2c_BuckConverter_MvOutToMultiplier domain mvolt =
     (let uvolt = mvolt * 1000;
          uvolt = (if uvolt < uv_min domain then uv_min domain else uvolt);
          uvolt = (if uvolt > uv_max domain then uv_max domain else uvolt)
      in ucast ((uvolt - uv_min domain) div uv_step domain))"

text \<open>At most five reads, until the value is not the one the chip has after a reset.\<close>

fun buck_read :: "i2c_env \<Rightarrow> I2c_BuckConverter_Domain \<Rightarrow> nat \<Rightarrow> u8 \<Rightarrow> i2c_log \<Rightarrow> u8 option \<times> i2c_log" where
  "buck_read env domain 0 val log = (Some val, log)"
| "buck_read env domain (Suc n) val log =
     (case I2cRead_OutU8 env (device domain) (reg domain) val log of (rc, val, log) \<Rightarrow>
        if rc \<noteq> 0 then (None, log)
        else if por_val domain = 0 \<or> val \<noteq> por_val domain then (Some val, log)
        else buck_read env domain n val log)"

definition I2c_BuckConverter_GetMvOut :: "i2c_env \<Rightarrow> I2c_BuckConverter_Domain \<Rightarrow> i2c_log \<Rightarrow> u32 \<times> i2c_log" where
  "I2c_BuckConverter_GetMvOut env domain log =
     (case buck_read env domain 5 0 log of
        (None, log) \<Rightarrow> (0, log)
      | (Some val, log) \<Rightarrow> (I2c_BuckConverter_MultiplierToMvOut domain (val AND volt_mask domain), log))"

definition I2c_BuckConverter_GetUvOut :: "i2c_env \<Rightarrow> I2c_BuckConverter_Domain \<Rightarrow> i2c_log \<Rightarrow> u32 \<times> i2c_log" where
  "I2c_BuckConverter_GetUvOut env domain log =
     (case buck_read env domain 5 0 log of
        (None, log) \<Rightarrow> (0, log)
      | (Some val, log) \<Rightarrow> (I2c_BuckConverter_MultiplierToUvOut domain (val AND volt_mask domain), log))"

definition I2c_BuckConverter_SetMvOut ::
  "i2c_env \<Rightarrow> I2c_BuckConverter_Domain \<Rightarrow> u32 \<Rightarrow> i2c_log \<Rightarrow> u32 \<times> i2c_log" where
  "I2c_BuckConverter_SetMvOut env domain mvolt log =
     (case I2cRead_OutU8 env (device domain) (reg domain) 0 log of (res, val, log) \<Rightarrow>
        if res \<noteq> 0 then (res, log)
        else
         (let multiplier = I2c_BuckConverter_MvOutToMultiplier domain mvolt;
              val = val AND NOT (volt_mask domain);
              val = val OR (multiplier AND volt_mask domain)
          in case I2cSet_U8_drv env (device domain) (reg domain) val log of (res, log) \<Rightarrow>
             if res \<noteq> 0 then (res, log)
             else
              (case I2cRead_OutU8 env (device domain) (reg domain) 0 log of (res, new_val, log) \<Rightarrow>
                 if res \<noteq> 0 then (res, log)
                 else if new_val \<noteq> val then (- 1, log)
                 else (0, log))))"

section \<open>The charger\<close>

definition MA_RANGE_MIN :: u32 where "MA_RANGE_MIN = 512"
definition MA_RANGE_MAX :: u32 where "MA_RANGE_MAX = 4544"
definition BQ24193_CHARGE_CURRENT_CONTROL_REG :: u8 where "BQ24193_CHARGE_CURRENT_CONTROL_REG = 0x2"

definition I2c_Bq24193_Convert_mA_Raw :: "u32 \<Rightarrow> u8" where
  "I2c_Bq24193_Convert_mA_Raw ma =
     (let ma = (if ma > MA_RANGE_MAX then MA_RANGE_MAX else ma);
          pct20 = (ma \<le> MA_RANGE_MIN - 64);
          ma = (if pct20 then ma * 5 else ma);
          raw = (if pct20 then 1 else 0 :: u8);
          ma = ma - ma mod 100;
          ma = ma - (MA_RANGE_MIN - 64)
      in raw OR ucast (push_bit 2 (drop_bit 6 ma)))"

definition I2c_Bq24193_Convert_Raw_mA :: "u8 \<Rightarrow> u32" where
  "I2c_Bq24193_Convert_Raw_mA raw =
     (let ma = push_bit 6 (ucast (drop_bit 2 raw)) + MA_RANGE_MIN
      in if raw AND 1 \<noteq> 0 then ma * 20 div 100 else ma)"

definition I2c_Bq24193_GetFastChargeCurrentLimit :: "i2c_env \<Rightarrow> u32 \<Rightarrow> i2c_log \<Rightarrow> u32 \<times> u32 \<times> i2c_log" where
  "I2c_Bq24193_GetFastChargeCurrentLimit env ma log =
     (case I2cRead_OutU8 env I2cDevice_Bq24193 BQ24193_CHARGE_CURRENT_CONTROL_REG 0 log of (res, raw, log) \<Rightarrow>
        if res \<noteq> 0 then (res, ma, log) else (0, I2c_Bq24193_Convert_Raw_mA raw, log))"

definition I2c_Bq24193_SetFastChargeCurrentLimit :: "i2c_env \<Rightarrow> u32 \<Rightarrow> i2c_log \<Rightarrow> u32 \<times> i2c_log" where
  "I2c_Bq24193_SetFastChargeCurrentLimit env ma log =
     I2cSet_U8_drv env I2cDevice_Bq24193 BQ24193_CHARGE_CURRENT_CONTROL_REG (I2c_Bq24193_Convert_mA_Raw ma) log"

text \<open>The variable of the caller is not initialised: \<open>junk\<close> is what it holds.\<close>

definition BQ24193_FAULT_THERM_MASK :: u8 where "BQ24193_FAULT_THERM_MASK = 7"
definition BQ24193_FaultReg :: u8 where "BQ24193_FaultReg = 0x09"

definition getBQTemp :: "i2c_env \<Rightarrow> u8 \<Rightarrow> i2c_log \<Rightarrow> u8 \<times> i2c_log" where
  "getBQTemp env junk log =
     (case I2cRead_OutU8 env I2cDevice_Bq24193 BQ24193_FaultReg junk log of (_, out, log) \<Rightarrow>
        (out AND BQ24193_FAULT_THERM_MASK, log))"

section \<open>The codes of the regulators\<close>

definition regulators :: "I2c_BuckConverter_Domain list" where
  "regulators = [I2c_SOC, I2c_VDD2, I2c_Display, I2c_Erista_CPU, I2c_Erista_GPU, I2c_Mariko_CPU, I2c_Mariko_GPU,
     I2c_Mariko_DRAM_VDDQ]"

lemmas regulator_defs = I2c_SOC_def I2c_VDD2_def I2c_Display_def I2c_Erista_CPU_def I2c_Erista_GPU_def
  I2c_Mariko_CPU_def I2c_Mariko_GPU_def I2c_Mariko_DRAM_VDDQ_def

text \<open>The step of a voltage in millivolts, clamped to the range of the regulator.\<close>

definition clamped_uv :: "I2c_BuckConverter_Domain \<Rightarrow> nat \<Rightarrow> nat" where
  "clamped_uv d mv = min (unat (uv_max d)) (max (unat (uv_min d)) (mv * 1000))"

definition step_of :: "I2c_BuckConverter_Domain \<Rightarrow> nat \<Rightarrow> nat" where
  "step_of d mv = (clamped_uv d mv - unat (uv_min d)) div unat (uv_step d)"

definition well_formed :: "I2c_BuckConverter_Domain \<Rightarrow> bool" where
  "well_formed d \<longleftrightarrow> 0 < unat (uv_step d) \<and> uv_min d \<le> uv_max d \<and>
     (\<exists>k. volt_mask d = mask k \<and> k \<le> 8 \<and> (unat (uv_max d) - unat (uv_min d)) div unat (uv_step d) < 2 ^ k) \<and>
     unat (uv_max d) < 2 ^ 31"

lemma regulators_well_formed: "d \<in> set regulators \<Longrightarrow> well_formed d"
proof -
  have m: "(0x7F :: u8) = mask 7" "(0x3F :: u8) = mask 6" "(0xFF :: u8) = mask 8" by (simp_all add: mask_eq_exp_minus_1)
  show "d \<in> set regulators \<Longrightarrow> well_formed d"
    by (auto simp: regulators_def regulator_defs well_formed_def m intro: exI [of _ 7] exI [of _ 6] exI [of _ 8])
qed

lemma multiplier_of:
  assumes "well_formed d" "unat mv * 1000 < 2 ^ 32"
  shows "unat (I2c_BuckConverter_MvOutToMultiplier d mv) = step_of d (unat mv)"
    "I2c_BuckConverter_MvOutToMultiplier d mv AND volt_mask d = I2c_BuckConverter_MvOutToMultiplier d mv"
proof -
  let ?u = "mv * 1000 :: u32"
  have u: "unat ?u = unat mv * 1000"
    using assms(2) by (simp add: unat_word_ariths)
  define c where "c = (let uvolt = ?u; uvolt = (if uvolt < uv_min d then uv_min d else uvolt)
    in if uvolt > uv_max d then uv_max d else uvolt)"
  have le: "uv_min d \<le> uv_max d" using assms(1) by (simp add: well_formed_def)
  have c: "unat c = clamped_uv d (unat mv)" "uv_min d \<le> c"
    using le u by (auto simp: c_def Let_def clamped_uv_def word_less_nat_alt word_le_nat_alt min_def max_def)
  obtain k where k: "volt_mask d = mask k" "k \<le> 8" "(unat (uv_max d) - unat (uv_min d)) div unat (uv_step d) < 2 ^ k"
    using assms(1) by (auto simp: well_formed_def)
  have d: "unat ((c - uv_min d) div uv_step d) = step_of d (unat mv)"
    using c by (simp add: unat_div unat_sub step_of_def)
  have "step_of d (unat mv) \<le> (unat (uv_max d) - unat (uv_min d)) div unat (uv_step d)"
    unfolding step_of_def by (rule div_le_mono) (simp add: clamped_uv_def)
  then have s: "step_of d (unat mv) < 2 ^ k" using k(3) by linarith
  have s8: "step_of d (unat mv) < 256" using s power_increasing [OF k(2), of "2 :: nat"] by simp
  have e: "I2c_BuckConverter_MvOutToMultiplier d mv = ucast ((c - uv_min d) div uv_step d)"
    by (simp add: I2c_BuckConverter_MvOutToMultiplier_def c_def Let_def)
  show r: "unat (I2c_BuckConverter_MvOutToMultiplier d mv) = step_of d (unat mv)"
    unfolding e using s8 by (simp add: unsigned_ucast_eq d take_bit_nat_eq_self)
  show "I2c_BuckConverter_MvOutToMultiplier d mv AND volt_mask d = I2c_BuckConverter_MvOutToMultiplier d mv"
    unfolding k(1) by (rule word_unat_eq_iff [THEN iffD2])
      (use s in \<open>simp add: unsigned_take_bit_eq take_bit_nat_eq_self r flip: take_bit_eq_mask\<close>)
qed
section \<open>Setting and reading back a voltage\<close>

text \<open>The last byte written to a register of a device, and a chip that answers with it.\<close>

fun written :: "I2cDevice \<Rightarrow> u8 \<Rightarrow> i2c_op \<Rightarrow> u8 \<Rightarrow> u8" where
  "written dev r (SendAuto d [q, x]) v = (if d = dev \<and> q = r then x else v)"
| "written dev r _ v = v"

definition reg_value :: "I2cDevice \<Rightarrow> u8 \<Rightarrow> u8 \<Rightarrow> i2c_log \<Rightarrow> u8" where
  "reg_value dev r init log = fold (written dev r) log init"

definition holds_register :: "i2c_env \<Rightarrow> I2cDevice \<Rightarrow> u8 \<Rightarrow> u8 \<Rightarrow> bool" where
  "holds_register env dev r init \<longleftrightarrow> (\<forall>log. rc_of env log = 0) \<and>
     (\<forall>log. data_of env (log @ [SendAuto dev [r], ReceiveAuto dev 1]) = [reg_value dev r init log])"

lemma reg_value_step [simp]:
  "reg_value dev r init (log @ [OpenSession d]) = reg_value dev r init log"
  "reg_value dev r init (log @ [CloseSession d]) = reg_value dev r init log"
  "reg_value dev r init (log @ [ReceiveAuto d n]) = reg_value dev r init log"
  "reg_value dev r init (log @ [SendAuto d [q]]) = reg_value dev r init log"
  "reg_value dev r init (log @ [SendAuto d [q, x]]) = (if d = dev \<and> q = r then x else reg_value dev r init log)"
  by (simp_all add: reg_value_def)

lemma read_held:
  assumes "holds_register env dev r init"
  shows "\<exists>log'. I2cRead_OutU8 env dev r out log = (0, reg_value dev r init log, log') \<and>
    reg_value dev r init log' = reg_value dev r init log"
proof -
  have "data_of env ((log @ [OpenSession dev]) @ [SendAuto dev [r], ReceiveAuto dev 1])
      = [reg_value dev r init (log @ [OpenSession dev])]"
    using assms unfolding holds_register_def by blast
  then have d: "data_of env (log @ [OpenSession dev, SendAuto dev [r], ReceiveAuto dev 1]) = [reg_value dev r init log]"
    by simp
  have v: "reg_value dev r init (log @ [OpenSession dev, SendAuto dev [r], ReceiveAuto dev 1, CloseSession dev])
      = reg_value dev r init log"
    by (simp add: reg_value_def)
  show ?thesis using assms d v by (simp add: I2cRead_OutU8_def holds_register_def Let_def byte_at_def)
qed

lemma set_held:
  assumes "holds_register env dev r init"
  shows "\<exists>log'. I2cSet_U8_drv env dev r x log = (0, log') \<and> reg_value dev r init log' = x"
proof -
  have "reg_value dev r init (log @ [OpenSession dev, SendAuto dev [r, x], CloseSession dev]) = x"
    by (simp add: reg_value_def)
  then show ?thesis using assms by (simp add: I2cSet_U8_drv_def holds_register_def Let_def)
qed

lemma buck_read_held:
  assumes "holds_register env (device d) (reg d) init"
  shows "\<exists>log'. buck_read env d (Suc n) v log = (Some (reg_value (device d) (reg d) init log), log')"
proof (induction n arbitrary: v log)
  case 0
  obtain log' where "I2cRead_OutU8 env (device d) (reg d) v log = (0, reg_value (device d) (reg d) init log, log')"
    using read_held [OF assms] by blast
  then show ?case by simp
next
  case (Suc n)
  obtain log' where r: "I2cRead_OutU8 env (device d) (reg d) v log = (0, reg_value (device d) (reg d) init log, log')"
      "reg_value (device d) (reg d) init log' = reg_value (device d) (reg d) init log"
    using read_held [OF assms] by blast
  from Suc [of "reg_value (device d) (reg d) init log" log'] r show ?case by auto
qed

lemma step_value:
  assumes "well_formed d" "unat (uv_min d) \<le> mv * 1000" "mv * 1000 \<le> unat (uv_max d)" "unat m = step_of d mv"
  shows "unat (I2c_BuckConverter_MultiplierToUvOut d m) \<le> mv * 1000"
    "mv * 1000 < unat (I2c_BuckConverter_MultiplierToUvOut d m) + unat (uv_step d)"
proof -
  let ?s = "unat (uv_step d)" and ?a = "mv * 1000 - unat (uv_min d)"
  have s: "0 < ?s" "unat (uv_max d) < 2 ^ 31" using assms(1) by (auto simp: well_formed_def)
  have m: "unat m = ?a div ?s" using assms by (simp add: step_of_def clamped_uv_def)
  have le: "?s * (?a div ?s) \<le> ?a" by simp
  have gt: "?a < ?s * (?a div ?s) + ?s" using s(1) by (metis add.commute dividend_less_times_div mult.commute)
  have "unat (I2c_BuckConverter_MultiplierToUvOut d m) = unat (uv_min d) + ?s * (?a div ?s)"
  proof -
    have "unat m < 2 ^ 32" using unsigned_less [of m, where 'a = nat] by simp
    then have u: "unat (ucast m :: u32) = ?a div ?s" by (simp add: unsigned_ucast_eq m [symmetric] take_bit_nat_eq_self)
    have b: "?s * (?a div ?s) < 2 ^ 32" "unat (uv_min d) + ?s * (?a div ?s) < 2 ^ 32"
    proof -
      define t where "t = ?s * (?a div ?s)"
      have "t \<le> ?a" using le by (simp add: t_def)
      moreover have "unat (uv_max d) < 2147483648" using s(2) by simp
      ultimately have "t < 4294967296 \<and> unat (uv_min d) + t < 4294967296" using assms(2,3) by linarith
      then show "?s * (?a div ?s) < 2 ^ 32" "unat (uv_min d) + ?s * (?a div ?s) < 2 ^ 32" by (simp_all add: t_def)
    qed
    have "unat (uv_step d * ucast m) = ?s * (?a div ?s)"
      unfolding unat_word_ariths u using b(1) by simp
    then show ?thesis
      unfolding I2c_BuckConverter_MultiplierToUvOut_def using b(2) by (subst unat_plus_if') (simp add: u)
  qed
  then show "unat (I2c_BuckConverter_MultiplierToUvOut d m) \<le> mv * 1000"
    "mv * 1000 < unat (I2c_BuckConverter_MultiplierToUvOut d m) + ?s"
    using le gt assms(2) by linarith+
qed

lemma masked:
  "((a AND NOT m) OR (x AND m)) AND m = x AND (m :: u8)" "((a AND NOT m) OR (x AND m)) AND NOT m = a AND NOT m"
  by (rule bit_word_eqI, auto simp: bit_simps)+

text \<open>
  C26. For each of the eight regulators and a chip that keeps its registers: after I2c_BuckConverter_SetMvOut with a
  voltage in the range of the regulator, which succeeds, I2c_BuckConverter_GetUvOut reads back the largest step that
  is not above it, and the bits of the register outside of the voltage field are as before.
\<close>

theorem voltage_round_trip:
  assumes d: "d \<in> set regulators" and chip: "holds_register env (device d) (reg d) init"
    and mv: "unat (uv_min d) \<le> unat mv * 1000" "unat mv * 1000 \<le> unat (uv_max d)"
  shows "\<exists>log' log'' uv. I2c_BuckConverter_SetMvOut env d mv log = (0, log') \<and>
    I2c_BuckConverter_GetUvOut env d log' = (uv, log'') \<and>
    unat uv \<le> unat mv * 1000 \<and> unat mv * 1000 < unat uv + unat (uv_step d) \<and>
    reg_value (device d) (reg d) init log' AND NOT (volt_mask d)
      = reg_value (device d) (reg d) init log AND NOT (volt_mask d)"
proof -
  let ?v = "reg_value (device d) (reg d) init"
  let ?m = "I2c_BuckConverter_MvOutToMultiplier d mv"
  have wf: "well_formed d" by (rule regulators_well_formed [OF d])
  then have "unat mv * 1000 < 2 ^ 32" using mv(2) by (simp add: well_formed_def)
  note m = multiplier_of [OF wf this]
  let ?x = "(?v log AND NOT (volt_mask d)) OR (?m AND volt_mask d)"
  obtain l1 where l1: "I2cRead_OutU8 env (device d) (reg d) 0 log = (0, ?v log, l1)" using read_held [OF chip] by blast
  obtain l2 where l2: "I2cSet_U8_drv env (device d) (reg d) ?x l1 = (0, l2)" "?v l2 = ?x" using set_held [OF chip] by blast
  obtain l3 where l3: "I2cRead_OutU8 env (device d) (reg d) 0 l2 = (0, ?x, l3)" "?v l3 = ?x"
    using read_held [OF chip, of 0 l2] l2(2) by auto
  have set: "I2c_BuckConverter_SetMvOut env d mv log = (0, l3)"
    by (simp add: I2c_BuckConverter_SetMvOut_def l1 Let_def l2(1) l3(1))
  obtain l4 where l4: "buck_read env d 5 0 l3 = (Some ?x, l4)"
    using buck_read_held [OF chip, of 4 0 l3] l3(2) by (auto simp: numeral_eq_Suc)
  have x: "?x AND volt_mask d = ?m" "?x AND NOT (volt_mask d) = ?v log AND NOT (volt_mask d)"
    unfolding masked using m(2) by simp_all
  have "I2c_BuckConverter_GetUvOut env d l3 = (I2c_BuckConverter_MultiplierToUvOut d ?m, l4)"
    by (simp only: I2c_BuckConverter_GetUvOut_def l4 prod.case option.case x(1))
  then show ?thesis using set step_value [OF wf mv m(1)] l3(2) x(2) by (intro exI conjI) (assumption | simp)+
qed
text \<open>A chip that holds its registers, as a function of the log.\<close>

definition register_chip :: i2c_env where
  "register_chip = \<lparr>rc_of = (\<lambda>_. 0),
     data_of = (\<lambda>log. case rev log of
         ReceiveAuto dev n # SendAuto d [r] # rest \<Rightarrow> [reg_value dev r 0xC5 (rev rest)]
       | _ \<Rightarrow> []),
     tick_of = (\<lambda>_. 0), session_active = (\<lambda>_. True), armTicksToNs = (\<lambda>t. t * 625 div 12)\<rparr>"

lemma register_chip_holds: "holds_register register_chip dev r 0xC5"
  by (simp add: holds_register_def register_chip_def)

theorem voltage_round_trip_witness:
  "\<exists>log' log'' uv. I2c_BuckConverter_SetMvOut register_chip I2c_Display 1210 [] = (0, log') \<and>
    I2c_BuckConverter_GetUvOut register_chip I2c_Display log' = (uv, log'') \<and>
    unat uv \<le> 1210000 \<and> 1210000 < unat uv + 25000"
proof -
  have d: "I2c_Display \<in> set regulators" by (simp add: regulators_def)
  have "unat (uv_min I2c_Display) \<le> unat (1210 :: u32) * 1000" "unat (1210 :: u32) * 1000 \<le> unat (uv_max I2c_Display)"
    by (simp_all add: I2c_Display_def)
  from voltage_round_trip [OF d register_chip_holds this, of "[]"] show ?thesis
    by (elim exE conjE) (intro exI conjI, assumption, assumption, simp_all add: I2c_Display_def)
qed

section \<open>The charge current\<close>

lemma raw_of:
  assumes "512 \<le> unat ma" "unat ma \<le> 4544"
  shows "unat (I2c_Bq24193_Convert_Raw_mA (I2c_Bq24193_Convert_mA_Raw ma))
    = (unat ma - unat ma mod 100 - 448) div 64 * 64 + 512"
proof -
  let ?n = "unat ma - unat ma mod 100 - 448"
  let ?m = "ma - ma mod 100 - 448 :: u32"
  have g: "\<not> ma > MA_RANGE_MAX" "\<not> ma \<le> MA_RANGE_MIN - 64"
    using assms by (simp_all add: word_less_nat_alt word_le_nat_alt MA_RANGE_MAX_def MA_RANGE_MIN_def)
  have lo: "unat (ma - ma mod 100) = unat ma - unat ma mod 100"
    by (simp add: unat_sub word_le_nat_alt unat_mod)
  have big: "448 \<le> unat ma - unat ma mod 100"
  proof (cases "unat ma < 600")
    case True
    then have "unat ma div 100 = 5" using assms by auto
    then have "unat ma - unat ma mod 100 = 500" by (simp add: minus_mod_eq_div_mult)
    then show ?thesis by simp
  next
    case False
    moreover have "unat ma mod 100 < 100" by simp
    ultimately show ?thesis by linarith
  qed
  have m: "unat ?m = ?n" using lo big by (simp add: unat_sub word_le_nat_alt)
  have "unat ma div 100 \<le> 45" using assms(2) by auto
  then have "unat ma - unat ma mod 100 \<le> 4500" by (simp add: minus_mod_eq_div_mult)
  then have q: "?n div 64 < 64" by linarith
  have e: "I2c_Bq24193_Convert_mA_Raw ma = push_bit 2 (ucast (drop_bit 6 ?m))"
    unfolding I2c_Bq24193_Convert_mA_Raw_def Let_def using g
    by (simp add: MA_RANGE_MIN_def) (rule bit_word_eqI, auto simp: bit_simps)
  have w: "unat (ucast (drop_bit 6 ?m) :: u8) = ?n div 64"
  proof -
    have "unat (drop_bit 6 ?m) = ?n div 64" unfolding m [symmetric] by (simp only: drop_bit_eq_div unat_div) simp
    then show ?thesis using q by (simp only: unsigned_ucast_eq) (simp add: take_bit_nat_eq_self)
  qed
  define x where "x = (ucast (drop_bit 6 ?m) :: u8)"
  have x: "unat x = ?n div 64" "unat x < 64" using w q by (simp_all add: x_def)
  have b: "n < 6" if "bit x n" for n
  proof -
    have "x = take_bit 6 x" using x(2) by (simp add: word_unat_eq_iff unsigned_take_bit_eq take_bit_nat_eq_self)
    then show ?thesis using that by (metis bit_take_bit_iff)
  qed
  have "drop_bit 2 (push_bit 2 x) = x" by (rule bit_word_eqI) (use b in \<open>auto simp: bit_simps not_le dest: b\<close>)
  moreover have "push_bit 2 x AND 1 = 0" by (rule bit_word_eqI) (auto simp: bit_simps)
  moreover have "unat (push_bit 6 (ucast x) + 512 :: u32) = unat x * 64 + 512"
    using x(2) by (simp add: push_bit_eq_mult unat_word_ariths unsigned_ucast_eq take_bit_nat_eq_self)
  ultimately show ?thesis
    unfolding e x_def [symmetric] I2c_Bq24193_Convert_Raw_mA_def by (simp add: MA_RANGE_MIN_def Let_def x(1))
qed

text \<open>
  A charge current that the configuration accepts is set in the charger and read back to less than 100 mA below
  and at most 64 mA above the configured one.
\<close>

lemma charge_current:
  assumes "valid_hoc_value HocClkConfigValue_BatteryChargeCurrent v" "v \<noteq> 0"
    and "holds_register env I2cDevice_Bq24193 BQ24193_CHARGE_CURRENT_CONTROL_REG init"
  shows "\<exists>log' ma log''. I2c_Bq24193_SetFastChargeCurrentLimit env (ucast v) log = (0, log') \<and>
    I2c_Bq24193_GetFastChargeCurrentLimit env 0 log' = (0, ma, log'') \<and>
    unat v < unat ma + 100 \<and> unat ma \<le> unat v + 64"
proof -
  let ?ma = "ucast v :: u32" and ?c = "I2c_Bq24193_Convert_Raw_mA (I2c_Bq24193_Convert_mA_Raw (ucast v))"
  have v: "1024 \<le> unat v" "unat v \<le> 3072" using assms(1,2) by (simp_all add: word_le_nat_alt)
  then have ma: "unat ?ma = unat v" by (simp add: unsigned_ucast_eq take_bit_nat_eq_self)
  obtain l1 where l1: "I2c_Bq24193_SetFastChargeCurrentLimit env ?ma log = (0, l1)"
      "reg_value I2cDevice_Bq24193 BQ24193_CHARGE_CURRENT_CONTROL_REG init l1 = I2c_Bq24193_Convert_mA_Raw ?ma"
    using set_held [OF assms(3)] by (auto simp: I2c_Bq24193_SetFastChargeCurrentLimit_def)
  obtain l2 where l2: "I2c_Bq24193_GetFastChargeCurrentLimit env 0 l1 = (0, ?c, l2)"
    using read_held [OF assms(3), of 0 l1] l1(2) by (auto simp: I2c_Bq24193_GetFastChargeCurrentLimit_def)
  have c: "unat ?c = (unat v - unat v mod 100 - 448) div 64 * 64 + 512" using raw_of [of ?ma] ma v by simp
  define x where "x = unat v - unat v mod 100"
  have x: "x \<le> unat v" "unat v < x + 100" by (simp_all add: x_def) 
  have "x - 448 < (x - 448) div 64 * 64 + 64" "(x - 448) div 64 * 64 \<le> x - 448" by presburger+
  then have "unat v < unat ?c + 100" "unat ?c \<le> unat v + 64" using x v unfolding c x_def [symmetric] by linarith+
  with l1(1) l2 show ?thesis by blast
qed

lemma charge_current_witness:
  "\<exists>log' ma log''. I2c_Bq24193_SetFastChargeCurrentLimit register_chip (ucast (1792 :: u64)) [] = (0, log') \<and>
    I2c_Bq24193_GetFastChargeCurrentLimit register_chip 0 log' = (0, ma, log'') \<and>
    unat (1792 :: u64) < unat ma + 100 \<and> unat ma \<le> unat (1792 :: u64) + 64"
  by (rule charge_current [OF _ _ register_chip_holds]) simp_all

text \<open>What the menu offers, and what the charger is set to.\<close>

lemma offered_currents:
  "map (\<lambda>ma. I2c_Bq24193_Convert_Raw_mA (I2c_Bq24193_Convert_mA_Raw ma))
     [1024, 1280, 1536, 1664, 1792, 2048, 2304, 2560, 2816, 3072]
   = [1024, 1216, 1536, 1664, 1728, 2048, 2304, 2560, 2816, 3008]"
  by code_simp

lemma underflowing_currents:
  "map (\<lambda>ma. I2c_Bq24193_Convert_Raw_mA (I2c_Bq24193_Convert_mA_Raw ma)) [450, 499] = [4544, 4544]"
  by code_simp


end
