(* ===== verification/Soc_Clocks.thy ===== *)
theory Soc_Clocks
  imports Prelude Doubles "HOL-Library.Monad_Syntax"
begin

unbundle bit_operations_syntax

text \<open>
  The clock hardware that the system module drives itself: \<open>sysmodule/src/soc/gm20b.cpp\<close> slides the PLL of
  the GPU to another multiplier, \<open>t210.c\<close> and \<open>pllmb.cpp\<close> count the pulses of a clock in a window of the
  32 kHz oscillator, and \<open>t210.c\<close> computes the loads of the memory from the activity monitor.

  Reads and writes of registers are appended to a log; what a read answers is a function of the log (the
  chip), so every claim holds for any chip, and what a chip keeps is a hypothesis where a claim needs it.
  The waiting times are left out.
\<close>

section \<open>Registers\<close>

datatype block = GPC_BCAST | GPU_TRIM_SYS_GPCPLL | CLK_RST | ACTMON

type_synonym reg = "block \<times> u32"

datatype reg_op = Rd reg | Wr reg u32

type_synonym reg_log = "reg_op list"
type_synonym chip = "reg_log \<Rightarrow> reg \<Rightarrow> u32"

definition rd :: "chip \<Rightarrow> reg \<Rightarrow> reg_log \<Rightarrow> u32 \<times> reg_log" where
  "rd c r s = (c s r, s @ [Rd r])"

definition wr :: "reg \<Rightarrow> u32 \<Rightarrow> reg_log \<Rightarrow> reg_log" where
  "wr r v s = s @ [Wr r v]"

definition BIT :: "nat \<Rightarrow> u32" where "BIT n = push_bit n 1"

section \<open>The PLL of the GPU\<close>

definition GPCPLL_COEFF :: reg where "GPCPLL_COEFF = (GPU_TRIM_SYS_GPCPLL, 0x04)"
definition GPCPLL_CFG2 :: reg where "GPCPLL_CFG2 = (GPU_TRIM_SYS_GPCPLL, 0x08)"
definition GPCPLL_CFG3 :: reg where "GPCPLL_CFG3 = (GPU_TRIM_SYS_GPCPLL, 0x0C)"
definition GPCPLL_NDIV_SLOWDOWN :: reg where "GPCPLL_NDIV_SLOWDOWN = (GPU_TRIM_SYS_GPCPLL, 0x1C)"
definition NDIV_SLOWDOWN_DBG :: reg where "NDIV_SLOWDOWN_DBG = (GPC_BCAST, 0xa0)"
definition CFG2_SDM_DIN_MASK :: u32 where "CFG2_SDM_DIN_MASK = 0x000000FF"
definition CFG2_SDM_DIN_NEW_MASK :: u32 where "CFG2_SDM_DIN_NEW_MASK = 0x007FFF00"
definition CFG2_STEPA_MASK :: u32 where "CFG2_STEPA_MASK = 0xFF000000"
definition CFG3_STEPB_MASK :: u32 where "CFG3_STEPB_MASK = 0x00FF0000"
definition SLOWDOWN_USING_PLL :: u32 where "SLOWDOWN_USING_PLL = BIT 22"
definition EN_DYNRAMP :: u32 where "EN_DYNRAMP = BIT 23"
definition DYNRAMP_DONE_SYNCED :: u32 where "DYNRAMP_DONE_SYNCED = BIT 24"
definition RAMP_TIMEOUT_US :: nat where "RAMP_TIMEOUT_US = 500"

definition gpu_mask :: "chip \<Rightarrow> reg \<Rightarrow> u32 \<Rightarrow> u32 \<Rightarrow> reg_log \<Rightarrow> reg_log" where
  "gpu_mask c r msk val s =
     (let (tmp, s) = rd c r s;
          s = wr r ((tmp AND NOT msk) OR (val AND msk)) s
      in snd (rd c r s))"

definition clk_setup_slide :: "chip \<Rightarrow> reg_log \<Rightarrow> reg_log" where
  "clk_setup_slide c s =
     (let s = gpu_mask c GPCPLL_CFG2 CFG2_STEPA_MASK (push_bit 24 0x04) s
      in gpu_mask c GPCPLL_CFG3 CFG3_STEPB_MASK (push_bit 16 0x05) s)"

fun ramp_done :: "chip \<Rightarrow> nat \<Rightarrow> reg_log \<Rightarrow> bool \<times> reg_log" where
  "ramp_done c 0 s = (False, s)"
| "ramp_done c (Suc n) s =
     (let (v, s) = rd c NDIV_SLOWDOWN_DBG s
      in if v AND DYNRAMP_DONE_SYNCED \<noteq> 0 then (True, s) else ramp_done c n s)"

definition gpu_pllg_slide :: "chip \<Rightarrow> u32 \<Rightarrow> reg_log \<Rightarrow> bool \<times> reg_log" where
  "gpu_pllg_slide c new_divn s =
     (let (coeff, s) = rd c GPCPLL_COEFF s;
          cur_divn = drop_bit 8 coeff AND 0xFF
      in if new_divn = cur_divn then (True, s)
      else
       (let s = clk_setup_slide c s;
            s = gpu_mask c GPCPLL_NDIV_SLOWDOWN SLOWDOWN_USING_PLL SLOWDOWN_USING_PLL s;
            s = gpu_mask c GPCPLL_CFG2 CFG2_SDM_DIN_NEW_MASK 0 s;
            coeff = (coeff AND NOT (push_bit 8 0xFF)) OR push_bit 8 new_divn;
            s = wr GPCPLL_COEFF coeff s;
            s = gpu_mask c GPCPLL_NDIV_SLOWDOWN EN_DYNRAMP EN_DYNRAMP s;
            (success, s) = ramp_done c RAMP_TIMEOUT_US s;
            s = (if success then gpu_mask c GPCPLL_CFG2 CFG2_SDM_DIN_MASK 0 s else s);
            s = gpu_mask c GPCPLL_NDIV_SLOWDOWN (SLOWDOWN_USING_PLL OR EN_DYNRAMP) 0 s;
            (_, s) = rd c GPCPLL_NDIV_SLOWDOWN s
        in (success, s)))"

text \<open>The multiplier for a clock, from the two dividers the PLL has.\<close>

definition divn_for :: "u32 \<Rightarrow> u32 \<Rightarrow> u32 \<Rightarrow> u32" where
  "divn_for khz divm divp =
     (let n = ucast ((ucast khz :: u64) * ucast divm * ucast divp * 2 div 38400) :: u32;
          n = (if n < 8 then 8 else n)
      in if n > 255 then 255 else n)"

text \<open>The clock is not changed while a divider reads as 0. The mapping of the registers is assumed to succeed.\<close>

definition setClock :: "chip \<Rightarrow> u32 \<Rightarrow> reg_log \<Rightarrow> bool \<times> reg_log" where
  "setClock c khz s =
     (let (coeff, s) = rd c GPCPLL_COEFF s;
          divm = coeff AND 0xFF;
          divp = drop_bit 16 coeff AND 0x3F
      in if divm = 0 \<or> divp = 0 then (False, s)
      else gpu_pllg_slide c (divn_for khz divm divp) s)"

section \<open>Counting a clock\<close>

definition PTO_CNTL :: reg where "PTO_CNTL = (CLK_RST, 0x60)"
definition PTO_STATUS :: reg where "PTO_STATUS = (CLK_RST, 0x64)"
definition PTO_CLK_CNT_BUSY :: u32 where "PTO_CLK_CNT_BUSY = BIT 31"
definition PTO_CLK_CNT :: u32 where "PTO_CLK_CNT = 0xFFFFFF"
definition CLK_PTO_CCLK_G_DIV2 :: u32 where "CLK_PTO_CCLK_G_DIV2 = 0x13"
definition CLK_PTO_EMC :: u32 where "CLK_PTO_EMC = 0x24"

text \<open>The wait for the counter; a counter that stays busy is waited for forever.\<close>

partial_function (option) wait_count :: "chip \<Rightarrow> reg_log \<Rightarrow> reg_log option" where
  "wait_count c s =
     (let (v, s) = rd c PTO_STATUS s
      in if v AND PTO_CLK_CNT_BUSY \<noteq> 0 then wait_count c s else Some s)"

definition wr_rd :: "chip \<Rightarrow> reg \<Rightarrow> u32 \<Rightarrow> reg_log \<Rightarrow> reg_log" where
  "wr_rd c r v s = snd (rd c r (wr r v s))"

definition clock_get_dev_freq :: "chip \<Rightarrow> u32 \<Rightarrow> u32 \<Rightarrow> reg_log \<Rightarrow> (u32 \<times> reg_log) option" where
  "clock_get_dev_freq c dev multiplier s =
     (let val = push_bit 14 (dev AND 0x1FF) OR push_bit 23 1 OR BIT 13 OR (16 - 1);
          s = wr_rd c PTO_CNTL val s;
          s = wr_rd c PTO_CNTL (val OR BIT 10) s;
          s = wr_rd c PTO_CNTL val s;
          s = wr_rd c PTO_CNTL (val OR BIT 9) s
      in do {
        s \<leftarrow> wait_count c s;
        let (v, s) = rd c PTO_STATUS s;
            cnt = v AND PTO_CLK_CNT;
            s = wr_rd c PTO_CNTL 0 s
        in Some (ucast ((ucast cnt :: u64) * ucast multiplier * 32768 div 16), s) })"

text \<open>
  The same in \<open>pllmb.cpp\<close>, where the control register and the bits that select the PLL get back what they held.
\<close>

definition PLLM_MISC2 :: reg where "PLLM_MISC2 = (CLK_RST, 0x9C)"
definition CLK_PLLM :: u32 where "CLK_PLLM = 2"
definition CLK_PLLMB :: u32 where "CLK_PLLMB = 37"

definition ptoGetMHz :: "chip \<Rightarrow> u32 \<Rightarrow> u32 \<Rightarrow> reg \<Rightarrow> u32 \<Rightarrow> reg_log \<Rightarrow> (double \<times> reg_log) option" where
  "ptoGetMHz c pto_id divider presel_reg presel_mask s =
     (let (val, s) = rd c presel_reg s;
          presel_val = val AND presel_mask;
          s = wr presel_reg ((val AND NOT presel_mask) OR presel_mask) s;
          (pre_val, s) = rd c PTO_CNTL s;
          val = BIT 23 OR BIT 13 OR (16 - 1) OR push_bit 14 pto_id;
          s = wr PTO_CNTL val s;
          s = wr PTO_CNTL (val OR BIT 10) s;
          s = wr PTO_CNTL val s;
          s = wr PTO_CNTL (val OR BIT 9) s
      in do {
        s \<leftarrow> wait_count c s;
        let (v, s) = rd c PTO_STATUS s;
            v = (v AND 0xFFFFFF) * divider;
            rate_hz = of_u32 v * lit 32768 / of_u32 16;
            s = wr PTO_CNTL pre_val s;
            (val, s) = rd c presel_reg s;
            s = wr presel_reg ((val AND NOT presel_mask) OR presel_val) s
        in Some (rate_hz, s) })"

definition getRamClockRatePLLMB :: "chip \<Rightarrow> reg_log \<Rightarrow> (u64 \<times> reg_log) option" where
  "getRamClockRatePLLMB c s = do {
     (pllmb, s) \<leftarrow> ptoGetMHz c CLK_PLLMB 2 PLLM_MISC2 (BIT 9) s;
     (pllm, s) \<leftarrow> ptoGetMHz c CLK_PLLM 2 PLLM_MISC2 (BIT 8) s;
     let pllmb = to_u32 pllmb; pllm = to_u32 pllm
     in Some (ucast (if pllmb = 0 then pllm else pllmb), s) }"

section \<open>The clocks and the load of the memory\<close>

record soc_env =
  soc_chip :: chip
  armGetSystemTick :: "reg_log \<Rightarrow> u64"
  ticks_to_ns :: "u64 \<Rightarrow> u64"
  clk_mapped :: bool
  gpu_mapped :: bool
  act_mapped :: bool

record soc_state =
  g_update_ticks :: u64
  g_cpu_freq :: u32
  g_gpu_freq :: u32
  g_mem_freq :: u32
  g_emc_lall :: u32
  g_emc_lcpu :: u32
  g_emc_bw_all :: u32
  g_emc_bw_cpu :: u32
  g_emc_bw_gpu :: u32
  soc_log :: reg_log

definition CLK_OUT_ENB_X :: reg where "CLK_OUT_ENB_X = (CLK_RST, 0x280)"
definition RST_DEVICES_X :: reg where "RST_DEVICES_X = (CLK_RST, 0x28C)"
definition ACTMON_GLB_STATUS :: reg where "ACTMON_GLB_STATUS = (ACTMON, 0x0)"
definition ACTMON_GLB_PERIOD_CTRL :: reg where "ACTMON_GLB_PERIOD_CTRL = (ACTMON, 0x4)"
definition ACTMON_PERIOD_MS :: u32 where "ACTMON_PERIOD_MS = 20"
definition ACTMON_DEV_MC_ALL :: u32 where "ACTMON_DEV_MC_ALL = 5"
definition ACTMON_DEV_MC_CPU :: u32 where "ACTMON_DEV_MC_CPU = 6"

text \<open>A register of a device of the activity monitor: its offset from the registers the devices share.\<close>

definition actmon_dev_reg :: "u32 \<Rightarrow> u32 \<Rightarrow> reg" where
  "actmon_dev_reg dev off = (ACTMON, 0x80 + dev * 0x40 + off)"

definition actmon_dev_enable :: "u32 \<Rightarrow> u32 \<Rightarrow> u32 \<Rightarrow> reg_log \<Rightarrow> reg_log" where
  "actmon_dev_enable dev freq weight s =
     (let s = wr (actmon_dev_reg dev 0xC) (freq * ACTMON_PERIOD_MS div 2) s;
          s = wr (actmon_dev_reg dev 0x18) weight s
      in wr (actmon_dev_reg dev 0) (BIT 31 OR BIT 18 OR push_bit 10 (3 AND 7)) s)"

definition actmon_dev_get_count_avg :: "chip \<Rightarrow> u32 \<Rightarrow> reg_log \<Rightarrow> u32 \<times> reg_log" where
  "actmon_dev_get_count_avg c dev s = rd c (actmon_dev_reg dev 0x20) s"

definition gpu_enabled :: "chip \<Rightarrow> reg_log \<Rightarrow> bool \<times> reg_log" where
  "gpu_enabled c s =
     (let (v, s) = rd c CLK_OUT_ENB_X s
      in if v AND BIT 24 = 0 then (False, s)
      else let (w, s) = rd c RST_DEVICES_X s in (w AND BIT 24 = 0, s))"

text \<open>The clock of the GPU from its dividers; None for a divider that reads as 0.\<close>

definition gpu_pll_hz :: "u32 \<Rightarrow> u32 option" where
  "gpu_pll_hz coeff =
     (let divm = coeff AND 0xFF; divn = drop_bit 8 coeff AND 0xFF; divp = drop_bit 16 coeff AND 0x3F
      in if divm * divp = 0 then None else Some (38400000 * divn div (divm * divp) div 2))"

definition emc_load :: "u32 \<Rightarrow> u32 \<Rightarrow> u32 option" where
  "emc_load avg emc_freq =
     (if emc_freq * ACTMON_PERIOD_MS = 0 then None
      else Some (ucast ((ucast avg :: u64) * 10 * 100 div ucast (emc_freq * ACTMON_PERIOD_MS))))"

definition emc_bandwidth :: "u32 \<Rightarrow> u32 \<Rightarrow> u32" where
  "emc_bandwidth emc_freq load = ucast ((ucast emc_freq :: u64) * 16 * ucast load div 1000000)"

text \<open>The activity monitor is switched on where it is off.\<close>

definition actmon_setup :: "chip \<Rightarrow> u32 \<Rightarrow> reg_log \<Rightarrow> reg_log" where
  "actmon_setup c emc_freq s =
     (let (v, s) = rd c ACTMON_GLB_STATUS s;
          s = (if v AND BIT 9 = 0
               then actmon_dev_enable ACTMON_DEV_MC_ALL emc_freq (256 * 4)
                      (wr ACTMON_GLB_PERIOD_CTRL ((ACTMON_PERIOD_MS - 1) AND 0xFF) s)
               else s);
          (v, s) = rd c ACTMON_GLB_STATUS s
      in if v AND BIT 8 = 0 then actmon_dev_enable ACTMON_DEV_MC_CPU emc_freq (256 * 4) s else s)"

definition update_loads :: "chip \<Rightarrow> soc_state \<Rightarrow> soc_state option" where
  "update_loads c st =
     (let emc_freq = g_mem_freq st div 1000;
          s = actmon_setup c emc_freq (soc_log st);
          (all, s) = actmon_dev_get_count_avg c ACTMON_DEV_MC_ALL s
      in do {
        lall \<leftarrow> emc_load all emc_freq;
        let (cpu, s) = actmon_dev_get_count_avg c ACTMON_DEV_MC_CPU s
        in do {
          lcpu \<leftarrow> emc_load cpu emc_freq;
          let bw_all = emc_bandwidth emc_freq lall; bw_cpu = emc_bandwidth emc_freq lcpu
          in Some (st\<lparr>g_emc_lall := lall, g_emc_lcpu := lcpu, g_emc_bw_all := bw_all, g_emc_bw_cpu := bw_cpu,
                      g_emc_bw_gpu := bw_all - bw_cpu, soc_log := s\<rparr>) } })"

text \<open>None: a counter that stays busy, or a division by zero.\<close>

definition clock_update_freqs :: "soc_env \<Rightarrow> soc_state \<Rightarrow> soc_state option" where
  "clock_update_freqs e st =
     (let c = soc_chip e; ticks = armGetSystemTick e (soc_log st)
      in if ticks_to_ns e (ticks - g_update_ticks st) \<le> 1000000000 then Some st
      else
       (let st = st\<lparr>g_update_ticks := ticks\<rparr>
        in if \<not> clk_mapped e then Some st
        else do {
          (mem, s) \<leftarrow> clock_get_dev_freq c CLK_PTO_EMC 1 (soc_log st);
          (cpu, s) \<leftarrow> clock_get_dev_freq c CLK_PTO_CCLK_G_DIV2 2 s;
          let st = st\<lparr>g_mem_freq := mem, g_cpu_freq := cpu, soc_log := s\<rparr>
          in if \<not> gpu_mapped e then Some st
          else
           (let (enabled, s) = gpu_enabled c s; st = st\<lparr>soc_log := s\<rparr>
            in if \<not> enabled \<or> \<not> act_mapped e then Some st
            else
             (let (coeff, s) = rd c GPCPLL_COEFF s
              in do { gpu \<leftarrow> gpu_pll_hz coeff;
                      update_loads c (st\<lparr>g_gpu_freq := gpu, soc_log := s\<rparr>) })) }))"

definition t210ClkCpuFreq :: "soc_env \<Rightarrow> soc_state \<Rightarrow> (u32 \<times> soc_state) option" where
  "t210ClkCpuFreq e st = map_option (\<lambda>st. (g_cpu_freq st, st)) (clock_update_freqs e st)"

definition t210ClkMemFreq :: "soc_env \<Rightarrow> soc_state \<Rightarrow> (u32 \<times> soc_state) option" where
  "t210ClkMemFreq e st = map_option (\<lambda>st. (g_mem_freq st, st)) (clock_update_freqs e st)"

definition t210ClkGpuFreq :: "soc_env \<Rightarrow> soc_state \<Rightarrow> (u32 \<times> soc_state) option" where
  "t210ClkGpuFreq e st = map_option (\<lambda>st. (g_gpu_freq st, st)) (clock_update_freqs e st)"

definition t210EmcLoadAll :: "soc_env \<Rightarrow> soc_state \<Rightarrow> (u32 \<times> soc_state) option" where
  "t210EmcLoadAll e st = map_option (\<lambda>st. (g_emc_lall st, st)) (clock_update_freqs e st)"

definition t210EmcLoadCpu :: "soc_env \<Rightarrow> soc_state \<Rightarrow> (u32 \<times> soc_state) option" where
  "t210EmcLoadCpu e st = map_option (\<lambda>st. (g_emc_lcpu st, st)) (clock_update_freqs e st)"

definition t210EmcBwAll :: "soc_env \<Rightarrow> soc_state \<Rightarrow> (u32 \<times> soc_state) option" where
  "t210EmcBwAll e st = map_option (\<lambda>st. (g_emc_bw_all st, st)) (clock_update_freqs e st)"

definition t210EmcBwCpu :: "soc_env \<Rightarrow> soc_state \<Rightarrow> (u32 \<times> soc_state) option" where
  "t210EmcBwCpu e st = map_option (\<lambda>st. (g_emc_bw_cpu st, st)) (clock_update_freqs e st)"

definition t210EmcBwGpu :: "soc_env \<Rightarrow> soc_state \<Rightarrow> (u32 \<times> soc_state) option" where
  "t210EmcBwGpu e st = map_option (\<lambda>st. (g_emc_bw_gpu st, st)) (clock_update_freqs e st)"

definition t210EmcBwPeak :: "soc_env \<Rightarrow> soc_state \<Rightarrow> (u32 \<times> soc_state) option" where
  "t210EmcBwPeak e st =
     map_option (\<lambda>st. (ucast ((ucast (g_mem_freq st) :: u64) * 16 div 1000000), st)) (clock_update_freqs e st)"

section \<open>What a chip keeps\<close>

fun held_step :: "reg_op \<Rightarrow> (reg \<Rightarrow> u32) \<Rightarrow> reg \<Rightarrow> u32" where
  "held_step (Wr r v) h = h(r := v)"
| "held_step (Rd r) h = h"

text \<open>The contents of the registers after the operations of a log.\<close>

definition held :: "(reg \<Rightarrow> u32) \<Rightarrow> reg_log \<Rightarrow> reg \<Rightarrow> u32" where
  "held init s = fold held_step s init"

definition keeps :: "chip \<Rightarrow> (reg \<Rightarrow> u32) \<Rightarrow> reg set \<Rightarrow> bool" where
  "keeps c init R \<longleftrightarrow> (\<forall>s. \<forall>r \<in> R. c s r = held init s r)"

lemma held_snoc [simp]: "held init (s @ [Wr r v]) = (held init s)(r := v)" "held init (s @ [Rd r]) = held init s"
  "held init [] = init"
  by (simp_all add: held_def)

lemma held_wr [simp]: "held init (wr r v s) = (held init s)(r := v)"
  by (simp add: wr_def)

lemma held_rd [simp]: "held init (snd (rd c r s)) = held init s"
  by (simp add: rd_def)

lemma rd_value: "keeps c init R \<Longrightarrow> r \<in> R \<Longrightarrow> fst (rd c r s) = held init s r"
  by (simp add: rd_def keeps_def)

lemma held_gpu_mask:
  "keeps c init R \<Longrightarrow> r \<in> R \<Longrightarrow>
    held init (gpu_mask c r m v s) = (held init s)(r := (held init s r AND NOT m) OR (v AND m))"
  by (simp add: gpu_mask_def Let_def split_beta rd_value)

lemma held_ramp_done [simp]: "held init (snd (ramp_done c n s)) = held init s"
  by (induction n arbitrary: s) (simp_all add: Let_def split_beta)

text \<open>
  A property of the writes of a log: each holds of the contents of the registers before it.
\<close>

definition writes_ok :: "(reg \<Rightarrow> u32) \<Rightarrow> ((reg \<Rightarrow> u32) \<Rightarrow> reg \<Rightarrow> u32 \<Rightarrow> bool) \<Rightarrow> reg_log \<Rightarrow> bool" where
  "writes_ok init P s \<longleftrightarrow> (\<forall>p r v q. s = p @ Wr r v # q \<longrightarrow> P (held init p) r v)"

lemma writes_ok_snoc [simp]:
  "writes_ok init P (s @ [Wr r v]) \<longleftrightarrow> writes_ok init P s \<and> P (held init s) r v"
  "writes_ok init P (s @ [Rd r]) \<longleftrightarrow> writes_ok init P s"
proof -
  have a: "s @ [x] = p @ Wr r' v' # q \<longleftrightarrow> (q = [] \<and> p = s \<and> x = Wr r' v') \<or> (\<exists>q'. q = q' @ [x] \<and> s = p @ Wr r' v' # q')"
    for x p r' v' q by (cases q rule: rev_cases) auto
  show "writes_ok init P (s @ [Wr r v]) \<longleftrightarrow> writes_ok init P s \<and> P (held init s) r v"
    unfolding writes_ok_def a by blast
  show "writes_ok init P (s @ [Rd r]) \<longleftrightarrow> writes_ok init P s"
    unfolding writes_ok_def a by blast
qed

lemma writes_ok_rd [simp]: "writes_ok init P (snd (rd c r s)) = writes_ok init P s"
  by (simp add: rd_def)

lemma writes_ok_wr [simp]: "writes_ok init P (wr r v s) \<longleftrightarrow> writes_ok init P s \<and> P (held init s) r v"
  by (simp add: wr_def)

lemma writes_ok_gpu_mask:
  "keeps c init R \<Longrightarrow> r \<in> R \<Longrightarrow>
    writes_ok init P (gpu_mask c r m v s) \<longleftrightarrow>
      writes_ok init P s \<and> P (held init s) r ((held init s r AND NOT m) OR (v AND m))"
  by (simp add: gpu_mask_def Let_def split_beta rd_value)

lemma writes_ok_ramp_done [simp]: "writes_ok init P (snd (ramp_done c n s)) = writes_ok init P s"
  by (induction n arbitrary: s) (simp_all add: Let_def split_beta)

section \<open>The slide\<close>

definition gpcpll_regs :: "reg set" where
  "gpcpll_regs = {GPCPLL_COEFF, GPCPLL_CFG2, GPCPLL_CFG3, GPCPLL_NDIV_SLOWDOWN}"

lemma gpcpll_regs [simp]: "GPCPLL_COEFF \<in> gpcpll_regs" "GPCPLL_CFG2 \<in> gpcpll_regs" "GPCPLL_CFG3 \<in> gpcpll_regs"
  "GPCPLL_NDIV_SLOWDOWN \<in> gpcpll_regs"
  by (simp_all add: gpcpll_regs_def)

lemmas reg_defs = GPCPLL_COEFF_def GPCPLL_CFG2_def GPCPLL_CFG3_def GPCPLL_NDIV_SLOWDOWN_def

text \<open>The multiplier is only written while the slowdown is switched on.\<close>

definition slowed :: "(reg \<Rightarrow> u32) \<Rightarrow> reg \<Rightarrow> u32 \<Rightarrow> bool" where
  "slowed h r v \<longleftrightarrow> (r = GPCPLL_COEFF \<longrightarrow> h GPCPLL_NDIV_SLOWDOWN AND SLOWDOWN_USING_PLL \<noteq> 0)"

lemma mask_cycle:
  fixes x a b :: u32
  shows "((x AND NOT a OR a) AND NOT b OR b) AND NOT a AND NOT b = x AND NOT a AND NOT b" "(x AND NOT a OR a) AND a = a"
  by (rule bit_word_eqI; auto simp: bit_simps)+

lemma slide_registers:
  assumes k: "keeps c init gpcpll_regs" and n: "n \<noteq> drop_bit 8 (held init s GPCPLL_COEFF) AND 0xFF"
    and r: "gpu_pllg_slide c n s = (ok, s')" and w: "writes_ok init slowed s"
  shows "held init s' GPCPLL_COEFF = (held init s GPCPLL_COEFF AND NOT 0xFF00) OR push_bit 8 n"
    "held init s' GPCPLL_NDIV_SLOWDOWN = held init s GPCPLL_NDIV_SLOWDOWN AND NOT (SLOWDOWN_USING_PLL OR EN_DYNRAMP)"
    "reg \<notin> gpcpll_regs \<Longrightarrow> held init s' reg = held init s reg"
    "writes_ok init slowed s'"
proof -
  note m = held_gpu_mask [OF k] writes_ok_gpu_mask [OF k] rd_value [OF k]
  have s': "s' = snd (gpu_pllg_slide c n s)" by (simp add: r)
  have bits: "SLOWDOWN_USING_PLL = 0x400000" "EN_DYNRAMP = 0x800000" "push_bit 8 0xFF = (0xFF00 :: u32)"
    by (simp_all add: SLOWDOWN_USING_PLL_def EN_DYNRAMP_def BIT_def push_bit_eq_mult)
  have d: "GPCPLL_COEFF \<noteq> GPCPLL_CFG2" "GPCPLL_COEFF \<noteq> GPCPLL_CFG3" "GPCPLL_COEFF \<noteq> GPCPLL_NDIV_SLOWDOWN"
    "GPCPLL_CFG2 \<noteq> GPCPLL_CFG3" "GPCPLL_CFG2 \<noteq> GPCPLL_NDIV_SLOWDOWN" "GPCPLL_CFG3 \<noteq> GPCPLL_NDIV_SLOWDOWN"
    by (simp_all add: reg_defs)
  show "held init s' GPCPLL_COEFF = (held init s GPCPLL_COEFF AND NOT 0xFF00) OR push_bit 8 n"
    unfolding s' gpu_pllg_slide_def clk_setup_slide_def using n
    by (simp add: Let_def split_beta m bits d d [symmetric] if_distrib [of "held init"])
  have ab: "SLOWDOWN_USING_PLL AND SLOWDOWN_USING_PLL = SLOWDOWN_USING_PLL" "EN_DYNRAMP AND EN_DYNRAMP = EN_DYNRAMP" by simp_all
  show "held init s' GPCPLL_NDIV_SLOWDOWN = held init s GPCPLL_NDIV_SLOWDOWN AND NOT (SLOWDOWN_USING_PLL OR EN_DYNRAMP)"
    unfolding s' gpu_pllg_slide_def clk_setup_slide_def using n
    by (simp add: Let_def split_beta m bits(3) d d [symmetric] if_distrib [of "held init"] mask_cycle(1))
  show "reg \<notin> gpcpll_regs \<Longrightarrow> held init s' reg = held init s reg"
    unfolding s' gpu_pllg_slide_def clk_setup_slide_def
    by (simp add: Let_def split_beta m if_distrib [of "held init"] gpcpll_regs_def)
  have nz: "SLOWDOWN_USING_PLL \<noteq> 0" by (simp add: bits)
  show "writes_ok init slowed s'"
    unfolding s' gpu_pllg_slide_def clk_setup_slide_def using w
    by (simp add: Let_def split_beta m d d [symmetric] if_distrib [of "writes_ok init slowed"] slowed_def mask_cycle(2) nz)
qed
section \<open>The clock of the GPU\<close>

lemma coeff_fields:
  fixes x n :: u32
  assumes "n \<le> 255"
  shows "((x AND NOT 0xFF00) OR push_bit 8 n) AND 0xFF = x AND 0xFF"
    "drop_bit 16 ((x AND NOT 0xFF00) OR push_bit 8 n) AND 0x3F = drop_bit 16 x AND 0x3F"
    "drop_bit 8 ((x AND NOT 0xFF00) OR push_bit 8 n) AND 0xFF = n"
proof -
  have "unat (take_bit 8 n) = unat n"
    using assms by (simp add: unsigned_take_bit_eq take_bit_nat_eq_self word_le_nat_alt)
  then have n: "n = take_bit 8 n" by (metis word_unat_eq_iff)
  have hi: "\<not> bit n i" if "8 \<le> i" for i
    using that by (subst n) (simp add: bit_take_bit_iff)
  have m: "(0xFF00 :: u32) = push_bit 8 (mask 8)" "(0xFF :: u32) = mask 8" "(0x3F :: u32) = mask 6"
    by (simp_all add: mask_eq_exp_minus_1 push_bit_eq_mult)
  show "((x AND NOT 0xFF00) OR push_bit 8 n) AND 0xFF = x AND 0xFF"
    "drop_bit 16 ((x AND NOT 0xFF00) OR push_bit 8 n) AND 0x3F = drop_bit 16 x AND 0x3F"
    unfolding m by (rule bit_word_eqI; use hi in \<open>force simp: bit_simps not_less\<close>)+
  have "bit (drop_bit 8 ((x AND NOT (push_bit 8 (mask 8))) OR push_bit 8 n) AND mask 8) i = bit n i" for i
    by (cases "i < 8") (use hi [of i] in \<open>auto simp: bit_simps\<close>)
  then show "drop_bit 8 ((x AND NOT 0xFF00) OR push_bit 8 n) AND 0xFF = n"
    unfolding m by (simp add: bit_eq_iff)
qed

lemma divn_for_bounds: "8 \<le> divn_for khz m p \<and> divn_for khz m p \<le> 255"
  by (auto simp: divn_for_def Let_def not_less not_le intro: order.strict_implies_order)

lemma field_bounds:
  fixes x :: u32
  shows "unat (x AND 0xFF) \<le> 255" "unat (x AND 0x3F) \<le> 63"
proof -
  have "x AND 0xFF \<le> 0xFF" "x AND 0x3F \<le> 0x3F" by (simp_all add: word_and_le1)
  then show "unat (x AND 0xFF) \<le> 255" "unat (x AND 0x3F) \<le> 63" by (simp_all add: word_le_nat_alt)
qed

text \<open>Without the limits of the multiplier it is the largest one that does not pass the clock.\<close>

lemma divn_for_eq:
  assumes "unat m \<le> 255" "unat p \<le> 63" and n: "n = unat khz * unat m * unat p * 2 div 38400" "8 \<le> n" "n \<le> 255"
  shows "unat (divn_for khz m p) = n"
proof -
  let ?q = "(ucast khz :: u64) * ucast m * ucast p * 2"
  have w: "unat (ucast (v :: u32) :: u64) = unat v" for v
    using unsigned_less [of v, where ?'a = nat] by (simp add: unsigned_ucast_eq take_bit_nat_eq_self)
  have k: "unat khz < 2 ^ 32" using unsigned_less [of khz, where ?'a = nat] by simp
  have b1: "unat khz * unat m \<le> 4294967296 * 255"
    by (rule mult_le_mono [OF less_imp_le assms(1)]) (use k in simp)
  note b = b1 mult_le_mono [OF b1 assms(2)]
  have "unat ?q = unat khz * unat m * unat p * 2"
    using b by (simp add: unat_word_ariths w mod_mult_left_eq)
  then have "unat (?q div 38400) = n" by (simp add: unat_div_distrib n(1))
  then have "unat (ucast (?q div 38400) :: u32) = n"
    using n(3) by (simp add: unsigned_ucast_eq take_bit_nat_eq_self)
  then show ?thesis using n(2,3) by (auto simp: divn_for_def Let_def word_less_nat_alt)
qed

lemma scaled_back:
  fixes k d :: nat
  assumes "0 < d"
  defines "n \<equiv> k * d div 38400"
  defines "hz \<equiv> 38400000 * n div d"
  shows "hz \<le> k * 1000" "k * 1000 \<le> hz + 1 + 38400000 div d"
proof -
  have n: "38400 * n \<le> k * d" "k * d < 38400 * (n + 1)"
    unfolding n_def using div_times_less_eq_dividend [of "k * d" 38400] dividend_less_div_times [of 38400 "k * d"]
    by (simp_all add: algebra_simps)
  have "38400000 * n \<le> k * 1000 * d" using n(1) by linarith
  then have "hz \<le> k * 1000 * d div d" unfolding hz_def by (rule div_le_mono)
  then show "hz \<le> k * 1000" using assms(1) by simp
  have h: "38400000 * n < hz * d + d" unfolding hz_def using dividend_less_div_times [OF assms(1), of "38400000 * n"] by simp
  have "k * 1000 * d < hz * d + d + 38400000" using n(2) h by simp
  then have "(k * 1000 - hz - 1) * d \<le> 38400000" by (simp add: diff_mult_distrib)
  then have "k * 1000 - hz - 1 \<le> 38400000 div d" using assms(1) by (simp add: less_eq_div_iff_mult_less_eq)
  then show "k * 1000 \<le> hz + 1 + 38400000 div d" by simp
qed

lemma gpu_pll_hz_nat:
  assumes "divm = coeff AND 0xFF" "divp = drop_bit 16 coeff AND 0x3F" "divn = drop_bit 8 coeff AND 0xFF"
    and "divm \<noteq> 0" "divp \<noteq> 0" "unat divn \<le> 111"
  obtains hz where "gpu_pll_hz coeff = Some hz" "unat hz = 38400000 * unat divn div (2 * unat divm * unat divp)"
proof -
  have b: "unat divm \<le> 255" "unat divp \<le> 63" using assms(1,2) field_bounds by simp_all
  have "unat divm * unat divp \<le> 255 * 63" by (rule mult_le_mono [OF b])
  then have mp: "unat (divm * divp) = unat divm * unat divp" by (simp add: unat_word_ariths)
  have "0 < unat divm" "0 < unat divp" using assms(4,5) by (simp_all add: unat_gt_0)
  then have "divm * divp \<noteq> 0" using mp by (metis nat_0_less_mult_iff unat_0 less_irrefl)
  moreover have "unat (38400000 * divn) = 38400000 * unat divn" using assms(6) by (simp add: unat_word_ariths)
  then have "unat (38400000 * divn div (divm * divp) div 2) = 38400000 * unat divn div (2 * unat divm * unat divp)"
    by (simp add: unat_div_distrib mp div_mult2_eq [symmetric] mult.commute mult.left_commute)
  ultimately show thesis using that assms(1-3) by (simp add: gpu_pll_hz_def Let_def)
qed
lemma same_divn:
  fixes x :: u32
  shows "(x AND NOT 0xFF00) OR push_bit 8 (drop_bit 8 x AND 0xFF) = x"
proof -
  have m: "(0xFF00 :: u32) = push_bit 8 (mask 8)" "(0xFF :: u32) = mask 8"
    by (simp_all add: mask_eq_exp_minus_1 push_bit_eq_mult)
  show ?thesis unfolding m by (rule bit_word_eqI) (auto simp: bit_simps)
qed

lemma slide_result:
  assumes "keeps c init gpcpll_regs" "setClock c khz [] = (ok, s')"
    and "m = init GPCPLL_COEFF AND 0xFF" "p = drop_bit 16 (init GPCPLL_COEFF) AND 0x3F" "m \<noteq> 0" "p \<noteq> 0"
  shows "held init s' GPCPLL_COEFF = (init GPCPLL_COEFF AND NOT 0xFF00) OR push_bit 8 (divn_for khz m p) \<and>
    (\<forall>reg. reg \<notin> gpcpll_regs \<longrightarrow> held init s' reg = init reg) \<and> writes_ok init slowed s' \<and>
    (held init s' \<noteq> init \<longrightarrow>
      held init s' GPCPLL_NDIV_SLOWDOWN = init GPCPLL_NDIV_SLOWDOWN AND NOT (SLOWDOWN_USING_PLL OR EN_DYNRAMP))"
proof -
  let ?s = "[Rd GPCPLL_COEFF]" and ?n = "divn_for khz m p"
  have h: "held init ?s = init" using held_snoc(2) [of init "[]" GPCPLL_COEFF] by simp
  have v: "rd c GPCPLL_COEFF [] = (init GPCPLL_COEFF, ?s)"
    using rd_value [OF assms(1), of GPCPLL_COEFF "[]"] by (simp add: rd_def)
  then have r: "gpu_pllg_slide c ?n ?s = (ok, s')" using assms(2-6) by (simp add: setClock_def Let_def)
  have w: "writes_ok init slowed ?s" by (simp add: writes_ok_def Cons_eq_append_conv)
  show ?thesis
  proof (cases "?n = drop_bit 8 (init GPCPLL_COEFF) AND 0xFF")
    case True
    then have "s' = snd (rd c GPCPLL_COEFF ?s)"
      using r rd_value [OF assms(1), of GPCPLL_COEFF ?s] by (simp add: gpu_pllg_slide_def Let_def split_beta h)
    then have "held init s' = init" "writes_ok init slowed s'" using w by (simp_all add: h)
    then show ?thesis using same_divn [of "init GPCPLL_COEFF"] unfolding True by simp
  next
    case False
    note sl = slide_registers [OF assms(1) _ r w, unfolded h, OF False]
    show ?thesis using sl by blast
  qed
qed

text \<open>
  C28. Setting the clock of the GPU, on a chip that keeps its registers: nothing but the four registers of the
  PLL is changed; the multiplier register gets the new multiplier and keeps the two dividers, and is written
  only while the slowdown is switched on; afterwards slowdown and ramp are off again, whether the ramp
  completed in time or not.
\<close>

theorem gpu_slide_guarded:
  assumes "keeps c init gpcpll_regs" "setClock c khz [] = (ok, s')"
    and "m = init GPCPLL_COEFF AND 0xFF" "p = drop_bit 16 (init GPCPLL_COEFF) AND 0x3F" "m \<noteq> 0" "p \<noteq> 0"
  shows "held init s' GPCPLL_COEFF = (init GPCPLL_COEFF AND NOT 0xFF00) OR push_bit 8 (divn_for khz m p) \<and>
    (\<forall>reg. reg \<notin> gpcpll_regs \<longrightarrow> held init s' reg = init reg) \<and> writes_ok init slowed s' \<and>
    (held init s' \<noteq> init \<longrightarrow>
      held init s' GPCPLL_NDIV_SLOWDOWN = init GPCPLL_NDIV_SLOWDOWN AND NOT (SLOWDOWN_USING_PLL OR EN_DYNRAMP))"
  by (rule slide_result [OF assms])

text \<open>
  C40. The clock of the GPU that is read back after it was set: when the multiplier neither reaches its limits
  nor overflows the reading, it is not above the one that was set and less than one step of the multiplier
  below it, the step being 38.4 MHz over twice the dividers.
\<close>

theorem gpu_clock_read_back:
  assumes "keeps c init gpcpll_regs" "setClock c khz [] = (ok, s')"
    and "m = init GPCPLL_COEFF AND 0xFF" "p = drop_bit 16 (init GPCPLL_COEFF) AND 0x3F" "m \<noteq> 0" "p \<noteq> 0"
    and "8 \<le> unat khz * unat m * unat p * 2 div 38400" "unat khz * unat m * unat p * 2 div 38400 \<le> 111"
  shows "\<exists>hz. gpu_pll_hz (fst (rd c GPCPLL_COEFF s')) = Some hz \<and> unat hz \<le> unat khz * 1000 \<and>
    unat khz * 1000 \<le> unat hz + 1 + 38400000 div (2 * unat m * unat p)"
proof -
  let ?n = "divn_for khz m p" and ?d = "2 * unat m * unat p"
  have b: "unat m \<le> 255" "unat p \<le> 63" using assms(3,4) field_bounds by simp_all
  have n: "unat ?n = unat khz * unat m * unat p * 2 div 38400"
    using divn_for_eq [OF b refl] assms(7,8) by simp
  then have n': "unat ?n = unat khz * ?d div 38400" by (simp add: mult.commute mult.left_commute)
  have co: "fst (rd c GPCPLL_COEFF s') = (init GPCPLL_COEFF AND NOT 0xFF00) OR push_bit 8 ?n"
    using slide_result [OF assms(1-6)] rd_value [OF assms(1), of GPCPLL_COEFF s'] by simp
  have d: "0 < ?d" using assms(5,6) by (simp add: unat_gt_0)
  note f = coeff_fields [of ?n "init GPCPLL_COEFF", OF conjunct2 [OF divn_for_bounds]]
  obtain hz where "gpu_pll_hz (fst (rd c GPCPLL_COEFF s')) = Some hz" "unat hz = 38400000 * unat ?n div ?d"
    using gpu_pll_hz_nat [of m "fst (rd c GPCPLL_COEFF s')" p ?n] f assms(3-6,8) n unfolding co by auto
  then show ?thesis using scaled_back [OF d, of "unat khz"] unfolding n' by simp
qed
section \<open>The counter\<close>

lemma wait_count_step:
  "wait_count c s = (if c s PTO_STATUS AND PTO_CLK_CNT_BUSY \<noteq> 0 then wait_count c (s @ [Rd PTO_STATUS])
     else Some (s @ [Rd PTO_STATUS]))"
  by (subst wait_count.simps) (simp add: rd_def)

text \<open>The wait ends when the counter is idle after some number of polls.\<close>

definition idle_after :: "chip \<Rightarrow> reg_log \<Rightarrow> nat \<Rightarrow> bool" where
  "idle_after c s n \<longleftrightarrow> c (s @ replicate n (Rd PTO_STATUS)) PTO_STATUS AND PTO_CLK_CNT_BUSY = 0"

lemma wait_count_ends: "idle_after c s n \<Longrightarrow> \<exists>s'. wait_count c s = Some s' \<and> held init s' = held init s"
proof (induction n arbitrary: s)
  case 0
  then show ?case by (subst wait_count_step) (simp add: idle_after_def)
next
  case (Suc n)
  then have "idle_after c (s @ [Rd PTO_STATUS]) n" by (simp add: idle_after_def)
  then show ?case using Suc.IH [of "s @ [Rd PTO_STATUS]"] by (subst wait_count_step) simp
qed

text \<open>
  A counter that ends each count, and whose value is the number of pulses of half of the selected clock in 16
  periods of the oscillator, for a clock \<open>f i\<close> in Hz of source \<open>i\<close>.
\<close>

definition counts :: "chip \<Rightarrow> (reg \<Rightarrow> u32) \<Rightarrow> (u32 \<Rightarrow> nat) \<Rightarrow> bool" where
  "counts c init f \<longleftrightarrow> (\<forall>s. (\<exists>n. idle_after c s n) \<and>
     unat (c s PTO_STATUS AND 0xFFFFFF) = f (drop_bit 14 (held init s PTO_CNTL) AND 0x1FF) div 4096)"

lemma exact_scale:
  assumes "n < 2 ^ 32"
  shows "fl (fl (of_nat n * 32768) / 16) = of_nat (n * 2048)"
proof -
  have 1: "fl (of_nat (n * 32768)) = of_nat (n * 32768)" using assms by (intro fl_of_nat) simp
  have 2: "fl (of_nat (n * 2048)) = of_nat (n * 2048)" using assms by (intro fl_of_nat) simp
  have "(of_nat (n * 32768) :: rat) / 16 = of_nat (n * 2048)" by simp
  then show ?thesis using 1 2 by (simp add: mult.commute)
qed

lemma exact_rate: "exact (of_u32 v * lit 32768 / of_u32 16) = of_nat (unat v * 2048)"
proof -
  have b: "unat v < 2 ^ 32" using unsigned_less [of v, where ?'a = nat] by simp
  have l: "fl 32768 = 32768" using fl_of_nat [of 32768] by simp
  show ?thesis using exact_scale [OF b] by (simp only: double_defs double.sel l) simp
qed

lemma to_u32_exact: "exact x = of_nat n \<Longrightarrow> n < 2 ^ 32 \<Longrightarrow> unat (to_u32 x) = n"
  by (simp add: to_u32_def trunc_def unsigned_of_nat take_bit_nat_eq_self)

definition pto_regs :: "reg set" where "pto_regs = {PTO_CNTL, PLLM_MISC2}"

lemma bit_BIT [simp]: "bit (BIT n) k \<longleftrightarrow> k = n \<and> n < 32"
  by (auto simp: BIT_def bit_simps)

lemma pto_source:
  fixes i :: u32
  assumes "i < 0x200"
  shows "drop_bit 14 ((BIT 23 OR BIT 13 OR (16 - 1) OR push_bit 14 i) OR BIT 9) AND 0x1FF = i"
proof -
  have "unat (take_bit 9 i) = unat i"
    using assms by (simp add: unsigned_take_bit_eq take_bit_nat_eq_self word_less_nat_alt)
  then have i: "i = take_bit 9 i" by (metis word_unat_eq_iff)
  have hi: "\<not> bit i k" if "9 \<le> k" for k using that by (subst i) (simp add: bit_take_bit_iff)
  have m: "(0x1FF :: u32) = mask 9" "(16 - 1 :: u32) = mask 4" by (simp_all add: mask_eq_exp_minus_1)
  have "bit (drop_bit 14 ((BIT 23 OR BIT 13 OR mask 4 OR push_bit 14 i) OR BIT 9) AND mask 9) k = bit i k" for k
    by (cases "k < 9") (use hi [of k] in \<open>auto simp: bit_simps\<close>)
  then show ?thesis unfolding m by (simp add: bit_eq_iff)
qed

lemma ptoGetMHz_counts:
  assumes k: "keeps c init0 pto_regs" and f: "counts c init0 f" and i: "i < 0x200"
  shows "\<exists>rate s'. ptoGetMHz c i 2 PLLM_MISC2 m s = Some (rate, s') \<and> held init0 s' = held init0 s \<and>
    exact rate = of_nat (f i div 4096 * 4096)"
proof -
  let ?h = "held init0 s"
  let ?v = "BIT 23 OR BIT 13 OR (16 - 1) OR push_bit 14 i"
  define s1 where "s1 = wr PLLM_MISC2 ((?h PLLM_MISC2 AND NOT m) OR m) (s @ [Rd PLLM_MISC2])"
  define s2 where "s2 = wr PTO_CNTL (?v OR BIT 9) (wr PTO_CNTL ?v (wr PTO_CNTL (?v OR BIT 10) (wr PTO_CNTL ?v (s1 @ [Rd PTO_CNTL]))))"
  have d: "PTO_CNTL \<noteq> PLLM_MISC2" by (simp add: PTO_CNTL_def PLLM_MISC2_def)
  have r: "rd c PLLM_MISC2 t = (held init0 t PLLM_MISC2, t @ [Rd PLLM_MISC2])"
    "rd c PTO_CNTL t = (held init0 t PTO_CNTL, t @ [Rd PTO_CNTL])" for t
    using rd_value [OF k, of PLLM_MISC2 t] rd_value [OF k, of PTO_CNTL t] by (simp_all add: pto_regs_def rd_def)
  have h1: "held init0 s1 PTO_CNTL = ?h PTO_CNTL" using d by (simp add: s1_def)
  have h2: "held init0 s2 = ?h(PLLM_MISC2 := (?h PLLM_MISC2 AND NOT m) OR m, PTO_CNTL := ?v OR BIT 9)"
    by (simp add: s2_def s1_def)
  obtain n where n: "idle_after c s2 n" using f by (auto simp: counts_def)
  obtain s3 where s3: "wait_count c s2 = Some s3" "held init0 s3 = held init0 s2"
    using wait_count_ends [OF n, of init0] by blast
  define cnt where "cnt = c s3 PTO_STATUS AND 0xFFFFFF"
  have cnt: "unat cnt = f i div 4096"
    using f s3(2) h2 pto_source [OF i] by (simp add: counts_def cnt_def)
  have "cnt \<le> 0xFFFFFF" by (simp add: cnt_def word_and_le1)
  then have "unat cnt \<le> 16777215" by (simp add: word_le_nat_alt)
  then have c2: "unat (cnt * 2) = f i div 4096 * 2" using cnt by (simp add: unat_word_ariths)
  define s4 where "s4 = wr PTO_CNTL (?h PTO_CNTL) (s3 @ [Rd PTO_STATUS])"
  have h4: "held init0 s4 = ?h(PLLM_MISC2 := (?h PLLM_MISC2 AND NOT m) OR m)"
    using d by (simp add: s4_def s3(2) h2 fun_upd_twist)
  define s5 where "s5 = wr PLLM_MISC2 ((held init0 s4 PLLM_MISC2 AND NOT m) OR (?h PLLM_MISC2 AND m)) (s4 @ [Rd PLLM_MISC2])"
  have rest: "((x AND NOT m OR m) AND NOT m) OR (x AND m) = x" for x :: u32
    by (rule bit_word_eqI) (auto simp: bit_simps)
  have "ptoGetMHz c i 2 PLLM_MISC2 m s = Some (of_u32 (cnt * 2) * lit 32768 / of_u32 16, s5)"
    using s3(1)
    by (simp add: ptoGetMHz_def Let_def r s1_def [symmetric] h1 s2_def d d [symmetric] rd_def [of c PTO_STATUS] cnt_def
        s4_def s5_def)
  moreover have "held init0 s5 = ?h" by (simp add: s5_def h4 rest)
  ultimately show ?thesis using c2 by (simp add: exact_rate)
qed

text \<open>
  C29. Reading the memory clock through its PLL, on a chip whose counter ends and counts right: the reading
  returns, every register is as it was, and the result is the clock of the PLL of the memory to less than
  4096 Hz, or that of the other PLL while the first one stands still.
\<close>

theorem ram_clock_measured:
  assumes "keeps c init pto_regs" "counts c init f" "f CLK_PLLMB < 2 ^ 32" "f CLK_PLLM < 2 ^ 32"
  shows "\<exists>hz s'. getRamClockRatePLLMB c [] = Some (hz, s') \<and> held init s' = init \<and>
    unat hz = (if f CLK_PLLMB < 4096 then f CLK_PLLM else f CLK_PLLMB) div 4096 * 4096"
proof -
  obtain r1 s1 where 1: "ptoGetMHz c CLK_PLLMB 2 PLLM_MISC2 (BIT 9) [] = Some (r1, s1)" "held init s1 = init"
      "exact r1 = of_nat (f CLK_PLLMB div 4096 * 4096)"
    using ptoGetMHz_counts [OF assms(1,2), of CLK_PLLMB "BIT 9" "[]"] by (auto simp: CLK_PLLMB_def)
  obtain r2 s2 where 2: "ptoGetMHz c CLK_PLLM 2 PLLM_MISC2 (BIT 8) s1 = Some (r2, s2)" "held init s2 = init"
      "exact r2 = of_nat (f CLK_PLLM div 4096 * 4096)"
    using ptoGetMHz_counts [OF assms(1,2), of CLK_PLLM "BIT 8" s1] 1(2) by (auto simp: CLK_PLLM_def)
  have u: "unat (to_u32 r1) = f CLK_PLLMB div 4096 * 4096" "unat (to_u32 r2) = f CLK_PLLM div 4096 * 4096"
    by (rule to_u32_exact [OF 1(3) le_less_trans [OF div_times_less_eq_dividend assms(3)]],
        rule to_u32_exact [OF 2(3) le_less_trans [OF div_times_less_eq_dividend assms(4)]])
  have z: "to_u32 r1 = 0 \<longleftrightarrow> f CLK_PLLMB < 4096"
    using u(1) by (metis div_eq_0_iff mult_eq_0_iff unat_eq_0 zero_neq_numeral)
  have w: "unat (ucast (v :: u32) :: u64) = unat v" for v
    using unsigned_less [of v, where ?'a = nat] by (simp add: unsigned_ucast_eq take_bit_nat_eq_self)
  show ?thesis using 1 2 u z by (simp add: getRamClockRatePLLMB_def w)
qed

section \<open>Examples\<close>

text \<open>A chip with registers, a counter that counts at once, and a ramp that is done at once.\<close>

definition demo_chip :: "(reg \<Rightarrow> u32) \<Rightarrow> (u32 \<Rightarrow> nat) \<Rightarrow> chip" where
  "demo_chip init f s r =
     (if r = PTO_STATUS then of_nat (f (drop_bit 14 (held init s PTO_CNTL) AND 0x1FF) div 4096)
      else if r = NDIV_SLOWDOWN_DBG then BIT 24 else held init s r)"

definition demo_regs :: "reg \<Rightarrow> u32" where
  "demo_regs = (\<lambda>r. if r = GPCPLL_COEFF then 0x12201 else 0)"

definition demo_clocks :: "u32 \<Rightarrow> nat" where
  "demo_clocks i = (if i = CLK_PLLMB then 2133000000 else 0)"

definition demo_soc :: chip where "demo_soc = demo_chip demo_regs demo_clocks"

lemma demo_keeps: "keeps (demo_chip init f) init gpcpll_regs" "keeps (demo_chip init f) init pto_regs"
  by (auto simp: keeps_def demo_chip_def gpcpll_regs_def pto_regs_def reg_defs PTO_STATUS_def NDIV_SLOWDOWN_DBG_def
      PTO_CNTL_def PLLM_MISC2_def)

lemma demo_dividers: "demo_regs GPCPLL_COEFF AND 0xFF = 1" "drop_bit 16 (demo_regs GPCPLL_COEFF) AND 0x3F = 1"
  by (simp_all add: demo_regs_def)

theorem gpu_slide_guarded_witness:
  "held demo_regs (snd (setClock demo_soc 998400 [])) GPCPLL_COEFF = 0x13401"
proof -
  have "divn_for 998400 1 1 = 52" by (simp add: divn_for_def Let_def)
  then show ?thesis
    using gpu_slide_guarded [OF demo_keeps(1) [of demo_regs demo_clocks, folded demo_soc_def] surjective_pairing [of "setClock demo_soc 998400 []"] demo_dividers [symmetric]]
    by (simp add: demo_regs_def)
qed

theorem gpu_clock_read_back_witness:
  "\<exists>hz. gpu_pll_hz (fst (rd demo_soc GPCPLL_COEFF (snd (setClock demo_soc 998400 [])))) = Some hz \<and>
    unat hz \<le> 998400000 \<and> 998400000 \<le> unat hz + 19200001"
  using gpu_clock_read_back [OF demo_keeps(1) [of demo_regs demo_clocks, folded demo_soc_def] surjective_pairing [of "setClock demo_soc 998400 []"] demo_dividers [symmetric]] by simp

lemma demo_counts: "counts (demo_chip init demo_clocks) init demo_clocks"
proof -
  have "demo_clocks i div 4096 \<le> 520751" for i by (simp add: demo_clocks_def)
  then have c: "unat (of_nat (demo_clocks i div 4096) :: u32) = demo_clocks i div 4096" for i
    using le_less_trans [of "demo_clocks i div 4096" 520751 "2 ^ 32"] by (simp add: unsigned_of_nat take_bit_nat_eq_self)
  have v: "of_nat (demo_clocks i div 4096) \<in> {0, 520751 :: u32}" for i by (simp add: demo_clocks_def)
  have "of_nat (demo_clocks i div 4096) AND PTO_CLK_CNT_BUSY = 0"
    "of_nat (demo_clocks i div 4096) AND 0xFFFFFF = (of_nat (demo_clocks i div 4096) :: u32)" for i
    using v [of i] by (auto simp: PTO_CLK_CNT_BUSY_def BIT_def)
  then show ?thesis by (auto simp: counts_def idle_after_def demo_chip_def c)
qed

theorem ram_clock_measured_witness:
  "\<exists>hz s'. getRamClockRatePLLMB (demo_chip demo_regs demo_clocks) [] = Some (hz, s') \<and> unat hz = 2132996096"
  using ram_clock_measured [OF demo_keeps(2) demo_counts, of demo_regs] by (auto simp: demo_clocks_def CLK_PLLMB_def CLK_PLLM_def)

text \<open>
  The reading of the clock of the GPU does not check the dividers, unlike the setting, and the loads divide by
  the memory clock: both are a division by zero when the register or the counter reads as 0.
\<close>

lemma zero_dividers: "gpu_pll_hz 0 = None" "emc_load n 0 = None"
  by (simp_all add: gpu_pll_hz_def emc_load_def)

lemma zero_divider_not_set: "init GPCPLL_COEFF = 0 \<Longrightarrow> keeps c init gpcpll_regs \<Longrightarrow> setClock c khz [] = (False, [Rd GPCPLL_COEFF])"
  using rd_value [of c init gpcpll_regs GPCPLL_COEFF "[]"] by (simp add: setClock_def rd_def)

text \<open>The counter of \<open>t210.c\<close>: the result is exact up to its width, and the counter is off afterwards.\<close>

lemma dev_freq_counts:
  assumes "clock_get_dev_freq c dev multiplier s = Some (freq, s')"
  shows "held init s' PTO_CNTL = 0"
proof -
  show ?thesis using assms by (auto simp: clock_get_dev_freq_def Let_def split_beta wr_rd_def bind_eq_Some_conv)
qed

end
