(* ===== verification/Loader_Block.thy ===== *)
theory Loader_Block
  imports Kip Loader_Customize
begin

text \<open>
  The block of settings inside the loader, \<open>CustomizeTable\<close> of \<open>loader/source/oc/customize.hpp\<close>, as the
  system module finds it in the loader's file. The system module reads and writes it through a structure of
  its own, \<open>CustomizeTable\<close> of \<open>sysmodule/src/file/kip.hpp\<close>; the two agree only up to the first memory
  clock, and it is the check of the revision and of the version that keeps the system module from writing
  into the block of the loader in this repository.
\<close>

section \<open>The block as the loader lays it out\<close>

definition loader_CUST_REV :: u32 where "loader_CUST_REV = 3"
definition loader_KIP_VERSION :: u32 where "loader_KIP_VERSION = 231"

definition settings_words :: "customize \<Rightarrow> u32 list" where
  "settings_words C =
     [loader_CUST_REV, loader_KIP_VERSION, hpMode C, commonEmcMemVolt C, eristaEmcMaxClock C, eristaEmcMaxClock1 C,
      eristaEmcMaxClock2 C, stepMode C, marikoEmcMaxClock C, marikoEmcVddqVolt C, emcDvbShift C, marikoSocVmax C,
      t1_tRCD C, t2_tRP C, t3_tRAS C, t4_tRRD C, t5_tRFC C, t6_tRTW C, t7_tWTR C, t8_tREFI C, t2_tRP_cap C,
      timingEmcTbreak C, low_t6_tRTW C, low_t7_tWTR C] @
     readLatency C @ writeLatency C @
     [mem_burst_read_latency C, mem_burst_write_latency C, eristaCpuUV C, eristaCpuVmin C, eristaCpuMaxVolt C,
      eristaCpuUnlock C, marikoCpuUVLow C, marikoCpuUVHigh C, tableConf C, marikoCpuLowVmin C, marikoCpuHighVmin C,
      marikoCpuMaxVolt C, marikoCpuMaxClock C, eristaCpuBoostClock C, marikoCpuBoostClock C, eristaGpuUV C,
      eristaGpuVmin C, marikoGpuUV C, marikoGpuVmin C, marikoGpuVmax C, commonGpuVoltOffset C, gpuSpeedo C] @
     eristaGpuVoltArray C @ marikoGpuVoltArray C @ [fineTune_t6_tRTW C, fineTune_t7_tWTR C]"

text \<open>A table takes the room of 31 entries; the unused ones are zero.\<close>

definition dvfs_words :: "cvb_entry list \<Rightarrow> u32 list" where
  "dvfs_words t = concat (map cvb_words (take DvfsTableEntryLimit (t @ replicate DvfsTableEntryLimit (cvb 0 [] []))))"

definition block_words :: "customize \<Rightarrow> u32 list" where
  "block_words C = settings_words C @ replicate 60 0 @
     concat (map dvfs_words
       [eristaCpuDvfsTable C, eristaCpuDvfsTableSLT C, marikoCpuDvfsTable C, marikoCpuDvfsTableSLT C,
        marikoCpuDvfsTable1581Tbreak C, marikoCpuDvfsTable1683Tbreak C, marikoCpuDvfsTableExtreme C,
        eristaGpuDvfsTable C, eristaGpuDvfsTableSLT C, eristaGpuDvfsTableHiOPT C,
        marikoGpuDvfsTable C, marikoGpuDvfsTableSLT C, marikoGpuDvfsTableHiOPT C])"

definition block_bytes :: "customize \<Rightarrow> u8 list" where
  "block_bytes C = CUST_MAGIC @ concat (map le32 (block_words C))"

definition wf_arrays :: "customize \<Rightarrow> bool" where
  "wf_arrays C \<longleftrightarrow> length (readLatency C) = 4 \<and> length (writeLatency C) = 4 \<and>
     length (eristaGpuVoltArray C) = 27 \<and> length (marikoGpuVoltArray C) = 24"

section \<open>The block as the system module reads it\<close>

lemma length_cust_fields: "length cust_fields = 103"
  by (simp add: cust_fields_def all_erista_gpu_volts_def all_mariko_gpu_volts_def)

lemma length_settings_words: "wf_arrays C \<Longrightarrow> length (settings_words C) = 107"
  by (simp add: settings_words_def wf_arrays_def)

lemma read_words_prefix: "n \<le> length ws \<Longrightarrow> read_words n (concat (map le32 ws) @ bs) = take n ws"
proof -
  assume n: "n \<le> length ws"
  have "concat (map le32 ws) @ bs = concat (map le32 (take n ws)) @ (concat (map le32 (drop n ws)) @ bs)"
    by (metis append.assoc append_take_drop_id concat_append map_append)
  then show ?thesis using read_words_concat [of "take n ws"] n by simp
qed

lemma take_words: "4 * n \<le> length (concat (map le32 ws)) \<Longrightarrow> take (4 * n) (concat (map le32 ws)) = concat (map le32 (take n ws))"
proof (induction ws arbitrary: n)
  case (Cons w ws)
  then show ?case by (cases n) auto
qed simp

text \<open>A block of enough words is read word by word, whatever the words mean.\<close>

lemma parse_words:
  assumes "length cust_fields + 60 \<le> length ws"
  shows "map (cust_val (parse_table (take table_size (CUST_MAGIC @ concat (map le32 ws) @ bs)))) cust_fields
    = take (length cust_fields) ws"
    "cust (parse_table (take table_size (CUST_MAGIC @ concat (map le32 ws) @ bs))) = CUST_MAGIC"
proof -
  let ?n = "length cust_fields + 60"
  let ?bs = "take table_size (CUST_MAGIC @ concat (map le32 ws) @ bs)"
  have l: "4 * ?n \<le> length (concat (map le32 ws))" using assms unfolding length_words by simp
  have ts: "table_size = 4 + 4 * ?n" and m: "length CUST_MAGIC = 4" by (simp_all add: table_size_def CUST_MAGIC_def)
  have "take (4 * ?n - length (concat (map le32 ws))) bs = []" using l by simp
  then have b: "?bs = CUST_MAGIC @ concat (map le32 (take ?n ws))"
    unfolding ts take_append m take_words [OF l, symmetric] by (simp only: take_all m add_diff_cancel_left') (simp add: m)
  have "read_words ?n (drop 4 ?bs) = take ?n ws"
    unfolding b using read_words_prefix [of ?n "take ?n ws" "[]"] assms by (simp add: CUST_MAGIC_def)
  then have v: "cust_val (parse_table ?bs) = (\<lambda>f. case map_of (zip cust_fields (take ?n ws)) f of Some w \<Rightarrow> w | None \<Rightarrow> 0)"
    by (simp add: parse_table_def Let_def)
  have "cust_val (parse_table ?bs) (cust_fields ! i) = ws ! i" if "i < length cust_fields" for i
  proof -
    have "map_of (zip cust_fields (take ?n ws)) (cust_fields ! i) = Some (ws ! i)"
    proof -
      have "map_of (zip cust_fields (take (length cust_fields) ws)) (cust_fields ! i) = Some (ws ! i)"
        using map_of_zip_nth [of cust_fields "take (length cust_fields) ws" i] assms that distinct_cust_fields by simp
      moreover have "zip cust_fields (take ?n ws) = zip cust_fields (take (length cust_fields) ws)"
        using assms by (simp add: take_add zip_append2)
      ultimately show ?thesis by simp
    qed
    then show ?thesis unfolding v by simp
  qed
  then show "map (cust_val (parse_table ?bs)) cust_fields = take (length cust_fields) ws"
    using assms by (intro nth_equalityI) simp_all
  show "cust (parse_table ?bs) = CUST_MAGIC" unfolding b by (simp add: parse_table_def Let_def CUST_MAGIC_def)
qed

lemma word_order: "cust_fields = [F_custRev, F_kipVersion, F_hpMode, F_commonEmcMemVolt, F_eristaEmcMaxClock, F_stepMode] @ drop 6 cust_fields"
  by (simp add: cust_fields_def)

lemma length_block_words: "wf_arrays C \<Longrightarrow> length cust_fields + 60 \<le> length (block_words C)"
  using length_settings_words [of C] by (simp add: block_words_def length_cust_fields)

lemma parse_block:
  fixes bs :: "u8 list"
  assumes "wf_arrays C"
  defines "t \<equiv> parse_table (take table_size (block_bytes C @ bs))"
  shows "map (cust_val t) cust_fields = take 103 (settings_words C)" "cust t = CUST_MAGIC"
    "cust_val t F_custRev = loader_CUST_REV" "cust_val t F_kipVersion = loader_KIP_VERSION"
    "cust_val t F_eristaEmcMaxClock = eristaEmcMaxClock C" "cust_val t F_stepMode = eristaEmcMaxClock1 C"
proof -
  note p = parse_words [OF length_block_words [OF assms(1)], of bs]
  have t: "t = parse_table (take table_size (CUST_MAGIC @ concat (map le32 (block_words C)) @ bs))"
    by (simp add: t_def block_bytes_def)
  show all: "map (cust_val t) cust_fields = take 103 (settings_words C)"
    using p(1) length_settings_words [OF assms(1)] unfolding t by (simp add: block_words_def length_cust_fields)
  show "cust t = CUST_MAGIC" using p(2) unfolding t by simp
  have "map (cust_val t) [F_custRev, F_kipVersion, F_hpMode, F_commonEmcMemVolt, F_eristaEmcMaxClock, F_stepMode]
      = take 6 (settings_words C)"
  proof -
    have "take 6 (map (cust_val t) cust_fields) = take 6 (settings_words C)" unfolding all by simp
    then show ?thesis by (subst (asm) word_order) simp
  qed
  then show "cust_val t F_custRev = loader_CUST_REV" "cust_val t F_kipVersion = loader_KIP_VERSION"
    "cust_val t F_eristaEmcMaxClock = eristaEmcMaxClock C" "cust_val t F_stepMode = eristaEmcMaxClock1 C"
    by (simp_all add: settings_words_def)
qed

lemma read_block:
  assumes "wf_arrays C" "first_magic f = Some off" "drop off f = block_bytes C @ bs"
  shows "cust_read_table f = Some (parse_table (take table_size (block_bytes C @ bs)))"
proof -
  have m: "length CUST_MAGIC = 4" by (simp add: CUST_MAGIC_def)
  have "table_size \<le> length (block_bytes C)"
    using length_block_words [OF assms(1)] unfolding block_bytes_def length_append length_words m by (simp add: table_size_def)
  then have "off + table_size \<le> length f"
    using arg_cong [where f = length, OF assms(3)] magic_at_length [of f off] assms(2) by (simp add: first_magic_iff)
  then show ?thesis
    using parse_block(2) [OF assms(1), of bs] assms(2,3) by (simp add: cust_read_table_def cust_find_offset_eq)
qed

lemma block_outdated:
  "wf_arrays C \<Longrightarrow> version_note (parse_table (take table_size (block_bytes C @ bs))) = Some Outdated_kip"
  by (simp add: version_note_def parse_block loader_CUST_REV_def CUST_REV_def del: take_append)

text \<open>
  C21. The system module takes the loader of this repository for an outdated one, so it never writes into its
  block, which it would read differently: the word after the highest memory clock is a clock to the loader
  and the step of the memory clock to the system module. Saving the settings changes nothing, the
  exchange at start leaves the file as it is, and both report it.
\<close>

theorem loader_block_refused:
  assumes "wf_arrays C" "k_file s = Some f" "first_magic f = Some off" "drop off f = block_bytes C @ bs"
  shows "SetKipData s = (writeNotification Outdated_kip s)\<lparr>k_available := True\<rparr> \<and>
    k_file (GetKipData s) = Some f \<and> Outdated_kip \<in> set (k_notes (GetKipData s)) \<and>
    (\<exists>t. cust_read_table f = Some t \<and> cust_val t F_eristaEmcMaxClock = eristaEmcMaxClock C \<and>
      cust_val t F_stepMode = eristaEmcMaxClock1 C)"
proof -
  note r = read_block [OF assms(1,3,4)] and v = block_outdated [OF assms(1), of bs]
  have "k_file (MigrateKipData n s) = k_file s" for n s by (simp add: MigrateKipData_def Let_def)
  then have "k_file (GetKipData s) = Some f \<and> Outdated_kip \<in> set (k_notes (GetKipData s))"
    using assms(2) r v by (auto simp: GetKipData_def SetKipData_def Let_def)
  moreover have "SetKipData s = (writeNotification Outdated_kip s)\<lparr>k_available := True\<rparr>"
    using assms(2) r v by (simp add: SetKipData_def writeNotification_def)
  ultimately show ?thesis using r parse_block(5,6) [OF assms(1), of bs] by simp
qed

theorem loader_block_refused_witness:
  "k_file (GetKipData (demo_kip_state\<lparr>k_file := Some (block_bytes C_default)\<rparr>)) = Some (block_bytes C_default)"
proof -
  have w: "wf_arrays C_default" by (simp add: wf_arrays_def C_default_def)
  have m: "first_magic (block_bytes C_default) = Some 0"
    unfolding first_magic_iff by (simp add: magic_at_def block_bytes_def CUST_MAGIC_def)
  show ?thesis using loader_block_refused [OF w _ m, of _ "[]"] by simp
qed

end
