(* ===== verification/Overlay_Menus.thy ===== *)
theory Overlay_Menus
  imports C_Strings Config_Values Hoc_Types "HOL-Library.Monad_Syntax"
begin

text \<open>
  The settings menus of the overlay: \<open>overlay/src/ui/gui/misc_gui.cpp\<close> with the list of choices of
  \<open>value_choice_gui.cpp\<close> and the labels of \<open>ui/format.h\<close>. A menu is the list of the items it adds, as a
  function of the console, of the context and of the configuration that was fetched. The layout, the
  colours, the explanations and the graphs are left out.

  The list of choices of a range is a loop that does not end for a step of 0 or when it wraps around:
  a partial function.
\<close>

section \<open>Values on offer\<close>

record ValueRange =
  rmin :: u32
  rmax :: u32
  rstep :: u32
  suffix :: string
  divisor :: u32
  decimalPlaces :: nat

definition VR :: "u32 \<Rightarrow> u32 \<Rightarrow> u32 \<Rightarrow> string \<Rightarrow> u32 \<Rightarrow> ValueRange" where
  "VR mn mx st sf dv = \<lparr>rmin = mn, rmax = mx, rstep = st, suffix = sf, divisor = dv, decimalPlaces = 0\<rparr>"

record ValueThresholds =
  warning :: u32
  danger :: u32

definition VT :: "u32 \<Rightarrow> u32 \<Rightarrow> ValueThresholds" where
  "VT w d = \<lparr>warning = w, danger = d\<rparr>"

definition thresholdsDisabled :: ValueThresholds where "thresholdsDisabled = VT 0 0"

datatype NamedValue = NamedValue (nv_name: string) (nv_value: u32) (nv_right: string)

definition NV :: "string \<Rightarrow> u32 \<Rightarrow> NamedValue" where
  "NV n v = NamedValue n v ''''"

partial_function (option) range_values :: "u32 \<Rightarrow> u32 \<Rightarrow> u32 \<Rightarrow> u32 list option" where
  "range_values v mx st =
     (if v \<le> mx then do { vs \<leftarrow> range_values (v + st) mx st; Some (v # vs) } else Some [])"

text \<open>The values of the list that \<open>ValueChoiceGui::listUI\<close> shows.\<close>

definition choice_values :: "ValueRange \<Rightarrow> NamedValue list \<Rightarrow> bool \<Rightarrow> u32 list option" where
  "choice_values rng namedValues showDefaultValue =
     (let top = (if showDefaultValue then [0] else []) @ map nv_value namedValues
      in if namedValues = [] then do { vs \<leftarrow> range_values (rmin rng) (rmax rng) (rstep rng); Some (top @ vs) }
         else Some top)"

definition getSafetyLevel :: "ValueThresholds \<Rightarrow> u32 \<Rightarrow> nat" where
  "getSafetyLevel thresholds value =
     (if warning thresholds = 0 \<and> danger thresholds = 0 then 0
      else if value > danger thresholds then 2
      else if value > warning thresholds then 1 else 0)"

section \<open>Labels\<close>

definition RamDisplayUnit_MHz :: u64 where "RamDisplayUnit_MHz = 0"
definition RamDisplayUnit_MHzMTs :: u64 where "RamDisplayUnit_MHzMTs = 2"

definition formatMemClockKhzLabel :: "u32 \<Rightarrow> u64 \<Rightarrow> string" where
  "formatMemClockKhzLabel khz unit =
     (let mhz = to_string (unat (khz div 1000)); mts = to_string (unat (khz div 500))
      in if unit = RamDisplayUnit_MHz then mhz @ '' MHz''
         else if unit = RamDisplayUnit_MHzMTs then mhz @ '' MHz ('' @ mts @ '' MT/s)''
         else mts @ '' MT/s'')"

text \<open>The text of a button; a value that has no name is divided by the divisor of the range.\<close>

definition button_text :: "ValueRange \<Rightarrow> NamedValue list \<Rightarrow> bool \<Rightarrow> u64 \<Rightarrow> string option" where
  "button_text rng namedValues showDefaultValue currentValue =
     (if currentValue = 0 \<and> showDefaultValue then Some ''Default''
      else case find (\<lambda>nv. currentValue = ucast (nv_value nv)) namedValues of
             Some nv \<Rightarrow> Some (take 31 (nv_name nv))
           | None \<Rightarrow>
              if divisor rng = 0 then None
              else
               (let text = to_string (unat (currentValue div ucast (divisor rng)))
                in Some (take 31 (if suffix rng \<noteq> [] then text @ '' '' @ suffix rng else text))))"

section \<open>The items\<close>

type_synonym config_values = "HocClkConfigValue \<Rightarrow> u64"

datatype menu =
    MiscMenu | GeneralSettings | ExperimentalSettings | GovernorSettings | DisplaySettings | SafetySettings
  | RamSettings | RamTimings | RamLatencies | CpuSettings | GpuSettings | GpuCustomTable

datatype menu_item =
    Header string
  | SubMenu string menu
  | Toggle HocClkConfigValue "string option" bool
  | Trackbar HocClkConfigValue "string option" ValueRange bool
  | MappedTrackbar HocClkConfigValue "string option" "u32 list" "string list" bool
  | Button HocClkConfigValue "string option" ValueRange string ValueThresholds "(u32 \<times> string) list"
      "NamedValue list" bool bool
  | LatencyRow string nat bool

datatype SetSysProductModel =
    SetSysProductModel_Invalid | SetSysProductModel_Nx | SetSysProductModel_Copper | SetSysProductModel_Iowa
  | SetSysProductModel_Hoag | SetSysProductModel_Calcio | SetSysProductModel_Aula

record menu_context =
  isUsingRetroSuper :: bool
  soc_speedo :: u32

record overlay_env =
  HWmodel :: SetSysProductModel
  menu_ctxt :: "menu_context option"
  is_minimal :: bool

definition IsAula :: "overlay_env \<Rightarrow> bool" where "IsAula e \<longleftrightarrow> HWmodel e = SetSysProductModel_Aula"
definition IsHoag :: "overlay_env \<Rightarrow> bool" where "IsHoag e \<longleftrightarrow> HWmodel e = SetSysProductModel_Hoag"

definition IsMariko :: "overlay_env \<Rightarrow> bool" where
  "IsMariko e \<longleftrightarrow> HWmodel e = SetSysProductModel_Iowa \<or> HWmodel e = SetSysProductModel_Hoag \<or>
     HWmodel e = SetSysProductModel_Calcio \<or> HWmodel e = SetSysProductModel_Aula"

text \<open>The number of steps of a bar, the step it shows, and the value of a step.\<close>

definition numSteps :: "ValueRange \<Rightarrow> u32" where
  "numSteps r = (rmax r - rmin r) div rstep r + 1"

definition bar_progress :: "ValueRange \<Rightarrow> u64 \<Rightarrow> u16" where
  "bar_progress r value =
     (let cur = ucast value :: u32
      in if cur \<ge> rmin r \<and> cur \<le> rmax r \<and> rstep r > 0 \<and> (cur - rmin r) mod rstep r = 0
         then ucast ((cur - rmin r) div rstep r) else 0)"

definition bar_value :: "ValueRange \<Rightarrow> u16 \<Rightarrow> u64" where
  "bar_value r v = ucast (rmin r + ucast v * rstep r :: u32)"

definition mapped_progress :: "u32 list \<Rightarrow> u64 \<Rightarrow> u16" where
  "mapped_progress vals value =
     (case find (\<lambda>i. vals ! i = ucast value) [0..<length vals] of Some i \<Rightarrow> of_nat i | None \<Rightarrow> 0)"

definition mapped_value :: "u32 list \<Rightarrow> u64 \<Rightarrow> u16 \<Rightarrow> u64" where
  "mapped_value vals old idx = (if unat idx < length vals then ucast (vals ! unat idx) else old)"

section \<open>The tables of values\<close>

definition ramVoltDispModes :: "NamedValue list" where
  "ramVoltDispModes = [
     NV ''VDD2'' 0, NV ''VDDQ'' 1]"

definition RamDisplayUnitValues :: "NamedValue list" where
  "RamDisplayUnitValues = [
     NV ''MHz'' 0, NV ''MT/s'' 1, NV ''MHz and MT/s'' 2]"

definition gpuSchedMethodValues :: "NamedValue list" where
  "gpuSchedMethodValues = [
     NV ''INI'' 0, NV ''NV Service'' 1]"

definition ramRFMeasurementMethods :: "NamedValue list" where
  "ramRFMeasurementMethods = [
     NV ''PLL'' 0, NV ''Actmon'' 1]"

definition chargerCurrents :: "NamedValue list" where
  "chargerCurrents = [
     NV ''Disabled'' 0, NV ''1024mA'' 1024, NV ''1280mA'' 1280, NV ''1536mA'' 1536, NV ''1792mA'' 1792,
     NV ''2048mA'' 2048, NV ''2304mA'' 2304, NV ''2560mA'' 2560, NV ''2816mA'' 2816, NV ''3072mA'' 3072]"

definition chargerCurrents_hoag :: "NamedValue list" where
  "chargerCurrents_hoag = [
     NV ''Disabled'' 0, NV ''1024mA'' 1024, NV ''1280mA'' 1280, NV ''1536mA'' 1536, NV ''1664mA'' 1664,
     NV ''1792mA'' 1792, NV ''2048mA'' 2048, NV ''2304mA'' 2304, NV ''2560mA'' 2560]"

definition displayClrPreset :: "NamedValue list" where
  "displayClrPreset = [
     NV ''Do Not Override'' 0xFF, NV ''Basic'' 3, NV ''Saturated'' 0, NV ''Washed'' 0x45, NV ''Natural'' 0x23,
     NV ''Vivid'' 0x65, NamedValue ''Washed'' 0x43 ''Night'', NamedValue ''Basic'' 0x15 ''Night'',
     NamedValue ''Natural'' 0x35 ''Night'', NamedValue ''Vivid'' 0x75 ''Night'']"

definition GovernorMinHz :: "NamedValue list" where
  "GovernorMinHz = [
     NV ''510 MHz'' 510000000, NV ''612 MHz'' 612000000, NV ''714 MHz'' 714000000, NV ''816 MHz'' 816000000,
     NV ''918 MHz'' 918000000, NV ''1020 MHz'' 1020000000]"

definition marikovmaxconf :: "string \<Rightarrow> NamedValue list" where
  "marikovmaxconf autoText = [
     NamedValue ''Do not override'' 0 autoText, NV ''1000 mV'' 1000, NV ''1025 mV'' 1025, NV ''1050 mV'' 1050,
     NV ''1075 mV'' 1075, NV ''1100 mV'' 1100, NV ''1125 mV'' 1125, NV ''1150 mV'' 1150, NV ''1175 mV'' 1175,
     NV ''1200 mV'' 1200]"

definition stepModes :: "NamedValue list" where
  "stepModes = [
     NV ''66MHz'' 0, NV ''100MHz'' 1, NV ''133MHz'' 3, NV ''JEDEC.'' 2]"

definition emcMaxClock_erista :: "NamedValue list" where
  "emcMaxClock_erista = [
     NV ''Disabled'' 1600000, NV ''1633 MHz'' 1633000, NV ''1666 MHz'' 1666000, NV ''1700 MHz'' 1700000,
     NV ''1733 MHz'' 1733000, NV ''1800 MHz'' 1800000, NV ''1833 MHz'' 1833000,
     NamedValue ''1862 MHz'' 1862400 ''JEDEC.'', NV ''1881 MHz'' 1881600, NV ''1900 MHz'' 1900800,
     NV ''1920 MHz'' 1920000, NV ''1939 MHz'' 1939200, NV ''1958 MHz'' 1958400, NV ''1977 MHz'' 1977600,
     NamedValue ''1996 MHz'' 1996800 ''JEDEC.'', NV ''2016 MHz'' 2016000, NV ''2035 MHz'' 2035200,
     NV ''2054 MHz'' 2054400, NV ''2073 MHz'' 2073600, NV ''2092 MHz'' 2092800, NV ''2112 MHz'' 2112000,
     NamedValue ''2131 MHz'' 2131200 ''JEDEC.'', NV ''2150 MHz'' 2150400, NV ''2169 MHz'' 2169600,
     NV ''2188 MHz'' 2188800, NV ''2208 MHz'' 2208000, NV ''2227 MHz'' 2227200, NV ''2246 MHz'' 2246400,
     NV ''2265 MHz'' 2265600, NV ''2284 MHz'' 2284800, NV ''2304 MHz'' 2304000, NV ''2323 MHz'' 2323200,
     NV ''2342 MHz'' 2342400, NV ''2361 MHz'' 2361600, NV ''2380 MHz'' 2380800,
     NamedValue ''2400 MHz'' 2400000 ''JEDEC.'']"

definition emcMaxClock_mariko :: "NamedValue list" where
  "emcMaxClock_mariko = [
     NV ''1600 MHz'' 1600000, NV ''1633 MHz'' 1633000, NV ''1666 MHz'' 1666000, NV ''1700 MHz'' 1700000,
     NV ''1733 MHz'' 1733000, NV ''1766 MHz'' 1766000, NV ''1800 MHz'' 1800000, NV ''1833 MHz'' 1833000,
     NamedValue ''1866 MHz'' 1866000 ''JEDEC.'', NV ''1900 MHz'' 1900000, NV ''1933 MHz'' 1933000,
     NV ''1966 MHz'' 1966000, NamedValue ''1996 MHz'' 1996800 ''JEDEC.'', NV ''2000 MHz'' 2000000,
     NV ''2033 MHz'' 2033000, NV ''2066 MHz'' 2066000, NV ''2100 MHz'' 2100000,
     NamedValue ''2133 MHz'' 2133000 ''JEDEC.'', NV ''2166 MHz'' 2166000, NV ''2200 MHz'' 2200000,
     NV ''2233 MHz'' 2233000, NV ''2266 MHz'' 2266000, NV ''2300 MHz'' 2300000, NV ''2333 MHz'' 2333000,
     NV ''2366 MHz'' 2366000, NamedValue ''2400 MHz'' 2400000 ''JEDEC.'', NV ''2433 MHz'' 2433000,
     NV ''2466 MHz'' 2466000, NV ''2500 MHz'' 2500000, NV ''2533 MHz'' 2533000, NV ''2566 MHz'' 2566000,
     NV ''2600 MHz'' 2600000, NV ''2633 MHz'' 2633000, NamedValue ''2666 MHz'' 2666000 ''JEDEC.'',
     NV ''2700 MHz'' 2700000, NV ''2733 MHz'' 2733000, NV ''2766 MHz'' 2766000, NV ''2800 MHz'' 2800000,
     NV ''2833 MHz'' 2833000, NV ''2866 MHz'' 2866000, NV ''2900 MHz'' 2900000,
     NamedValue ''2933 MHz'' 2933000 ''JEDEC.'', NV ''2966 MHz'' 2966000, NV ''3000 MHz'' 3000000,
     NV ''3033 MHz'' 3033000, NV ''3066 MHz'' 3066000, NV ''3100 MHz'' 3100000, NV ''3133 MHz'' 3133000,
     NV ''3166 MHz'' 3166000, NamedValue ''3200 MHz'' 3200000 ''JEDEC.'',
     NamedValue ''3233 MHz'' 3233000 ''High speedo needed!'',
     NamedValue ''3266 MHz'' 3266000 ''High speedo needed!'',
     NamedValue ''3300 MHz'' 3300000 ''High speedo needed!'']"

definition timingTbreakFreqs :: "NamedValue list" where
  "timingTbreakFreqs = [
     NV ''Disabled'' 0, NV ''1633 MHz'' 1633000, NV ''1666 MHz'' 1666000, NV ''1700 MHz'' 1700000,
     NV ''1733 MHz'' 1733000, NV ''1766 MHz'' 1766000, NV ''1800 MHz'' 1800000, NV ''1833 MHz'' 1833000,
     NamedValue ''1866 MHz'' 1866000 ''JEDEC.'', NV ''1900 MHz'' 1900000, NV ''1933 MHz'' 1933000,
     NV ''1966 MHz'' 1966000, NamedValue ''1996 MHz'' 1996800 ''JEDEC.'', NV ''2000 MHz'' 2000000,
     NV ''2033 MHz'' 2033000, NV ''2066 MHz'' 2066000, NV ''2100 MHz'' 2100000,
     NamedValue ''2133 MHz'' 2133000 ''JEDEC.'', NV ''2166 MHz'' 2166000, NV ''2200 MHz'' 2200000,
     NV ''2233 MHz'' 2233000, NV ''2266 MHz'' 2266000, NV ''2300 MHz'' 2300000, NV ''2333 MHz'' 2333000,
     NV ''2366 MHz'' 2366000, NamedValue ''2400 MHz'' 2400000 ''JEDEC.'', NV ''2433 MHz'' 2433000,
     NV ''2466 MHz'' 2466000, NV ''2500 MHz'' 2500000, NV ''2533 MHz'' 2533000, NV ''2566 MHz'' 2566000,
     NV ''2600 MHz'' 2600000, NV ''2633 MHz'' 2633000, NamedValue ''2666 MHz'' 2666000 ''JEDEC.'',
     NV ''2700 MHz'' 2700000, NV ''2733 MHz'' 2733000, NV ''2766 MHz'' 2766000, NV ''2800 MHz'' 2800000,
     NV ''2833 MHz'' 2833000, NV ''2866 MHz'' 2866000, NV ''2900 MHz'' 2900000,
     NamedValue ''2933 MHz'' 2933000 ''JEDEC.'', NV ''2966 MHz'' 2966000, NV ''3000 MHz'' 3000000,
     NV ''3033 MHz'' 3033000, NV ''3066 MHz'' 3066000, NV ''3100 MHz'' 3100000, NV ''3133 MHz'' 3133000,
     NV ''3166 MHz'' 3166000, NamedValue ''3200 MHz'' 3200000 ''JEDEC.'',
     NamedValue ''3233 MHz'' 3233000 ''High speedo needed'',
     NamedValue ''3266 MHz'' 3266000 ''High speedo needed!'',
     NamedValue ''3300 MHz'' 3300000 ''High speedo needed!'']"

definition marikoTableConf :: "NamedValue list" where
  "marikoTableConf = [
     NV ''Default'' 1, NV ''1581MHz Tbreak'' 2, NV ''1683MHz Tbreak'' 3, NV ''Extreme UV Table'' 4]"

definition marikoCpuMaxClkOptions :: "NamedValue list" where
  "marikoCpuMaxClkOptions = [
     NV ''1963 MHz'' 1963500, NV ''2091 MHz'' 2091000, NV ''2193 MHz'' 2193000, NV ''2295 MHz'' 2295000,
     NV ''2397 MHz'' 2397000, NV ''2499 MHz'' 2499000, NV ''2601 MHz'' 2601000, NV ''2703 MHz'' 2703000]"

definition marikoCpuClkOptions :: "NamedValue list" where
  "marikoCpuClkOptions = [
     NV ''1963 MHz'' 1963500, NV ''2091 MHz'' 2091000, NV ''2193 MHz'' 2193000, NV ''2295 MHz'' 2295000,
     NV ''2397 MHz'' 2397000, NV ''2499 MHz'' 2499000, NV ''2601 MHz'' 2601000, NV ''2703 MHz'' 2703000]"

definition eristaCpuMaxClkOptions :: "NamedValue list" where
  "eristaCpuMaxClkOptions = [
     NV ''1785 MHz'' 1785, NV ''1887 MHz'' 1887, NV ''1989 MHz'' 1989, NV ''2091 MHz'' 2091,
     NV ''2193 MHz'' 2193, NV ''2295 MHz'' 2295, NV ''2397 MHz'' 2397]"

definition ClkOptionsE :: "NamedValue list" where
  "ClkOptionsE = [
     NV ''1785 MHz'' 1785000, NV ''1887 MHz'' 1887000, NV ''1989 MHz'' 1989000, NV ''2091 MHz'' 2091000,
     NV ''2193 MHz'' 2193000, NV ''2295 MHz'' 2295000, NV ''2397 MHz'' 2397000]"

definition gpuUvConf :: "NamedValue list" where
  "gpuUvConf = [
     NV ''HiOPT'' 0, NV ''HiOPT - 15mV'' 1, NV ''High UV Table'' 2]"

definition mGpuVoltsVmin :: "NamedValue list" where
  "mGpuVoltsVmin = [
     NV ''480mV'' 480, NV ''485mV'' 485, NV ''490mV'' 490, NV ''495mV'' 495, NV ''500mV'' 500,
     NV ''505mV'' 505, NV ''510mV'' 510, NV ''515mV'' 515, NV ''520mV'' 520, NV ''525mV'' 525,
     NV ''530mV'' 530, NV ''535mV'' 535, NV ''540mV'' 540, NV ''545mV'' 545, NV ''550mV'' 550,
     NV ''555mV'' 555, NV ''560mV'' 560, NV ''565mV'' 565, NV ''570mV'' 570, NV ''575mV'' 575,
     NV ''580mV'' 580, NV ''585mV'' 585, NV ''590mV'' 590, NV ''595mV'' 595, NV ''600mV'' 600,
     NV ''605mV'' 605, NV ''610mV'' 610, NV ''615mV'' 615, NV ''620mV'' 620, NV ''625mV'' 625,
     NV ''630mV'' 630, NV ''635mV'' 635, NV ''640mV'' 640, NV ''645mV'' 645, NV ''650mV'' 650,
     NV ''655mV'' 655, NV ''660mV'' 660, NV ''665mV'' 665, NV ''670mV'' 670, NV ''675mV'' 675,
     NV ''680mV'' 680, NV ''685mV'' 685, NV ''690mV'' 690, NV ''695mV'' 695, NV ''700mV'' 700,
     NV ''705mV'' 705, NV ''710mV'' 710, NV ''715mV'' 715, NV ''720mV'' 720, NV ''725mV'' 725,
     NV ''730mV'' 730, NV ''735mV'' 735, NV ''740mV'' 740, NV ''745mV'' 745, NV ''750mV'' 750,
     NV ''755mV'' 755, NV ''760mV'' 760, NV ''765mV'' 765, NV ''770mV'' 770, NV ''775mV'' 775,
     NV ''780mV'' 780, NV ''785mV'' 785, NV ''790mV'' 790, NV ''795mV'' 795]"

definition gpuOffset :: "NamedValue list" where
  "gpuOffset = [
     NV ''-50 mV'' 50, NV ''-45 mV'' 45, NV ''-40 mV'' 40, NV ''-30 mV'' 30, NV ''-25 mV'' 25,
     NV ''-20 mV'' 20, NV ''-15 mV'' 15, NV ''-10 mV'' 10, NV '' -5 mV'' 5, NV ''Disabled'' 0]"

definition gpuSchedValues :: "NamedValue list" where
  "gpuSchedValues = [
     NV ''Do not override'' 0, NamedValue ''Enabled (Default)'' 1 ''96.6% limit'',
     NamedValue ''Disabled'' 2 ''99.7% limit'']"

definition dvfsOffset :: "NamedValue list" where
  "dvfsOffset = [
     NV ''-80 mV'' 0xFFFFFFB0, NV ''-75 mV'' 0xFFFFFFB5, NV ''-70 mV'' 0xFFFFFFBA, NV ''-65 mV'' 0xFFFFFFBF,
     NV ''-60 mV'' 0xFFFFFFC4, NV ''-55 mV'' 0xFFFFFFC9, NV ''-50 mV'' 0xFFFFFFCE, NV ''-45 mV'' 0xFFFFFFD3,
     NV ''-40 mV'' 0xFFFFFFD8, NV ''-35 mV'' 0xFFFFFFDD, NV ''-30 mV'' 0xFFFFFFE2, NV ''-25 mV'' 0xFFFFFFE7,
     NV ''-20 mV'' 0xFFFFFFEC, NV ''-15 mV'' 0xFFFFFFF1, NV ''-10 mV'' 0xFFFFFFF6, NV '' -5 mV'' 0xFFFFFFFB,
     NV ''Disabled'' 0, NV '' +5 mV'' 5, NV ''+10 mV'' 10, NV ''+15 mV'' 15, NV ''+20 mV'' 20]"

definition dvfsValues :: "NamedValue list" where
  "dvfsValues = [
     NV ''Disabled'' 0, NV ''PCV Hijack'' 1]"

definition mGpuVolts :: "NamedValue list" where
  "mGpuVolts = [
     NV ''Disabled'' 2000, NV ''Auto'' 0, NV ''480mV'' 480, NV ''485mV'' 485, NV ''490mV'' 490,
     NV ''495mV'' 495, NV ''500mV'' 500, NV ''505mV'' 505, NV ''510mV'' 510, NV ''515mV'' 515,
     NV ''520mV'' 520, NV ''525mV'' 525, NV ''530mV'' 530, NV ''535mV'' 535, NV ''540mV'' 540,
     NV ''545mV'' 545, NV ''550mV'' 550, NV ''555mV'' 555, NV ''560mV'' 560, NV ''565mV'' 565,
     NV ''570mV'' 570, NV ''575mV'' 575, NV ''580mV'' 580, NV ''585mV'' 585, NV ''590mV'' 590,
     NV ''595mV'' 595, NV ''600mV'' 600, NV ''605mV'' 605, NV ''610mV'' 610, NV ''615mV'' 615,
     NV ''620mV'' 620, NV ''625mV'' 625, NV ''630mV'' 630, NV ''635mV'' 635, NV ''640mV'' 640,
     NV ''645mV'' 645, NV ''650mV'' 650, NV ''655mV'' 655, NV ''660mV'' 660, NV ''665mV'' 665,
     NV ''670mV'' 670, NV ''675mV'' 675, NV ''680mV'' 680, NV ''685mV'' 685, NV ''690mV'' 690,
     NV ''695mV'' 695, NV ''700mV'' 700, NV ''705mV'' 705, NV ''710mV'' 710, NV ''715mV'' 715,
     NV ''720mV'' 720, NV ''725mV'' 725, NV ''730mV'' 730, NV ''735mV'' 735, NV ''740mV'' 740,
     NV ''745mV'' 745, NV ''750mV'' 750, NV ''755mV'' 755, NV ''760mV'' 760, NV ''765mV'' 765,
     NV ''770mV'' 770, NV ''775mV'' 775, NV ''780mV'' 780, NV ''785mV'' 785, NV ''790mV'' 790,
     NV ''795mV'' 795, NV ''800mV'' 800, NV ''805mV'' 805, NV ''810mV'' 810, NV ''815mV'' 815,
     NV ''820mV'' 820, NV ''825mV'' 825, NV ''830mV'' 830, NV ''835mV'' 835, NV ''840mV'' 840,
     NV ''845mV'' 845, NV ''850mV'' 850, NV ''855mV'' 855, NV ''860mV'' 860, NV ''865mV'' 865,
     NV ''870mV'' 870, NV ''875mV'' 875, NV ''880mV'' 880, NV ''885mV'' 885, NV ''890mV'' 890,
     NV ''895mV'' 895, NV ''900mV'' 900, NV ''905mV'' 905, NV ''910mV'' 910, NV ''915mV'' 915,
     NV ''920mV'' 920, NV ''925mV'' 925, NV ''930mV'' 930, NV ''935mV'' 935, NV ''940mV'' 940,
     NV ''945mV'' 945, NV ''950mV'' 950, NV ''955mV'' 955, NV ''960mV'' 960]"

definition eGpuVolts :: "NamedValue list" where
  "eGpuVolts = [
     NV ''Disabled'' 2000, NV ''Auto'' 0, NV ''675mV'' 675, NV ''680mV'' 680, NV ''685mV'' 685,
     NV ''690mV'' 690, NV ''695mV'' 695, NV ''700mV'' 700, NV ''705mV'' 705, NV ''710mV'' 710,
     NV ''715mV'' 715, NV ''720mV'' 720, NV ''725mV'' 725, NV ''730mV'' 730, NV ''735mV'' 735,
     NV ''740mV'' 740, NV ''745mV'' 745, NV ''750mV'' 750, NV ''755mV'' 755, NV ''760mV'' 760,
     NV ''765mV'' 765, NV ''770mV'' 770, NV ''775mV'' 775, NV ''780mV'' 780, NV ''785mV'' 785,
     NV ''790mV'' 790, NV ''795mV'' 795, NV ''800mV'' 800, NV ''805mV'' 805, NV ''810mV'' 810,
     NV ''815mV'' 815, NV ''820mV'' 820, NV ''825mV'' 825, NV ''830mV'' 830, NV ''835mV'' 835,
     NV ''840mV'' 840, NV ''845mV'' 845, NV ''850mV'' 850, NV ''855mV'' 855, NV ''860mV'' 860,
     NV ''865mV'' 865, NV ''870mV'' 870, NV ''875mV'' 875, NV ''880mV'' 880, NV ''885mV'' 885,
     NV ''890mV'' 890, NV ''895mV'' 895, NV ''900mV'' 900, NV ''905mV'' 905, NV ''910mV'' 910,
     NV ''915mV'' 915, NV ''920mV'' 920, NV ''925mV'' 925, NV ''930mV'' 930, NV ''935mV'' 935,
     NV ''940mV'' 940, NV ''945mV'' 945, NV ''950mV'' 950, NV ''955mV'' 955, NV ''960mV'' 960,
     NV ''965mV'' 965, NV ''970mV'' 970, NV ''975mV'' 975, NV ''980mV'' 980, NV ''985mV'' 985,
     NV ''990mV'' 990, NV ''995mV'' 995]"

definition mGpuVolts_noAuto :: "NamedValue list" where
  "mGpuVolts_noAuto = [
     NV ''Disabled'' 2000, NV ''480mV'' 480, NV ''485mV'' 485, NV ''490mV'' 490, NV ''495mV'' 495,
     NV ''500mV'' 500, NV ''505mV'' 505, NV ''510mV'' 510, NV ''515mV'' 515, NV ''520mV'' 520,
     NV ''525mV'' 525, NV ''530mV'' 530, NV ''535mV'' 535, NV ''540mV'' 540, NV ''545mV'' 545,
     NV ''550mV'' 550, NV ''555mV'' 555, NV ''560mV'' 560, NV ''565mV'' 565, NV ''570mV'' 570,
     NV ''575mV'' 575, NV ''580mV'' 580, NV ''585mV'' 585, NV ''590mV'' 590, NV ''595mV'' 595,
     NV ''600mV'' 600, NV ''605mV'' 605, NV ''610mV'' 610, NV ''615mV'' 615, NV ''620mV'' 620,
     NV ''625mV'' 625, NV ''630mV'' 630, NV ''635mV'' 635, NV ''640mV'' 640, NV ''645mV'' 645,
     NV ''650mV'' 650, NV ''655mV'' 655, NV ''660mV'' 660, NV ''665mV'' 665, NV ''670mV'' 670,
     NV ''675mV'' 675, NV ''680mV'' 680, NV ''685mV'' 685, NV ''690mV'' 690, NV ''695mV'' 695,
     NV ''700mV'' 700, NV ''705mV'' 705, NV ''710mV'' 710, NV ''715mV'' 715, NV ''720mV'' 720,
     NV ''725mV'' 725, NV ''730mV'' 730, NV ''735mV'' 735, NV ''740mV'' 740, NV ''745mV'' 745,
     NV ''750mV'' 750, NV ''755mV'' 755, NV ''760mV'' 760, NV ''765mV'' 765, NV ''770mV'' 770,
     NV ''775mV'' 775, NV ''780mV'' 780, NV ''785mV'' 785, NV ''790mV'' 790, NV ''795mV'' 795,
     NV ''800mV'' 800, NV ''805mV'' 805, NV ''810mV'' 810, NV ''815mV'' 815, NV ''820mV'' 820,
     NV ''825mV'' 825, NV ''830mV'' 830, NV ''835mV'' 835, NV ''840mV'' 840, NV ''845mV'' 845,
     NV ''850mV'' 850, NV ''855mV'' 855, NV ''860mV'' 860, NV ''865mV'' 865, NV ''870mV'' 870,
     NV ''875mV'' 875, NV ''880mV'' 880, NV ''885mV'' 885, NV ''890mV'' 890, NV ''895mV'' 895,
     NV ''900mV'' 900, NV ''905mV'' 905, NV ''910mV'' 910, NV ''915mV'' 915, NV ''920mV'' 920,
     NV ''925mV'' 925, NV ''930mV'' 930, NV ''935mV'' 935, NV ''940mV'' 940, NV ''945mV'' 945,
     NV ''950mV'' 950, NV ''955mV'' 955, NV ''960mV'' 960]"

definition eGpuVolts_noAuto :: "NamedValue list" where
  "eGpuVolts_noAuto = [
     NV ''Disabled'' 2000, NV ''700mV'' 700, NV ''705mV'' 705, NV ''710mV'' 710, NV ''715mV'' 715,
     NV ''720mV'' 720, NV ''725mV'' 725, NV ''730mV'' 730, NV ''735mV'' 735, NV ''740mV'' 740,
     NV ''745mV'' 745, NV ''750mV'' 750, NV ''755mV'' 755, NV ''760mV'' 760, NV ''765mV'' 765,
     NV ''770mV'' 770, NV ''775mV'' 775, NV ''780mV'' 780, NV ''785mV'' 785, NV ''790mV'' 790,
     NV ''795mV'' 795, NV ''800mV'' 800, NV ''805mV'' 805, NV ''810mV'' 810, NV ''815mV'' 815,
     NV ''820mV'' 820, NV ''825mV'' 825, NV ''830mV'' 830, NV ''835mV'' 835, NV ''840mV'' 840,
     NV ''845mV'' 845, NV ''850mV'' 850, NV ''855mV'' 855, NV ''860mV'' 860, NV ''865mV'' 865,
     NV ''870mV'' 870, NV ''875mV'' 875, NV ''880mV'' 880, NV ''885mV'' 885, NV ''890mV'' 890,
     NV ''895mV'' 895, NV ''900mV'' 900, NV ''905mV'' 905, NV ''910mV'' 910, NV ''915mV'' 915,
     NV ''920mV'' 920, NV ''925mV'' 925, NV ''930mV'' 930, NV ''935mV'' 935, NV ''940mV'' 940,
     NV ''945mV'' 945, NV ''950mV'' 950, NV ''955mV'' 955, NV ''960mV'' 960, NV ''965mV'' 965,
     NV ''970mV'' 970, NV ''975mV'' 975, NV ''980mV'' 980, NV ''985mV'' 985, NV ''990mV'' 990, NV ''995mV'' 995]"

section \<open>The menus\<close>

text \<open>Shorthands for the calls with default arguments.\<close>

definition addConfigToggle :: "HocClkConfigValue \<Rightarrow> string option \<Rightarrow> menu_item" where
  "addConfigToggle k altName = Toggle k altName False"

definition addConfigTrackbar :: "kip_value \<Rightarrow> string \<Rightarrow> u32 \<Rightarrow> menu_item" where
  "addConfigTrackbar k altName mx = Trackbar (Kip k) (Some altName) (VR 0 mx 1 [] 1) True"

definition addNamedButton :: "HocClkConfigValue \<Rightarrow> string \<Rightarrow> ValueRange \<Rightarrow> NamedValue list \<Rightarrow> bool \<Rightarrow> menu_item" where
  "addNamedButton k name rng namedValues kip = Button k (Some name) rng name thresholdsDisabled [] namedValues False kip"

definition addRangeButton :: "HocClkConfigValue \<Rightarrow> string \<Rightarrow> ValueRange \<Rightarrow> string \<Rightarrow> ValueThresholds \<Rightarrow> bool \<Rightarrow> menu_item" where
  "addRangeButton k name rng categoryName thresholds kip = Button k (Some name) rng categoryName thresholds [] [] False kip"

definition MiscGui_listUI :: "config_values \<Rightarrow> menu_item list" where
  "MiscGui_listUI values =
     [Header ''Settings'', SubMenu ''General Settings'' GeneralSettings,
      SubMenu ''Governor Settings'' GovernorSettings, SubMenu ''Safety Settings'' SafetySettings,
      SubMenu ''RAM Settings'' RamSettings, SubMenu ''CPU Settings'' CpuSettings,
      SubMenu ''GPU Settings'' GpuSettings, SubMenu ''Display Settings'' DisplaySettings] @
     (if values (Hoc HocClkConfigValue_EnableExperimentalSettings) \<noteq> 0
      then [SubMenu ''Experimental Settings'' ExperimentalSettings] else [])"

definition General_listUI :: "overlay_env \<Rightarrow> menu_item list" where
  "General_listUI e =
     [Header ''General Settings''] @
     (if IsMariko e
      then [addNamedButton (Hoc HocClkConfigValue_RAMVoltDisplayMode) ''RAM Voltage Display Mode'' (VR 0 12 1 [] 0)
              ramVoltDispModes False]
      else []) @
     [addNamedButton (Hoc HocClkConfigValue_RamDisplayUnit) ''RAM Display Unit'' (VR 0 0 2 [] 0)
        RamDisplayUnitValues False,
      addRangeButton (Hoc HocClkConfigValue_PollingIntervalMs) ''Polling Interval'' (VR 50 1000 50 ''ms'' 1)
        ''Polling Interval'' thresholdsDisabled False,
      addConfigToggle (Hoc HocClkConfigValue_EnableExperimentalSettings) None]"

definition Experimental_listUI :: "overlay_env \<Rightarrow> menu_item list" where
  "Experimental_listUI e =
     [Header ''Experimental Settings''] @
     (if IsMariko e then [Toggle (Hoc HocClkConfigValue_MarikoMiddleFreqs) None True] else []) @
     [addConfigToggle (Hoc HocClkConfigValue_LiveCpuUv) None,
      addNamedButton (Hoc HocClkConfigValue_GPUSchedulingMethod) ''GPU Scheduling Override Method'' (VR 0 0 1 [] 0)
        gpuSchedMethodValues False,
      addNamedButton (Hoc HocClkConfigValue_MemoryFrequencyMeasurementMode) ''Memory Frequency Measurement Mode''
        (VR 0 0 1 [] 0) ramRFMeasurementMethods False] @
     (if \<not> IsHoag e
      then [Button (Hoc HocClkConfigValue_BatteryChargeCurrent) (Some ''Charge Current Override'') (VR 0 0 1 [] 0)
              ''Charge Current Override'' (VT 2048 2049) [] chargerCurrents False False]
      else [Button (Hoc HocClkConfigValue_BatteryChargeCurrent) (Some ''Charge Current Override'') (VR 0 0 1 [] 0)
              ''Charge Current Override'' (VT 1664 1793) [] chargerCurrents_hoag False False]) @
     (if IsAula e
      then [addNamedButton (Hoc HocClkConfigValue_AulaDisplayColorPreset) ''Display Color Preset'' (VR 0 1 1 [] 0)
              displayClrPreset False]
      else [])"

definition Governor_listUI :: "menu_item list" where
  "Governor_listUI =
     [Header ''Governor Settings'',
      addNamedButton (Hoc HocClkConfigValue_CpuGovernorMinimumFreq) ''CPU Governor Minimum Frequency'' (VR 0 0 1 [] 0)
        GovernorMinHz False]"

definition Display_listUI :: "overlay_env \<Rightarrow> menu_item list" where
  "Display_listUI e =
     (case menu_ctxt e of
        None \<Rightarrow> []
      | Some c \<Rightarrow>
         [Header ''Display Settings'', addConfigToggle (Hoc HocClkConfigValue_OverwriteRefreshRate) None] @
         (if \<not> isUsingRetroSuper c
          then [addRangeButton (Hoc HocClkConfigValue_MaxDisplayClockH) ''Max Handheld Display Hz''
                  (VR 60 (if IsAula e then 65 else 75) 1 '' Hz'' 1) ''Display Clock'' (VT 60 65) False]
          else []) @
         (if \<not> IsAula e
          then [addRangeButton (Hoc HocClkConfigValue_DisplayVoltage) ''Display Voltage'' (VR 800 1200 25 '' mV'' 1)
                  ''Display Voltage'' thresholdsDisabled False]
          else []))"

definition Safety_listUI :: "overlay_env \<Rightarrow> menu_item list" where
  "Safety_listUI e =
     [Header ''Safety Settings'', addConfigToggle (Hoc HocClkConfigValue_UncappedClocks) None,
      addConfigToggle (Hoc HocClkConfigValue_ThermalThrottle) None,
      addConfigToggle (Hoc HocClkConfigValue_HandheldTDP) None] @
     (if is_minimal e then []
      else
       (if IsHoag e
        then [Button (Hoc HocClkConfigValue_LiteTDPLimit) (Some ''TDP Threshold'') (VR 4000 8000 100 ''mW'' 1) ''Power''
                (VT 6400 7500) [(6400, ''Official Rating'')] [] True False]
        else [Button (Hoc HocClkConfigValue_HandheldTDPLimit) (Some ''TDP Threshold'') (VR 8000 12000 100 ''mW'' 1) ''Power''
                (VT 9600 11000) [] [] True False]) @
       [Button (Hoc HocClkConfigValue_ThermalThrottleThreshold) (Some ''Thermal Throttle Limit'')
          (VR 50 85 1 [CHR 0xC2, CHR 0xB0, CHR ''C''] 1) ''Temp'' (VT 70 80) [] [] True False])"

definition relabel :: "u64 \<Rightarrow> NamedValue \<Rightarrow> NamedValue" where
  "relabel unit nv =
     (if nv_name nv \<noteq> ''Disabled'' then NamedValue (formatMemClockKhzLabel (nv_value nv) unit) (nv_value nv) (nv_right nv)
      else nv)"

definition emc_voltage_label :: "(u32 \<times> string) list" where
  "emc_voltage_label =
     [(1100000, ''Default (Mariko)''), (1125000, ''Default (Erista)''), (1175000, ''Rating''),
      (1212500, ''Safe Max (Mariko)''), (1237500, ''Safe Max (Erista)''), (1250000, ''Unsafe Max'')]"

definition Ram_listUI :: "overlay_env \<Rightarrow> config_values \<Rightarrow> menu_item list" where
  "Ram_listUI e values =
     (case menu_ctxt e of
        None \<Rightarrow> []
      | Some c \<Rightarrow>
         (let autoText = (if soc_speedo c \<le> 1597 then ''1050 mV'' else if soc_speedo c \<le> 1708 then ''1025 mV''
                          else ''1000 mV'');
              unit = values (Hoc HocClkConfigValue_RamDisplayUnit);
              emcMaxClock = map (relabel unit) (if \<not> IsMariko e then emcMaxClock_erista else emcMaxClock_mariko)
          in [Header ''RAM Settings'',
              MappedTrackbar (Kip KipConfigValue_emcDvbShift) (Some ''DVB Shift'')
                [0xFFFFFFFC, 0xFFFFFFFD, 0xFFFFFFFE, 0xFFFFFFFF, 0, 1, 2, 3, 4, 5, 6, 7, 8]
                [''-4'', ''-3'', ''-2'', ''-1'', '' 0'', ''1'', ''2'', ''3'', ''4'', ''5'', ''6'', ''7'', ''8''] True] @
             (if IsMariko e
              then [Button (Kip KipConfigValue_marikoSocVmax) (Some ''SoC Max Volt'') (VR 0 12 1 [] 0) ''SoC Max Volt''
                      (VT 1075 1150) [] (marikovmaxconf autoText) False True]
              else []) @
             [Toggle (Kip KipConfigValue_hpMode) (Some ''HP Mode'') True,
              Button (Kip KipConfigValue_commonEmcMemVolt) (Some ''RAM VDD2 Voltage'')
                ((VR 912500 1350000 12500 ''mV'' 1000)\<lparr>decimalPlaces := 1\<rparr>) ''Voltage''
                (VT (if IsMariko e then 1212500 else 1237500) (if IsMariko e then 1250000 else 1275000))
                emc_voltage_label [] False True] @
             (if IsMariko e
              then [addRangeButton (Kip KipConfigValue_marikoEmcVddqVolt) ''RAM VDDQ Voltage''
                      (VR 400000 750000 5000 ''mV'' 1000) ''RAM VDDQ Voltage'' (VT 675000 725000) True,
                    addNamedButton (Kip KipConfigValue_stepMode) ''Step Mode'' (VR 0 0 2 [] 0) stepModes True]
              else []) @
             [addNamedButton (Kip (if IsMariko e then KipConfigValue_marikoEmcMaxClock else KipConfigValue_eristaEmcMaxClock))
                ''Ram Max Clock'' (VR 0 1 1 [] 1) emcMaxClock True,
              SubMenu ''RAM Latency Editor'' RamLatencies, SubMenu ''RAM Timing Reductions'' RamTimings]))"

definition relabel_tail :: "u64 \<Rightarrow> NamedValue list \<Rightarrow> NamedValue list" where
  "relabel_tail unit nvs =
     take 1 nvs @ map (\<lambda>nv. NamedValue (formatMemClockKhzLabel (nv_value nv) unit) (nv_value nv) (nv_right nv)) (drop 1 nvs)"

definition RamTimings_listUI :: "overlay_env \<Rightarrow> config_values \<Rightarrow> menu_item list" where
  "RamTimings_listUI e values =
     [Header ''Memory Timings'', addConfigTrackbar KipConfigValue_t1_tRCD ''t1 tRCD'' 7,
      addConfigTrackbar KipConfigValue_t2_tRP ''t2 tRP'' 7, addConfigTrackbar KipConfigValue_t3_tRAS ''t3 tRAS'' 9,
      addConfigTrackbar KipConfigValue_t4_tRRD ''t4 tRRD'' 6,
      addConfigTrackbar KipConfigValue_t5_tRFC ''t5 tRFC'' (if \<not> IsMariko e then 5 else 10),
      addConfigTrackbar KipConfigValue_t6_tRTW ''t6 tRTW'' 9, addConfigTrackbar KipConfigValue_t7_tWTR ''t7 tWTR'' 9,
      addConfigTrackbar KipConfigValue_t8_tREFI ''t8 tREFI'' 6, Header ''Advanced''] @
     (if IsMariko e
      then [Button (Kip KipConfigValue_timingEmcTbreak) (Some ''RAM-Timing tBreak'') (VR 0 1 1 [] 1) ''tBreak''
              thresholdsDisabled [] (relabel_tail (values (Hoc HocClkConfigValue_RamDisplayUnit)) timingTbreakFreqs) False True,
            addConfigTrackbar KipConfigValue_low_t6_tRTW ''Low t6 tRTW'' 9,
            addConfigTrackbar KipConfigValue_low_t7_tWTR ''Low t7 tWTR'' 9,
            addConfigTrackbar KipConfigValue_t2_tRP_cap ''1333WL t2 RP Cap'' 8]
      else []) @
     [MappedTrackbar (Kip KipConfigValue_t6_tRTW_fine_tune) (Some ''t6 tRTW Fine Tune'')
        [0xFFFFFFFE, 0xFFFFFFFF, 0, 1, 2] [''-2'', ''-1'', '' 0'', ''+1'', ''+2''] True,
      MappedTrackbar (Kip KipConfigValue_t7_tWTR_fine_tune) (Some ''t7 tWTR Fine Tune'')
        [0xFFFFFFFD, 0xFFFFFFFE, 0xFFFFFFFF, 0, 1, 2, 3] [''-3'', ''-2'', ''-1'', '' 0'', ''+1'', ''+2'', ''+3''] True]"

definition kTierLabels :: "string list" where
  "kTierLabels = [''1333 Latency Max'', ''1600 Latency Max'', ''1866 Latency Max'', ''2133 Latency Max'']"

definition RamLatencies_listUI :: "menu_item list" where
  "RamLatencies_listUI =
     [Header ''Latency Graph'', Header ''Read Latency''] @ map (\<lambda>i. LatencyRow (kTierLabels ! i) i True) [0..<4] @
     [Header ''Write Latency''] @ map (\<lambda>i. LatencyRow (kTierLabels ! i) i False) [0..<4]"

definition Cpu_listUI :: "overlay_env \<Rightarrow> config_values \<Rightarrow> menu_item list" where
  "Cpu_listUI e values =
     [Header ''CPU Settings''] @
     (if IsMariko e
      then
       (let th = (if values (Kip KipConfigValue_marikoCpuUVHigh) \<noteq> 0 then VT 2397000 2499000 else VT 1963500 2397000)
        in [addConfigTrackbar KipConfigValue_marikoCpuUVLow ''CPU Low UV'' 8,
            addConfigTrackbar KipConfigValue_marikoCpuUVHigh ''CPU High UV'' 12,
            addNamedButton (Kip KipConfigValue_tableConf) ''CPU UV Table'' (VR 0 12 1 [] 0) marikoTableConf True,
            addRangeButton (Kip KipConfigValue_marikoCpuLowVmin) ''CPU Low VMIN'' (VR 550 750 5 ''mV'' 1) ''CPU VMIN''
              thresholdsDisabled True,
            addRangeButton (Kip KipConfigValue_marikoCpuHighVmin) ''CPU High VMIN'' (VR 650 900 5 ''mV'' 1) ''CPU VMIN''
              thresholdsDisabled True,
            addRangeButton (Kip KipConfigValue_marikoCpuMaxVolt) ''CPU Max Voltage'' (VR 1000 1200 5 ''mV'' 1)
              ''CPU Max Voltage'' (VT 1160 1180) True,
            Button (Kip KipConfigValue_marikoCpuMaxClock) (Some ''CPU Max Clock'') (VR 0 0 1 [] 1) ''CPU Max Clock'' th []
              marikoCpuMaxClkOptions False True,
            Button (Kip KipConfigValue_marikoCpuBoostClock) (Some ''CPU Boost Clock'') (VR 0 0 1 [] 1) ''CPU Boost Clock'' th []
              marikoCpuClkOptions False True])
      else
       (let th = (if values (Kip KipConfigValue_eristaCpuUV) \<noteq> 0 then VT 2091000 2193000 else VT 1785000 2091000)
        in [addConfigTrackbar KipConfigValue_eristaCpuUV ''CPU UV'' 5,
            Toggle (Kip KipConfigValue_eristaCpuUnlock) (Some ''CPU Unlock'') True,
            addRangeButton (Kip KipConfigValue_eristaCpuVmin) ''CPU VMIN'' (VR 700 900 25 ''mV'' 1) ''CPU VMIN''
              thresholdsDisabled True,
            addRangeButton (Kip KipConfigValue_eristaCpuMaxVolt) ''CPU Max Voltage'' (VR 1120 1260 5 ''mV'' 1)
              ''CPU Max Voltage'' (VT 1235 1260) True,
            Button (Hoc HocClkConfigValue_EristaMaxCpuClock) (Some ''CPU Max Clock'') (VR 0 0 1 [] 1) ''CPU Max Clock''
              (VT 1785 2091) [] eristaCpuMaxClkOptions False False,
            Button (Kip KipConfigValue_eristaCpuBoostClock) (Some ''CPU Boost Clock'') (VR 0 0 1 [] 1) ''CPU Boost Clock'' th []
              ClkOptionsE False True])) @
     [addConfigToggle (Hoc HocClkConfigValue_OverwriteBoostMode) None]"

definition Gpu_listUI :: "overlay_env \<Rightarrow> menu_item list" where
  "Gpu_listUI e =
     [Header ''GPU Settings''] @
     (if \<not> IsMariko e
      then [addNamedButton (Kip KipConfigValue_eristaGpuUV) ''GPU Undervolt Table'' (VR 0 1 1 [] 1) gpuUvConf True,
            addRangeButton (Kip KipConfigValue_eristaGpuVmin) ''GPU Minimum Voltage'' (VR 675 875 5 ''mV'' 1)
              ''GPU Minimum Voltage'' thresholdsDisabled True]
      else [addNamedButton (Kip KipConfigValue_marikoGpuUV) ''GPU Undervolt Table'' (VR 0 1 1 [] 1) gpuUvConf True,
            addRangeButton (Kip KipConfigValue_marikoGpuBootVolt) ''GPU Boot Volt'' (VR 700 800 5 ''mV'' 1)
              ''GPU Boot Voltage'' thresholdsDisabled True,
            addNamedButton (Kip KipConfigValue_marikoGpuVmin) ''GPU VMIN'' (VR 0 0 0 ''0'' 1) mGpuVoltsVmin True,
            addRangeButton (Kip KipConfigValue_marikoGpuVmax) ''GPU Maximum Voltage'' (VR 800 960 5 ''mV'' 1)
              ''GPU Maximum Voltage'' (VT 805 850) True]) @
     [addNamedButton (Kip KipConfigValue_commonGpuVoltOffset) ''GPU Voltage Offset'' (VR 0 50 5 ''mV'' 1) gpuOffset True,
      addNamedButton (Hoc HocClkConfigValue_GPUScheduling) ''GPU Scheduling Override'' (VR 0 0 1 [] 0) gpuSchedValues False,
      addNamedButton (Hoc HocClkConfigValue_DVFSMode) ''GPU DVFS Mode'' (VR 0 0 1 [] 0) dvfsValues False,
      addNamedButton (Hoc HocClkConfigValue_DVFSOffset) ''GPU DVFS Offset'' (VR 0 12 1 [] 0) dvfsOffset False,
      SubMenu ''GPU Voltage Table'' GpuCustomTable]"

definition volt_button :: "ValueThresholds \<Rightarrow> NamedValue list \<Rightarrow> HocClkConfigValue \<times> string \<Rightarrow> menu_item" where
  "volt_button thresholds volts x =
     (case x of (k, name) \<Rightarrow> Button k (Some name) (VR 0 0 0 ''0'' 1) ''Voltage'' thresholds [] volts False True)"

definition GpuCustomTable_listUI :: "overlay_env \<Rightarrow> config_values \<Rightarrow> menu_item list" where
  "GpuCustomTable_listUI e values =
     (let mb = volt_button (VT 800 850) mGpuVolts; mb_noAuto = volt_button (VT 800 850) mGpuVolts_noAuto;
          eb = volt_button (VT 950 975) eGpuVolts; eb_noAuto = volt_button (VT 950 975) eGpuVolts_noAuto;
          uv = values (Kip (if IsMariko e then KipConfigValue_marikoGpuUV else KipConfigValue_eristaGpuUV))
      in [Header ''GPU Custom Table (mV)''] @
      (if IsMariko e then
       map mb [
         (MarikoGpuVolt KipConfigValue_g_volt_76800, ''76.8MHz''),
         (MarikoGpuVolt KipConfigValue_g_volt_153600, ''153.6MHz''),
         (MarikoGpuVolt KipConfigValue_g_volt_230400, ''230.4MHz''),
         (MarikoGpuVolt KipConfigValue_g_volt_307200, ''307.2MHz''),
         (MarikoGpuVolt KipConfigValue_g_volt_384000, ''384.0MHz''),
         (MarikoGpuVolt KipConfigValue_g_volt_460800, ''460.8MHz''),
         (MarikoGpuVolt KipConfigValue_g_volt_537600, ''537.6MHz''),
         (MarikoGpuVolt KipConfigValue_g_volt_614400, ''614.4MHz''),
         (MarikoGpuVolt KipConfigValue_g_volt_691200, ''691.2MHz''),
         (MarikoGpuVolt KipConfigValue_g_volt_768000, ''768.0MHz''),
         (MarikoGpuVolt KipConfigValue_g_volt_844800, ''844.8MHz''),
         (MarikoGpuVolt KipConfigValue_g_volt_921600, ''921.6MHz''),
         (MarikoGpuVolt KipConfigValue_g_volt_998400, ''998.4MHz''),
         (MarikoGpuVolt KipConfigValue_g_volt_1075200, ''1075.2MHz'')] @
       (if uv \<ge> 1 then map mb [
         (MarikoGpuVolt KipConfigValue_g_volt_1152000, ''1152.0MHz'')] else []) @
       (if uv \<ge> 2 then map mb [
         (MarikoGpuVolt KipConfigValue_g_volt_1228800, ''1228.8MHz''),
         (MarikoGpuVolt KipConfigValue_g_volt_1267200, ''1267.2MHz''),
         (MarikoGpuVolt KipConfigValue_g_volt_1305600, ''1305.6MHz'')] @
         map mb_noAuto [
         (MarikoGpuVolt KipConfigValue_g_volt_1344000, ''1344.0MHz''),
         (MarikoGpuVolt KipConfigValue_g_volt_1382400, ''1382.4MHz''),
         (MarikoGpuVolt KipConfigValue_g_volt_1420800, ''1420.8MHz''),
         (MarikoGpuVolt KipConfigValue_g_volt_1459200, ''1459.2MHz''),
         (MarikoGpuVolt KipConfigValue_g_volt_1497600, ''1497.6MHz''),
         (MarikoGpuVolt KipConfigValue_g_volt_1536000, ''1536.0MHz'')] else [])
      else
       map eb [
         (EristaGpuVolt KipConfigValue_g_volt_e_76800, ''76.8MHz''),
         (EristaGpuVolt KipConfigValue_g_volt_e_115200, ''115.2MHz''),
         (EristaGpuVolt KipConfigValue_g_volt_e_153600, ''153.6MHz''),
         (EristaGpuVolt KipConfigValue_g_volt_e_192000, ''192.0MHz''),
         (EristaGpuVolt KipConfigValue_g_volt_e_230400, ''230.4MHz''),
         (EristaGpuVolt KipConfigValue_g_volt_e_268800, ''268.8MHz''),
         (EristaGpuVolt KipConfigValue_g_volt_e_307200, ''307.2MHz''),
         (EristaGpuVolt KipConfigValue_g_volt_e_345600, ''345.6MHz''),
         (EristaGpuVolt KipConfigValue_g_volt_e_384000, ''384.0MHz''),
         (EristaGpuVolt KipConfigValue_g_volt_e_422400, ''422.4MHz''),
         (EristaGpuVolt KipConfigValue_g_volt_e_460800, ''460.8MHz''),
         (EristaGpuVolt KipConfigValue_g_volt_e_499200, ''499.2MHz''),
         (EristaGpuVolt KipConfigValue_g_volt_e_537600, ''537.6MHz''),
         (EristaGpuVolt KipConfigValue_g_volt_e_576000, ''576.0MHz''),
         (EristaGpuVolt KipConfigValue_g_volt_e_614400, ''614.4MHz''),
         (EristaGpuVolt KipConfigValue_g_volt_e_652800, ''652.8MHz''),
         (EristaGpuVolt KipConfigValue_g_volt_e_691200, ''691.2MHz''),
         (EristaGpuVolt KipConfigValue_g_volt_e_729600, ''729.6MHz''),
         (EristaGpuVolt KipConfigValue_g_volt_e_768000, ''768.0MHz''),
         (EristaGpuVolt KipConfigValue_g_volt_e_806400, ''806.4MHz''),
         (EristaGpuVolt KipConfigValue_g_volt_e_844800, ''844.8MHz''),
         (EristaGpuVolt KipConfigValue_g_volt_e_883200, ''883.2MHz''),
         (EristaGpuVolt KipConfigValue_g_volt_e_921600, ''921.6MHz'')] @
       (if uv \<ge> 1 then map eb [
         (EristaGpuVolt KipConfigValue_g_volt_e_960000, ''960.0MHz'')] else []) @
       (if uv \<ge> 2 then map eb [
         (EristaGpuVolt KipConfigValue_g_volt_e_998400, ''998.4MHz'')] @
         map eb_noAuto [
         (EristaGpuVolt KipConfigValue_g_volt_e_1036800, ''1036.8MHz''),
         (EristaGpuVolt KipConfigValue_g_volt_e_1075200, ''1075.2MHz'')] else [])))"

fun listUI :: "overlay_env \<Rightarrow> config_values \<Rightarrow> menu \<Rightarrow> menu_item list" where
  "listUI e values MiscMenu = MiscGui_listUI values"
| "listUI e values GeneralSettings = General_listUI e"
| "listUI e values ExperimentalSettings = Experimental_listUI e"
| "listUI e values GovernorSettings = Governor_listUI"
| "listUI e values DisplaySettings = Display_listUI e"
| "listUI e values SafetySettings = Safety_listUI e"
| "listUI e values RamSettings = Ram_listUI e values"
| "listUI e values RamTimings = RamTimings_listUI e values"
| "listUI e values RamLatencies = RamLatencies_listUI"
| "listUI e values CpuSettings = Cpu_listUI e values"
| "listUI e values GpuSettings = Gpu_listUI e"
| "listUI e values GpuCustomTable = GpuCustomTable_listUI e values"

end
