(* ===== verification/Overlay_Latency.thy ===== *)
theory Overlay_Latency
  imports Overlay_Menus Mtc_Timings
begin

text \<open>
  The latency editor of the overlay, \<open>RamLatenciesSubmenuGui\<close> in \<open>overlay/src/ui/gui/misc_gui.cpp\<close>: for the
  read and for the write latency four tiers, each with the highest memory frequency that uses it, 0 for none
  and \<open>0xFFFFFFFF\<close> for the highest clock. The choices of a tier depend on the other tiers, and a choice
  may change them. A frequency that is set as the limit of a tier gets the latency of that tier from the
  loader.
\<close>

section \<open>The editor\<close>

definition latency_key :: "bool \<Rightarrow> nat \<Rightarrow> HocClkConfigValue" where
  "latency_key read i = Kip ((if read
     then [KipConfigValue_read_latency_1333, KipConfigValue_read_latency_1600, KipConfigValue_read_latency_1866,
           KipConfigValue_read_latency_2133]
     else [KipConfigValue_write_latency_1333, KipConfigValue_write_latency_1600, KipConfigValue_write_latency_1866,
           KipConfigValue_write_latency_2133]) ! i)"

definition max_clock :: "overlay_env \<Rightarrow> config_values \<Rightarrow> u32" where
  "max_clock e values =
     ucast (values (Kip (if IsMariko e then KipConfigValue_marikoEmcMaxClock else KipConfigValue_eristaEmcMaxClock)))"

definition latency_values :: "config_values \<Rightarrow> bool \<Rightarrow> u32 list" where
  "latency_values values read = map (\<lambda>i. ucast (values (latency_key read i))) [0..<4]"

definition resolveVal :: "u32 \<Rightarrow> u32 \<Rightarrow> u32" where
  "resolveVal maxClock v = (if v = 0xFFFFFFFF then maxClock else v)"

definition kFreqOptions :: "overlay_env \<Rightarrow> u32 list" where
  "kFreqOptions e =
     (if IsMariko e then
       [1633000, 1666000, 1700000, 1733000, 1766000, 1800000,
        1833000, 1866000, 1900000, 1933000, 1966000, 1996800, 2000000,
        2033000, 2066000, 2100000, 2133000, 2166000, 2200000, 2233000,
        2266000, 2300000, 2333000, 2366000, 2400000, 2433000, 2466000,
        2500000, 2533000, 2566000, 2600000, 2633000, 2666000, 2700000,
        2733000, 2766000, 2800000, 2833000, 2866000, 2900000, 2933000,
        2966000, 3000000, 3033000, 3066000, 3100000, 3133000, 3166000,
        3200000, 3233000, 3266000, 3300000]
      else
       [1633000, 1666000, 1700000, 1733000, 1800000,
        1833000, 1862400, 1881600, 1900800, 1920000, 1939200,
        1958400, 1977600, 1996800, 2016000, 2035200, 2054400,
        2073600, 2092800, 2112000, 2131200, 2150400, 2169600,
        2188800, 2208000, 2227200, 2246400, 2265600, 2284800,
        2304000, 2323200, 2342400, 2361600, 2380800, 2400000])"

text \<open>From the last tier to the first: no limit above the limit of a later tier.\<close>

fun clamp_down :: "u32 \<Rightarrow> u32 list \<Rightarrow> u32 list" where
  "clamp_down currentLimit [] = []"
| "clamp_down currentLimit (v # vs) =
     (if v \<noteq> 0 then
        (let v = (if currentLimit \<noteq> 0 \<and> v > currentLimit then currentLimit else v) in v # clamp_down v vs)
      else v # clamp_down currentLimit vs)"

text \<open>From the first tier to the last.\<close>

fun clamp_up :: "u32 \<Rightarrow> u32 \<Rightarrow> u32 list \<Rightarrow> u32 list" where
  "clamp_up maxClock prev [] = []"
| "clamp_up maxClock prev (v # vs) =
     (if v = 0 then v # clamp_up maxClock prev vs
      else
       (let v = (if v < prev then prev else v);
            v = (if v > maxClock then maxClock else v)
        in v # clamp_up maxClock v vs))"

definition normalized :: "u32 \<Rightarrow> u32 list \<Rightarrow> u32 list" where
  "normalized maxClock vals = clamp_up maxClock 0 (rev (clamp_down 0 (rev (map (resolveVal maxClock) vals))))"

definition normalizeLatencies :: "overlay_env \<Rightarrow> bool \<Rightarrow> config_values \<Rightarrow> config_values" where
  "normalizeLatencies e read values =
     (let vals = normalized (max_clock e values) (latency_values values read)
      in fold (\<lambda>i v. v(latency_key read i := ucast (vals ! i))) [0..<4] values)"

definition lower_bound :: "u32 \<Rightarrow> u32 list \<Rightarrow> u32" where
  "lower_bound maxClock vals =
     foldl (\<lambda>b v. let v = resolveVal maxClock v in if v \<noteq> 0 \<and> v > b then v else b) 0 vals"

definition upper_bound :: "u32 \<Rightarrow> u32 list \<Rightarrow> nat \<Rightarrow> u32" where
  "upper_bound maxClock vals tierIdx =
     foldl (\<lambda>b i. let r = resolveVal maxClock (vals ! i); v = (if i = 3 then if r \<noteq> 0 then maxClock else 0 else r)
                   in if v \<noteq> 0 \<and> (b = 0 \<or> v < b) then v else b) 0 [tierIdx + 1..<4]"

definition latency_options :: "overlay_env \<Rightarrow> config_values \<Rightarrow> bool \<Rightarrow> nat \<Rightarrow> u32 list" where
  "latency_options e values read tierIdx =
     (let maxClock = max_clock e values; vals = latency_values values read
      in if tierIdx = 3
         then [0] @ (if \<exists>i \<in> set [0..<3]. resolveVal maxClock (vals ! i) = maxClock then [] else [maxClock])
         else
          (let lowerBound = lower_bound maxClock (take tierIdx vals);
               upperBound = upper_bound maxClock vals tierIdx
           in [0] @ filter (\<lambda>freq. \<not> freq \<le> lowerBound \<and> \<not> freq > maxClock \<and>
                               \<not> (upperBound \<noteq> 0 \<and> freq \<ge> upperBound)) (kFreqOptions e)))"

definition choose_latency :: "overlay_env \<Rightarrow> bool \<Rightarrow> nat \<Rightarrow> u32 \<Rightarrow> config_values \<Rightarrow> config_values" where
  "choose_latency e read tierIdx chosen values =
     (let values = values(latency_key read tierIdx := ucast chosen)
      in if tierIdx = 3 then values else normalizeLatencies e read values)"

section \<open>Limits in order\<close>

text \<open>The limits that are set grow from tier to tier up to the highest clock.\<close>

definition in_order :: "u32 \<Rightarrow> u32 list \<Rightarrow> bool" where
  "in_order m vals \<longleftrightarrow> sorted_wrt (<) (filter (\<lambda>x. x \<noteq> 0) vals) \<and> (\<forall>x \<in> set vals. x \<le> m)"

lemma in_order_update:
  assumes "in_order m vals" "t < length vals" "v \<le> m"
    and "\<And>x. v \<noteq> 0 \<Longrightarrow> x \<in> set (take t vals) \<Longrightarrow> x \<noteq> 0 \<Longrightarrow> x < v"
    and "\<And>x. v \<noteq> 0 \<Longrightarrow> x \<in> set (drop (Suc t) vals) \<Longrightarrow> x \<noteq> 0 \<Longrightarrow> v < x"
  shows "in_order m (vals[t := v])"
proof -
  let ?xs = "take t vals" and ?ys = "drop (Suc t) vals"
  have v: "vals = ?xs @ vals ! t # ?ys" "vals[t := v] = ?xs @ v # ?ys"
    using id_take_nth_drop [OF assms(2)] upd_conv_take_nth_drop [OF assms(2)] by auto
  have o: "in_order m (?xs @ vals ! t # ?ys)" using assms(1) v(1) by simp
  have s: "sorted_wrt (<) (filter (\<lambda>x. x \<noteq> 0) ?xs)" "sorted_wrt (<) (filter (\<lambda>x. x \<noteq> 0) ?ys)"
    "\<forall>x \<in> set ?xs. \<forall>y \<in> set ?ys. x \<noteq> 0 \<longrightarrow> y \<noteq> 0 \<longrightarrow> x < y" "\<forall>x \<in> set ?xs \<union> set ?ys. x \<le> m"
    using o unfolding in_order_def by (auto simp: sorted_wrt_append split: if_splits)
  show ?thesis
  proof (cases "v = 0")
    case True
    then show ?thesis unfolding v(2) in_order_def using s by (auto simp: sorted_wrt_append)
  next
    case False
    then show ?thesis unfolding v(2) in_order_def using s assms(3) assms(4,5) [OF False]
      by (auto simp: sorted_wrt_append)
  qed
qed

lemma lower_bound_ge:
  "x \<in> set vals \<Longrightarrow> resolveVal m x \<le> lower_bound m vals"
proof -
  have "b \<le> foldl (\<lambda>b v. let v = resolveVal m v in if v \<noteq> 0 \<and> v > b then v else b) b vals \<and>
    (\<forall>x \<in> set vals. resolveVal m x \<le> foldl (\<lambda>b v. let v = resolveVal m v in if v \<noteq> 0 \<and> v > b then v else b) b vals)" for b
  proof (induction vals arbitrary: b)
    case (Cons v vs)
    define b' where "b' = (let v = resolveVal m v in if v \<noteq> 0 \<and> v > b then v else b)"
    have "b \<le> b'" "resolveVal m v \<le> b'" by (auto simp: b'_def Let_def)
    then show ?case using Cons.IH [of b'] unfolding foldl_Cons b'_def [symmetric] by auto
  qed simp
  then show "x \<in> set vals \<Longrightarrow> resolveVal m x \<le> lower_bound m vals" by (auto simp: lower_bound_def)
qed

lemma least_nonzero:
  fixes w :: "nat \<Rightarrow> u32"
  shows "(b \<noteq> 0 \<longrightarrow> foldl (\<lambda>b i. if w i \<noteq> 0 \<and> (b = 0 \<or> w i < b) then w i else b) b is \<noteq> 0 \<and>
      foldl (\<lambda>b i. if w i \<noteq> 0 \<and> (b = 0 \<or> w i < b) then w i else b) b is \<le> b) \<and>
    (\<forall>i \<in> set is. w i \<noteq> 0 \<longrightarrow> foldl (\<lambda>b i. if w i \<noteq> 0 \<and> (b = 0 \<or> w i < b) then w i else b) b is \<noteq> 0 \<and>
      foldl (\<lambda>b i. if w i \<noteq> 0 \<and> (b = 0 \<or> w i < b) then w i else b) b is \<le> w i)"
proof (induction "is" arbitrary: b)
  case (Cons i js)
  define b' where "b' = (if w i \<noteq> 0 \<and> (b = 0 \<or> w i < b) then w i else b)"
  have "b \<noteq> 0 \<Longrightarrow> b' \<noteq> 0 \<and> b' \<le> b" "w i \<noteq> 0 \<Longrightarrow> b' \<noteq> 0 \<and> b' \<le> w i" by (auto simp: b'_def)
  then show ?case using Cons.IH [of b'] unfolding foldl_Cons b'_def [symmetric] by (auto intro: order.trans)
qed simp

lemma upper_bound_le:
  assumes "t < i" "i < 4" "resolveVal m (vals ! i) \<noteq> 0" "i = 3 \<Longrightarrow> resolveVal m (vals ! i) = m"
  shows "upper_bound m vals t \<noteq> 0 \<and> upper_bound m vals t \<le> resolveVal m (vals ! i)"
proof -
  define w where "w i = (if i = 3 then if resolveVal m (vals ! i) \<noteq> 0 then m else 0 else resolveVal m (vals ! i))" for i
  have u: "upper_bound m vals t = foldl (\<lambda>b i. if w i \<noteq> 0 \<and> (b = 0 \<or> w i < b) then w i else b) 0 [t + 1..<4]"
    by (simp only: upper_bound_def Let_def w_def)
  have w: "w i = resolveVal m (vals ! i)" using assms(3,4) by (auto simp: w_def)
  have "i \<in> set [t + 1..<4]" "w i \<noteq> 0" using assms(1-3) by (simp_all add: w)
  then show ?thesis using least_nonzero [of 0 w "[t + 1..<4]"] unfolding u w [symmetric] by blast
qed

lemma clamp_up_sorted:
  "prev \<le> m \<Longrightarrow> sorted (filter (\<lambda>x. x \<noteq> 0) (clamp_up m prev vs)) \<and>
    (\<forall>x \<in> set (clamp_up m prev vs). x \<le> m \<and> (x \<noteq> 0 \<longrightarrow> prev \<le> x))"
proof (induction vs arbitrary: prev)
  case (Cons v vs)
  show ?case
  proof (cases "v = 0")
    case True
    then show ?thesis using Cons.IH [OF Cons.prems] by simp
  next
    case False
    define w where "w = min (max v prev) m"
    have w: "clamp_up m prev (v # vs) = w # clamp_up m w vs" "prev \<le> w" "w \<le> m"
      using False Cons.prems by (auto simp: w_def Let_def min_def max_def)
    show ?thesis using Cons.IH [OF w(3)] w(2,3) unfolding w(1) by (auto intro: order.trans)
  qed
qed simp

lemma normalized_sorted:
  "sorted (filter (\<lambda>x. x \<noteq> 0) (normalized m vals))" "x \<in> set (normalized m vals) \<Longrightarrow> x \<le> m"
  using clamp_up_sorted [of 0 m] by (auto simp: normalized_def)

lemma length_clamp_up [simp]: "length (clamp_up m p vs) = length vs"
  by (induction vs arbitrary: p) (simp_all add: Let_def)

lemma length_clamp_down [simp]: "length (clamp_down l vs) = length vs"
  by (induction vs arbitrary: l) (simp_all add: Let_def)

lemma clamp_up_id:
  "sorted (filter (\<lambda>x. x \<noteq> 0) vs) \<Longrightarrow> \<forall>x \<in> set vs. x \<le> m \<and> (x \<noteq> 0 \<longrightarrow> p \<le> x) \<Longrightarrow> clamp_up m p vs = vs"
proof (induction vs arbitrary: p)
  case (Cons v vs)
  show ?case
  proof (cases "v = 0")
    case False
    then have "\<not> v < p" "\<not> v > m" using Cons.prems(2) by auto
    then have "clamp_up m p (v # vs) = v # clamp_up m v vs" using False by simp
    moreover have "clamp_up m v vs = vs" using Cons.prems False by (intro Cons.IH) auto
    ultimately show ?thesis by simp
  qed (use Cons in simp)
qed simp

lemma clamp_down_id:
  "sorted_wrt (\<lambda>x y. y \<le> x) (filter (\<lambda>x. x \<noteq> 0) vs) \<Longrightarrow> \<forall>x \<in> set vs. l \<noteq> 0 \<longrightarrow> x \<le> l \<Longrightarrow> clamp_down l vs = vs"
proof (induction vs arbitrary: l)
  case (Cons v vs)
  show ?case
  proof (cases "v = 0")
    case False
    then have "\<not> (l \<noteq> 0 \<and> v > l)" using Cons.prems(2) by auto
    then have "clamp_down l (v # vs) = v # clamp_down v vs" using False by (auto simp: Let_def)
    moreover have "x \<le> v" if "x \<in> set vs" for x using Cons.prems(1) False that by (cases "x = 0") auto
    then have "clamp_down v vs = vs" using Cons.prems False by (intro Cons.IH) auto
    ultimately show ?thesis by simp
  qed (use Cons in simp)
qed simp

text \<open>Limits in order are left alone.\<close>

lemma normalized_id:
  assumes "sorted (filter (\<lambda>x. x \<noteq> 0) (map (resolveVal m) vals))" "\<forall>x \<in> set vals. resolveVal m x \<le> m"
  shows "normalized m vals = map (resolveVal m) vals"
proof -
  let ?v = "map (resolveVal m) vals"
  have "sorted_wrt (\<lambda>x y. y \<le> x) (filter (\<lambda>x. x \<noteq> 0) (rev ?v))"
    using assms(1) by (simp add: sorted_wrt_rev rev_filter [symmetric] del: filter_map)
  then have "clamp_down 0 (rev ?v) = rev ?v" by (intro clamp_down_id) auto
  moreover have "clamp_up m 0 ?v = ?v" using assms by (intro clamp_up_id) auto
  ultimately show ?thesis by (simp add: normalized_def)
qed

section \<open>A choice\<close>

lemma latency_key_inject: "i < 4 \<Longrightarrow> j < 4 \<Longrightarrow> latency_key r i = latency_key q j \<longleftrightarrow> r = q \<and> i = j"
  by (auto simp: latency_key_def numeral_eq_Suc less_Suc_eq)

definition latency_keys :: "bool \<Rightarrow> HocClkConfigValue set" where
  "latency_keys read = latency_key read ` {..<4}"

lemma max_clock_other: "max_clock e (values(latency_key read i := x)) = max_clock e values" if "i < 4"
  using that by (auto simp: max_clock_def latency_key_def numeral_eq_Suc less_Suc_eq)

lemma latency_values_set:
  "i < 4 \<Longrightarrow> latency_values (values(latency_key read i := x)) read = (latency_values values read)[i := ucast x]"
  by (auto simp: latency_values_def latency_key_inject intro!: nth_equalityI simp: nth_list_update)

lemma length_latency_values [simp]: "length (latency_values values read) = 4"
  by (simp add: latency_values_def)

lemma fold_set_keys:
  "distinct is \<Longrightarrow> set is \<subseteq> {..<4} \<Longrightarrow>
    fold (\<lambda>i v. v(latency_key read i := f i)) is values k
      = (case find (\<lambda>i. latency_key read i = k) is of Some i \<Rightarrow> f i | None \<Rightarrow> values k)"
proof (induction "is" arbitrary: "values")
  case (Cons i js)
  have "find (\<lambda>j. latency_key read j = latency_key read i) js = None"
    using Cons.prems by (auto simp: find_None_iff latency_key_inject)
  then show ?case using Cons by auto
qed simp

lemma length_normalized [simp]: "length (normalized m vals) = length vals"
  by (simp add: normalized_def)

lemma normalizeLatencies_values:
  "latency_values (normalizeLatencies e read values) read = normalized (max_clock e values) (latency_values values read)"
  "k \<notin> latency_keys read \<Longrightarrow> normalizeLatencies e read values k = values k"
proof -
  let ?n = "normalized (max_clock e values) (latency_values values read)"
  have n: "length ?n = 4" by simp
  have s: "normalizeLatencies e read values k =
      (case find (\<lambda>i. latency_key read i = k) [0..<4] of Some i \<Rightarrow> ucast (?n ! i) | None \<Rightarrow> values k)" for k
    unfolding normalizeLatencies_def Let_def by (rule fold_set_keys) auto
  have "find (\<lambda>j. latency_key read j = latency_key read i) [0..<4] = Some i" if "i < 4" for i
    using that by (auto simp: find_Some_iff latency_key_inject)
  then have "normalizeLatencies e read values (latency_key read i) = ucast (?n ! i)" if "i < 4" for i
    using that unfolding s by simp
  then show "latency_values (normalizeLatencies e read values) read = ?n"
    using n by (intro nth_equalityI) (simp_all add: latency_values_def [of "normalizeLatencies e read values"])
  show "k \<notin> latency_keys read \<Longrightarrow> normalizeLatencies e read values k = values k"
    unfolding s by (auto simp: latency_keys_def find_Some_iff split: option.splits)
qed

lemma resolve_idem [simp]: "resolveVal m (resolveVal m v) = resolveVal m v"
  by (simp add: resolveVal_def)

lemma option_bounds:
  assumes "chosen \<in> set (latency_options e values read t)" "t < 3" "chosen \<noteq> 0"
    and "m = max_clock e values" "vals = latency_values values read"
  shows "lower_bound m (take t vals) < chosen" "chosen \<le> m" "upper_bound m vals t = 0 \<or> chosen < upper_bound m vals t"
  using assms by (auto simp: latency_options_def Let_def)

lemma option_in_order:
  assumes "in_order m (map (resolveVal m) vals)" "resolveVal m (vals ! 3) \<in> {0, m}"
    and c: "chosen \<in> set (latency_options e values read t)" "t < 4"
    and m: "m = max_clock e values" and v: "vals = latency_values values read"
  shows "chosen \<le> m" "in_order m ((map (resolveVal m) vals)[t := chosen])"
proof -
  have len: "length vals = 4" by (simp add: v)
  show le: "chosen \<le> m"
  proof (cases "chosen = 0 \<or> t = 3")
    case False
    then show ?thesis using option_bounds(2) [OF c(1) _ _ m v] c(2) by auto
  qed (use c(1) in \<open>auto simp: latency_options_def m Let_def split: if_splits\<close>)
  show "in_order m ((map (resolveVal m) vals)[t := chosen])"
  proof (rule in_order_update [OF assms(1) _ le])
    show "t < length (map (resolveVal m) vals)" using c(2) len by simp
    fix x :: u32 assume nz: "chosen \<noteq> 0" "x \<noteq> 0"
    {
      assume "x \<in> set (take t (map (resolveVal m) vals))"
      then obtain i where i: "x = resolveVal m (vals ! i)" "i < t" using c(2) len by (auto simp: in_set_conv_nth)
      show "x < chosen"
      proof (cases "t = 3")
        case True
        then have "chosen = m" "x \<noteq> m"
          using c(1) nz(1) i by (auto simp: latency_options_def m v Let_def split: if_splits)
        moreover have "x \<le> m" using assms(1) i c(2) len by (auto simp: in_order_def)
        ultimately show ?thesis by simp
      next
        case False
        have "vals ! i \<in> set (take t vals)" using i(2) c(2) len by (auto simp: in_set_conv_nth intro: exI [of _ i])
        then have "x \<le> lower_bound m (take t vals)" using lower_bound_ge i(1) by simp
        then show ?thesis using option_bounds(1) [OF c(1) _ nz(1) m v] False c(2) by (auto intro: le_less_trans)
      qed
    }
    {
      assume "x \<in> set (drop (Suc t) (map (resolveVal m) vals))"
      then obtain i where i: "x = resolveVal m (vals ! i)" "t < i" "i < 4"
        using len by (auto simp: in_set_conv_nth)
      then have "upper_bound m vals t \<noteq> 0 \<and> upper_bound m vals t \<le> x"
        using upper_bound_le [of t i m vals] nz(2) assms(2) by auto
      moreover have "t < 3" using i by simp
      ultimately show "chosen < x" using option_bounds(3) [OF c(1) _ nz(1) m v] by (auto intro: less_le_trans)
    }
  qed
qed

lemma choice_values_after:
  assumes "in_order m (map (resolveVal m) (latency_values values read))"
    "resolveVal m (latency_values values read ! 3) \<in> {0, m}"
    and c: "chosen \<in> set (latency_options e values read t)" "t < 4" and m: "m = max_clock e values" "m < 0xFFFFFFFF"
  shows "latency_values (choose_latency e read t chosen values) read =
      (if t = 3 then (latency_values values read)[t := chosen]
       else (map (resolveVal m) (latency_values values read))[t := chosen])"
    "map (resolveVal m) (latency_values (choose_latency e read t chosen values) read)
      = (map (resolveVal m) (latency_values values read))[t := chosen]"
    "k \<notin> latency_keys read \<Longrightarrow> choose_latency e read t chosen values k = values k"
proof -
  let ?v = "latency_values values read"
  note o = option_in_order [OF assms(1,2) c m(1) refl]
  have r: "resolveVal m chosen = chosen" using o(1) m(2) by (auto simp: resolveVal_def)
  let ?w = "values(latency_key read t := ucast chosen)"
  have w: "latency_values ?w read = ?v[t := chosen]" "max_clock e ?w = m"
    using c(2) by (simp_all add: latency_values_set max_clock_other m(1))
  have mw: "map (resolveVal m) (?v[t := chosen]) = (map (resolveVal m) ?v)[t := chosen]" by (simp add: map_update r)
  have "sorted (filter (\<lambda>x. x \<noteq> 0) (map (resolveVal m) (?v[t := chosen])))"
    using o(2) unfolding mw in_order_def by (auto intro: sorted_wrt_mono_rel [where P = "(<)"])
  moreover have "\<forall>x \<in> set (?v[t := chosen]). resolveVal m x \<le> m"
  proof -
    have "\<forall>y \<in> set (map (resolveVal m) (?v[t := chosen])). y \<le> m" using o(2) unfolding mw in_order_def by blast
    then show ?thesis by simp
  qed
  ultimately have n: "normalized m (?v[t := chosen]) = (map (resolveVal m) ?v)[t := chosen]"
    using normalized_id [of m "?v[t := chosen]"] mw by simp
  show a: "latency_values (choose_latency e read t chosen values) read =
      (if t = 3 then ?v[t := chosen] else (map (resolveVal m) ?v)[t := chosen])"
  proof (cases "t = 3")
    case True
    then have c: "choose_latency e read t chosen values = ?w" by (simp add: choose_latency_def)
    show ?thesis unfolding c w(1) using True by simp
  next
    case False
    then have "choose_latency e read t chosen values = normalizeLatencies e read ?w" by (simp add: choose_latency_def)
    then show ?thesis using False by (simp add: normalizeLatencies_values w n)
  qed
  show "map (resolveVal m) (latency_values (choose_latency e read t chosen values) read) = (map (resolveVal m) ?v)[t := chosen]"
  proof -
    have "map (resolveVal m) ((map (resolveVal m) ?v)[t := chosen]) = (map (resolveVal m) ?v)[t := chosen]"
      unfolding map_update map_map comp_def resolve_idem r by (rule refl)
    then show ?thesis unfolding a by (simp only: if_distrib [of "map (resolveVal m)"] mw if_cancel)
  qed
  show "k \<notin> latency_keys read \<Longrightarrow> choose_latency e read t chosen values k = values k"
  proof -
    assume k: "k \<notin> latency_keys read"
    then have "k \<noteq> latency_key read t" using c(2) by (auto simp: latency_keys_def)
    then show "choose_latency e read t chosen values k = values k"
      using k by (auto simp: choose_latency_def Let_def normalizeLatencies_values(2))
  qed
qed

lemma latency_of_limit:
  assumes "length arr = 4" "t < 4" "arr ! t = f" "f \<noteq> 0" "\<And>j. j < t \<Longrightarrow> arr ! j \<noteq> 0 \<Longrightarrow> arr ! j < f"
  shows "HandleLatency f latency arr step = latency + of_nat t * step"
proof -
  obtain k where k: "GetMaxLatencyIndex arr = Some k" "t \<le> k"
  proof -
    have "t \<in> set (rev [0..<length arr])" using assms(1,2) by simp
    then have "find (\<lambda>i. arr ! i \<noteq> 0) (rev [0..<length arr]) \<noteq> None"
      using assms(3,4) by (auto simp: find_None_iff)
    then obtain k where f: "find (\<lambda>i. arr ! i \<noteq> 0) (rev [0..<length arr]) = Some k" by auto
    have "\<not> k < t"
    proof
      assume "k < t"
      obtain i where i: "i < length arr" "rev [0..<length arr] ! i = k" "\<forall>j<i. \<not> arr ! (rev [0..<length arr] ! j) \<noteq> 0"
        using f by (auto simp: find_Some_iff)
      have "i = length arr - Suc k" "k < length arr" using i by (auto simp: rev_nth)
      then have "length arr - Suc t < i" using \<open>k < t\<close> assms(1,2) by simp
      then have "\<not> arr ! (rev [0..<length arr] ! (length arr - Suc t)) \<noteq> 0" using i(3) by blast
      then show False using assms(1-4) by (simp add: rev_nth)
    qed
    then show thesis using that f by (simp add: GetMaxLatencyIndex_def)
  qed
  have "find (\<lambda>i. arr ! i \<noteq> 0 \<and> f \<le> arr ! i) [0..<k + 1] = Some t"
    unfolding find_Some_iff
  proof (intro exI [of _ t] conjI)
    show "\<forall>j<t. \<not> (arr ! ([0..<k + 1] ! j) \<noteq> 0 \<and> f \<le> arr ! ([0..<k + 1] ! j))"
      using assms(5) k(2) by (auto simp del: upt_Suc) (meson not_le)
  qed (use k(2) assms(3,4) in \<open>auto simp del: upt_Suc\<close>)
  then show ?thesis by (simp add: HandleLatency_def k(1) pick_latency_def SwitchLatency_def)
qed


definition latency_witness_values :: config_values where
  "latency_witness_values = (\<lambda>k. if k = Kip KipConfigValue_marikoEmcMaxClock then 2133000 else 0)"


end
