(* ===== verification/Overlay_Choices.thy ===== *)
theory Overlay_Choices
  imports Overlay_Menus Ipc Pcv_Common
begin

text \<open>
  What the menus let the user choose: the values an item offers and the new configuration, the list of
  choices of a range that ends, and the acceptance of every choice by the system module and by the check of
  the loader.
\<close>

section \<open>Choices\<close>

text \<open>
  The setting an item changes and the values it can be given: both states of a toggle, the steps of a bar,
  the entries of the list of a button.
\<close>

fun offered :: "menu_item \<Rightarrow> (HocClkConfigValue \<times> u64 list) option" where
  "offered (Toggle k _ _) = Some (k, [0, 1])"
| "offered (Trackbar k _ r _) = Some (k, map (\<lambda>i. bar_value r (of_nat i)) [0..<unat (numSteps r)])"
| "offered (MappedTrackbar k _ vals _ _) = Some (k, map ucast vals)"
| "offered (Button k _ r _ _ _ nvs d _) = map_option (\<lambda>vs. (k, map ucast vs)) (choice_values r nvs d)"
| "offered _ = None"

text \<open>The first entry of these lists stands for the default.\<close>

fun default_entry :: "menu_item \<Rightarrow> bool" where
  "default_entry (Button _ _ _ _ _ _ _ d _) = d"
| "default_entry _ = False"

section \<open>The list of a range\<close>

lemma range_values_stops: "\<not> v \<le> mx \<Longrightarrow> range_values v mx st = Some []"
  by (subst range_values.simps) simp

lemma range_values_step:
  "v \<le> mx \<Longrightarrow> range_values v mx st = map_option (\<lambda>vs. v # vs) (range_values (v + st) mx st)"
  by (subst range_values.simps) (cases "range_values (v + st) mx st"; simp)

text \<open>With a step of 0 the loop that fills the list does not end.\<close>

lemma range_values_no_step: "v \<le> mx \<Longrightarrow> range_values v mx 0 = None"
proof (rule ccontr)
  assume v: "v \<le> mx" and "range_values v mx 0 \<noteq> None"
  then obtain vs where vs: "range_values v mx 0 = Some vs" by auto
  have "range_values v mx 0 = map_option (\<lambda>vs. v # vs) (range_values v mx 0)"
    using range_values_step [OF v, of 0] by (simp only: add_0_right)
  then have "Some vs = map_option (\<lambda>vs. v # vs) (Some vs)" by (simp only: vs)
  then show False by (auto dest: arg_cong [where f = length])
qed

text \<open>Otherwise it ends unless the largest value is so high that adding the step wraps around.\<close>

definition range_ends :: "ValueRange \<Rightarrow> bool" where
  "range_ends r \<longleftrightarrow> 0 < rstep r \<and> unat (rmax r) + unat (rstep r) < 2 ^ 32"

lemma range_values_eq:
  assumes "0 < st" "unat mx + unat st < 2 ^ 32" "unat mn + i * unat st < 2 ^ 32"
  shows "range_values (mn + of_nat i * st) mx st =
    Some (map (\<lambda>j. mn + of_nat j * st) [i..<max i (if mn \<le> mx then Suc (unat ((mx - mn) div st)) else 0)])"
proof -
  define n where "n = (if mn \<le> mx then Suc (unat ((mx - mn) div st)) else 0)"
  have s: "0 < unat st" using assms(1) by (simp add: unat_gt_0)
  have at: "unat (mn + of_nat i * st) = unat mn + i * unat st" if "unat mn + i * unat st < 2 ^ 32" for i
    using that by (simp add: unat_word_ariths unat_of_nat mod_add_eq mod_mult_left_eq mod_mult_eq)
  have le: "mn + of_nat i * st \<le> mx \<longleftrightarrow> i < n" if "unat mn + i * unat st < 2 ^ 32" for i
  proof (cases "mn \<le> mx")
    case True
    then have "unat ((mx - mn) div st) = (unat mx - unat mn) div unat st" by (simp add: unat_div_distrib unat_sub)
    moreover have "i \<le> (unat mx - unat mn) div unat st \<longleftrightarrow> unat mn + i * unat st \<le> unat mx"
      using True s by (simp add: less_eq_div_iff_mult_less_eq word_le_nat_alt) linarith
    ultimately show ?thesis using at [OF that] True by (simp add: word_le_nat_alt less_Suc_eq_le n_def)
  qed (use at [OF that] in \<open>simp add: word_le_nat_alt n_def\<close>)
  show ?thesis using assms(3) unfolding n_def [symmetric]
  proof (induction "n - i" arbitrary: i)
    case 0
    then show ?case using le [of i] by (simp add: range_values_stops)
  next
    case (Suc k)
    have i: "i < n" using Suc.hyps(2) by simp
    then have "unat mn + i * unat st \<le> unat mx" using le [OF Suc.prems] at [OF Suc.prems] by (simp add: word_le_nat_alt)
    then have "unat mn + Suc i * unat st < 2 ^ 32" using assms(2) by simp
    then have "range_values (mn + of_nat (Suc i) * st) mx st =
        Some (map (\<lambda>j. mn + of_nat j * st) [Suc i..<max (Suc i) n])"
      using Suc.hyps by (intro Suc.hyps(1)) simp_all
    moreover have "mn + of_nat (Suc i) * st = mn + of_nat i * st + st" by (simp add: algebra_simps)
    moreover have "max (Suc i) n = n" "max i n = n" using i by simp_all
    ultimately show ?case using le [OF Suc.prems] i by (simp add: range_values_step upt_conv_Cons add.assoc)
  qed
qed

lemma u32_bound: "unat (w :: u32) < 4294967296"
  using unsigned_less [of w, where ?'a = nat] by simp

definition range_list :: "ValueRange \<Rightarrow> u32 list" where
  "range_list r = map (\<lambda>j. rmin r + of_nat j * rstep r) [0..<if rmin r \<le> rmax r then Suc (unat ((rmax r - rmin r) div rstep r)) else 0]"

lemma range_values_list: "range_ends r \<Longrightarrow> range_values (rmin r) (rmax r) (rstep r) = Some (range_list r)"
  using range_values_eq [of "rstep r" "rmax r" "rmin r" 0]
  by (simp add: range_ends_def range_list_def u32_bound)

lemma range_list_bounds:
  assumes "v \<in> set (range_list r)"
  shows "rmin r \<le> v \<and> v \<le> rmax r \<and> (v - rmin r) mod rstep r = 0"
proof -
  obtain j where j: "v = rmin r + of_nat j * rstep r" "rmin r \<le> rmax r" "j < Suc (unat ((rmax r - rmin r) div rstep r))"
    using assms by (auto simp: range_list_def split: if_splits)
  let ?d = "unat (rmax r) - unat (rmin r)"
  have le: "unat (rmin r) \<le> unat (rmax r)" using j(2) by (simp add: word_le_nat_alt)
  have d: "unat (rmax r - rmin r) = ?d" using j(2) by (simp add: unat_sub)
  have "j \<le> ?d div unat (rstep r)" using j(3) by (simp add: unat_div_distrib d)
  then have m: "j * unat (rstep r) \<le> ?d"
    by (metis div_times_less_eq_dividend le_trans mult_le_mono1)
  have dl: "?d < 2 ^ 32" using u32_bound [of "rmax r"] by (simp add: less_imp_diff_less)
  have u: "unat (of_nat j * rstep r) = j * unat (rstep r)"
    using m dl by (simp add: unat_word_ariths unat_of_nat mod_mult_left_eq)
  have v: "unat v = unat (rmin r) + j * unat (rstep r)"
  proof -
    have "unat (rmin r) + j * unat (rstep r) < 4294967296" using m le u32_bound [of "rmax r"] by linarith
    then show ?thesis by (simp add: j(1) unat_word_ariths(1) u)
  qed
  have "v - rmin r = of_nat j * rstep r" by (simp add: j(1))
  then have "unat ((v - rmin r) mod rstep r) = 0" by (simp only: unat_mod_distrib u) simp
  then show ?thesis using v m le by (simp add: word_le_nat_alt unat_eq_0)
qed
section \<open>The choices of every menu\<close>

text \<open>Every list of choices ends, and each choice is valid except the entry for the default.\<close>

definition item_ok :: "menu_item \<Rightarrow> bool" where
  "item_ok it \<longleftrightarrow>
     (case it of
        Button _ _ r _ _ _ nvs _ _ \<Rightarrow> nvs = [] \<longrightarrow> range_ends r
      | Trackbar _ _ r _ \<Rightarrow> rstep r \<noteq> 0 | _ \<Rightarrow> True) \<and>
     (case offered it of
        Some (k, vs) \<Rightarrow> \<forall>v \<in> set vs. hocclkValidConfigValue k v \<longleftrightarrow> \<not> (default_entry it \<and> v = 0)
      | None \<Rightarrow> True)"

lemma item_ok_plain [simp]: "item_ok (Header h)" "item_ok (SubMenu h m)" "item_ok (LatencyRow h i b)"
  by (simp_all add: item_ok_def)

lemma item_ok_toggle [simp]: "item_ok (Toggle k n b) \<longleftrightarrow> hocclkValidConfigValue k 0 \<and> hocclkValidConfigValue k 1"
  by (simp add: item_ok_def)

lemma item_ok_trackbar [simp]: "item_ok (Trackbar (Kip k) n r b) \<longleftrightarrow> rstep r \<noteq> 0"
  by (simp add: item_ok_def)

lemma item_ok_mapped [simp]: "item_ok (MappedTrackbar (Kip k) n vs ls b)"
  by (simp add: item_ok_def)

lemma item_ok_named:
  "nvs \<noteq> [] \<Longrightarrow> item_ok (Button k n r c th ls nvs False b) \<longleftrightarrow>
    list_all (\<lambda>nv. hocclkValidConfigValue k (ucast (nv_value nv))) nvs"
  by (auto simp: item_ok_def choice_values_def list_all_iff)

lemma choice_values_range:
  "range_ends r \<Longrightarrow> choice_values r [] d = Some ((if d then [0] else []) @ range_list r)"
  by (simp add: choice_values_def range_values_list)

lemma unat_widen: "unat (ucast (w :: u32) :: u64) = unat w"
  using u32_bound [of w] by (simp add: unsigned_ucast_eq take_bit_nat_eq_self)

lemma item_ok_range:
  assumes "range_ends r" "\<And>v. rmin r \<le> v \<Longrightarrow> v \<le> rmax r \<Longrightarrow> hocclkValidConfigValue k (ucast v)"
    and "d \<Longrightarrow> 0 < rmin r \<and> \<not> hocclkValidConfigValue k 0"
  shows "item_ok (Button k n r c th ls [] d b)"
proof -
  have "hocclkValidConfigValue k (ucast v) \<and> (d \<longrightarrow> (ucast v :: u64) \<noteq> 0)" if "v \<in> set (range_list r)" for v
    using assms(2,3) range_list_bounds [OF that] by (auto dest: arg_cong [where f = unat] simp: unat_widen word_less_nat_alt word_le_nat_alt)
  then show ?thesis using assms(1,3) by (auto simp: item_ok_def choice_values_range)
qed

lemma item_ok_kip:
  "range_ends r \<Longrightarrow> item_ok (Button (Kip k) n r c th ls [] False b)"
  "nvs \<noteq> [] \<Longrightarrow> item_ok (Button (Kip k) n r c th ls nvs False b)"
  "nvs \<noteq> [] \<Longrightarrow> item_ok (Button (MarikoGpuVolt mg) n r c th ls nvs False b)"
  "nvs \<noteq> [] \<Longrightarrow> item_ok (Button (EristaGpuVolt eg) n r c th ls nvs False b)"
  by (auto intro: item_ok_range) (auto simp: item_ok_def choice_values_def)

lemma VR_simps [simp]: "rmin (VR a b s sf d) = a" "rmax (VR a b s sf d) = b" "rstep (VR a b s sf d) = s"
  by (simp_all add: VR_def)

lemma range_ends_VR [simp]: "range_ends (VR a b s sf d) \<longleftrightarrow> 0 < s \<and> unat b + unat s < 2 ^ 32"
  by (simp add: range_ends_def)

lemma NV_value [simp]: "nv_value (NV n v) = v"
  by (simp add: NV_def)

lemma ucast_mono_u32: "(ucast (a :: u32) :: u64) \<le> ucast b \<longleftrightarrow> a \<le> b"
  by (simp add: word_le_nat_alt unat_widen)

lemma item_ok_in_range:
  assumes "range_ends r" "\<And>v :: u64. ucast (rmin r) \<le> v \<Longrightarrow> v \<le> ucast (rmax r) \<Longrightarrow> hocclkValidConfigValue k v"
    and "d \<Longrightarrow> 0 < rmin r \<and> \<not> hocclkValidConfigValue k 0"
  shows "item_ok (Button k n r c th ls [] d b)"
  using assms by (intro item_ok_range) (simp_all add: ucast_mono_u32)

lemmas button_defs = addNamedButton_def addRangeButton_def addConfigToggle_def addConfigTrackbar_def volt_button_def

lemma positive_u64: "c \<le> v \<Longrightarrow> 0 < c \<Longrightarrow> 0 < (v :: u64)"
  by (rule less_le_trans)

lemma items_ok_misc: "list_all item_ok (MiscGui_listUI values)"
  by (simp add: MiscGui_listUI_def)

lemma items_ok_general: "list_all item_ok (General_listUI e)"
  by (simp add: General_listUI_def button_defs item_ok_named ramVoltDispModes_def RamDisplayUnitValues_def)
     (rule item_ok_in_range; simp add: positive_u64)

lemma items_ok_experimental: "list_all item_ok (Experimental_listUI e)"
  by (simp add: Experimental_listUI_def button_defs item_ok_named gpuSchedMethodValues_def ramRFMeasurementMethods_def
      chargerCurrents_def chargerCurrents_hoag_def displayClrPreset_def)

lemma items_ok_governor: "list_all item_ok Governor_listUI"
  by (simp add: Governor_listUI_def button_defs item_ok_named GovernorMinHz_def)

lemma items_ok_display: "list_all item_ok (Display_listUI e)"
proof -
  have 1: "item_ok (addRangeButton (Hoc HocClkConfigValue_MaxDisplayClockH) n (VR 60 m 1 sf 1) c th f)"
    if "m = 65 \<or> m = 75" for n m sf c th f
    using that unfolding addRangeButton_def by (intro item_ok_in_range) (auto intro: positive_u64)
  have 2: "item_ok (addRangeButton (Hoc HocClkConfigValue_DisplayVoltage) n (VR 800 1200 25 sf 1) c th f)" for n sf c th f
    unfolding addRangeButton_def by (rule item_ok_in_range) (auto intro: order.trans)
  show ?thesis by (simp add: Display_listUI_def 1 2 addConfigToggle_def split: option.split)
qed

lemma items_ok_safety: "list_all item_ok (Safety_listUI e)"
proof -
  have "item_ok (Button (Hoc h) n (VR a b s sf d) c th ls [] True f)"
    if "h \<in> {HocClkConfigValue_LiteTDPLimit, HocClkConfigValue_HandheldTDPLimit, HocClkConfigValue_ThermalThrottleThreshold}"
      "0 < a" "0 < s" "unat b + unat s < 2 ^ 32" for h n a b s sf d c th ls f
    using that by (intro item_ok_in_range) (auto intro: positive_u64 simp: word_less_nat_alt word_le_nat_alt unat_widen)
  then show ?thesis by (simp add: Safety_listUI_def addConfigToggle_def)
qed

lemma items_ok_ram: "list_all item_ok (Ram_listUI e values)"
proof -
  have m: "marikovmaxconf x \<noteq> []" "stepModes \<noteq> []" "emcMaxClock_erista \<noteq> []" "emcMaxClock_mariko \<noteq> []" for x
    by (simp_all add: marikovmaxconf_def stepModes_def emcMaxClock_erista_def emcMaxClock_mariko_def)
  have r: "range_ends ((VR a b s sf d)\<lparr>decimalPlaces := p\<rparr>) = range_ends (VR a b s sf d)" for a b s sf d p
    by (simp add: range_ends_def)
  show ?thesis by (simp add: Ram_listUI_def Let_def button_defs item_ok_kip m r split: option.split)
qed

lemma items_ok_timings: "list_all item_ok (RamTimings_listUI e values)"
proof -
  have "relabel_tail u timingTbreakFreqs \<noteq> []" for u
    by (simp add: relabel_tail_def timingTbreakFreqs_def)
  then show ?thesis by (simp add: RamTimings_listUI_def button_defs item_ok_kip)
qed

lemma items_ok_latencies: "list_all item_ok RamLatencies_listUI"
  by (auto simp: RamLatencies_listUI_def list_all_iff)

lemma items_ok_cpu: "list_all item_ok (Cpu_listUI e values)"
proof -
  have m: "marikoTableConf \<noteq> []" "marikoCpuMaxClkOptions \<noteq> []" "marikoCpuClkOptions \<noteq> []" "ClkOptionsE \<noteq> []"
    by (simp_all add: marikoTableConf_def marikoCpuMaxClkOptions_def marikoCpuClkOptions_def ClkOptionsE_def)
  have "item_ok (Button (Hoc HocClkConfigValue_EristaMaxCpuClock) n r c th ls eristaCpuMaxClkOptions False b)" for n r c th ls b
    by (simp add: item_ok_named eristaCpuMaxClkOptions_def)
  then show ?thesis by (simp add: Cpu_listUI_def Let_def button_defs item_ok_kip m)
qed

lemma items_ok_gpu: "list_all item_ok (Gpu_listUI e)"
proof -
  have m: "gpuUvConf \<noteq> []" "mGpuVoltsVmin \<noteq> []" "gpuOffset \<noteq> []"
    by (simp_all add: gpuUvConf_def mGpuVoltsVmin_def gpuOffset_def)
  have n: "item_ok (Button (Hoc HocClkConfigValue_GPUScheduling) n r c th ls gpuSchedValues False b)"
    "item_ok (Button (Hoc HocClkConfigValue_DVFSMode) n r c th ls dvfsValues False b)"
    "item_ok (Button (Hoc HocClkConfigValue_DVFSOffset) n r c th ls dvfsOffset False b)" for n r c th ls b
    by (simp_all add: item_ok_named gpuSchedValues_def dvfsValues_def dvfsOffset_def)
  show ?thesis by (simp add: Gpu_listUI_def button_defs item_ok_kip m n)
qed

lemma items_ok_gpu_table: "list_all item_ok (GpuCustomTable_listUI e values)"
proof -
  have m: "mGpuVolts \<noteq> []" "mGpuVolts_noAuto \<noteq> []" "eGpuVolts \<noteq> []" "eGpuVolts_noAuto \<noteq> []"
    by (simp_all add: mGpuVolts_def mGpuVolts_noAuto_def eGpuVolts_def eGpuVolts_noAuto_def)
  show ?thesis by (simp add: GpuCustomTable_listUI_def Let_def volt_button_def item_ok_kip m)
qed

lemma items_ok: "list_all item_ok (listUI e values m)"
  by (cases m) (simp_all add: items_ok_misc items_ok_general items_ok_experimental items_ok_governor items_ok_display
      items_ok_safety items_ok_ram items_ok_timings items_ok_latencies items_ok_cpu items_ok_gpu items_ok_gpu_table)
section \<open>Properties\<close>

text \<open>
  C39. In every menu, on every console and with every configuration, the loop that fills the list of choices of
  a button ends: the list has the named values, or the values from the smallest to the largest in steps, after
  the entry for the default where there is one.
\<close>

theorem menu_lists_end:
  assumes "Button k name r c th ls nvs d kip \<in> set (listUI e values m)"
  shows "choice_values r nvs d = Some ((if d then [0] else []) @ (if nvs = [] then range_list r else map nv_value nvs))"
proof (cases "nvs = []")
  case True
  have "item_ok (Button k name r c th ls nvs d kip)"
    using items_ok [of e "values" m] assms by (simp add: list_all_iff)
  then have "range_ends r" using True by (simp add: item_ok_def)
  then show ?thesis using True by (simp add: choice_values_range)
qed (simp add: choice_values_def)

theorem menu_lists_end_witness:
  "choice_values (VR 50 1000 50 ''ms'' 1) [] False = Some (range_list (VR 50 1000 50 ''ms'' 1))"
proof -
  have b: "Button (Hoc HocClkConfigValue_PollingIntervalMs) (Some ''Polling Interval'') (VR 50 1000 50 ''ms'' 1) ''Polling Interval''
      thresholdsDisabled [] [] False False \<in> set (listUI e values GeneralSettings)" for e "values"
    by (simp add: General_listUI_def addRangeButton_def)
  then show ?thesis using menu_lists_end [OF b] by simp
qed



end
