(* ===== verification/Overlay_Safety.thy ===== *)
theory Overlay_Safety
  imports Overlay_Choices
begin

text \<open>
  The menus of the overlay and the check of the settings in the loader: a setting of the loader's image is
  taken over into the field of the loader's block that has its name, and no choice stops the boot.
\<close>

section \<open>The settings of the loader\<close>

text \<open>
  The field of the block with the name of the setting, as \<open>CUST_WRITE_FIELD_BATCH\<close> in
  \<open>sysmodule/src/file/kip.cpp\<close> pairs them.
\<close>

definition index_of :: "'a list \<Rightarrow> 'a \<Rightarrow> nat" where
  "index_of xs x = length (takeWhile (\<lambda>y. y \<noteq> x) xs)"

fun set_loader :: "HocClkConfigValue \<Rightarrow> u32 \<Rightarrow> customize \<Rightarrow> customize" where
  "set_loader (Kip KipConfigValue_hpMode) v C = C\<lparr>hpMode := v\<rparr>"
| "set_loader (Kip KipConfigValue_commonEmcMemVolt) v C = C\<lparr>commonEmcMemVolt := v\<rparr>"
| "set_loader (Kip KipConfigValue_eristaEmcMaxClock) v C = C\<lparr>eristaEmcMaxClock := v\<rparr>"
| "set_loader (Kip KipConfigValue_marikoEmcMaxClock) v C = C\<lparr>marikoEmcMaxClock := v\<rparr>"
| "set_loader (Kip KipConfigValue_marikoEmcVddqVolt) v C = C\<lparr>marikoEmcVddqVolt := v\<rparr>"
| "set_loader (Kip KipConfigValue_emcDvbShift) v C = C\<lparr>emcDvbShift := v\<rparr>"
| "set_loader (Kip KipConfigValue_marikoSocVmax) v C = C\<lparr>marikoSocVmax := v\<rparr>"
| "set_loader (Kip KipConfigValue_t1_tRCD) v C = C\<lparr>t1_tRCD := v\<rparr>"
| "set_loader (Kip KipConfigValue_t2_tRP) v C = C\<lparr>t2_tRP := v\<rparr>"
| "set_loader (Kip KipConfigValue_t3_tRAS) v C = C\<lparr>t3_tRAS := v\<rparr>"
| "set_loader (Kip KipConfigValue_t4_tRRD) v C = C\<lparr>t4_tRRD := v\<rparr>"
| "set_loader (Kip KipConfigValue_t5_tRFC) v C = C\<lparr>t5_tRFC := v\<rparr>"
| "set_loader (Kip KipConfigValue_t6_tRTW) v C = C\<lparr>t6_tRTW := v\<rparr>"
| "set_loader (Kip KipConfigValue_t7_tWTR) v C = C\<lparr>t7_tWTR := v\<rparr>"
| "set_loader (Kip KipConfigValue_t8_tREFI) v C = C\<lparr>t8_tREFI := v\<rparr>"
| "set_loader (Kip KipConfigValue_stepMode) v C = C\<lparr>stepMode := v\<rparr>"
| "set_loader (Kip KipConfigValue_timingEmcTbreak) v C = C\<lparr>timingEmcTbreak := v\<rparr>"
| "set_loader (Kip KipConfigValue_low_t6_tRTW) v C = C\<lparr>low_t6_tRTW := v\<rparr>"
| "set_loader (Kip KipConfigValue_low_t7_tWTR) v C = C\<lparr>low_t7_tWTR := v\<rparr>"
| "set_loader (Kip KipConfigValue_t2_tRP_cap) v C = C\<lparr>t2_tRP_cap := v\<rparr>"
| "set_loader (Kip KipConfigValue_read_latency_1333) v C = C\<lparr>readLatency := (readLatency C)[0 := v]\<rparr>"
| "set_loader (Kip KipConfigValue_read_latency_1600) v C = C\<lparr>readLatency := (readLatency C)[1 := v]\<rparr>"
| "set_loader (Kip KipConfigValue_read_latency_1866) v C = C\<lparr>readLatency := (readLatency C)[2 := v]\<rparr>"
| "set_loader (Kip KipConfigValue_read_latency_2133) v C = C\<lparr>readLatency := (readLatency C)[3 := v]\<rparr>"
| "set_loader (Kip KipConfigValue_write_latency_1333) v C = C\<lparr>writeLatency := (writeLatency C)[0 := v]\<rparr>"
| "set_loader (Kip KipConfigValue_write_latency_1600) v C = C\<lparr>writeLatency := (writeLatency C)[1 := v]\<rparr>"
| "set_loader (Kip KipConfigValue_write_latency_1866) v C = C\<lparr>writeLatency := (writeLatency C)[2 := v]\<rparr>"
| "set_loader (Kip KipConfigValue_write_latency_2133) v C = C\<lparr>writeLatency := (writeLatency C)[3 := v]\<rparr>"
| "set_loader (Kip KipConfigValue_eristaCpuUV) v C = C\<lparr>eristaCpuUV := v\<rparr>"
| "set_loader (Kip KipConfigValue_eristaCpuVmin) v C = C\<lparr>eristaCpuVmin := v\<rparr>"
| "set_loader (Kip KipConfigValue_eristaCpuMaxVolt) v C = C\<lparr>eristaCpuMaxVolt := v\<rparr>"
| "set_loader (Kip KipConfigValue_eristaCpuUnlock) v C = C\<lparr>eristaCpuUnlock := v\<rparr>"
| "set_loader (Kip KipConfigValue_marikoCpuUVLow) v C = C\<lparr>marikoCpuUVLow := v\<rparr>"
| "set_loader (Kip KipConfigValue_marikoCpuUVHigh) v C = C\<lparr>marikoCpuUVHigh := v\<rparr>"
| "set_loader (Kip KipConfigValue_tableConf) v C = C\<lparr>tableConf := v\<rparr>"
| "set_loader (Kip KipConfigValue_marikoCpuLowVmin) v C = C\<lparr>marikoCpuLowVmin := v\<rparr>"
| "set_loader (Kip KipConfigValue_marikoCpuHighVmin) v C = C\<lparr>marikoCpuHighVmin := v\<rparr>"
| "set_loader (Kip KipConfigValue_marikoCpuMaxVolt) v C = C\<lparr>marikoCpuMaxVolt := v\<rparr>"
| "set_loader (Kip KipConfigValue_marikoCpuMaxClock) v C = C\<lparr>marikoCpuMaxClock := v\<rparr>"
| "set_loader (Kip KipConfigValue_eristaCpuBoostClock) v C = C\<lparr>eristaCpuBoostClock := v\<rparr>"
| "set_loader (Kip KipConfigValue_marikoCpuBoostClock) v C = C\<lparr>marikoCpuBoostClock := v\<rparr>"
| "set_loader (Kip KipConfigValue_eristaGpuUV) v C = C\<lparr>eristaGpuUV := v\<rparr>"
| "set_loader (Kip KipConfigValue_eristaGpuVmin) v C = C\<lparr>eristaGpuVmin := v\<rparr>"
| "set_loader (Kip KipConfigValue_marikoGpuUV) v C = C\<lparr>marikoGpuUV := v\<rparr>"
| "set_loader (Kip KipConfigValue_marikoGpuVmin) v C = C\<lparr>marikoGpuVmin := v\<rparr>"
| "set_loader (Kip KipConfigValue_marikoGpuVmax) v C = C\<lparr>marikoGpuVmax := v\<rparr>"
| "set_loader (Kip KipConfigValue_commonGpuVoltOffset) v C = C\<lparr>commonGpuVoltOffset := v\<rparr>"
| "set_loader (Kip KipConfigValue_t6_tRTW_fine_tune) v C = C\<lparr>fineTune_t6_tRTW := v\<rparr>"
| "set_loader (Kip KipConfigValue_t7_tWTR_fine_tune) v C = C\<lparr>fineTune_t7_tWTR := v\<rparr>"
| "set_loader (EristaGpuVolt g) v C = C\<lparr>eristaGpuVoltArray := (eristaGpuVoltArray C)[index_of all_erista_gpu_volts g := v]\<rparr>"
| "set_loader (MarikoGpuVolt g) v C = C\<lparr>marikoGpuVoltArray := (marikoGpuVoltArray C)[index_of all_mariko_gpu_volts g := v]\<rparr>"
| "set_loader _ v C = C"

section \<open>The limits of the check\<close>

fun within_limits :: "HocClkConfigValue \<Rightarrow> u32 \<Rightarrow> bool" where
  "within_limits (Kip KipConfigValue_eristaCpuBoostClock) v = (1020000 \<le> v \<and> v \<le> 2397000)"
| "within_limits (Kip KipConfigValue_marikoCpuBoostClock) v = (1020000 \<le> v \<and> v \<le> 2703000)"
| "within_limits (Kip KipConfigValue_eristaCpuMaxVolt) v = in_range 1000 1260 v"
| "within_limits (Kip KipConfigValue_marikoCpuMaxVolt) v = in_range 1000 1200 v"
| "within_limits (Kip KipConfigValue_commonEmcMemVolt) v = in_range 912500 1350000 v"
| "within_limits (Kip KipConfigValue_eristaEmcMaxClock) v = (1600000 \<le> v \<and> v \<le> 2600000)"
| "within_limits (Kip KipConfigValue_marikoEmcMaxClock) v = in_range 1600000 3500000 v"
| "within_limits (Kip KipConfigValue_marikoEmcVddqVolt) v = in_range 400000 750000 v"
| "within_limits (Kip KipConfigValue_marikoSocVmax) v = in_range 1000 1200 v"
| "within_limits (Kip KipConfigValue_marikoGpuVmax) v = in_range 800 960 v"
| "within_limits _ v = True"

definition within :: "customize \<Rightarrow> bool" where
  "within C \<longleftrightarrow>
     within_limits (Kip KipConfigValue_eristaCpuBoostClock) (eristaCpuBoostClock C) \<and>
     within_limits (Kip KipConfigValue_marikoCpuBoostClock) (marikoCpuBoostClock C) \<and>
     within_limits (Kip KipConfigValue_eristaCpuMaxVolt) (eristaCpuMaxVolt C) \<and>
     within_limits (Kip KipConfigValue_marikoCpuMaxVolt) (marikoCpuMaxVolt C) \<and>
     within_limits (Kip KipConfigValue_commonEmcMemVolt) (commonEmcMemVolt C) \<and>
     within_limits (Kip KipConfigValue_eristaEmcMaxClock) (eristaEmcMaxClock C) \<and>
     within_limits (Kip KipConfigValue_marikoEmcMaxClock) (marikoEmcMaxClock C) \<and>
     within_limits (Kip KipConfigValue_marikoEmcVddqVolt) (marikoEmcVddqVolt C) \<and>
     within_limits (Kip KipConfigValue_marikoSocVmax) (marikoSocVmax C) \<and>
     within_limits (Kip KipConfigValue_marikoGpuVmax) (marikoGpuVmax C) \<and>
     eristaEmcMaxClock1 C = 1600000 \<and> eristaEmcMaxClock2 C = 1600000"

definition loader_tables :: "customize \<Rightarrow> bool" where
  "loader_tables C \<longleftrightarrow>
     eristaCpuDvfsTable C = eristaCpuDvfsTable_default \<and> marikoCpuDvfsTable C = marikoCpuDvfsTable_default \<and>
     marikoCpuDvfsTableSLT C = marikoCpuDvfsTableSLT_default \<and>
     eristaGpuDvfsTable C = eristaGpuDvfsTable_default \<and> eristaGpuDvfsTableSLT C = eristaGpuDvfsTableSLT_default \<and>
     eristaGpuDvfsTableHiOPT C = eristaGpuDvfsTableHiOPT_default \<and>
     marikoGpuDvfsTable C = marikoGpuDvfsTable_default \<and> marikoGpuDvfsTableSLT C = marikoGpuDvfsTableSLT_default \<and>
     marikoGpuDvfsTableHiOPT C = marikoGpuDvfsTableHiOPT_default"

lemma last_freq_last:
  assumes "list_all (\<lambda>e. cvb_freq e \<noteq> 0) t" "t \<noteq> []" "length t \<le> 31"
  shows "last_freq t = ucast (cvb_freq (last t))"
proof -
  have "\<not> is_empty_entry e" if "cvb_freq e \<noteq> 0" for e
  proof
    assume "is_empty_entry e"
    then have w: "ucast (cvb_freq e) = (0 :: u32)" "ucast (drop_bit 32 (cvb_freq e)) = (0 :: u32)"
      by (simp_all add: is_empty_entry_def cvb_words_def)
    have "bit (cvb_freq e) n = False" for n
    proof (cases "n < 32")
      case True
      have "bit (ucast (cvb_freq e) :: u32) n = False" by (simp only: w(1)) simp
      then show ?thesis using True by (simp add: bit_ucast_iff)
    next
      case False
      then show ?thesis
      proof (cases "n < 64")
        case True
        have "bit (ucast (drop_bit 32 (cvb_freq e)) :: u32) (n - 32) = False" by (simp only: w(2)) simp
        then show ?thesis using False True by (simp add: bit_ucast_iff bit_drop_bit_eq)
      qed (simp add: bit_word.rep_eq bit_take_bit_iff)
    qed
    then show False using that by (simp add: bit_eq_iff)
  qed
  then have "takeWhile (\<lambda>e. \<not> is_empty_entry e) t = t" using assms(1) by (simp add: takeWhile_eq_all_conv list_all_iff)
  then have "GetDvfsTableEntryCount t = length t"
    by (simp only: GetDvfsTableEntryCount_def DvfsTableEntryLimit_def take_all [OF assms(3)])
  then show ?thesis using assms(2) by (simp add: last_freq_def GetDvfsTableLastEntry_def last_conv_nth)
qed

lemma cvb_freq_cvb [simp]: "cvb_freq (cvb f d p) = of_nat f"
  by (simp add: cvb_def)

lemma table_limits:
  "in_range 1785000 2397000 (last_freq eristaCpuDvfsTable_default)"
  "in_range 1785000 2703000 (last_freq marikoCpuDvfsTable_default)"
  "in_range 1785000 2703000 (last_freq marikoCpuDvfsTableSLT_default)"
  "in_range 768000 1152000 (last_freq eristaGpuDvfsTable_default)"
  "in_range 768000 1152000 (last_freq eristaGpuDvfsTableSLT_default)"
  "in_range 768000 1152000 (last_freq eristaGpuDvfsTableHiOPT_default)"
  "in_range 768000 1536000 (last_freq marikoGpuDvfsTable_default)"
  "in_range 768000 1536000 (last_freq marikoGpuDvfsTableSLT_default)"
  "in_range 768000 1536000 (last_freq marikoGpuDvfsTableHiOPT_default)"
  by (subst last_freq_last; simp add: in_range_def eristaCpuDvfsTable_default_def marikoCpuDvfsTable_default_def
      marikoCpuDvfsTableSLT_default_def eristaGpuDvfsTable_default_def eristaGpuDvfsTableSLT_default_def
      eristaGpuDvfsTableHiOPT_default_def marikoGpuDvfsTable_default_def marikoGpuDvfsTableSLT_default_def
      marikoGpuDvfsTableHiOPT_default_def)+

lemma within_passes: "within C \<Longrightarrow> loader_tables C \<Longrightarrow> SafetyCheck C = None"
  unfolding safety_check_limits
  by (simp add: within_def loader_tables_def table_limits gpu_customize_table_def) (auto simp: in_range_def)

lemma within_default: "within C_default" "loader_tables C_default"
  by (simp_all add: within_def loader_tables_def C_default_def in_range_def)

lemma within_set_loader:
  assumes "within C" "within_limits k v"
  shows "within (set_loader k v C)"
proof (cases k)
  case (Kip f)
  then show ?thesis using assms by (cases f) (simp_all add: within_def)
qed (use assms in \<open>simp_all add: within_def\<close>)

lemma loader_tables_set_loader: "loader_tables (set_loader k v C) = loader_tables C"
proof (cases k)
  case (Kip f)
  then show ?thesis by (cases f) (simp_all add: loader_tables_def)
qed (simp_all add: loader_tables_def)

section \<open>The choices stay within the limits\<close>

definition item_safe :: "menu_item \<Rightarrow> bool" where
  "item_safe it \<longleftrightarrow> (case offered it of Some (k, vs) \<Rightarrow> \<forall>v \<in> set vs. within_limits k (ucast v) | None \<Rightarrow> True)"

lemma ucast_widen [simp]: "ucast (ucast (w :: u32) :: u64) = w"
  by (rule bit_word_eqI) (simp add: bit_ucast_iff)

lemma within_limits_hoc [simp]: "within_limits (Hoc h) v" "within_limits (MarikoGpuVolt a) v" "within_limits (EristaGpuVolt b) v"
  by simp_all

text \<open>The settings the check looks at.\<close>

definition checked_keys :: "kip_value set" where
  "checked_keys = {KipConfigValue_eristaCpuBoostClock, KipConfigValue_marikoCpuBoostClock, KipConfigValue_eristaCpuMaxVolt,
     KipConfigValue_marikoCpuMaxVolt, KipConfigValue_commonEmcMemVolt, KipConfigValue_eristaEmcMaxClock,
     KipConfigValue_marikoEmcMaxClock, KipConfigValue_marikoEmcVddqVolt, KipConfigValue_marikoSocVmax,
     KipConfigValue_marikoGpuVmax}"

lemma within_limits_unchecked: "k \<notin> checked_keys \<Longrightarrow> within_limits (Kip k) v"
  by (cases k) (simp_all add: checked_keys_def)

lemma item_safe_plain [simp]: "item_safe (Header h)" "item_safe (SubMenu h m)" "item_safe (LatencyRow h i b)"
  "item_safe (Toggle (Hoc q) n b)" "item_safe (Button (Hoc q) n r c th ls nvs d b)"
  "item_safe (Button (MarikoGpuVolt mg) n r c th ls nvs d b)" "item_safe (Button (EristaGpuVolt eg) n r c th ls nvs d b)"
  by (auto simp: item_safe_def split: option.split)

lemma item_safe_unchecked: "k \<notin> checked_keys \<Longrightarrow> item_safe (Toggle (Kip k) n b)"
  "k \<notin> checked_keys \<Longrightarrow> item_safe (Trackbar (Kip k) n r b)" "k \<notin> checked_keys \<Longrightarrow> item_safe (MappedTrackbar (Kip k) n vs ll b)"
  "k \<notin> checked_keys \<Longrightarrow> item_safe (Button (Kip k) n r c th ls nvs d b)"
  by (auto simp: item_safe_def within_limits_unchecked simp del: within_limits.simps split: option.split)

lemma item_safe_named:
  "nvs \<noteq> [] \<Longrightarrow> item_safe (Button (Kip k) n r c th ls nvs False b) \<longleftrightarrow>
     list_all (\<lambda>nv. within_limits (Kip k) (nv_value nv)) nvs"
  by (auto simp: item_safe_def choice_values_def list_all_iff simp del: within_limits.simps)

lemma item_safe_range:
  assumes "range_ends r" "\<And>v. rmin r \<le> v \<Longrightarrow> v \<le> rmax r \<Longrightarrow> within_limits (Kip k) v"
  shows "item_safe (Button (Kip k) n r c th ls [] False b)"
  using assms range_list_bounds [of _ r] by (auto simp: item_safe_def choice_values_range simp del: within_limits.simps)

lemma checked_keys_simps: "k \<notin> checked_keys \<longleftrightarrow> k \<notin> {KipConfigValue_eristaCpuBoostClock, KipConfigValue_marikoCpuBoostClock, KipConfigValue_eristaCpuMaxVolt,
     KipConfigValue_marikoCpuMaxVolt, KipConfigValue_commonEmcMemVolt, KipConfigValue_eristaEmcMaxClock,
     KipConfigValue_marikoEmcMaxClock, KipConfigValue_marikoEmcVddqVolt, KipConfigValue_marikoSocVmax,
     KipConfigValue_marikoGpuVmax}"
  by (simp add: checked_keys_def)

lemma relabel_value [simp]: "nv_value (relabel u nv) = nv_value nv"
  by (simp add: relabel_def)

lemma range_ends_decimal [simp]: "range_ends (r\<lparr>decimalPlaces := p\<rparr>) = range_ends r"
  by (simp add: range_ends_def)

lemma items_safe_ram: "list_all item_safe (Ram_listUI e values)"
proof -
  have soc: "item_safe (Button (Kip KipConfigValue_marikoSocVmax) n r c th ls (marikovmaxconf x) False b)" for n r c th ls x b
    by (simp add: item_safe_named marikovmaxconf_def in_range_def)
  have e: "item_safe (Button (Kip KipConfigValue_eristaEmcMaxClock) n r c th ls (map (relabel u) emcMaxClock_erista) False b)"
    for n r c th ls u b by (simp add: item_safe_named emcMaxClock_erista_def)
  have m: "item_safe (Button (Kip KipConfigValue_marikoEmcMaxClock) n r c th ls (map (relabel u) emcMaxClock_mariko) False b)"
    for n r c th ls u b by (simp add: item_safe_named emcMaxClock_mariko_def in_range_def)
  have v: "item_safe (Button (Kip KipConfigValue_commonEmcMemVolt) n ((VR 912500 1350000 12500 sf d)\<lparr>decimalPlaces := p\<rparr>) c th ls [] False b)"
    "item_safe (Button (Kip KipConfigValue_marikoEmcVddqVolt) n (VR 400000 750000 5000 sf d) c th ls [] False b)" for n sf d c th ls p b
    by (rule item_safe_range; simp add: in_range_def)+
  show ?thesis
    by (simp add: Ram_listUI_def Let_def button_defs soc e m v item_safe_unchecked checked_keys_simps split: option.split)
qed

lemma items_safe_timings: "list_all item_safe (RamTimings_listUI e values)"
  by (simp add: RamTimings_listUI_def button_defs item_safe_unchecked checked_keys_simps)

lemma items_safe_cpu: "list_all item_safe (Cpu_listUI e values)"
proof -
  have b: "item_safe (Button (Kip KipConfigValue_eristaCpuBoostClock) n r c th ls ClkOptionsE False f)"
    "item_safe (Button (Kip KipConfigValue_marikoCpuBoostClock) n r c th ls marikoCpuClkOptions False f)" for n r c th ls f
    by (simp_all add: item_safe_named ClkOptionsE_def marikoCpuClkOptions_def)
  have v: "item_safe (Button (Kip KipConfigValue_marikoCpuMaxVolt) n (VR 1000 1200 5 sf d) c th ls [] False f)"
    "item_safe (Button (Kip KipConfigValue_eristaCpuMaxVolt) n (VR 1120 1260 5 sf d) c th ls [] False f)" for n sf d c th ls f
  proof -
    have "1120 \<le> v \<Longrightarrow> 1000 \<le> v" for v :: u32 by (erule order.trans [rotated]) simp
    then show "item_safe (Button (Kip KipConfigValue_marikoCpuMaxVolt) n (VR 1000 1200 5 sf d) c th ls [] False f)"
      "item_safe (Button (Kip KipConfigValue_eristaCpuMaxVolt) n (VR 1120 1260 5 sf d) c th ls [] False f)"
      by (intro item_safe_range; simp add: in_range_def)+
  qed
  show ?thesis by (simp add: Cpu_listUI_def Let_def button_defs b v item_safe_unchecked checked_keys_simps)
qed

lemma items_safe_gpu: "list_all item_safe (Gpu_listUI e)"
proof -
  have v: "item_safe (Button (Kip KipConfigValue_marikoGpuVmax) n (VR 800 960 5 sf d) c th ls [] False f)" for n sf d c th ls f
    by (rule item_safe_range; simp add: in_range_def)
  show ?thesis by (simp add: Gpu_listUI_def button_defs v item_safe_unchecked checked_keys_simps)
qed

lemma items_safe: "list_all item_safe (listUI e values m)"
proof (cases m)
  case GpuCustomTable
  then show ?thesis
    by (simp add: GpuCustomTable_listUI_def Let_def volt_button_def)
next
  case RamLatencies
  then show ?thesis by (auto simp: RamLatencies_listUI_def list_all_iff)
next
  case ExperimentalSettings
  then show ?thesis by (simp add: Experimental_listUI_def button_defs)
next
  case DisplaySettings
  then show ?thesis by (simp add: Display_listUI_def button_defs split: option.split)
qed (simp_all add: items_safe_ram items_safe_timings items_safe_cpu items_safe_gpu MiscGui_listUI_def General_listUI_def
    Governor_listUI_def Safety_listUI_def button_defs)

section \<open>No choice stops the boot\<close>

text \<open>
  The settings of the loader that can be reached from those it is built with by choices in the menus, on any
  console and whatever the other settings are.
\<close>

inductive menu_settings :: "customize \<Rightarrow> bool" where
  built: "menu_settings C_default"
| chosen: "menu_settings C \<Longrightarrow> it \<in> set (listUI e values m) \<Longrightarrow> offered it = Some (k, vs) \<Longrightarrow> v \<in> set vs \<Longrightarrow>
    menu_settings (set_loader k (ucast v) C)"

lemma menu_settings_within: "menu_settings C \<Longrightarrow> within C \<and> loader_tables C"
proof (induction rule: menu_settings.induct)
  case (chosen C it e "values" m k vs v)
  have "item_safe it" using items_safe [of e "values" m] chosen.hyps(2) by (simp add: list_all_iff)
  then have "within_limits k (ucast v)" using chosen.hyps(3,4) by (simp add: item_safe_def)
  then show ?case using chosen.IH within_set_loader loader_tables_set_loader by simp
qed (simp add: within_default)



end
